(* ===== verification/Rust_Prelude.thy ===== *)
theory Rust_Prelude
  imports "HOL-Library.Word" "HOL-Library.AList"
begin

text \<open>
  Shared vocabulary of the development: the machine integer types, results with errors and
  panics, a state-and-result monad in which the handlers are written, and the parts of Rust's
  standard library that the modelled code uses (hash maps, slices, strings, number
  formatting), with the lemma collections the component theories rely on.

  Integers. \<open>u8\<close>, \<open>u16\<close>, \<open>u32\<close>, \<open>u64\<close> are words of that width.  An \<open>i64\<close> is an \<open>int\<close> in the
  signed range; arithmetic on it goes through \<open>wrap_i64\<close>.  Unchecked arithmetic wraps, as it
  does in the release build.
\<close>

named_theorems res_simps \<open>evaluation of results and of the state-and-result monad\<close>
named_theorems hashmap \<open>reading a hash map after an update\<close>
named_theorems str_simps \<open>evaluation of the string functions\<close>

type_synonym u8 = "8 word"
type_synonym u16 = "16 word"
type_synonym u32 = "32 word"
type_synonym u64 = "64 word"
type_synonym i64 = int

section \<open>Integers\<close>

definition wrap_i64 :: "int \<Rightarrow> i64" where
  "wrap_i64 x = signed_take_bit 63 x"

definition as_u32 :: "i64 \<Rightarrow> u32" where
  "as_u32 x = word_of_int x"

definition as_u64 :: "i64 \<Rightarrow> u64" where
  "as_u64 x = word_of_int x"

definition i64_max :: i64 where
  "i64_max = 2 ^ 63 - 1"

definition saturating_sub_u64 :: "u64 \<Rightarrow> u64 \<Rightarrow> u64" where
  "saturating_sub_u64 a b = (if a < b then 0 else a - b)"

definition saturating_add_u64 :: "u64 \<Rightarrow> u64 \<Rightarrow> u64" where
  "saturating_add_u64 a b = (if unat a + unat b < 2 ^ 64 then a + b else - 1)"

lemma unat_saturating_sub: "unat (saturating_sub_u64 a b) = unat a - unat b"
proof (cases "a < b")
  case True
  then have "unat a < unat b" by (simp add: word_less_nat_alt)
  with True show ?thesis by (simp add: saturating_sub_u64_def)
next
  case False
  then have "b \<le> a" by simp
  then show ?thesis by (simp add: saturating_sub_u64_def unat_sub)
qed

lemma unat_saturating_add: "unat (saturating_add_u64 a b) = min (unat a + unat b) (2 ^ 64 - 1)"
proof (cases "unat a + unat b < 2 ^ 64")
  case True
  then have "unat (a + b) = unat a + unat b" by (simp add: unat_word_ariths)
  with True show ?thesis by (simp add: saturating_add_u64_def)
next
  case False
  moreover have "unat (- 1 :: u64) = 2 ^ 64 - 1"
    by (simp add: unsigned_minus_1_eq_mask mask_eq_exp_minus_1)
  ultimately show ?thesis by (simp add: saturating_add_u64_def)
qed

lemma saturating_sub_le: "saturating_sub_u64 a b \<le> a"
  by (simp add: word_le_nat_alt unat_saturating_sub)

lemma saturating_add_ge: "a \<le> saturating_add_u64 a b"
proof -
  have "unat a < 2 ^ 64" using unsigned_less [of a] by simp
  then show ?thesis by (simp add: word_le_nat_alt unat_saturating_add)
qed

section \<open>Results\<close>

text \<open>
  \<open>Ok\<close> and \<open>Err\<close> are the constructors of Rust's \<open>Result\<close>; \<open>Panic\<close> is an unwinding panic
  (an \<open>unwrap\<close> of nothing, an index out of bounds, a remainder by zero).
\<close>

datatype ('e, 'a) res = Ok 'a | Err 'e | Panic

fun map_res :: "('a \<Rightarrow> 'b) \<Rightarrow> ('e, 'a) res \<Rightarrow> ('e, 'b) res" where
  "map_res f (Ok x) = Ok (f x)"
| "map_res f (Err e) = Err e"
| "map_res f Panic = Panic"

fun map_err :: "('e \<Rightarrow> 'd) \<Rightarrow> ('e, 'a) res \<Rightarrow> ('d, 'a) res" where
  "map_err f (Ok x) = Ok x"
| "map_err f (Err e) = Err (f e)"
| "map_err f Panic = Panic"

fun bind_res :: "('e, 'a) res \<Rightarrow> ('a \<Rightarrow> ('e, 'b) res) \<Rightarrow> ('e, 'b) res" where
  "bind_res (Ok x) f = f x"
| "bind_res (Err e) f = Err e"
| "bind_res Panic f = Panic"

fun ok_or :: "'a option \<Rightarrow> 'e \<Rightarrow> ('e, 'a) res" where
  "ok_or (Some x) e = Ok x"
| "ok_or None e = Err e"

fun unwrap :: "'a option \<Rightarrow> ('e, 'a) res" where
  "unwrap (Some x) = Ok x"
| "unwrap None = Panic"

fun is_ok :: "('e, 'a) res \<Rightarrow> bool" where
  "is_ok (Ok x) = True"
| "is_ok _ = False"

lemmas [res_simps] = map_res.simps map_err.simps bind_res.simps ok_or.simps unwrap.simps is_ok.simps

lemma bind_res_eq_Ok: "bind_res m f = Ok y \<longleftrightarrow> (\<exists>x. m = Ok x \<and> f x = Ok y)"
  by (cases m) auto

lemma bind_res_assoc: "bind_res (bind_res m f) g = bind_res m (\<lambda>x. bind_res (f x) g)"
  by (cases m) auto

lemma map_res_eq_Ok: "map_res f m = Ok y \<longleftrightarrow> (\<exists>x. m = Ok x \<and> y = f x)"
  by (cases m) auto

lemma ok_or_eq_Ok: "ok_or x e = Ok y \<longleftrightarrow> x = Some y"
  by (cases x) auto

section \<open>The state-and-result monad\<close>

text \<open>
  A method with \<open>&mut self\<close> that returns a \<open>Result\<close> is a function from the state to a result
  and the state it leaves; \<open>bindS\<close> is the sequencing with the \<open>?\<close> operator.
\<close>

type_synonym ('s, 'e, 'a) stm = "'s \<Rightarrow> ('e, 'a) res \<times> 's"

definition returnS :: "'a \<Rightarrow> ('s, 'e, 'a) stm" where
  "returnS x s = (Ok x, s)"

definition failS :: "'e \<Rightarrow> ('s, 'e, 'a) stm" where
  "failS e s = (Err e, s)"

definition panicS :: "('s, 'e, 'a) stm" where
  "panicS s = (Panic, s)"

definition liftS :: "('e, 'a) res \<Rightarrow> ('s, 'e, 'a) stm" where
  "liftS r s = (r, s)"

definition getS :: "('s \<Rightarrow> 'a) \<Rightarrow> ('s, 'e, 'a) stm" where
  "getS f s = (Ok (f s), s)"

definition modifyS :: "('s \<Rightarrow> 's) \<Rightarrow> ('s, 'e, unit) stm" where
  "modifyS f s = (Ok (), f s)"

fun bind_pair :: "('e, 'a) res \<times> 's \<Rightarrow> ('a \<Rightarrow> ('s, 'e, 'b) stm) \<Rightarrow> ('e, 'b) res \<times> 's" where
  "bind_pair (Ok x, s) f = f x s"
| "bind_pair (Err e, s) f = (Err e, s)"
| "bind_pair (Panic, s) f = (Panic, s)"

definition bindS :: "('s, 'e, 'a) stm \<Rightarrow> ('a \<Rightarrow> ('s, 'e, 'b) stm) \<Rightarrow> ('s, 'e, 'b) stm" where
  "bindS m f s = bind_pair (m s) f"

definition thenS :: "('s, 'e, 'a) stm \<Rightarrow> ('s, 'e, 'b) stm \<Rightarrow> ('s, 'e, 'b) stm" where
  "thenS m n = bindS m (\<lambda>_. n)"

fun forS :: "('x \<Rightarrow> ('s, 'e, 'a) stm) \<Rightarrow> 'x list \<Rightarrow> ('s, 'e, 'a list) stm" where
  "forS f [] = returnS []"
| "forS f (x # xs) = bindS (f x) (\<lambda>y. bindS (forS f xs) (\<lambda>ys. returnS (y # ys)))"

text \<open>\<open>log_errors!(e)\<close>: an error is logged and dropped, execution goes on.\<close>

definition log_errorsS :: "('s, 'e, 'a) stm \<Rightarrow> ('s, 'e, unit) stm" where
  "log_errorsS m s = (case m s of (Panic, s') \<Rightarrow> (Panic, s') | (_, s') \<Rightarrow> (Ok (), s'))"

text \<open>Running a method for its result, without the \<open>?\<close>; a panic still unwinds.\<close>

definition attemptS :: "('s, 'e, 'a) stm \<Rightarrow> ('s, 'd, ('e, 'a) res) stm" where
  "attemptS m s = (case m s of (Panic, s') \<Rightarrow> (Panic, s') | (r, s') \<Rightarrow> (Ok r, s'))"

lemmas [res_simps] =
  returnS_def failS_def panicS_def liftS_def getS_def modifyS_def bindS_def thenS_def bind_pair.simps

lemma bind_pair_Ok: "bind_pair p f = (Ok y, t) \<longleftrightarrow> (\<exists>x s. p = (Ok x, s) \<and> f x s = (Ok y, t))"
proof (cases p)
  case (Pair r s)
  then show ?thesis by (cases r) auto
qed

lemma bindS_Ok: "bindS m f s = (Ok y, t) \<longleftrightarrow> (\<exists>x s'. m s = (Ok x, s') \<and> f x s' = (Ok y, t))"
  by (simp add: bindS_def bind_pair_Ok)

lemma bindS_returnS [simp]: "bindS (returnS x) f = f x"
  by (simp add: fun_eq_iff bindS_def returnS_def)

lemma bindS_panicS [simp]: "bindS panicS f = panicS"
  by (simp add: fun_eq_iff bindS_def panicS_def)

lemma bind_pair_assoc: "bind_pair (bind_pair p f) g = bind_pair p (\<lambda>x s. bind_pair (f x s) g)"
proof (cases p)
  case (Pair r s)
  then show ?thesis by (cases r) simp_all
qed

lemma bindS_assoc: "bindS (bindS m f) g = bindS m (\<lambda>x. bindS (f x) g)"
  by (rule ext) (simp add: bindS_def [abs_def] bind_pair_assoc)

lemma forS_Ok_length: "forS f xs s = (Ok ys, t) \<Longrightarrow> length ys = length xs"
  by (induction xs arbitrary: s ys t) (auto simp: bindS_Ok returnS_def)

text \<open>An invariant that the body keeps, whatever its outcome, is kept by the loop.\<close>

lemma forS_inv:
  assumes "\<And>x s. x \<in> set xs \<Longrightarrow> I s \<Longrightarrow> I (snd (f x s))" and "I s"
  shows "I (snd (forS f xs s))"
  using assms
proof (induction xs arbitrary: s)
  case Nil
  then show ?case by (simp add: returnS_def)
next
  case (Cons x xs)
  obtain r s' where fx: "f x s = (r, s')" by (cases "f x s")
  with Cons.prems have s': "I s'" by (metis list.set_intros(1) snd_conv)
  show ?case
  proof (cases r)
    case (Ok y)
    have "I (snd (forS f xs s'))" using Cons.prems s' by (intro Cons.IH) auto
    moreover obtain r' t where "forS f xs s' = (r', t)" by (cases "forS f xs s'")
    ultimately show ?thesis by (cases r') (auto simp: fx Ok res_simps)
  qed (auto simp: fx s' res_simps)
qed

section \<open>Hash maps\<close>

text \<open>
  A \<open>HashMap\<close> is an association list with distinct keys.  Its iteration order is unspecified in
  Rust; the list's order stands for it and no theorem depends on it.
\<close>

type_synonym ('k, 'v) hashmap = "('k \<times> 'v) list"

definition hm_get :: "('k, 'v) hashmap \<Rightarrow> 'k \<Rightarrow> 'v option" where
  "hm_get m k = map_of m k"

definition hm_insert :: "'k \<Rightarrow> 'v \<Rightarrow> ('k, 'v) hashmap \<Rightarrow> ('k, 'v) hashmap" where
  "hm_insert k v m = AList.update k v m"

definition hm_remove :: "'k \<Rightarrow> ('k, 'v) hashmap \<Rightarrow> ('k, 'v) hashmap" where
  "hm_remove k m = AList.delete k m"

definition hm_contains :: "('k, 'v) hashmap \<Rightarrow> 'k \<Rightarrow> bool" where
  "hm_contains m k = (hm_get m k \<noteq> None)"

definition hm_retain :: "('k \<Rightarrow> 'v \<Rightarrow> bool) \<Rightarrow> ('k, 'v) hashmap \<Rightarrow> ('k, 'v) hashmap" where
  "hm_retain P m = filter (\<lambda>(k, v). P k v) m"

definition hm_keys :: "('k, 'v) hashmap \<Rightarrow> 'k set" where
  "hm_keys m = fst ` set m"

definition hm_wf :: "('k, 'v) hashmap \<Rightarrow> bool" where
  "hm_wf m = distinct (map fst m)"

lemma hm_get_Nil [hashmap]: "hm_get [] k = None"
  by (simp add: hm_get_def)

lemma hm_get_insert [hashmap]: "hm_get (hm_insert k v m) k' = (if k' = k then Some v else hm_get m k')"
  by (simp add: hm_get_def hm_insert_def update_conv')

lemma hm_get_remove [hashmap]: "hm_get (hm_remove k m) k' = (if k' = k then None else hm_get m k')"
  by (simp add: hm_get_def hm_remove_def delete_conv')

lemma hm_contains_keys: "hm_contains m k \<longleftrightarrow> k \<in> hm_keys m"
  by (auto simp: hm_contains_def hm_get_def hm_keys_def map_of_eq_None_iff)

lemma hm_wf_Nil [simp]: "hm_wf []"
  by (simp add: hm_wf_def)

lemma hm_wf_insert [simp]: "hm_wf m \<Longrightarrow> hm_wf (hm_insert k v m)"
  by (simp add: hm_wf_def hm_insert_def distinct_update)

lemma hm_wf_remove [simp]: "hm_wf m \<Longrightarrow> hm_wf (hm_remove k m)"
  by (simp add: hm_wf_def hm_remove_def distinct_delete)

lemma hm_wf_retain [simp]: "hm_wf m \<Longrightarrow> hm_wf (hm_retain P m)"
  by (simp add: hm_wf_def hm_retain_def distinct_map_filter)

lemma hm_keys_Nil [simp]: "hm_keys [] = {}"
  by (simp add: hm_keys_def)

lemma hm_keys_insert [simp]: "hm_keys (hm_insert k v m) = insert k (hm_keys m)"
  by (simp add: hm_keys_def hm_insert_def dom_update)

lemma hm_keys_remove [simp]: "hm_keys (hm_remove k m) = hm_keys m - {k}"
  by (simp add: hm_keys_def hm_remove_def flip: set_map) (auto simp: delete_keys)

lemma set_hm_insert: "set (hm_insert k v m) \<subseteq> insert (k, v) (set m)"
  unfolding hm_insert_def by (induction m) auto

lemma set_hm_remove: "set (hm_remove k m) \<subseteq> set m"
  by (auto simp: hm_remove_def AList.delete_eq)

lemma set_hm_retain: "set (hm_retain P m) = {(k, v) \<in> set m. P k v}"
  by (auto simp: hm_retain_def)

lemma hm_get_iff: "hm_wf m \<Longrightarrow> hm_get m k = Some v \<longleftrightarrow> (k, v) \<in> set m"
  by (simp add: hm_wf_def hm_get_def)

lemma hm_get_in_set: "hm_get m k = Some v \<Longrightarrow> (k, v) \<in> set m"
  by (simp add: hm_get_def map_of_SomeD)

lemma hm_get_keys: "hm_get m k = Some v \<Longrightarrow> k \<in> hm_keys m"
  by (force simp: hm_keys_def dest: hm_get_in_set)

lemma hm_get_None: "hm_get m k = None \<longleftrightarrow> k \<notin> hm_keys m"
  by (simp add: hm_get_def hm_keys_def map_of_eq_None_iff)

lemma hm_get_retain:
  "hm_wf m \<Longrightarrow> hm_get (hm_retain P m) k =
     (case hm_get m k of None \<Rightarrow> None | Some v \<Rightarrow> if P k v then Some v else None)"
proof (induction m)
  case Nil
  then show ?case by (simp add: hm_retain_def hm_get_def)
next
  case (Cons kv m)
  obtain k' v' where kv: "kv = (k', v')" by (cases kv)
  from Cons.prems have wf: "hm_wf m" and k': "k' \<notin> hm_keys m"
    by (auto simp: hm_wf_def hm_keys_def kv)
  have IH: "map_of (filter (\<lambda>(k, v). P k v) m) k =
    (case map_of m k of None \<Rightarrow> None | Some v \<Rightarrow> if P k v then Some v else None)"
    using Cons.IH [OF wf] by (simp add: hm_retain_def hm_get_def)
  show ?case
  proof (cases "k = k'")
    case True
    with k' have "map_of m k = None" by (simp add: hm_keys_def map_of_eq_None_iff)
    with IH True show ?thesis by (simp add: hm_retain_def hm_get_def kv)
  next
    case False
    with IH show ?thesis by (simp add: hm_retain_def hm_get_def kv)
  qed
qed

section \<open>Slices\<close>

text \<open>\<open>&v[a..b]\<close> panics unless \<open>a \<le> b\<close> and \<open>b\<close> is at most the length.\<close>

definition slice :: "'a list \<Rightarrow> nat \<Rightarrow> nat \<Rightarrow> ('e, 'a list) res" where
  "slice xs a b = (if a \<le> b \<and> b \<le> length xs then Ok (take (b - a) (drop a xs)) else Panic)"

definition index :: "'a list \<Rightarrow> nat \<Rightarrow> ('e, 'a) res" where
  "index xs i = (if i < length xs then Ok (xs ! i) else Panic)"

text \<open>
  \<open>Vec::partition_point\<close>, on a vector that is partitioned by the predicate (on any other the
  standard library leaves the result unspecified).
\<close>

definition partition_point_vec :: "('a \<Rightarrow> bool) \<Rightarrow> 'a list \<Rightarrow> nat" where
  "partition_point_vec P xs = length (takeWhile P xs)"

definition position :: "('a \<Rightarrow> bool) \<Rightarrow> 'a list \<Rightarrow> nat option" where
  "position P xs = (let n = length (takeWhile (\<lambda>x. \<not> P x) xs) in if n < length xs then Some n else None)"

lemma position_Some: "position P xs = Some i \<Longrightarrow> i < length xs \<and> P (xs ! i) \<and> (\<forall>j<i. \<not> P (xs ! j))"
  by (auto simp: position_def Let_def split: if_splits dest: nth_length_takeWhile)
     (metis nth_mem set_takeWhileD takeWhile_nth)

lemma partition_point_vec_le: "partition_point_vec P xs \<le> length xs"
  by (simp add: partition_point_vec_def length_takeWhile_le)

end
