(* ===== verification/Machines.thy ===== *)
theory Machines
  imports Rust_Prelude
begin

text \<open>
  The interfaces several components share.  \<open>invariant_machine\<close> is a component that reacts to
  one event at a time and keeps an invariant; \<open>started_machine\<close> adds the state it is created in.
  \<open>partition_search\<close> is the contract of a search for the boundary of a downward-closed
  predicate: the binary search of the memory reader and the library's search on vectors both
  provide it, and their clients use the facts proved here.
\<close>

definition run :: "('s \<Rightarrow> 'e \<Rightarrow> 's) \<Rightarrow> 's \<Rightarrow> 'e list \<Rightarrow> 's" where
  "run step s es = foldl step s es"

lemma run_Nil [simp]: "run step s [] = s"
  by (simp add: run_def)

lemma run_Cons [simp]: "run step s (e # es) = run step (step s e) es"
  by (simp add: run_def)

lemma run_append: "run step s (es @ fs) = run step (run step s es) fs"
  by (simp add: run_def)

lemma run_snoc: "run step s (es @ [e]) = step (run step s es) e"
  by (simp add: run_def)

locale invariant_machine =
  fixes step :: "'s \<Rightarrow> 'e \<Rightarrow> 's"
    and inv :: "'s \<Rightarrow> bool"
  assumes step_inv: "inv s \<Longrightarrow> inv (step s e)"
begin

lemma run_inv: "inv s \<Longrightarrow> inv (run step s es)"
  by (induction es arbitrary: s) (auto intro: step_inv)

lemma run_inv_between: "inv (run step s es) \<Longrightarrow> inv (run step s (es @ fs))"
  by (simp add: run_append run_inv)

end

locale started_machine = invariant_machine step inv
  for step :: "'s \<Rightarrow> 'e \<Rightarrow> 's" and inv :: "'s \<Rightarrow> bool" +
  fixes start :: 's
  assumes start_inv: "inv start"
begin

lemma reachable_inv: "inv (run step start es)"
  by (rule run_inv [OF start_inv])

end

text \<open>
  \<open>search P lo hi\<close> for a predicate that holds up to some point of \<open>[lo, hi)\<close> and not after it.
\<close>

definition partitioned :: "('i::linorder \<Rightarrow> bool) \<Rightarrow> 'i \<Rightarrow> 'i \<Rightarrow> bool" where
  "partitioned P lo hi = (\<forall>i j. lo \<le> i \<longrightarrow> i \<le> j \<longrightarrow> j < hi \<longrightarrow> P j \<longrightarrow> P i)"

locale partition_search =
  fixes search :: "('i::linorder \<Rightarrow> bool) \<Rightarrow> 'i \<Rightarrow> 'i \<Rightarrow> 'i"
    and bounds :: "'i \<Rightarrow> 'i \<Rightarrow> bool"
  assumes search_range: "bounds lo hi \<Longrightarrow> lo \<le> search P lo hi \<and> search P lo hi \<le> hi"
    and search_below:
      "bounds lo hi \<Longrightarrow> partitioned P lo hi \<Longrightarrow> lo \<le> i \<Longrightarrow> i < search P lo hi \<Longrightarrow> P i"
    and search_above:
      "bounds lo hi \<Longrightarrow> partitioned P lo hi \<Longrightarrow> search P lo hi \<le> i \<Longrightarrow> i < hi \<Longrightarrow> \<not> P i"
begin

lemma search_iff:
  "bounds lo hi \<Longrightarrow> partitioned P lo hi \<Longrightarrow> lo \<le> i \<Longrightarrow> i < hi \<Longrightarrow> P i \<longleftrightarrow> i < search P lo hi"
  using search_below search_above by (meson not_le_imp_less)

lemma search_unique:
  assumes "bounds lo hi" "partitioned P lo hi" "lo \<le> k" "k \<le> hi"
    and "\<And>i. lo \<le> i \<Longrightarrow> i < k \<Longrightarrow> P i" "\<And>i. k \<le> i \<Longrightarrow> i < hi \<Longrightarrow> \<not> P i"
  shows "search P lo hi = k"
proof (rule antisym)
  show "search P lo hi \<le> k"
    using assms search_below search_range by (meson le_less_linear less_le_trans order_refl)
  show "k \<le> search P lo hi"
    using assms search_above search_range by (meson le_less_linear less_le_trans order_refl)
qed

lemma search_all_false: "bounds lo hi \<Longrightarrow> lo \<le> hi \<Longrightarrow> (\<And>i. lo \<le> i \<Longrightarrow> i < hi \<Longrightarrow> \<not> P i) \<Longrightarrow> search P lo hi = lo"
  by (rule search_unique) (auto simp: partitioned_def)

lemma search_all_true: "bounds lo hi \<Longrightarrow> lo \<le> hi \<Longrightarrow> (\<And>i. lo \<le> i \<Longrightarrow> i < hi \<Longrightarrow> P i) \<Longrightarrow> search P lo hi = hi"
  by (rule search_unique) (auto simp: partitioned_def)

end

text \<open>The library's \<open>partition_point\<close> on the elements of a vector.\<close>

definition vec_search :: "'a list \<Rightarrow> (nat \<Rightarrow> bool) \<Rightarrow> nat \<Rightarrow> nat \<Rightarrow> nat" where
  "vec_search xs P lo hi = lo + length (takeWhile P [lo..<hi])"

lemma partition_point_vec_search:
  "partition_point_vec P xs = vec_search xs (\<lambda>i. P (xs ! i)) 0 (length xs)"
proof -
  have "takeWhile P xs = map ((!) xs) (takeWhile (\<lambda>i. P (xs ! i)) [0..<length xs])"
    by (metis (no_types, lifting) comp_apply map_nth takeWhile_cong takeWhile_map)
  then show ?thesis by (simp add: partition_point_vec_def vec_search_def)
qed

interpretation vec_pp: partition_search "vec_search xs" "\<lambda>lo hi. lo \<le> hi" for xs
proof (unfold_locales, goal_cases)
  case (1 lo hi P)
  then show ?case
    using length_takeWhile_le [of P "[lo..<hi]"] by (simp add: vec_search_def)
next
  case (2 lo hi P i)
  then have k: "i - lo < length (takeWhile P [lo..<hi])" by (simp add: vec_search_def)
  then have "P (takeWhile P [lo..<hi] ! (i - lo))" by (meson nth_mem set_takeWhileD)
  moreover have "takeWhile P [lo..<hi] ! (i - lo) = i"
    using k 2 length_takeWhile_le [of P "[lo..<hi]"] by (simp add: takeWhile_nth)
  ultimately show ?case by simp
next
  case (3 lo hi P i)
  let ?k = "length (takeWhile P [lo..<hi])"
  from 3 have k: "?k < length [lo..<hi]" by (simp add: vec_search_def)
  then have "\<not> P ([lo..<hi] ! ?k)" by (rule nth_length_takeWhile)
  with k have "\<not> P (lo + ?k)" by simp
  with 3 show ?case by (auto simp: vec_search_def partitioned_def)
qed

lemma partition_point_vec_iff:
  assumes "\<And>i j. i \<le> j \<Longrightarrow> j < length xs \<Longrightarrow> P (xs ! j) \<Longrightarrow> P (xs ! i)" and "i < length xs"
  shows "P (xs ! i) \<longleftrightarrow> i < partition_point_vec P xs"
  unfolding partition_point_vec_search
  by (rule vec_pp.search_iff) (use assms in \<open>auto simp: partitioned_def\<close>)

lemma partition_point_vec_unique:
  assumes "\<And>i. i < k \<Longrightarrow> P (xs ! i)" "\<And>i. k \<le> i \<Longrightarrow> i < length xs \<Longrightarrow> \<not> P (xs ! i)" "k \<le> length xs"
  shows "partition_point_vec P xs = k"
  unfolding partition_point_vec_search
proof (rule vec_pp.search_unique)
  show "partitioned (\<lambda>i. P (xs ! i)) 0 (length xs)"
    using assms(1,2) unfolding partitioned_def by (meson le_less_trans not_le_imp_less)
qed (use assms in auto)

end
