(* ===== verification/Rust_Strings.thy ===== *)
theory Rust_Strings
  imports Rust_Prelude
begin

text \<open>
  Rust strings.  A \<open>str\<close> is its UTF-8 bytes, a \<open>string\<close> of HOL, so offsets and lengths are the
  byte offsets and lengths the code computes with.  The functions are those of the standard
  library that the modelled code calls: \<open>starts_with\<close>, \<open>ends_with\<close>, \<open>rfind\<close>, \<open>split\<close>, \<open>trim\<close>,
  the \<open>Display\<close> and \<open>UpperHex\<close> formatting of integers, padding, and \<open>u64::from_str\<close>.
\<close>

definition starts_with :: "string \<Rightarrow> string \<Rightarrow> bool" where
  "starts_with s p = (take (length p) s = p)"

definition ends_with :: "string \<Rightarrow> string \<Rightarrow> bool" where
  "ends_with s p = (length p \<le> length s \<and> drop (length s - length p) s = p)"

definition rfind :: "char \<Rightarrow> string \<Rightarrow> nat option" where
  "rfind c s = map_option (\<lambda>i. length s - 1 - i) (position (\<lambda>x. x = c) (rev s))"

text \<open>\<open>s.split(c)\<close>: at least one part; an empty part before, between and after separators.\<close>

fun split_char :: "char \<Rightarrow> string \<Rightarrow> string list" where
  "split_char c [] = [[]]"
| "split_char c (x # xs) =
     (if x = c then [] # split_char c xs
      else (case split_char c xs of [] \<Rightarrow> [[x]] | p # ps \<Rightarrow> (x # p) # ps))"

text \<open>
  White space in the sense of Unicode's \<open>White_Space\<close>: the number of bytes of the white-space
  character a string starts with, 0 if it starts with none.
\<close>

definition ws_len :: "nat list \<Rightarrow> nat" where
  "ws_len bs = (case bs of
     [] \<Rightarrow> 0
   | b # r \<Rightarrow>
      if (9 \<le> b \<and> b \<le> 13) \<or> b = 32 then 1
      else (case r of
        [] \<Rightarrow> 0
      | c # r' \<Rightarrow>
         if b = 194 \<and> (c = 133 \<or> c = 160) then 2
         else (case r' of
           [] \<Rightarrow> 0
         | d # _ \<Rightarrow>
            if b = 225 \<and> c = 154 \<and> d = 128
               \<or> b = 226 \<and> c = 128 \<and> (128 \<le> d \<and> d \<le> 138 \<or> d = 168 \<or> d = 169 \<or> d = 175)
               \<or> b = 226 \<and> c = 129 \<and> d = 159
               \<or> b = 227 \<and> c = 128 \<and> d = 128
            then 3 else 0)))"

definition ws_prefix :: "string \<Rightarrow> nat" where
  "ws_prefix s = ws_len (map of_char (take 3 s))"

definition ws_suffix :: "string \<Rightarrow> nat" where
  "ws_suffix s =
     (let bs = map of_char s; n = length bs in
      if n \<ge> 1 \<and> ws_len (drop (n - 1) bs) = 1 then 1
      else if n \<ge> 2 \<and> ws_len (drop (n - 2) bs) = 2 then 2
      else if n \<ge> 3 \<and> ws_len (drop (n - 3) bs) = 3 then 3
      else 0)"

lemma ws_len_le: "ws_len bs \<le> length bs"
  by (simp add: ws_len_def split: list.split)

lemma ws_prefix_le: "ws_prefix s \<le> length s"
  using ws_len_le [of "map of_char (take 3 s)"] by (simp add: ws_prefix_def)

function trim_start :: "string \<Rightarrow> string" where
  "trim_start s = (let k = ws_prefix s in if k = 0 then s else trim_start (drop k s))"
  by pat_completeness auto
termination
proof (relation "measure length", simp, unfold in_measure)
  fix s :: string and k
  assume "k = ws_prefix s" "k \<noteq> 0"
  moreover from this have "s \<noteq> []" using ws_prefix_le [of s] by auto
  ultimately show "length (drop k s) < length s" by simp
qed

function trim_end :: "string \<Rightarrow> string" where
  "trim_end s = (let k = ws_suffix s in if k = 0 then s else trim_end (take (length s - k) s))"
  by pat_completeness auto
termination
proof (relation "measure length", simp, unfold in_measure)
  fix s :: string and k
  assume "k = ws_suffix s" "k \<noteq> 0"
  then have "s \<noteq> []" by (auto simp: ws_suffix_def Let_def)
  then show "length (take (length s - k) s) < length s" using \<open>k \<noteq> 0\<close> by simp
qed

declare trim_start.simps [simp del] trim_end.simps [simp del]

definition trim :: "string \<Rightarrow> string" where
  "trim s = trim_end (trim_start s)"

lemma trim_Nil [simp]: "trim [] = []"
  by (simp add: trim_def trim_start.simps [of "[]"] trim_end.simps [of "[]"]
        ws_prefix_def ws_suffix_def ws_len_def)

section \<open>Numbers as text\<close>

definition digit_char :: "nat \<Rightarrow> char" where
  "digit_char n = char_of (if n < 10 then 48 + n else 55 + n)"

definition is_digit :: "char \<Rightarrow> bool" where
  "is_digit c = (48 \<le> (of_char c :: nat) \<and> (of_char c :: nat) \<le> 57)"

definition digit_val :: "char \<Rightarrow> nat" where
  "digit_val c = (of_char c :: nat) - 48"

fun show_base :: "nat \<Rightarrow> nat \<Rightarrow> string" where
  "show_base b n =
     (if n < b \<or> b < 2 then [digit_char n] else show_base b (n div b) @ [digit_char (n mod b)])"

declare show_base.simps [simp del]

text \<open>\<open>{}\<close> and \<open>{:X}\<close> of an unsigned integer, \<open>{}\<close> of a signed one.\<close>

definition show_nat :: "nat \<Rightarrow> string" where
  "show_nat n = show_base 10 n"

definition show_hex :: "nat \<Rightarrow> string" where
  "show_hex n = show_base 16 n"

definition show_int :: "int \<Rightarrow> string" where
  "show_int i = (if i < 0 then CHR ''-'' # show_nat (nat (- i)) else show_nat (nat i))"

definition hex_ref :: "u64 \<Rightarrow> string" where
  "hex_ref a = ''0x'' @ show_hex (unat a)"

definition pad_right :: "nat \<Rightarrow> string \<Rightarrow> string" where
  "pad_right w s = s @ replicate (w - length s) CHR '' ''"

definition pad_zero :: "nat \<Rightarrow> string \<Rightarrow> string" where
  "pad_zero w s = replicate (w - length s) CHR ''0'' @ s"

text \<open>\<open>{:02X}\<close> of a byte.\<close>

definition show_byte :: "u8 \<Rightarrow> string" where
  "show_byte b = pad_zero 2 (show_hex (unat b))"

definition dec_value :: "string \<Rightarrow> nat" where
  "dec_value ds = foldl (\<lambda>acc c. acc * 10 + digit_val c) 0 ds"

text \<open>\<open>str::parse\<close> at an unsigned type with values below \<open>bound\<close>.\<close>

definition parse_unsigned :: "nat \<Rightarrow> string \<Rightarrow> nat option" where
  "parse_unsigned bound s =
     (let ds = (case s of c # r \<Rightarrow> if c = CHR ''+'' then r else s | [] \<Rightarrow> s) in
      if ds \<noteq> [] \<and> list_all is_digit ds \<and> dec_value ds < bound then Some (dec_value ds) else None)"

lemma digit_char_dec: "n < 10 \<Longrightarrow> is_digit (digit_char n) \<and> digit_val (digit_char n) = n"
  by (simp add: digit_char_def is_digit_def digit_val_def)

lemma show_base_nonempty: "show_base b n \<noteq> []"
  by (subst show_base.simps) simp

lemma show_nat_digits: "list_all is_digit (show_nat n)"
  unfolding show_nat_def
proof (induction n rule: less_induct)
  case (less n)
  show ?case
  proof (cases "n < 10")
    case True
    then show ?thesis by (subst show_base.simps) (simp add: digit_char_dec)
  next
    case False
    with less.IH [of "n div 10"] show ?thesis
      by (subst show_base.simps) (simp add: digit_char_dec)
  qed
qed

lemma dec_value_snoc: "dec_value (ds @ [c]) = dec_value ds * 10 + digit_val c"
  by (simp add: dec_value_def)

lemma dec_value_show: "dec_value (show_nat n) = n"
  unfolding show_nat_def
proof (induction n rule: less_induct)
  case (less n)
  show ?case
  proof (cases "n < 10")
    case True
    then show ?thesis by (subst show_base.simps) (simp add: dec_value_def digit_char_dec)
  next
    case False
    with less.IH [of "n div 10"] show ?thesis
      by (subst show_base.simps) (simp add: dec_value_snoc digit_char_dec)
  qed
qed

lemma parse_show_nat: "n < bound \<Longrightarrow> parse_unsigned bound (show_nat n) = Some n"
proof -
  assume n: "n < bound"
  have ne: "show_nat n \<noteq> []" by (simp add: show_nat_def show_base_nonempty)
  then obtain c r where cr: "show_nat n = c # r" by (cases "show_nat n") auto
  with show_nat_digits [of n] have "c \<noteq> CHR ''+''" by (auto simp: is_digit_def)
  with n ne cr show_nat_digits [of n] dec_value_show [of n] show ?thesis
    by (simp add: parse_unsigned_def)
qed

lemma split_char_ne: "split_char c s \<noteq> []"
  by (induction s) (auto split: list.splits)

lemma split_char_fresh: "c \<notin> set s \<Longrightarrow> split_char c s = [s]"
  by (induction s) auto

lemma split_char_append: "c \<notin> set s \<Longrightarrow> split_char c (s @ c # t) = s # split_char c t"
  by (induction s) auto

lemma digit_not_special: "is_digit c \<Longrightarrow> c \<noteq> CHR ''/'' \<and> c \<noteq> CHR ''+'' \<and> c \<noteq> CHR ''-''"
  by (auto simp: is_digit_def)

lemma show_nat_no_slash: "CHR ''/'' \<notin> set (show_nat n)"
  using show_nat_digits [of n] by (auto simp: list_all_iff dest: digit_not_special)

lemma starts_with_append [simp]: "starts_with (p @ s) p"
  by (simp add: starts_with_def)

lemma starts_with_iff: "starts_with s p \<longleftrightarrow> (\<exists>r. s = p @ r)"
  by (metis append_eq_conv_conj append_take_drop_id starts_with_def)

lemma ends_with_iff: "ends_with s p \<longleftrightarrow> (\<exists>r. s = r @ p)"
proof
  assume "ends_with s p"
  then show "\<exists>r. s = r @ p" by (metis append_take_drop_id ends_with_def)
qed (auto simp: ends_with_def)

lemma rfind_Some:
  assumes "rfind c s = Some i"
  shows "i < length s \<and> s ! i = c \<and> (\<forall>j. i < j \<and> j < length s \<longrightarrow> s ! j \<noteq> c)"
proof -
  from assms obtain k where k: "position (\<lambda>x. x = c) (rev s) = Some k" and i: "i = length s - 1 - k"
    by (auto simp: rfind_def)
  from position_Some [OF k] have kl: "k < length s" and kc: "rev s ! k = c"
    and before: "\<And>j. j < k \<Longrightarrow> rev s ! j \<noteq> c" by auto
  from kl kc i have "i < length s" "s ! i = c" by (auto simp: rev_nth)
  moreover have "s ! j \<noteq> c" if "i < j" "j < length s" for j
    using before [of "length s - 1 - j"] that i kl by (simp add: rev_nth)
  ultimately show ?thesis by blast
qed

end
