(* ===== verification/Adapter_Types.thy ===== *)
theory Adapter_Types
  imports Rust_Strings
begin

text \<open>
  The types of \<open>src/codelldb-types/src/lib.rs\<close>: settings and launch configurations as the client
  sends them.  Constructors carry a prefix where two enums share a name.  A JSON number is
  kept as the value \<open>as_u64\<close> reads from it; an \<open>f32\<close> is its bit pattern, whose arithmetic is a
  parameter of the code that uses it.
\<close>

datatype json =
    JNull
  | JBool bool
  | JNumber "u64 option"
  | JString string
  | JArray "json list"
  | JObject "(string \<times> json) list"

type_synonym f32 = u32

datatype ('a, 'b) either = First 'a | Second 'b

datatype breakpoint_mode = BmPath | BmFile

datatype console_mode = CmCommands | CmEvaluate | CmSplit

datatype display_format = DfAuto | DfHex | DfDecimal | DfBinary

datatype show_disassembly = SdAlways | SdNever | SdAuto

datatype terminal_id = TTY string | PID u64

datatype terminal_kind = TkIntegrated | TkExternal | TkConsole | TkTerminalId terminal_id

datatype console_kind = CkIntegratedTerminal | CkExternalTerminal | CkInternalConsole

datatype expressions = ExSimple | ExPython | ExNative

record exclude_caller_request =
  ec_thread_id :: i64
  ec_frame_index :: u32

record excluded_caller =
  site_id :: "(i64, string) either"
  symbol :: string

record exclude_caller_response =
  exclusion :: excluded_caller
  label :: string

record symbols_request =
  sy_filter :: string
  sy_max_results :: u32

record symbol_info =
  si_name :: string
  si_type :: string
  si_address :: string
  si_size :: u64
  si_module :: "string option"
  si_location :: "(string \<times> u32) option"

record adapter_settings =
  as_display_format :: "display_format option"
  as_show_disassembly :: "show_disassembly option"
  as_dereference_pointers :: "bool option"
  as_container_summary :: "bool option"
  as_evaluation_timeout :: "f32 option"
  as_summary_timeout :: "f32 option"
  as_suppress_missing_source_files :: "bool option"
  as_console_mode :: "console_mode option"
  as_source_languages :: "string list option"
  as_script_config :: "json option"
  as_evaluate_for_hovers :: "bool option"
  as_command_completions :: "bool option"

definition default_adapter_settings :: adapter_settings where
  "default_adapter_settings =
     \<lparr>as_display_format = None, as_show_disassembly = None, as_dereference_pointers = None,
      as_container_summary = None, as_evaluation_timeout = None, as_summary_timeout = None,
      as_suppress_missing_source_files = None, as_console_mode = None,
      as_source_languages = None, as_script_config = None, as_evaluate_for_hovers = None,
      as_command_completions = None\<rparr>"

record common_launch_fields =
  cl_name :: "string option"
  cl_source_map :: "(string \<times> string option) list option"
  cl_expressions :: "expressions option"
  cl_init_commands :: "string list option"
  cl_pre_run_commands :: "string list option"
  cl_post_run_commands :: "string list option"
  cl_graceful_shutdown :: "(string, string list) either option"
  cl_pre_terminate_commands :: "string list option"
  cl_exit_commands :: "string list option"
  cl_source_languages :: "string list option"
  cl_reverse_debugging :: "bool option"
  cl_relative_path_base :: "string option"
  cl_breakpoint_mode :: "breakpoint_mode option"
  cl_adapter_settings :: "adapter_settings option"

record launch_request_arguments =
  la_common :: common_launch_fields
  la_no_debug :: "bool option"
  la_program :: "string option"
  la_args :: "string list option"
  la_cwd :: "string option"
  la_env :: "(string \<times> string) list option"
  la_env_file :: "string option"
  la_stdio :: "(string, string option list) either option"
  la_stop_on_entry :: "bool option"
  la_terminal :: "terminal_kind option"
  la_console :: "console_kind option"
  la_target_create_commands :: "string list option"
  la_process_create_commands :: "string list option"

record attach_request_arguments =
  at_common :: common_launch_fields
  at_program :: "string option"
  at_pid :: "(u64, string) either option"
  at_wait_for :: "bool option"
  at_stop_on_entry :: "bool option"
  at_target_create_commands :: "string list option"
  at_process_create_commands :: "string list option"

end
