(* ===== verification/Errors.thy ===== *)
theory Errors
  imports Rust_Strings
begin

text \<open>
  \<open>src/codelldb/src/error.rs\<close> and \<open>DebugSession::send_response\<close>: errors that carry a blame,
  and the failure response a blamed error becomes.  A boxed error is a message, a
  \<open>BlamedError\<close> around another boxed error, or the \<open>AsyncResponse\<close> that carries a future out of
  a handler (of type \<open>'f\<close>).
\<close>

datatype blame = Internal | User | Nobody

datatype 'f error =
    StrError string
  | AsyncResponse 'f
  | Blamed blame "'f error"

type_synonym 'f blamed_error = "blame \<times> 'f error"

definition assign_blame :: "'f blamed_error \<Rightarrow> blame \<Rightarrow> 'f blamed_error" where
  "assign_blame e b = (b, snd e)"

fun blamed_from :: "'f error \<Rightarrow> 'f blamed_error" where
  "blamed_from (Blamed b e) = (b, e)"
| "blamed_from e = (Internal, e)"

text \<open>\<open>bail!\<close> and \<open>?\<close> box a \<open>BlamedError\<close> again.\<close>

definition box_blamed :: "'f blamed_error \<Rightarrow> 'f error" where
  "box_blamed e = Blamed (fst e) (snd e)"

definition blame_user :: "'f error \<Rightarrow> 'f error" where
  "blame_user e = box_blamed (assign_blame (blamed_from e) User)"

definition blame_nobody :: "'f error \<Rightarrow> 'f error" where
  "blame_nobody e = box_blamed (assign_blame (blamed_from e) Nobody)"

definition str_error :: "string \<Rightarrow> 'f error" where
  "str_error m = StrError m"

text \<open>\<open>Display\<close>: a blamed error shows its inner error.\<close>

fun show_error :: "'f error \<Rightarrow> string" where
  "show_error (StrError m) = m"
| "show_error (AsyncResponse f) = ''AsyncResponse''"
| "show_error (Blamed b e) = show_error e"

section \<open>Responses\<close>

datatype 'b response_result =
    Success 'b
  | ErrorResult (err_command: string) (err_message: string) (err_show_user: "bool option")

record 'b response =
  request_seq :: u32
  success :: bool
  result :: "'b response_result"

fun blame_message :: "'f blamed_error \<Rightarrow> string \<times> bool" where
  "blame_message (Internal, e) = (''Internal debugger error: '' @ show_error e, True)"
| "blame_message (User, e) = (show_error e, True)"
| "blame_message (Nobody, e) = (show_error e, False)"

text \<open>The response \<open>send_response\<close> passes to \<open>try_send_response\<close> (a panicking handler sends none).\<close>

fun make_response :: "u32 \<Rightarrow> ('f error, 'b) res \<Rightarrow> 'b response option" where
  "make_response seq (Ok body) = Some \<lparr>request_seq = seq, success = True, result = Success body\<rparr>"
| "make_response seq (Err err) =
     (let (message, show) = blame_message (blamed_from err) in
      Some \<lparr>request_seq = seq, success = False, result = ErrorResult [] message (Some show)\<rparr>)"
| "make_response seq Panic = None"

section \<open>Lemmas\<close>

lemma snd_blamed_from: "show_error (snd (blamed_from e)) = show_error e"
  by (cases e) auto

lemma blamed_from_blame_user [simp]: "blamed_from (blame_user e) = (User, snd (blamed_from e))"
  by (simp add: blame_user_def box_blamed_def assign_blame_def)

lemma blamed_from_blame_nobody [simp]: "blamed_from (blame_nobody e) = (Nobody, snd (blamed_from e))"
  by (simp add: blame_nobody_def box_blamed_def assign_blame_def)

lemma blame_user_idem: "blame_user (blame_user e) = blame_user e"
  by (simp add: blame_user_def box_blamed_def assign_blame_def)

text \<open>The last blame assigned to an error decides whether the client shows it.\<close>

fun shown :: "'f error \<Rightarrow> bool" where
  "shown (Blamed b e) = (b \<noteq> Nobody)"
| "shown e = True"

text \<open>
  Response honesty.  A handler's success becomes a success response with the handler's body;
  an error becomes a failure response to the same request that shows the innermost message, with
  the internal-error prefix exactly when the outermost blame is \<open>Internal\<close>, and with
  \<open>show_user\<close> off exactly when the outermost blame is \<open>Nobody\<close>.
\<close>

theorem response_of_result:
  "make_response seq (Ok b) = Some \<lparr>request_seq = seq, success = True, result = Success b\<rparr> \<and>
   make_response seq (Err e) =
     Some \<lparr>request_seq = seq, success = False,
           result = ErrorResult []
             (if fst (blamed_from e) = Internal then ''Internal debugger error: '' @ show_error e
              else show_error e)
             (Some (shown e))\<rparr>"
proof (cases e)
  case (Blamed b' e')
  then show ?thesis by (cases b') auto
qed auto

end
