(* ===== verification/Protocol.thy ===== *)
theory Protocol
  imports Adapter_Types Errors
begin

text \<open>
  The Debug Adapter Protocol messages of \<open>src/adapter-protocol/src/lib.rs\<close>: requests, responses
  and events.  The argument and body records are generated from the protocol's JSON schema by
  a file that is not in the repository; each record here has the fields of the schema that the
  handlers read or write.
\<close>

section \<open>Request arguments\<close>

record initialize_args =
  ic_supports_invalidated_event :: "bool option"
  ic_supports_memory_references :: "bool option"
  ic_supports_run_in_terminal_request :: "bool option"

record source =
  src_name :: "string option"
  src_path :: "string option"
  src_reference :: "i64 option"
  src_origin :: "string option"
  src_adapter_data :: "json option"

definition default_source :: source where
  "default_source = \<lparr>src_name = None, src_path = None, src_reference = None, src_origin = None,
     src_adapter_data = None\<rparr>"

record source_breakpoint =
  sb_line :: i64
  sb_column :: "i64 option"
  sb_condition :: "string option"
  sb_hit_condition :: "string option"
  sb_log_message :: "string option"

record set_breakpoints_args =
  sba_source :: source
  sba_breakpoints :: "source_breakpoint list"

record instruction_breakpoint =
  ib_instruction_reference :: string
  ib_offset :: "i64 option"
  ib_condition :: "string option"
  ib_hit_condition :: "string option"

record function_breakpoint =
  fb_name :: string
  fb_condition :: "string option"
  fb_hit_condition :: "string option"

record exception_filter_option =
  ef_filter_id :: string
  ef_condition :: "string option"

record set_exception_breakpoints_args =
  seb_filters :: "string list"
  seb_filter_options :: "exception_filter_option list"

datatype stepping_granularity = SgStatement | SgLine | SgInstruction

record next_args =
  nx_thread_id :: i64
  nx_granularity :: "stepping_granularity option"

record step_in_args =
  sti_thread_id :: i64
  sti_target_id :: "i64 option"
  sti_granularity :: "stepping_granularity option"

record stack_trace_args =
  st_thread_id :: i64
  st_start_frame :: "i64 option"
  st_levels :: "i64 option"

record modules_args =
  mo_start_module :: "i64 option"
  mo_module_count :: "i64 option"

record completions_args =
  co_text :: string
  co_column :: i64

record goto_targets_args =
  gt_source :: source
  gt_line :: i64

record evaluate_args =
  ev_expression :: string
  ev_frame_id :: "i64 option"
  ev_context :: "string option"

record set_variable_args =
  sv_variables_reference :: i64
  sv_name :: string
  sv_value :: string

record data_breakpoint_info_args =
  dbi_variables_reference :: "i64 option"
  dbi_name :: string
  dbi_frame_id :: "i64 option"
  dbi_bytes :: "i64 option"
  dbi_as_address :: "bool option"

datatype data_access = DaRead | DaWrite | DaReadWrite

record data_breakpoint =
  db_data_id :: string
  db_access_type :: "data_access option"

record disassemble_args =
  da_memory_reference :: string
  da_offset :: "i64 option"
  da_instruction_offset :: "i64 option"
  da_instruction_count :: i64
  da_resolve_symbols :: "bool option"

record read_memory_args =
  rm_memory_reference :: string
  rm_offset :: "i64 option"
  rm_count :: i64

record write_memory_args =
  wm_memory_reference :: string
  wm_offset :: "i64 option"
  wm_data :: string
  wm_allow_partial :: "bool option"

text \<open>
  \<open>RequestArguments\<close>, in the order of the source.  An argument record with a single field that
  the code reads is that field; the requests whose arguments no modelled code reads carry none.
\<close>

datatype (plugins only: code size) request =
    Rq_initialize initialize_args
  | Rq_cancel "i64 option"
  | Rq_launch "(launch_request_arguments, json) either"
  | Rq_attach "(attach_request_arguments, json) either"
  | Rq_restart "((launch_request_arguments, attach_request_arguments) either, json) either"
  | Rq_setBreakpoints set_breakpoints_args
  | Rq_setInstructionBreakpoints "instruction_breakpoint list"
  | Rq_setFunctionBreakpoints "function_breakpoint list"
  | Rq_setExceptionBreakpoints set_exception_breakpoints_args
  | Rq_exceptionInfo i64
  | Rq_configurationDone
  | Rq_pause i64
  | Rq_continue i64
  | Rq_next next_args
  | Rq_stepInTargets i64
  | Rq_stepIn step_in_args
  | Rq_stepOut i64
  | Rq_stepBack i64
  | Rq_reverseContinue i64
  | Rq_threads
  | Rq_stackTrace stack_trace_args
  | Rq_scopes i64
  | Rq_source i64
  | Rq_modules modules_args
  | Rq_variables i64
  | Rq_completions completions_args
  | Rq_gotoTargets goto_targets_args
  | Rq_goto i64
  | Rq_restartFrame i64
  | Rq_evaluate evaluate_args
  | Rq_setVariable set_variable_args
  | Rq_dataBreakpointInfo data_breakpoint_info_args
  | Rq_setDataBreakpoints "data_breakpoint list"
  | Rq_disassemble disassemble_args
  | Rq_readMemory read_memory_args
  | Rq_writeMemory write_memory_args
  | Rq_terminate
  | Rq_disconnect "bool option option"
  | Rq_runInTerminal "string list"
  | Rq_startDebugging json
  | Rq_adapterSettings adapter_settings
  | Rq_symbols symbols_request
  | Rq_excludeCaller exclude_caller_request
  | Rq_setExcludedCallers "excluded_caller list"
  | Rq_pythonMessage json
  | Rq_unknown

section \<open>Bodies\<close>

record breakpoint_body =
  bb_id :: "i64 option"
  bb_verified :: bool
  bb_message :: "string option"
  bb_source :: "source option"
  bb_line :: "i64 option"
  bb_instruction_reference :: "string option"

definition default_breakpoint_body :: breakpoint_body where
  "default_breakpoint_body = \<lparr>bb_id = None, bb_verified = False, bb_message = None, bb_source = None,
     bb_line = None, bb_instruction_reference = None\<rparr>"

record exception_filter =
  xf_filter :: string
  xf_label :: string
  xf_default :: "bool option"
  xf_supports_condition :: "bool option"

record stopped_body =
  sp_reason :: string
  sp_description :: "string option"
  sp_thread_id :: "i64 option"
  sp_all_threads_stopped :: "bool option"
  sp_hit_breakpoint_ids :: "i64 list"

record variable_body =
  vb_name :: string
  vb_value :: string
  vb_type :: "string option"
  vb_variables_reference :: i64
  vb_evaluate_name :: "string option"
  vb_memory_reference :: "string option"
  vb_hint_attributes :: "string list option"

definition default_variable_body :: variable_body where
  "default_variable_body = \<lparr>vb_name = [], vb_value = [], vb_type = None, vb_variables_reference = 0,
     vb_evaluate_name = None, vb_memory_reference = None, vb_hint_attributes = None\<rparr>"

record disassembled_instruction =
  di_address :: string
  di_instruction_bytes :: "string option"
  di_instruction :: string
  di_invalid :: bool
  di_line :: "i64 option"
  di_column :: "i64 option"
  di_location :: "source option"
  di_symbol :: "string option"

definition default_disassembled_instruction :: disassembled_instruction where
  "default_disassembled_instruction = \<lparr>di_address = [], di_instruction_bytes = None,
     di_instruction = [], di_invalid = False, di_line = None, di_column = None,
     di_location = None, di_symbol = None\<rparr>"

record capabilities =
  cp_exception_breakpoint_filters :: "exception_filter list"
  cp_supports_completions_request :: "bool option"
  cp_supports_evaluate_for_hovers :: "bool option"
  cp_supports_step_back :: "bool option"
  cp_supports_terminate_request :: "bool option"
  cp_supports_step_in_targets_request :: "bool option"

definition default_capabilities :: capabilities where
  "default_capabilities = \<lparr>cp_exception_breakpoint_filters = [], cp_supports_completions_request = None,
     cp_supports_evaluate_for_hovers = None, cp_supports_step_back = None,
     cp_supports_terminate_request = None, cp_supports_step_in_targets_request = None\<rparr>"

record module_body =
  md_id :: string
  md_name :: string
  md_path :: "string option"
  md_version :: "string option"
  md_address_range :: "string option"
  md_symbol_status :: "string option"
  md_symbol_file_path :: "string option"

datatype module_reason = MrNew | MrChanged | MrRemoved

datatype event =
    Ev_initialized
  | Ev_output (out_category: "string option") (out_text: string)
  | Ev_breakpoint (bpe_reason: string) (bpe_breakpoint: breakpoint_body)
  | Ev_capabilities capabilities
  | Ev_continued (cnt_thread_id: i64)
  | Ev_exited (exit_code: i64)
  | Ev_module module_reason module_body
  | Ev_terminated
  | Ev_thread (thr_reason: string) (thr_id: i64)
  | Ev_invalidated (inv_thread_id: "i64 option")
  | Ev_stopped stopped_body
  | Ev_pythonMessage json

record thread_body =
  tb_id :: i64
  tb_name :: string

record evaluate_body =
  eb_result :: string
  eb_type :: "string option"
  eb_variables_reference :: i64
  eb_memory_reference :: "string option"

record scope_body =
  sc_name :: string
  sc_variables_reference :: i64
  sc_expensive :: bool

record completion_item =
  ci_text :: "string option"
  ci_label :: string
  ci_start :: "i64 option"
  ci_length :: "i64 option"

record stack_frame =
  sf_id :: i64
  sf_instruction_pointer_reference :: "string option"
  sf_name :: string
  sf_module_id :: "string option"
  sf_line :: i64
  sf_column :: i64
  sf_source :: "source option"
  sf_subtle :: bool

record data_breakpoint_info_body =
  dib_data_id :: "string option"
  dib_access_types :: "data_access list"
  dib_description :: string

record read_memory_body =
  rmb_address :: string
  rmb_unreadable_bytes :: "i64 option"
  rmb_data :: "string option"

record set_variable_body =
  svb_value :: string
  svb_type :: "string option"
  svb_variables_reference :: "i64 option"

record step_in_target =
  sit_id :: i64
  sit_label :: string

record goto_target =
  gtt_id :: i64
  gtt_label :: string
  gtt_line :: i64

record exception_info_body =
  xi_exception_id :: string
  xi_description :: "string option"

text \<open>\<open>ResponseBody\<close>, in the order of the source.\<close>

datatype (plugins only: code size) response_body =
    Rb_initialize capabilities
  | Rb_cancel
  | Rb_launch
  | Rb_attach
  | Rb_restart
  | Rb_setBreakpoints "breakpoint_body list"
  | Rb_setInstructionBreakpoints "breakpoint_body list"
  | Rb_setFunctionBreakpoints "breakpoint_body list"
  | Rb_setExceptionBreakpoints "breakpoint_body list"
  | Rb_exceptionInfo exception_info_body
  | Rb_configurationDone
  | Rb_pause
  | Rb_continue bool
  | Rb_next
  | Rb_stepInTargets "step_in_target list"
  | Rb_stepIn
  | Rb_stepOut
  | Rb_stepBack
  | Rb_reverseContinue
  | Rb_threads "thread_body list"
  | Rb_stackTrace "stack_frame list"
  | Rb_scopes "scope_body list"
  | Rb_source string string
  | Rb_modules "module_body list" i64
  | Rb_variables "variable_body list"
  | Rb_completions "completion_item list"
  | Rb_gotoTargets "goto_target list"
  | Rb_goto
  | Rb_restartFrame
  | Rb_evaluate evaluate_body
  | Rb_setVariable set_variable_body
  | Rb_dataBreakpointInfo data_breakpoint_info_body
  | Rb_setDataBreakpoints "breakpoint_body list"
  | Rb_disassemble "disassembled_instruction list"
  | Rb_readMemory read_memory_body
  | Rb_writeMemory i64
  | Rb_terminate
  | Rb_disconnect
  | Rb_runInTerminal
  | Rb_startDebugging
  | Rb_adapterSettings
  | Rb_symbols "symbol_info list"
  | Rb_excludeCaller exclude_caller_response
  | Rb_setExcludedCallers
  | Rb_pythonMessage

section \<open>Messages\<close>

datatype message_type =
    MRequest request
  | MResponse "response_body response"
  | MEvent event

record message =
  msg_seq :: u32
  msg_type :: message_type

end
