(* ===== verification/Cancel_Filter.thy ===== *)
theory Cancel_Filter
  imports Machines Protocol
begin

text \<open>
  \<open>src/codelldb/src/cancellation.rs\<close>, the shared cancellation token, and
  \<open>DebugSession::cancellation_filter\<close> of \<open>src/codelldb/src/debug_session.rs\<close>, the task that pairs
  every incoming request with a token and turns \<open>cancel\<close> requests and resumptions into
  cancellations.
\<close>

section \<open>The token\<close>

text \<open>
  \<open>Inner\<close>.  A callback is named by a number; \<open>send\<close> returns the callbacks it calls, in order.
  A \<open>Sender\<close> and its clones, and every \<open>Receiver\<close>, share one \<open>Inner\<close>.
\<close>

record cancel_inner =
  flag :: bool
  receivers :: u16
  callbacks :: "nat list"

definition sender_new :: cancel_inner where
  "sender_new = \<lparr>flag = False, receivers = 0, callbacks = []\<rparr>"

definition subscribe :: "cancel_inner \<Rightarrow> cancel_inner" where
  "subscribe c = c\<lparr>receivers := receivers c + 1\<rparr>"

definition send_cancel :: "cancel_inner \<Rightarrow> cancel_inner \<times> nat list" where
  "send_cancel c = (c\<lparr>flag := True\<rparr>, callbacks c)"

definition receiver_count :: "cancel_inner \<Rightarrow> nat" where
  "receiver_count c = unat (receivers c)"

definition is_cancelled :: "cancel_inner \<Rightarrow> bool" where
  "is_cancelled c = flag c"

definition add_callback :: "nat \<Rightarrow> cancel_inner \<Rightarrow> cancel_inner" where
  "add_callback f c = c\<lparr>callbacks := callbacks c @ [f]\<rparr>"

definition clone_receiver :: "cancel_inner \<Rightarrow> cancel_inner" where
  "clone_receiver c = c\<lparr>receivers := receivers c + 1\<rparr>"

definition drop_receiver :: "cancel_inner \<Rightarrow> cancel_inner" where
  "drop_receiver c = c\<lparr>receivers := receivers c - 1\<rparr>"

text \<open>\<open>dummy()\<close> is the receiver of a sender that is dropped at once.\<close>

definition dummy_token :: cancel_inner where
  "dummy_token = subscribe sender_new"

text \<open>
  The operations as a machine.  The receivers alive are counted by ownership: a receiver is made
  by \<open>subscribe\<close> or \<open>clone\<close> and dropped once, so \<open>live\<close> is the abstraction the count implements.
\<close>

datatype token_op = Subscribe | CloneReceiver | DropReceiver | Send | AddCallback nat

fun token_step :: "cancel_inner \<Rightarrow> token_op \<Rightarrow> cancel_inner" where
  "token_step c Subscribe = subscribe c"
| "token_step c CloneReceiver = clone_receiver c"
| "token_step c DropReceiver = drop_receiver c"
| "token_step c Send = fst (send_cancel c)"
| "token_step c (AddCallback f) = add_callback f c"

text \<open>\<open>live n ops\<close>: the receivers alive after \<open>ops\<close>, \<open>None\<close> if one is used or dropped that is not there.\<close>

fun live :: "nat \<Rightarrow> token_op list \<Rightarrow> nat option" where
  "live n [] = Some n"
| "live n (Subscribe # ops) = live (Suc n) ops"
| "live n (CloneReceiver # ops) = (if n = 0 then None else live (Suc n) ops)"
| "live n (DropReceiver # ops) = (if n = 0 then None else live (n - 1) ops)"
| "live n (Send # ops) = live n ops"
| "live n (AddCallback f # ops) = (if n = 0 then None else live n ops)"

lemmas token_defs = subscribe_def send_cancel_def add_callback_def clone_receiver_def
  drop_receiver_def is_cancelled_def receiver_count_def

lemma token_receivers:
  "live n ops = Some m \<Longrightarrow> receivers c = of_nat n \<Longrightarrow> receivers (run token_step c ops) = of_nat m"
proof (induction n ops arbitrary: c rule: live.induct)
  case (4 n ops)
  from 4 have n: "0 < n" by (auto split: if_splits)
  then have "(of_nat (n - 1) :: u16) = of_nat n - 1" by (simp add: of_nat_diff)
  with 4 n show ?case by (auto simp: token_defs)
qed (auto simp: token_defs add.commute split: if_splits)

interpretation token_sent: invariant_machine token_step flag
  by unfold_locales (rename_tac s e, case_tac e; simp add: token_defs)

lemma token_callbacks_prefix: "\<exists>r. callbacks (run token_step c ops) = callbacks c @ r"
proof (induction ops arbitrary: c)
  case (Cons op ops)
  obtain r where r: "callbacks (token_step c op) = callbacks c @ r" by (cases op) (auto simp: token_defs)
  obtain r' where "callbacks (run token_step (token_step c op) ops) = callbacks (token_step c op) @ r'"
    using Cons.IH by blast
  with r show ?case by auto
qed auto

section \<open>The filter\<close>

text \<open>
  The state of the task: a heap of tokens (\<open>next_token\<close> is the first unused address), its two
  collections, and the end of the channel to the main loop.  \<open>in_flight\<close> are the tokens whose
  receiver the main loop still holds, queued or being handled; \<open>forwarded\<close> is the log of what
  was put on the channel.
\<close>

record filter_state =
  tokens :: "nat \<Rightarrow> cancel_inner"
  next_token :: nat
  pending_requests :: "(u32, nat) hashmap"
  cancellable_requests :: "nat list"
  forwarded :: "(u32 \<times> request \<times> nat) list"
  in_flight :: "nat list"
  queue_open :: bool
  filter_running :: bool

definition filter_init :: filter_state where
  "filter_init = \<lparr>tokens = (\<lambda>_. sender_new), next_token = 0, pending_requests = [],
     cancellable_requests = [], forwarded = [], in_flight = [], queue_open = True,
     filter_running = True\<rparr>"

text \<open>Requests that may be canceled, and requests that will cancel those.\<close>

fun may_be_cancelled :: "request \<Rightarrow> bool" where
  "may_be_cancelled (Rq_scopes _) = True"
| "may_be_cancelled (Rq_variables _) = True"
| "may_be_cancelled (Rq_evaluate _) = True"
| "may_be_cancelled _ = False"

fun cancels_others :: "request \<Rightarrow> bool" where
  "cancels_others (Rq_continue _) = True"
| "cancels_others (Rq_pause _) = True"
| "cancels_others (Rq_next _) = True"
| "cancels_others (Rq_stepIn _) = True"
| "cancels_others (Rq_stepOut _) = True"
| "cancels_others (Rq_stepBack _) = True"
| "cancels_others (Rq_reverseContinue _) = True"
| "cancels_others Rq_terminate = True"
| "cancels_others (Rq_disconnect _) = True"
| "cancels_others _ = False"

definition update_token :: "nat \<Rightarrow> (cancel_inner \<Rightarrow> cancel_inner) \<Rightarrow> filter_state \<Rightarrow> filter_state" where
  "update_token t f s = s\<lparr>tokens := (tokens s)(t := f (tokens s t))\<rparr>"

definition has_receivers :: "filter_state \<Rightarrow> nat \<Rightarrow> bool" where
  "has_receivers s t = (0 < receiver_count (tokens s t))"

definition cancel_token :: "nat \<Rightarrow> filter_state \<Rightarrow> filter_state" where
  "cancel_token t s = update_token t (\<lambda>c. fst (send_cancel c)) s"

text \<open>A new sender with its receiver, and the clean-up that follows.\<close>

definition open_token :: "filter_state \<Rightarrow> filter_state" where
  "open_token s =
     s\<lparr>tokens := (tokens s)(next_token s := subscribe sender_new), next_token := Suc (next_token s)\<rparr>"

definition clean_out :: "filter_state \<Rightarrow> filter_state" where
  "clean_out s =
     s\<lparr>pending_requests := hm_retain (\<lambda>_ v. has_receivers s v) (pending_requests s),
       cancellable_requests := filter (has_receivers s) (cancellable_requests s)\<rparr>"

definition cancel_by_id :: "i64 option \<Rightarrow> filter_state \<Rightarrow> filter_state" where
  "cancel_by_id request_id s =
     (case request_id of
        None \<Rightarrow> s
      | Some rid \<Rightarrow>
         (case hm_get (pending_requests s) (as_u32 rid) of
            None \<Rightarrow> s
          | Some t \<Rightarrow>
              cancel_token t (s\<lparr>pending_requests := hm_remove (as_u32 rid) (pending_requests s)\<rparr>)))"

text \<open>The rest of the loop body for a request with token \<open>t\<close> that is not \<open>cancel\<close>.\<close>

definition forward_request :: "nat \<Rightarrow> u32 \<Rightarrow> request \<Rightarrow> filter_state \<Rightarrow> filter_state" where
  "forward_request t seq request s =
     (let s = (if may_be_cancelled request
               then s\<lparr>cancellable_requests := cancellable_requests s @ [t]\<rparr>
               else if cancels_others request
               then fold cancel_token (cancellable_requests s) s
               else s);
          s = s\<lparr>pending_requests := hm_insert seq t (pending_requests s)\<rparr>
      in if queue_open s
         then s\<lparr>forwarded := forwarded s @ [(seq, request, t)], in_flight := t # in_flight s\<rparr>
         else update_token t drop_receiver s)"

definition filter_request :: "filter_state \<Rightarrow> u32 \<Rightarrow> request \<Rightarrow> filter_state" where
  "filter_request s seq request =
     (let t = next_token s;
          s = clean_out (open_token s)
      in case request of
           Rq_cancel request_id \<Rightarrow> update_token t drop_receiver (cancel_by_id request_id s)
         | _ \<Rightarrow> forward_request t seq request s)"

text \<open>
  The events of the task: a request, a lag report or the end of the broadcast channel, and what
  the main loop does at its end: finish with a request (its receiver is dropped) or go away.
\<close>

datatype filter_event =
    FRequest u32 request
  | FLagged nat
  | FClosed
  | FDone nat
  | FQueueClosed

fun filter_step :: "filter_state \<Rightarrow> filter_event \<Rightarrow> filter_state" where
  "filter_step s (FRequest seq request) =
     (if filter_running s then filter_request s seq request else s)"
| "filter_step s (FLagged n) = s"
| "filter_step s FClosed = s\<lparr>filter_running := False\<rparr>"
| "filter_step s (FDone t) =
     (if t \<in> set (in_flight s)
      then update_token t drop_receiver (s\<lparr>in_flight := removeAll t (in_flight s)\<rparr>) else s)"
| "filter_step s FQueueClosed = s\<lparr>queue_open := False\<rparr>"

subsection \<open>Invariant\<close>

fun is_cancel :: "request \<Rightarrow> bool" where
  "is_cancel (Rq_cancel i) = True"
| "is_cancel _ = False"

definition filter_inv :: "filter_state \<Rightarrow> bool" where
  "filter_inv s \<longleftrightarrow>
     hm_wf (pending_requests s)
     \<and> (\<forall>(k, t) \<in> set (pending_requests s). t < next_token s)
     \<and> (\<forall>t \<in> set (cancellable_requests s). t < next_token s)
     \<and> (\<forall>t \<in> set (in_flight s). t < next_token s)
     \<and> (\<forall>t. receivers (tokens s t) = (if t \<in> set (in_flight s) then 1 else 0))
     \<and> (\<forall>(seq, rq, t) \<in> set (forwarded s). t < next_token s
          \<and> (t \<in> set (in_flight s) \<longrightarrow> may_be_cancelled rq \<longrightarrow> t \<in> set (cancellable_requests s)))
     \<and> (\<forall>(seq, rq, t) \<in> set (forwarded s). \<not> is_cancel rq)"

lemmas filter_defs = update_token_def cancel_token_def open_token_def clean_out_def
  cancel_by_id_def has_receivers_def token_defs sender_new_def

lemma cancel_token_fields [simp]:
  "pending_requests (cancel_token t s) = pending_requests s"
  "cancellable_requests (cancel_token t s) = cancellable_requests s"
  "forwarded (cancel_token t s) = forwarded s" "in_flight (cancel_token t s) = in_flight s"
  "next_token (cancel_token t s) = next_token s" "queue_open (cancel_token t s) = queue_open s"
  "receivers (tokens (cancel_token t s) u) = receivers (tokens s u)"
  "flag (tokens (cancel_token t s) u) = (u = t \<or> flag (tokens s u))"
  "filter_running (cancel_token t s) = filter_running s"
  by (auto simp: cancel_token_def update_token_def send_cancel_def)

lemma fold_cancel_fields [simp]:
  "pending_requests (fold cancel_token ts s) = pending_requests s"
  "cancellable_requests (fold cancel_token ts s) = cancellable_requests s"
  "forwarded (fold cancel_token ts s) = forwarded s" "in_flight (fold cancel_token ts s) = in_flight s"
  "next_token (fold cancel_token ts s) = next_token s" "queue_open (fold cancel_token ts s) = queue_open s"
  "receivers (tokens (fold cancel_token ts s) u) = receivers (tokens s u)"
  "filter_running (fold cancel_token ts s) = filter_running s"
  by (induction ts arbitrary: s; simp)+

lemma fold_cancel_flag [simp]:
  "flag (tokens (fold cancel_token ts s) u) = (u \<in> set ts \<or> flag (tokens s u))"
  by (induction ts arbitrary: s) auto

text \<open>The state after \<open>open_token\<close> and \<open>clean_out\<close>, read field by field.\<close>

lemma prepared_fields [simp]:
  "next_token (clean_out (open_token s)) = Suc (next_token s)"
  "forwarded (clean_out (open_token s)) = forwarded s"
  "in_flight (clean_out (open_token s)) = in_flight s"
  "queue_open (clean_out (open_token s)) = queue_open s"
  "filter_running (clean_out (open_token s)) = filter_running s"
  "tokens (clean_out (open_token s)) = (tokens s)(next_token s := subscribe sender_new)"
  by (simp_all add: open_token_def clean_out_def)

lemma prepared_cancellable:
  "t \<noteq> next_token s \<Longrightarrow> t \<in> set (cancellable_requests (clean_out (open_token s))) \<longleftrightarrow>
     t \<in> set (cancellable_requests s) \<and> 0 < receivers (tokens s t)"
  by (auto simp: filter_defs word_gt_0 unat_gt_0)

lemma prepared_pending:
  "set (pending_requests (clean_out (open_token s))) \<subseteq> set (pending_requests s)"
  "hm_wf (pending_requests s) \<Longrightarrow> hm_wf (pending_requests (clean_out (open_token s)))"
  "set (cancellable_requests (clean_out (open_token s))) \<subseteq> set (cancellable_requests s)"
  by (auto simp: clean_out_def open_token_def hm_retain_def hm_wf_def intro: distinct_map_filter)

lemma filter_request_cancel:
  "filter_request s seq (Rq_cancel i) =
     update_token (next_token s) drop_receiver (cancel_by_id i (clean_out (open_token s)))"
  by (simp add: filter_request_def Let_def)

lemma filter_request_forward:
  "\<not> is_cancel rq \<Longrightarrow>
     filter_request s seq rq = forward_request (next_token s) seq rq (clean_out (open_token s))"
  by (cases rq) (simp_all add: filter_request_def Let_def)

lemma is_cancel_iff: "is_cancel rq \<longleftrightarrow> (\<exists>i. rq = Rq_cancel i)"
  by (cases rq) auto

lemma cancel_by_id_fields [simp]:
  "cancellable_requests (cancel_by_id i s) = cancellable_requests s"
  "forwarded (cancel_by_id i s) = forwarded s" "in_flight (cancel_by_id i s) = in_flight s"
  "next_token (cancel_by_id i s) = next_token s" "queue_open (cancel_by_id i s) = queue_open s"
  "receivers (tokens (cancel_by_id i s) u) = receivers (tokens s u)"
  "filter_running (cancel_by_id i s) = filter_running s"
  by (auto simp: cancel_by_id_def split: option.split)

lemma cancel_by_id_pending:
  "set (pending_requests (cancel_by_id i s)) \<subseteq> set (pending_requests s)"
  "hm_wf (pending_requests s) \<Longrightarrow> hm_wf (pending_requests (cancel_by_id i s))"
  using set_hm_remove by (fastforce simp: cancel_by_id_def split: option.splits)+

lemma cancel_by_id_flag:
  "flag (tokens (cancel_by_id i s) u) \<longleftrightarrow>
     flag (tokens s u) \<or> (\<exists>r. i = Some r \<and> hm_get (pending_requests s) (as_u32 r) = Some u)"
  by (auto simp: cancel_by_id_def split: option.split)

lemma update_token_fields [simp]:
  "pending_requests (update_token t f s) = pending_requests s"
  "cancellable_requests (update_token t f s) = cancellable_requests s"
  "forwarded (update_token t f s) = forwarded s" "in_flight (update_token t f s) = in_flight s"
  "next_token (update_token t f s) = next_token s" "queue_open (update_token t f s) = queue_open s"
  "filter_running (update_token t f s) = filter_running s"
  "tokens (update_token t f s) = (tokens s)(t := f (tokens s t))"
  by (simp_all add: update_token_def)

lemma drop_receiver_fields [simp]:
  "flag (drop_receiver c) = flag c" "receivers (drop_receiver c) = receivers c - 1"
  "flag (subscribe sender_new) = False" "receivers (subscribe sender_new) = 1"
  by (simp_all add: drop_receiver_def subscribe_def sender_new_def)

text \<open>Every step keeps the invariant, one kind of event at a time.\<close>

lemma filter_inv_D:
  assumes "filter_inv s"
  shows "hm_wf (pending_requests s)" "(k, t) \<in> set (pending_requests s) \<Longrightarrow> t < next_token s"
    "t \<in> set (cancellable_requests s) \<Longrightarrow> t < next_token s"
    "t \<in> set (in_flight s) \<Longrightarrow> t < next_token s"
    "receivers (tokens s t) = (if t \<in> set (in_flight s) then 1 else 0)"
    "(seq, rq, t) \<in> set (forwarded s) \<Longrightarrow> t < next_token s"
    "(seq, rq, t) \<in> set (forwarded s) \<Longrightarrow> t \<in> set (in_flight s) \<Longrightarrow> may_be_cancelled rq \<Longrightarrow>
       t \<in> set (cancellable_requests s)"
    "(seq, rq, t) \<in> set (forwarded s) \<Longrightarrow> \<not> is_cancel rq"
  using assms by (auto simp: filter_inv_def)

lemma filter_invI:
  assumes "hm_wf (pending_requests s)"
    "\<And>k t. (k, t) \<in> set (pending_requests s) \<Longrightarrow> t < next_token s"
    "\<And>t. t \<in> set (cancellable_requests s) \<Longrightarrow> t < next_token s"
    "\<And>t. t \<in> set (in_flight s) \<Longrightarrow> t < next_token s"
    "\<And>t. receivers (tokens s t) = (if t \<in> set (in_flight s) then 1 else 0)"
    "\<And>seq rq t. (seq, rq, t) \<in> set (forwarded s) \<Longrightarrow> t < next_token s \<and> \<not> is_cancel rq"
    "\<And>seq rq t. (seq, rq, t) \<in> set (forwarded s) \<Longrightarrow> t \<in> set (in_flight s) \<Longrightarrow> may_be_cancelled rq \<Longrightarrow>
       t \<in> set (cancellable_requests s)"
  shows "filter_inv s"
  using assms by (auto simp: filter_inv_def)

lemma prepared_inv:
  assumes "filter_inv s"
  shows "hm_wf (pending_requests (clean_out (open_token s)))"
    "(k, t) \<in> set (pending_requests (clean_out (open_token s))) \<Longrightarrow> t < next_token s"
    "t \<in> set (cancellable_requests (clean_out (open_token s))) \<Longrightarrow> t < next_token s"
    "(seq, rq, t) \<in> set (forwarded s) \<Longrightarrow> t \<in> set (in_flight s) \<Longrightarrow> may_be_cancelled rq \<Longrightarrow>
       t \<in> set (cancellable_requests (clean_out (open_token s)))"
    "next_token s \<notin> set (in_flight s)"
proof -
  note inv = filter_inv_D [OF assms]
  show "hm_wf (pending_requests (clean_out (open_token s)))"
    using inv(1) by (rule prepared_pending(2))
  show "t < next_token s" if "(k, t) \<in> set (pending_requests (clean_out (open_token s)))"
    using inv(2) prepared_pending(1) that by blast
  show "t < next_token s" if "t \<in> set (cancellable_requests (clean_out (open_token s)))"
    using inv(3) prepared_pending(3) that by blast
  show "next_token s \<notin> set (in_flight s)" using inv(4) by blast
  show "t \<in> set (cancellable_requests (clean_out (open_token s)))"
    if "(seq, rq, t) \<in> set (forwarded s)" "t \<in> set (in_flight s)" "may_be_cancelled rq"
  proof -
    have "t < next_token s" "receivers (tokens s t) = 1" using inv(5,6) that by auto
    then show ?thesis using inv(7) that by (simp add: prepared_cancellable)
  qed
qed

lemma filter_inv_cancel:
  assumes "filter_inv s"
  shows "filter_inv (filter_request s seq (Rq_cancel i))"
proof (rule filter_invI, unfold filter_request_cancel)
  note inv = filter_inv_D [OF assms] and prep = prepared_inv [OF assms]
  let ?c = "update_token (next_token s) drop_receiver (cancel_by_id i (clean_out (open_token s)))"
  show "hm_wf (pending_requests ?c)" using prep(1) by (simp add: cancel_by_id_pending)
  show "t < next_token ?c" if "(k, t) \<in> set (pending_requests ?c)" for k t
    using that prep(2) cancel_by_id_pending(1) by (fastforce intro: less_SucI)
  show "t < next_token ?c" if "t \<in> set (cancellable_requests ?c)" for t
    using that prep(3) by (simp add: less_SucI)
  show "t < next_token ?c" if "t \<in> set (in_flight ?c)" for t
    using that inv(4) by (simp add: less_SucI)
  show "receivers (tokens ?c t) = (if t \<in> set (in_flight ?c) then 1 else 0)" for t
    using inv(5) prep(5) by simp
  show "t < next_token ?c \<and> \<not> is_cancel rq" if "(q, rq, t) \<in> set (forwarded ?c)" for q rq t
    using that inv(6,8) by (auto simp: less_SucI)
  show "t \<in> set (cancellable_requests ?c)"
    if "(q, rq, t) \<in> set (forwarded ?c)" "t \<in> set (in_flight ?c)" "may_be_cancelled rq" for q rq t
    using that prep(4) by simp
qed

lemma forward_request_fields [simp]:
  "next_token (forward_request t seq rq s) = next_token s"
  "pending_requests (forward_request t seq rq s) = hm_insert seq t (pending_requests s)"
  "cancellable_requests (forward_request t seq rq s) =
     cancellable_requests s @ (if may_be_cancelled rq then [t] else [])"
  "forwarded (forward_request t seq rq s) =
     forwarded s @ (if queue_open s then [(seq, rq, t)] else [])"
  "in_flight (forward_request t seq rq s) = (if queue_open s then [t] else []) @ in_flight s"
  "receivers (tokens (forward_request t seq rq s) u) =
     (if u = t \<and> \<not> queue_open s then receivers (tokens s u) - 1 else receivers (tokens s u))"
  "flag (tokens (forward_request t seq rq s) u) \<longleftrightarrow>
     flag (tokens s u) \<or>
     (\<not> may_be_cancelled rq \<and> cancels_others rq \<and> u \<in> set (cancellable_requests s))"
  "queue_open (forward_request t seq rq s) = queue_open s"
  "filter_running (forward_request t seq rq s) = filter_running s"
  by (auto simp: forward_request_def Let_def)

lemma filter_inv_forward:
  assumes "filter_inv s" "\<not> is_cancel request"
  shows "filter_inv (filter_request s seq request)"
proof (rule filter_invI, unfold filter_request_forward [OF assms(2)])
  note inv = filter_inv_D [OF assms(1)] and prep = prepared_inv [OF assms(1)]
  let ?p = "clean_out (open_token s)"
  let ?f = "forward_request (next_token s) seq request ?p"
  show "hm_wf (pending_requests ?f)" using prep(1) by simp
  show "t < next_token ?f" if "(k, t) \<in> set (pending_requests ?f)" for k t
    using that prep(2) set_hm_insert [of seq "next_token s" "pending_requests ?p"]
    by (auto intro: less_SucI)
  show "t < next_token ?f" if "t \<in> set (cancellable_requests ?f)" for t
    using that prep(3) by (auto intro: less_SucI split: if_splits)
  show "t < next_token ?f" if "t \<in> set (in_flight ?f)" for t
    using that inv(4) by (auto intro: less_SucI split: if_splits)
  show "receivers (tokens ?f t) = (if t \<in> set (in_flight ?f) then 1 else 0)" for t
    using inv(5) prep(5) by simp
  show "t < next_token ?f \<and> \<not> is_cancel rq" if "(q, rq, t) \<in> set (forwarded ?f)" for q rq t
    using that inv(6,8) assms(2) by (auto intro: less_SucI split: if_splits)
  show "t \<in> set (cancellable_requests ?f)"
    if "(q, rq, t) \<in> set (forwarded ?f)" "t \<in> set (in_flight ?f)" "may_be_cancelled rq" for q rq t
    using that prep(4) inv(6) [of q rq t] by (auto split: if_splits)
qed

lemma filter_inv_step: "filter_inv s \<Longrightarrow> filter_inv (filter_step s e)"
proof (cases e)
  case (FRequest seq rq)
  moreover assume "filter_inv s"
  ultimately show ?thesis
    by (cases "is_cancel rq") (auto simp: is_cancel_iff filter_inv_cancel filter_inv_forward)
next
  case (FDone t)
  assume s: "filter_inv s"
  note inv = filter_inv_D [OF s]
  show ?thesis
  proof (cases "t \<in> set (in_flight s)")
    case True
    show ?thesis by (rule filter_invI) (use inv True FDone in auto)
  qed (simp add: FDone s)
qed (auto simp: filter_inv_def)

text \<open>
  A second invariant, on top of the first, ties the two collections to the requests: a pending
  entry has the sequence number of its request, a cancellable token belongs to a request that may
  be cancelled, and, while the main loop listens, a request in flight can be found under its
  sequence number unless it has been cancelled or the client has reused the number.
\<close>

definition filter_links :: "filter_state \<Rightarrow> bool" where
  "filter_links s \<longleftrightarrow> filter_inv s
     \<and> (\<forall>(seq, rq, t) \<in> set (forwarded s).
          (\<forall>k. (k, t) \<in> set (pending_requests s) \<longrightarrow> k = seq)
          \<and> (t \<in> set (cancellable_requests s) \<longrightarrow> may_be_cancelled rq)
          \<and> (queue_open s \<longrightarrow> t \<in> set (in_flight s) \<longrightarrow>
               flag (tokens s t) \<or> hm_get (pending_requests s) seq = Some t
               \<or> (\<exists>rq' t'. t' \<noteq> t \<and> (seq, rq', t') \<in> set (forwarded s))))"

lemma filter_links_D:
  assumes "filter_links s" "(seq, rq, t) \<in> set (forwarded s)"
  shows "(k, t) \<in> set (pending_requests s) \<Longrightarrow> k = seq"
    "t \<in> set (cancellable_requests s) \<Longrightarrow> may_be_cancelled rq"
    "queue_open s \<Longrightarrow> t \<in> set (in_flight s) \<Longrightarrow> flag (tokens s t) \<or>
       hm_get (pending_requests s) seq = Some t \<or>
       (\<exists>rq' t'. t' \<noteq> t \<and> (seq, rq', t') \<in> set (forwarded s))"
  using assms by (auto simp: filter_links_def)

lemma filter_linksI:
  assumes "filter_inv s"
    "\<And>seq rq t k. (seq, rq, t) \<in> set (forwarded s) \<Longrightarrow> (k, t) \<in> set (pending_requests s) \<Longrightarrow> k = seq"
    "\<And>seq rq t. (seq, rq, t) \<in> set (forwarded s) \<Longrightarrow> t \<in> set (cancellable_requests s) \<Longrightarrow> may_be_cancelled rq"
    "\<And>seq rq t. (seq, rq, t) \<in> set (forwarded s) \<Longrightarrow> queue_open s \<Longrightarrow> t \<in> set (in_flight s) \<Longrightarrow>
       \<not> flag (tokens s t) \<Longrightarrow> hm_get (pending_requests s) seq \<noteq> Some t \<Longrightarrow>
       \<exists>rq' t'. t' \<noteq> t \<and> (seq, rq', t') \<in> set (forwarded s)"
  shows "filter_links s"
  using assms unfolding filter_links_def by (fast intro: ballI)

text \<open>A request in flight survives the clean-up under its sequence number.\<close>

lemma prepared_get:
  assumes "filter_inv s" "t \<in> set (in_flight s)" "hm_get (pending_requests s) seq = Some t"
  shows "hm_get (pending_requests (clean_out (open_token s))) seq = Some t"
proof -
  note inv = filter_inv_D [OF assms(1)]
  from inv(4,5) assms(2) have "t \<noteq> next_token s" "receivers (tokens s t) = 1" by auto
  with inv(1) assms(3) show ?thesis
    by (simp add: clean_out_def open_token_def hm_get_retain has_receivers_def receiver_count_def)
qed

lemma filter_links_cancel:
  assumes "filter_links s"
  shows "filter_links (filter_request s seq (Rq_cancel i))"
proof (rule filter_linksI)
  have s: "filter_inv s" using assms by (simp add: filter_links_def)
  note links = filter_links_D [OF assms]
  note inv = filter_inv_D [OF s]
  let ?p = "clean_out (open_token s)"
  let ?c = "filter_request s seq (Rq_cancel i)"
  show "filter_inv ?c" using s by (rule filter_inv_cancel)
  show "k = q" if "(q, rq, t) \<in> set (forwarded ?c)" "(k, t) \<in> set (pending_requests ?c)" for q rq t k
    using that links(1) prepared_pending(1) [of s] cancel_by_id_pending(1) [where i = i and s = ?p]
    by (auto simp: filter_request_cancel)
  show "may_be_cancelled rq"
    if "(q, rq, t) \<in> set (forwarded ?c)" "t \<in> set (cancellable_requests ?c)" for q rq t
    using that links(2) prepared_pending(3) [of s] by (auto simp: filter_request_cancel)
  show "\<exists>rq' t'. t' \<noteq> t \<and> (q, rq', t') \<in> set (forwarded ?c)"
    if fw: "(q, rq, t) \<in> set (forwarded ?c)" and "queue_open ?c" and fl: "t \<in> set (in_flight ?c)"
      and nf: "\<not> flag (tokens ?c t)" and ng: "hm_get (pending_requests ?c) q \<noteq> Some t" for q rq t
  proof -
    have t: "t \<noteq> next_token s" using fl inv(4) by (auto simp: filter_request_cancel)
    with nf have nf': "\<not> flag (tokens s t)"
      and no: "\<And>r. i = Some r \<Longrightarrow> hm_get (pending_requests ?p) (as_u32 r) \<noteq> Some t"
      by (auto simp: filter_request_cancel cancel_by_id_flag)
    have "hm_get (pending_requests s) q \<noteq> Some t"
    proof
      assume "hm_get (pending_requests s) q = Some t"
      with s fl have g: "hm_get (pending_requests ?p) q = Some t"
        by (intro prepared_get) (simp_all add: filter_request_cancel)
      with no have "\<And>r. i = Some r \<Longrightarrow> as_u32 r \<noteq> q" by auto
      with g ng show False
        by (auto simp: filter_request_cancel cancel_by_id_def hashmap cancel_token_def split: option.splits)
    qed
    with links(3) [of q rq t] fw fl nf' \<open>queue_open ?c\<close> show ?thesis
      by (auto simp: filter_request_cancel)
  qed
qed

lemma filter_links_forward:
  assumes "filter_links s" "\<not> is_cancel request"
  shows "filter_links (filter_request s seq request)"
proof (rule filter_linksI)
  have s: "filter_inv s" using assms by (simp add: filter_links_def)
  note links = filter_links_D [OF assms(1)]
  note inv = filter_inv_D [OF s] and prep = prepared_inv [OF s]
  let ?n = "next_token s" and ?p = "clean_out (open_token s)"
  let ?f = "filter_request s seq request"
  have f: "?f = forward_request ?n seq request ?p" using assms(2) by (rule filter_request_forward)
  show "filter_inv ?f" using s assms(2) by (rule filter_inv_forward)
  show "k = q" if "(q, rq, t) \<in> set (forwarded ?f)" "(k, t) \<in> set (pending_requests ?f)" for q rq t k
    using that links(1) [of q rq t k] inv(6) [of q rq t] prep(2) [of k t] prepared_pending(1) [of s]
      set_hm_insert [of seq ?n "pending_requests ?p"]
    by (auto simp: f split: if_splits)
  show "may_be_cancelled rq"
    if "(q, rq, t) \<in> set (forwarded ?f)" "t \<in> set (cancellable_requests ?f)" for q rq t
    using that links(2) [of q rq t] prepared_pending(3) [of s] inv(6) [of q rq t] prep(3) [of t]
    by (auto simp: f split: if_splits)
  show "\<exists>rq' t'. t' \<noteq> t \<and> (q, rq', t') \<in> set (forwarded ?f)"
    if fw: "(q, rq, t) \<in> set (forwarded ?f)" and op: "queue_open ?f" and fl: "t \<in> set (in_flight ?f)"
      and nf: "\<not> flag (tokens ?f t)" and ng: "hm_get (pending_requests ?f) q \<noteq> Some t" for q rq t
  proof (cases "t = ?n")
    case True
    with fw inv(6) [of q rq t] op have "q = seq" by (auto simp: f)
    with True ng show ?thesis by (simp add: f hashmap)
  next
    case False
    with fw fl have fw': "(q, rq, t) \<in> set (forwarded s)" and fl': "t \<in> set (in_flight s)"
      by (auto simp: f split: if_splits)
    show ?thesis
    proof (cases "q = seq")
      case True
      with False op show ?thesis by (auto simp: f)
    next
      case q: False
      with ng have "hm_get (pending_requests s) q \<noteq> Some t"
        using prepared_get [OF s fl'] by (auto simp: f hashmap)
      with links(3) [OF fw'] fl' nf op False show ?thesis by (auto simp: f)
    qed
  qed
qed

lemma filter_links_step: "filter_links s \<Longrightarrow> filter_links (filter_step s e)"
proof (cases e)
  case (FRequest seq rq)
  moreover assume "filter_links s"
  ultimately show ?thesis
    by (cases "is_cancel rq") (auto simp: is_cancel_iff filter_links_cancel filter_links_forward)
next
  case (FDone t)
  assume s: "filter_links s"
  then have "filter_inv (filter_step s e)" by (simp add: filter_links_def filter_inv_step)
  then show ?thesis
  proof (rule filter_linksI)
    show "k = q" if "(q, rq, u) \<in> set (forwarded (filter_step s e))"
      "(k, u) \<in> set (pending_requests (filter_step s e))" for q rq u k
      using that filter_links_D(1) [OF s] by (auto simp: FDone split: if_splits)
    show "may_be_cancelled rq" if "(q, rq, u) \<in> set (forwarded (filter_step s e))"
      "u \<in> set (cancellable_requests (filter_step s e))" for q rq u
      using that filter_links_D(2) [OF s] by (auto simp: FDone split: if_splits)
    show "\<exists>rq' t'. t' \<noteq> u \<and> (q, rq', t') \<in> set (forwarded (filter_step s e))"
      if "(q, rq, u) \<in> set (forwarded (filter_step s e))" "queue_open (filter_step s e)"
        "u \<in> set (in_flight (filter_step s e))" "\<not> flag (tokens (filter_step s e) u)"
        "hm_get (pending_requests (filter_step s e)) q \<noteq> Some u" for q rq u
      using that filter_links_D(3) [OF s, of q rq u] by (simp add: FDone split: if_splits)
  qed
qed (auto simp: filter_links_def filter_inv_def)

interpretation filter_m: started_machine filter_step filter_links filter_init
  by unfold_locales
    (auto simp: filter_links_step, simp add: filter_links_def filter_inv_def filter_init_def sender_new_def)

lemma filter_reachable: "filter_links (run filter_step filter_init es)"
  by (rule filter_m.reachable_inv)

lemma filter_reachable_inv: "filter_inv (run filter_step filter_init es)"
  using filter_reachable by (simp add: filter_links_def)


text \<open>
  What the task puts on the channel: the requests that reach it before either channel closes,
  less the \<open>cancel\<close> requests, each with a token of its own.
\<close>

fun admitted :: "filter_event list \<Rightarrow> (u32 \<times> request) list" where
  "admitted [] = []"
| "admitted (FRequest seq rq # es) = (if is_cancel rq then [] else [(seq, rq)]) @ admitted es"
| "admitted (FLagged n # es) = admitted es"
| "admitted (FDone t # es) = admitted es"
| "admitted (FClosed # es) = []"
| "admitted (FQueueClosed # es) = []"

definition log_of :: "filter_state \<Rightarrow> (u32 \<times> request) list" where
  "log_of s = map (\<lambda>(seq, rq, t). (seq, rq)) (forwarded s)"

lemma log_of_request:
  "queue_open s \<Longrightarrow>
     log_of (filter_request s seq rq) = log_of s @ (if is_cancel rq then [] else [(seq, rq)])"
  "\<not> queue_open s \<Longrightarrow> log_of (filter_request s seq rq) = log_of s"
  "queue_open (filter_request s seq rq) = queue_open s"
  "filter_running (filter_request s seq rq) = filter_running s"
  by (cases "is_cancel rq";
      auto simp: is_cancel_iff filter_request_cancel filter_request_forward log_of_def)+

lemma log_of_keep [simp]:
  "log_of (s\<lparr>filter_running := b\<rparr>) = log_of s" "log_of (s\<lparr>queue_open := b\<rparr>) = log_of s"
  "log_of (update_token t f s) = log_of s" "log_of (s\<lparr>in_flight := ts\<rparr>) = log_of s"
  by (simp_all add: log_of_def)

lemma log_stops:
  "\<not> (filter_running s \<and> queue_open s) \<Longrightarrow> log_of (run filter_step s es) = log_of s"
proof (induction es arbitrary: s)
  case (Cons e es)
  have "\<not> (filter_running (filter_step s e) \<and> queue_open (filter_step s e))"
    using Cons.prems by (cases e) (auto simp: log_of_request)
  moreover have "log_of (filter_step s e) = log_of s"
    using Cons.prems by (cases e) (auto simp: log_of_request)
  ultimately show ?case using Cons.IH by (simp del: filter_step.simps)
qed simp

lemma log_of_run:
  "filter_running s \<Longrightarrow> queue_open s \<Longrightarrow> log_of (run filter_step s es) = log_of s @ admitted es"
proof (induction es arbitrary: s)
  case (Cons e es)
  show ?case
  proof (cases e)
    case (FRequest seq rq)
    with Cons show ?thesis by (simp add: log_of_request)
  next
    case (FDone t)
    have "log_of (filter_step s e) = log_of s" by (simp add: FDone)
    moreover have "filter_running (filter_step s e)" "queue_open (filter_step s e)"
      using Cons.prems by (simp_all add: FDone)
    ultimately show ?thesis using Cons.IH by (simp add: FDone del: filter_step.simps)
  next
    case FClosed
    then show ?thesis by (simp add: log_stops)
  next
    case FQueueClosed
    then show ?thesis by (simp add: log_stops)
  qed (use Cons in simp)
qed simp

section \<open>Properties\<close>

text \<open>
  The receiver count of a token.  As long as receivers are made and dropped by ownership
  (none is cloned, dropped or given a callback once none is alive), the count of a token is
  the number of its live receivers, modulo the width of the counter.
\<close>

theorem token_count:
  assumes "live 0 ops = Some m"
  shows "receiver_count (run token_step sender_new ops) = m mod 2 ^ 16"
proof -
  have "receivers (run token_step sender_new ops) = of_nat m"
    using assms by (rule token_receivers) (simp add: sender_new_def)
  then show ?thesis by (simp add: receiver_count_def unat_of_nat)
qed

theorem token_count_witness:
  "live 0 [Subscribe, CloneReceiver, Send, DropReceiver] = Some 1 \<and>
   receiver_count (run token_step sender_new [Subscribe, CloneReceiver, Send, DropReceiver]) = 1"
  using token_count [of "[Subscribe, CloneReceiver, Send, DropReceiver]" 1] by simp

text \<open>
  Cancellation is sticky.  Once \<open>send\<close> has run, every later observation of the token sees it
  cancelled, whatever is subscribed, dropped or sent in between; and \<open>send\<close> calls exactly the
  callbacks added before it, in order.
\<close>

theorem cancellation_sticky:
  "is_cancelled (run token_step c (ops @ Send # later)) \<and>
   snd (send_cancel (run token_step sender_new ops)) = [f. AddCallback f \<leftarrow> ops]"
proof
  have "flag (run token_step (run token_step c (ops @ [Send])) later)"
    by (rule token_sent.run_inv) (simp add: run_append token_defs)
  then show "is_cancelled (run token_step c (ops @ Send # later))"
    by (simp add: run_append is_cancelled_def)
  have "callbacks (run token_step c' ops) = callbacks c' @ [f. AddCallback f \<leftarrow> ops]" for c'
    by (induction ops arbitrary: c') (auto simp: token_defs split: token_op.split)
  then show "snd (send_cancel (run token_step sender_new ops)) = [f. AddCallback f \<leftarrow> ops]"
    by (simp add: send_cancel_def sender_new_def)
qed

text \<open>
  C29 (resuming cancels the reads of the stopped state).  In every reachable state of the filter,
  a request that resumes or ends the debuggee cancels exactly the \<open>scopes\<close>, \<open>variables\<close> and
  \<open>evaluate\<close> requests that the main loop has not finished with; no other request is touched.
\<close>

theorem resume_cancels_exactly:
  assumes "s = run filter_step filter_init es" "filter_running s" "cancels_others rq"
    and "(seq', rq', t) \<in> set (forwarded s)" "t \<in> set (in_flight s)"
  shows "is_cancelled (tokens (filter_step s (FRequest seq rq)) t) \<longleftrightarrow>
     is_cancelled (tokens s t) \<or> may_be_cancelled rq'"
proof -
  have s: "filter_links s" "filter_inv s"
    using assms(1) filter_reachable filter_reachable_inv by auto
  note links = filter_links_D [OF s(1) assms(4)] and prep = prepared_inv [OF s(2)]
  have rq: "\<not> is_cancel rq" "\<not> may_be_cancelled rq" using assms(3) by (cases rq; simp)+
  have t: "t \<noteq> next_token s" using prep(5) assms(5) by auto
  have "t \<in> set (cancellable_requests (clean_out (open_token s))) \<longleftrightarrow> may_be_cancelled rq'"
    using links(2) prep(4) [OF assms(4,5)] prepared_pending(3) [of s] by auto
  then show ?thesis
    using assms(2,3) rq t by (auto simp: filter_request_forward is_cancelled_def)
qed

theorem resume_cancels_exactly_witness:
  "is_cancelled (tokens (filter_step (run filter_step filter_init
     [FRequest 1 (Rq_variables 7), FRequest 2 Rq_threads]) (FRequest 3 (Rq_continue 1))) 0)"
  by (subst resume_cancels_exactly [OF refl, where seq' = 1 and rq' = "Rq_variables 7"])
    (simp_all add: filter_init_def filter_request_def forward_request_def filter_defs hm_insert_def hm_retain_def)

text \<open>
  C30 (cancel by request id).  While the main loop listens and the client does not reuse sequence
  numbers, a \<open>cancel\<close> request cancels the unfinished request that has the given sequence number
  and no other one, whatever requests and completions came before.
\<close>

theorem cancel_hits_its_request:
  assumes "s = run filter_step filter_init es" "filter_running s" "queue_open s"
    and "\<forall>(q, r, u) \<in> set (forwarded s). \<forall>(q', r', u') \<in> set (forwarded s). q = q' \<longrightarrow> u = u'"
    and "(seq', rq', t) \<in> set (forwarded s)" "t \<in> set (in_flight s)"
  shows "is_cancelled (tokens (filter_step s (FRequest seq (Rq_cancel (Some rid)))) t) \<longleftrightarrow>
     is_cancelled (tokens s t) \<or> as_u32 rid = seq'"
proof -
  have s: "filter_links s" "filter_inv s"
    using assms(1) filter_reachable filter_reachable_inv by auto
  note links = filter_links_D [OF s(1) assms(5)]
  let ?p = "clean_out (open_token s)"
  have t: "t \<noteq> next_token s" using prepared_inv(5) [OF s(2)] assms(6) by auto
  have "hm_get (pending_requests ?p) (as_u32 rid) = Some t \<longrightarrow> as_u32 rid = seq'"
    using links(1) prepared_pending(1) [of s] by (auto dest: hm_get_in_set)
  moreover have "flag (tokens s t) \<or> hm_get (pending_requests ?p) seq' = Some t"
    using links(3) [OF assms(3,6)] prepared_get [OF s(2) assms(6)] assms(4,5) by fastforce
  ultimately show ?thesis
    using assms(2) t by (auto simp: filter_request_cancel is_cancelled_def cancel_by_id_flag)
qed

theorem cancel_hits_its_request_witness:
  "is_cancelled (tokens (filter_step (run filter_step filter_init
     [FRequest 1 (Rq_variables 7), FRequest 2 Rq_threads]) (FRequest 3 (Rq_cancel (Some 2)))) 1)"
  by (subst cancel_hits_its_request [OF refl, where seq' = 2 and rq' = Rq_threads])
    (simp_all add: filter_init_def filter_request_def forward_request_def filter_defs hm_insert_def
      hm_retain_def as_u32_def)

text \<open>
  What the main loop sees.  The filter forwards the requests that reach it before a channel
  closes, in order and once each, except \<open>cancel\<close> requests, which it answers to nobody.
\<close>

theorem forwards_in_order:
  "map (\<lambda>(seq, rq, t). (seq, rq)) (forwarded (run filter_step filter_init es)) = admitted es"
  using log_of_run [of filter_init es] by (simp add: filter_init_def log_of_def)

end
