(* ===== verification/Dap_Session.thy ===== *)
theory Dap_Session
  imports Machines Protocol
begin

text \<open>
  \<open>src/codelldb/src/dap_session.rs\<close>: the dispatcher that numbers outgoing messages, matches the
  client's responses with the reverse requests that wait for them, broadcasts requests and
  events, and answers frames that do not deserialize; and the session handle its users hold.
\<close>

section \<open>State\<close>

text \<open>
  \<open>message_seq\<close> and \<open>waiting\<close> (\<open>pending_requests\<close>) are the dispatcher's variables, \<open>out_queue\<close> the
  channel from the handles, where a reverse request comes with its requester, the sender of a
  one-shot channel named by a number.  The rest are logs: the messages passed to
  \<open>channel.send\<close>, each with its requester if it has one and whether the channel took it, what was
  broadcast, and the results handed to requesters.
\<close>

record dispatcher =
  message_seq :: u32
  waiting :: "(u32, nat) hashmap"
  out_queue :: "(message_type \<times> nat option) list"
  transmitted :: "(message \<times> nat option \<times> bool) list"
  broadcast_requests :: "(u32 \<times> request) list"
  broadcast_events :: "event list"
  delivered :: "(nat \<times> response_body response_result) list"
  dispatching :: bool

definition dispatcher_new :: dispatcher where
  "dispatcher_new = \<lparr>message_seq = 0, waiting = [], out_queue = [], transmitted = [],
     broadcast_requests = [], broadcast_events = [], delivered = [], dispatching = True\<rparr>"

definition out_capacity :: nat where
  "out_capacity = 1000"

section \<open>The dispatcher loop\<close>

text \<open>\<open>message_seq += 1\<close>, and the message passed to the channel.\<close>

definition transmit :: "message_type \<Rightarrow> nat option \<Rightarrow> bool \<Rightarrow> dispatcher \<Rightarrow> dispatcher" where
  "transmit m requester sent_ok s =
     (let seq = message_seq s + 1 in
      s\<lparr>message_seq := seq,
        transmitted := transmitted s @ [(\<lparr>msg_seq = seq, msg_type = m\<rparr>, requester, sent_ok)]\<rparr>)"

definition deliver_response :: "response_body response \<Rightarrow> dispatcher \<Rightarrow> dispatcher" where
  "deliver_response r s =
     (case hm_get (waiting s) (request_seq r) of
        None \<Rightarrow> s
      | Some requester \<Rightarrow>
          s\<lparr>waiting := hm_remove (request_seq r) (waiting s),
            delivered := delivered s @ [(requester, result r)]\<rparr>)"

definition on_message :: "message \<Rightarrow> dispatcher \<Rightarrow> dispatcher" where
  "on_message m s =
     (case msg_type m of
        MRequest request \<Rightarrow> s\<lparr>broadcast_requests := broadcast_requests s @ [(msg_seq m, request)]\<rparr>
      | MEvent event \<Rightarrow> s\<lparr>broadcast_events := broadcast_events s @ [event]\<rparr>
      | MResponse response \<Rightarrow> deliver_response response s)"

text \<open>The sequence number of a value that is not a message, if it has one.\<close>

definition malformed_seq :: "json \<Rightarrow> u64 option" where
  "malformed_seq value =
     (case value of
        JObject obj \<Rightarrow> (case map_of obj ''seq'' of Some (JNumber n) \<Rightarrow> n | _ \<Rightarrow> None)
      | _ \<Rightarrow> None)"

definition malformed_response :: "u64 \<Rightarrow> response_body response" where
  "malformed_response n =
     \<lparr>request_seq = ucast n, success = False, result = ErrorResult [] ''Malformed message'' None\<rparr>"

definition on_serde_error :: "json \<Rightarrow> bool \<Rightarrow> dispatcher \<Rightarrow> dispatcher" where
  "on_serde_error value sent_ok s =
     (case malformed_seq value of
        None \<Rightarrow> s
      | Some n \<Rightarrow> transmit (MResponse (malformed_response n)) None sent_ok s)"

definition on_outgoing :: "message_type \<Rightarrow> nat option \<Rightarrow> bool \<Rightarrow> dispatcher \<Rightarrow> dispatcher" where
  "on_outgoing m requester sent_ok s =
     (let seq = message_seq s + 1;
          s = (case requester of
                 Some r \<Rightarrow> s\<lparr>waiting := hm_insert seq r (waiting s)\<rparr> | None \<Rightarrow> s)
      in transmit m requester sent_ok s)"

text \<open>
  What wakes the loop, with the outcome of the send it leads to; \<open>Submit\<close> is a handle putting a
  message on the queue, which holds \<open>out_capacity\<close> messages.
\<close>

datatype dispatch_event =
    FrameMessage message
  | FrameSerdeError json bool
  | FrameError
  | ClientGone
  | Outgoing bool
  | Submit message_type "nat option"

fun dispatch_step :: "dispatcher \<Rightarrow> dispatch_event \<Rightarrow> dispatcher" where
  "dispatch_step s (FrameMessage m) = (if dispatching s then on_message m s else s)"
| "dispatch_step s (FrameSerdeError v ok) = (if dispatching s then on_serde_error v ok s else s)"
| "dispatch_step s FrameError = s\<lparr>dispatching := False\<rparr>"
| "dispatch_step s ClientGone = s\<lparr>dispatching := False\<rparr>"
| "dispatch_step s (Outgoing ok) =
     (case (if dispatching s then out_queue s else []) of
        [] \<Rightarrow> s
      | (m, requester) # rest \<Rightarrow> on_outgoing m requester ok (s\<lparr>out_queue := rest\<rparr>))"
| "dispatch_step s (Submit m requester) =
     (if dispatching s \<and> length (out_queue s) < out_capacity
      then s\<lparr>out_queue := out_queue s @ [(m, requester)]\<rparr> else s)"

section \<open>The handle\<close>

datatype send_error = QueueFull | SessionGone

definition enqueue :: "message_type \<Rightarrow> nat option \<Rightarrow> dispatcher \<Rightarrow> (send_error, unit) res \<times> dispatcher" where
  "enqueue m requester s =
     (if \<not> dispatching s then (Err SessionGone, s)
      else if out_capacity \<le> length (out_queue s) then (Err QueueFull, s)
      else (Ok (), dispatch_step s (Submit m requester)))"

definition try_send_response :: "response_body response \<Rightarrow> dispatcher \<Rightarrow> (send_error, unit) res \<times> dispatcher" where
  "try_send_response r = enqueue (MResponse r) None"

definition try_send_event :: "event \<Rightarrow> dispatcher \<Rightarrow> (send_error, unit) res \<times> dispatcher" where
  "try_send_event e = enqueue (MEvent e) None"

text \<open>
  The asynchronous \<open>send_response\<close> and \<open>send_event\<close> wait while the queue is full: \<open>None\<close>.
\<close>

definition send_async ::
  "message_type \<Rightarrow> nat option \<Rightarrow> dispatcher \<Rightarrow> ((send_error, unit) res \<times> dispatcher) option" where
  "send_async m requester s =
     (case enqueue m requester s of (Err QueueFull, _) \<Rightarrow> None | r \<Rightarrow> Some r)"

definition send_response where
  "send_response r = send_async (MResponse r) None"

definition send_event where
  "send_event e = send_async (MEvent e) None"

text \<open>
  \<open>send_request\<close> puts the request on the queue with its requester; the future it returns
  resolves with what the dispatcher delivers to that requester.
\<close>

definition send_request :: "request \<Rightarrow> nat \<Rightarrow> dispatcher \<Rightarrow> ((send_error, unit) res \<times> dispatcher) option" where
  "send_request r requester = send_async (MRequest r) (Some requester)"

fun request_outcome :: "response_body response_result \<Rightarrow> (string, response_body) res" where
  "request_outcome (Success body) = Ok body"
| "request_outcome (ErrorResult command message show_user) = Err message"

definition subscribe_requests :: "dispatcher \<Rightarrow> (string, unit) res" where
  "subscribe_requests s = (if dispatching s then Ok () else Err ''DAP session is gone'')"

section \<open>Invariant\<close>

definition requesters :: "(message \<times> nat option \<times> bool) list \<Rightarrow> nat list" where
  "requesters ms = [r. (m, Some r, ok) \<leftarrow> ms]"

definition numbers :: "dispatcher \<Rightarrow> u32 list" where
  "numbers s = map (msg_seq \<circ> fst) (transmitted s)"

text \<open>
  Numbers are consecutive, modulo the width; a waiting entry belongs to a reverse request that
  was passed to the channel under that number; and a requester that got a result, or waits for
  one, is counted once for each request it made.
\<close>

definition dispatch_inv :: "dispatcher \<Rightarrow> bool" where
  "dispatch_inv s \<longleftrightarrow>
     message_seq s = of_nat (length (transmitted s))
     \<and> numbers s = map of_nat [1..<Suc (length (transmitted s))]
     \<and> hm_wf (waiting s)
     \<and> (\<forall>(q, r) \<in> set (waiting s). \<exists>m ok. (m, Some r, ok) \<in> set (transmitted s) \<and> msg_seq m = q)
     \<and> (\<forall>r. count_list (map fst (delivered s)) r + count_list (map snd (waiting s)) r
            \<le> count_list (requesters (transmitted s)) r)"

lemmas dispatch_defs = transmit_def deliver_response_def on_message_def on_serde_error_def
  on_outgoing_def

lemma requesters_append [simp]: "requesters (xs @ ys) = requesters xs @ requesters ys"
  by (simp add: requesters_def)

lemma requesters_single [simp]:
  "requesters [(m, r, ok)] = (case r of None \<Rightarrow> [] | Some r \<Rightarrow> [r])"
  by (simp add: requesters_def split: option.split)

lemma count_remove:
  "hm_wf w \<Longrightarrow> hm_get w q = Some r \<Longrightarrow>
     Suc (count_list (map snd (hm_remove q w)) r) = count_list (map snd w) r
     \<and> (\<forall>r'. r' \<noteq> r \<longrightarrow> count_list (map snd (hm_remove q w)) r' = count_list (map snd w) r')"
proof (induction w)
  case (Cons kv w)
  obtain k v where kv: "kv = (k, v)" by (cases kv)
  show ?case
  proof (cases "k = q")
    case True
    with Cons.prems have "q \<notin> fst ` set w" "v = r"
      by (auto simp: kv hm_wf_def hm_get_def)
    then have "hm_remove q w = w" by (simp add: hm_remove_def delete_id)
    with True \<open>v = r\<close> show ?thesis by (simp add: kv hm_remove_def)
  next
    case False
    with Cons.prems have "hm_wf w" "hm_get w q = Some r" by (auto simp: kv hm_wf_def hm_get_def)
    with Cons.IH False show ?thesis by (auto simp: kv hm_remove_def)
  qed
qed (simp add: hm_get_def)

lemma count_insert:
  "count_list (map snd (hm_insert q r w)) r' \<le> count_list (map snd w) r' + (if r' = r then 1 else 0)"
  by (induction w) (auto simp: hm_insert_def)

lemma dispatch_inv_waiting:
  "dispatch_inv s \<Longrightarrow> (q, r) \<in> set (waiting s) \<Longrightarrow>
     \<exists>m ok. (m, Some r, ok) \<in> set (transmitted s) \<and> msg_seq m = q"
  unfolding dispatch_inv_def by blast

lemma transmit_inv:
  assumes "dispatch_inv s"
    and "waiting s' = (case r of Some r \<Rightarrow> hm_insert (message_seq s + 1) r (waiting s) | None \<Rightarrow> waiting s)"
    and "delivered s' = delivered s" "message_seq s' = message_seq s" "transmitted s' = transmitted s"
  shows "dispatch_inv (transmit m r ok s')"
proof -
  have seq: "message_seq s = of_nat (length (transmitted s))" using assms(1) by (simp add: dispatch_inv_def)
  let ?t = "transmitted s @ [(\<lparr>msg_seq = message_seq s + 1, msg_type = m\<rparr>, r, ok)]"
  have "\<exists>m ok. (m, Some r', ok) \<in> set ?t \<and> msg_seq m = q" if "(q, r') \<in> set (waiting s')" for q r'
  proof -
    have "(q, r') \<in> set (waiting s) \<or> q = message_seq s + 1 \<and> r = Some r'"
      using that assms(2) set_hm_insert [of "message_seq s + 1" _ "waiting s"] by (cases r) auto
    then show ?thesis
    proof
      assume "(q, r') \<in> set (waiting s)"
      from dispatch_inv_waiting [OF assms(1) this] show ?thesis by auto
    qed auto
  qed
  moreover have "hm_wf (waiting s')" using assms(1,2) by (simp add: dispatch_inv_def split: option.split)
  moreover have "count_list (map fst (delivered s)) r' + count_list (map snd (waiting s')) r'
      \<le> count_list (requesters ?t) r'" for r'
  proof (cases r)
    case None
    with assms(1,2) show ?thesis by (simp add: dispatch_inv_def)
  next
    case (Some q)
    have "count_list (map fst (delivered s)) r' + count_list (map snd (waiting s)) r'
        \<le> count_list (requesters (transmitted s)) r'"
      using assms(1) by (simp add: dispatch_inv_def)
    with Some count_insert [of "message_seq s + 1" q "waiting s" r'] assms(2) show ?thesis
      by (cases "q = r'") auto
  qed
  ultimately show ?thesis
    using assms(1,3,4,5) by (auto simp: dispatch_inv_def transmit_def Let_def seq numbers_def)
qed

lemma deliver_inv: "dispatch_inv s \<Longrightarrow> dispatch_inv (deliver_response r s)"
proof (cases "hm_get (waiting s) (request_seq r)")
  case (Some q)
  assume s: "dispatch_inv s"
  then have "hm_wf (waiting s)" by (simp add: dispatch_inv_def)
  note rm = count_remove [OF this Some]
  have "count_list (map fst (delivered s @ [(q, result r)])) r'
      + count_list (map snd (hm_remove (request_seq r) (waiting s))) r'
      \<le> count_list (requesters (transmitted s)) r'" for r'
    using s rm by (cases "r' = q") (auto simp: dispatch_inv_def dest: spec [of _ r'])
  moreover have "\<exists>m ok. (m, Some r', ok) \<in> set (transmitted s) \<and> msg_seq m = k"
    if "(k, r') \<in> set (hm_remove (request_seq r) (waiting s))" for k r'
    using that dispatch_inv_waiting [OF s] set_hm_remove [of "request_seq r" "waiting s"] by blast
  ultimately show ?thesis
    using s Some by (simp add: deliver_response_def dispatch_inv_def numbers_def) fast
qed (simp add: deliver_response_def)

lemma dispatch_inv_step: "dispatch_inv s \<Longrightarrow> dispatch_inv (dispatch_step s e)"
proof (cases e)
  case (FrameMessage m)
  moreover assume "dispatch_inv s"
  ultimately show ?thesis
    by (auto simp: on_message_def deliver_inv split: message_type.split) (auto simp: dispatch_inv_def numbers_def)
next
  case (FrameSerdeError v ok)
  moreover assume "dispatch_inv s"
  ultimately show ?thesis
    by (auto simp: on_serde_error_def intro!: transmit_inv split: option.split)
next
  case (Outgoing ok)
  moreover assume "dispatch_inv s"
  ultimately show ?thesis
    by (auto simp: on_outgoing_def Let_def intro!: transmit_inv [of s] split: list.split option.split)
qed (auto simp: dispatch_inv_def numbers_def)

interpretation dispatch_m: started_machine dispatch_step dispatch_inv dispatcher_new
  by unfold_locales
    (auto simp: dispatch_inv_step, simp add: dispatch_inv_def dispatcher_new_def requesters_def numbers_def)

text \<open>What the queue takes from the handles, and what has been passed on of it.\<close>

fun accepted :: "dispatcher \<Rightarrow> dispatch_event list \<Rightarrow> (message_type \<times> nat option) list" where
  "accepted s [] = []"
| "accepted s (e # es) =
     (case e of
        Submit m r \<Rightarrow> if dispatching s \<and> length (out_queue s) < out_capacity then [(m, r)] else []
      | _ \<Rightarrow> []) @ accepted (dispatch_step s e) es"

fun is_serde_error :: "dispatch_event \<Rightarrow> bool" where
  "is_serde_error (FrameSerdeError v ok) = True"
| "is_serde_error _ = False"

definition passed_on :: "dispatcher \<Rightarrow> (message_type \<times> nat option) list" where
  "passed_on s = map (\<lambda>(m, r, ok). (msg_type m, r)) (transmitted s) @ out_queue s"

lemma passed_on_step:
  "\<not> is_serde_error e \<Longrightarrow> passed_on (dispatch_step s e) = passed_on s @
     (case e of
        Submit m r \<Rightarrow> if dispatching s \<and> length (out_queue s) < out_capacity then [(m, r)] else []
      | _ \<Rightarrow> [])"
  by (cases e) (auto simp: passed_on_def dispatch_defs Let_def
      split: list.split option.split message_type.split)

lemma passed_run:
  "list_all (\<lambda>e. \<not> is_serde_error e) es \<Longrightarrow>
     passed_on (run dispatch_step s es) = passed_on s @ accepted s es"
  by (induction es arbitrary: s) (simp_all add: passed_on_step del: dispatch_step.simps)

section \<open>Properties\<close>

text \<open>
  C32 (numbering).  Whatever the client and the handles do, the n-th message passed to the channel
  has sequence number n, in the width of the counter: numbers start at 1 and are consecutive, over
  responses, events, reverse requests and replies to malformed frames alike.
\<close>

theorem outgoing_numbered:
  "map (msg_seq \<circ> fst) (transmitted (run dispatch_step dispatcher_new es)) =
     map of_nat [1..<Suc (length (transmitted (run dispatch_step dispatcher_new es)))]"
  using dispatch_m.reachable_inv [of es] unfolding dispatch_inv_def numbers_def by blast

text \<open>
  C31 (responses find their requester).  A response from the client is handed to a requester only
  if that requester's own reverse request was passed to the channel under the sequence number the
  response names; the number then waits no longer, so a second response to it is dropped.
\<close>

theorem response_to_requester:
  assumes "s = run dispatch_step dispatcher_new es"
    and "delivered (deliver_response r s) \<noteq> delivered s"
  shows "\<exists>m requester ok.
       delivered (deliver_response r s) = delivered s @ [(requester, result r)]
       \<and> (m, Some requester, ok) \<in> set (transmitted s) \<and> msg_seq m = request_seq r
       \<and> delivered (deliver_response r (deliver_response r s)) = delivered (deliver_response r s)"
proof -
  have "dispatch_inv s" using assms(1) dispatch_m.reachable_inv by simp
  moreover from assms(2) obtain q where q: "hm_get (waiting s) (request_seq r) = Some q"
    by (auto simp: deliver_response_def split: option.splits)
  ultimately obtain m ok where "(m, Some q, ok) \<in> set (transmitted s)" "msg_seq m = request_seq r"
    using hm_get_in_set [OF q] by (fastforce simp: dispatch_inv_def)
  with q show ?thesis by (auto simp: deliver_response_def hashmap)
qed

theorem response_to_requester_witness:
  "\<exists>m requester ok. (m, Some requester, ok) \<in> set (transmitted (run dispatch_step dispatcher_new
       [Submit (MRequest Rq_threads) (Some 5), Outgoing True])) \<and> msg_seq m = 1"
  using response_to_requester [OF refl, where r = "\<lparr>request_seq = 1, success = True, result = Success Rb_goto\<rparr>"
      and es = "[Submit (MRequest Rq_threads) (Some 5), Outgoing True]"]
  by (simp add: dispatcher_new_def dispatch_defs out_capacity_def hm_insert_def hm_get_def)

text \<open>
  At most one answer.  A requester gets no more results than the reverse requests it made.
\<close>

theorem one_result_per_request:
  "count_list (map fst (delivered (run dispatch_step dispatcher_new es))) r
     \<le> count_list (requesters (transmitted (run dispatch_step dispatcher_new es))) r"
  using dispatch_m.reachable_inv [of es] unfolding dispatch_inv_def
  by (meson add_leD1)

text \<open>
  Malformed messages.  A frame that does not deserialize never stops the dispatcher; it is
  answered exactly when the value carries a number, and then by one failure response to that number
  under the next sequence number.
\<close>

theorem malformed_answered:
  assumes "dispatching s"
  shows "dispatching (dispatch_step s (FrameSerdeError v ok)) \<and>
    transmitted (dispatch_step s (FrameSerdeError v ok)) = transmitted s @
      (case malformed_seq v of
         None \<Rightarrow> []
       | Some n \<Rightarrow> [(\<lparr>msg_seq = message_seq s + 1,
             msg_type = MResponse \<lparr>request_seq = ucast n, success = False,
               result = ErrorResult [] ''Malformed message'' None\<rparr>\<rparr>, None, ok)])"
  using assms by (auto simp: on_serde_error_def transmit_def malformed_response_def Let_def split: option.split)

theorem malformed_answered_witness:
  "transmitted (dispatch_step dispatcher_new (FrameSerdeError (JObject [(''seq'', JNumber (Some 4))]) True)) =
     [(\<lparr>msg_seq = 1, msg_type = MResponse \<lparr>request_seq = 4, success = False,
         result = ErrorResult [] ''Malformed message'' None\<rparr>\<rparr>, None, True)]"
  using malformed_answered [of dispatcher_new "JObject [(''seq'', JNumber (Some 4))]" True]
  by (simp add: dispatcher_new_def malformed_seq_def)

text \<open>
  Nothing overtakes.  As long as no malformed frame is answered in between, the messages
  passed to the channel, followed by those still on the queue, are the messages the queue took
  from the handles, in the order it took them.
\<close>

theorem outgoing_in_order:
  assumes "list_all (\<lambda>e. \<not> is_serde_error e) es"
  shows "map (\<lambda>(m, r, ok). (msg_type m, r)) (transmitted (run dispatch_step dispatcher_new es))
      @ out_queue (run dispatch_step dispatcher_new es) = accepted dispatcher_new es"
  using passed_run [OF assms, of dispatcher_new] by (simp add: passed_on_def dispatcher_new_def)

theorem outgoing_in_order_witness:
  "map (\<lambda>(m, r, ok). (msg_type m, r)) (transmitted (run dispatch_step dispatcher_new
       [Submit (MEvent Ev_initialized) None, Submit (MEvent Ev_terminated) None, Outgoing True]))
     @ [(MEvent Ev_terminated, None)] = [(MEvent Ev_initialized, None), (MEvent Ev_terminated, None)]"
  using outgoing_in_order [of "[Submit (MEvent Ev_initialized) None, Submit (MEvent Ev_terminated) None, Outgoing True]"]
  by (simp add: dispatcher_new_def out_capacity_def on_outgoing_def transmit_def)

end
