(* ===== verification/Event_Listener.thy ===== *)
theory Event_Listener
  imports Machines
begin

text \<open>
  \<open>src/codelldb/src/debug_event_listener.rs\<close>: the thread that polls the debugger's listener and
  passes events on, and the cork that drops the events of a launch or restart in progress.
  Corking and uncorking happen on the main thread between two polls, at any point.
\<close>

section \<open>State and operations\<close>

text \<open>
  \<open>Inner\<close> (\<open>corked\<close>, \<open>was_corked\<close>) with the channel the thread sends on: what is queued, how much
  it holds and whether the receiver is gone.  \<open>passed\<close> is the log of the events sent on it.
\<close>

record 'ev listener =
  corked :: bool
  was_corked :: bool
  channel :: "'ev list"
  channel_capacity :: nat
  receiver_gone :: bool
  polling :: bool
  passed :: "'ev list"

definition listener_new :: "nat \<Rightarrow> 'ev listener" where
  "listener_new capacity = \<lparr>corked = False, was_corked = False, channel = [],
     channel_capacity = capacity, receiver_gone = False, polling = True, passed = []\<rparr>"

definition cork :: "'ev listener \<Rightarrow> 'ev listener" where
  "cork s = s\<lparr>corked := True, was_corked := True\<rparr>"

definition uncork :: "'ev listener \<Rightarrow> 'ev listener" where
  "uncork s = s\<lparr>corked := False\<rparr>"

datatype try_send_result = SendOk | SendFull | SendClosed

definition try_send :: "'ev \<Rightarrow> 'ev listener \<Rightarrow> try_send_result \<times> 'ev listener" where
  "try_send e s =
     (if receiver_gone s then (SendClosed, s)
      else if channel_capacity s \<le> length (channel s) then (SendFull, s)
      else (SendOk, s\<lparr>channel := channel s @ [e], passed := passed s @ [e]\<rparr>))"

text \<open>
  One turn of the loop, from the return of \<open>wait_for_event\<close>: \<open>received\<close> is the event it got, if
  any.  The receiver may go away between the check and the send (\<open>dropped\<close>).
\<close>

definition poll :: "'ev option \<Rightarrow> bool \<Rightarrow> 'ev listener \<Rightarrow> 'ev listener" where
  "poll received dropped s =
     (if \<not> polling s then s
      else if receiver_gone s then s\<lparr>polling := False\<rparr>
      else
        let s = s\<lparr>receiver_gone := dropped\<rparr> in
        case (if was_corked s then None else received) of
          None \<Rightarrow> s\<lparr>was_corked := corked s\<rparr>
        | Some e \<Rightarrow>
            (case try_send e s of
               (SendClosed, s) \<Rightarrow> s\<lparr>polling := False\<rparr>
             | (_, s) \<Rightarrow> s\<lparr>was_corked := corked s\<rparr>))"

datatype 'ev listener_op =
    Cork
  | Uncork
  | Poll "'ev option" bool
  | Recv
  | DropRecv

fun listener_step :: "'ev listener \<Rightarrow> 'ev listener_op \<Rightarrow> 'ev listener" where
  "listener_step s Cork = cork s"
| "listener_step s Uncork = uncork s"
| "listener_step s (Poll received dropped) = poll received dropped s"
| "listener_step s Recv = s\<lparr>channel := tl (channel s)\<rparr>"
| "listener_step s DropRecv = s\<lparr>receiver_gone := True\<rparr>"

section \<open>What corking promises\<close>

text \<open>
  The promise in terms of the history alone: whether the listener is corked after \<open>ops\<close>, and
  whether it was corked at any time since the last poll.
\<close>

fun corked_after :: "bool \<Rightarrow> 'ev listener_op list \<Rightarrow> bool" where
  "corked_after b [] = b"
| "corked_after b (Cork # ops) = corked_after True ops"
| "corked_after b (Uncork # ops) = corked_after False ops"
| "corked_after b (_ # ops) = corked_after b ops"

fun is_poll :: "'ev listener_op \<Rightarrow> bool" where
  "is_poll (Poll r d) = True"
| "is_poll _ = False"

fun is_cork :: "'ev listener_op \<Rightarrow> bool" where
  "is_cork Cork = True"
| "is_cork _ = False"

lemmas listener_defs = cork_def uncork_def poll_def try_send_def

lemma poll_corked [simp]: "corked (poll r d s) = corked s"
  by (auto simp: listener_defs Let_def split: option.splits)

lemma corked_run: "corked (run listener_step s ops) = corked_after (corked s) ops"
proof (induction ops arbitrary: s)
  case (Cons op ops)
  then show ?case by (cases op) (simp_all add: cork_def uncork_def)
qed simp

lemma was_corked_run:
  "\<forall>op \<in> set ops. \<not> is_poll op \<Longrightarrow>
     was_corked (run listener_step s ops) \<longleftrightarrow> was_corked s \<or> (\<exists>op \<in> set ops. is_cork op)"
proof (induction ops arbitrary: s)
  case (Cons op ops)
  then show ?case by (cases op) (simp_all add: cork_def uncork_def)
qed simp

lemma poll_was_corked: "polling (poll r d s) \<Longrightarrow> was_corked (poll r d s) = corked s"
  by (auto simp: listener_defs Let_def split: option.splits if_splits)

text \<open>The listener is never corked without the sticky copy being set.\<close>

definition cork_inv :: "'ev listener \<Rightarrow> bool" where
  "cork_inv s \<longleftrightarrow> (corked s \<longrightarrow> was_corked s) \<and> length (channel s) \<le> channel_capacity s"

interpretation listener_m: started_machine listener_step cork_inv "listener_new n" for n
proof (unfold_locales, goal_cases)
  case (1 s e)
  then show ?case
    by (cases e) (auto simp: cork_inv_def listener_defs Let_def split: option.splits if_splits)
qed (simp add: cork_inv_def listener_new_def)

lemma channel_bounded: "length (channel (run listener_step (listener_new n) ops)) \<le> n"
proof -
  have "channel_capacity (run listener_step s ops) = channel_capacity s" for s
  proof (induction ops arbitrary: s)
    case (Cons op ops)
    have "channel_capacity (listener_step s op) = channel_capacity s"
      by (cases op) (auto simp: listener_defs Let_def split: option.splits if_splits)
    with Cons.IH show ?case by simp
  qed simp
  with listener_m.reachable_inv [of n ops] show ?thesis by (simp add: cork_inv_def listener_new_def)
qed

section \<open>Property\<close>

text \<open>
  C38 (corking).  Take any history up to and including a poll, any operations \<open>mid\<close> of the main
  thread after it, and the next poll: while the receiver is there and the channel has room, the
  event of that poll is passed on exactly when the listener was not corked at any time between
  the two polls - neither still corked at the first nor corked and perhaps uncorked since.
\<close>

theorem cork_drops_exactly:
  assumes "s = run listener_step (listener_new n) (pre @ Poll r0 d0 # mid)"
    and "\<forall>op \<in> set mid. \<not> is_poll op"
    and "polling s" "\<not> receiver_gone s" "length (channel s) < channel_capacity s"
  shows "passed (listener_step s (Poll (Some e) False)) =
     passed s @ (if corked_after False pre \<or> (\<exists>op \<in> set mid. is_cork op) then [] else [e])"
proof -
  let ?s0 = "run listener_step (listener_new n) pre"
  have s: "s = run listener_step (poll r0 d0 ?s0) mid"
    using assms(1) by (simp add: run_append)
  have "polling (run listener_step u mid) = polling u" for u :: "'a listener"
    using assms(2)
  proof (induction mid arbitrary: u)
    case (Cons op ops)
    then show ?case by (cases op) (simp_all add: cork_def uncork_def)
  qed simp
  with assms(3) s have "polling (poll r0 d0 ?s0)" by simp
  then have "was_corked (poll r0 d0 ?s0) = corked ?s0" by (rule poll_was_corked)
  then have "was_corked s \<longleftrightarrow> corked_after False pre \<or> (\<exists>op \<in> set mid. is_cork op)"
    by (simp add: s was_corked_run [OF assms(2)] corked_run) (simp add: listener_new_def)
  with assms(3,4,5) show ?thesis by (auto simp: poll_def try_send_def Let_def)
qed

theorem cork_drops_exactly_witness:
  "passed (listener_step (run listener_step (listener_new 2) ([Cork] @ Poll None False # [Uncork]))
     (Poll (Some (1::nat)) False)) = []"
  by (subst cork_drops_exactly [OF refl])
    (simp_all add: listener_new_def listener_defs)

end
