(* ===== verification/Disassembly.thy ===== *)
theory Disassembly
  imports Machines Errors
begin

text \<open>
  \<open>src/codelldb/src/disassembly.rs\<close>: the table of disassembled ranges, which the client knows by
  handle and the stack trace looks up by address, and the text the client shows for a range, whose
  lines stand for instruction addresses.
\<close>

section \<open>What is asked of LLDB\<close>

text \<open>
  LLDB's objects are named by numbers; the functions are the methods of its API the code calls, at
  the moment of the call.  An \<open>SBInstructionList\<close> is the list of its instructions.
\<close>

record dasm_api =
  addr_from_load :: "u64 \<Rightarrow> nat"
  addr_load :: "nat \<Rightarrow> u64"
  addr_symbol :: "nat \<Rightarrow> nat option"
  addr_line_entry :: "nat \<Rightarrow> nat option"
  symbol_start :: "nat \<Rightarrow> nat"
  symbol_end :: "nat \<Rightarrow> nat"
  symbol_instructions :: "nat \<Rightarrow> nat list"
  symbol_name :: "nat \<Rightarrow> string"
  symbol_display_name :: "nat \<Rightarrow> string"
  symbol_mangled_name :: "nat \<Rightarrow> string"
  entry_path :: "nat \<Rightarrow> string"
  entry_filename :: "nat \<Rightarrow> string"
  entry_line :: "nat \<Rightarrow> u32"
  entry_column :: "nat \<Rightarrow> u32"
  disassembly_flavor :: "string option"
  read_instructions :: "nat \<Rightarrow> u32 \<Rightarrow> string option \<Rightarrow> nat list"
  get_instructions :: "nat \<Rightarrow> u8 list \<Rightarrow> string option \<Rightarrow> nat list"
  instr_address :: "nat \<Rightarrow> nat"
  instr_byte_size :: "nat \<Rightarrow> nat"
  instr_data :: "nat \<Rightarrow> u8 list option"
  instr_mnemonic :: "nat \<Rightarrow> string"
  instr_operands :: "nat \<Rightarrow> string"
  instr_comment :: "nat \<Rightarrow> string"
  target_triple :: string
  process_read_memory :: "u64 \<Rightarrow> nat \<Rightarrow> u8 list option"

section \<open>Ranges\<close>

record dasm_range =
  dr_handle :: i64
  dr_start_addr :: nat
  dr_start :: u64
  dr_end :: u64
  dr_source_name :: string
  dr_instructions :: "nat list"
  dr_addresses :: "u64 list"

record ranges =
  by_handle :: "(i64, dasm_range) hashmap"
  by_address :: "dasm_range list"

definition ranges_new :: ranges where
  "ranges_new = \<lparr>by_handle = [], by_address = []\<rparr>"

definition range_contains :: "dasm_range \<Rightarrow> u64 \<Rightarrow> bool" where
  "range_contains d a = (dr_start d \<le> a \<and> a < dr_end d)"

definition find_by_handle :: "ranges \<Rightarrow> i64 \<Rightarrow> dasm_range option" where
  "find_by_handle t h = hm_get (by_handle t) h"

definition find_by_address :: "ranges \<Rightarrow> u64 \<Rightarrow> dasm_range option" where
  "find_by_address t a =
     (let idx = partition_point_vec (\<lambda>d. dr_start d \<le> a) (by_address t) in
      if 0 < idx then
        (let d = by_address t ! (idx - 1) in if range_contains d a then Some d else None)
      else None)"

definition insert_at :: "nat \<Rightarrow> 'a \<Rightarrow> 'a list \<Rightarrow> 'a list" where
  "insert_at i x xs = take i xs @ x # drop i xs"

text \<open>\<open>{:x}\<close>: lower-case hexadecimal.\<close>

definition lower_hex :: "nat \<Rightarrow> string" where
  "lower_hex n = map (\<lambda>c. if is_digit c then c else char_of ((of_char c :: nat) + 32)) (show_hex n)"

definition range_source_name :: "dasm_api \<Rightarrow> nat \<Rightarrow> u64 \<Rightarrow> u64 \<Rightarrow> string" where
  "range_source_name api start_addr start_load end_load =
     (case addr_symbol api start_addr of
        Some symbol \<Rightarrow> CHR ''@'' # symbol_name api symbol
      | None \<Rightarrow> CHR ''@'' # lower_hex (unat start_load) @ ''..'' @ lower_hex (unat end_load))"

definition add_range :: "dasm_api \<Rightarrow> nat \<Rightarrow> nat \<Rightarrow> nat list \<Rightarrow> ranges \<Rightarrow> dasm_range \<times> ranges" where
  "add_range api start_addr end_addr instructions t =
     (let handle = wrap_i64 (int (length (by_handle t)) + 1000);
          start_load = addr_load api start_addr;
          end_load = addr_load api end_addr;
          dasm = \<lparr>dr_handle = handle, dr_start_addr = start_addr, dr_start = start_load, dr_end = end_load,
                  dr_source_name = range_source_name api start_addr start_load end_load,
                  dr_instructions = instructions,
                  dr_addresses = map (addr_load api \<circ> instr_address api) instructions\<rparr>;
          idx = partition_point_vec (\<lambda>d. dr_start d < start_load) (by_address t)
      in (dasm, \<lparr>by_handle = hm_insert handle dasm (by_handle t),
                 by_address = insert_at idx dasm (by_address t)\<rparr>))"

definition no_symbol_instructions :: u32 where
  "no_symbol_instructions = 32"

text \<open>The range to disassemble for an address: of its symbol, or a few instructions from it on.\<close>

definition range_of_address :: "dasm_api \<Rightarrow> u64 \<Rightarrow> nat \<times> nat \<times> nat list" where
  "range_of_address api load_addr =
     (let addr = addr_from_load api load_addr in
      case addr_symbol api addr of
        Some symbol \<Rightarrow> (symbol_start api symbol, symbol_end api symbol, symbol_instructions api symbol)
      | None \<Rightarrow>
          (let instructions =
             read_instructions api addr (no_symbol_instructions + 1) (disassembly_flavor api) in
           (addr, if instructions \<noteq> [] then instr_address api (last instructions) else addr, instructions)))"

definition from_address :: "dasm_api \<Rightarrow> u64 \<Rightarrow> (ranges, 'f error, dasm_range) stm" where
  "from_address api load_addr t =
     (case find_by_address t load_addr of
        Some d \<Rightarrow> (Ok d, t)
      | None \<Rightarrow>
          (let (start_addr, end_addr, instructions) = range_of_address api load_addr in
           if instructions \<noteq> [] then
             (let (d, t') = add_range api start_addr end_addr instructions t in (Ok d, t'))
           else (Err (StrError ''Can't read instructions at that address.''), t)))"

section \<open>Lines\<close>

definition line_num_by_address :: "dasm_range \<Rightarrow> u64 \<Rightarrow> u32" where
  "line_num_by_address d a = of_nat (partition_point_vec (\<lambda>x. x < a) (dr_addresses d)) + 3"

text \<open>\<open>line as usize - 3\<close> wraps below 3, to an index that is out of bounds.\<close>

definition address_by_line_num :: "dasm_range \<Rightarrow> u32 \<Rightarrow> ('e, u64) res" where
  "address_by_line_num d line =
     (if unat line < 3 then Panic else index (dr_addresses d) (unat line - 3))"

record adapter_data =
  ad_start :: u64
  ad_end :: u64
  ad_line_offsets :: "u32 list"

fun gaps :: "u64 list \<Rightarrow> u32 list" where
  "gaps (a # b # r) = ucast (b - a) # gaps (b # r)"
| "gaps _ = []"

definition adapter_data :: "dasm_range \<Rightarrow> adapter_data" where
  "adapter_data d = \<lparr>ad_start = dr_start d, ad_end = dr_end d, ad_line_offsets = gaps (dr_addresses d)\<rparr>"

fun scan_offsets :: "u64 \<Rightarrow> u32 list \<Rightarrow> u64 list" where
  "scan_offsets a [] = []"
| "scan_offsets a (d # ds) = (a + ucast d) # scan_offsets (a + ucast d) ds"

definition lines_from_adapter_data :: "adapter_data \<Rightarrow> u64 list" where
  "lines_from_adapter_data ad = replicate 4 (ad_start ad) @ scan_offsets (ad_start ad) (ad_line_offsets ad)"

section \<open>Source text\<close>

text \<open>
  The bytes of an instruction, at most \<open>n\<close> of them, and a mark if there are more.  Padding
  counts characters; what is padded is ASCII.
\<close>

fun dump_bytes :: "nat \<Rightarrow> u8 list \<Rightarrow> string" where
  "dump_bytes n [] = []"
| "dump_bytes n (b # bs) =
     (case n of 0 \<Rightarrow> ''>'' | Suc m \<Rightarrow> show_byte b @ CHR '' '' # dump_bytes m bs)"

definition newline :: char where
  "newline = CHR 0x0A"

definition header_lines :: "dasm_api \<Rightarrow> dasm_range \<Rightarrow> string list" where
  "header_lines api d =
     [''; Symbol: '' @
        (case addr_symbol api (dr_start_addr d) of
           Some symbol \<Rightarrow> symbol_display_name api symbol @
             (let mangled = symbol_mangled_name api symbol in
              if mangled \<noteq> [] then '', mangled name='' @ mangled else [])
         | None \<Rightarrow> ''no symbol info''),
      ''; Source: '' @
        (case addr_line_entry api (dr_start_addr d) of
           Some le \<Rightarrow> entry_path api le @ CHR '':'' # show_nat (unat (entry_line api le))
         | None \<Rightarrow> ''unknown'')]"

definition instruction_line :: "dasm_api \<Rightarrow> nat \<Rightarrow> nat \<Rightarrow> string" where
  "instruction_line api max_instr_bytes instr =
     (let load_addr = addr_load api (instr_address api instr);
          dump = (case instr_data api instr of Some bs \<Rightarrow> dump_bytes max_instr_bytes bs | None \<Rightarrow> []);
          comment = instr_comment api instr;
          comment_sep = (if comment = [] then [] else ''  ; '')
      in pad_zero 8 (show_hex (unat load_addr)) @ '': '' @ pad_right (max_instr_bytes * 3 + 2) dump
         @ '' '' @ pad_right 6 (instr_mnemonic api instr) @ '' '' @ instr_operands api instr
         @ comment_sep @ comment)"

definition get_source_text :: "dasm_api \<Rightarrow> nat \<Rightarrow> dasm_range \<Rightarrow> string" where
  "get_source_text api max_instr_bytes d =
     concat (map (\<lambda>l. l @ [newline])
       (header_lines api d @ map (instruction_line api max_instr_bytes) (dr_instructions d)))"

section \<open>The table invariant\<close>

definition table_limit :: nat where
  "table_limit = 2 ^ 62"

text \<open>
  The table is sorted by start address, and, as long as it has fewer than \<open>table_limit\<close> entries,
  handles are consecutive from 1000 and name the range they belong to.
\<close>

definition table_inv :: "ranges \<Rightarrow> bool" where
  "table_inv t \<longleftrightarrow>
     sorted (map dr_start (by_address t))
     \<and> (length (by_handle t) < table_limit \<longrightarrow>
          hm_wf (by_handle t)
          \<and> hm_keys (by_handle t) = {1000..<1000 + int (length (by_handle t))}
          \<and> (\<forall>(h, d) \<in> set (by_handle t). dr_handle d = h)
          \<and> (\<forall>d \<in> set (by_address t). (dr_handle d, d) \<in> set (by_handle t)))"

lemma wrap_small: "0 \<le> x \<Longrightarrow> x < 2 ^ 63 \<Longrightarrow> wrap_i64 x = x"
  unfolding wrap_i64_def by (rule signed_take_bit_int_eq_self) simp_all

lemma insert_at_sorted:
  assumes "sorted (map dr_start ds)"
  shows "sorted (map dr_start (insert_at (partition_point_vec (\<lambda>d. dr_start d < dr_start x) ds) x ds))"
proof -
  let ?P = "\<lambda>d. dr_start d < dr_start x"
  have sp: "take (partition_point_vec ?P ds) ds = takeWhile ?P ds"
    "drop (partition_point_vec ?P ds) ds = dropWhile ?P ds"
    by (simp_all add: partition_point_vec_def takeWhile_eq_take [symmetric] dropWhile_eq_drop [symmetric])
  have "dr_start x \<le> dr_start d" if "d \<in> set (dropWhile ?P ds)" for d
  proof -
    from that have ne: "dropWhile ?P ds \<noteq> []" by (rule length_pos_if_in_set [THEN length_greater_0_conv [THEN iffD1]])
    then obtain e r where er: "dropWhile ?P ds = e # r" using list.exhaust by blast
    have "\<not> ?P e" using hd_dropWhile [OF ne] by (simp only: er list.sel(1)) simp
    moreover have "sorted (map dr_start (e # r))"
      using assms er by (metis map_append sorted_append takeWhile_dropWhile_id)
    ultimately show ?thesis using that er by auto
  qed
  moreover have "\<forall>d \<in> set (takeWhile ?P ds). dr_start d < dr_start x"
    by (auto dest: set_takeWhileD)
  moreover have "sorted (map dr_start (takeWhile ?P ds))" "sorted (map dr_start (dropWhile ?P ds))"
    using assms by (metis map_append sorted_append takeWhile_dropWhile_id)+
  ultimately show ?thesis
    unfolding insert_at_def sp by (fastforce simp: sorted_append)
qed

lemma set_insert_at [simp]: "set (insert_at i x xs) = insert x (set xs)"
  unfolding insert_at_def by (metis Un_insert_right append_take_drop_id list.simps(15) set_append)

lemma hm_insert_fresh: "k \<notin> hm_keys m \<Longrightarrow> hm_insert k v m = m @ [(k, v)]"
  by (induction m) (auto simp: hm_insert_def hm_keys_def)

lemma hm_insert_length: "length m \<le> length (hm_insert k v m)"
  by (induction m) (auto simp: hm_insert_def)

lemma add_range_inv:
  assumes t: "table_inv t" and add: "add_range api a b ins t = (d, t')"
  shows "table_inv t'"
    "length (by_handle t') < table_limit \<Longrightarrow> by_handle t' = by_handle t @ [(dr_handle d, d)]"
    "length (by_handle t) \<le> length (by_handle t')"
proof -
  from add have t': "by_handle t' = hm_insert (dr_handle d) d (by_handle t)"
    and addr: "by_address t' = insert_at (partition_point_vec (\<lambda>x. dr_start x < dr_start d) (by_address t)) d (by_address t)"
    and h: "dr_handle d = wrap_i64 (int (length (by_handle t)) + 1000)"
    by (auto simp: add_range_def Let_def)
  show len: "length (by_handle t) \<le> length (by_handle t')" by (simp add: t' hm_insert_length)
  have small: "dr_handle d = 1000 + int (length (by_handle t)) \<and> by_handle t' = by_handle t @ [(dr_handle d, d)]"
    if "length (by_handle t') < table_limit"
  proof -
    from that len have "length (by_handle t) < table_limit" by simp
    then have "dr_handle d = 1000 + int (length (by_handle t))"
      unfolding h by (subst wrap_small) (auto simp: table_limit_def)
    moreover from this t \<open>length (by_handle t) < table_limit\<close> have "dr_handle d \<notin> hm_keys (by_handle t)"
      by (simp add: table_inv_def)
    ultimately show ?thesis by (simp add: t' hm_insert_fresh)
  qed
  then show "length (by_handle t') < table_limit \<Longrightarrow> by_handle t' = by_handle t @ [(dr_handle d, d)]" by simp
  have "sorted (map dr_start (by_address t'))"
    using t by (simp add: addr table_inv_def insert_at_sorted)
  moreover have "hm_wf (by_handle t') \<and> hm_keys (by_handle t') = {1000..<1000 + int (length (by_handle t'))}
      \<and> (\<forall>(h, d) \<in> set (by_handle t'). dr_handle d = h)
      \<and> (\<forall>d \<in> set (by_address t'). (dr_handle d, d) \<in> set (by_handle t'))"
    if "length (by_handle t') < table_limit"
    using t small [OF that] that by (auto simp: table_inv_def addr hm_wf_def hm_keys_def)
  ultimately show "table_inv t'" by (simp add: table_inv_def)
qed


text \<open>Looking up or adding a range, as a machine over the addresses asked for.\<close>

fun dasm_step :: "ranges \<Rightarrow> dasm_api \<times> u64 \<Rightarrow> ranges" where
  "dasm_step t (api, a) = snd (from_address api a t :: (unit error, dasm_range) res \<times> ranges)"

lemma from_address_cases:
  assumes "from_address api a t = r"
  obtains (found) d where "find_by_address t a = Some d" "r = (Ok d, t)"
  | (failed) e where "r = (Err e, t)"
  | (added) d t' b c ins where "r = (Ok d, t')" "add_range api b c ins t = (d, t')"
proof (cases "find_by_address t a")
  case None
  obtain b c ins where r: "range_of_address api a = (b, c, ins)" by (metis prod_cases3)
  show ?thesis
  proof (cases "ins = []")
    case True
    show ?thesis by (rule failed) (use None r True in \<open>simp add: from_address_def flip: assms\<close>)
  next
    case False
    obtain d t' where "add_range api b c ins t = (d, t')" by (cases "add_range api b c ins t")
    then show ?thesis
      by (intro added) (use None r False in \<open>simp_all add: from_address_def flip: assms\<close>)
  qed
qed (rule found, assumption, simp add: from_address_def flip: assms)

lemma dasm_step_disj:
  "dasm_step t (api, a) = t \<or> (\<exists>b c ins d. add_range api b c ins t = (d, dasm_step t (api, a)))"
proof -
  have "from_address api a t = (from_address api a t :: (unit error, dasm_range) res \<times> ranges)" ..
  then show ?thesis by (rule from_address_cases) auto
qed

lemma dasm_step_cases:
  obtains (same) "dasm_step t (api, a) = t"
  | (added) d b c ins where "add_range api b c ins t = (d, dasm_step t (api, a))"
  using dasm_step_disj [of t api a] by blast

declare dasm_step.simps [simp del]

lemma dasm_step_inv: "table_inv t \<Longrightarrow> table_inv (dasm_step t e)"
proof -
  assume t: "table_inv t"
  obtain api a where e: "e = (api, a)" by (cases e)
  show ?thesis unfolding e
    by (rule dasm_step_cases [of t api a]) (use t add_range_inv(1) in auto)
qed

interpretation dasm_m: started_machine dasm_step table_inv ranges_new
  by unfold_locales (auto simp: dasm_step_inv, simp add: table_inv_def ranges_new_def)

text \<open>Entries are only added at the end, as long as the table stays below its limit.\<close>

lemma dasm_run_grows:
  assumes "table_inv t"
  shows "length (by_handle t) \<le> length (by_handle (run dasm_step t calls)) \<and>
    (length (by_handle (run dasm_step t calls)) < table_limit \<longrightarrow>
       (\<exists>r. by_handle (run dasm_step t calls) = by_handle t @ r))"
  using assms
proof (induction calls arbitrary: t)
  case (Cons e calls)
  obtain api a where e: "e = (api, a)" by (cases e)
  have one: "length (by_handle t) \<le> length (by_handle (dasm_step t e)) \<and>
    (length (by_handle (dasm_step t e)) < table_limit \<longrightarrow> (\<exists>r. by_handle (dasm_step t e) = by_handle t @ r))"
  proof (cases rule: dasm_step_cases [of t api a])
    case (added d b c ins)
    from add_range_inv(2,3) [OF Cons.prems added] show ?thesis by (auto simp: e)
  qed (simp add: e)
  from Cons.IH [OF dasm_step_inv [OF Cons.prems, of e]] one show ?case by fastforce
qed simp

lemma table_inv_get:
  "table_inv t \<Longrightarrow> length (by_handle t) < table_limit \<Longrightarrow> d \<in> set (by_address t) \<Longrightarrow>
     find_by_handle t (dr_handle d) = Some d"
  by (simp add: table_inv_def find_by_handle_def hm_get_iff)

lemma find_by_address_Some:
  "find_by_address t a = Some d \<Longrightarrow> d \<in> set (by_address t) \<and> range_contains d a"
  using partition_point_vec_le [of "\<lambda>d. dr_start d \<le> a" "by_address t"]
  by (auto simp: find_by_address_def Let_def split: if_splits)

lemma add_range_table: "add_range api b c ins t = (d, t') \<Longrightarrow> d \<in> set (by_address t')"
  by (auto simp: add_range_def Let_def)

lemma from_address_in_table:
  "from_address api a t = (Ok d, t') \<Longrightarrow> d \<in> set (by_address t')"
  by (erule from_address_cases) (auto simp: find_by_address_Some add_range_table)

section \<open>Properties of the table\<close>

definition disjoint_ranges :: "dasm_range list \<Rightarrow> bool" where
  "disjoint_ranges ds \<longleftrightarrow> list_all (\<lambda>d. dr_start d < dr_end d) ds
     \<and> sorted_wrt (\<lambda>d e. dr_end d \<le> dr_start e \<or> dr_end e \<le> dr_start d) ds"

text \<open>
  C35 (lookup by address).  After any sequence of lookups, whatever order ranges were added in, if
  the ranges of the table are not empty and do not overlap, \<open>find_by_address\<close> finds the range that
  contains an address if there is one, and nothing otherwise.
\<close>

theorem find_by_address_correct:
  assumes "t = run dasm_step ranges_new calls" "disjoint_ranges (by_address t)"
  shows "find_by_address t a = Some d \<longleftrightarrow> d \<in> set (by_address t) \<and> range_contains d a"
proof
  let ?ds = "by_address t" and ?P = "\<lambda>d. dr_start d \<le> a"
  let ?k = "partition_point_vec ?P ?ds"
  have sorted: "sorted (map dr_start ?ds)"
    using dasm_m.reachable_inv [of calls] assms(1) by (simp add: table_inv_def)
  assume d: "d \<in> set ?ds \<and> range_contains d a"
  then obtain j where j: "j < length ?ds" "?ds ! j = d" by (auto simp: in_set_conv_nth)
  have le: "dr_start (?ds ! i) \<le> dr_start (?ds ! i')" if "i \<le> i'" "i' < length ?ds" for i i'
    using sorted_nth_mono [OF sorted that(1)] that by simp
  have iff: "?P (?ds ! i) \<longleftrightarrow> i < ?k" if "i < length ?ds" for i
    by (rule partition_point_vec_iff) (use that le in \<open>auto intro: order_trans\<close>)
  have jk: "j < ?k" using iff [OF j(1)] j(2) d by (simp add: range_contains_def)
  have kl: "?k \<le> length ?ds" by (rule partition_point_vec_le)
  have "j = ?k - 1"
  proof (rule ccontr)
    assume "j \<noteq> ?k - 1"
    with jk kl have l: "j < ?k - 1" "?k - 1 < length ?ds" by auto
    let ?e = "?ds ! (?k - 1)"
    have "dr_end d \<le> dr_start ?e \<or> dr_end ?e \<le> dr_start d"
      using sorted_wrt_nth_less [of _ ?ds j "?k - 1"] assms(2) l j(2)
      unfolding disjoint_ranges_def by blast
    moreover have "dr_start d \<le> dr_start ?e" using le [of j "?k - 1"] l j by simp
    moreover have "dr_start ?e < dr_end ?e" using assms(2) l(2) by (simp add: disjoint_ranges_def list_all_length)
    moreover have "dr_start ?e \<le> a" using iff [OF l(2)] l by simp
    ultimately show False using d by (auto simp: range_contains_def)
  qed
  with d j jk show "find_by_address t a = Some d" by (auto simp: find_by_address_def Let_def)
qed (rule find_by_address_Some)

text \<open>A small LLDB for the witnesses: addresses are themselves, instructions are one byte long.\<close>

definition tiny_api :: dasm_api where
  "tiny_api = \<lparr>addr_from_load = unat, addr_load = of_nat, addr_symbol = (\<lambda>a. Some (a div 8)),
     addr_line_entry = (\<lambda>_. None), symbol_start = (\<lambda>y. 8 * y), symbol_end = (\<lambda>y. 8 * y + 4),
     symbol_instructions = (\<lambda>y. [8 * y, 8 * y + 2]), symbol_name = (\<lambda>_. ''f''),
     symbol_display_name = (\<lambda>_. ''f()''), symbol_mangled_name = (\<lambda>_. ''_Zf''),
     entry_path = (\<lambda>_. []), entry_filename = (\<lambda>_. []), entry_line = (\<lambda>_. 0), entry_column = (\<lambda>_. 0),
     disassembly_flavor = None, read_instructions = (\<lambda>_ _ _. []), get_instructions = (\<lambda>_ _ _. []),
     instr_address = id, instr_byte_size = (\<lambda>_. 2), instr_data = (\<lambda>_. Some [1, 2]),
     instr_mnemonic = (\<lambda>_. ''nop''), instr_operands = (\<lambda>_. []), instr_comment = (\<lambda>_. []),
     target_triple = ''x86_64-linux'', process_read_memory = (\<lambda>_ _. None)\<rparr>"

lemmas tiny_simps = tiny_api_def ranges_new_def from_address_def find_by_address_def range_of_address_def
  add_range_def range_source_name_def insert_at_def partition_point_vec_def hm_insert_def wrap_i64_def
  range_contains_def dasm_step.simps Let_def

theorem find_by_address_correct_witness:
  "find_by_address (run dasm_step ranges_new [(tiny_api, 16), (tiny_api, 9)]) 17
     = Some \<lparr>dr_handle = 1000, dr_start_addr = 16, dr_start = 16, dr_end = 20, dr_source_name = ''@f'',
         dr_instructions = [16, 18], dr_addresses = [16, 18]\<rparr>"
  by (subst find_by_address_correct [OF refl])
    (simp_all add: tiny_simps disjoint_ranges_def)

text \<open>
  Handles stay valid.  A range the client is given keeps its handle: after any later lookups,
  as long as the table has fewer than \<open>table_limit\<close> entries, the handle still finds that range, even
  if its memory has changed since.
\<close>

theorem handles_stay_valid:
  assumes "t = run dasm_step ranges_new calls" "from_address api a t = (Ok d, t')"
    and "t'' = run dasm_step t' later" "length (by_handle t'') < table_limit"
  shows "find_by_handle t'' (dr_handle d) = Some d"
proof -
  have t: "table_inv t" using assms(1) dasm_m.reachable_inv by simp
  have t': "table_inv t'"
    using assms(2) by (rule from_address_cases) (use t add_range_inv(1) in auto)
  note grow = dasm_run_grows [OF t', of later, folded assms(3)]
  with assms(4) obtain r where r: "by_handle t'' = by_handle t' @ r" by auto
  have "length (by_handle t') < table_limit" using grow assms(4) by linarith
  then have "find_by_handle t' (dr_handle d) = Some d"
    using table_inv_get [OF t'] from_address_in_table [OF assms(2)] by blast
  then show ?thesis by (simp add: find_by_handle_def hm_get_def r map_add_def)
qed

theorem handles_stay_valid_witness:
  "find_by_handle (run dasm_step (snd (from_address tiny_api 16 ranges_new :: (unit error, dasm_range) res \<times> _))
      [(tiny_api, 9)]) 1000
     = Some \<lparr>dr_handle = 1000, dr_start_addr = 16, dr_start = 16, dr_end = 20, dr_source_name = ''@f'',
         dr_instructions = [16, 18], dr_addresses = [16, 18]\<rparr>"
  using handles_stay_valid [of ranges_new "[]" tiny_api 16
      "\<lparr>dr_handle = 1000, dr_start_addr = 16, dr_start = 16, dr_end = 20, dr_source_name = ''@f'',
         dr_instructions = [16, 18], dr_addresses = [16, 18]\<rparr>"
      "snd (from_address tiny_api 16 ranges_new :: (unit error, dasm_range) res \<times> _)" _ "[(tiny_api, 9)]",
      OF _ _ refl]
  by (simp add: tiny_simps table_limit_def)

section \<open>Properties of lines\<close>

lemma line_index:
  assumes "sorted_wrt (<) (dr_addresses d)" "i < length (dr_addresses d)"
  shows "partition_point_vec (\<lambda>x. x < dr_addresses d ! i) (dr_addresses d) = i"
proof (rule partition_point_vec_unique)
  show "dr_addresses d ! j < dr_addresses d ! i" if "j < i" for j
    using sorted_wrt_nth_less [OF assms(1) that assms(2)] .
  show "\<not> dr_addresses d ! j < dr_addresses d ! i" if "i \<le> j" "j < length (dr_addresses d)" for j
    using sorted_wrt_nth_less [OF assms(1), of i j] that by (cases "i = j") auto
qed (use assms in simp)

text \<open>
  C36 (lines and addresses).  For a range whose instruction addresses ascend, the instruction with
  index i has line i + 3, and the two conversions are inverse to each other on it; a line outside
  3 .. 3 + the number of instructions has no address and the conversion panics.
\<close>

theorem line_address_roundtrip:
  assumes "sorted_wrt (<) (dr_addresses d)" "length (dr_addresses d) + 3 < 2 ^ 32"
  shows "(i < length (dr_addresses d) \<longrightarrow>
            line_num_by_address d (dr_addresses d ! i) = of_nat (i + 3) \<and>
            address_by_line_num d (of_nat (i + 3)) = Ok (dr_addresses d ! i))
       \<and> (address_by_line_num d line = Ok a \<longrightarrow> line_num_by_address d a = line)
       \<and> (address_by_line_num d line = Panic \<longleftrightarrow> unat line < 3 \<or> length (dr_addresses d) + 3 \<le> unat line)"
proof -
  have i: "line_num_by_address d (dr_addresses d ! i) = of_nat (i + 3)" if "i < length (dr_addresses d)" for i
    using line_index [OF assms(1) that] by (simp add: line_num_by_address_def)
  moreover have "address_by_line_num d (of_nat (i + 3)) = Ok (dr_addresses d ! i)"
    if "i < length (dr_addresses d)" for i
  proof -
    have "unat (of_nat (i + 3) :: u32) = i + 3"
      using that assms(2) by (simp add: unat_of_nat del: of_nat_add of_nat_numeral)
    with that show ?thesis by (simp add: address_by_line_num_def index_def del: of_nat_add of_nat_numeral)
  qed
  moreover have "line_num_by_address d a = line" if "address_by_line_num d line = Ok a"
  proof -
    from that have l: "3 \<le> unat line" "unat line - 3 < length (dr_addresses d)"
      and a: "a = dr_addresses d ! (unat line - 3)"
      by (auto simp: address_by_line_num_def index_def split: if_splits)
    from i [OF l(2)] a l(1) show ?thesis by simp
  qed
  moreover have "address_by_line_num d line = Panic \<longleftrightarrow> unat line < 3 \<or> length (dr_addresses d) + 3 \<le> unat line"
    by (auto simp: address_by_line_num_def index_def)
  ultimately show ?thesis by blast
qed

lemma ucast_u32_u64: "unat x < 2 ^ 32 \<Longrightarrow> ucast (ucast x :: u32) = (x :: u64)"
  by (simp add: word_unat_eq_iff unsigned_ucast_eq unsigned_take_bit_eq take_bit_nat_eq_self)

lemma scan_gaps:
  "(\<And>i. Suc i < length (a # as) \<Longrightarrow> unat ((a # as) ! Suc i - (a # as) ! i) < 2 ^ 32) \<Longrightarrow>
     scan_offsets a (gaps (a # as)) = as"
proof (induction as arbitrary: a)
  case (Cons b as)
  have "unat (b - a) < 2 ^ 32" using Cons.prems [of 0] by simp
  then have "ucast (ucast (b - a) :: u32) = b - a"
    by (rule ucast_u32_u64)
  moreover have "scan_offsets b (gaps (b # as)) = as"
    by (rule Cons.IH) (use Cons.prems [of "Suc i" for i] in auto)
  ultimately show ?case by simp
qed simp


lemma replicate_4: "replicate 4 a = [a, a, a, a]"
  by (simp add: numeral_eq_Suc)

text \<open>
  Adapter data.  The data the client keeps with a disassembled source gives the address of
  every line again: while the range starts at its first instruction and no two neighbours are
  2^32 bytes apart, the lines rebuilt from it are three dummies and then the instruction addresses.
\<close>

theorem adapter_data_roundtrip:
  assumes "dr_addresses d = a # as" "dr_start d = a"
    and "\<forall>i. Suc i < length (a # as) \<longrightarrow> unat ((a # as) ! Suc i - (a # as) ! i) < 2 ^ 32"
  shows "lines_from_adapter_data (adapter_data d) = [a, a, a] @ dr_addresses d
    \<and> (address_by_line_num d line = Ok x \<longrightarrow>
         unat line < length (lines_from_adapter_data (adapter_data d)) \<and>
         lines_from_adapter_data (adapter_data d) ! unat line = x)"
proof (intro conjI impI)
  show lines: "lines_from_adapter_data (adapter_data d) = [a, a, a] @ dr_addresses d"
    using scan_gaps [of a as] assms
    by (simp add: lines_from_adapter_data_def adapter_data_def replicate_4)
  moreover assume "address_by_line_num d line = Ok x"
  then have "3 \<le> unat line" "unat line - 3 < length (dr_addresses d)" "x = dr_addresses d ! (unat line - 3)"
    by (auto simp: address_by_line_num_def index_def split: if_splits)
  then have "unat line < length ([a, a, a] @ dr_addresses d) \<and> ([a, a, a] @ dr_addresses d) ! unat line = x"
    by (subst nth_append) (auto simp: numeral_3_eq_3)
  ultimately show "unat line < length (lines_from_adapter_data (adapter_data d))"
    "lines_from_adapter_data (adapter_data d) ! unat line = x" by simp_all
qed

definition sample_range :: dasm_range where
  "sample_range = \<lparr>dr_handle = 1000, dr_start_addr = 10, dr_start = 10, dr_end = 55, dr_source_name = ''@f'',
     dr_instructions = [10, 20, 23], dr_addresses = [10, 20, 23]\<rparr>"

theorem line_address_roundtrip_witness:
  "line_num_by_address sample_range 20 = 4 \<and> address_by_line_num sample_range 4 = Ok 20"
  using line_address_roundtrip [of sample_range 1 4 20]
  by (simp add: sample_range_def address_by_line_num_def index_def)

theorem adapter_data_roundtrip_witness:
  "lines_from_adapter_data (adapter_data sample_range) = [10, 10, 10, 10, 20, 23]"
proof -
  have "unat (([10, 20, 23] :: u64 list) ! Suc i - [10, 20, 23] ! i) < 2 ^ 32" if "Suc i < 3" for i
  proof -
    from that have "i = 0 \<or> i = 1" by auto
    then show ?thesis by auto
  qed
  then have "lines_from_adapter_data (adapter_data sample_range) = [10, 10, 10] @ dr_addresses sample_range"
    by (intro adapter_data_roundtrip [THEN conjunct1]) (auto simp: sample_range_def)
  then show ?thesis by (simp add: sample_range_def)
qed

lemma split_lines:
  "\<forall>l \<in> set ls. newline \<notin> set l \<Longrightarrow> split_char newline (concat (map (\<lambda>l. l @ [newline]) ls)) = ls @ [[]]"
  by (induction ls) (simp_all add: split_char_append)

text \<open>
  The text agrees with the line numbers.  If no line of the text contains a newline, the line
  that \<open>line_num_by_address\<close> gives for the address of the i-th instruction, counted from 1 as the
  client does, is the line that shows this instruction.
\<close>

theorem source_text_line:
  assumes "\<forall>l \<in> set (header_lines api d @ map (instruction_line api n) (dr_instructions d)). newline \<notin> set l"
    and "dr_addresses d = map (addr_load api \<circ> instr_address api) (dr_instructions d)"
    and "sorted_wrt (<) (dr_addresses d)" "length (dr_addresses d) + 3 < 2 ^ 32"
    and "i < length (dr_instructions d)"
  shows "split_char newline (get_source_text api n d)
           ! (unat (line_num_by_address d (addr_load api (instr_address api (dr_instructions d ! i)))) - 1)
         = instruction_line api n (dr_instructions d ! i)"
proof -
  have "addr_load api (instr_address api (dr_instructions d ! i)) = dr_addresses d ! i"
    using assms(2,5) by simp
  moreover have "line_num_by_address d (dr_addresses d ! i) = of_nat (i + 3)"
    using line_index [OF assms(3), of i] assms(2,5) by (simp add: line_num_by_address_def)
  moreover have "unat (of_nat (i + 3) :: u32) = i + 3"
    using assms(2,4,5) by (simp add: unat_of_nat del: of_nat_add of_nat_numeral)
  ultimately have "unat (line_num_by_address d (addr_load api (instr_address api (dr_instructions d ! i)))) - 1 = i + 2"
    by simp
  moreover have "split_char newline (get_source_text api n d)
      = (header_lines api d @ map (instruction_line api n) (dr_instructions d)) @ [[]]"
    unfolding get_source_text_def by (rule split_lines [OF assms(1)])
  moreover have "length (header_lines api d) = 2" by (simp add: header_lines_def)
  ultimately show ?thesis using assms(5) by (simp add: nth_append)
qed

theorem source_text_line_witness:
  "split_char newline (get_source_text tiny_api 4 \<lparr>dr_handle = 1000, dr_start_addr = 16, dr_start = 16,
      dr_end = 20, dr_source_name = ''@f'', dr_instructions = [16, 18], dr_addresses = [16, 18]\<rparr>) ! 3
    = ''00000012: 01 02          nop    ''"
proof -
  let ?d = "\<lparr>dr_handle = 1000, dr_start_addr = 16, dr_start = 16,
      dr_end = 20, dr_source_name = ''@f'', dr_instructions = [16, 18], dr_addresses = [16, 18]\<rparr>"
  have "split_char newline (get_source_text tiny_api 4 ?d)
           ! (unat (line_num_by_address ?d (addr_load tiny_api (instr_address tiny_api (dr_instructions ?d ! 1)))) - 1)
         = instruction_line tiny_api 4 (dr_instructions ?d ! 1)"
  proof (rule source_text_line)
    show "\<forall>l \<in> set (header_lines tiny_api ?d @ map (instruction_line tiny_api 4) (dr_instructions ?d)). newline \<notin> set l"
      by code_simp
  qed (simp_all add: tiny_api_def)
  moreover have "instruction_line tiny_api 4 18 = ''00000012: 01 02          nop    ''" by code_simp
  moreover have "unat (line_num_by_address ?d (addr_load tiny_api (instr_address tiny_api (dr_instructions ?d ! 1)))) - 1 = 3"
    by code_simp
  ultimately show ?thesis by simp
qed

end
