(* ===== verification/Disassemble.thy ===== *)
theory Disassemble
  imports Disassembly Protocol
begin

text \<open>
  \<open>src/codelldb/src/debug_session/disassemble.rs\<close>: the \<open>disassemble\<close> request.  It reads memory
  around an address, finds an instruction stream aligned with the address, and returns the
  requested window of instructions.
\<close>

section \<open>The search for a boundary\<close>

function partition_point :: "(u64 \<Rightarrow> bool) \<Rightarrow> u64 \<Rightarrow> u64 \<Rightarrow> u64" where
  "partition_point pred low high =
     (if low < high then
        (let mid = low + (high - low) div 2 in
         if pred mid then partition_point pred (mid + 1) high else partition_point pred low mid)
      else low)"
  by pat_completeness auto

lemma mid_bounds:
  fixes low high :: u64
  assumes "low < high"
  shows "low \<le> low + (high - low) div 2" "low + (high - low) div 2 < high"
    "unat (low + (high - low) div 2) = unat low + (unat high - unat low) div 2"
proof -
  have lh: "unat low < unat high" using assms by (simp add: word_less_nat_alt)
  have d: "unat ((high - low) div 2) = (unat high - unat low) div 2"
    using assms by (simp add: unat_div unat_sub word_less_nat_alt word_le_nat_alt)
  have "unat high < 2 ^ 64" using unsigned_less [of high] by simp
  with d lh show u: "unat (low + (high - low) div 2) = unat low + (unat high - unat low) div 2"
    by (subst unat_add_lem [THEN iffD1]) auto
  with lh show "low \<le> low + (high - low) div 2" "low + (high - low) div 2 < high"
    by (auto simp: word_le_nat_alt word_less_nat_alt)
qed

lemma mid_next:
  fixes low high :: u64
  assumes "low < high"
  shows "unat (low + (high - low) div 2 + 1) = Suc (unat low + (unat high - unat low) div 2)"
    "low + (high - low) div 2 + 1 \<le> high"
proof -
  note m = mid_bounds [OF assms]
  let ?mid = "low + (high - low) div 2"
  have "unat high < 2 ^ 64" using unsigned_less [of high] by simp
  moreover have "unat ?mid < unat high" using m(2) by (simp add: word_less_nat_alt)
  ultimately have "unat (?mid + 1) = Suc (unat ?mid)" by (subst unat_add_lem [THEN iffD1]) auto
  with m(3) \<open>unat ?mid < unat high\<close>
  show "unat (?mid + 1) = Suc (unat low + (unat high - unat low) div 2)" "?mid + 1 \<le> high"
    by (auto simp: word_le_nat_alt)
qed

termination partition_point
proof (relation "measure (\<lambda>(pred, low, high). unat high - unat low)", simp, unfold in_measure prod.case)
  fix low high mid :: u64
  assume *: "low < high" "mid = low + (high - low) div 2"
  then have "unat low < unat high" by (simp add: word_less_nat_alt)
  then show "unat high - unat (mid + 1) < unat high - unat low" "unat mid - unat low < unat high - unat low"
    using mid_next(1) [OF *(1)] mid_bounds(3) [OF *(1)] *(2) by auto
qed

declare partition_point.simps [simp del]

interpretation word_pp: partition_search partition_point "\<lambda>lo hi. lo \<le> hi"
proof -
  have range: "lo \<le> partition_point P lo hi \<and> partition_point P lo hi \<le> hi" if "lo \<le> hi" for P lo hi
    using that
  proof (induction P lo hi rule: partition_point.induct)
    case (1 P lo hi)
    show ?case
    proof (cases "lo < hi")
      case True
      note m = mid_bounds [OF True] mid_next(2) [OF True]
      let ?mid = "lo + (hi - lo) div 2"
      have "lo \<le> ?mid + 1" using m mid_next(1) [OF True] by (simp add: word_le_nat_alt)
      with 1 True m show ?thesis
        by (subst (1 2) partition_point.simps) (auto simp: Let_def intro: order_trans less_imp_le)
    qed (use 1 in \<open>simp add: partition_point.simps\<close>)
  qed
  have split: "(\<forall>i. lo \<le> i \<longrightarrow> i < partition_point P lo hi \<longrightarrow> P i) \<and>
      (\<forall>i. partition_point P lo hi \<le> i \<longrightarrow> i < hi \<longrightarrow> \<not> P i)"
    if "lo \<le> hi" "partitioned P lo hi" for P lo hi
    using that
  proof (induction P lo hi rule: partition_point.induct)
    case (1 P lo hi)
    show ?case
    proof (cases "lo < hi")
      case True
      let ?mid = "lo + (hi - lo) div 2"
      note m = mid_bounds [OF True] mid_next [OF True]
      have le: "i \<le> ?mid \<longleftrightarrow> i < ?mid + 1" for i
        using m by (simp add: word_le_nat_alt word_less_nat_alt less_Suc_eq_le)
      show ?thesis
      proof (cases "P ?mid")
        case pm: True
        have "partitioned P (?mid + 1) hi"
          using 1(4) m(1) le unfolding partitioned_def by (meson le_less_linear order_trans less_imp_le)
        from 1(1) [OF True refl pm m(5) this] have
          IH: "\<forall>i. ?mid + 1 \<le> i \<longrightarrow> i < partition_point P (?mid + 1) hi \<longrightarrow> P i"
            "\<forall>i. partition_point P (?mid + 1) hi \<le> i \<longrightarrow> i < hi \<longrightarrow> \<not> P i" by blast+
        have "P i" if "lo \<le> i" "i \<le> ?mid" for i
          using 1(4) that pm m(2) unfolding partitioned_def by blast
        with IH le show ?thesis using True pm
          by (subst (1 2) partition_point.simps) (simp add: Let_def, meson not_less)
      next
        case nm: False
        have "partitioned P lo ?mid" using 1(4) m(2) unfolding partitioned_def by (meson less_trans)
        from 1(2) [OF True refl nm m(1) this] have
          IH: "\<forall>i. lo \<le> i \<longrightarrow> i < partition_point P lo ?mid \<longrightarrow> P i"
            "\<forall>i. partition_point P lo ?mid \<le> i \<longrightarrow> i < ?mid \<longrightarrow> \<not> P i" by blast+
        have "\<not> P i" if "?mid \<le> i" "i < hi" for i
          using 1(4) that nm m(1) unfolding partitioned_def by blast
        with IH show ?thesis using True nm
          by (subst (1 2) partition_point.simps) (simp add: Let_def, meson not_less)
      qed
    next
      case False
      then have "partition_point P lo hi = lo" by (subst partition_point.simps) simp
      with False show ?thesis by auto
    qed
  qed
  show "partition_search partition_point (\<lambda>lo hi. lo \<le> hi)"
    by unfold_locales (use range split in blast)+
qed


section \<open>Reading memory\<close>

definition max_instruction_bytes :: "dasm_api \<Rightarrow> u64" where
  "max_instruction_bytes api =
     (let arch = hd (split_char CHR ''-'' (target_triple api)) in
      if starts_with arch ''arm'' \<or> starts_with arch ''aarch64'' \<or> starts_with arch ''riscv'' then 4 else 16)"

text \<open>The most bytes a vector can hold; \<open>resize\<close> to more panics.\<close>

definition vec_limit :: nat where
  "vec_limit = 2 ^ 63 - 1"

definition readable :: "dasm_api \<Rightarrow> u64 \<Rightarrow> bool" where
  "readable api a = (process_read_memory api a 1 \<noteq> None)"

text \<open>
  \<open>process_read_memory a n\<close> is what a read into a buffer of \<open>n\<close> bytes at \<open>a\<close> leaves in the part
  of the buffer it filled.
\<close>

definition read_memory :: "dasm_api \<Rightarrow> u64 \<Rightarrow> u64 \<Rightarrow> ('e, u64 \<times> u8 list) res" where
  "read_memory api start_address count =
     (if vec_limit < unat count then Panic
      else case process_read_memory api start_address (unat count) of
        Some bytes \<Rightarrow> Ok (start_address, bytes)
      | None \<Rightarrow>
          (let first_readable =
             partition_point (\<lambda>addr. \<not> readable api addr) start_address (start_address + count);
               rest = unat (start_address + count - first_readable)
           in if vec_limit < rest then Panic
              else case process_read_memory api first_readable rest of
                Some bytes \<Rightarrow> Ok (first_readable, bytes)
              | None \<Rightarrow> Ok (first_readable, [])))"

section \<open>Decoding bytes\<close>

datatype decoded = Decoded nat | Undecodable u8

type_synonym decoded_entry = "u64 \<times> u64 \<times> decoded"

fun take_instructions ::
  "dasm_api \<Rightarrow> nat list \<Rightarrow> u64 \<Rightarrow> u8 list \<Rightarrow> decoded_entry list \<Rightarrow>
     ('e, u64 \<times> u8 list \<times> decoded_entry list) res" where
  "take_instructions api [] base_addr buffer acc = Ok (base_addr, buffer, acc)"
| "take_instructions api (instr # instrs) base_addr buffer acc =
     (let byte_size = instr_byte_size api instr;
          next = base_addr + of_nat byte_size
      in if byte_size \<le> length buffer then
           take_instructions api instrs next (drop byte_size buffer)
             (acc @ [(base_addr, next, Decoded instr)])
         else Panic)"

text \<open>
  The \<open>while\<close> loop; \<open>None\<close> when the fuel runs out, which happens only if LLDB returns instructions
  of no bytes.
\<close>

fun disassemble_loop ::
  "nat \<Rightarrow> dasm_api \<Rightarrow> u64 \<Rightarrow> u8 list \<Rightarrow> decoded_entry list \<Rightarrow> ('e, decoded_entry list) res option" where
  "disassemble_loop 0 api base_addr buffer acc = None"
| "disassemble_loop (Suc fuel) api base_addr buffer acc =
     (case buffer of
        [] \<Rightarrow> Some (Ok acc)
      | byte # rest \<Rightarrow>
          (let instructions =
             get_instructions api (addr_from_load api base_addr) buffer (disassembly_flavor api) in
           if instructions \<noteq> [] then
             (case take_instructions api instructions base_addr buffer acc of
                Ok (base', buffer', acc') \<Rightarrow> disassemble_loop fuel api base' buffer' acc'
              | Err e \<Rightarrow> Some (Err e)
              | Panic \<Rightarrow> Some Panic)
           else disassemble_loop fuel api (base_addr + 1) rest
                  (acc @ [(base_addr, base_addr + 1, Undecodable byte)])))"

definition disassemble_bytes :: "dasm_api \<Rightarrow> u64 \<Rightarrow> u8 list \<Rightarrow> ('e, decoded_entry list) res option" where
  "disassemble_bytes api base_addr buffer = disassemble_loop (Suc (length buffer)) api base_addr buffer []"

section \<open>The request\<close>

definition invalid_memory :: "u64 \<Rightarrow> disassembled_instruction" where
  "invalid_memory addr = default_disassembled_instruction
     \<lparr>di_address := hex_ref addr, di_instruction_bytes := Some ''??'', di_invalid := True\<rparr>"

text \<open>
  Tries the first offsets of the buffer for a stream in which an instruction starts at \<open>base_addr\<close>.
\<close>

fun find_aligned ::
  "dasm_api \<Rightarrow> u64 \<Rightarrow> u64 \<Rightarrow> u8 list \<Rightarrow> nat list \<Rightarrow>
     ('e, (u64 \<times> u8 list \<times> decoded_entry list \<times> nat) option) res option" where
  "find_aligned api base_addr start_addr buffer [] = Some (Ok None)"
| "find_aligned api base_addr start_addr buffer (i # rest) =
     (case disassemble_bytes api (start_addr + of_nat i) (drop i buffer) of
        None \<Rightarrow> None
      | Some Panic \<Rightarrow> Some Panic
      | Some (Err e) \<Rightarrow> Some (Err e)
      | Some (Ok instructions) \<Rightarrow>
          (case position (\<lambda>(s, e, d). s = base_addr) instructions of
             Some base_index \<Rightarrow>
               Some (Ok (Some (start_addr + of_nat i, drop i buffer, instructions, base_index)))
           | None \<Rightarrow> find_aligned api base_addr start_addr buffer rest))"

text \<open>
  The row of a decoded instruction.  Line entries that are equal have the same name; the location
  is left out unless the line entry differs from that of the row before.
\<close>

definition instruction_row ::
  "dasm_api \<Rightarrow> nat \<Rightarrow> (nat \<Rightarrow> string option) \<Rightarrow> bool \<Rightarrow> nat option \<Rightarrow> u64 \<Rightarrow> nat \<Rightarrow> u8 list \<Rightarrow>
     disassembled_instruction" where
  "instruction_row api max_instr_bytes local_path resolve_symbols last_line_entry start instr instr_bytes =
     (let comment = instr_comment api instr;
          comment_sep = (if comment = [] then [] else ''  ; '');
          address = instr_address api instr;
          line_entry = addr_line_entry api address
      in default_disassembled_instruction
           \<lparr>di_address := hex_ref start,
            di_instruction_bytes :=
              Some (pad_right (max_instr_bytes * 3 + 2) (dump_bytes max_instr_bytes instr_bytes)),
            di_instruction := pad_right 6 (instr_mnemonic api instr) @ '' '' @
              instr_operands api instr @ comment_sep @ comment,
            di_line := map_option (\<lambda>le. uint (entry_line api le)) line_entry,
            di_column := map_option (\<lambda>le. uint (entry_column api le)) line_entry,
            di_location :=
              (case (line_entry, last_line_entry) of
                 (Some le, Some lle) \<Rightarrow>
                   if lle \<noteq> le then
                     Some (default_source \<lparr>src_name := Some (entry_filename api le), src_path := local_path le\<rparr>)
                   else None
               | _ \<Rightarrow> None),
            di_symbol :=
              (if resolve_symbols then map_option (symbol_name api) (addr_symbol api address) else None)\<rparr>)"

text \<open>A row, with the line entry to compare the next row's with.\<close>

definition decoded_row ::
  "dasm_api \<Rightarrow> nat \<Rightarrow> (nat \<Rightarrow> string option) \<Rightarrow> bool \<Rightarrow> u64 \<Rightarrow> u8 list \<Rightarrow> nat option \<Rightarrow> decoded_entry \<Rightarrow>
     ('e, disassembled_instruction \<times> nat option) res" where
  "decoded_row api max_instr_bytes local_path resolve_symbols start_addr buffer last_line_entry entry =
     (case entry of
        (s, e, Undecodable byte) \<Rightarrow>
          Ok (default_disassembled_instruction
                \<lparr>di_address := hex_ref s, di_instruction_bytes := Some (show_byte byte),
                 di_instruction := ''.byte  '' @ show_byte byte, di_invalid := True\<rparr>, None)
      | (s, e, Decoded instr) \<Rightarrow>
          map_res (\<lambda>instr_bytes.
              (instruction_row api max_instr_bytes local_path resolve_symbols last_line_entry s instr instr_bytes,
               addr_line_entry api (instr_address api instr)))
            (slice buffer (unat (s - start_addr)) (unat (e - start_addr))))"

fun decoded_rows ::
  "(nat option \<Rightarrow> decoded_entry \<Rightarrow> ('e, disassembled_instruction \<times> nat option) res) \<Rightarrow> nat option \<Rightarrow>
     decoded_entry list \<Rightarrow> ('e, disassembled_instruction list) res" where
  "decoded_rows row lle [] = Ok []"
| "decoded_rows row lle (x # xs) =
     bind_res (row lle x) (\<lambda>(d, lle'). bind_res (decoded_rows row lle' xs) (\<lambda>ds. Ok (d # ds)))"

text \<open>The addresses \<open>a + i\<close> for \<open>i\<close> from \<open>lo\<close> up to \<open>hi\<close>.\<close>

definition padding :: "u64 \<Rightarrow> i64 \<Rightarrow> i64 \<Rightarrow> disassembled_instruction list" where
  "padding a lo hi = map (\<lambda>i. invalid_memory (a + as_u64 i)) [lo..hi - 1]"

definition window_rows ::
  "(nat option \<Rightarrow> decoded_entry \<Rightarrow> ('e, disassembled_instruction \<times> nat option) res) \<Rightarrow> u64 \<Rightarrow> u64 \<Rightarrow>
     decoded_entry list \<Rightarrow> i64 \<Rightarrow> i64 \<Rightarrow> ('e, disassembled_instruction list) res" where
  "window_rows row start_addr end_addr instructions start_idx end_idx =
     (let before = (if start_idx < 0 then padding start_addr start_idx 0 else []);
          start_idx = max start_idx 0
      in bind_res (slice instructions (unat (as_u64 start_idx)) (unat (as_u64 end_idx))) (\<lambda>window.
         bind_res (decoded_rows row None window) (\<lambda>rows.
         let instr_count = int (length instructions);
             after = (if instr_count < end_idx then padding end_addr 0 (wrap_i64 (end_idx - instr_count)) else [])
         in Ok (before @ rows @ after))))"

definition disassemble_range :: "dasm_api \<Rightarrow> u64 \<Rightarrow> i64 \<Rightarrow> i64 \<Rightarrow> u64 \<times> u64" where
  "disassemble_range api base_addr instruction_offset instruction_count =
     (let num_before = as_u64 (- min instruction_offset 0);
          num_after = as_u64 (max (wrap_i64 (instruction_count + instruction_offset)) 0);
          bytes_per_instruction = max_instruction_bytes api
      in (saturating_sub_u64 base_addr (num_before * bytes_per_instruction),
          saturating_add_u64 base_addr (num_after * bytes_per_instruction)))"

definition handle_disassemble ::
  "dasm_api \<Rightarrow> nat \<Rightarrow> (string \<Rightarrow> (string, u64) res) \<Rightarrow> (nat \<Rightarrow> string option) \<Rightarrow> disassemble_args \<Rightarrow>
     ('f error, disassembled_instruction list) res option" where
  "handle_disassemble api max_instr_bytes parse_u64 local_path args =
     (case map_err StrError (parse_u64 (da_memory_reference args)) of
        Err e \<Rightarrow> Some (Err e)
      | Panic \<Rightarrow> Some Panic
      | Ok base_addr \<Rightarrow>
     (let base_addr = (case da_offset args of Some off \<Rightarrow> base_addr + as_u64 off | None \<Rightarrow> base_addr);
          instruction_offset = (case da_instruction_offset args of Some off \<Rightarrow> off | None \<Rightarrow> 0)
      in if da_instruction_count args < 0 then Some (Err (StrError ''Invalid instruction_count''))
         else
         (let (start_addr, end_addr) =
            disassemble_range api base_addr instruction_offset (da_instruction_count args) in
          case read_memory api start_addr (end_addr - start_addr) of
            Err e \<Rightarrow> Some (Err e)
          | Panic \<Rightarrow> Some Panic
          | Ok (start_addr, buffer) \<Rightarrow>
          (case find_aligned api base_addr start_addr buffer
                  [0..<min (unat (max_instruction_bytes api)) (length buffer)] of
             None \<Rightarrow> None
           | Some (Err e) \<Rightarrow> Some (Err e)
           | Some Panic \<Rightarrow> Some Panic
           | Some (Ok None) \<Rightarrow>
               Some (Err (StrError (''Failed to disassemble memory at '' @ hex_ref base_addr @ ''.'')))
           | Some (Ok (Some (start_addr, buffer, instructions, base_index))) \<Rightarrow>
               (let end_addr = start_addr + of_nat (length buffer);
                    start_idx = wrap_i64 (int base_index + instruction_offset);
                    end_idx = wrap_i64 (start_idx + da_instruction_count args);
                    resolve_symbols = (case da_resolve_symbols args of Some r \<Rightarrow> r | None \<Rightarrow> True)
                in Some (window_rows
                     (decoded_row api max_instr_bytes local_path resolve_symbols start_addr buffer)
                     start_addr end_addr instructions start_idx end_idx))))))"


section \<open>Lemmas\<close>

definition decoded_size :: "dasm_api \<Rightarrow> decoded \<Rightarrow> nat" where
  "decoded_size api d = (case d of Decoded i \<Rightarrow> instr_byte_size api i | Undecodable b \<Rightarrow> 1)"

text \<open>
  \<open>es\<close> covers the bytes of \<open>buffer\<close>, which start at address \<open>a\<close>, without gap or overlap.
\<close>

fun covers :: "dasm_api \<Rightarrow> u64 \<Rightarrow> decoded_entry list \<Rightarrow> u8 list \<Rightarrow> bool" where
  "covers api a [] buffer = (buffer = [])"
| "covers api a ((s, e, d) # es) buffer =
     (s = a \<and> e = a + of_nat (decoded_size api d)
      \<and> 0 < decoded_size api d \<and> decoded_size api d \<le> length buffer
      \<and> (case d of Undecodable b \<Rightarrow> b = hd buffer | Decoded i \<Rightarrow> True)
      \<and> covers api e es (drop (decoded_size api d) buffer))"

text \<open>
  What the code relies on: \<open>GetInstructions\<close> decodes a prefix of the bytes it is given, into
  instructions of at least one byte.
\<close>

definition decoder_ok :: "dasm_api \<Rightarrow> bool" where
  "decoder_ok api \<longleftrightarrow> (\<forall>a buffer flavor.
     let instrs = get_instructions api a buffer flavor in
     (\<forall>i \<in> set instrs. 0 < instr_byte_size api i) \<and>
     sum_list (map (instr_byte_size api) instrs) \<le> length buffer)"

lemma take_instructions_covers:
  assumes "\<forall>i \<in> set instrs. 0 < instr_byte_size api i"
    and "sum_list (map (instr_byte_size api) instrs) \<le> length buffer"
  shows "\<exists>es. take_instructions api instrs a buffer acc =
      (Ok (a + of_nat (sum_list (map (instr_byte_size api) instrs)),
          drop (sum_list (map (instr_byte_size api) instrs)) buffer, acc @ es) :: ('e, _) res)
    \<and> (\<forall>r. covers api (a + of_nat (sum_list (map (instr_byte_size api) instrs))) r
            (drop (sum_list (map (instr_byte_size api) instrs)) buffer) \<longrightarrow> covers api a (es @ r) buffer)"
  using assms
proof (induction instrs arbitrary: a buffer acc)
  case (Cons i instrs)
  let ?n = "instr_byte_size api i"
  have "sum_list (map (instr_byte_size api) instrs) \<le> length (drop ?n buffer)" using Cons.prems by simp
  from Cons.IH [OF _ this, of "a + of_nat ?n" "acc @ [(a, a + of_nat ?n, Decoded i)]"] Cons.prems obtain es where
    es: "take_instructions api instrs (a + of_nat ?n) (drop ?n buffer) (acc @ [(a, a + of_nat ?n, Decoded i)]) =
      (Ok (a + of_nat ?n + of_nat (sum_list (map (instr_byte_size api) instrs)),
          drop (sum_list (map (instr_byte_size api) instrs)) (drop ?n buffer),
          (acc @ [(a, a + of_nat ?n, Decoded i)]) @ es) :: ('e, _) res)"
    and cov: "\<forall>r. covers api (a + of_nat ?n + of_nat (sum_list (map (instr_byte_size api) instrs))) r
            (drop (sum_list (map (instr_byte_size api) instrs)) (drop ?n buffer)) \<longrightarrow>
            covers api (a + of_nat ?n) (es @ r) (drop ?n buffer)"
    by auto
  show ?case
    by (rule exI [of _ "(a, a + of_nat ?n, Decoded i) # es"])
      (use es cov Cons.prems in \<open>simp add: decoded_size_def Let_def add.assoc add.commute\<close>)
qed simp

lemma disassemble_loop_covers:
  assumes "decoder_ok api" "length buffer < fuel"
  shows "\<exists>es. disassemble_loop fuel api a buffer acc = Some (Ok (acc @ es) :: ('e, _) res) \<and> covers api a es buffer"
  using assms(2)
proof (induction fuel arbitrary: a buffer acc)
  case (Suc fuel)
  show ?case
  proof (cases buffer)
    case (Cons b rest)
    let ?ins = "get_instructions api (addr_from_load api a) buffer (disassembly_flavor api)"
    let ?S = "sum_list (map (instr_byte_size api) ?ins)"
    have ok: "\<forall>i \<in> set ?ins. 0 < instr_byte_size api i" "?S \<le> length buffer"
      using assms(1) unfolding decoder_ok_def Let_def by blast+
    show ?thesis
    proof (cases "?ins = []")
      case True
      from Suc.IH [of rest "a + 1" "acc @ [(a, a + 1, Undecodable b)]"] Suc.prems Cons obtain es where
        "disassemble_loop fuel api (a + 1) rest (acc @ [(a, a + 1, Undecodable b)]) =
           Some (Ok ((acc @ [(a, a + 1, Undecodable b)]) @ es) :: ('e, _) res)" "covers api (a + 1) es rest" by auto
      with True show ?thesis
        by (intro exI [of _ "(a, a + 1, Undecodable b) # es"]) (simp add: Cons decoded_size_def)
    next
      case False
      from take_instructions_covers [OF ok, of a acc] obtain es where
        es: "take_instructions api ?ins a buffer acc =
            (Ok (a + of_nat ?S, drop ?S buffer, acc @ es) :: ('e, _) res)"
        and cov: "\<forall>r. covers api (a + of_nat ?S) r (drop ?S buffer) \<longrightarrow> covers api a (es @ r) buffer"
        by blast
      have "0 < ?S" using False ok(1) by (cases ?ins) auto
      with Suc.prems Cons have "length (drop ?S buffer) < fuel" by simp
      from Suc.IH [OF this, of "a + of_nat ?S" "acc @ es"] obtain fs where
        "disassemble_loop fuel api (a + of_nat ?S) (drop ?S buffer) (acc @ es) = Some (Ok ((acc @ es) @ fs) :: ('e, _) res)"
        "covers api (a + of_nat ?S) fs (drop ?S buffer)" by blast
      with es cov False show ?thesis
        by (intro exI [of _ "es @ fs"]) (simp add: Cons Let_def)
    qed
  qed simp
qed simp

lemma disassemble_bytes_covers_aux:
  "decoder_ok api \<Longrightarrow> \<exists>es. disassemble_bytes api a buffer = Some (Ok es) \<and> covers api a es buffer"
  using disassemble_loop_covers [of api buffer "Suc (length buffer)" a "[]"]
  by (simp add: disassemble_bytes_def)

lemma find_aligned_Some:
  assumes "(find_aligned api base start buffer ns :: ('e, _) res option) =
      Some (Ok (Some (start', buffer', instrs, k)))"
  shows "k < length instrs \<and> fst (instrs ! k) = base
     \<and> (\<exists>i \<in> set ns. start' = start + of_nat i \<and> buffer' = drop i buffer
          \<and> (disassemble_bytes api start' buffer' :: ('e, _) res option) = Some (Ok instrs))"
  using assms
proof (induction ns)
  case (Cons n ns)
  then show ?case
    by (auto split: option.splits res.splits dest!: position_Some)
qed simp

text \<open>A row shows the address its entry starts at.\<close>

definition row_addressed ::
  "(nat option \<Rightarrow> decoded_entry \<Rightarrow> ('e, disassembled_instruction \<times> nat option) res) \<Rightarrow> bool" where
  "row_addressed row \<longleftrightarrow>
     (\<forall>lle e di lle'. row lle e = Ok (di, lle') \<longrightarrow> di_address di = hex_ref (fst e))"

lemma row_addressedD:
  "row_addressed row \<Longrightarrow> row lle e = Ok (di, lle') \<Longrightarrow> di_address di = hex_ref (fst e)"
  unfolding row_addressed_def by blast

lemma decoded_row_address: "row_addressed (decoded_row api n lp rs start buffer)"
  by (auto simp: row_addressed_def decoded_row_def map_res_eq_Ok instruction_row_def Let_def
      split: decoded.splits)

lemma decoded_rows_Ok:
  assumes "decoded_rows row lle es = Ok rows"
    and "row_addressed row"
  shows "map di_address rows = map (hex_ref \<circ> fst) es"
  using assms(1)
proof (induction es arbitrary: lle rows)
  case (Cons e es)
  then show ?case using assms(2) by (auto simp: bind_res_eq_Ok simp del: split_paired_All dest: row_addressedD)
qed simp

lemma wrap_i64_bounds: "- (2 ^ 63) \<le> wrap_i64 x \<and> wrap_i64 x < 2 ^ 63"
  using signed_take_bit_int_greater_eq_minus_exp [of 63 x] signed_take_bit_int_less_exp [of 63 x]
  by (simp add: wrap_i64_def)

lemma wrap_i64_id: "- (2 ^ 63) \<le> x \<Longrightarrow> x < 2 ^ 63 \<Longrightarrow> wrap_i64 x = x"
  unfolding wrap_i64_def by (rule signed_take_bit_int_eq_self) simp_all

lemma unat_as_u64: "0 \<le> x \<Longrightarrow> x < 2 ^ 64 \<Longrightarrow> unat (as_u64 x) = nat x"
  by (simp add: as_u64_def unat_eq_nat_uint uint_word_of_int)

text \<open>The addresses of the rows of a window that lies inside the decoded instructions.\<close>

lemma unat_as_u64_neg: "- (2 ^ 63) \<le> x \<Longrightarrow> x < 0 \<Longrightarrow> 2 ^ 63 \<le> unat (as_u64 x)"
proof -
  assume x: "- (2 ^ 63) \<le> x" "x < 0"
  have "x mod 2 ^ 64 = (x + 2 ^ 64) mod 2 ^ 64" by (rule mod_add_self2 [symmetric])
  also have "\<dots> = x + 2 ^ 64" by (rule mod_pos_pos_trivial) (use x in simp_all)
  finally have "nat (x mod 2 ^ 64) = nat (x + 2 ^ 64)" by simp
  moreover have "2 ^ 63 \<le> nat (x + 2 ^ 64)" using x by simp
  ultimately show ?thesis by (simp add: as_u64_def unat_eq_nat_uint uint_word_of_int)
qed

lemma window_rows_Ok:
  assumes ok: "window_rows row a b es lo hi = Ok rows"
    and row: "row_addressed row"
    and bounds: "- (2 ^ 63) \<le> lo" "lo < 2 ^ 63" "- (2 ^ 63) \<le> hi" "hi < 2 ^ 63" "length es < 2 ^ 63"
  shows "0 \<le> hi" "hi \<le> int (length es)" "max lo 0 \<le> hi"
    "map di_address rows =
       map (\<lambda>i. hex_ref (a + as_u64 i)) [lo..-1]
       @ map (hex_ref \<circ> fst) (take (nat (hi - max lo 0)) (drop (nat lo) es))"
proof -
  let ?lo = "max lo 0"
  have lo: "unat (as_u64 ?lo) = nat lo" using bounds by (subst unat_as_u64) auto
  from ok obtain window rs where w: "slice es (nat lo) (unat (as_u64 hi)) = (Ok window :: ('a, _) res)"
    and rs: "decoded_rows row None window = Ok rs"
    and rows: "rows = (if lo < 0 then padding a lo 0 else []) @ rs @
       (if int (length es) < hi then padding b 0 (wrap_i64 (hi - int (length es))) else [])"
    by (auto simp: window_rows_def Let_def bind_res_eq_Ok lo)
  from w have sl: "nat lo \<le> unat (as_u64 hi)" "unat (as_u64 hi) \<le> length es"
    "window = take (unat (as_u64 hi) - nat lo) (drop (nat lo) es)"
    by (auto simp: slice_def split: if_splits)
  show hi: "0 \<le> hi"
  proof (rule ccontr)
    assume "\<not> 0 \<le> hi"
    then have "2 ^ 63 \<le> unat (as_u64 hi)" using bounds(3) by (intro unat_as_u64_neg) auto
    with sl(2) bounds(5) show False by linarith
  qed
  then have h: "unat (as_u64 hi) = nat hi" using bounds(4) by (subst unat_as_u64) auto
  with sl(2) hi show le: "hi \<le> int (length es)" by simp
  from sl(1) h hi show "?lo \<le> hi" by simp
  have "map di_address rs = map (hex_ref \<circ> fst) window" using decoded_rows_Ok [OF rs row] by simp
  moreover have "nat hi - nat lo = nat (hi - ?lo)" using hi by (auto simp: max_def)
  moreover have "map di_address (if lo < 0 then padding a lo 0 else []) = map (\<lambda>i. hex_ref (a + as_u64 i)) [lo..-1]"
    by (simp add: padding_def invalid_memory_def default_disassembled_instruction_def)
  ultimately show "map di_address rows =
       map (\<lambda>i. hex_ref (a + as_u64 i)) [lo..-1]
       @ map (hex_ref \<circ> fst) (take (nat (hi - max lo 0)) (drop (nat lo) es))"
    using le by (simp add: rows sl(3) h)
qed

text \<open>What the code relies on: a read fills at most the buffer it is given.\<close>

definition reader_ok :: "dasm_api \<Rightarrow> bool" where
  "reader_ok api \<longleftrightarrow> (\<forall>a n bytes. process_read_memory api a n = Some bytes \<longrightarrow> length bytes \<le> n)"

lemma read_memory_length:
  assumes "reader_ok api" "start \<le> start + count" "read_memory api start count = Ok (a, bytes)"
  shows "length bytes \<le> unat count"
proof (cases "process_read_memory api start (unat count)")
  case None
  let ?f = "partition_point (\<lambda>a. \<not> readable api a) start (start + count)"
  have f: "start \<le> ?f" "?f \<le> start + count" using word_pp.search_range [OF assms(2)] by auto
  have "length bytes \<le> unat (start + count - ?f)"
    using assms(1,3) None unfolding reader_ok_def
    by (auto simp: read_memory_def Let_def split: if_splits option.splits)
  also have "\<dots> = unat (start + count) - unat ?f" using f(2) by (simp add: unat_sub)
  also have "\<dots> \<le> unat (start + count) - unat start" using f(1) by (simp add: word_le_nat_alt diff_le_mono2)
  also have "\<dots> = unat count" using assms(2) by (simp flip: unat_sub)
  finally show ?thesis .
next
  case (Some bs)
  with assms show ?thesis by (auto simp: read_memory_def reader_ok_def split: if_splits)
qed

lemma unat_mult_le: "unat (x * y :: u64) \<le> unat x * unat y"
  by (simp add: unat_word_ariths)

lemma disassemble_range_bounds:
  assumes "disassemble_range api base off count = (lo, hi)"
    and "- (2 ^ 32) \<le> off" "off \<le> 2 ^ 32" "0 \<le> count" "count \<le> 2 ^ 32"
  shows "lo \<le> hi" "unat (hi - lo) \<le> 2 ^ 38"
proof -
  let ?bpi = "max_instruction_bytes api"
  let ?b = "as_u64 (- min off 0)" and ?a = "as_u64 (max (wrap_i64 (count + off)) 0)"
  from assms(1) have lo: "lo = saturating_sub_u64 base (?b * ?bpi)" and hi: "hi = saturating_add_u64 base (?a * ?bpi)"
    by (auto simp: disassemble_range_def Let_def)
  have "lo \<le> base" "base \<le> hi" unfolding lo hi by (rule saturating_sub_le saturating_add_ge)+
  then show le: "lo \<le> hi" by (rule order_trans)
  have bpi: "unat ?bpi \<le> 16" by (simp add: max_instruction_bytes_def Let_def)
  have "unat ?b \<le> 2 ^ 32" using assms(2) by (subst unat_as_u64) auto
  then have b: "unat (?b * ?bpi) \<le> 2 ^ 36"
    using mult_le_mono [OF _ bpi, of "unat ?b" "2 ^ 32"] unat_mult_le [of ?b ?bpi] by simp
  have "wrap_i64 (count + off) = count + off" using assms(2-5) by (intro wrap_i64_id) auto
  then have "unat ?a \<le> 2 ^ 33" using assms(3,5) by (subst unat_as_u64) auto
  then have a: "unat (?a * ?bpi) \<le> 2 ^ 37"
    using mult_le_mono [OF _ bpi, of "unat ?a" "2 ^ 33"] unat_mult_le [of ?a ?bpi] by simp
  have "unat (hi - lo) = unat hi - unat lo" using le by (simp add: unat_sub)
  also have "\<dots> \<le> unat (?a * ?bpi) + unat (?b * ?bpi)"
    by (simp add: lo hi unat_saturating_sub unat_saturating_add)
  finally show "unat (hi - lo) \<le> 2 ^ 38" using a b by simp
qed

lemma covers_length: "covers api a es buffer \<Longrightarrow> length es \<le> length buffer"
  by (induction es arbitrary: a buffer) (auto, fastforce)

text \<open>What a successful request went through.\<close>

lemma handle_disassemble_Ok:
  assumes "(handle_disassemble api m parse lp args :: ('f error, _) res option) = Some (Ok rows)"
    and "parse (da_memory_reference args) = Ok addr"
    and "base = (case da_offset args of Some off \<Rightarrow> addr + as_u64 off | None \<Rightarrow> addr)"
    and "off = (case da_instruction_offset args of Some off \<Rightarrow> off | None \<Rightarrow> 0)"
  obtains lo hi start buffer start' buffer' instrs k row where
    "0 \<le> da_instruction_count args" "disassemble_range api base off (da_instruction_count args) = (lo, hi)"
    "(read_memory api lo (hi - lo) :: ('f error, _) res) = Ok (start, buffer)"
    "(find_aligned api base start buffer [0..<min (unat (max_instruction_bytes api)) (length buffer)]
        :: ('f error, _) res option) = Some (Ok (Some (start', buffer', instrs, k)))"
    "(window_rows row start' (start' + of_nat (length buffer')) instrs (wrap_i64 (int k + off))
       (wrap_i64 (wrap_i64 (int k + off) + da_instruction_count args)) :: ('f error, _) res) = Ok rows"
    "row_addressed row"
proof -
  note h = assms(1) [unfolded handle_disassemble_def assms(2) map_err.simps res.case, folded assms(3,4), unfolded Let_def]
  from h have c: "0 \<le> da_instruction_count args" by (simp split: if_splits)
  obtain lo hi where r: "disassemble_range api base off (da_instruction_count args) = (lo, hi)" by fastforce
  from h c r obtain start buffer where
    m: "(read_memory api lo (hi - lo) :: ('f error, _) res) = Ok (start, buffer)"
    by (auto split: res.splits)
  from h c r m obtain start' buffer' instrs k where
    f: "(find_aligned api base start buffer [0..<min (unat (max_instruction_bytes api)) (length buffer)]
        :: ('f error, _) res option) = Some (Ok (Some (start', buffer', instrs, k)))"
    by (auto split: res.splits option.splits)
  let ?row = "decoded_row api m lp (case da_resolve_symbols args of None \<Rightarrow> True | Some r \<Rightarrow> r) start' buffer'
    :: nat option \<Rightarrow> decoded_entry \<Rightarrow> ('f error, _) res"
  from h c r m f have "window_rows ?row start' (start' + of_nat (length buffer')) instrs (wrap_i64 (int k + off))
       (wrap_i64 (wrap_i64 (int k + off) + da_instruction_count args)) = Ok rows" by simp
  from that [OF c r m f this decoded_row_address] show thesis .
qed

section \<open>Properties\<close>

text \<open>
  Reading around unreadable memory.  If the whole range cannot be read at once and memory
  becomes readable at some address of it, unreadable before and readable from there on, the binary
  search finds exactly that address and the readable part is returned.
\<close>

theorem read_memory_boundary:
  assumes "unat count \<le> vec_limit" "unat start_address + unat count < 2 ^ 64"
    and "process_read_memory api start_address (unat count) = None"
    and "start_address \<le> b" "b \<le> start_address + count"
    and "\<And>a. start_address \<le> a \<Longrightarrow> a < start_address + count \<Longrightarrow> readable api a \<longleftrightarrow> b \<le> a"
    and "process_read_memory api b (unat (start_address + count - b)) = Some bytes"
  shows "read_memory api start_address count = Ok (b, bytes)"
proof -
  have sum: "unat (start_address + count) = unat start_address + unat count"
    using assms(2) by (subst unat_add_lem [THEN iffD1]) auto
  then have le: "start_address \<le> start_address + count" by (simp add: word_le_nat_alt)
  have "partition_point (\<lambda>a. \<not> readable api a) start_address (start_address + count) = b"
    by (rule word_pp.search_unique)
      (use assms le in \<open>auto simp: partitioned_def dest: less_le_trans intro: order_trans\<close>)
  moreover have "unat (start_address + count - b) \<le> vec_limit"
    using assms(1,4,5) sum by (simp add: unat_sub word_le_nat_alt)
  ultimately show ?thesis using assms(1,3,7) by (simp add: read_memory_def Let_def)
qed

text \<open>
  C34 (decoding covers the bytes).  With a decoder that decodes prefixes into instructions of at
  least one byte, \<open>disassemble_bytes\<close> returns, and its entries cover the buffer from the base
  address on, without gap or overlap; a byte that cannot be decoded is an entry of its own.
\<close>

theorem disassemble_bytes_covers:
  assumes "decoder_ok api"
  shows "\<exists>es. disassemble_bytes api a buffer = Some (Ok es) \<and> covers api a es buffer"
  using assms by (rule disassemble_bytes_covers_aux)


lemma aligned_bounded:
  assumes "decoder_ok api" "length buffer \<le> n"
    and f: "(find_aligned api base start buffer tries :: ('f error, _) res option) = Some (Ok (Some (start', buffer', instrs, k)))"
  shows "k < length instrs" and "fst (instrs ! k) = base" and "length instrs \<le> n"
proof -
  from find_aligned_Some [OF f] show "k < length instrs" "fst (instrs ! k) = base" by auto
  from find_aligned_Some [OF f] have "length buffer' \<le> length buffer"
    and "(disassemble_bytes api start' buffer' :: ('f error, _) res option) = Some (Ok instrs)" by auto
  moreover obtain es where "(disassemble_bytes api start' buffer' :: ('f error, _) res option) = Some (Ok es)"
    "covers api start' es buffer'" using disassemble_bytes_covers_aux [OF assms(1)] by blast
  ultimately show "length instrs \<le> n" using assms(2) covers_length by force
qed

text \<open>Where the instruction \<open>k\<close> of the decoded ones is in a window that starts \<open>off\<close> before it.\<close>

lemma window_base:
  fixes off count :: int and k :: nat
  assumes "length before = nat (- min (int k + off) 0)" "k < length xs" "off \<le> 0" "- off < count"
  shows "(before @ take (nat (int k + off + count - max (int k + off) 0)) (drop (nat (int k + off)) xs)) ! nat (- off) = xs ! k"
proof (cases "int k + off < 0")
  case True
  then have "length before = nat (- off) - k" "k < nat (int k + off + count)" using assms by auto
  moreover have "k \<le> nat (- off)" "\<not> nat (- off) < nat (- off) - k" using True by simp_all
  ultimately show ?thesis using True assms(2) by (simp add: nth_append)
next
  case False
  then have "before = []" "nat (- off) < nat (int k + off + count - (int k + off))" "nat (int k + off) + nat (- off) = k"
    using assms by auto
  with False assms(2) show ?thesis by (simp add: max_def)
qed

text \<open>
  C33 (the window).  A successful \<open>disassemble\<close> request of a reasonable size returns exactly the
  number of instructions asked for, and the instruction at the base address is where the client
  expects it, at the negated instruction offset.
\<close>

theorem disassemble_window:
  assumes "(handle_disassemble api m parse lp args :: ('f error, _) res option) = Some (Ok rows)"
    and "parse (da_memory_reference args) = Ok addr"
    and "base = (case da_offset args of Some off \<Rightarrow> addr + as_u64 off | None \<Rightarrow> addr)"
    and "off = (case da_instruction_offset args of Some off \<Rightarrow> off | None \<Rightarrow> 0)"
    and "decoder_ok api" "reader_ok api"
    and "- (2 ^ 32) \<le> off" "off \<le> 2 ^ 32" "da_instruction_count args \<le> 2 ^ 32"
  shows "int (length rows) = da_instruction_count args
    \<and> (off \<le> 0 \<and> - off < da_instruction_count args \<longrightarrow> di_address (rows ! nat (- off)) = hex_ref base)"
  using assms(1-4)
proof (rule handle_disassemble_Ok)
  fix lo hi start buffer start' buffer' instrs k row
  let ?count = "da_instruction_count args"
  assume count: "0 \<le> ?count" and r: "disassemble_range api base off ?count = (lo, hi)"
    and m: "(read_memory api lo (hi - lo) :: ('f error, _) res) = Ok (start, buffer)"
    and f: "(find_aligned api base start buffer [0..<min (unat (max_instruction_bytes api)) (length buffer)]
        :: ('f error, _) res option) = Some (Ok (Some (start', buffer', instrs, k)))"
    and w: "(window_rows row start' (start' + of_nat (length buffer')) instrs (wrap_i64 (int k + off))
       (wrap_i64 (wrap_i64 (int k + off) + ?count)) :: ('f error, _) res) = Ok rows"
    and row: "row_addressed row"
  note bounds = disassemble_range_bounds [OF r assms(7,8) count assms(9)]
  have "length buffer \<le> 2 ^ 38"
    using read_memory_length [OF assms(6) _ m] bounds by simp
  note k = aligned_bounded [OF assms(5) this f]
  note len = k(3)
  have idx: "wrap_i64 (int k + off) = int k + off" "wrap_i64 (int k + off + ?count) = int k + off + ?count"
    using k(1) len assms(7-9) count by (intro wrap_i64_id; simp)+
  let ?lo = "int k + off" and ?hi = "int k + off + ?count"
  have lh: "- (2 ^ 63) \<le> ?lo" "?lo < 2 ^ 63" "- (2 ^ 63) \<le> ?hi" "?hi < 2 ^ 63" "length instrs < 2 ^ 63"
    using k(1) len assms(7-9) count by simp_all
  note win = window_rows_Ok [OF w [unfolded idx] row lh]
  let ?before = "map (\<lambda>i. hex_ref (start' + as_u64 i)) [?lo..-1]"
  let ?window = "take (nat (?hi - max ?lo 0)) (drop (nat ?lo) (map (hex_ref \<circ> fst) instrs))"
  have addresses: "map di_address rows = ?before @ ?window" using win(4) by (simp add: take_map drop_map)
  have lens: "length ?before = nat (- min ?lo 0)" "length ?window = nat (?hi - max ?lo 0)"
    using win(1,2,3) by (auto simp: max_def min_def)
  have "length rows = length ?before + length ?window"
    using arg_cong [OF addresses, of length] by simp
  then have total: "int (length rows) = ?count" using win(1,3) lens by (auto simp: max_def min_def split: if_splits)
  moreover have "di_address (rows ! nat (- off)) = hex_ref base" if off: "off \<le> 0" "- off < ?count"
  proof -
    have "nat (- off) < length rows" using total off by simp
    then have "di_address (rows ! nat (- off)) = (?before @ ?window) ! nat (- off)" by (simp flip: addresses)
    also have "\<dots> = map (hex_ref \<circ> fst) instrs ! k"
      using k(1) off by (intro window_base lens(1)) simp_all
    finally show ?thesis using k(1,2) by simp
  qed
  ultimately show ?thesis by blast
qed

text \<open>
  A small target for the witnesses: two-byte instructions, memory readable from address 16 on.
\<close>

definition block_api :: dasm_api where
  "block_api = tiny_api
     \<lparr>addr_symbol := (\<lambda>_. None),
      get_instructions := (\<lambda>a buffer _. if 2 \<le> length buffer then [a] else []),
      target_triple := ''aarch64-linux'',
      process_read_memory := (\<lambda>a n. if 16 \<le> a \<and> unat a + n \<le> 1000 then Some (replicate n 144) else None)\<rparr>"

lemma block_api_ok: "decoder_ok block_api" "reader_ok block_api"
  by (auto simp: decoder_ok_def reader_ok_def block_api_def tiny_api_def Let_def split: if_splits)

theorem read_memory_boundary_witness: "read_memory block_api 10 10 = Ok (16, [144, 144, 144, 144])"
proof (rule read_memory_boundary)
  show "readable block_api a \<longleftrightarrow> 16 \<le> a" if "10 \<le> a" "a < 10 + 10" for a
    using that by (auto simp: readable_def block_api_def word_less_nat_alt)
qed (simp_all add: block_api_def vec_limit_def replicate_4)

theorem disassemble_bytes_covers_witness:
  "\<exists>es. disassemble_bytes block_api 16 [1, 2, 3] = Some (Ok es) \<and> covers block_api 16 es [1, 2, 3]"
  by (rule disassemble_bytes_covers) (rule block_api_ok)

theorem disassemble_window_witness:
  "\<exists>rows. handle_disassemble block_api 4 (\<lambda>_. Ok 20) (\<lambda>_. None)
       \<lparr>da_memory_reference = ''20'', da_offset = None, da_instruction_offset = Some (- 1),
        da_instruction_count = 3, da_resolve_symbols = None\<rparr> = (Some (Ok rows) :: (unit error, _) res option)
     \<and> length rows = 3 \<and> di_address (rows ! 1) = ''0x14''"
proof -
  let ?args = "\<lparr>da_memory_reference = ''20'', da_offset = None, da_instruction_offset = Some (- 1),
        da_instruction_count = 3, da_resolve_symbols = None\<rparr>"
  let ?h = "handle_disassemble block_api 4 (\<lambda>_. Ok 20) (\<lambda>_. None) ?args :: (unit error, _) res option"
  let ?mem = "replicate 12 144 :: u8 list"
  let ?es = "[(16, 18, Decoded 16), (18, 20, Decoded 18), (20, 22, Decoded 20), (22, 24, Decoded 22),
    (24, 26, Decoded 24), (26, 28, Decoded 26)] :: decoded_entry list"
  have range: "disassemble_range block_api 20 (- 1) 3 = (16, 28)"
    by (simp add: disassemble_range_def saturating_sub_u64_def saturating_add_u64_def as_u64_def
        wrap_i64_def max_instruction_bytes_def block_api_def tiny_api_def starts_with_def)
  have mem: "read_memory block_api 16 12 = (Ok (16, ?mem) :: (unit error, _) res)"
    by (simp add: read_memory_def block_api_def vec_limit_def)
  have found: "find_aligned block_api 20 16 ?mem [0..<min (unat (max_instruction_bytes block_api)) (length ?mem)]
    = (Some (Ok (Some (16, ?mem, ?es, 2))) :: (unit error, _) res option)" by code_simp
  have "is_ok (window_rows (decoded_row block_api 4 (\<lambda>_. None) True 16 ?mem) 16 28 ?es 1 4
    :: (unit error, _) res)" by code_simp
  then obtain rows where "window_rows (decoded_row block_api 4 (\<lambda>_. None) True 16 ?mem) 16 28 ?es 1 4
    = (Ok rows :: (unit error, _) res)" by (auto elim: is_ok.elims)
  then have rows: "?h = Some (Ok rows)"
    using range mem found by (simp add: handle_disassemble_def wrap_i64_def del: upt_Suc replicate.simps)
  from disassemble_window [OF rows, of 20 20 "- 1"]
  have "int (length rows) = 3" "di_address (rows ! 1) = hex_ref 20" by (simp_all add: block_api_ok)
  moreover have "hex_ref 20 = ''0x14''" by code_simp
  ultimately show ?thesis using rows by auto
qed

section \<open>Windows that leave the decoded instructions\<close>

text \<open>
  The rows of padding after the decoded instructions are never reached: a window that ends past
  them, or before the first of them, makes the slice panic.
\<close>

lemma window_overrun_panics:
  assumes "- (2 ^ 63) \<le> lo" "lo < 2 ^ 63" "int (length es) < hi" "hi < 2 ^ 63"
  shows "window_rows row a b es lo hi = Panic"
proof -
  have "unat (as_u64 hi) = nat hi" using assms by (subst unat_as_u64) auto
  moreover have "\<not> nat hi \<le> length es" using assms(3) by simp
  ultimately show ?thesis by (simp add: window_rows_def slice_def Let_def)
qed

text \<open>The first row never has a location, as there is no row before it to differ from.\<close>

lemma first_row_no_location:
  "decoded_rows (decoded_row api n lp rs start buffer) None es = Ok (d # ds) \<Longrightarrow> di_location d = None"
  by (cases es)
    (auto simp: bind_res_eq_Ok decoded_row_def map_res_eq_Ok instruction_row_def
      default_disassembled_instruction_def Let_def split: decoded.splits option.splits)

end
