(* ===== verification/Hit_Condition.thy ===== *)
theory Hit_Condition
  imports Errors
begin

text \<open>
  \<open>src/codelldb/src/expressions/hit_condition.rs\<close>: the condition on the hit count of a
  breakpoint, its parser and what \<open>DebugSession::on_breakpoint_hit\<close> makes of it.
\<close>

section \<open>The parsing library\<close>

text \<open>
  The parsers are put together from the \<open>nom\<close> library and from \<open>parse_int\<close>, neither of which is
  in the repository.  Their primitives are parameters; the combinators \<open>alt\<close>, \<open>pair\<close>, \<open>map\<close>,
  \<open>opt\<close> and \<open>preceded\<close> appear as the control flow they stand for.  A primitive returns the rest of
  the input with what it recognized.
\<close>

record nom =
  nom_tag :: "string \<Rightarrow> string \<Rightarrow> string option"
  nom_char :: "char \<Rightarrow> string \<Rightarrow> string option"
  nom_space0 :: "string \<Rightarrow> string"
  nom_digit1 :: "string \<Rightarrow> (string \<times> string) option"
  nom_anychar :: "string \<Rightarrow> (string \<times> string) option"
  parse_int_u32 :: "string \<Rightarrow> u32 option"
  char_is_alphabetic :: "string \<Rightarrow> bool"

definition is_letter :: "char \<Rightarrow> bool" where
  "is_letter c = (let n = of_char c :: nat in 65 \<le> n \<and> n \<le> 90 \<or> 97 \<le> n \<and> n \<le> 122)"

definition is_blank :: "char \<Rightarrow> bool" where
  "is_blank c = (c = CHR '' '' \<or> c = CHR 0x09)"

text \<open>
  The documented behaviour of the primitives: \<open>tag\<close> and \<open>char\<close> strip a prefix, \<open>space0\<close> strips spaces and
  tabs, \<open>digit1\<close> takes as many decimal digits as there are, at least one, \<open>anychar\<close> takes a
  character, a single byte where it is ASCII, and \<open>parse_int\<close> reads a
  number without a sign, leading zero or separator as decimal.
\<close>

definition nom_ok :: "nom \<Rightarrow> bool" where
  "nom_ok n \<longleftrightarrow>
     (\<forall>t s. nom_tag n t s = (if starts_with s t then Some (drop (length t) s) else None))
     \<and> (\<forall>c s. nom_char n c s = (case s of [] \<Rightarrow> None | x # r \<Rightarrow> if x = c then Some r else None))
     \<and> (\<forall>s. nom_space0 n s = dropWhile is_blank s)
     \<and> (\<forall>s. nom_digit1 n s =
          (if takeWhile is_digit s = [] then None else Some (dropWhile is_digit s, takeWhile is_digit s)))
     \<and> (\<forall>c s. (of_char c :: nat) < 128 \<longrightarrow> nom_anychar n (c # s) = Some (s, [c]))
     \<and> nom_anychar n [] = None
     \<and> (\<forall>c. (of_char c :: nat) < 128 \<longrightarrow> char_is_alphabetic n [c] = is_letter c)
     \<and> (\<forall>k. k < 2 ^ 32 \<longrightarrow> parse_int_u32 n (show_nat k) = Some (of_nat k))"

text \<open>\<open>unsigned\<close>: the number is unwrapped, so one that does not fit panics.\<close>

definition unsigned_parser :: "nom \<Rightarrow> string \<Rightarrow> (unit, string \<times> u32) res" where
  "unsigned_parser n input =
     (case nom_digit1 n input of
        None \<Rightarrow> Err ()
      | Some (rest, s) \<Rightarrow> (case parse_int_u32 n s of Some k \<Rightarrow> Ok (rest, k) | None \<Rightarrow> Panic))"

section \<open>Hit conditions\<close>

datatype hit_condition = LT u32 | LE u32 | EQ u32 | GE u32 | GT u32 | MOD u32

text \<open>One alternative, \<open>map(preceded(tag(t), preceded(space0, unsigned)), c)\<close>.\<close>

definition condition_alt ::
  "nom \<Rightarrow> string \<times> (u32 \<Rightarrow> hit_condition) \<Rightarrow> string \<Rightarrow> (unit, string \<times> hit_condition) res" where
  "condition_alt n tc input =
     (case nom_tag n (fst tc) input of
        None \<Rightarrow> Err ()
      | Some rest \<Rightarrow> map_res (\<lambda>(rest, k). (rest, snd tc k)) (unsigned_parser n (nom_space0 n rest)))"

text \<open>\<open>alt\<close>: the first alternative that does not fail; a panic is not a failure.\<close>

fun first_alt :: "('x \<Rightarrow> (unit, 'a) res) \<Rightarrow> 'x list \<Rightarrow> (unit, 'a) res" where
  "first_alt f [] = Err ()"
| "first_alt f (x # xs) = (case f x of Err _ \<Rightarrow> first_alt f xs | r \<Rightarrow> r)"

definition condition_table :: "(string \<times> (u32 \<Rightarrow> hit_condition)) list" where
  "condition_table =
     [(''<='', LE), (''<'', LT), (''=='', EQ), (''='', EQ), (''>='', GE), (''>'', GT), (''%'', MOD)]"

definition parse_hit_condition :: "nom \<Rightarrow> string \<Rightarrow> (unit, hit_condition) res" where
  "parse_hit_condition n expr =
     (let input = trim expr in
      map_res snd
        (case first_alt (\<lambda>tc. condition_alt n tc input) condition_table of
           Err _ \<Rightarrow> map_res (\<lambda>(rest, k). (rest, GE k)) (unsigned_parser n input)
         | r \<Rightarrow> r))"

text \<open>The check of \<open>on_breakpoint_hit\<close>; the remainder by zero panics.\<close>

fun hit_condition_holds :: "hit_condition \<Rightarrow> u32 \<Rightarrow> ('e, bool) res" where
  "hit_condition_holds (LT n) c = Ok (c < n)"
| "hit_condition_holds (LE n) c = Ok (c \<le> n)"
| "hit_condition_holds (EQ n) c = Ok (c = n)"
| "hit_condition_holds (GE n) c = Ok (c \<ge> n)"
| "hit_condition_holds (GT n) c = Ok (c > n)"
| "hit_condition_holds (MOD n) c = (if n = 0 then Panic else Ok (c mod n = 0))"

section \<open>Printing\<close>

text \<open>The operator a condition is written with, and a condition as the user writes it.\<close>

fun condition_op :: "hit_condition \<Rightarrow> string" where
  "condition_op (LT n) = ''<''"
| "condition_op (LE n) = ''<=''"
| "condition_op (EQ n) = ''==''"
| "condition_op (GE n) = ''>=''"
| "condition_op (GT n) = ''>''"
| "condition_op (MOD n) = ''%''"

fun condition_arg :: "hit_condition \<Rightarrow> u32" where
  "condition_arg (LT n) = n"
| "condition_arg (LE n) = n"
| "condition_arg (EQ n) = n"
| "condition_arg (GE n) = n"
| "condition_arg (GT n) = n"
| "condition_arg (MOD n) = n"

definition print_condition :: "nat \<Rightarrow> hit_condition \<Rightarrow> string" where
  "print_condition blanks c =
     condition_op c @ replicate blanks CHR '' '' @ show_nat (unat (condition_arg c))"

definition simple_nom :: nom where
  "simple_nom = \<lparr>nom_tag = (\<lambda>t s. if starts_with s t then Some (drop (length t) s) else None),
     nom_char = (\<lambda>c s. case s of [] \<Rightarrow> None | x # r \<Rightarrow> if x = c then Some r else None),
     nom_space0 = dropWhile is_blank,
     nom_digit1 = (\<lambda>s. if takeWhile is_digit s = [] then None
                      else Some (dropWhile is_digit s, takeWhile is_digit s)),
     nom_anychar = (\<lambda>s. case s of [] \<Rightarrow> None | c # r \<Rightarrow> Some (r, [c])),
     parse_int_u32 = (\<lambda>s. map_option of_nat (parse_unsigned (2 ^ 32) s)),
     char_is_alphabetic = (\<lambda>c. list_all is_letter c)\<rparr>"

lemma simple_nom_ok: "nom_ok simple_nom"
  by (simp add: nom_ok_def simple_nom_def parse_show_nat)

section \<open>Lemmas\<close>

lemma digits_of_show [simp]:
  "takeWhile is_digit (show_nat k @ s) = show_nat k @ takeWhile is_digit s"
  "dropWhile is_digit (show_nat k @ s) = dropWhile is_digit s"
  using show_nat_digits [of k] by (auto simp: list_all_iff takeWhile_append dropWhile_append)

lemma show_nat_ne [simp]: "show_nat k \<noteq> []"
  by (simp add: show_nat_def show_base_nonempty)

lemma unsigned_show:
  assumes "nom_ok n" "\<forall>c \<in> set (take 1 s). \<not> is_digit c"
  shows "unsigned_parser n (show_nat (unat k) @ s) = Ok (s, k)"
proof -
  have "takeWhile is_digit s = []" "dropWhile is_digit s = s" using assms(2) by (cases s; simp)+
  moreover have "unat k < 2 ^ 32" using unsigned_less [of k] by simp
  then have "parse_int_u32 n (show_nat (unat k)) = Some k" using assms(1) by (simp add: nom_ok_def)
  ultimately show ?thesis using assms(1) by (simp add: unsigned_parser_def nom_ok_def)
qed

lemma digit_head: "\<exists>c r. show_nat k = c # r \<and> is_digit c"
  using show_nat_digits [of k] show_nat_ne [of k] by (cases "show_nat k") auto

lemma blanks_show: "dropWhile is_blank (replicate b CHR '' '' @ show_nat k @ s) = show_nat k @ s"
proof -
  obtain c r where c: "show_nat k = c # r" "is_digit c" using digit_head by blast
  then have "\<not> is_blank c" by (auto simp: is_blank_def is_digit_def)
  with c show ?thesis by (induction b) (simp_all add: is_blank_def)
qed

text \<open>White space does not matter to text that neither starts nor ends with it.\<close>

lemma ws_len_ascii: "n < 128 \<Longrightarrow> \<not> (9 \<le> n \<and> n \<le> 13 \<or> n = 32) \<Longrightarrow> ws_len (n # r) = 0"
  by (auto simp: ws_len_def split: list.split)


lemma trim_start_blank: "trim_start (CHR '' '' # s) = trim_start s"
  by (subst trim_start.simps) (simp add: ws_prefix_def ws_len_def)

lemma trim_start_id: "(of_char c :: nat) < 128 \<Longrightarrow> \<not> (9 \<le> (of_char c :: nat) \<and> (of_char c :: nat) \<le> 13 \<or> (of_char c :: nat) = 32) \<Longrightarrow>
    trim_start (c # s) = c # s"
  by (subst trim_start.simps) (simp add: ws_prefix_def ws_len_ascii)

lemma trim_end_blank: "trim_end (s @ [CHR '' '']) = trim_end s"
  by (subst trim_end.simps) (simp add: ws_suffix_def ws_len_def Let_def)

lemma ws_suffix_ascii:
  assumes "(of_char c :: nat) < 128" "\<not> (9 \<le> (of_char c :: nat) \<and> (of_char c :: nat) \<le> 13 \<or> (of_char c :: nat) = 32)"
  shows "ws_suffix (s @ [c]) = 0"
proof -
  let ?bs = "map of_char (s @ [c]) :: nat list"
  have one: "ws_len (drop (length ?bs - 1) ?bs) = 0" using assms by (simp add: ws_len_ascii)
  have two: "ws_len (drop (length ?bs - 2) ?bs) \<noteq> 2" if l: "2 \<le> length ?bs"
  proof -
    obtain u x where "s = u @ [x]" using l by (cases s rule: rev_cases) auto
    then show ?thesis using assms(1) by (auto simp: ws_len_def)
  qed
  have three: "ws_len (drop (length ?bs - 3) ?bs) \<noteq> 3" if l: "3 \<le> length ?bs"
  proof -
    obtain u x where u: "s = u @ [x]" using l by (cases s rule: rev_cases) auto
    moreover obtain v y where "u = v @ [y]" using l u by (cases u rule: rev_cases) auto
    ultimately show ?thesis using assms(1) by (auto simp: ws_len_def)
  qed
  show ?thesis using one two three by (auto simp: ws_suffix_def Let_def)
qed

lemma trim_end_id:
  assumes "(of_char c :: nat) < 128" "\<not> (9 \<le> (of_char c :: nat) \<and> (of_char c :: nat) \<le> 13 \<or> (of_char c :: nat) = 32)"
  shows "trim_end (s @ [c]) = s @ [c]"
  using ws_suffix_ascii [OF assms] by (subst trim_end.simps) simp

lemma trim_padded:
  assumes "\<And>c. c \<in> set [hd s, last s] \<Longrightarrow>
      (of_char c :: nat) < 128 \<and> \<not> (9 \<le> (of_char c :: nat) \<and> (of_char c :: nat) \<le> 13 \<or> (of_char c :: nat) = 32)"
    and "s \<noteq> []"
  shows "trim (replicate a CHR '' '' @ s @ replicate b CHR '' '') = s"
proof -
  have "trim_start (replicate a CHR '' '' @ r) = trim_start r" for r
    by (induction a) (simp_all add: trim_start_blank)
  moreover obtain h t where h: "s = h # t" using assms(2) by (cases s) auto
  ultimately have "trim_start (replicate a CHR '' '' @ s @ replicate b CHR '' '') = s @ replicate b CHR '' ''"
    using assms(1) [of h] by (simp add: trim_start_id)
  moreover have "trim_end (s @ replicate b CHR '' '') = trim_end s"
  proof (induction b)
    case (Suc b)
    have "trim_end ((s @ replicate b CHR '' '') @ [CHR '' '']) = trim_end (s @ replicate b CHR '' '')"
      by (rule trim_end_blank)
    with Suc show ?case by (simp add: replicate_append_same [symmetric])
  qed simp
  moreover obtain u c where u: "s = u @ [c]" using assms(2) by (cases s rule: rev_cases) auto
  moreover have "trim_end (u @ [c]) = u @ [c]" by (rule trim_end_id) (use assms(1) [of c] u in auto)
  ultimately show ?thesis by (simp add: trim_def)
qed

lemma digit_plain: "is_digit c \<Longrightarrow> (of_char c :: nat) < 128 \<and>
    \<not> (9 \<le> (of_char c :: nat) \<and> (of_char c :: nat) \<le> 13 \<or> (of_char c :: nat) = 32)"
  by (simp add: is_digit_def)

lemma last_digit: "is_digit (last (show_nat k))"
  using show_nat_digits [of k] by (simp add: list_all_iff)

lemma op_parts: "\<exists>h t. condition_op c = h # t \<and> (of_char h :: nat) < 128 \<and>
    \<not> (9 \<le> (of_char h :: nat) \<and> (of_char h :: nat) \<le> 13 \<or> (of_char h :: nat) = 32) \<and> \<not> is_digit h"
  by (cases c) (auto simp: is_digit_def)

lemma parse_printed:
  assumes n: "nom_ok n"
  shows "first_alt (\<lambda>tc. condition_alt n tc (print_condition b c)) condition_table = Ok ([], c)"
proof -
  have tag: "nom_tag n t s = (if starts_with s t then Some (drop (length t) s) else None)" for t s
    using n by (simp add: nom_ok_def)
  let ?r = "replicate b CHR '' '' @ show_nat (unat (condition_arg c))"
  have num: "unsigned_parser n (nom_space0 n ?r) = Ok ([], condition_arg c)"
    using n blanks_show [of b _ "[]"] unsigned_show [OF n, of "[]"] by (simp add: nom_ok_def)
  have noeq: "unsigned_parser n (nom_space0 n (drop 1 (CHR ''='' # s))) = unsigned_parser n (nom_space0 n s)" for s
    by simp
  obtain h t where h: "?r = h # t" "h = CHR '' '' \<or> is_digit h"
  proof -
    obtain d ds where "show_nat (unat (condition_arg c)) = d # ds" "is_digit d" using digit_head by blast
    then show thesis using that by (cases b) auto
  qed
  then have hne: "h \<noteq> CHR ''=''" by (auto simp: is_digit_def)
  show ?thesis
    using num h(1) hne
    by (cases c) (simp_all add: condition_table_def condition_alt_def print_condition_def tag starts_with_def)
qed

section \<open>Properties\<close>

text \<open>
  C40 (hit conditions are read as written).  Whatever blanks surround it or separate the operator
  from the number, a hit condition is parsed to the condition it writes; a bare number n asks
  for at least n hits.
\<close>

theorem hit_condition_roundtrip:
  assumes "nom_ok n"
  shows "parse_hit_condition n (replicate a CHR '' '' @ print_condition b c @ replicate d CHR '' '') = Ok c
    \<and> parse_hit_condition n (replicate a CHR '' '' @ show_nat (unat k) @ replicate d CHR '' '') = Ok (GE k)"
proof
  obtain h t where op: "condition_op c = h # t" "(of_char h :: nat) < 128"
    "\<not> (9 \<le> (of_char h :: nat) \<and> (of_char h :: nat) \<le> 13 \<or> (of_char h :: nat) = 32)" using op_parts by blast
  have "trim (replicate a CHR '' '' @ print_condition b c @ replicate d CHR '' '') = print_condition b c"
    using op digit_plain [OF last_digit, of "unat (condition_arg c)"]
    by (intro trim_padded) (auto simp: print_condition_def)
  with parse_printed [OF assms] show
    "parse_hit_condition n (replicate a CHR '' '' @ print_condition b c @ replicate d CHR '' '') = Ok c"
    by (simp add: parse_hit_condition_def)
  have tag: "nom_tag n t s = (if starts_with s t then Some (drop (length t) s) else None)" for t s
    using assms by (simp add: nom_ok_def)
  obtain e r where e: "show_nat (unat k) = e # r" "is_digit e" using digit_head by blast
  have "trim (replicate a CHR '' '' @ show_nat (unat k) @ replicate d CHR '' '') = show_nat (unat k)"
    using e digit_plain [OF e(2)] digit_plain [OF last_digit, of "unat k"] by (intro trim_padded) auto
  moreover have "first_alt (\<lambda>tc. condition_alt n tc (show_nat (unat k))) condition_table = Err ()"
    using e by (simp add: condition_table_def condition_alt_def tag starts_with_def) (auto simp: is_digit_def)
  moreover have "unsigned_parser n (show_nat (unat k)) = Ok ([], k)" using unsigned_show [OF assms, of "[]" k] by simp
  ultimately show "parse_hit_condition n (replicate a CHR '' '' @ show_nat (unat k) @ replicate d CHR '' '') = Ok (GE k)"
    by (simp add: parse_hit_condition_def)
qed

theorem hit_condition_roundtrip_witness:
  "parse_hit_condition simple_nom ''  <=  53 '' = Ok (LE 53)"
proof -
  have "print_condition 2 (LE 53) = ''<=  53''" by code_simp
  then show ?thesis
    using hit_condition_roundtrip [OF simple_nom_ok, of 2 2 "LE 53" 1] by (simp add: numeral_2_eq_2)
qed

text \<open>
  A condition is decided for every count, with one exception: a condition on multiples of zero,
  which the parser accepts, panics.
\<close>

lemma hit_condition_panics: "hit_condition_holds c k = (Panic :: ('e, bool) res) \<longleftrightarrow> c = MOD 0"
  by (cases c) auto

end
