(* ===== verification/Expressions.thy ===== *)
theory Expressions
  imports Hit_Condition Adapter_Types
begin

text \<open>
  \<open>src/codelldb/src/expressions/mod.rs\<close> and \<open>expression_format.rs\<close>: the prefix that selects the
  expression language, and the format suffix (\<open>value,x\<close>, \<open>ptr,[50]\<close>).  The two preprocessors of
  expressions are parameters here.
\<close>

section \<open>Formats\<close>

text \<open>The constructors of \<open>lldb::Format\<close> that the code names.\<close>

datatype format =
    FmtDefault | FmtChar | FmtHex | FmtOctal | FmtDecimal | FmtBinary | FmtFloat | FmtPointer
  | FmtUnsigned | FmtCString | FmtBytes | FmtBytesWithASCII

record format_spec =
  fs_format :: "format option"
  fs_array :: "u32 option"

definition format_none :: format_spec where
  "format_none = \<lparr>fs_format = None, fs_array = None\<rparr>"

definition convert_format :: "string \<Rightarrow> format option" where
  "convert_format c =
     map_of [(''c'', FmtChar), (''h'', FmtHex), (''x'', FmtHex), (''o'', FmtOctal), (''d'', FmtDecimal),
       (''b'', FmtBinary), (''f'', FmtFloat), (''p'', FmtPointer), (''u'', FmtUnsigned), (''s'', FmtCString),
       (''y'', FmtBytes), (''Y'', FmtBytesWithASCII)] c"

text \<open>The two optional parsers of the suffix; a number that does not fit panics.\<close>

definition format_char :: "nom \<Rightarrow> string \<Rightarrow> string \<times> string option" where
  "format_char n input =
     (case nom_anychar n input of
        Some (rest, c) \<Rightarrow> if char_is_alphabetic n c then (rest, Some c) else (input, None)
      | None \<Rightarrow> (input, None))"

definition format_array :: "nom \<Rightarrow> string \<Rightarrow> ('e, string \<times> u32 option) res" where
  "format_array n input =
     (case nom_char n CHR ''['' input of
        None \<Rightarrow> Ok (input, None)
      | Some rest \<Rightarrow>
          (case unsigned_parser n rest of
             Panic \<Rightarrow> Panic
           | Err _ \<Rightarrow> Ok (input, None)
           | Ok (rest, k) \<Rightarrow>
               (case nom_char n CHR '']'' rest of
                  None \<Rightarrow> Ok (input, None)
                | Some rest \<Rightarrow> Ok (rest, Some k))))"

definition get_expression_format :: "nom \<Rightarrow> string \<Rightarrow> ('f error, string \<times> format_spec) res" where
  "get_expression_format n expr =
     (case rfind CHR '','' expr of
        None \<Rightarrow> Ok (expr, format_none)
      | Some pos \<Rightarrow>
          (let (rest, format_ch) = format_char n (drop (pos + 1) expr) in
           bind_res (format_array n rest) (\<lambda>(rest, array).
             if rest = [] then
               (case format_ch of
                  None \<Rightarrow> Ok (take pos expr, \<lparr>fs_format = None, fs_array = array\<rparr>)
                | Some c \<Rightarrow>
                    (case convert_format c of
                       Some f \<Rightarrow> Ok (take pos expr, \<lparr>fs_format = Some f, fs_array = array\<rparr>)
                     | None \<Rightarrow> Err (StrError (''Invlaid format specifier: '' @ c))))
             else Ok (expr, format_none))))"

section \<open>Languages\<close>

datatype prepared_expression = PxNative string | PxSimple string | PxPython string

definition get_expression_type :: "string \<Rightarrow> expressions \<Rightarrow> string \<times> expressions" where
  "get_expression_type expr default_type =
     (if starts_with expr ''/nat '' then (drop 5 expr, ExNative)
      else if starts_with expr ''/py '' then (drop 4 expr, ExPython)
      else if starts_with expr ''/se '' then (drop 4 expr, ExSimple)
      else (expr, default_type))"

text \<open>\<open>preprocess_simple_expr\<close> and \<open>preprocess_python_expr\<close>.\<close>

record preprocessors =
  preprocess_simple :: "string \<Rightarrow> (string, string) res"
  preprocess_python :: "string \<Rightarrow> (string, string) res"

definition preprocess :: "preprocessors \<Rightarrow> string \<Rightarrow> expressions \<Rightarrow> ('f error, prepared_expression) res" where
  "preprocess pp expr ty =
     (case ty of
        ExNative \<Rightarrow> Ok (PxNative expr)
      | ExSimple \<Rightarrow> map_err StrError (map_res PxSimple (preprocess_simple pp expr))
      | ExPython \<Rightarrow> map_err StrError (map_res PxPython (preprocess_python pp expr)))"

definition prepare :: "preprocessors \<Rightarrow> string \<Rightarrow> expressions \<Rightarrow> ('f error, prepared_expression) res" where
  "prepare pp expression default_type =
     (let (expr, ty) = get_expression_type expression default_type in preprocess pp expr ty)"

definition prepare_with_format ::
  "nom \<Rightarrow> preprocessors \<Rightarrow> string \<Rightarrow> expressions \<Rightarrow>
     ('f error, prepared_expression \<times> format_spec) res" where
  "prepare_with_format n pp expression default_type =
     (let (expr, ty) = get_expression_type expression default_type in
      bind_res (get_expression_format n expr) (\<lambda>(expr, format_spec).
        map_res (\<lambda>px. (px, format_spec)) (preprocess pp expr ty)))"

section \<open>Lemmas\<close>

lemma position_skip: "c \<notin> set t \<Longrightarrow> position (\<lambda>x. x = c) (t @ c # s) = Some (length t)"
proof -
  assume "c \<notin> set t"
  then have "takeWhile (\<lambda>x. x \<noteq> c) (t @ c # s) = t" by (induction t) auto
  then show ?thesis by (simp add: position_def Let_def)
qed

lemma rfind_append: "c \<notin> set t \<Longrightarrow> rfind c (s @ c # t) = Some (length s)"
  using position_skip [of c "rev t" "rev s"] by (simp add: rfind_def)

lemma rfind_None: "c \<notin> set s \<Longrightarrow> rfind c s = None"
proof -
  assume "c \<notin> set s"
  then have "takeWhile (\<lambda>x. x \<noteq> c) (rev s) = rev s" by (subst takeWhile_eq_all_conv) auto
  then have "length (takeWhile (\<lambda>x. x \<noteq> c) (rev s)) = length s" by (simp only: length_rev)
  then show ?thesis by (simp add: rfind_def position_def Let_def)
qed

text \<open>A format suffix as the user writes it.\<close>

definition print_array :: "u32 option \<Rightarrow> string" where
  "print_array a = (case a of None \<Rightarrow> [] | Some k \<Rightarrow> CHR ''['' # show_nat (unat k) @ '']'')"

lemma format_array_print:
  assumes "nom_ok n"
  shows "format_array n (print_array a) = Ok ([], a)"
proof (cases a)
  case None
  then show ?thesis using assms by (simp add: format_array_def print_array_def nom_ok_def)
next
  case (Some k)
  have "unsigned_parser n (show_nat (unat k) @ '']'') = Ok ('']'', k)"
    by (rule unsigned_show [OF assms]) (simp add: is_digit_def)
  moreover have char: "nom_char n c s = (case s of [] \<Rightarrow> None | x # r \<Rightarrow> if x = c then Some r else None)" for c s
    using assms by (simp add: nom_ok_def)
  ultimately show ?thesis by (simp add: format_array_def print_array_def Some)
qed

lemma convert_format_letter:
  "convert_format [c] = Some f \<Longrightarrow> (of_char c :: nat) < 128 \<and> is_letter c"
  by (auto simp: convert_format_def is_letter_def Let_def split: if_splits)

lemma no_comma: "CHR '','' \<notin> set (print_array a)"
proof -
  have "CHR '','' \<notin> set (show_nat k)" for k
    using show_nat_digits [of k] by (auto simp: list_all_iff is_digit_def)
  then show ?thesis by (simp add: print_array_def split: option.split)
qed

section \<open>Properties\<close>

text \<open>
  Format suffixes are read as written.  An expression followed by a comma, a format letter
  and an array length, each optional, is split into the expression and exactly that format; an
  expression without a comma is left as it is.
\<close>

theorem format_suffix_roundtrip:
  assumes "nom_ok n" "convert_format [c] = Some f" "CHR '','' \<notin> set plain"
  shows "(get_expression_format n (e @ CHR '','' # c # print_array a) :: ('f error, _) res)
           = Ok (e, \<lparr>fs_format = Some f, fs_array = a\<rparr>)
    \<and> get_expression_format n (e @ CHR '','' # print_array a) = Ok (e, \<lparr>fs_format = None, fs_array = a\<rparr>)
    \<and> get_expression_format n plain = Ok (plain, format_none)"
proof (intro conjI)
  have c: "(of_char c :: nat) < 128" "is_letter c" using convert_format_letter [OF assms(2)] by auto
  have "c \<noteq> CHR '',''" using c(2) by (auto simp: is_letter_def)
  then have "CHR '','' \<notin> set (c # print_array a)" using no_comma [of a] by auto
  from rfind_append [OF this, of e] show "(get_expression_format n (e @ CHR '','' # c # print_array a) :: ('f error, _) res)
      = Ok (e, \<lparr>fs_format = Some f, fs_array = a\<rparr>)"
    using assms(1,2) c
    by (simp add: get_expression_format_def format_char_def nom_ok_def res_simps format_array_print [OF assms(1)])
  have "format_char n (print_array a) = (print_array a, None)"
    using assms(1) by (auto simp: print_array_def format_char_def nom_ok_def is_letter_def split: option.split)
  with rfind_append [OF no_comma, of e a] show "get_expression_format n (e @ CHR '','' # print_array a) = Ok (e, \<lparr>fs_format = None, fs_array = a\<rparr>)"
    by (simp add: get_expression_format_def format_array_print [OF assms(1)] res_simps)
  show "get_expression_format n plain = Ok (plain, format_none)"
    using rfind_None [OF assms(3)] by (simp add: get_expression_format_def)
qed

theorem format_suffix_roundtrip_witness:
  "get_expression_format simple_nom ''foo,x[42]''
     = (Ok (''foo'', \<lparr>fs_format = Some FmtHex, fs_array = Some 42\<rparr>) :: (unit error, _) res)"
proof -
  have "print_array (Some 42) = ''[42]''" by code_simp
  moreover have "get_expression_format simple_nom (''foo'' @ CHR '','' # CHR ''x'' # print_array (Some 42))
    = (Ok (''foo'', \<lparr>fs_format = Some FmtHex, fs_array = Some 42\<rparr>) :: (unit error, _) res)"
    by (rule format_suffix_roundtrip [OF simple_nom_ok, of _ _ "[]", THEN conjunct1])
      (simp_all add: convert_format_def)
  ultimately show ?thesis by simp
qed

end
