(* ===== verification/Rust_Paths.thy ===== *)
theory Rust_Paths
  imports Rust_Strings
begin

text \<open>
  The operations of \<open>std::path\<close> the modelled code uses, with the separator and the roots of Unix.
\<close>

definition sep :: char where
  "sep = CHR ''/''"

definition is_relative :: "string \<Rightarrow> bool" where
  "is_relative p = (\<not> starts_with p [sep])"

text \<open>\<open>Path::join\<close>: an absolute path replaces the base.\<close>

definition path_join :: "string \<Rightarrow> string \<Rightarrow> string" where
  "path_join base p =
     (if \<not> is_relative p then p
      else if base = [] \<or> ends_with base [sep] then base @ p
      else base @ sep # p)"

text \<open>
  \<open>Path::components\<close>: the root is a component of its own; empty parts and \<open>.\<close> are skipped, except
  a leading \<open>.\<close> of a relative path.
\<close>

definition path_components :: "string \<Rightarrow> string list" where
  "path_components p =
     (let parts = split_char sep p;
          normal = filter (\<lambda>c. c \<noteq> [] \<and> c \<noteq> ''.'') parts
      in if \<not> is_relative p then [sep] # normal
         else if hd parts = ''.'' then ''.'' # normal
         else normal)"

definition path_file_name :: "string \<Rightarrow> string option" where
  "path_file_name p =
     (case rev (path_components p) of
        [] \<Rightarrow> None
      | c # _ \<Rightarrow> if c = [sep] \<or> c = ''.'' \<or> c = ''..'' then None else Some c)"

definition trailing_match :: "string \<Rightarrow> string \<Rightarrow> nat" where
  "trailing_match p q =
     length (takeWhile (\<lambda>(a, b). a = b) (zip (rev (path_components p)) (rev (path_components q))))"

lemma path_join_absolute: "\<not> is_relative base \<Longrightarrow> \<not> is_relative (path_join base p)"
  by (cases base) (auto simp: path_join_def is_relative_def starts_with_def)

lemma trailing_match_le: "trailing_match p q \<le> length (path_components p)"
  unfolding trailing_match_def
  by (rule order_trans [OF length_takeWhile_le]) simp

lemma trailing_match_self: "trailing_match p p = length (path_components p)"
proof -
  have "takeWhile (\<lambda>(a, b). a = b) (zip xs xs) = zip xs xs" for xs :: "string list"
    by (induction xs) auto
  then show ?thesis unfolding trailing_match_def by (simp only: length_zip length_rev min.idem)
qed

end
