(* ===== verification/Session_State.thy ===== *)
theory Session_State
  imports Disassembly Expressions Protocol Rust_Paths
begin

text \<open>
  The state of \<open>DebugSession\<close> (\<open>src/codelldb/src/debug_session.rs\<close>), the part of LLDB's API that
  several handlers use, and the helpers every handler calls: events and console output, lookup of
  threads, the mapping of source paths, and what happens before the debuggee resumes.
\<close>

section \<open>Process states\<close>

text \<open>\<open>ProcessState\<close> of \<open>src/lldb/src/sb/sbprocess.rs\<close>.\<close>

datatype process_state =
    PsInvalid | PsUnloaded | PsConnected | PsAttaching | PsLaunching | PsStopped | PsRunning
  | PsStepping | PsCrashed | PsDetached | PsExited | PsSuspended

fun is_alive :: "process_state \<Rightarrow> bool" where
  "is_alive s = (s \<in> {PsConnected, PsAttaching, PsLaunching, PsStopped, PsRunning, PsStepping,
     PsCrashed, PsSuspended})"

fun is_running :: "process_state \<Rightarrow> bool" where
  "is_running s = (s \<in> {PsAttaching, PsLaunching, PsRunning, PsStepping})"

text \<open>\<open>EvalContext\<close> of \<open>src/codelldb/src/python.rs\<close>.\<close>

datatype eval_context = Statement | PythonExpression | SimpleExpression

section \<open>What is asked of LLDB and of the file system\<close>

text \<open>
  The debugger, its debuggee and the file system are a world of type \<open>'w\<close>.  Threads, frames, line
  entries and the like are named by numbers.  \<open>normalize_path\<close> is from \<open>crate::fsutil\<close>, which
  is not in the repository.
\<close>

record 'w lldb =
  dasm_now :: "'w \<Rightarrow> dasm_api"
  process_state_of :: "'w \<Rightarrow> process_state"
  process_threads :: "'w \<Rightarrow> nat list"
  thread_by_tid :: "'w \<Rightarrow> u64 \<Rightarrow> nat option"
  selected_thread :: "'w \<Rightarrow> nat"
  thread_tid :: "nat \<Rightarrow> u64"
  thread_index_id :: "nat \<Rightarrow> u32"
  frame_at :: "'w \<Rightarrow> nat \<Rightarrow> u32 \<Rightarrow> nat"
  frame_valid :: "'w \<Rightarrow> nat \<Rightarrow> bool"
  frame_pc :: "'w \<Rightarrow> nat \<Rightarrow> u64"
  frame_pc_address :: "'w \<Rightarrow> nat \<Rightarrow> nat"
  frame_line_entry :: "'w \<Rightarrow> nat \<Rightarrow> nat option"
  frame_thread :: "nat \<Rightarrow> nat"
  entry_file_valid :: "nat \<Rightarrow> bool"
  normalize_path :: "string \<Rightarrow> string"
  path_is_file :: "'w \<Rightarrow> string \<Rightarrow> bool"
  handle_command :: "string \<Rightarrow> 'w \<Rightarrow> (bool \<times> string \<times> string) \<times> 'w"
  set_async_mode :: "bool \<Rightarrow> 'w \<Rightarrow> 'w"

section \<open>Breakpoints\<close>

datatype breakpoint_kind = BkSource | BkDisassembly | BkInstruction | BkFunction | BkException string

record breakpoint_info =
  bi_id :: u32
  bi_breakpoint :: nat
  bi_kind :: breakpoint_kind
  bi_condition :: "string option"
  bi_log_message :: "string option"
  bi_hit_condition :: "hit_condition option"
  bi_hit_count :: u32
  bi_exclusions :: "string list"

record breakpoints =
  breakpoint_infos :: "(u32, breakpoint_info) hashmap"
  bps_source :: "(string, (i64, u32) hashmap) hashmap"
  bps_assembly :: "(i64, (i64, u32) hashmap) hashmap"
  bps_instruction :: "(u64, u32) hashmap"
  bps_function :: "(string, u32) hashmap"

definition breakpoints_new :: breakpoints where
  "breakpoints_new = \<lparr>breakpoint_infos = [], bps_source = [], bps_assembly = [], bps_instruction = [],
     bps_function = []\<rparr>"

section \<open>Variable references\<close>

text \<open>
  The containers a variables reference can name.  The tree of references, \<open>HandleTree\<close>, is not in
  the repository: its state is of type \<open>'h\<close> and its operations are parameters.  \<open>ht_depth\<close> is no
  operation of it; it says how far a reference is from the root.
\<close>

datatype container =
    CStackFrame nat | CLocals nat | CStatics nat | CGlobals nat | CRegisters nat | CSBValue nat

record 'h handle_tree =
  ht_create :: "i64 option \<Rightarrow> string \<Rightarrow> container \<Rightarrow> 'h \<Rightarrow> i64 \<times> 'h"
  ht_get :: "'h \<Rightarrow> i64 \<Rightarrow> container option"
  ht_full_info :: "'h \<Rightarrow> i64 \<Rightarrow> (i64 option \<times> string \<times> container) option"
  ht_reset :: "'h \<Rightarrow> 'h"
  ht_depth :: "'h \<Rightarrow> i64 \<Rightarrow> nat"

section \<open>The session\<close>

record step_in_target_internal =
  target_fn :: nat
  stmt_start :: u64
  stmt_end :: u64

text \<open>
  The futures that handlers pass out through \<open>AsyncResponse\<close>; that of a launch creates a terminal and
  is then the future that starts the debuggee.
\<close>

datatype future =
    FutConfigurationDone
  | FutLaunch launch_request_arguments
  | FutStart launch_request_arguments
  | FutAttach attach_request_arguments
  | FutReady "(future error, response_body) res"

text \<open>
  The fields of \<open>DebugSession\<close> the modelled handlers use.  \<open>outbox\<close> is what \<open>send_event\<close> and
  \<open>send_response\<close> passed to the client's session, \<open>has_python\<close> whether the Python interface is there,
  \<open>corked\<close> the state of the event listener.  A terminal is the id its agent reported, if any.
  \<open>pending_futures\<close> are the spawned futures with the requests they answer, and whether the
  \<open>configurationDone\<close> they may wait for has come.
\<close>

record ('w, 'h) session =
  world :: 'w
  outbox :: "message_type list"
  breakpoints :: breakpoints
  var_refs :: 'h
  disasm_ranges :: ranges
  source_map_cache :: "(string, string option) hashmap"
  relative_path_base :: string
  selected_frame_changed :: bool
  last_goto_request :: "goto_targets_args option"
  step_in_targets :: "step_in_target_internal list"
  client_caps :: initialize_args
  has_python :: bool
  no_debug :: bool
  default_expr_type :: expressions
  global_format :: format
  show_disassembly :: show_disassembly
  deref_pointers :: bool
  console_mode :: console_mode
  suppress_missing_files :: bool
  evaluate_for_hovers :: bool
  command_completions :: bool
  evaluation_timeout :: u64
  summary_timeout :: u64
  source_languages :: "string list"
  breakpoint_mode :: breakpoint_mode
  max_summary_length :: nat
  max_instr_bytes :: nat
  terminate_on_disconnect :: bool
  pre_terminate_commands :: "string list option"
  exit_commands :: "string list option"
  graceful_shutdown :: "(string, string list) either option"
  debuggee_terminal :: "terminal_id option option"
  corked :: bool
  pending_futures :: "(u32 \<times> bool \<times> future) list"

type_synonym err = "future error"
type_synonym ('w, 'h, 'a) handler = "(('w, 'h) session, err, 'a) stm"

definition modify_world :: "('w \<Rightarrow> 'w) \<Rightarrow> ('w, 'h, unit) handler" where
  "modify_world f = modifyS (\<lambda>s. s\<lparr>world := f (world s)\<rparr>)"

text \<open>A call that returns a result and changes the world.\<close>

definition call_world :: "('w \<Rightarrow> 'a \<times> 'w) \<Rightarrow> ('w, 'h, 'a) handler" where
  "call_world f s = (let (x, w) = f (world s) in (Ok x, s\<lparr>world := w\<rparr>))"

section \<open>Events and console output\<close>

definition send_event :: "event \<Rightarrow> ('w, 'h, unit) handler" where
  "send_event e = modifyS (\<lambda>s. s\<lparr>outbox := outbox s @ [MEvent e]\<rparr>)"

definition console_message_impl :: "string option \<Rightarrow> string \<Rightarrow> ('w, 'h, unit) handler" where
  "console_message_impl category output = send_event (Ev_output category (output @ [newline]))"

definition console_message :: "string \<Rightarrow> ('w, 'h, unit) handler" where
  "console_message = console_message_impl (Some ''console'')"

definition console_error :: "string \<Rightarrow> ('w, 'h, unit) handler" where
  "console_error = console_message_impl (Some ''stderr'')"

section \<open>Threads\<close>

definition thread_by_id :: "'w lldb \<Rightarrow> i64 \<Rightarrow> ('w, 'h, nat) handler" where
  "thread_by_id ll tid s =
     (case thread_by_tid ll (world s) (as_u64 tid) of
        Some t \<Rightarrow> (Ok t, s)
      | None \<Rightarrow>
          if is_running (process_state_of ll (world s))
          then (Err (blame_nobody (str_error ''Not available while the process is running.'')), s)
          else (Err (str_error ''Invalid thread_id.''), s))"

section \<open>Source paths\<close>

definition ensure_absolute_path :: "('w, 'h) session \<Rightarrow> string \<Rightarrow> string" where
  "ensure_absolute_path s p = (if is_relative p then path_join (relative_path_base s) p else p)"

text \<open>\<open>get_fs_path_case\<close> of \<open>platform.rs\<close>, on Unix.\<close>

definition get_fs_path_case :: "string \<Rightarrow> (string, string) res" where
  "get_fs_path_case p = Ok p"

definition compute_local_path :: "'w lldb \<Rightarrow> ('w, 'h) session \<Rightarrow> string \<Rightarrow> string option" where
  "compute_local_path ll s source_path =
     (let path = normalize_path ll (ensure_absolute_path s source_path) in
      case get_fs_path_case path of
        Ok p \<Rightarrow> if path_is_file ll (world s) p then Some p
               else if suppress_missing_files s then None else Some path
      | _ \<Rightarrow> if suppress_missing_files s then None else Some path)"

text \<open>
  The file spec of a line entry: whether it is valid, and its path.  The result is cached by path.
\<close>

definition map_filespec_to_local :: "'w lldb \<Rightarrow> bool \<times> string \<Rightarrow> ('w, 'h, string option) handler" where
  "map_filespec_to_local ll filespec s =
     (let (valid, source_path) = filespec in
      if \<not> valid then (Ok None, s)
      else case hm_get (source_map_cache s) source_path of
        Some mapped_path \<Rightarrow> (Ok mapped_path, s)
      | None \<Rightarrow>
          (let mapped_path = compute_local_path ll s source_path in
           (Ok mapped_path,
            s\<lparr>source_map_cache := hm_insert source_path mapped_path (source_map_cache s)\<rparr>)))"

definition entry_filespec :: "'w lldb \<Rightarrow> 'w \<Rightarrow> nat \<Rightarrow> bool \<times> string" where
  "entry_filespec ll w le = (entry_file_valid ll le, entry_path (dasm_now ll w) le)"

definition in_disassembly :: "'w lldb \<Rightarrow> nat \<Rightarrow> ('w, 'h, bool) handler" where
  "in_disassembly ll frame s =
     (case show_disassembly s of
        SdAlways \<Rightarrow> (Ok True, s)
      | SdNever \<Rightarrow> (Ok False, s)
      | SdAuto \<Rightarrow>
          (case frame_line_entry ll (world s) frame of
             None \<Rightarrow> (Ok True, s)
           | Some le \<Rightarrow>
               bindS (map_filespec_to_local ll (entry_filespec ll (world s) le))
                 (\<lambda>p. returnS (p = None)) s))"

section \<open>Resuming\<close>

text \<open>What must not outlive the stopped state: references, targets, the pending goto.\<close>

definition before_resume :: "'h handle_tree \<Rightarrow> ('w, 'h, unit) handler" where
  "before_resume ht = modifyS (\<lambda>s. s\<lparr>var_refs := ht_reset ht (var_refs s),
     selected_frame_changed := False, last_goto_request := None, step_in_targets := []\<rparr>)"

section \<open>Disassembled ranges from a handler\<close>

definition dasm_from_address :: "'w lldb \<Rightarrow> u64 \<Rightarrow> ('w, 'h, dasm_range) handler" where
  "dasm_from_address ll a s =
     (let (r, t) = from_address (dasm_now ll (world s)) a (disasm_ranges s) in
      (r, s\<lparr>disasm_ranges := t\<rparr>))"

lemmas session_defs = send_event_def console_message_def console_error_def console_message_impl_def
  modify_world_def call_world_def

lemma is_running_alive: "is_running p \<Longrightarrow> is_alive p"
  by (cases p) auto

section \<open>Property: source paths\<close>

text \<open>
  What the cache promises: it holds, for every path in it, what the computation gives now.  It does
  as long as neither the file system's answers nor the settings of the mapping change.
\<close>

definition cache_ok :: "'w lldb \<Rightarrow> ('w, 'h) session \<Rightarrow> bool" where
  "cache_ok ll s \<longleftrightarrow>
     (\<forall>p q. hm_get (source_map_cache s) p = Some q \<longrightarrow> q = compute_local_path ll s p)"

text \<open>
  C39 (the path cache is transparent).  While the cache agrees with the file system, the mapping
  returns what it would compute without a cache, never touches anything but the cache, and leaves a
  cache that still agrees; it returns no path that does not name a file, unless missing files are
  not suppressed.
\<close>

theorem path_cache_transparent:
  assumes "cache_ok ll s" "map_filespec_to_local ll (valid, p) s = (r, s')"
  shows "r = Ok (if valid then compute_local_path ll s p else None)
    \<and> cache_ok ll s' \<and> s'\<lparr>source_map_cache := source_map_cache s\<rparr> = s
    \<and> (suppress_missing_files s \<longrightarrow> (\<forall>q. r = Ok (Some q) \<longrightarrow> path_is_file ll (world s) q))"
proof -
  have keep: "compute_local_path ll (s\<lparr>source_map_cache := c\<rparr>) q = compute_local_path ll s q" for c q
    by (simp add: compute_local_path_def ensure_absolute_path_def get_fs_path_case_def Let_def)
  have r: "r = Ok (if valid then compute_local_path ll s p else None)"
    and s': "s' = s \<or> s' = s\<lparr>source_map_cache := hm_insert p (compute_local_path ll s p) (source_map_cache s)\<rparr>"
    using assms by (auto simp: map_filespec_to_local_def cache_ok_def Let_def split: if_splits option.splits)
  have "cache_ok ll s'" using s' assms(1) by (auto simp: cache_ok_def keep hashmap split: if_splits)
  moreover have "suppress_missing_files s \<Longrightarrow> compute_local_path ll s p = Some q \<Longrightarrow> path_is_file ll (world s) q" for q
    by (auto simp: compute_local_path_def get_fs_path_case_def Let_def split: if_splits)
  ultimately show ?thesis using r s' by (auto split: if_splits)
qed


text \<open>A debugger and a session for the witnesses: one stopped thread, no symbols.\<close>

definition tiny_lldb :: "'w lldb" where
  "tiny_lldb = \<lparr>dasm_now = (\<lambda>_. tiny_api), process_state_of = (\<lambda>_. PsStopped), process_threads = (\<lambda>_. [1]),
     thread_by_tid = (\<lambda>_ t. if t = 1 then Some 1 else None), selected_thread = (\<lambda>_. 1),
     thread_tid = of_nat, thread_index_id = of_nat, frame_at = (\<lambda>_ t i. unat i),
     frame_valid = (\<lambda>_ f. f < 2), frame_pc = (\<lambda>_ f. of_nat f), frame_pc_address = (\<lambda>_ f. f),
     frame_line_entry = (\<lambda>_ _. None), frame_thread = (\<lambda>_. 1), entry_file_valid = (\<lambda>_. True),
     normalize_path = id, path_is_file = (\<lambda>_ p. p = ''/a/b.c''),
     handle_command = (\<lambda>c w. ((True, [], []), w)), set_async_mode = (\<lambda>_ w. w)\<rparr>"

definition tiny_session :: "'w \<Rightarrow> 'h \<Rightarrow> ('w, 'h) session" where
  "tiny_session w h = \<lparr>world = w, outbox = [], breakpoints = breakpoints_new, var_refs = h,
     disasm_ranges = ranges_new, source_map_cache = [], relative_path_base = ''/a'',
     selected_frame_changed = False, last_goto_request = None, step_in_targets = [],
     client_caps = \<lparr>ic_supports_invalidated_event = None, ic_supports_memory_references = None,
       ic_supports_run_in_terminal_request = None\<rparr>,
     has_python = False, no_debug = False, default_expr_type = ExSimple, global_format = FmtDefault,
     show_disassembly = SdAuto, deref_pointers = True, console_mode = CmCommands,
     suppress_missing_files = True, evaluate_for_hovers = True, command_completions = True,
     evaluation_timeout = 5000, summary_timeout = 10, source_languages = [''cpp''],
     breakpoint_mode = BmPath, max_summary_length = 32, max_instr_bytes = 9,
     terminate_on_disconnect = False, pre_terminate_commands = None, exit_commands = None,
     graceful_shutdown = None, debuggee_terminal = None, corked = False, pending_futures = []\<rparr>"

theorem path_cache_transparent_witness:
  "fst (map_filespec_to_local tiny_lldb (True, ''b.c'') (tiny_session () ())) = Ok (Some ''/a/b.c'')"
proof -
  have "cache_ok tiny_lldb (tiny_session () ())" by (simp add: cache_ok_def tiny_session_def hashmap)
  from path_cache_transparent [OF this, of True "''b.c''"]
  have "fst (map_filespec_to_local tiny_lldb (True, ''b.c'') (tiny_session () ()))
    = Ok (compute_local_path tiny_lldb (tiny_session () ()) ''b.c'')"
    by (metis prod.collapse)
  moreover have "compute_local_path tiny_lldb (tiny_session () ()) ''b.c'' = Some ''/a/b.c''"
    by (simp add: compute_local_path_def ensure_absolute_path_def get_fs_path_case_def tiny_lldb_def
        tiny_session_def path_join_def is_relative_def starts_with_def ends_with_def sep_def Let_def)
  ultimately show ?thesis by simp
qed

end
