(* ===== verification/Breakpoints.thy ===== *)
theory Breakpoints
  imports Session_State
begin

text \<open>
  \<open>src/codelldb/src/debug_session/breakpoints.rs\<close>: the tables of source, disassembly, instruction
  and function breakpoints and how a \<open>set...Breakpoints\<close> request brings the target in line with them,
  exception breakpoints, the responses and events the client gets, and caller exclusions.
\<close>

section \<open>What is asked of LLDB and Python\<close>

text \<open>
  Breakpoints are named by numbers; \<open>bp_id\<close> is LLDB's id.  A callback is the compiled condition it
  was installed with, if it has one.
\<close>

type_synonym py_condition = "(nat \<times> eval_context) option"

datatype exception_language = LangCpp | LangSwift

record 'w bp_api =
  find_bp :: "'w \<Rightarrow> u32 \<Rightarrow> nat option"
  create_by_location :: "string \<Rightarrow> u32 \<Rightarrow> u32 option \<Rightarrow> 'w \<Rightarrow> nat \<times> 'w"
  create_by_address :: "u64 \<Rightarrow> 'w \<Rightarrow> nat \<times> 'w"
  create_by_regex :: "string \<Rightarrow> 'w \<Rightarrow> nat \<times> 'w"
  create_by_name :: "string \<Rightarrow> 'w \<Rightarrow> nat \<times> 'w"
  create_for_exception :: "exception_language \<Rightarrow> bool \<Rightarrow> bool \<Rightarrow> 'w \<Rightarrow> nat \<times> 'w"
  delete_bp :: "u32 \<Rightarrow> 'w \<Rightarrow> 'w"
  bp_id :: "nat \<Rightarrow> u32"
  bp_valid :: "'w \<Rightarrow> nat \<Rightarrow> bool"
  num_locations :: "'w \<Rightarrow> nat \<Rightarrow> nat"
  num_resolved_locations :: "'w \<Rightarrow> nat \<Rightarrow> nat"
  location_addresses :: "'w \<Rightarrow> nat \<Rightarrow> nat list"
  first_location_address :: "'w \<Rightarrow> nat \<Rightarrow> nat"
  add_name :: "nat \<Rightarrow> string \<Rightarrow> 'w \<Rightarrow> 'w"
  set_condition :: "nat \<Rightarrow> string \<Rightarrow> 'w \<Rightarrow> 'w"
  set_callback :: "nat \<Rightarrow> py_condition \<Rightarrow> 'w \<Rightarrow> 'w"
  clear_callback :: "nat \<Rightarrow> 'w \<Rightarrow> 'w"
  compile_code :: "string \<Rightarrow> 'w \<Rightarrow> (string, nat) res \<times> 'w"
  evaluate_as_bool :: "nat \<Rightarrow> nat \<Rightarrow> eval_context \<Rightarrow> 'w \<Rightarrow> (string, bool) res \<times> 'w"
  adapter_data_to_json :: "adapter_data \<Rightarrow> json"
  adapter_data_of_json :: "json \<Rightarrow> (string, adapter_data) res"
  parse_address :: "string \<Rightarrow> (string, u64) res"
  bp_nom :: nom
  bp_preprocessors :: preprocessors

section \<open>Breakpoint infos\<close>

definition empty2none :: "string option \<Rightarrow> string option" where
  "empty2none s = (case map_option trim s of Some t \<Rightarrow> if t \<noteq> [] then Some t else None | None \<Rightarrow> None)"

definition read_hit_condition :: "'w bp_api \<Rightarrow> string option \<Rightarrow> ('w, 'h, hit_condition option) handler" where
  "read_hit_condition api hit_condition =
     (case empty2none hit_condition of
        None \<Rightarrow> returnS None
      | Some expr \<Rightarrow>
          (case parse_hit_condition (bp_nom api) expr of
             Ok cond \<Rightarrow> returnS (Some cond)
           | Err _ \<Rightarrow> thenS (console_error (''Invalid hit condition: '' @ expr)) (returnS None)
           | Panic \<Rightarrow> panicS))"

definition make_bp_info ::
  "'w bp_api \<Rightarrow> nat \<Rightarrow> breakpoint_kind \<Rightarrow> string option \<Rightarrow> string option \<Rightarrow> string option \<Rightarrow>
     ('w, 'h, breakpoint_info) handler" where
  "make_bp_info api bp kind condition log_message hit_condition =
     bindS (read_hit_condition api hit_condition) (\<lambda>hc. returnS
       \<lparr>bi_id = bp_id api bp, bi_breakpoint = bp, bi_kind = kind, bi_condition = empty2none condition,
        bi_log_message = empty2none log_message, bi_hit_condition = hc, bi_hit_count = 0,
        bi_exclusions = []\<rparr>)"

text \<open>A breakpoint without a source has the responses below; \<open>base\<close> is what they share.\<close>

definition source_response ::
  "'w lldb \<Rightarrow> 'w bp_api \<Rightarrow> breakpoint_info \<Rightarrow> bool \<Rightarrow> breakpoint_body \<Rightarrow> ('w, 'h, breakpoint_body) handler" where
  "source_response ll api bp_info include_source base s =
     (let w = world s; d = dasm_now ll w;
          address = first_location_address api w (bi_breakpoint bp_info)
      in case addr_line_entry d address of
           None \<Rightarrow> (Ok base, s)
         | Some le \<Rightarrow>
             (let body = base\<lparr>bb_line := Some (uint (entry_line d le)),
                              bb_verified := 0 < num_locations api w (bi_breakpoint bp_info)\<rparr> in
              if include_source then
                (case path_file_name (entry_path d le) of
                   None \<Rightarrow> (Panic, s)
                 | Some name \<Rightarrow>
                     (Ok (body\<lparr>bb_source := Some (default_source
                        \<lparr>src_name := Some name, src_path := Some (entry_path d le)\<rparr>)\<rparr>), s))
              else (Ok body, s)))"

definition disassembly_response ::
  "'w lldb \<Rightarrow> 'w bp_api \<Rightarrow> breakpoint_info \<Rightarrow> breakpoint_body \<Rightarrow> ('w, 'h, breakpoint_body) handler" where
  "disassembly_response ll api bp_info base s =
     (let w = world s; d = dasm_now ll w;
          laddress = addr_load d (first_location_address api w (bi_breakpoint bp_info))
      in case dasm_from_address ll laddress s of
           (Ok dasm, s) \<Rightarrow>
             (Ok (base\<lparr>bb_verified := True, bb_line := Some (uint (line_num_by_address dasm laddress)),
                      bb_source := Some (default_source
                        \<lparr>src_name := Some (dr_source_name dasm), src_path := Some (dr_source_name dasm),
                         src_reference := Some (dr_handle dasm),
                         src_adapter_data := Some (adapter_data_to_json api (adapter_data dasm))\<rparr>)\<rparr>), s)
         | (Err e, s) \<Rightarrow> (Ok base, s)
         | (Panic, s) \<Rightarrow> (Panic, s))"

definition make_bp_response ::
  "'w lldb \<Rightarrow> 'w bp_api \<Rightarrow> breakpoint_info \<Rightarrow> bool \<Rightarrow> ('w, 'h, breakpoint_body) handler" where
  "make_bp_response ll api bp_info include_source s =
     (let w = world s; bp = bi_breakpoint bp_info;
          base = default_breakpoint_body
            \<lparr>bb_id := Some (uint (bi_id bp_info)), bb_verified := False,
             bb_message := Some (''Resolved locations: '' @ show_nat (num_resolved_locations api w bp))\<rparr>
      in if num_locations api w bp = 0 then (Ok base, s)
         else case bi_kind bp_info of
             BkSource \<Rightarrow> source_response ll api bp_info include_source base s
           | BkDisassembly \<Rightarrow> disassembly_response ll api bp_info base s
           | BkInstruction \<Rightarrow>
               (Ok (base\<lparr>bb_verified := True,
                        bb_instruction_reference := Some (hex_ref (addr_load (dasm_now ll w)
                          (first_location_address api w bp)))\<rparr>), s)
           | BkFunction \<Rightarrow> (Ok (base\<lparr>bb_verified := 0 < num_locations api w bp\<rparr>), s)
           | BkException _ \<Rightarrow> (Ok (base\<lparr>bb_verified := 0 < num_locations api w bp\<rparr>), s))"

text \<open>
  The condition the callback will evaluate; a native one is given to LLDB instead.  An expression
  that cannot be prepared or compiled is reported and leaves the breakpoint unconditional.
\<close>

definition condition_error :: "string \<Rightarrow> ('w, 'h, py_condition) handler" where
  "condition_error err = thenS (console_error
     (''Could not parse breakpoint condition:'' @ newline # err)) (returnS None)"

definition compile_condition ::
  "'w bp_api \<Rightarrow> string \<Rightarrow> eval_context \<Rightarrow> ('w, 'h, py_condition) handler" where
  "compile_condition api expr ctx =
     bindS (getS has_python) (\<lambda>python.
       if python then
         bindS (call_world (compile_code api expr)) (\<lambda>r.
           case r of Ok code \<Rightarrow> returnS (Some (code, ctx)) | Err e \<Rightarrow> condition_error e | Panic \<Rightarrow> panicS)
       else returnS None)"

definition py_condition_of ::
  "'w bp_api \<Rightarrow> breakpoint_info \<Rightarrow> ('w, 'h, py_condition) handler" where
  "py_condition_of api bp_info =
     (case bi_condition bp_info of
        None \<Rightarrow> returnS None
      | Some condition \<Rightarrow>
          bindS (getS default_expr_type) (\<lambda>ty.
            case (prepare (bp_preprocessors api) condition ty :: (err, _) res) of
              Ok (PxNative expr) \<Rightarrow>
                thenS (modify_world (set_condition api (bi_breakpoint bp_info) expr)) (returnS None)
            | Ok (PxSimple expr) \<Rightarrow> compile_condition api expr SimpleExpression
            | Ok (PxPython expr) \<Rightarrow> compile_condition api expr PythonExpression
            | Err e \<Rightarrow> condition_error (show_error e)
            | Panic \<Rightarrow> panicS))"

definition init_bp_actions :: "'w bp_api \<Rightarrow> breakpoint_info \<Rightarrow> ('w, 'h, unit) handler" where
  "init_bp_actions api bp_info =
     bindS (py_condition_of api bp_info) (\<lambda>py_condition.
       modify_world (set_callback api (bi_breakpoint bp_info) py_condition))"

section \<open>Bringing a table in line with a request\<close>

definition update_bps :: "(breakpoints \<Rightarrow> breakpoints) \<Rightarrow> ('w, 'h, unit) handler" where
  "update_bps f = modifyS (\<lambda>s. s\<lparr>breakpoints := f (breakpoints s)\<rparr>)"

definition remember_info :: "breakpoint_info \<Rightarrow> ('w, 'h, unit) handler" where
  "remember_info bp_info = update_bps (\<lambda>b.
     b\<lparr>breakpoint_infos := hm_insert (bi_id bp_info) bp_info (breakpoint_infos b)\<rparr>)"

definition forget_info :: "u32 \<Rightarrow> ('w, 'h, unit) handler" where
  "forget_info i = update_bps (\<lambda>b. b\<lparr>breakpoint_infos := hm_remove i (breakpoint_infos b)\<rparr>)"

text \<open>The breakpoint the table already has for a key, if LLDB still knows it.\<close>

definition existing_bp :: "'w bp_api \<Rightarrow> ('k, u32) hashmap \<Rightarrow> 'k \<Rightarrow> 'w \<Rightarrow> nat option" where
  "existing_bp api existing_bps key w =
     (case hm_get existing_bps key of Some i \<Rightarrow> find_bp api w i | None \<Rightarrow> None)"

text \<open>Find an existing breakpoint or create a new one, and set it up.\<close>

definition place_bp ::
  "'w bp_api \<Rightarrow> ('k, u32) hashmap \<Rightarrow> 'k \<Rightarrow> ('w, 'h, nat) handler \<Rightarrow> breakpoint_kind \<Rightarrow>
     string option \<Rightarrow> string option \<Rightarrow> string option \<Rightarrow> ('w, 'h, breakpoint_info) handler" where
  "place_bp api existing_bps key create kind condition log_message hit_condition =
     bindS (getS (existing_bp api existing_bps key \<circ> world)) (\<lambda>found.
     bindS (case found of Some bp \<Rightarrow> returnS bp | None \<Rightarrow> create) (\<lambda>bp.
     bindS (make_bp_info api bp kind condition log_message hit_condition) (\<lambda>bp_info.
     thenS (init_bp_actions api bp_info) (returnS bp_info))))"

text \<open>
  The loop over the requested breakpoints.  The handlers differ in what they do for a request: its
  key, its breakpoint and its response.
\<close>

fun table_loop ::
  "('r \<Rightarrow> ('w, 'h, 'k \<times> breakpoint_info \<times> breakpoint_body) handler) \<Rightarrow> 'r list \<Rightarrow> ('k, u32) hashmap \<Rightarrow>
     ('w, 'h, breakpoint_body list \<times> ('k, u32) hashmap) handler" where
  "table_loop plan [] new_bps = returnS ([], new_bps)"
| "table_loop plan (req # reqs) new_bps =
     bindS (plan req) (\<lambda>(key, bp_info, response).
     thenS (remember_info bp_info)
       (bindS (table_loop plan reqs (hm_insert key (bi_id bp_info) new_bps)) (\<lambda>(responses, new_bps).
         returnS (response # responses, new_bps))))"

text \<open>
  Deleting what was not requested again.  Only the source table forgets the infos of the deleted
  breakpoints.
\<close>

definition delete_if_stale ::
  "'w bp_api \<Rightarrow> bool \<Rightarrow> ('k, u32) hashmap \<Rightarrow> 'k \<times> u32 \<Rightarrow> ('w, 'h, unit) handler" where
  "delete_if_stale api forget new_bps entry =
     (if hm_contains new_bps (fst entry) then returnS ()
      else thenS (modify_world (delete_bp api (snd entry)))
             (if forget then forget_info (snd entry) else returnS ()))"

definition delete_stale ::
  "'w bp_api \<Rightarrow> bool \<Rightarrow> ('k, u32) hashmap \<Rightarrow> ('k, u32) hashmap \<Rightarrow> ('w, 'h, unit list) handler" where
  "delete_stale api forget existing_bps new_bps =
     forS (delete_if_stale api forget new_bps) existing_bps"

definition update_table ::
  "'w bp_api \<Rightarrow> bool \<Rightarrow> ('r \<Rightarrow> ('w, 'h, 'k \<times> breakpoint_info \<times> breakpoint_body) handler) \<Rightarrow>
     ('k, u32) hashmap \<Rightarrow> 'r list \<Rightarrow> ('w, 'h, breakpoint_body list \<times> ('k, u32) hashmap) handler" where
  "update_table api forget plan existing_bps reqs =
     bindS (table_loop plan reqs []) (\<lambda>(responses, new_bps).
     thenS (delete_stale api forget existing_bps new_bps) (returnS (responses, new_bps)))"


section \<open>Source breakpoints\<close>

definition as_u32_column :: "i64 option \<Rightarrow> u32 option" where
  "as_u32_column column = map_option as_u32 column"

definition create_source_bp ::
  "'w bp_api \<Rightarrow> string \<Rightarrow> source_breakpoint \<Rightarrow> ('w, 'h, nat) handler" where
  "create_source_bp api file_path_norm req =
     bindS (getS breakpoint_mode) (\<lambda>mode.
     bindS (case mode of
              BmPath \<Rightarrow> returnS file_path_norm
            | BmFile \<Rightarrow> liftS (ok_or (path_file_name file_path_norm) (str_error ''Missing file name'')))
       (\<lambda>location. call_world
          (create_by_location api location (as_u32 (sb_line req)) (as_u32_column (sb_column req)))))"

text \<open>
  The likely location in a different file: the location of the line, under a breakpoint by file
  name only, whose path agrees with the file's in the most trailing components.
\<close>

definition hint_candidates :: "'w lldb \<Rightarrow> 'w bp_api \<Rightarrow> 'w \<Rightarrow> nat \<Rightarrow> u32 \<Rightarrow> string list" where
  "hint_candidates ll api w bp line =
     concat (map (\<lambda>address.
       case addr_line_entry (dasm_now ll w) address of
         Some le \<Rightarrow> if entry_line (dasm_now ll w) le = line then [entry_path (dasm_now ll w) le] else []
       | None \<Rightarrow> []) (location_addresses api w bp))"

definition best_match :: "string \<Rightarrow> string list \<Rightarrow> nat \<times> string option" where
  "best_match filepath paths =
     fold (\<lambda>path (best_count, best_path).
       let count = trailing_match path filepath in
       if best_count < count then (count, Some path) else (best_count, best_path)) paths (0, None)"

definition get_breakpoint_hint ::
  "'w lldb \<Rightarrow> 'w bp_api \<Rightarrow> string \<Rightarrow> i64 \<Rightarrow> i64 option \<Rightarrow> ('w, 'h, (string \<times> u32) option) handler" where
  "get_breakpoint_hint ll api filepath line column =
     (case path_file_name filepath of
        None \<Rightarrow> returnS None
      | Some filename \<Rightarrow>
          bindS (call_world (create_by_location api filename (as_u32 line) (as_u32_column column))) (\<lambda>bp.
          bindS (getS (\<lambda>s. snd (best_match filepath (hint_candidates ll api (world s) bp (as_u32 line))))) (\<lambda>best.
          thenS (modify_world (delete_bp api (bp_id api bp)))
            (returnS (map_option (\<lambda>p. (p, as_u32 line)) best)))))"

definition hint_message :: "string \<Rightarrow> i64 \<Rightarrow> string \<Rightarrow> u32 \<Rightarrow> string" where
  "hint_message file_path line path found_line =
     ''Breakpoint at '' @ file_path @ CHR '':'' # show_int line @
     '' could not be resolved, but a valid location was found at '' @
     path @ CHR '':'' # show_nat (unat found_line)"

definition add_hint ::
  "'w lldb \<Rightarrow> 'w bp_api \<Rightarrow> string \<Rightarrow> source_breakpoint \<Rightarrow> breakpoint_info \<Rightarrow> breakpoint_body \<Rightarrow>
     ('w, 'h, breakpoint_body) handler" where
  "add_hint ll api file_path_norm req bp_info response =
     bindS (getS (\<lambda>s. num_locations api (world s) (bi_breakpoint bp_info) = 0 \<and> breakpoint_mode s = BmPath))
       (\<lambda>unresolved.
        if unresolved then
          bindS (get_breakpoint_hint ll api file_path_norm (sb_line req) (sb_column req)) (\<lambda>hint.
            case hint of
              None \<Rightarrow> returnS response
            | Some (path, line) \<Rightarrow>
                (let message = hint_message file_path_norm (sb_line req) path line in
                 thenS (console_message message) (returnS (response\<lparr>bb_message := Some message\<rparr>))))
        else returnS response)"

definition source_plan ::
  "'w lldb \<Rightarrow> 'w bp_api \<Rightarrow> string \<Rightarrow> (i64, u32) hashmap \<Rightarrow> source_breakpoint \<Rightarrow>
     ('w, 'h, i64 \<times> breakpoint_info \<times> breakpoint_body) handler" where
  "source_plan ll api file_path_norm existing_bps req =
     bindS (place_bp api existing_bps (sb_line req) (create_source_bp api file_path_norm req) BkSource
              (sb_condition req) (sb_log_message req) (sb_hit_condition req)) (\<lambda>bp_info.
     bindS (make_bp_response ll api bp_info False) (\<lambda>response.
     bindS (add_hint ll api file_path_norm req bp_info response) (\<lambda>response.
       returnS (sb_line req, bp_info, response))))"

definition entry_or_empty :: "'k \<Rightarrow> ('k, ('l, 'v) hashmap) hashmap \<Rightarrow> ('l, 'v) hashmap" where
  "entry_or_empty k m = (case hm_get m k of Some t \<Rightarrow> t | None \<Rightarrow> [])"

definition set_source_breakpoints ::
  "'w lldb \<Rightarrow> 'w bp_api \<Rightarrow> string \<Rightarrow> source_breakpoint list \<Rightarrow> ('w, 'h, breakpoint_body list) handler" where
  "set_source_breakpoints ll api file_path requested_bps =
     bindS (getS (\<lambda>s. entry_or_empty file_path (bps_source (breakpoints s)))) (\<lambda>existing_bps.
     thenS (update_bps (\<lambda>b. b\<lparr>bps_source := hm_insert file_path existing_bps (bps_source b)\<rparr>))
       (bindS (update_table api True (source_plan ll api (normalize_path ll file_path) existing_bps)
                 existing_bps requested_bps) (\<lambda>(result, new_bps).
        thenS (update_bps (\<lambda>b. b\<lparr>bps_source := hm_insert file_path new_bps (bps_source b)\<rparr>))
          (returnS result))))"

section \<open>Disassembly breakpoints\<close>

definition dasm_plan ::
  "'w lldb \<Rightarrow> 'w bp_api \<Rightarrow> dasm_range \<Rightarrow> (i64, u32) hashmap \<Rightarrow> source_breakpoint \<Rightarrow>
     ('w, 'h, i64 \<times> breakpoint_info \<times> breakpoint_body) handler" where
  "dasm_plan ll api dasm existing_bps req =
     bindS (liftS (address_by_line_num dasm (as_u32 (sb_line req)))) (\<lambda>laddress.
     bindS (place_bp api existing_bps (sb_line req) (call_world (create_by_address api laddress)) BkDisassembly
              (sb_condition req) (sb_log_message req) (sb_hit_condition req)) (\<lambda>bp_info.
     bindS (make_bp_response ll api bp_info False) (\<lambda>response.
       returnS (sb_line req, bp_info, response))))"

definition set_dasm_breakpoints ::
  "'w lldb \<Rightarrow> 'w bp_api \<Rightarrow> dasm_range \<Rightarrow> source_breakpoint list \<Rightarrow> ('w, 'h, breakpoint_body list) handler" where
  "set_dasm_breakpoints ll api dasm requested_bps =
     bindS (getS (\<lambda>s. entry_or_empty (dr_handle dasm) (bps_assembly (breakpoints s)))) (\<lambda>existing_bps.
     thenS (update_bps (\<lambda>b. b\<lparr>bps_assembly := hm_insert (dr_handle dasm) existing_bps (bps_assembly b)\<rparr>))
       (bindS (update_table api False (dasm_plan ll api dasm existing_bps) existing_bps requested_bps)
          (\<lambda>(result, new_bps).
             thenS (update_bps (\<lambda>b. b\<lparr>bps_assembly := hm_insert (dr_handle dasm) new_bps (bps_assembly b)\<rparr>))
               (returnS result))))"

text \<open>Breakpoints in a disassembly of an earlier session: by the line addresses the client kept.\<close>

definition new_dasm_bp ::
  "'w lldb \<Rightarrow> 'w bp_api \<Rightarrow> u64 list \<Rightarrow> source_breakpoint \<Rightarrow> ('w, 'h, breakpoint_body) handler" where
  "new_dasm_bp ll api line_addresses req =
     (if 0 \<le> sb_line req \<and> sb_line req < int (length line_addresses) then
        bindS (call_world (create_by_address api (line_addresses ! nat (sb_line req)))) (\<lambda>bp.
        bindS (make_bp_info api bp BkDisassembly (sb_condition req) (sb_log_message req)
                 (sb_hit_condition req)) (\<lambda>bp_info.
        thenS (init_bp_actions api bp_info)
          (bindS (make_bp_response ll api bp_info False) (\<lambda>response.
             thenS (remember_info bp_info) (returnS response)))))
      else returnS default_breakpoint_body)"

definition set_new_dasm_breakpoints ::
  "'w lldb \<Rightarrow> 'w bp_api \<Rightarrow> adapter_data \<Rightarrow> source_breakpoint list \<Rightarrow> ('w, 'h, breakpoint_body list) handler" where
  "set_new_dasm_breakpoints ll api data requested_bps =
     forS (new_dasm_bp ll api (lines_from_adapter_data data)) requested_bps"

definition handle_set_breakpoints ::
  "'w lldb \<Rightarrow> 'w bp_api \<Rightarrow> set_breakpoints_args \<Rightarrow> ('w, 'h, breakpoint_body list) handler" where
  "handle_set_breakpoints ll api args =
     bindS (getS (\<lambda>s. case src_reference (sba_source args) of
                        Some r \<Rightarrow> find_by_handle (disasm_ranges s) r | None \<Rightarrow> None)) (\<lambda>dasm.
       case (dasm, src_adapter_data (sba_source args), src_path (sba_source args)) of
         (Some dasm, _, _) \<Rightarrow> set_dasm_breakpoints ll api dasm (sba_breakpoints args)
       | (None, Some data, _) \<Rightarrow>
           bindS (liftS (map_err str_error (adapter_data_of_json api data))) (\<lambda>data.
             set_new_dasm_breakpoints ll api data (sba_breakpoints args))
       | (None, None, Some path) \<Rightarrow> set_source_breakpoints ll api path (sba_breakpoints args)
       | _ \<Rightarrow> failS (str_error ''Unexpected''))"

section \<open>Instruction and function breakpoints\<close>

definition instruction_key :: "'w bp_api \<Rightarrow> instruction_breakpoint \<Rightarrow> (string, u64) res" where
  "instruction_key api req =
     map_res (\<lambda>base_addr. base_addr + as_u64 (case ib_offset req of Some off \<Rightarrow> off | None \<Rightarrow> 0))
       (parse_address api (ib_instruction_reference req))"

definition instruction_plan ::
  "'w lldb \<Rightarrow> 'w bp_api \<Rightarrow> (u64, u32) hashmap \<Rightarrow> instruction_breakpoint \<Rightarrow>
     ('w, 'h, u64 \<times> breakpoint_info \<times> breakpoint_body) handler" where
  "instruction_plan ll api existing_bps req =
     bindS (liftS (map_err str_error (instruction_key api req))) (\<lambda>address.
     bindS (place_bp api existing_bps address (call_world (create_by_address api address)) BkInstruction
              (ib_condition req) None (ib_hit_condition req)) (\<lambda>bp_info.
     bindS (make_bp_response ll api bp_info False) (\<lambda>response.
       returnS (address, bp_info, response))))"

definition handle_set_instruction_breakpoints ::
  "'w lldb \<Rightarrow> 'w bp_api \<Rightarrow> instruction_breakpoint list \<Rightarrow> ('w, 'h, breakpoint_body list) handler" where
  "handle_set_instruction_breakpoints ll api reqs =
     bindS (getS (bps_instruction \<circ> breakpoints)) (\<lambda>existing_bps.
     bindS (update_table api False (instruction_plan ll api existing_bps) existing_bps reqs)
       (\<lambda>(result, new_bps).
          thenS (update_bps (\<lambda>b. b\<lparr>bps_instruction := new_bps\<rparr>)) (returnS result)))"

definition create_function_bp :: "'w bp_api \<Rightarrow> string \<Rightarrow> ('w, 'h, nat) handler" where
  "create_function_bp api name =
     (if starts_with name ''/re '' then call_world (create_by_regex api (drop 4 name))
      else call_world (create_by_name api name))"

definition function_plan ::
  "'w lldb \<Rightarrow> 'w bp_api \<Rightarrow> (string, u32) hashmap \<Rightarrow> function_breakpoint \<Rightarrow>
     ('w, 'h, string \<times> breakpoint_info \<times> breakpoint_body) handler" where
  "function_plan ll api existing_bps req =
     bindS (place_bp api existing_bps (fb_name req) (create_function_bp api (fb_name req)) BkFunction
              (fb_condition req) None (fb_hit_condition req)) (\<lambda>bp_info.
     bindS (make_bp_response ll api bp_info False) (\<lambda>response.
       returnS (fb_name req, bp_info, response)))"

definition handle_set_function_breakpoints ::
  "'w lldb \<Rightarrow> 'w bp_api \<Rightarrow> function_breakpoint list \<Rightarrow> ('w, 'h, breakpoint_body list) handler" where
  "handle_set_function_breakpoints ll api reqs =
     bindS (getS (bps_function \<circ> breakpoints)) (\<lambda>existing_bps.
     bindS (update_table api False (function_plan ll api existing_bps) existing_bps reqs)
       (\<lambda>(result, new_bps).
          thenS (update_bps (\<lambda>b. b\<lparr>bps_function := new_bps\<rparr>)) (returnS result)))"

section \<open>Exception breakpoints\<close>

definition exception_filters :: "exception_filter list" where
  "exception_filters =
     [\<lparr>xf_filter = ''cpp_throw'', xf_label = ''C++: on throw'', xf_default = Some True,
       xf_supports_condition = Some True\<rparr>,
      \<lparr>xf_filter = ''cpp_catch'', xf_label = ''C++: on catch'', xf_default = Some False,
       xf_supports_condition = Some True\<rparr>,
      \<lparr>xf_filter = ''rust_panic'', xf_label = ''Rust: on panic'', xf_default = Some True,
       xf_supports_condition = Some True\<rparr>,
      \<lparr>xf_filter = ''swift_throw'', xf_label = ''Swift: on throw'', xf_default = Some False,
       xf_supports_condition = Some True\<rparr>]"

definition create_exception_bp ::
  "'w bp_api \<Rightarrow> ('w \<Rightarrow> nat \<times> 'w) \<Rightarrow> string \<Rightarrow> ('w, 'h, nat option) handler" where
  "create_exception_bp api create name =
     bindS (call_world create) (\<lambda>bp. thenS (modify_world (add_name api bp name)) (returnS (Some bp)))"

definition set_exception_breakpoint :: "'w bp_api \<Rightarrow> string \<Rightarrow> ('w, 'h, nat option) handler" where
  "set_exception_breakpoint api exc_name =
     (if exc_name = ''cpp_throw'' then
        create_exception_bp api (create_for_exception api LangCpp False True) ''cpp_exception''
      else if exc_name = ''cpp_catch'' then
        create_exception_bp api (create_for_exception api LangCpp True False) ''cpp_exception''
      else if exc_name = ''rust_panic'' then
        create_exception_bp api (create_by_regex api ''rust_panic$'') ''rust_panic''
      else if exc_name = ''swift_throw'' then
        create_exception_bp api (create_for_exception api LangSwift False True) ''swift_exception''
      else returnS None)"

fun is_exception_kind :: "breakpoint_kind \<Rightarrow> bool" where
  "is_exception_kind (BkException _) = True"
| "is_exception_kind _ = False"

definition clear_exception_bps :: "'w bp_api \<Rightarrow> ('w, 'h, unit) handler" where
  "clear_exception_bps api =
     bindS (getS (breakpoint_infos \<circ> breakpoints)) (\<lambda>infos.
     thenS (forS (\<lambda>(key, bp_info).
              if is_exception_kind (bi_kind bp_info) then modify_world (delete_bp api (bi_id bp_info))
              else returnS ()) infos)
       (update_bps (\<lambda>b. b\<lparr>breakpoint_infos :=
          hm_retain (\<lambda>key bp_info. \<not> is_exception_kind (bi_kind bp_info)) (breakpoint_infos b)\<rparr>)))"

definition add_exception_bp ::
  "'w lldb \<Rightarrow> 'w bp_api \<Rightarrow> string \<times> string option \<Rightarrow> ('w, 'h, breakpoint_body list) handler" where
  "add_exception_bp ll api flt =
     bindS (set_exception_breakpoint api (fst flt)) (\<lambda>created.
       case created of
         None \<Rightarrow> returnS []
       | Some bp \<Rightarrow>
           bindS (make_bp_info api bp (BkException (fst flt)) (snd flt) None None) (\<lambda>bp_info.
           thenS (init_bp_actions api bp_info)
             (bindS (make_bp_response ll api bp_info False) (\<lambda>response.
                thenS (remember_info bp_info) (returnS [response])))))"

definition handle_set_exception_breakpoints ::
  "'w lldb \<Rightarrow> 'w bp_api \<Rightarrow> set_exception_breakpoints_args \<Rightarrow> ('w, 'h, breakpoint_body list) handler" where
  "handle_set_exception_breakpoints ll api args =
     thenS (clear_exception_bps api)
       (bindS (forS (add_exception_bp ll api)
                 (map (\<lambda>name. (name, None)) (seb_filters args) @
                  map (\<lambda>f. (ef_filter_id f, ef_condition f)) (seb_filter_options args))) (\<lambda>results.
          returnS (concat results)))"

definition get_exception_filters_for :: "string list \<Rightarrow> exception_filter list" where
  "get_exception_filters_for source_langs =
     filter (\<lambda>f. hd (split_char CHR ''_'' (xf_filter f)) \<in> set source_langs) exception_filters"

end
