(* ===== verification/Breakpoint_Tables.thy ===== *)
theory Breakpoint_Tables
  imports Breakpoints
begin

text \<open>
  What a \<open>set...Breakpoints\<close> request promises, for the four tables at once: the contract a table's
  handler relies on (\<open>bp_table\<close>), the consequences for the target, and the handlers of \<open>Breakpoints\<close>
  as its instances.
\<close>

section \<open>What the code relies on\<close>

text \<open>
  LLDB finds a breakpoint under its id until it is deleted, gives a new breakpoint an id it never gave
  before (\<open>used\<close> are the ids given so far), and leaves the others alone.  The ids are 32 bits wide: the
  freshness is promised only until all of them have been given.
\<close>

definition creates :: "'w bp_api \<Rightarrow> ('w \<Rightarrow> u32 set) \<Rightarrow> ('w \<Rightarrow> nat \<times> 'w) \<Rightarrow> bool" where
  "creates api used f \<longleftrightarrow> (\<forall>w bp w'. f w = (bp, w') \<longrightarrow>
     used w' = insert (bp_id api bp) (used w)
     \<and> find_bp api w' = (find_bp api w)(bp_id api bp \<mapsto> bp)
     \<and> (used w' \<noteq> UNIV \<longrightarrow> bp_id api bp \<notin> used w))"

definition keeps :: "'w bp_api \<Rightarrow> ('w \<Rightarrow> u32 set) \<Rightarrow> ('w \<Rightarrow> 'w) \<Rightarrow> bool" where
  "keeps api used f \<longleftrightarrow> (\<forall>w. find_bp api (f w) = find_bp api w \<and> used (f w) = used w)"

definition target_ok :: "'w bp_api \<Rightarrow> ('w \<Rightarrow> u32 set) \<Rightarrow> bool" where
  "target_ok api used \<longleftrightarrow>
     (\<forall>w i bp. find_bp api w i = Some bp \<longrightarrow> bp_id api bp = i \<and> i \<in> used w)
     \<and> (\<forall>p l c. creates api used (create_by_location api p l c))
     \<and> (\<forall>a. creates api used (create_by_address api a))
     \<and> (\<forall>r. creates api used (create_by_regex api r))
     \<and> (\<forall>n. creates api used (create_by_name api n))
     \<and> (\<forall>l c t. creates api used (create_for_exception api l c t))
     \<and> (\<forall>i w. find_bp api (delete_bp api i w) = (find_bp api w)(i := None)
          \<and> used (delete_bp api i w) = used w)
     \<and> (\<forall>b n. keeps api used (add_name api b n))
     \<and> (\<forall>b c. keeps api used (set_condition api b c))
     \<and> (\<forall>b c. keeps api used (set_callback api b c))
     \<and> (\<forall>b. keeps api used (clear_callback api b))
     \<and> (\<forall>c. keeps api used (snd \<circ> compile_code api c))
     \<and> (\<forall>c f x. keeps api used (snd \<circ> evaluate_as_bool api c f x))"

lemma target_ok_D:
  assumes "target_ok api used"
  shows "find_bp api w i = Some bp \<Longrightarrow> bp_id api bp = i" "find_bp api w i = Some bp \<Longrightarrow> i \<in> used w"
    "creates api used (create_by_location api p l c)" "creates api used (create_by_address api a)"
    "creates api used (create_by_regex api n)" "creates api used (create_by_name api n)"
    "creates api used (create_for_exception api lang oc ot)"
    "find_bp api (delete_bp api j w) = (find_bp api w)(j := None)" "used (delete_bp api j w) = used w"
    "keeps api used (set_condition api b n)" "keeps api used (set_callback api b pc)"
    "keeps api used (snd \<circ> compile_code api n)" "keeps api used (add_name api b n)"
  using assms unfolding target_ok_def by simp_all

section \<open>Handlers that leave the target's breakpoints alone\<close>

definition quiet :: "'w bp_api \<Rightarrow> ('w \<Rightarrow> u32 set) \<Rightarrow> ('w, 'h, 'a) handler \<Rightarrow> bool" where
  "quiet api used m \<longleftrightarrow> (\<forall>s. let s' = snd (m s) in
     (used (world s') \<noteq> UNIV \<longrightarrow> find_bp api (world s') = find_bp api (world s))
     \<and> used (world s) \<subseteq> used (world s') \<and> breakpoints s' = breakpoints s)"

named_theorems quiet_intros \<open>handlers that leave the target's breakpoints alone\<close>

lemma quietD:
  assumes "quiet api used m" "m s = (r, s')"
  shows "used (world s') \<noteq> UNIV \<Longrightarrow> find_bp api (world s') = find_bp api (world s)"
    "used (world s) \<subseteq> used (world s')" "breakpoints s' = breakpoints s"
  using assms unfolding quiet_def Let_def by (metis snd_conv)+

lemma quietI:
  "(\<And>s r s'. m s = (r, s') \<Longrightarrow> (used (world s') \<noteq> UNIV \<longrightarrow> find_bp api (world s') = find_bp api (world s))
      \<and> used (world s) \<subseteq> used (world s') \<and> breakpoints s' = breakpoints s) \<Longrightarrow> quiet api used m"
  unfolding quiet_def Let_def by (metis prod.collapse)

lemma quiet_basic [quiet_intros]:
  "quiet api used (returnS x)" "quiet api used (failS e)" "quiet api used panicS"
  "quiet api used (liftS r)" "quiet api used (getS f)"
  by (simp_all add: quiet_def res_simps)

lemma quiet_bindS [quiet_intros]:
  assumes "quiet api used m" "\<And>x. quiet api used (f x)"
  shows "quiet api used (bindS m f)"
proof (rule quietI)
  fix s r s' assume "bindS m f s = (r, s')"
  moreover obtain q t where m: "m s = (q, t)" by (cases "m s")
  ultimately show "(used (world s') \<noteq> UNIV \<longrightarrow> find_bp api (world s') = find_bp api (world s))
      \<and> used (world s) \<subseteq> used (world s') \<and> breakpoints s' = breakpoints s"
  proof (cases q)
    case (Ok x)
    then have f: "f x t = (r, s')" using \<open>bindS m f s = (r, s')\<close> by (simp add: bindS_def m)
    have "used (world s') \<noteq> UNIV \<Longrightarrow> used (world t) \<noteq> UNIV" using quietD(2) [OF assms(2) f] by blast
    then show ?thesis using quietD [OF assms(1) m] quietD [OF assms(2) f]
      by (metis order_trans)
  qed (use quietD [OF assms(1) m] \<open>bindS m f s = (r, s')\<close> in \<open>auto simp: bindS_def m\<close>)
qed

lemma quiet_thenS [quiet_intros]:
  "quiet api used m \<Longrightarrow> quiet api used n \<Longrightarrow> quiet api used (thenS m n)"
  unfolding thenS_def by (intro quiet_bindS)

lemma quiet_console [quiet_intros]:
  "quiet api used (send_event e)" "quiet api used (console_error m)" "quiet api used (console_message m)"
  by (simp_all add: quiet_def session_defs modifyS_def)

lemma quiet_world [quiet_intros]:
  "keeps api used f \<Longrightarrow> quiet api used (modify_world f)"
  "keeps api used (snd \<circ> g) \<Longrightarrow> quiet api used (call_world g)"
  by (simp_all add: quiet_def keeps_def session_defs modifyS_def Let_def split_beta)

lemma quiet_if [quiet_intros]:
  "quiet api used m \<Longrightarrow> quiet api used n \<Longrightarrow> quiet api used (if b then m else n)"
  by simp

lemma quiet_make_bp_info [quiet_intros]:
  "quiet api used (make_bp_info api' bp kind c l h)"
  by (auto simp: make_bp_info_def read_hit_condition_def intro!: quiet_intros
      split: option.split res.split)

lemma quiet_py_condition:
  assumes "target_ok api used"
  shows "quiet api used (py_condition_of api bp_info)"
proof -
  have "quiet api used (condition_error e)" for e
    by (simp add: condition_error_def quiet_intros)
  then have "quiet api used (compile_condition api e x)" for e x
    using target_ok_D(12) [OF assms]
    by (auto simp: compile_condition_def intro!: quiet_intros split: res.split)
  with \<open>\<And>e. quiet api used (condition_error e)\<close> show ?thesis
    using target_ok_D(10) [OF assms]
    by (auto simp: py_condition_of_def intro!: quiet_intros
        split: option.split res.split prepared_expression.split)
qed

lemma quiet_init_bp_actions [quiet_intros]:
  "target_ok api used \<Longrightarrow> quiet api used (init_bp_actions api bp_info)"
  unfolding init_bp_actions_def
  by (intro quiet_intros quiet_py_condition) (simp_all add: target_ok_D)

lemma dasm_from_address_fields:
  "world (snd (dasm_from_address ll a s)) = world s"
  "breakpoints (snd (dasm_from_address ll a s)) = breakpoints s"
  by (simp_all add: dasm_from_address_def split: prod.split)

lemma make_bp_response_fields:
  "world (snd (make_bp_response ll api bp_info src s)) = world s"
  "breakpoints (snd (make_bp_response ll api bp_info src s)) = breakpoints s"
proof -
  have src: "snd (source_response ll api bp_info src base s) = s" for base
    by (simp add: source_response_def Let_def split: option.split)
  have dasm: "world (snd (disassembly_response ll api bp_info base s)) = world s"
    "breakpoints (snd (disassembly_response ll api bp_info base s)) = breakpoints s" for base
    using dasm_from_address_fields [of ll _ s]
    by (auto simp: disassembly_response_def Let_def split: prod.split res.split) (metis snd_conv)+
  show "world (snd (make_bp_response ll api bp_info src s)) = world s"
    "breakpoints (snd (make_bp_response ll api bp_info src s)) = breakpoints s"
    using src dasm by (auto simp: make_bp_response_def Let_def split: breakpoint_kind.split)
qed

lemma quiet_make_bp_response [quiet_intros]:
  "quiet api used (make_bp_response ll api' bp_info src)"
  by (simp add: quiet_def make_bp_response_fields Let_def)

lemma make_bp_response_id:
  "make_bp_response ll api bp_info src s = (Ok body, s') \<Longrightarrow> bb_id body = Some (uint (bi_id bp_info))"
  by (auto simp: make_bp_response_def source_response_def disassembly_response_def Let_def
      split: if_splits breakpoint_kind.splits option.splits prod.splits res.splits)


section \<open>Placing a breakpoint\<close>

text \<open>
  The outcome for one request: the live breakpoint of the key is kept, or a new one is created.
\<close>

definition placed ::
  "'w bp_api \<Rightarrow> ('w \<Rightarrow> u32 set) \<Rightarrow> ('k, u32) hashmap \<Rightarrow> 'k \<Rightarrow> u32 \<Rightarrow> ('w, 'h) session \<Rightarrow>
     ('w, 'h) session \<Rightarrow> bool" where
  "placed api used existing key i s s' \<longleftrightarrow>
     breakpoints s' = breakpoints s \<and> used (world s) \<subseteq> used (world s')
     \<and> (used (world s') \<noteq> UNIV \<longrightarrow> (hm_get existing key = Some i \<and> find_bp api (world s) i \<noteq> None
            \<and> find_bp api (world s') = find_bp api (world s))
        \<or> (existing_bp api existing key (world s) = None \<and> i \<notin> used (world s) \<and> i \<in> used (world s')
            \<and> (\<exists>bp. find_bp api (world s') = (find_bp api (world s))(i \<mapsto> bp))))"

lemma placed_quiet:
  "placed api used existing key i s t \<Longrightarrow> quiet api used m \<Longrightarrow> m t = (r, s') \<Longrightarrow>
     placed api used existing key i s s'"
  using quietD [of api used m t r s'] unfolding placed_def by auto

definition creates_h ::
  "'w bp_api \<Rightarrow> ('w \<Rightarrow> u32 set) \<Rightarrow> ('w, 'h, nat) handler \<Rightarrow> bool" where
  "creates_h api used m \<longleftrightarrow> (\<forall>s bp s'. m s = (Ok bp, s') \<longrightarrow>
     used (world s') = insert (bp_id api bp) (used (world s))
     \<and> find_bp api (world s') = (find_bp api (world s))(bp_id api bp \<mapsto> bp)
     \<and> (used (world s') \<noteq> UNIV \<longrightarrow> bp_id api bp \<notin> used (world s))
     \<and> breakpoints s' = breakpoints s)"

lemma creates_call: "creates api used f \<Longrightarrow> creates_h api used (call_world f)"
  by (auto simp: creates_h_def creates_def call_world_def Let_def split: prod.splits)

lemma creates_after_quiet:
  "(\<And>s x s'. m s = (Ok x, s') \<Longrightarrow> s' = s) \<Longrightarrow> (\<And>x. creates_h api used (f x)) \<Longrightarrow> creates_h api used (bindS m f)"
  unfolding creates_h_def bindS_Ok by metis

lemma place_bp_placed:
  assumes ok: "target_ok api used" and create: "creates_h api used create"
    and place: "place_bp api existing key create kind c l h s = (Ok bp_info, s')"
  shows "placed api used existing key (bi_id bp_info) s s'"
proof -
  from place obtain bp t u v where
    bp: "(case existing_bp api existing key (world s) of Some bp \<Rightarrow> returnS bp | None \<Rightarrow> create) s = (Ok bp, t)"
    and info: "make_bp_info api bp kind c l h t = (Ok bp_info, u)"
    and init: "init_bp_actions api bp_info u = (Ok v, s')"
    by (auto simp: place_bp_def bindS_Ok getS_def thenS_def returnS_def)
  have i: "bi_id bp_info = bp_id api bp" using info
    by (auto simp: make_bp_info_def bindS_Ok returnS_def)
  have "placed api used existing key (bi_id bp_info) s t"
  proof (cases "existing_bp api existing key (world s)")
    case None
    with bp have "create s = (Ok bp, t)" by simp
    with create None show ?thesis unfolding creates_h_def placed_def i by blast
  next
    case (Some b)
    then obtain j where j: "hm_get existing key = Some j" "find_bp api (world s) j = Some b"
      by (auto simp: existing_bp_def split: option.splits)
    moreover from bp Some have "b = bp" "t = s" by (simp_all add: returnS_def)
    moreover have "bp_id api b = j" using target_ok_D(1) [OF ok j(2)] .
    ultimately show ?thesis by (simp add: placed_def i)
  qed
  then have "placed api used existing key (bi_id bp_info) s u"
    by (rule placed_quiet [OF _ quiet_make_bp_info info])
  then show ?thesis by (rule placed_quiet [OF _ quiet_init_bp_actions [OF ok] init])
qed

lemma distinct_filter_zip:
  assumes "length ids = length reqs" "distinct (map key reqs)"
    and "\<And>r i. (r, i) \<in> set (zip reqs ids) \<Longrightarrow> P i \<Longrightarrow> g (key r) = Some i"
    and "\<And>k k' i. g k = Some i \<Longrightarrow> g k' = Some i \<Longrightarrow> k = k'"
  shows "distinct (filter P ids)"
  using assms(1-3)
proof (induction ids reqs rule: list_induct2)
  case (Cons i ids r reqs)
  have "i \<notin> set ids" if "P i"
  proof
    assume "i \<in> set ids"
    then obtain q where q: "(q, i) \<in> set (zip reqs ids)" using Cons(1) by (metis in_set_impl_in_set_zip2)
    with Cons.prems(2) that have "g (key q) = Some i" "g (key r) = Some i" by auto
    then have "key q = key r" by (rule assms(4))
    moreover have "q \<in> set reqs" using q by (rule set_zip_leftD)
    ultimately show False using Cons.prems(1) by (metis distinct.simps(2) image_eqI list.set_map list.simps(9))
  qed
  with Cons show ?case by auto
qed simp

lemma distinct_split: "distinct (filter P xs) \<Longrightarrow> distinct (filter (\<lambda>x. \<not> P x) xs) \<Longrightarrow> distinct xs"
  by (induction xs) (auto split: if_splits)

section \<open>Deleting\<close>

definition bps_tables ::
  "breakpoints \<Rightarrow> (string, (i64, u32) hashmap) hashmap \<times> (i64, (i64, u32) hashmap) hashmap
     \<times> (u64, u32) hashmap \<times> (string, u32) hashmap" where
  "bps_tables b = (bps_source b, bps_assembly b, bps_instruction b, bps_function b)"

definition stale_ids :: "('k, u32) hashmap \<Rightarrow> ('k, u32) hashmap \<Rightarrow> u32 set" where
  "stale_ids existing new = {i. \<exists>k. (k, i) \<in> set existing \<and> \<not> hm_contains new k}"

lemma delete_stale_Ok:
  assumes ok: "target_ok api used" and run: "delete_stale api forget existing new s = (r, s')"
  shows "is_ok r" "find_bp api (world s') = (\<lambda>i. if i \<in> stale_ids existing new then None else find_bp api (world s) i)"
    "used (world s') = used (world s)"
    "hm_keys (breakpoint_infos (breakpoints s')) =
       hm_keys (breakpoint_infos (breakpoints s)) - (if forget then stale_ids existing new else {})"
    "bps_tables (breakpoints s') = bps_tables (breakpoints s)"
proof -
  let ?body = "delete_if_stale api forget new"
  have body: "?body (k, i) s = (Ok (), if hm_contains new k then s
      else (let t = s\<lparr>world := delete_bp api i (world s)\<rparr> in
            if forget then t\<lparr>breakpoints := (breakpoints t)
              \<lparr>breakpoint_infos := hm_remove i (breakpoint_infos (breakpoints t))\<rparr>\<rparr> else t))"
    for k i and s :: "('a, 'b) session"
    by (auto simp: delete_if_stale_def res_simps modify_world_def forget_info_def update_bps_def Let_def)
  have "is_ok (fst (forS ?body existing s)) \<and>
    (let s' = snd (forS ?body existing s) in
      find_bp api (world s') = (\<lambda>i. if i \<in> stale_ids existing new then None else find_bp api (world s) i)
      \<and> used (world s') = used (world s)
      \<and> hm_keys (breakpoint_infos (breakpoints s')) =
         hm_keys (breakpoint_infos (breakpoints s)) - (if forget then stale_ids existing new else {})
      \<and> bps_tables (breakpoints s') = bps_tables (breakpoints s))"
  proof (induction existing arbitrary: s)
    case Nil
    then show ?case by (simp add: returnS_def stale_ids_def)
  next
    case (Cons ki existing)
    obtain k i where ki: "ki = (k, i)" by (cases ki)
    have stale: "stale_ids (ki # existing) new =
        (if hm_contains new k then stale_ids existing new else insert i (stale_ids existing new))"
      by (auto simp: stale_ids_def ki)
    let ?t = "snd (?body (k, i) s)"
    obtain q t where t: "forS ?body existing ?t = (q, t)" by (cases "forS ?body existing ?t")
    have q: "is_ok q" using Cons.IH [of ?t] t by simp
    then obtain ys where ys: "q = Ok ys" by (cases q) auto
    have run: "forS ?body (ki # existing) s = (Ok (() # ys), t)"
      using t ys by (simp add: ki bindS_def body returnS_def)
    have t': "snd (forS ?body existing ?t) = t" "snd (forS ?body (ki # existing) s) = t"
      "is_ok (fst (forS ?body (ki # existing) s))" using t run by simp_all
    note IH = Cons.IH [of ?t, unfolded t' Let_def]
    have step: "find_bp api (world ?t) = (if hm_contains new k then find_bp api (world s)
          else (find_bp api (world s))(i := None))" "used (world ?t) = used (world s)"
      "hm_keys (breakpoint_infos (breakpoints ?t)) = hm_keys (breakpoint_infos (breakpoints s)) -
         (if forget \<and> \<not> hm_contains new k then {i} else {})"
      "bps_tables (breakpoints ?t) = bps_tables (breakpoints s)"
      using target_ok_D(8,9) [OF ok] by (simp_all add: body Let_def bps_tables_def)
    show ?case
      unfolding Let_def t'(2) using IH t'(3) unfolding step stale
      by (auto simp: fun_eq_iff split: if_splits)
  qed
  with run show "is_ok r" "find_bp api (world s') = (\<lambda>i. if i \<in> stale_ids existing new then None else find_bp api (world s) i)"
    "used (world s') = used (world s)"
    "hm_keys (breakpoint_infos (breakpoints s')) =
       hm_keys (breakpoint_infos (breakpoints s)) - (if forget then stale_ids existing new else {})"
    "bps_tables (breakpoints s') = bps_tables (breakpoints s)"
    by (simp_all add: delete_stale_def Let_def)
qed

section \<open>What a table promises\<close>

definition table_ok :: "('w \<Rightarrow> u32 set) \<Rightarrow> 'w \<Rightarrow> ('k, u32) hashmap \<Rightarrow> bool" where
  "table_ok used w t \<longleftrightarrow> hm_wf t \<and> distinct (map snd t) \<and> snd ` set t \<subseteq> used w"

text \<open>
  The new table has the requested keys, and the responses name its breakpoints in the order of the
  request.  Its breakpoints are in the target, and those that were there before are the same ones;
  every other one is new: its id belonged to no breakpoint at all before the request.
  What is not requested any more is gone from the target, and nothing else has changed.
\<close>

definition reconciled ::
  "'w bp_api \<Rightarrow> ('w \<Rightarrow> u32 set) \<Rightarrow> ('k, u32) hashmap \<Rightarrow> ('k, u32) hashmap \<Rightarrow> 'k list \<Rightarrow>
     breakpoint_body list \<Rightarrow> 'w \<Rightarrow> 'w \<Rightarrow> bool" where
  "reconciled api used old new keys responses w w' \<longleftrightarrow>
     hm_keys new = set keys
     \<and> map bb_id responses = map (\<lambda>k. map_option uint (hm_get new k)) keys
     \<and> (\<forall>(k, i) \<in> set new. find_bp api w' i \<noteq> None
          \<and> (\<forall>j. hm_get old k = Some j \<longrightarrow> find_bp api w j \<noteq> None \<longrightarrow> i = j)
          \<and> (hm_get old k = Some i \<and> find_bp api w i \<noteq> None \<or> i \<notin> used w))
     \<and> (\<forall>(k, i) \<in> set old. k \<notin> set keys \<longrightarrow> find_bp api w' i = None)
     \<and> (\<forall>i \<in> used w. i \<notin> snd ` set old \<longrightarrow> find_bp api w' i = find_bp api w i)
     \<and> table_ok used w' new"

lemma fold_insert_list:
  assumes "length ids = length reqs" "distinct (map key reqs)" "hm_keys m \<inter> key ` set reqs = {}"
  shows "fold (\<lambda>(r, i). hm_insert (key r) i) (zip reqs ids) m = m @ zip (map key reqs) ids"
  using assms
proof (induction ids reqs arbitrary: m rule: list_induct2)
  case (Cons i ids r reqs)
  have "hm_insert (key r) i m = m @ [(key r, i)]" using Cons.prems by (intro hm_insert_fresh) auto
  moreover have "hm_keys (m @ [(key r, i)]) \<inter> key ` set reqs = {}"
    using Cons.prems by (auto simp: hm_keys_def)
  ultimately show ?case using Cons by simp
qed simp

section \<open>The contract of a table\<close>

text \<open>
  \<open>key\<close> is the key of a request.  The provider promises that a request that succeeds is for its key,
  answers with the id of its breakpoint, and keeps or creates exactly that breakpoint.
\<close>

locale bp_table =
  fixes api :: "'w bp_api"
    and plan :: "('k, u32) hashmap \<Rightarrow> 'r \<Rightarrow> ('w, 'h, 'k \<times> breakpoint_info \<times> breakpoint_body) handler"
    and key :: "'r \<Rightarrow> 'k"
  assumes plan_law: "target_ok api used \<Longrightarrow> plan existing r s = (Ok (k, bp_info, response), s') \<Longrightarrow>
      k = key r \<and> bb_id response = Some (uint (bi_id bp_info))
      \<and> placed api used existing k (bi_id bp_info) s s'"
begin

text \<open>
  What the loop leaves, with the id of the breakpoint of each request: \<open>F\<close> and \<open>F'\<close> are what the
  target finds before and after.
\<close>

lemma loop:
  assumes ok: "target_ok api used" and ex: "snd ` set existing \<subseteq> used (world s)"
    and run: "table_loop (plan existing) reqs new0 s = (Ok (responses, new), s')"
    and keys: "distinct (map key reqs)" and room: "used (world s') \<noteq> UNIV"
  shows "\<exists>ids. length ids = length reqs
    \<and> new = fold (\<lambda>(r, i). hm_insert (key r) i) (zip reqs ids) new0
    \<and> map bb_id responses = map (\<lambda>i. Some (uint i)) ids
    \<and> (\<forall>i \<in> used (world s). find_bp api (world s') i = find_bp api (world s) i)
    \<and> used (world s) \<subseteq> used (world s')
    \<and> (\<forall>i \<in> set ids. find_bp api (world s') i \<noteq> None)
    \<and> (\<forall>(r, i) \<in> set (zip reqs ids). i \<in> used (world s) \<longrightarrow> hm_get existing (key r) = Some i)
    \<and> (\<forall>(r, i) \<in> set (zip reqs ids). \<forall>j. hm_get existing (key r) = Some j \<longrightarrow>
          find_bp api (world s) j \<noteq> None \<longrightarrow> i = j)
    \<and> distinct (filter (\<lambda>i. i \<notin> used (world s)) ids)
    \<and> hm_keys (breakpoint_infos (breakpoints s')) = hm_keys (breakpoint_infos (breakpoints s)) \<union> set ids
    \<and> bps_tables (breakpoints s') = bps_tables (breakpoints s)"
  using ex run keys
proof (induction reqs arbitrary: new0 s responses)
  case Nil
  then show ?case by (auto simp: returnS_def)
next
  case (Cons r reqs)
  from Cons.prems(2) obtain k bp_info response t u rs where
    p: "plan existing r s = (Ok (k, bp_info, response), t)"
    and u: "u = t\<lparr>breakpoints := breakpoints t
        \<lparr>breakpoint_infos := hm_insert (bi_id bp_info) bp_info (breakpoint_infos (breakpoints t))\<rparr>\<rparr>"
    and loop: "table_loop (plan existing) reqs (hm_insert k (bi_id bp_info) new0) u = (Ok (rs, new), s')"
    and responses: "responses = response # rs"
    by (auto simp: bindS_Ok thenS_def returnS_def remember_info_def update_bps_def modifyS_def)
  let ?i = "bi_id bp_info"
  from plan_law [OF ok p] have k: "k = key r" and resp: "bb_id response = Some (uint ?i)"
    and pl: "placed api used existing (key r) ?i s t" by auto
  have sub: "used (world s) \<subseteq> used (world t)" and bps: "breakpoints t = breakpoints s"
    using pl by (auto simp: placed_def)
  have ex: "snd ` set existing \<subseteq> used (world u)" using Cons.prems(1) sub u by auto
  have dist: "distinct (map key reqs)" "key r \<notin> key ` set reqs" using Cons.prems(3) by auto
  from Cons.IH [OF ex loop dist(1)] obtain ids where
    len: "length ids = length reqs"
    and new: "new = fold (\<lambda>(r, i). hm_insert (key r) i) (zip reqs ids) (hm_insert k ?i new0)"
    and rs: "map bb_id rs = map (\<lambda>i. Some (uint i)) ids"
    and find: "\<forall>i \<in> used (world u). find_bp api (world s') i = find_bp api (world u) i"
    and sub': "used (world u) \<subseteq> used (world s')"
    and live: "\<forall>i \<in> set ids. find_bp api (world s') i \<noteq> None"
    and old: "\<forall>(r, i) \<in> set (zip reqs ids). i \<in> used (world u) \<longrightarrow> hm_get existing (key r) = Some i"
    and kept: "\<forall>(r, i) \<in> set (zip reqs ids). \<forall>j. hm_get existing (key r) = Some j \<longrightarrow>
          find_bp api (world u) j \<noteq> None \<longrightarrow> i = j"
    and fresh: "distinct (filter (\<lambda>i. i \<notin> used (world u)) ids)"
    and infos: "hm_keys (breakpoint_infos (breakpoints s')) =
        hm_keys (breakpoint_infos (breakpoints u)) \<union> set ids"
    and tables: "bps_tables (breakpoints s') = bps_tables (breakpoints u)"
    by blast
  have wu: "world u = world t" by (simp add: u)
  have room_t: "used (world t) \<noteq> UNIV" using room sub' by (auto simp: wu)
  have ti: "find_bp api (world t) ?i \<noteq> None" "?i \<in> used (world t)"
    using room_t pl target_ok_D(2) [OF ok] by (auto simp: placed_def)
  have found: "(hm_get existing (key r) = Some ?i \<and> find_bp api (world s) ?i \<noteq> None
        \<and> find_bp api (world t) = find_bp api (world s))
      \<or> (existing_bp api existing (key r) (world s) = None \<and> ?i \<notin> used (world s) \<and> ?i \<in> used (world t)
        \<and> (\<exists>bp. find_bp api (world t) = (find_bp api (world s))(?i \<mapsto> bp)))"
    using pl room_t unfolding placed_def by blast
  have same: "find_bp api (world t) i = find_bp api (world s) i" if "i \<in> used (world s)" for i
    using found that by auto
  have ids_old: "i \<in> used (world s) \<and> hm_get existing (key q) = Some i"
    if "(q, i) \<in> set (zip reqs ids)" "i \<in> used (world t)" for q i
  proof -
    have "hm_get existing (key q) = Some i" using old that by (auto simp: wu)
    moreover from this have "i \<in> snd ` set existing" by (force dest: hm_get_in_set)
    ultimately show ?thesis using Cons.prems(1) by auto
  qed
  have filter_ids: "filter (\<lambda>i. i \<notin> used (world s)) ids = filter (\<lambda>i. i \<notin> used (world t)) ids"
  proof (rule filter_cong [OF refl])
    fix i assume "i \<in> set ids"
    then obtain q where "(q, i) \<in> set (zip reqs ids)" using len by (metis in_set_impl_in_set_zip2)
    with ids_old sub show "(i \<notin> used (world s)) = (i \<notin> used (world t))" by blast
  qed
  show ?case
  proof (intro exI [of _ "?i # ids"] conjI)
    show "length (?i # ids) = length (r # reqs)" using len by simp
    show "new = fold (\<lambda>(r, i). hm_insert (key r) i) (zip (r # reqs) (?i # ids)) new0" by (simp add: new k)
    show "map bb_id responses = map (\<lambda>i. Some (uint i)) (?i # ids)" by (simp add: responses resp rs)
    show "\<forall>i \<in> used (world s). find_bp api (world s') i = find_bp api (world s) i"
      using find same sub by (auto simp: wu)
    show "used (world s) \<subseteq> used (world s')" using sub sub' by (auto simp: wu)
    show "\<forall>i \<in> set (?i # ids). find_bp api (world s') i \<noteq> None" using live find ti by (auto simp: wu)
    show "\<forall>(q, i) \<in> set (zip (r # reqs) (?i # ids)). i \<in> used (world s) \<longrightarrow> hm_get existing (key q) = Some i"
      using ids_old sub found by auto
    show "\<forall>(q, i) \<in> set (zip (r # reqs) (?i # ids)). \<forall>j. hm_get existing (key q) = Some j \<longrightarrow>
          find_bp api (world s) j \<noteq> None \<longrightarrow> i = j"
    proof -
      have "?i = j" if "hm_get existing (key r) = Some j" "find_bp api (world s) j \<noteq> None" for j
        using found that by (auto simp: existing_bp_def)
      moreover have "i = j" if "(q, i) \<in> set (zip reqs ids)" "hm_get existing (key q) = Some j"
        "find_bp api (world s) j \<noteq> None" for q i j
      proof -
        have "j \<in> used (world s)" using Cons.prems(1) that(2) by (force dest: hm_get_in_set)
        then have "find_bp api (world u) j \<noteq> None" using same that(3) by (simp add: wu)
        with kept that show ?thesis by fastforce
      qed
      ultimately show ?thesis by auto
    qed
    show "distinct (filter (\<lambda>i. i \<notin> used (world s)) (?i # ids))"
    proof -
      have "?i \<notin> set (filter (\<lambda>i. i \<notin> used (world t)) ids)" using ti by auto
      with fresh show ?thesis by (simp add: filter_ids wu)
    qed
    show "hm_keys (breakpoint_infos (breakpoints s')) =
        hm_keys (breakpoint_infos (breakpoints s)) \<union> set (?i # ids)"
      using infos by (auto simp: u bps)
    show "bps_tables (breakpoints s') = bps_tables (breakpoints s)"
      using tables by (simp add: u bps bps_tables_def)
  qed
qed

lemma reconcile:
  assumes ok: "target_ok api used" and tbl: "table_ok used (world s) existing"
    and keys: "distinct (map key reqs)"
    and run: "update_table api forget (plan existing) existing reqs s = (Ok (responses, new), s')"
    and room: "used (world s') \<noteq> UNIV"
  shows "reconciled api used existing new (map key reqs) responses (world s) (world s')"
    "snd ` set new \<subseteq> hm_keys (breakpoint_infos (breakpoints s'))"
    "forget \<Longrightarrow> stale_ids existing new \<inter> hm_keys (breakpoint_infos (breakpoints s')) = {}"
    "bps_tables (breakpoints s') = bps_tables (breakpoints s)"
proof -
  from run obtain t us where loop_run: "table_loop (plan existing) reqs [] s = (Ok (responses, new), t)"
    and del: "delete_stale api forget existing new t = (us, s')"
    by (auto simp: update_table_def bindS_Ok thenS_def returnS_def split: prod.splits)
  have ex: "snd ` set existing \<subseteq> used (world s)" and wf: "hm_wf existing" and inj: "distinct (map snd existing)"
    using tbl by (auto simp: table_ok_def)
  note d = delete_stale_Ok [OF ok del]
  have room_t: "used (world t) \<noteq> UNIV" using room by (simp add: d(3))
  from loop [OF ok ex loop_run keys room_t] obtain ids where
    len: "length ids = length reqs"
    and new: "new = fold (\<lambda>(r, i). hm_insert (key r) i) (zip reqs ids) []"
    and resp: "map bb_id responses = map (\<lambda>i. Some (uint i)) ids"
    and find: "\<forall>i \<in> used (world s). find_bp api (world t) i = find_bp api (world s) i"
    and sub: "used (world s) \<subseteq> used (world t)"
    and live: "\<forall>i \<in> set ids. find_bp api (world t) i \<noteq> None"
    and old: "\<forall>(r, i) \<in> set (zip reqs ids). i \<in> used (world s) \<longrightarrow> hm_get existing (key r) = Some i"
    and kept: "\<forall>(r, i) \<in> set (zip reqs ids). \<forall>j. hm_get existing (key r) = Some j \<longrightarrow>
          find_bp api (world s) j \<noteq> None \<longrightarrow> i = j"
    and fresh: "distinct (filter (\<lambda>i. i \<notin> used (world s)) ids)"
    and infos: "hm_keys (breakpoint_infos (breakpoints t)) = hm_keys (breakpoint_infos (breakpoints s)) \<union> set ids"
    and tables: "bps_tables (breakpoints t) = bps_tables (breakpoints s)"
    by blast
  have new_list: "new = zip (map key reqs) ids"
    unfolding new using fold_insert_list [OF len keys, of "[]"] by simp
  have new_keys: "hm_keys new = set (map key reqs)"
  proof -
    have "map fst new = map key reqs" using len by (simp add: new_list)
    then show ?thesis unfolding hm_keys_def by (metis list.set_map)
  qed
  have pair: "\<exists>r. k = key r \<and> (r, i) \<in> set (zip reqs ids)" if "(k, i) \<in> set new" for k i
    using that len by (auto simp: new_list in_set_zip)
  have not_stale: "i \<notin> stale_ids existing new" if "i \<in> set ids" for i
  proof
    assume "i \<in> stale_ids existing new"
    then obtain k where k: "(k, i) \<in> set existing" "k \<notin> hm_keys new"
      by (auto simp: stale_ids_def hm_contains_keys)
    obtain r where r: "(r, i) \<in> set (zip reqs ids)" using \<open>i \<in> set ids\<close> len by (metis in_set_impl_in_set_zip2)
    have "i \<in> used (world s)" using k(1) ex by force
    with old r have "hm_get existing (key r) = Some i" by auto
    then have "(key r, i) \<in> set existing" by (rule hm_get_in_set)
    with k(1) inj have "key r = k"
      by (metis (no_types, lifting) distinct_map inj_on_eq_iff prod.inject snd_conv)
    moreover have "key r \<in> hm_keys new" using r by (auto simp: new_keys dest: set_zip_leftD)
    ultimately show False using k(2) by simp
  qed
  have stale_used: "stale_ids existing new \<subseteq> snd ` set existing" by (force simp: stale_ids_def)
  have dist: "distinct ids"
  proof -
    have "distinct (filter (\<lambda>i. i \<in> used (world s)) ids)"
    proof (rule distinct_filter_zip [OF len keys])
      show "hm_get existing (key r) = Some i" if "(r, i) \<in> set (zip reqs ids)" "i \<in> used (world s)" for r i
        using old that by auto
      show "k = k'" if "hm_get existing k = Some i" "hm_get existing k' = Some i" for k k' i
        using that [THEN hm_get_in_set] inj
        by (metis (no_types, lifting) distinct_map inj_on_eq_iff prod.inject snd_conv)
    qed
    with fresh show ?thesis by (rule distinct_split [rotated])
  qed
  have "distinct (map snd new)" "hm_wf new" "snd ` set new = set ids"
    using dist keys len by (simp_all add: new_list hm_wf_def flip: set_map)
  moreover have "set ids \<subseteq> used (world t)" using live target_ok_D(2) [OF ok] by auto
  ultimately have tok: "table_ok used (world s') new" by (simp add: table_ok_def d(3))
  have "map bb_id responses = map (\<lambda>k. map_option uint (hm_get new k)) (map key reqs)"
  proof (rule nth_equalityI)
    have "length responses = length ids" using resp by (metis length_map)
    then show "length (map bb_id responses) = length (map (\<lambda>k. map_option uint (hm_get new k)) (map key reqs))"
      by (simp add: len)
    fix n assume "n < length (map bb_id responses)"
    then have n: "n < length reqs" using \<open>length responses = length ids\<close> len by simp
    then have "(key (reqs ! n), ids ! n) \<in> set new"
      by (auto simp: new_list in_set_zip len intro!: exI [of _ n])
    then have "hm_get new (key (reqs ! n)) = Some (ids ! n)"
      using \<open>hm_wf new\<close> by (simp add: hm_get_iff)
    then show "map bb_id responses ! n = map (\<lambda>k. map_option uint (hm_get new k)) (map key reqs) ! n"
      using n resp len by simp
  qed
  moreover have "find_bp api (world s') i \<noteq> None \<and>
      (\<forall>j. hm_get existing k = Some j \<longrightarrow> find_bp api (world s) j \<noteq> None \<longrightarrow> i = j) \<and>
      (hm_get existing k = Some i \<and> find_bp api (world s) i \<noteq> None \<or> i \<notin> used (world s))"
    if "(k, i) \<in> set new" for k i
  proof -
    from pair [OF that] obtain r where r: "k = key r" "(r, i) \<in> set (zip reqs ids)" by blast
    then have "i \<in> set ids" by (auto dest: set_zip_rightD)
    with live not_stale have "find_bp api (world s') i \<noteq> None" by (simp add: d(2))
    moreover have "\<forall>j. hm_get existing k = Some j \<longrightarrow> find_bp api (world s) j \<noteq> None \<longrightarrow> i = j"
      using kept r by fastforce
    moreover have "hm_get existing k = Some i \<and> find_bp api (world s) i \<noteq> None" if "i \<in> used (world s)"
      using that old find live r \<open>i \<in> set ids\<close> by fastforce
    ultimately show ?thesis by blast
  qed
  moreover have "find_bp api (world s') i = None" if "(k, i) \<in> set existing" "k \<notin> set (map key reqs)" for k i
    using that new_keys by (auto simp: d(2) stale_ids_def hm_contains_keys)
  moreover have "find_bp api (world s') i = find_bp api (world s) i" if "i \<in> used (world s)" "i \<notin> snd ` set existing" for i
    using that stale_used find by (auto simp: d(2))
  ultimately show "reconciled api used existing new (map key reqs) responses (world s) (world s')"
    using new_keys tok unfolding reconciled_def by blast
  show "snd ` set new \<subseteq> hm_keys (breakpoint_infos (breakpoints s'))"
    using not_stale \<open>snd ` set new = set ids\<close> by (auto simp: d(4) infos)
  show "stale_ids existing new \<inter> hm_keys (breakpoint_infos (breakpoints s')) = {}" if forget
    using that by (auto simp: d(4))
  show "bps_tables (breakpoints s') = bps_tables (breakpoints s)" by (simp add: d(5) tables)
qed

end

section \<open>The four tables\<close>

lemma plan_finish:
  assumes "target_ok api used" "creates_h api used create"
    and "place_bp api existing key create kind c l h s = (Ok bp_info, t)"
    and "make_bp_response ll api bp_info False t = (Ok response, s')"
  shows "bb_id response = Some (uint (bi_id bp_info)) \<and> placed api used existing key (bi_id bp_info) s s'"
  using placed_quiet [OF place_bp_placed [OF assms(1-3)] quiet_make_bp_response assms(4)]
    make_bp_response_id [OF assms(4)] by blast


lemma create_source_bp_creates:
  assumes "target_ok api used"
  shows "creates_h api used (create_source_bp api file req)"
  unfolding create_source_bp_def
proof (rule creates_after_quiet)
  show "s' = s" if "getS breakpoint_mode s = (Ok x, s')" for s s' :: "('a, 'b) session" and x
    using that by (simp add: getS_def)
  fix mode
  show "creates_h api used (bindS (case mode of BmPath \<Rightarrow> returnS file
          | BmFile \<Rightarrow> liftS (ok_or (path_file_name file) (str_error ''Missing file name'')))
        (\<lambda>location. call_world (create_by_location api location (as_u32 (sb_line req)) (as_u32_column (sb_column req)))))"
    by (rule creates_after_quiet)
      (auto simp: creates_call target_ok_D [OF assms] returnS_def liftS_def split: breakpoint_mode.splits)
qed

text \<open>The search for a hint leaves no breakpoint behind.\<close>

lemma quiet_hint:
  assumes ok: "target_ok api used"
  shows "quiet api used (get_breakpoint_hint ll api file line column)"
proof (cases "path_file_name file")
  case None
  then show ?thesis by (simp add: get_breakpoint_hint_def quiet_intros)
next
  case (Some name)
  show ?thesis
  proof (rule quietI)
    fix s r s' assume run: "get_breakpoint_hint ll api file line column s = (r, s')"
    obtain bp w where c: "create_by_location api name (as_u32 line) (as_u32_column column) (world s) = (bp, w)"
      by (cases "create_by_location api name (as_u32 line) (as_u32_column column) (world s)")
    from run c Some have s': "s' = s\<lparr>world := delete_bp api (bp_id api bp) w\<rparr>"
      by (auto simp: get_breakpoint_hint_def res_simps call_world_def modify_world_def Let_def)
    from c target_ok_D(3) [OF ok] have fresh: "used w \<noteq> UNIV \<longrightarrow> bp_id api bp \<notin> used (world s)"
      and w: "used w = insert (bp_id api bp) (used (world s))" "find_bp api w = (find_bp api (world s))(bp_id api bp \<mapsto> bp)"
      unfolding creates_def by blast+
    moreover from fresh have "used w \<noteq> UNIV \<Longrightarrow> find_bp api (world s) (bp_id api bp) = None"
      using target_ok_D(2) [OF ok] by (metis not_None_eq)
    ultimately show "(used (world s') \<noteq> UNIV \<longrightarrow> find_bp api (world s') = find_bp api (world s)) \<and> used (world s) \<subseteq> used (world s')
        \<and> breakpoints s' = breakpoints s"
      using target_ok_D(8,9) [OF ok] by (auto simp: s' fun_eq_iff)
  qed
qed

lemma quiet_add_hint:
  assumes "target_ok api used"
  shows "quiet api used (add_hint ll api file req bp_info response)"
  unfolding add_hint_def
  by (intro quiet_intros quiet_hint [OF assms]) (auto simp: Let_def intro!: quiet_intros split: option.split)

lemma add_hint_id:
  "add_hint ll api file req bp_info response s = (Ok response', s') \<Longrightarrow> bb_id response' = bb_id response"
  by (auto simp: add_hint_def bindS_Ok getS_def returnS_def thenS_def Let_def split: if_splits option.splits)


definition instruction_address :: "'w bp_api \<Rightarrow> instruction_breakpoint \<Rightarrow> u64" where
  "instruction_address api req = (case instruction_key api req of Ok a \<Rightarrow> a | _ \<Rightarrow> 0)"

interpretation instruction_table: bp_table api "instruction_plan ll api" "instruction_address api" for api ll
proof (unfold_locales, goal_cases)
  case (1 used existing r s k bp_info response s')
  from 1(2) obtain a where "instruction_key api r = Ok a"
    by (cases "instruction_key api r") (auto simp: instruction_plan_def res_simps)
  with 1(2) show ?case
    by (auto simp: instruction_plan_def instruction_address_def bindS_Ok returnS_def liftS_def res_simps(1,2)
        dest: plan_finish [OF 1(1) creates_call [OF target_ok_D(4) [OF 1(1)]]])
qed

interpretation dasm_table: bp_table api "dasm_plan ll api dasm" sb_line for api ll dasm
proof (unfold_locales, goal_cases)
  case (1 used existing r s k bp_info response s')
  from 1(2) show ?case
    by (auto simp: dasm_plan_def bindS_Ok returnS_def liftS_def
        dest: plan_finish [OF 1(1) creates_call [OF target_ok_D(4) [OF 1(1)]]])
qed

interpretation source_table: bp_table api "source_plan ll api path" sb_line for api ll path
proof (unfold_locales, goal_cases)
  case (1 used existing r s k bp_info response s')
  from 1(2) obtain t u resp where
    p: "place_bp api existing (sb_line r) (create_source_bp api path r) BkSource (sb_condition r)
         (sb_log_message r) (sb_hit_condition r) s = (Ok bp_info, t)"
    and m: "make_bp_response ll api bp_info False t = (Ok resp, u)"
    and h: "add_hint ll api path r bp_info resp u = (Ok response, s')" and k: "k = sb_line r"
    by (auto simp: source_plan_def bindS_Ok returnS_def)
  from plan_finish [OF 1(1) create_source_bp_creates [OF 1(1)] p m]
  show ?case using placed_quiet [OF _ quiet_add_hint [OF 1(1)] h] add_hint_id [OF h] k by auto
qed

section \<open>A target\<close>

text \<open>
  A target with a counter for the ids; a breakpoint's name is its id, and every one has one location.
\<close>

record demo_target =
  issued :: nat
  live :: "u32 \<Rightarrow> bool"

definition demo_used :: "demo_target \<Rightarrow> u32 set" where
  "demo_used w = {i. unat i < issued w}"

definition next_id :: "demo_target \<Rightarrow> u32" where
  "next_id w = of_nat (issued w)"

definition demo_create :: "demo_target \<Rightarrow> nat \<times> demo_target" where
  "demo_create w = (unat (next_id w), w\<lparr>issued := Suc (issued w), live := (live w)(next_id w := True)\<rparr>)"

definition demo_bp_api :: "demo_target bp_api" where
  "demo_bp_api = \<lparr>find_bp = (\<lambda>w i. if live w i \<and> unat i < issued w then Some (unat i) else None),
     create_by_location = (\<lambda>p l c. demo_create), create_by_address = (\<lambda>a. demo_create),
     create_by_regex = (\<lambda>r. demo_create), create_by_name = (\<lambda>n. demo_create),
     create_for_exception = (\<lambda>l c t. demo_create),
     delete_bp = (\<lambda>i w. w\<lparr>live := (live w)(i := False)\<rparr>), bp_id = of_nat, bp_valid = (\<lambda>w b. True),
     num_locations = (\<lambda>w b. 1), num_resolved_locations = (\<lambda>w b. 1), location_addresses = (\<lambda>w b. [b]),
     first_location_address = (\<lambda>w b. b), add_name = (\<lambda>b n w. w), set_condition = (\<lambda>b c w. w),
     set_callback = (\<lambda>b c w. w), clear_callback = (\<lambda>b w. w), compile_code = (\<lambda>c w. (Ok 0, w)),
     evaluate_as_bool = (\<lambda>c f x w. (Ok True, w)), adapter_data_to_json = (\<lambda>d. JNull),
     adapter_data_of_json = (\<lambda>j. Ok \<lparr>ad_start = 0, ad_end = 0, ad_line_offsets = []\<rparr>), parse_address = (\<lambda>a. Ok (of_nat (length a))),
     bp_nom = simple_nom, bp_preprocessors = \<lparr>preprocess_simple = Ok, preprocess_python = Ok\<rparr>\<rparr>"

lemma next_id_le: "unat (i :: u32) < Suc (issued w) \<longleftrightarrow> unat i < issued w \<or> i = next_id w"
proof -
  have "unat (next_id w) \<le> issued w" by (simp add: next_id_def unat_of_nat)
  moreover have "i = next_id w" if "unat i = issued w" using that by (simp add: next_id_def flip: that)
  ultimately show ?thesis by (auto simp: less_Suc_eq)
qed

lemma demo_creates: "creates demo_bp_api demo_used demo_create"
  unfolding creates_def
proof (intro allI impI conjI)
  fix w :: demo_target and bp w' assume "demo_create w = (bp, w')"
  then have bp: "bp = unat (next_id w)"
    and w': "w' = w\<lparr>issued := Suc (issued w), live := (live w)(next_id w := True)\<rparr>"
    by (auto simp: demo_create_def)
  show used: "demo_used w' = insert (bp_id demo_bp_api bp) (demo_used w)"
    by (auto simp: demo_used_def demo_bp_api_def bp w' next_id_le)
  show "find_bp demo_bp_api w' = (find_bp demo_bp_api w)(bp_id demo_bp_api bp \<mapsto> bp)"
    by (auto simp: demo_bp_api_def bp w' next_id_le fun_eq_iff)
  show "bp_id demo_bp_api bp \<notin> demo_used w" if "demo_used w' \<noteq> UNIV"
  proof
    assume "bp_id demo_bp_api bp \<in> demo_used w"
    then have small: "unat (next_id w) < issued w"
      by (simp add: demo_used_def demo_bp_api_def bp)
    have "2 ^ 32 \<le> issued w"
    proof (rule ccontr)
      assume "\<not> 2 ^ 32 \<le> issued w"
      then have "unat (next_id w) = issued w" by (simp add: next_id_def unat_of_nat)
      with small show False by simp
    qed
    moreover have "unat i < 2 ^ 32" for i :: u32 using unsigned_less [of i] by simp
    ultimately have "i \<in> demo_used w'" for i
      by (auto simp: demo_used_def w' intro: less_le_trans less_SucI)
    with \<open>demo_used w' \<noteq> UNIV\<close> show False by auto
  qed
qed

lemma demo_target_ok: "target_ok demo_bp_api demo_used"
proof -
  have ops: "create_by_location demo_bp_api p l c = demo_create" "create_by_address demo_bp_api a = demo_create"
    "create_by_regex demo_bp_api r = demo_create" "create_by_name demo_bp_api r = demo_create"
    "create_for_exception demo_bp_api lang t o' = demo_create" for p l c a r lang t o'
    by (simp_all add: demo_bp_api_def)
  show ?thesis
    unfolding target_ok_def ops
    by (auto simp: demo_creates) (auto simp: demo_bp_api_def keeps_def demo_used_def fun_eq_iff split: if_splits)
qed

section \<open>Properties: the requests\<close>

lemma set_source_breakpoints_table:
  assumes ok: "target_ok api used"
    and tbl: "table_ok used (world s) (entry_or_empty path (bps_source (breakpoints s)))"
    and lines: "distinct (map sb_line reqs)"
    and run: "set_source_breakpoints ll api path reqs s = (Ok responses, s')"
    and room: "used (world s') \<noteq> UNIV"
  shows "reconciled api used (entry_or_empty path (bps_source (breakpoints s)))
      (entry_or_empty path (bps_source (breakpoints s'))) (map sb_line reqs) responses (world s) (world s')"
    "snd ` set (entry_or_empty path (bps_source (breakpoints s'))) \<subseteq> hm_keys (breakpoint_infos (breakpoints s'))"
    "stale_ids (entry_or_empty path (bps_source (breakpoints s))) (entry_or_empty path (bps_source (breakpoints s')))
      \<inter> hm_keys (breakpoint_infos (breakpoints s')) = {}"
    "f \<noteq> path \<Longrightarrow> hm_get (bps_source (breakpoints s')) f = hm_get (bps_source (breakpoints s)) f"
    "bps_assembly (breakpoints s') = bps_assembly (breakpoints s)"
    "bps_instruction (breakpoints s') = bps_instruction (breakpoints s)"
    "bps_function (breakpoints s') = bps_function (breakpoints s)"
proof -
  let ?old = "entry_or_empty path (bps_source (breakpoints s))"
  let ?s = "s\<lparr>breakpoints := (breakpoints s)\<lparr>bps_source := hm_insert path ?old (bps_source (breakpoints s))\<rparr>\<rparr>"
  from run obtain new t where
    run': "update_table api True (source_plan ll api (normalize_path ll path) ?old) ?old reqs ?s
       = (Ok (responses, new), t)"
    and s': "s' = t\<lparr>breakpoints := (breakpoints t)\<lparr>bps_source := hm_insert path new (bps_source (breakpoints t))\<rparr>\<rparr>"
    by (auto simp: set_source_breakpoints_def bindS_Ok getS_def thenS_def update_bps_def modifyS_def returnS_def
        split: prod.splits)
  have new: "entry_or_empty path (bps_source (breakpoints s')) = new"
    by (simp add: s' entry_or_empty_def hashmap)
  have "used (world t) \<noteq> UNIV" "table_ok used (world ?s) ?old" using room tbl by (simp_all add: s')
  note r = source_table.reconcile [OF ok this(2) lines run' this(1)]
  from r(4) have "bps_source (breakpoints t) = hm_insert path ?old (bps_source (breakpoints s))"
    "bps_assembly (breakpoints t) = bps_assembly (breakpoints s)"
    "bps_instruction (breakpoints t) = bps_instruction (breakpoints s)"
    "bps_function (breakpoints t) = bps_function (breakpoints s)" by (simp_all add: bps_tables_def)
  then show "f \<noteq> path \<Longrightarrow> hm_get (bps_source (breakpoints s')) f = hm_get (bps_source (breakpoints s)) f"
    "bps_assembly (breakpoints s') = bps_assembly (breakpoints s)"
    "bps_instruction (breakpoints s') = bps_instruction (breakpoints s)"
    "bps_function (breakpoints s') = bps_function (breakpoints s)" by (simp_all add: s' hashmap)
  show "reconciled api used ?old (entry_or_empty path (bps_source (breakpoints s'))) (map sb_line reqs) responses
      (world s) (world s')"
    "snd ` set (entry_or_empty path (bps_source (breakpoints s'))) \<subseteq> hm_keys (breakpoint_infos (breakpoints s'))"
    "stale_ids ?old (entry_or_empty path (bps_source (breakpoints s')))
      \<inter> hm_keys (breakpoint_infos (breakpoints s')) = {}"
    using r(1,2) r(3) [OF TrueI] unfolding new by (simp_all add: s')
qed

text \<open>
  C2 (source breakpoints are reconciled).  A request for the breakpoints of a file, one to a line,
  that succeeds leaves the file's table with exactly the requested lines: a breakpoint LLDB still
  has is kept under its id, every other one has an id that was no breakpoint's before, and those no longer requested are deleted in LLDB
  and forgotten by the session.  The responses carry the ids in the order of the request, no other
  breakpoint of the target and no other table changes, and each one of the table has its info.
\<close>

theorem source_breakpoints_reconciled:
  assumes ok: "target_ok api used"
    and tbl: "table_ok used (world s) (entry_or_empty path (bps_source (breakpoints s)))"
    and lines: "distinct (map sb_line reqs)"
    and run: "set_source_breakpoints ll api path reqs s = (Ok responses, s')"
    and room: "used (world s') \<noteq> UNIV"
  shows "let old = entry_or_empty path (bps_source (breakpoints s));
             new = entry_or_empty path (bps_source (breakpoints s')) in
    reconciled api used old new (map sb_line reqs) responses (world s) (world s')
    \<and> snd ` set new \<subseteq> hm_keys (breakpoint_infos (breakpoints s'))
    \<and> stale_ids old new \<inter> hm_keys (breakpoint_infos (breakpoints s')) = {}
    \<and> (\<forall>f. f \<noteq> path \<longrightarrow> hm_get (bps_source (breakpoints s')) f = hm_get (bps_source (breakpoints s)) f)
    \<and> bps_assembly (breakpoints s') = bps_assembly (breakpoints s)
    \<and> bps_instruction (breakpoints s') = bps_instruction (breakpoints s)
    \<and> bps_function (breakpoints s') = bps_function (breakpoints s)"
  using set_source_breakpoints_table [OF ok tbl lines run room] unfolding Let_def by blast


text \<open>
  Instruction breakpoints are reconciled.  The same for instruction breakpoints, which are
  matched by the address they resolve to.
\<close>

theorem instruction_breakpoints_reconciled:
  assumes ok: "target_ok api used"
    and tbl: "table_ok used (world s) (bps_instruction (breakpoints s))"
    and addresses: "distinct (map (instruction_address api) reqs)"
    and run: "handle_set_instruction_breakpoints ll api reqs s = (Ok responses, s')"
    and room: "used (world s') \<noteq> UNIV"
  shows "let new = bps_instruction (breakpoints s') in
    reconciled api used (bps_instruction (breakpoints s)) new (map (instruction_address api) reqs)
      responses (world s) (world s')
    \<and> snd ` set new \<subseteq> hm_keys (breakpoint_infos (breakpoints s'))
    \<and> bps_source (breakpoints s') = bps_source (breakpoints s)
    \<and> bps_assembly (breakpoints s') = bps_assembly (breakpoints s)
    \<and> bps_function (breakpoints s') = bps_function (breakpoints s)"
proof -
  from run obtain new t where
    run': "update_table api False (instruction_plan ll api (bps_instruction (breakpoints s)))
       (bps_instruction (breakpoints s)) reqs s = (Ok (responses, new), t)"
    and s': "s' = t\<lparr>breakpoints := (breakpoints t)\<lparr>bps_instruction := new\<rparr>\<rparr>"
    by (auto simp: handle_set_instruction_breakpoints_def bindS_Ok getS_def thenS_def update_bps_def
        modifyS_def returnS_def split: prod.splits)
  have "used (world t) \<noteq> UNIV" using room by (simp add: s')
  note r = instruction_table.reconcile [OF ok tbl addresses run' this]
  then show ?thesis by (simp add: s' bps_tables_def)
qed

section \<open>Witnesses\<close>

text \<open>A session with one breakpoint of each kind, and requests that keep it and add another.\<close>

definition demo_session :: "(demo_target, unit) session" where
  "demo_session = (tiny_session \<lparr>issued = 4, live = (\<lambda>i. i = 1 \<or> i = 2 \<or> i = 3)\<rparr> ())
     \<lparr>breakpoints := \<lparr>breakpoint_infos = [], bps_source = [(''/a/b.c'', [(7, 1)])], bps_assembly = [],
        bps_instruction = [(2, 2)], bps_function = [(''main'', 3)]\<rparr>\<rparr>"

definition demo_sources :: "source_breakpoint list" where
  "demo_sources = map (\<lambda>l. \<lparr>sb_line = l, sb_column = None, sb_condition = None, sb_hit_condition = None,
     sb_log_message = None\<rparr>) [5, 7]"

definition demo_functions :: "function_breakpoint list" where
  "demo_functions = map (\<lambda>n. \<lparr>fb_name = n, fb_condition = None, fb_hit_condition = None\<rparr>) [''f'', ''main'']"

definition demo_instructions :: "instruction_breakpoint list" where
  "demo_instructions = map (\<lambda>r. \<lparr>ib_instruction_reference = r, ib_offset = None, ib_condition = None,
     ib_hit_condition = None\<rparr>) [''0x2'', ''02'']"

lemma demo_set_up:
  "make_bp_info api bp kind None None None = returnS
     \<lparr>bi_id = bp_id api bp, bi_breakpoint = bp, bi_kind = kind, bi_condition = None,
      bi_log_message = None, bi_hit_condition = None, bi_hit_count = 0, bi_exclusions = []\<rparr>"
  "bi_condition info = None \<Longrightarrow> init_bp_actions api info = modify_world (set_callback api (bi_breakpoint info) None)"
  by (simp_all add: fun_eq_iff make_bp_info_def read_hit_condition_def empty2none_def init_bp_actions_def
     py_condition_of_def res_simps)

lemmas demo_defs = demo_set_up demo_session_def tiny_session_def tiny_lldb_def tiny_api_def demo_bp_api_def
  demo_create_def next_id_def demo_sources_def demo_functions_def demo_instructions_def

lemmas run_requests = res_simps session_defs handle_set_function_breakpoints_def function_plan_def
  handle_set_instruction_breakpoints_def instruction_plan_def instruction_key_def set_source_breakpoints_def
  source_plan_def add_hint_def create_source_bp_def entry_or_empty_def as_u32_column_def
  update_table_def place_bp_def existing_bp_def create_function_bp_def
  make_bp_response_def source_response_def remember_info_def update_bps_def delete_stale_def delete_if_stale_def
  forget_info_def hm_contains_def hm_get_def hm_insert_def starts_with_def

lemma demo_room: "issued w < 2 ^ 32 \<Longrightarrow> demo_used w \<noteq> UNIV"
proof -
  assume "issued w < 2 ^ 32"
  then have "unat (next_id w) = issued w" by (simp add: next_id_def unat_of_nat)
  then have "next_id w \<notin> demo_used w" by (simp add: demo_used_def)
  then show ?thesis by blast
qed

lemma demo_tables:
  "table_ok demo_used (world demo_session) (entry_or_empty ''/a/b.c'' (bps_source (breakpoints demo_session)))"
  "table_ok demo_used (world demo_session) (bps_instruction (breakpoints demo_session))"
  "table_ok demo_used (world demo_session) (bps_function (breakpoints demo_session))"
  by (simp_all add: table_ok_def demo_session_def tiny_session_def demo_used_def entry_or_empty_def hm_get_def hm_wf_def)

theorem source_breakpoints_reconciled_witness:
  "\<exists>responses s'. set_source_breakpoints tiny_lldb demo_bp_api ''/a/b.c'' demo_sources demo_session = (Ok responses, s')
     \<and> hm_keys (entry_or_empty ''/a/b.c'' (bps_source (breakpoints s'))) = {5, 7}"
proof -
  obtain responses s' where run:
    "set_source_breakpoints tiny_lldb demo_bp_api ''/a/b.c'' demo_sources demo_session = (Ok responses, s')"
    and "issued (world s') = 5"
    by (simp add: demo_defs run_requests)
  then have "demo_used (world s') \<noteq> UNIV" by (simp add: demo_room)
  with source_breakpoints_reconciled [OF demo_target_ok demo_tables(1) _ run] run show ?thesis
    by (simp add: reconciled_def demo_sources_def Let_def)
qed


theorem instruction_breakpoints_reconciled_witness:
  "\<exists>responses s'. handle_set_instruction_breakpoints tiny_lldb demo_bp_api demo_instructions demo_session
       = (Ok responses, s')
     \<and> hm_keys (bps_instruction (breakpoints s')) = {3, 2}"
proof -
  obtain responses s' where run:
    "handle_set_instruction_breakpoints tiny_lldb demo_bp_api demo_instructions demo_session = (Ok responses, s')"
    and "issued (world s') = 5"
    by (simp add: demo_defs run_requests as_u64_def)
  then have "demo_used (world s') \<noteq> UNIV" by (simp add: demo_room)
  with instruction_breakpoints_reconciled [OF demo_target_ok demo_tables(2) _ run] run show ?thesis
    by (simp add: reconciled_def demo_instructions_def Let_def instruction_address_def instruction_key_def
        demo_bp_api_def as_u64_def)
qed

end
