(* ===== verification/Variables.thy ===== *)
theory Variables
  imports Session_State
begin

text \<open>
  \<open>src/codelldb/src/debug_session/variables.rs\<close>: the scopes of a frame, the lists of variables the
  client expands, their summaries and the names they can be evaluated by, the evaluation of
  expressions and commands, and assignments.
\<close>

section \<open>What is asked of LLDB, of Python and of the clock\<close>

text \<open>
  Values and types are named by numbers.  A C string is its lossy decoding, and whether it was valid
  UTF-8.  \<open>clock\<close> is the system time in nanoseconds, and \<open>poll_cancelled\<close> asks the request's
  cancellation token; both depend on when they are asked.
\<close>

type_synonym cstr = "string \<times> bool"

datatype basic_type =
    BtInvalid | BtVoid | BtChar | BtSignedChar | BtUnsignedChar | BtWChar | BtSignedWChar
  | BtUnsignedWChar | BtChar16 | BtChar32 | BtShort | BtUnsignedShort | BtInt | BtUnsignedInt | BtLong
  | BtUnsignedLong | BtLongLong | BtUnsignedLongLong | BtInt128 | BtUnsignedInt128 | BtBool | BtHalf
  | BtFloat | BtDouble | BtLongDouble | BtOther

datatype sbtype_class = TcPointer | TcReference | TcArray | TcOther

datatype value_type = VtVariableGlobal | VtVariableStatic | VtRegister | VtRegisterSet | VtOther

record variable_options =
  vo_arguments :: bool
  vo_locals :: bool
  vo_statics :: bool
  vo_in_scope_only :: bool

record 'w value_api =
  val_name :: "'w \<Rightarrow> nat \<Rightarrow> string option"
  val_type_name :: "'w \<Rightarrow> nat \<Rightarrow> string option"
  val_display_type_name :: "'w \<Rightarrow> nat \<Rightarrow> string option"
  val_type :: "'w \<Rightarrow> nat \<Rightarrow> nat"
  val_value_type :: "'w \<Rightarrow> nat \<Rightarrow> value_type"
  val_error :: "'w \<Rightarrow> nat \<Rightarrow> string option"
  val_format :: "'w \<Rightarrow> nat \<Rightarrow> format"
  set_format :: "nat \<Rightarrow> format \<Rightarrow> 'w \<Rightarrow> 'w"
  val_summary :: "'w \<Rightarrow> nat \<Rightarrow> cstr option"
  val_value :: "'w \<Rightarrow> nat \<Rightarrow> cstr option"
  val_unsigned :: "'w \<Rightarrow> nat \<Rightarrow> u64"
  val_might_have_children :: "'w \<Rightarrow> nat \<Rightarrow> bool"
  val_num_children :: "'w \<Rightarrow> nat \<Rightarrow> nat"
  val_children :: "'w \<Rightarrow> nat \<Rightarrow> nat list"
  val_child_member :: "'w \<Rightarrow> nat \<Rightarrow> string \<Rightarrow> nat option"
  val_is_synthetic :: "'w \<Rightarrow> nat \<Rightarrow> bool"
  val_prefer_synthetic :: "'w \<Rightarrow> nat \<Rightarrow> bool"
  val_non_synthetic :: "'w \<Rightarrow> nat \<Rightarrow> nat"
  val_expression_path :: "'w \<Rightarrow> nat \<Rightarrow> string option"
  val_dereference :: "'w \<Rightarrow> nat \<Rightarrow> nat"
  val_is_valid :: "'w \<Rightarrow> nat \<Rightarrow> bool"
  val_into_result :: "'w \<Rightarrow> nat \<Rightarrow> (string, nat) res"
  val_data_size :: "'w \<Rightarrow> nat \<Rightarrow> nat"
  val_load_address :: "'w \<Rightarrow> nat \<Rightarrow> u64"
  val_address :: "'w \<Rightarrow> nat \<Rightarrow> nat option"
  set_value :: "nat \<Rightarrow> string \<Rightarrow> 'w \<Rightarrow> (string, unit) res \<times> 'w"
  create_value :: "string \<Rightarrow> nat \<Rightarrow> nat \<Rightarrow> 'w \<Rightarrow> nat \<times> 'w"
  type_basic :: "nat \<Rightarrow> basic_type"
  type_classes :: "nat \<Rightarrow> sbtype_class list"
  type_is_pointer :: "nat \<Rightarrow> bool"
  type_pointee :: "nat \<Rightarrow> nat"
  type_array_element :: "nat \<Rightarrow> nat"
  type_array :: "nat \<Rightarrow> u64 \<Rightarrow> nat"
  frame_variables :: "'w \<Rightarrow> nat \<Rightarrow> variable_options \<Rightarrow> nat list"
  frame_registers :: "'w \<Rightarrow> nat \<Rightarrow> nat list"
  frame_find_variable :: "'w \<Rightarrow> nat \<Rightarrow> string \<Rightarrow> nat option"
  stop_return_value :: "'w \<Rightarrow> nat \<Rightarrow> nat option"
  selected_frame :: "'w \<Rightarrow> nat \<Rightarrow> nat"
  eval_native :: "string \<Rightarrow> nat option \<Rightarrow> 'w \<Rightarrow> (string, nat) res \<times> 'w"
  py_compile :: "string \<Rightarrow> 'w \<Rightarrow> (string, nat) res \<times> 'w"
  py_evaluate :: "nat \<Rightarrow> nat option \<Rightarrow> eval_context \<Rightarrow> 'w \<Rightarrow> (string, nat) res \<times> 'w"
  open_console :: "'w \<Rightarrow> (string, unit) res"
  command_in_context :: "string \<Rightarrow> nat option \<Rightarrow> 'w \<Rightarrow> (bool \<times> string \<times> string) \<times> 'w"
  clock :: "'w \<Rightarrow> nat \<times> 'w"
  poll_cancelled :: "'w \<Rightarrow> bool \<times> 'w"
  va_nom :: nom
  va_preprocessors :: preprocessors

definition invalid_address :: u64 where
  "invalid_address = - 1"

definition into_string_lossy :: "cstr \<Rightarrow> string" where
  "into_string_lossy c = fst c"

definition to_str :: "cstr \<Rightarrow> string option" where
  "to_str c = (if snd c then Some (fst c) else None)"

definition is_pointer_or_reference :: "'w value_api \<Rightarrow> nat \<Rightarrow> bool" where
  "is_pointer_or_reference va ty =
     list_ex (\<lambda>c. c = TcPointer \<or> c = TcReference) (type_classes va ty)"

text \<open>\<open>start.elapsed().unwrap_or_default() > timeout\<close>, with the timeout in milliseconds.\<close>

definition timed_out :: "'w value_api \<Rightarrow> nat \<Rightarrow> u64 \<Rightarrow> ('w, 'h, bool) handler" where
  "timed_out va start timeout =
     bindS (call_world (clock va)) (\<lambda>now. returnS (unat timeout * 1000000 < now - start))"

section \<open>Names to evaluate\<close>

definition compose_eval_name :: "string \<Rightarrow> string \<Rightarrow> string" where
  "compose_eval_name prefix suffix =
     (if prefix = [] then suffix
      else if suffix = [] then prefix
      else if starts_with suffix ''['' then prefix @ suffix
      else prefix @ ''.'' @ suffix)"

text \<open>
  The walk from a reference to the root of its tree.  The number bounds the steps; the reference's
  depth in the tree is enough, see \<open>container_eval_name_step\<close> below.
\<close>

fun compose_names ::
  "'w value_api \<Rightarrow> 'h handle_tree \<Rightarrow> 'w \<Rightarrow> 'h \<Rightarrow> nat \<Rightarrow> i64 option \<Rightarrow> string \<Rightarrow> ('e, string) res" where
  "compose_names va ht w t n None eval_name = Ok eval_name"
| "compose_names va ht w t 0 (Some h) eval_name = Panic"
| "compose_names va ht w t (Suc n) (Some h) eval_name =
     (case ht_full_info ht t h of
        None \<Rightarrow> Panic
      | Some (parent_handle, key, CSBValue var) \<Rightarrow>
          if val_value_type va w var \<noteq> VtRegisterSet
          then compose_names va ht w t n parent_handle (compose_eval_name key eval_name)
          else Ok eval_name
      | Some _ \<Rightarrow> Ok eval_name)"

definition compose_container_eval_name ::
  "'w value_api \<Rightarrow> 'h handle_tree \<Rightarrow> i64 \<Rightarrow> ('w, 'h, string) handler" where
  "compose_container_eval_name va ht container_handle s =
     (compose_names va ht (world s) (var_refs s) (Suc (ht_depth ht (var_refs s) container_handle))
        (Some container_handle) [], s)"

section \<open>Summaries\<close>

definition summary_item :: "string \<Rightarrow> string \<Rightarrow> string \<Rightarrow> string" where
  "summary_item separator name value =
     (if starts_with name ''['' then separator @ value else separator @ name @ CHR '':'' # value)"

text \<open>One child: its name and its text, when it has both.\<close>

definition child_text :: "'w value_api \<Rightarrow> 'w \<Rightarrow> nat \<Rightarrow> (string \<times> string) option" where
  "child_text va w child =
     (case val_name va w child of
        None \<Rightarrow> None
      | Some name \<Rightarrow>
          (case (case val_summary va w child of Some c \<Rightarrow> Some c | None \<Rightarrow> val_value va w child) of
             None \<Rightarrow> None
           | Some c \<Rightarrow> map_option (\<lambda>value. (name, value)) (to_str c)))"

text \<open>
  The operands of the condition are evaluated in the order of the source: the clock is read only
  when the others do not decide.
\<close>

definition summary_should_stop ::
  "'w value_api \<Rightarrow> nat \<Rightarrow> bool \<Rightarrow> string \<Rightarrow> ('w, 'h, bool) handler" where
  "summary_should_stop va start unlimited summary =
     bindS (call_world (poll_cancelled va)) (\<lambda>cancelled.
       if cancelled then returnS True
       else if unlimited then returnS False
       else bindS (getS max_summary_length) (\<lambda>limit.
         if limit < length summary then returnS True
         else bindS (getS summary_timeout) (timed_out va start)))"

fun summary_loop ::
  "'w value_api \<Rightarrow> nat \<Rightarrow> bool \<Rightarrow> nat list \<Rightarrow> string \<Rightarrow> string \<Rightarrow> ('w, 'h, string) handler" where
  "summary_loop va start unlimited [] summary separator = returnS summary"
| "summary_loop va start unlimited (child # children) summary separator =
     bindS (summary_should_stop va start unlimited summary) (\<lambda>should_stop.
       if should_stop then returnS (summary @ separator @ ''...'')
       else bindS (getS (\<lambda>s. child_text va (world s) child)) (\<lambda>text.
         case text of
           None \<Rightarrow> summary_loop va start unlimited children summary separator
         | Some (name, value) \<Rightarrow>
             summary_loop va start unlimited children (summary @ summary_item separator name value) '', ''))"

definition get_container_summary :: "'w value_api \<Rightarrow> nat \<Rightarrow> bool \<Rightarrow> ('w, 'h, string) handler" where
  "get_container_summary va var unlimited =
     bindS (call_world (clock va)) (\<lambda>start.
     bindS (getS (\<lambda>s. val_children va (world s) var)) (\<lambda>children.
     bindS (summary_loop va start unlimited children ''{'' []) (\<lambda>summary.
       returnS ((if length summary \<le> 1 then summary @ ''...'' else summary) @ ''}''))))"

text \<open>A summary in place of the pointer's value, or the pointee when there is one.\<close>

definition try_deref_pointer ::
  "'w lldb \<Rightarrow> 'w value_api \<Rightarrow> 'w \<Rightarrow> nat \<Rightarrow> (string, nat option) either" where
  "try_deref_pointer ll va w ptr =
     (let pointee_type = type_pointee va (val_type va w ptr);
          own_summary = if val_is_synthetic va w ptr \<or> type_basic va pointee_type \<noteq> BtInvalid
                        then val_summary va w ptr else None
      in case own_summary of
           Some c \<Rightarrow> First (into_string_lossy c)
         | None \<Rightarrow>
             if val_unsigned va w ptr = 0 then First ''<null>''
             else
               (let pointee = val_dereference va w ptr in
                if val_is_valid va w pointee then
                  if 0 < val_data_size va w pointee then
                    (case (if is_pointer_or_reference va pointee_type then val_value va w pointee else None) of
                       Some c \<Rightarrow> First (CHR ''{'' # into_string_lossy c @ ''}'')
                     | None \<Rightarrow> Second (Some pointee))
                  else First ''<invalid address>''
                else
                  (case process_read_memory (dasm_now ll w) (val_unsigned va w ptr) 1 of
                     Some [_] \<Rightarrow> Second None
                   | _ \<Rightarrow> First ''<invalid address>'')))"

text \<open>The summary of a value whose pointers have been dealt with.\<close>

definition plain_summary :: "'w value_api \<Rightarrow> nat \<Rightarrow> bool \<Rightarrow> ('w, 'h, string) handler" where
  "plain_summary va var unlimited =
     bindS (getS world) (\<lambda>w.
       case val_summary va w var of
         Some c \<Rightarrow> returnS (into_string_lossy c)
       | None \<Rightarrow>
           (case val_value va w var of
              Some c \<Rightarrow> returnS (into_string_lossy c)
            | None \<Rightarrow>
                if val_might_have_children va w var \<and> 0 < val_num_children va w var
                then get_container_summary va var unlimited
                else returnS ''<not available>''))"

definition get_var_summary :: "'w lldb \<Rightarrow> 'w value_api \<Rightarrow> nat \<Rightarrow> bool \<Rightarrow> ('w, 'h, string) handler" where
  "get_var_summary ll va var unlimited =
     bindS (getS (\<lambda>s. s)) (\<lambda>s.
       let w = world s; var_type = val_type va w var in
       if type_basic va var_type = BtVoid then returnS ''()''
       else case val_error va w var of
         Some err \<Rightarrow> returnS (CHR ''<'' # err @ ''>'')
       | None \<Rightarrow>
           if deref_pointers s \<and> val_format va w var = FmtDefault \<and> is_pointer_or_reference va var_type then
             (case try_deref_pointer ll va w var of
                First summary \<Rightarrow> returnS summary
              | Second (Some pointee) \<Rightarrow> plain_summary va pointee unlimited
              | Second None \<Rightarrow> plain_summary va var unlimited)
           else plain_summary va var unlimited)"

section \<open>From LLDB's values to the protocol's\<close>

definition get_var_handle ::
  "'w value_api \<Rightarrow> 'h handle_tree \<Rightarrow> i64 option \<Rightarrow> string \<Rightarrow> nat \<Rightarrow> ('w, 'h, i64 option) handler" where
  "get_var_handle va ht parent_handle key var s =
     (if 0 < val_num_children va (world s) var \<or> val_is_synthetic va (world s) var then
        (let (h, t) = ht_create ht parent_handle key (CSBValue var) (var_refs s) in
         (Ok (Some h), s\<lparr>var_refs := t\<rparr>))
      else (Ok None, s))"

definition get_mem_ref_for_var :: "'w value_api \<Rightarrow> ('w, 'h) session \<Rightarrow> nat \<Rightarrow> string option" where
  "get_mem_ref_for_var va s var =
     (if ic_supports_memory_references (client_caps s) = Some True then
        (if val_value_type va (world s) var = VtRegister then Some (hex_ref (val_unsigned va (world s) var))
         else if type_is_pointer va (val_type va (world s) var) then Some (hex_ref (val_unsigned va (world s) var))
         else if val_load_address va (world s) var = invalid_address then None
         else Some (hex_ref (val_load_address va (world s) var)))
      else None)"

definition is_settable :: "basic_type \<Rightarrow> bool" where
  "is_settable t = (t \<noteq> BtInvalid \<and> t \<noteq> BtVoid \<and> t \<noteq> BtOther)"

definition read_only_hint :: "string list" where
  "read_only_hint = [''readOnly'']"

text \<open>The name a value of a list can be evaluated by.\<close>

definition eval_name_of :: "'w value_api \<Rightarrow> 'w \<Rightarrow> nat \<Rightarrow> string \<Rightarrow> string \<Rightarrow> string option" where
  "eval_name_of va w var container_eval_name name =
     (if val_prefer_synthetic va w var then Some (compose_eval_name container_eval_name name)
      else map_option (\<lambda>p. ''/nat '' @ p) (val_expression_path va w var))"

definition var_to_variable ::
  "'w lldb \<Rightarrow> 'w value_api \<Rightarrow> 'h handle_tree \<Rightarrow> nat \<Rightarrow> string \<Rightarrow> i64 option \<Rightarrow>
     ('w, 'h, variable_body) handler" where
  "var_to_variable ll va ht var container_eval_name container_handle =
     bindS (getS (\<lambda>s. case val_name va (world s) var of Some n \<Rightarrow> n | None \<Rightarrow> [])) (\<lambda>name.
     bindS (getS (\<lambda>s. val_display_type_name va (world s) var)) (\<lambda>dtype.
     bindS (getS global_format) (\<lambda>fmt.
     thenS (if fmt \<noteq> FmtDefault then modify_world (set_format va var fmt) else returnS ())
       (bindS (get_var_summary ll va var False) (\<lambda>value.
        bindS (get_var_handle va ht container_handle name var) (\<lambda>handle.
        bindS (getS (\<lambda>s. s)) (\<lambda>s. returnS (default_variable_body
          \<lparr>vb_name := name, vb_value := value, vb_type := dtype,
           vb_variables_reference := (case handle of Some h \<Rightarrow> h | None \<Rightarrow> 0),
           vb_evaluate_name := eval_name_of va (world s) var container_eval_name name,
           vb_memory_reference := get_mem_ref_for_var va s var,
           vb_hint_attributes :=
             (if is_settable (type_basic va (val_type va (world s) var)) then None
              else Some read_only_hint)\<rparr>))))))))"

text \<open>
  A list of values.  With \<open>deduplicate\<close>, a later variable takes the place of an earlier one of the
  same name.
\<close>

definition add_variable ::
  "bool \<Rightarrow> variable_body \<Rightarrow> variable_body list \<times> (string, nat) hashmap \<Rightarrow>
     variable_body list \<times> (string, nat) hashmap" where
  "add_variable deduplicate variable acc =
     (let (variables, variables_idx) = acc in
      if deduplicate then
        (case hm_get variables_idx (vb_name variable) of
           Some i \<Rightarrow> (variables[i := variable], variables_idx)
         | None \<Rightarrow> (variables @ [variable], hm_insert (vb_name variable) (length variables) variables_idx))
      else (variables @ [variable], variables_idx))"

definition timed_out_variable :: variable_body where
  "timed_out_variable = default_variable_body
     \<lparr>vb_name := ''[timed out]'', vb_type := Some ''Expansion of this list has timed out.'',
      vb_hint_attributes := Some [''readOnly'', ''virtual'']\<rparr>"

fun convert_loop ::
  "'w lldb \<Rightarrow> 'w value_api \<Rightarrow> 'h handle_tree \<Rightarrow> nat \<Rightarrow> string \<Rightarrow> i64 option \<Rightarrow> bool \<Rightarrow> nat list \<Rightarrow>
     variable_body list \<times> (string, nat) hashmap \<Rightarrow> ('w, 'h, variable_body list) handler" where
  "convert_loop ll va ht start cname chandle deduplicate [] acc = returnS (fst acc)"
| "convert_loop ll va ht start cname chandle deduplicate (var # vars) acc =
     bindS (var_to_variable ll va ht var cname chandle) (\<lambda>variable.
     let acc = add_variable deduplicate variable acc in
     bindS (call_world (poll_cancelled va)) (\<lambda>cancelled.
       if cancelled then failS (blame_user (str_error ''<cancelled>''))
       else bindS (bindS (getS evaluation_timeout) (timed_out va start)) (\<lambda>late.
         if late then
           thenS (console_error ''Child list expansion has timed out.'')
             (returnS (fst acc @ [timed_out_variable]))
         else convert_loop ll va ht start cname chandle deduplicate vars acc)))"

definition convert_scope_values ::
  "'w lldb \<Rightarrow> 'w value_api \<Rightarrow> 'h handle_tree \<Rightarrow> nat list \<Rightarrow> string \<Rightarrow> i64 option \<Rightarrow> bool \<Rightarrow>
     ('w, 'h, variable_body list) handler" where
  "convert_scope_values ll va ht vars container_eval_name container_handle deduplicate =
     bindS (call_world (clock va)) (\<lambda>start.
       convert_loop ll va ht start container_eval_name container_handle deduplicate vars ([], []))"

section \<open>Scopes and variables\<close>

definition create_scope ::
  "'h handle_tree \<Rightarrow> i64 \<Rightarrow> string \<Rightarrow> string \<Rightarrow> container \<Rightarrow> ('w, 'h, scope_body) handler" where
  "create_scope ht frame_id key name c s =
     (let (h, t) = ht_create ht (Some frame_id) key c (var_refs s) in
      (Ok \<lparr>sc_name = name, sc_variables_reference = h, sc_expensive = False\<rparr>, s\<lparr>var_refs := t\<rparr>))"

definition handle_scopes :: "'h handle_tree \<Rightarrow> i64 \<Rightarrow> ('w, 'h, scope_body list) handler" where
  "handle_scopes ht frame_id =
     bindS (getS (\<lambda>s. ht_get ht (var_refs s) frame_id)) (\<lambda>c.
       case c of
         Some (CStackFrame frame) \<Rightarrow>
           bindS (create_scope ht frame_id ''[locs]'' ''Local'' (CLocals frame)) (\<lambda>locals.
           bindS (create_scope ht frame_id ''[stat]'' ''Static'' (CStatics frame)) (\<lambda>statics.
           bindS (create_scope ht frame_id ''[glob]'' ''Global'' (CGlobals frame)) (\<lambda>globals.
           bindS (create_scope ht frame_id ''[regs]'' ''Registers'' (CRegisters frame)) (\<lambda>registers.
             returnS [locals, statics, globals, registers]))))
       | _ \<Rightarrow> failS (str_error (''Invalid frame reference: '' @ show_int frame_id)))"

definition scope_options :: "bool \<Rightarrow> variable_options" where
  "scope_options static = \<lparr>vo_arguments = \<not> static, vo_locals = \<not> static, vo_statics = static, vo_in_scope_only = True\<rparr>"

definition locals_of ::
  "'w lldb \<Rightarrow> 'w value_api \<Rightarrow> 'h handle_tree \<Rightarrow> i64 \<Rightarrow> nat \<Rightarrow> ('w, 'h, variable_body list) handler" where
  "locals_of ll va ht container_handle frame =
     bindS (getS (\<lambda>s. stop_return_value va (world s) (frame_thread ll frame))) (\<lambda>ret_val.
     bindS (getS (\<lambda>s. frame_variables va (world s) frame (scope_options False))) (\<lambda>vars.
     bindS (convert_scope_values ll va ht vars [] (Some container_handle) True) (\<lambda>variables.
       case ret_val of
         None \<Rightarrow> returnS variables
       | Some v \<Rightarrow>
           bindS (var_to_variable ll va ht v [] (Some container_handle)) (\<lambda>variable.
             returnS (variable\<lparr>vb_name := ''[return value]''\<rparr> # variables)))))"

definition statics_of ::
  "'w lldb \<Rightarrow> 'w value_api \<Rightarrow> 'h handle_tree \<Rightarrow> i64 \<Rightarrow> nat \<Rightarrow> value_type \<Rightarrow>
     ('w, 'h, variable_body list) handler" where
  "statics_of ll va ht container_handle frame kind =
     bindS (getS (\<lambda>s. filter (\<lambda>v. val_value_type va (world s) v = kind)
                        (frame_variables va (world s) frame (scope_options True)))) (\<lambda>vars.
       convert_scope_values ll va ht vars [] (Some container_handle) False)"

definition children_of ::
  "'w lldb \<Rightarrow> 'w value_api \<Rightarrow> 'h handle_tree \<Rightarrow> i64 \<Rightarrow> nat \<Rightarrow> ('w, 'h, variable_body list) handler" where
  "children_of ll va ht container_handle var =
     bindS (compose_container_eval_name va ht container_handle) (\<lambda>container_eval_name.
     bindS (getS (\<lambda>s. val_children va (world s) var)) (\<lambda>vars.
     bindS (convert_scope_values ll va ht vars container_eval_name (Some container_handle) False) (\<lambda>variables.
     bindS (getS (\<lambda>s. s)) (\<lambda>s.
       if val_is_synthetic va (world s) var then
         (let (h, t) = ht_create ht (Some container_handle) ''[raw]''
                         (CSBValue (val_non_synthetic va (world s) var)) (var_refs s) in
          thenS (modifyS (\<lambda>s. s\<lparr>var_refs := t\<rparr>))
            (returnS (variables @ [default_variable_body
               \<lparr>vb_name := ''[raw]'',
                vb_value := (case val_type_name va (world s) var of Some n \<Rightarrow> n | None \<Rightarrow> []),
                vb_variables_reference := h,
                vb_hint_attributes := Some [''readOnly'', ''virtual'']\<rparr>])))
       else returnS variables))))"

definition handle_variables ::
  "'w lldb \<Rightarrow> 'w value_api \<Rightarrow> 'h handle_tree \<Rightarrow> i64 \<Rightarrow> ('w, 'h, variable_body list) handler" where
  "handle_variables ll va ht container_handle =
     bindS (getS (\<lambda>s. ht_get ht (var_refs s) container_handle)) (\<lambda>c.
       case c of
         None \<Rightarrow> failS (str_error ''Invalid variabes reference'')
       | Some (CLocals frame) \<Rightarrow> locals_of ll va ht container_handle frame
       | Some (CStatics frame) \<Rightarrow> statics_of ll va ht container_handle frame VtVariableStatic
       | Some (CGlobals frame) \<Rightarrow> statics_of ll va ht container_handle frame VtVariableGlobal
       | Some (CRegisters frame) \<Rightarrow>
           bindS (getS (\<lambda>s. frame_registers va (world s) frame)) (\<lambda>vars.
             convert_scope_values ll va ht vars [] (Some container_handle) False)
       | Some (CSBValue var) \<Rightarrow> children_of ll va ht container_handle var
       | Some (CStackFrame frame) \<Rightarrow> returnS [])"

section \<open>Expressions and commands\<close>

text \<open>Evaluates in the context of a frame, or in the global one.\<close>

definition eval_python ::
  "'w value_api \<Rightarrow> string \<Rightarrow> eval_context \<Rightarrow> nat option \<Rightarrow> ('w, 'h, nat) handler" where
  "eval_python va pp_expr ctx frame =
     bindS (getS has_python) (\<lambda>python.
       if python then
         bindS (call_world (py_compile va pp_expr)) (\<lambda>r.
         bindS (liftS (map_err (blame_user \<circ> str_error) r)) (\<lambda>pycode.
         bindS (call_world (py_evaluate va pycode frame ctx)) (\<lambda>r.
           liftS (map_err (blame_user \<circ> str_error) r))))
       else failS (blame_user (str_error ''Python expressions are disabled.'')))"

definition evaluate_expr_in_frame ::
  "'w value_api \<Rightarrow> prepared_expression \<Rightarrow> nat option \<Rightarrow> ('w, 'h, nat) handler" where
  "evaluate_expr_in_frame va expression frame =
     (case expression of
        PxNative pp_expr \<Rightarrow>
          bindS (call_world (eval_native va pp_expr frame)) (\<lambda>r. liftS (map_err (blame_user \<circ> str_error) r))
      | PxPython pp_expr \<Rightarrow> eval_python va pp_expr PythonExpression frame
      | PxSimple pp_expr \<Rightarrow> eval_python va pp_expr SimpleExpression frame)"

text \<open>The value a format suffix asks for: an array of the given length in the value's place.\<close>

definition create_array ::
  "'w value_api \<Rightarrow> nat \<Rightarrow> nat \<Rightarrow> u32 \<Rightarrow> ('w, 'h, nat) handler" where
  "create_array va sbval element count =
     bindS (getS (\<lambda>s. val_address va (world s) sbval)) (\<lambda>address.
     bindS (liftS (ok_or address (str_error ''No address''))) (\<lambda>addr.
       call_world (create_value va ''(as array)'' addr (type_array va element (ucast count)))))"

definition as_array :: "'w value_api \<Rightarrow> nat \<Rightarrow> u32 \<Rightarrow> ('w, 'h, nat) handler" where
  "as_array va sbval count =
     bindS (getS world) (\<lambda>w.
       let var_type = val_type va w sbval in
       if is_pointer_or_reference va var_type then
         bindS (liftS (map_err str_error (val_into_result va w (val_dereference va w sbval)))) (\<lambda>pointee.
           create_array va pointee (type_pointee va var_type) count)
       else if TcArray \<in> set (type_classes va var_type) then
         create_array va sbval (type_array_element va var_type) count
       else create_array va sbval var_type count)"

definition apply_format_spec :: "'w value_api \<Rightarrow> nat \<Rightarrow> format_spec \<Rightarrow> ('w, 'h, nat) handler" where
  "apply_format_spec va sbval spec =
     bindS (case fs_array spec of Some count \<Rightarrow> as_array va sbval count | None \<Rightarrow> returnS sbval) (\<lambda>sbval.
     bindS (getS global_format) (\<lambda>global.
     thenS (modify_world (set_format va sbval (case fs_format spec of Some f \<Rightarrow> f | None \<Rightarrow> global)))
       (returnS sbval)))"

definition default_evaluate_body :: evaluate_body where
  "default_evaluate_body = \<lparr>eb_result = [], eb_type = None, eb_variables_reference = 0, eb_memory_reference = None\<rparr>"

definition handle_evaluate_expression ::
  "'w lldb \<Rightarrow> 'w value_api \<Rightarrow> 'h handle_tree \<Rightarrow> string \<Rightarrow> nat option \<Rightarrow> bool \<Rightarrow> ('w, 'h, evaluate_body) handler" where
  "handle_evaluate_expression ll va ht expression frame for_clipboard =
     bindS (getS default_expr_type) (\<lambda>ty.
     bindS (liftS (map_err blame_user (prepare_with_format (va_nom va) (va_preprocessors va) expression ty)))
       (\<lambda>(pp_expr, format_spec).
     bindS (evaluate_expr_in_frame va pp_expr frame) (\<lambda>sbval.
     bindS (attemptS (apply_format_spec va sbval format_spec)) (\<lambda>r.
     bindS (liftS (map_err blame_user r)) (\<lambda>sbval.
     bindS (get_var_handle va ht None expression sbval) (\<lambda>handle.
     bindS (get_var_summary ll va sbval for_clipboard) (\<lambda>summary.
     bindS (getS (\<lambda>s. s)) (\<lambda>s. returnS
       \<lparr>eb_result = summary, eb_type = val_display_type_name va (world s) sbval,
        eb_variables_reference = (case handle of Some h \<Rightarrow> h | None \<Rightarrow> 0),
        eb_memory_reference = get_mem_ref_for_var va s sbval\<rparr>))))))))"

text \<open>The result of a command: whether it succeeded, its output and its error.\<close>

definition handle_execute_command ::
  "'w value_api \<Rightarrow> string \<Rightarrow> nat option \<Rightarrow> bool \<Rightarrow> ('w, 'h, evaluate_body) handler" where
  "handle_execute_command va command frame return_output =
     bindS (getS world) (\<lambda>w.
     bindS (liftS (map_err str_error (open_console va w))) (\<lambda>_.
     bindS (call_world (command_in_context va command frame)) (\<lambda>(succeeded, out, err).
       if succeeded then
         returnS (default_evaluate_body\<lparr>eb_result := (if return_output then trim_end out else [])\<rparr>)
       else failS (blame_user (str_error (trim_end err))))))"

text \<open>The frame of an evaluation; after \<open>frame select\<close>, the one that is selected in its thread.\<close>

definition evaluation_frame ::
  "'w lldb \<Rightarrow> 'w value_api \<Rightarrow> 'h handle_tree \<Rightarrow> ('w, 'h) session \<Rightarrow> i64 option \<Rightarrow> nat option" where
  "evaluation_frame ll va ht s frame_id =
     (case frame_id of
        None \<Rightarrow> None
      | Some h \<Rightarrow>
          (case ht_get ht (var_refs s) h of
             Some (CStackFrame frame) \<Rightarrow>
               if selected_frame_changed s
               then Some (selected_frame va (world s) (frame_thread ll frame)) else Some frame
           | _ \<Rightarrow> None))"

text \<open>What an entry in the debug console is: a command or an expression, and its text.\<close>

definition classify_repl :: "console_mode \<Rightarrow> string \<Rightarrow> bool \<times> string" where
  "classify_repl mode expression =
     (case mode of
        CmCommands \<Rightarrow>
          if starts_with expression ''?'' then (False, drop 1 expression) else (True, expression)
      | _ \<Rightarrow>
          if starts_with expression ''`'' then (True, drop 1 expression)
          else if starts_with expression ''/cmd '' then (True, drop 5 expression)
          else (False, expression))"

definition evaluate_in_context ::
  "'w lldb \<Rightarrow> 'w value_api \<Rightarrow> 'h handle_tree \<Rightarrow> evaluate_args \<Rightarrow> nat option \<Rightarrow> ('w, 'h, evaluate_body) handler" where
  "evaluate_in_context ll va ht args frame =
     (if ev_context args = Some ''repl'' then
        bindS (getS (\<lambda>s. classify_repl (console_mode s) (ev_expression args))) (\<lambda>(command, text).
          if command then handle_execute_command va text frame False
          else handle_evaluate_expression ll va ht text frame False)
      else if ev_context args = Some ''clipboard'' then
        handle_evaluate_expression ll va ht (ev_expression args) frame True
      else if ev_context args = Some ''hover'' then
        bindS (attemptS (handle_evaluate_expression ll va ht (ev_expression args) frame False)) (\<lambda>r.
          liftS (map_err blame_nobody r))
      else if ev_context args = Some ''_command'' then
        handle_execute_command va (ev_expression args) frame True
      else handle_evaluate_expression ll va ht (ev_expression args) frame False)"

text \<open>The response is passed on as a future, so that the output comes first.\<close>

definition handle_evaluate ::
  "'w lldb \<Rightarrow> 'w value_api \<Rightarrow> 'h handle_tree \<Rightarrow> evaluate_args \<Rightarrow> ('w, 'h, response_body) handler" where
  "handle_evaluate ll va ht args =
     bindS (getS (\<lambda>s. evaluation_frame ll va ht s (ev_frame_id args))) (\<lambda>frame.
     bindS (getS evaluate_for_hovers) (\<lambda>hovers.
       if ev_context args = Some ''hover'' \<and> \<not> hovers then failS (str_error ''Hovers are disabled.'')
       else bindS (attemptS (evaluate_in_context ll va ht args frame)) (\<lambda>result.
         failS (AsyncResponse (FutReady (map_res Rb_evaluate result))))))"

section \<open>Assignments\<close>

definition handle_set_variable ::
  "'w lldb \<Rightarrow> 'w value_api \<Rightarrow> 'h handle_tree \<Rightarrow> set_variable_args \<Rightarrow> ('w, 'h, set_variable_body) handler" where
  "handle_set_variable ll va ht args =
     bindS (getS (\<lambda>s. ht_get ht (var_refs s) (sv_variables_reference args))) (\<lambda>c.
     bindS (liftS (ok_or c (str_error ''Invalid variables reference''))) (\<lambda>container.
     bindS (getS (\<lambda>s. case container of
              CSBValue v \<Rightarrow> val_child_member va (world s) v (sv_name args)
            | CLocals frame \<Rightarrow> frame_find_variable va (world s) frame (sv_name args)
            | CGlobals frame \<Rightarrow> frame_find_variable va (world s) frame (sv_name args)
            | CStatics frame \<Rightarrow> frame_find_variable va (world s) frame (sv_name args)
            | _ \<Rightarrow> None)) (\<lambda>child.
       case child of
         None \<Rightarrow> failS (blame_user (str_error ''Could not set variable value.''))
       | Some child \<Rightarrow>
           bindS (call_world (set_value va child (sv_value args))) (\<lambda>r.
           bindS (liftS (map_err (blame_user \<circ> str_error) r)) (\<lambda>_.
           bindS (getS (\<lambda>s. case val_name va (world s) child of Some n \<Rightarrow> n | None \<Rightarrow> [])) (\<lambda>key.
           bindS (get_var_handle va ht (Some (sv_variables_reference args)) key child) (\<lambda>handle.
           bindS (get_var_summary ll va child False) (\<lambda>v.
           bindS (getS (\<lambda>s. val_type_name va (world s) child)) (\<lambda>ty. returnS
             \<lparr>svb_value = v, svb_type = ty, svb_variables_reference = handle\<rparr>)))))))))"

end
