(* ===== verification/Variables_Correct.thy ===== *)
theory Variables_Correct
  imports Variables
begin

text \<open>
  What \<open>Variables\<close> guarantees: names the client can evaluate, references that keep their meaning,
  bounded summaries, lists without shadowed variables, and evaluations that answer later.
\<close>

section \<open>The tree of references\<close>

text \<open>
  What the code relies on: a reference's parent is in the tree, nearer to the root; a new reference
  has the parent, key and container it was created with, no other reference changes, and a reference
  that is used again keeps its place.
\<close>

definition handle_tree_ok :: "'h handle_tree \<Rightarrow> bool" where
  "handle_tree_ok ht \<longleftrightarrow>
     (\<forall>t h. ht_get ht t h = map_option (snd \<circ> snd) (ht_full_info ht t h))
     \<and> (\<forall>t h p k c. ht_full_info ht t h = Some (Some p, k, c) \<longrightarrow>
          ht_full_info ht t p \<noteq> None \<and> ht_depth ht t p < ht_depth ht t h)
     \<and> (\<forall>t parent key c h t'. (\<forall>p. parent = Some p \<longrightarrow> ht_full_info ht t p \<noteq> None) \<longrightarrow>
          ht_create ht parent key c t = (h, t') \<longrightarrow>
          ht_full_info ht t' h = Some (parent, key, c)
          \<and> (\<forall>h'. h' \<noteq> h \<longrightarrow> ht_full_info ht t' h' = ht_full_info ht t h')
          \<and> (\<forall>p k c'. ht_full_info ht t h = Some (p, k, c') \<longrightarrow> p = parent \<and> k = key))"

lemma handle_tree_okD:
  assumes "handle_tree_ok ht"
  shows "ht_get ht t h = map_option (snd \<circ> snd) (ht_full_info ht t h)"
    "ht_full_info ht t h = Some (Some p, k, c) \<Longrightarrow> ht_full_info ht t p \<noteq> None"
    "ht_full_info ht t h = Some (Some p, k, c) \<Longrightarrow> ht_depth ht t p < ht_depth ht t h"
  using assms unfolding handle_tree_ok_def by blast+

lemma handle_tree_create:
  assumes "handle_tree_ok ht" "ht_create ht parent key c t = (h, t')"
    and "\<And>p. parent = Some p \<Longrightarrow> ht_full_info ht t p \<noteq> None"
  shows "ht_full_info ht t' h = Some (parent, key, c)"
    "h' \<noteq> h \<Longrightarrow> ht_full_info ht t' h' = ht_full_info ht t h'"
    "ht_full_info ht t h = Some (p, k, c') \<Longrightarrow> p = parent \<and> k = key"
  using assms unfolding handle_tree_ok_def by metis+

lemma handle_tree_create_known:
  assumes "handle_tree_ok ht" "ht_create ht (Some p) key c t = (h, t')" "ht_full_info ht t p \<noteq> None"
  shows "ht_full_info ht t' p \<noteq> None"
  using handle_tree_create [OF assms(1,2)] assms(3) by (cases "p = h") auto

section \<open>Names\<close>

text \<open>Composition of names is associative, with the empty name as its unit.\<close>

lemma compose_unit [simp]: "compose_eval_name [] n = n" "compose_eval_name n [] = n"
  by (simp_all add: compose_eval_name_def)

lemma compose_assoc:
  "compose_eval_name (compose_eval_name a b) c = compose_eval_name a (compose_eval_name b c)"
  by (cases b) (auto simp: compose_eval_name_def starts_with_def)

lemma compose_names_acc:
  "(compose_names va ht w t n h acc :: ('e, string) res) =
     map_res (\<lambda>x. compose_eval_name x acc) (compose_names va ht w t n h [])"
proof (induction n arbitrary: h acc)
  case 0
  then show ?case by (cases h) simp_all
next
  case (Suc n)
  have step: "(compose_names va ht w t n p (compose_eval_name key acc) :: ('e, string) res) =
      map_res (\<lambda>x. compose_eval_name x acc) (compose_names va ht w t n p (compose_eval_name key []))" for p key
    using Suc [of p "compose_eval_name key acc"] Suc [of p key]
    by (cases "compose_names va ht w t n p [] :: ('e, string) res") (simp_all add: compose_assoc)
  show ?case
  proof (cases h)
    case (Some k)
    then show ?thesis using step by (auto split: option.split container.split)
  qed simp
qed

lemma compose_names_total:
  assumes ok: "handle_tree_ok ht"
  shows "ht_depth ht t h < n \<Longrightarrow> ht_full_info ht t h \<noteq> None \<Longrightarrow>
    \<exists>x. (compose_names va ht w t n (Some h) acc :: ('e, string) res) = Ok x"
proof (induction n arbitrary: h acc)
  case (Suc n)
  then obtain p key c where i: "ht_full_info ht t h = Some (p, key, c)" by auto
  have "\<exists>x. (compose_names va ht w t n p acc :: ('e, string) res) = Ok x" for acc
  proof (cases p)
    case (Some q)
    from handle_tree_okD(2,3) [OF ok i [unfolded Some]] Suc.prems(1)
    have "ht_depth ht t q < n" "ht_full_info ht t q \<noteq> None" by simp_all
    then show ?thesis unfolding Some by (rule Suc.IH)
  qed simp
  then show ?case by (simp add: i split: container.split)
qed simp

lemma compose_names_mono:
  "compose_names va ht w t n h acc = Ok x \<Longrightarrow> n \<le> m \<Longrightarrow> compose_names va ht w t m h acc = Ok x"
proof (induction n arbitrary: m h acc)
  case 0
  then show ?case by (cases h) simp_all
next
  case (Suc n)
  then obtain m' where m: "m = Suc m'" by (cases m) auto
  show ?case
  proof (cases h)
    case (Some k)
    with Suc m show ?thesis by (auto split: option.splits container.splits if_splits)
  qed (use Suc in simp)
qed

text \<open>The name at a reference, and none at the root.\<close>

definition name_at :: "'w value_api \<Rightarrow> 'h handle_tree \<Rightarrow> 'w \<Rightarrow> 'h \<Rightarrow> i64 option \<Rightarrow> (err, string) res" where
  "name_at va ht w t h =
     compose_names va ht w t (case h of None \<Rightarrow> 0 | Some k \<Rightarrow> Suc (ht_depth ht t k)) h []"

lemma name_at_run: "fst (compose_container_eval_name va ht h s) = name_at va ht (world s) (var_refs s) (Some h)"
  by (simp add: compose_container_eval_name_def name_at_def)

lemma name_at_fuel:
  assumes "handle_tree_ok ht" "\<And>k. h = Some k \<Longrightarrow> ht_full_info ht t k \<noteq> None \<and> ht_depth ht t k < n"
  shows "compose_names va ht w t n h [] = name_at va ht w t h"
proof (cases h)
  case (Some k)
  with assms(2) have k: "ht_full_info ht t k \<noteq> None" "ht_depth ht t k < n" by simp_all
  have "\<exists>x. compose_names va ht w t (Suc (ht_depth ht t k)) (Some k) [] = (Ok x :: (err, string) res)"
    by (rule compose_names_total [OF assms(1) lessI k(1)])
  then obtain x where
    x: "compose_names va ht w t (Suc (ht_depth ht t k)) (Some k) [] = (Ok x :: (err, string) res)"
    by blast
  have "compose_names va ht w t n (Some k) [] = (Ok x :: (err, string) res)"
    by (rule compose_names_mono [OF x]) (use k(2) in simp)
  with x show ?thesis by (simp add: name_at_def Some del: compose_names.simps)
qed (simp add: name_at_def)

lemma name_at_step:
  assumes ok: "handle_tree_ok ht" and i: "ht_full_info ht t h = Some (parent, key, c)"
  shows "name_at va ht w t (Some h) =
    (case c of
       CSBValue v \<Rightarrow>
         if val_value_type va w v \<noteq> VtRegisterSet
         then map_res (\<lambda>p. compose_eval_name p key) (name_at va ht w t parent) else Ok []
     | _ \<Rightarrow> Ok [])"
proof -
  have "compose_names va ht w t (ht_depth ht t h) parent key =
      map_res (\<lambda>p. compose_eval_name p key) (name_at va ht w t parent)"
    by (subst compose_names_acc, subst name_at_fuel [OF ok]) (use handle_tree_okD(2,3) [OF ok] i in blast)+
  then show ?thesis by (auto simp: name_at_def i split: container.split)
qed

lemma name_at_total:
  assumes "handle_tree_ok ht" "ht_full_info ht t h \<noteq> None"
  shows "\<exists>x. name_at va ht w t (Some h) = Ok x"
  unfolding name_at_def option.case by (rule compose_names_total [OF assms(1) lessI assms(2)])

text \<open>A new reference leaves the names at the others as they were.\<close>

lemma compose_names_create:
  assumes ok: "handle_tree_ok ht" and same: "\<And>k. k \<noteq> h \<Longrightarrow> ht_full_info ht t' k = ht_full_info ht t k"
    and vt: "\<And>v. val_value_type va w' v = val_value_type va w v"
  shows "ht_depth ht t' p < n \<Longrightarrow> ht_depth ht t' p < ht_depth ht t' h \<Longrightarrow>
    (compose_names va ht w' t' n (Some p) acc :: ('e, string) res) = compose_names va ht w t n (Some p) acc"
proof (induction n arbitrary: p acc)
  case (Suc n)
  then have p: "p \<noteq> h" by auto
  have "(compose_names va ht w' t' n q acc :: ('e, string) res) = compose_names va ht w t n q acc"
    if "ht_full_info ht t' p = Some (q, k, c)" for q k c acc
  proof (cases q)
    case (Some r)
    have "ht_depth ht t' r < ht_depth ht t' p" using handle_tree_okD(3) [OF ok] that Some by blast
    with Suc Some show ?thesis by simp
  qed (cases n; simp)
  then show ?case using same [OF p] vt by (auto split: option.split container.split)
qed simp

lemma name_at_create:
  assumes ok: "handle_tree_ok ht" and create: "ht_create ht (Some p) key c t = (h, t')"
    and p: "ht_full_info ht t p \<noteq> None" and vt: "\<And>v. val_value_type va w' v = val_value_type va w v"
  shows "name_at va ht w' t' (Some p) = name_at va ht w t (Some p)"
proof -
  note c = handle_tree_create [OF ok create]
  have h: "ht_full_info ht t' h = Some (Some p, key, c)" using c(1) p by auto
  note d = handle_tree_okD(2,3) [OF ok h]
  have same: "ht_full_info ht t' k = ht_full_info ht t k" if "k \<noteq> h" for k using c(2) that p by auto
  let ?n = "Suc (ht_depth ht t' p + ht_depth ht t p)"
  have "name_at va ht w' t' (Some p) = compose_names va ht w' t' ?n (Some p) []"
    using d(1) by (intro name_at_fuel [OF ok, symmetric]) auto
  also have "\<dots> = compose_names va ht w t ?n (Some p) []"
    by (rule compose_names_create [OF ok same vt]) (use d(2) in auto)
  also have "\<dots> = name_at va ht w t (Some p)" using p by (intro name_at_fuel [OF ok]) auto
  finally show ?thesis .
qed

section \<open>Handlers that always answer and change nothing but the world\<close>

definition answers :: "('w, 'h, 'a) handler \<Rightarrow> bool" where
  "answers m \<longleftrightarrow> (\<forall>s. \<exists>x w. m s = (Ok x, s\<lparr>world := w\<rparr>))"

named_theorems answers_intros \<open>handlers that always answer and change nothing but the world\<close>

lemma answersD: "answers m \<Longrightarrow> \<exists>x w. m s = (Ok x, s\<lparr>world := w\<rparr>)"
  unfolding answers_def by blast

lemma same_world: "\<exists>w. s = s\<lparr>world := w\<rparr>"
  by (rule exI [of _ "world s"]) simp

lemma answers_basic [answers_intros]:
  "answers (returnS x)" "answers (getS f)" "answers (call_world g)" "answers (modify_world k)"
  by (auto simp: answers_def res_simps session_defs Let_def split_beta intro: same_world)

lemma answers_bindS [answers_intros]:
  assumes "answers m" "\<And>x. answers (f x)"
  shows "answers (bindS m f)"
  unfolding answers_def
proof
  fix s
  obtain x w where m: "m s = (Ok x, s\<lparr>world := w\<rparr>)" using answersD [OF assms(1)] by blast
  obtain y w' where "f x (s\<lparr>world := w\<rparr>) = (Ok y, s\<lparr>world := w\<rparr>\<lparr>world := w'\<rparr>)"
    using answersD [OF assms(2)] by blast
  then have "bindS m f s = (Ok y, s\<lparr>world := w'\<rparr>)" by (simp add: bindS_def m)
  then show "\<exists>y w. bindS m f s = (Ok y, s\<lparr>world := w\<rparr>)" by blast
qed

lemma answers_thenS [answers_intros]: "answers m \<Longrightarrow> answers n \<Longrightarrow> answers (thenS m n)"
  unfolding thenS_def by (intro answers_bindS)

lemma answers_if [answers_intros]: "answers m \<Longrightarrow> answers n \<Longrightarrow> answers (if b then m else n)"
  by simp

lemma answers_timed_out [answers_intros]: "answers (timed_out va start timeout)"
  unfolding timed_out_def by (intro answers_intros)

lemma answers_should_stop [answers_intros]: "answers (summary_should_stop va start unlimited summary)"
  unfolding summary_should_stop_def by (intro answers_intros)

lemma answers_summary_loop [answers_intros]:
  "answers (summary_loop va start unlimited children summary separator)"
  by (induction children arbitrary: summary separator)
    (auto intro!: answers_intros split: option.split)

lemma answers_container_summary [answers_intros]: "answers (get_container_summary va var unlimited)"
  unfolding get_container_summary_def by (intro answers_intros)

lemma answers_plain_summary [answers_intros]: "answers (plain_summary va var unlimited)"
  unfolding plain_summary_def by (auto intro!: answers_intros split: option.split)

lemma answers_var_summary [answers_intros]: "answers (get_var_summary ll va var unlimited)"
  unfolding get_var_summary_def Let_def
  by (auto intro!: answers_intros split: option.split either.split)

section \<open>Properties: names and references\<close>

text \<open>
  C37 (names lead to the values they are shown for).  A child that is shown in its synthetic form is given, as the name to
  evaluate it by, the name of its container followed by its own.  A child that is not, as is everything under a
  \<open>[raw]\<close> entry, is given LLDB's own path to it, as a native expression, or no name when there is no path.  When the
  child is expanded later, the names of its children are composed from the container's name followed by the child's
  own, which for a child in synthetic form is the very name it was given; below a set of registers they are composed
  from nothing.
\<close>

theorem child_names_agree:
  assumes ok: "handle_tree_ok ht" and vt: "\<forall>w w' v. val_value_type va w v = val_value_type va w' v"
    and known: "ht_full_info ht (var_refs s) p \<noteq> None"
    and name: "fst (compose_container_eval_name va ht p s) = Ok cname"
    and run: "var_to_variable ll va ht var cname (Some p) s = (Ok body, s')"
    and expandable: "vb_variables_reference body \<noteq> 0"
  shows "vb_evaluate_name body =
      (if val_prefer_synthetic va (world s') var then Some (compose_eval_name cname (vb_name body))
       else map_option (\<lambda>path. ''/nat '' @ path) (val_expression_path va (world s') var))
    \<and> fst (compose_container_eval_name va ht (vb_variables_reference body) s')
       = Ok (if val_value_type va (world s) var = VtRegisterSet then [] else compose_eval_name cname (vb_name body))"
proof -
  define key where "key = (case val_name va (world s) var of Some n \<Rightarrow> n | None \<Rightarrow> [])"
  from run obtain t u summ handle where
    t: "(if global_format s \<noteq> FmtDefault then modify_world (set_format va var (global_format s)) else returnS ()) s = (Ok (), t)"
    and summary: "get_var_summary ll va var False t = (Ok summ, u)"
    and handle: "get_var_handle va ht (Some p) key var u = (Ok handle, s')"
    and body: "vb_name body = key" "vb_evaluate_name body = eval_name_of va (world s') var cname key"
      "vb_variables_reference body = (case handle of Some h \<Rightarrow> h | None \<Rightarrow> 0)"
    by (auto simp: var_to_variable_def bindS_Ok getS_def thenS_def returnS_def key_def)
  have "var_refs t = var_refs s" using t by (auto simp: res_simps session_defs split: if_splits)
  moreover have "var_refs u = var_refs t" using answersD [OF answers_var_summary, of ll va var False t] summary by auto
  ultimately have refs: "var_refs u = var_refs s" by simp
  from expandable body(3) obtain h where h: "handle = Some h" "vb_variables_reference body = h"
    by (cases handle) auto
  with handle refs have create: "ht_create ht (Some p) key (CSBValue var) (var_refs s) = (h, var_refs s')"
    by (auto simp: get_var_handle_def Let_def split: if_splits prod.splits)
  have "ht_full_info ht (var_refs s') h = Some (Some p, key, CSBValue var)"
    using handle_tree_create(1) [OF ok create] known by auto
  moreover have kind: "val_value_type va (world s') var = val_value_type va (world s) var" using vt by blast
  moreover have "name_at va ht (world s') (var_refs s') (Some p) = name_at va ht (world s) (var_refs s) (Some p)"
    using vt by (intro name_at_create [OF ok create known]) blast
  ultimately have "name_at va ht (world s') (var_refs s') (Some h) =
      (if val_value_type va (world s) var = VtRegisterSet then Ok []
       else map_res (\<lambda>x. compose_eval_name x key) (name_at va ht (world s) (var_refs s) (Some p)))"
    by (simp add: name_at_step [OF ok])
  then show ?thesis
    using name by (simp add: name_at_run h body eval_name_of_def)
qed

text \<open>
  Scopes.  The four references a frame's scopes come with stand for the locals, statics, globals and
  registers of that very frame, and no reference given out before has changed its meaning, except
  those of the same scopes.
\<close>

theorem scopes_name_their_frame:
  assumes ok: "handle_tree_ok ht"
    and frame: "ht_full_info ht (var_refs s) frame_id = Some (parent, key, CStackFrame frame)"
    and run: "handle_scopes ht frame_id s = (r, s')"
  shows "\<exists>scopes. r = Ok scopes \<and> map sc_name scopes = [''Local'', ''Static'', ''Global'', ''Registers'']
    \<and> map (\<lambda>c. ht_get ht (var_refs s') (sc_variables_reference c)) scopes
       = map Some [CLocals frame, CStatics frame, CGlobals frame, CRegisters frame]
    \<and> s' = s\<lparr>var_refs := var_refs s'\<rparr>
    \<and> (\<forall>h. h \<notin> set (map sc_variables_reference scopes) \<longrightarrow>
         ht_full_info ht (var_refs s') h = ht_full_info ht (var_refs s) h)"
proof -
  have get: "ht_get ht (var_refs s) frame_id = Some (CStackFrame frame)"
    by (simp add: handle_tree_okD(1) [OF ok] frame)
  obtain h1 t1 where c1: "ht_create ht (Some frame_id) ''[locs]'' (CLocals frame) (var_refs s) = (h1, t1)" by fastforce
  obtain h2 t2 where c2: "ht_create ht (Some frame_id) ''[stat]'' (CStatics frame) t1 = (h2, t2)" by fastforce
  obtain h3 t3 where c3: "ht_create ht (Some frame_id) ''[glob]'' (CGlobals frame) t2 = (h3, t3)" by fastforce
  obtain h4 t4 where c4: "ht_create ht (Some frame_id) ''[regs]'' (CRegisters frame) t3 = (h4, t4)" by fastforce
  have r: "r = Ok [\<lparr>sc_name = ''Local'', sc_variables_reference = h1, sc_expensive = False\<rparr>,
      \<lparr>sc_name = ''Static'', sc_variables_reference = h2, sc_expensive = False\<rparr>,
      \<lparr>sc_name = ''Global'', sc_variables_reference = h3, sc_expensive = False\<rparr>,
      \<lparr>sc_name = ''Registers'', sc_variables_reference = h4, sc_expensive = False\<rparr>]"
    and s': "s' = s\<lparr>var_refs := t4\<rparr>"
    using run by (auto simp: handle_scopes_def res_simps get create_scope_def c1 c2 c3 c4)
  note known = handle_tree_create_known [OF ok]
  have p: "ht_full_info ht (var_refs s) frame_id \<noteq> None" "ht_full_info ht t1 frame_id \<noteq> None"
    "ht_full_info ht t2 frame_id \<noteq> None" "ht_full_info ht t3 frame_id \<noteq> None"
    using known [OF c1] known [OF c2] known [OF c3] frame by auto
  note k1 = handle_tree_create [OF ok c1] and k2 = handle_tree_create [OF ok c2]
  note k3 = handle_tree_create [OF ok c3] and k4 = handle_tree_create [OF ok c4]
  have i1: "ht_full_info ht t1 h1 = Some (Some frame_id, ''[locs]'', CLocals frame)"
    and i2: "ht_full_info ht t2 h2 = Some (Some frame_id, ''[stat]'', CStatics frame)"
    and i3: "ht_full_info ht t3 h3 = Some (Some frame_id, ''[glob]'', CGlobals frame)"
    and i4: "ht_full_info ht t4 h4 = Some (Some frame_id, ''[regs]'', CRegisters frame)"
    using k1(1) k2(1) k3(1) k4(1) p by auto
  have d2: "h2 \<noteq> h1" using k2(3) i1 p by auto
  have j1: "ht_full_info ht t2 h1 = Some (Some frame_id, ''[locs]'', CLocals frame)" using k2(2) d2 i1 p by auto
  have d3: "h3 \<noteq> h1" "h3 \<noteq> h2" using k3(3) j1 i2 p by auto
  have l1: "ht_full_info ht t3 h1 = Some (Some frame_id, ''[locs]'', CLocals frame)"
    and l2: "ht_full_info ht t3 h2 = Some (Some frame_id, ''[stat]'', CStatics frame)"
    using k3(2) d3 j1 i2 p by auto
  have d4: "h4 \<noteq> h1" "h4 \<noteq> h2" "h4 \<noteq> h3" using k4(3) l1 l2 i3 p by auto
  have m: "ht_full_info ht t4 h1 = Some (Some frame_id, ''[locs]'', CLocals frame)"
    "ht_full_info ht t4 h2 = Some (Some frame_id, ''[stat]'', CStatics frame)"
    "ht_full_info ht t4 h3 = Some (Some frame_id, ''[glob]'', CGlobals frame)"
    using k4(2) d4 l1 l2 i3 p by auto
  have rest: "ht_full_info ht t4 h = ht_full_info ht (var_refs s) h" if "h \<notin> {h1, h2, h3, h4}" for h
    using that k1(2) [of h] k2(2) [of h] k3(2) [of h] k4(2) [of h] p by simp
  show ?thesis
    unfolding r s' using m i4 rest by (simp add: handle_tree_okD(1) [OF ok])
qed

section \<open>Properties: summaries\<close>

lemma should_stop_limit:
  assumes "summary_should_stop va start False summary s = (Ok False, s')"
  shows "length summary \<le> max_summary_length s"
  using assms by (auto simp: summary_should_stop_def bindS_Ok call_world_def getS_def returnS_def Let_def
      split: if_splits prod.splits)

text \<open>What a child contributes is at most \<open>k\<close> characters long, with its separators.\<close>

definition items_within :: "'w value_api \<Rightarrow> nat \<Rightarrow> bool" where
  "items_within va k \<longleftrightarrow>
     (\<forall>w c name v. child_text va w c = Some (name, v) \<longrightarrow> length name + length v + 3 \<le> k)"

lemma summary_loop_bound:
  assumes "items_within va k"
  shows "summary_loop va start False children summary separator s = (Ok r, s') \<Longrightarrow>
    length summary \<le> b \<Longrightarrow> max_summary_length s + k \<le> b \<Longrightarrow> length separator \<le> 2 \<Longrightarrow> length r \<le> b + 5"
proof (induction children arbitrary: summary separator s)
  case (Cons c cs)
  have "\<exists>stop w. summary_should_stop va start False summary s = (Ok stop, s\<lparr>world := w\<rparr>)"
    by (rule answersD [OF answers_should_stop])
  then obtain stop w where
    stop: "summary_should_stop va start False summary s = (Ok stop, s\<lparr>world := w\<rparr>)" by blast
  show ?case
  proof (cases stop)
    case True
    with Cons stop show ?thesis by (auto simp: bindS_def returnS_def)
  next
    case False
    with stop have "summary_should_stop va start False summary s = (Ok False, s\<lparr>world := w\<rparr>)" by simp
    then have limit: "length summary \<le> max_summary_length s" by (rule should_stop_limit)
    show ?thesis
    proof (cases "child_text va w c")
      case None
      with Cons stop False show ?thesis by (simp add: bindS_def getS_def)
    next
      case (Some nv)
      obtain name v where nv: "nv = (name, v)" by (cases nv)
      have "length (summary_item separator name v) \<le> k"
        using assms Some nv Cons.prems(4) unfolding items_within_def summary_item_def by fastforce
      with limit Cons Some nv stop False show ?thesis by (simp add: bindS_def getS_def)
    qed
  qed
qed (auto simp: returnS_def)

lemma summary_loop_extends:
  "summary_loop va start unlimited children summary separator s = (Ok r, s') \<Longrightarrow> \<exists>t. r = summary @ t"
proof (induction children arbitrary: summary separator s)
  case (Cons c cs)
  from Cons.prems obtain stop t where
    "(if stop then returnS (summary @ separator @ ''...'')
       else bindS (getS (\<lambda>s. child_text va (world s) c)) (\<lambda>text.
         case text of
           None \<Rightarrow> summary_loop va start unlimited cs summary separator
         | Some (name, v) \<Rightarrow>
             summary_loop va start unlimited cs (summary @ summary_item separator name v) '', '')) t = (Ok r, s')"
    by (auto simp: bindS_Ok)
  then show ?case
    by (cases stop; cases "child_text va (world t) c")
      (auto simp: returnS_def bindS_Ok getS_def dest: Cons.IH)
qed (simp add: returnS_def)

text \<open>
  Every structured value has a summary, and a bounded one.  The summary is always found, in
  braces, and unless it is for the clipboard it exceeds the configured length by no more than
  one child and a few characters.
\<close>

theorem container_summary_bounded:
  assumes "items_within va k"
  shows "\<exists>body w. get_container_summary va var False s = (Ok (''{'' @ body @ ''}''), s\<lparr>world := w\<rparr>)
    \<and> length body \<le> max 1 (max_summary_length s + k) + 4"
proof -
  have "\<exists>r w. get_container_summary va var False s = (Ok r, s\<lparr>world := w\<rparr>)"
    by (rule answersD [OF answers_container_summary])
  then obtain r w where r: "get_container_summary va var False s = (Ok r, s\<lparr>world := w\<rparr>)" by blast
  then obtain start children t u summary where clock: "call_world (clock va) s = (Ok start, t)"
    and loop: "summary_loop va start False children ''{'' [] t = (Ok summary, u)"
    and r': "r = (if length summary \<le> 1 then summary @ ''...'' else summary) @ ''}''"
    by (auto simp: get_container_summary_def bindS_Ok getS_def returnS_def)
  from clock have limit: "max_summary_length t = max_summary_length s"
    by (auto simp: call_world_def Let_def split: prod.splits)
  obtain body where body: "summary = ''{'' @ body" using summary_loop_extends [OF loop] by blast
  have "length summary \<le> max 1 (max_summary_length s + k) + 5"
    by (rule summary_loop_bound [OF assms loop]) (use limit in auto)
  with r r' show ?thesis
    by (intro exI [of _ "if length summary \<le> 1 then body @ ''...'' else body"] exI [of _ w]) (auto simp: body)
qed

text \<open>What a summary is without a limit: the children that have a name and a text, separated by commas.\<close>

fun joined :: "string \<Rightarrow> (string \<times> string) list \<Rightarrow> string" where
  "joined separator [] = []"
| "joined separator ((name, v) # items) = summary_item separator name v @ joined '', '' items"

definition full_summary :: "'w value_api \<Rightarrow> 'w \<Rightarrow> nat \<Rightarrow> string" where
  "full_summary va w var =
     (let body = joined [] (List.map_filter (child_text va w) (val_children va w var)) in
      ''{'' @ (if body = [] then ''...'' else body) @ ''}'')"

text \<open>
  The clipboard gets everything.  Without the limits, and unless the request is cancelled, the
  summary has every child that has a name and a text, in their order.
\<close>

theorem clipboard_summary_complete:
  assumes never: "\<forall>w. poll_cancelled va w = (False, w)"
  shows "get_container_summary va var True s =
    (let w = snd (clock va (world s)) in (Ok (full_summary va w var), s\<lparr>world := w\<rparr>))"
proof -
  have go: "summary_should_stop va start True summary s = (Ok False, s)" for start summary and s :: "('a, 'b) session"
    by (simp add: summary_should_stop_def bindS_def call_world_def never returnS_def)
  have loop: "summary_loop va start True children summary separator s =
      (Ok (summary @ joined separator (List.map_filter (child_text va (world s)) children)), s)"
    for start children summary separator and s :: "('a, 'b) session"
    by (induction children arbitrary: summary separator)
      (auto simp: returnS_def bindS_def go getS_def List.map_filter_simps split: option.split)
  show ?thesis
    by (simp add: get_container_summary_def bindS_def call_world_def getS_def loop returnS_def
        full_summary_def Let_def split: prod.split)
qed

section \<open>Properties: lists of variables\<close>

text \<open>The first occurrences of the names of a list, and the last variable with a name.\<close>

definition firsts :: "'a list \<Rightarrow> 'a list" where
  "firsts xs = rev (remdups (rev xs))"

definition last_named :: "variable_body list \<Rightarrow> string \<Rightarrow> variable_body option" where
  "last_named vs n = find (\<lambda>v. vb_name v = n) (rev vs)"

lemma firsts_snoc: "firsts (xs @ [x]) = (if x \<in> set xs then firsts xs else firsts xs @ [x])"
  by (simp add: firsts_def)

lemma firsts_set [simp]: "set (firsts xs) = set xs" "distinct (firsts xs)"
  by (simp_all add: firsts_def)

lemma last_named_snoc: "last_named (vs @ [v]) n = (if vb_name v = n then Some v else last_named vs n)"
  by (simp add: last_named_def)

lemma deduplicated:
  "let (shown, idx) = fold (add_variable True) vs ([], []) in
     map vb_name shown = firsts (map vb_name vs) \<and> (\<forall>v \<in> set shown. last_named vs (vb_name v) = Some v)
     \<and> (\<forall>n i. hm_get idx n = Some i \<longleftrightarrow> i < length shown \<and> vb_name (shown ! i) = n)"
proof (induction vs rule: rev_induct)
  case (snoc v vs)
  obtain shown idx where f: "fold (add_variable True) vs ([], []) = (shown, idx)" by fastforce
  with snoc have names: "map vb_name shown = firsts (map vb_name vs)"
    and vals: "\<forall>u \<in> set shown. last_named vs (vb_name u) = Some u"
    and idx: "hm_get idx n = Some i \<longleftrightarrow> i < length shown \<and> vb_name (shown ! i) = n" for n i by auto
  have dist: "distinct (map vb_name shown)" by (simp add: names)
  have "set (map vb_name shown) = set (map vb_name vs)" by (simp add: names)
  then have same_names: "vb_name ` set shown = vb_name ` set vs" by simp
  show ?case
  proof (cases "hm_get idx (vb_name v)")
    case None
    have "vb_name v \<notin> vb_name ` set shown"
    proof
      assume "vb_name v \<in> vb_name ` set shown"
      then obtain i where "i < length shown" "vb_name (shown ! i) = vb_name v" by (auto simp: in_set_conv_nth)
      with idx [of "vb_name v" i] None show False by simp
    qed
    moreover have "vb_name (shown ! i) \<noteq> vb_name v" if "i < length shown" for i
      using idx [of "vb_name v" i] None that by simp
    moreover have "fold (add_variable True) (vs @ [v]) ([], []) =
        (shown @ [v], hm_insert (vb_name v) (length shown) idx)"
      using None by (simp add: f) (simp add: add_variable_def)
    ultimately show ?thesis
      using names vals idx same_names
      by (auto simp: firsts_snoc last_named_snoc hashmap nth_append less_Suc_eq simp del: fold_append)
  next
    case (Some i)
    then have i: "i < length shown" "vb_name (shown ! i) = vb_name v" using idx by auto
    have same: "map vb_name (shown[i := v]) = map vb_name shown"
      using i by (metis list_update_id map_update nth_map)
    moreover have "vb_name v \<in> vb_name ` set vs" using i same_names by (metis nth_mem image_eqI)
    moreover have "last_named (vs @ [v]) (vb_name u) = Some u" if "u \<in> set (shown[i := v])" for u
    proof -
      from that i obtain j where j: "j < length shown" "u = shown[i := v] ! j" by (metis in_set_conv_nth length_list_update)
      have "vb_name (shown ! j) \<noteq> vb_name v" if "j \<noteq> i"
        using dist i j(1) that by (metis (no_types) distinct_conv_nth length_map nth_map)
      then show ?thesis using j i vals by (auto simp: last_named_snoc nth_list_update)
    qed
    moreover have "vb_name (shown[i := v] ! j) = vb_name (shown ! j)" if "j < length shown" for j
      using i that by (auto simp: nth_list_update)
    moreover have "fold (add_variable True) (vs @ [v]) ([], []) = (shown[i := v], idx)"
      using Some by (simp add: f) (simp add: add_variable_def)
    ultimately show ?thesis
      using names idx by (auto simp: firsts_snoc simp del: fold_append)
  qed
qed (simp add: firsts_def hashmap)

lemma convert_loop_result:
  "convert_loop ll va ht start cname chandle d vars acc s = (Ok variables, s') \<Longrightarrow>
    \<exists>vs late. list_all2 (\<lambda>var v. \<exists>t t'. var_to_variable ll va ht var cname chandle t = (Ok v, t'))
        (take (length vs) vars) vs
      \<and> length vs \<le> length vars \<and> (late \<or> length vs = length vars)
      \<and> variables = fst (fold (add_variable d) vs acc) @ (if late then [timed_out_variable] else [])"
proof (induction vars arbitrary: acc s)
  case (Cons var vars)
  from Cons.prems obtain v t cancelled t' where v: "var_to_variable ll va ht var cname chandle s = (Ok v, t)"
    and "(if cancelled then failS (blame_user (str_error ''<cancelled>''))
       else bindS (bindS (getS evaluation_timeout) (timed_out va start)) (\<lambda>late.
         if late then thenS (console_error ''Child list expansion has timed out.'')
             (returnS (fst (add_variable d v acc) @ [timed_out_variable]))
         else convert_loop ll va ht start cname chandle d vars (add_variable d v acc))) t' = (Ok variables, s')"
    by (auto simp: bindS_Ok Let_def simp del: if_split)
  then obtain late u where rest: "(if late then thenS (console_error ''Child list expansion has timed out.'')
             (returnS (fst (add_variable d v acc) @ [timed_out_variable]))
         else convert_loop ll va ht start cname chandle d vars (add_variable d v acc)) u = (Ok variables, s')"
    by (cases cancelled) (auto simp: bindS_Ok failS_def simp del: if_split)
  show ?case
  proof (cases late)
    case True
    with rest v show ?thesis
      by (intro exI [of _ "[v]"] exI [of _ True]) (auto simp: thenS_def bindS_Ok returnS_def)
  next
    case False
    with rest Cons.IH [of "add_variable d v acc" u] obtain vs l where
      "list_all2 (\<lambda>var v. \<exists>t t'. var_to_variable ll va ht var cname chandle t = (Ok v, t')) (take (length vs) vars) vs"
      "length vs \<le> length vars" "l \<or> length vs = length vars"
      "variables = fst (fold (add_variable d) vs (add_variable d v acc)) @ (if l then [timed_out_variable] else [])"
      by auto
    with v show ?thesis by (intro exI [of _ "v # vs"] exI [of _ l]) auto
  qed
qed (auto simp: returnS_def)

text \<open>
  A shadowed variable is not shown.  The list of a frame's locals has one variable for every name,
  in the order in which the names first occur, and the variable shown is the last of its name.  Every
  value is converted unless the expansion timed out, which the client is told by an entry at the end.
\<close>

theorem locals_deduplicated:
  assumes "convert_scope_values ll va ht vars cname chandle True s = (Ok variables, s')"
  shows "\<exists>vs shown late.
    list_all2 (\<lambda>var v. \<exists>t t'. var_to_variable ll va ht var cname chandle t = (Ok v, t')) (take (length vs) vars) vs
    \<and> length vs \<le> length vars \<and> (late \<or> length vs = length vars)
    \<and> variables = shown @ (if late then [timed_out_variable] else [])
    \<and> map vb_name shown = firsts (map vb_name vs)
    \<and> (\<forall>v \<in> set shown. last_named vs (vb_name v) = Some v)"
proof -
  from assms obtain start t where "convert_loop ll va ht start cname chandle True vars ([], []) t = (Ok variables, s')"
    by (auto simp: convert_scope_values_def bindS_Ok)
  from convert_loop_result [OF this] obtain vs late where
    vs: "list_all2 (\<lambda>var v. \<exists>t t'. var_to_variable ll va ht var cname chandle t = (Ok v, t')) (take (length vs) vars) vs"
      "length vs \<le> length vars" "late \<or> length vs = length vars"
      "variables = fst (fold (add_variable True) vs ([], [])) @ (if late then [timed_out_variable] else [])"
    by blast
  obtain shown idx where "fold (add_variable True) vs ([], []) = (shown, idx)" by fastforce
  with deduplicated [of vs] vs show ?thesis
    by (intro exI [of _ vs] exI [of _ shown] exI [of _ late]) simp
qed

section \<open>Property: evaluation\<close>

text \<open>
  Evaluations answer later, and hovers quietly.  Unless hovers are disabled, the answer to an
  evaluation, success or error, is passed on as a future; an error of a hover is nobody's.
\<close>

theorem evaluate_answers_later:
  assumes "handle_evaluate ll va ht args s = (r, s')" "r \<noteq> Panic"
  shows "if ev_context args = Some ''hover'' \<and> \<not> evaluate_for_hovers s
    then r = Err (StrError ''Hovers are disabled.'') \<and> s' = s
    else \<exists>answer. r = Err (AsyncResponse (FutReady answer)) \<and> answer \<noteq> Panic
      \<and> (ev_context args = Some ''hover'' \<longrightarrow> (\<forall>e. answer = Err e \<longrightarrow> \<not> snd (blame_message (blamed_from e))))"
proof (cases "ev_context args = Some ''hover'' \<and> \<not> evaluate_for_hovers s")
  case True
  with assms show ?thesis by (simp add: handle_evaluate_def bindS_def getS_def failS_def str_error_def)
next
  case False
  let ?frame = "evaluation_frame ll va ht s (ev_frame_id args)"
  obtain q t where run: "evaluate_in_context ll va ht args ?frame s = (q, t)" by fastforce
  have q: "q \<noteq> Panic" "r = Err (AsyncResponse (FutReady (map_res Rb_evaluate q)))"
    using assms False run
    by (cases q; simp add: handle_evaluate_def bindS_def getS_def failS_def attemptS_def)+
  have hover: "\<not> snd (blame_message (blamed_from e))" if "ev_context args = Some ''hover''" "q = Err e" for e
  proof -
    from run that obtain e' where "e = blame_nobody e'"
      by (auto simp: evaluate_in_context_def bindS_def attemptS_def liftS_def split: res.splits prod.splits)
    then show ?thesis by (simp add: blame_nobody_def box_blamed_def assign_blame_def)
  qed
  show ?thesis
    unfolding if_not_P [OF False]
    by (rule exI [of _ "map_res Rb_evaluate q"]) (use q hover in \<open>cases q; simp\<close>)
qed

section \<open>Witnesses\<close>

text \<open>
  A tree of references: the \<open>n\<close>th entry is reference \<open>n + 1\<close>; a parent that does not come before its
  child counts as none.
\<close>

type_synonym demo_tree = "(i64 option \<times> string \<times> container) list"

definition demo_parent :: "i64 \<Rightarrow> i64 option \<Rightarrow> i64 option" where
  "demo_parent h p = (case p of Some q \<Rightarrow> if 1 \<le> q \<and> q < h then Some q else None | None \<Rightarrow> None)"

definition demo_info :: "demo_tree \<Rightarrow> i64 \<Rightarrow> (i64 option \<times> string \<times> container) option" where
  "demo_info t h =
     (if 1 \<le> h \<and> h \<le> int (length t) then
        (let (p, k, c) = t ! nat (h - 1) in Some (demo_parent h p, k, c))
      else None)"

definition demo_create_ref :: "i64 option \<Rightarrow> string \<Rightarrow> container \<Rightarrow> demo_tree \<Rightarrow> i64 \<times> demo_tree" where
  "demo_create_ref parent key c t =
     (case find (\<lambda>h. case demo_info t h of Some (p, k, _) \<Rightarrow> p = parent \<and> k = key | None \<Rightarrow> False)
             (map (int \<circ> Suc) [0..<length t]) of
        Some h \<Rightarrow> (h, t[nat (h - 1) := (parent, key, c)])
      | None \<Rightarrow> (int (length t) + 1, t @ [(parent, key, c)]))"

definition demo_handles :: "demo_tree handle_tree" where
  "demo_handles = \<lparr>ht_create = demo_create_ref, ht_get = (\<lambda>t h. map_option (snd \<circ> snd) (demo_info t h)),
     ht_full_info = demo_info, ht_reset = (\<lambda>t. []), ht_depth = (\<lambda>t h. nat h)\<rparr>"

lemma demo_parent_Some: "demo_parent h p = Some q \<longleftrightarrow> p = Some q \<and> 1 \<le> q \<and> q < h"
  by (auto simp: demo_parent_def split: option.splits if_splits)

lemma demo_parent_idem: "demo_parent h (demo_parent h p) = demo_parent h p"
  by (auto simp: demo_parent_def split: option.splits)

lemma demo_info_append:
  "demo_info (t @ [(p, k, c)]) h = (if h = int (length t) + 1 then Some (demo_parent h p, k, c) else demo_info t h)"
  by (auto simp: demo_info_def nth_append Let_def)

lemma demo_info_update:
  assumes "1 \<le> g" "g \<le> int (length t)"
  shows "demo_info (t[nat (g - 1) := (p, k, c)]) h = (if h = g then Some (demo_parent h p, k, c) else demo_info t h)"
proof -
  have "nat (h - 1) \<noteq> nat (g - 1)" if "h \<noteq> g" "1 \<le> h" using that assms by auto
  then show ?thesis using assms by (auto simp: demo_info_def)
qed

lemma demo_create_law:
  assumes "\<And>p. parent = Some p \<Longrightarrow> demo_info t p \<noteq> None" and create: "demo_create_ref parent key c t = (h, t')"
  shows "demo_info t' h = Some (parent, key, c) \<and> (\<forall>h'. h' \<noteq> h \<longrightarrow> demo_info t' h' = demo_info t h')
    \<and> (\<forall>p k c'. demo_info t h = Some (p, k, c') \<longrightarrow> p = parent \<and> k = key)"
proof (cases "find (\<lambda>h. case demo_info t h of Some (p, k, _) \<Rightarrow> p = parent \<and> k = key | None \<Rightarrow> False)
             (map (int \<circ> Suc) [0..<length t])")
  case None
  then have new: "h = int (length t) + 1" "t' = t @ [(parent, key, c)]"
    using create by (auto simp: demo_create_ref_def)
  have "demo_parent h parent = parent"
    using assms(1) by (cases parent) (auto simp: demo_info_def demo_parent_def new split: if_splits)
  then show ?thesis by (auto simp: new(2) demo_info_append) (auto simp: new(1) demo_info_def)
next
  case (Some g)
  then have new: "h = g" "t' = t[nat (g - 1) := (parent, key, c)]"
    using create by (auto simp: demo_create_ref_def)
  from Some have g: "1 \<le> g" "g \<le> int (length t)"
    and "case demo_info t g of Some (p, k, _) \<Rightarrow> p = parent \<and> k = key | None \<Rightarrow> False"
    by (auto simp: find_Some_iff)
  then obtain c' where info: "demo_info t g = Some (parent, key, c')" by (auto split: option.splits)
  then have "demo_parent g parent = parent"
    by (auto simp: demo_info_def Let_def demo_parent_idem split: if_splits prod.splits)
  with info show ?thesis by (simp add: new demo_info_update [OF g])
qed

lemma demo_handles_ok: "handle_tree_ok demo_handles"
  unfolding handle_tree_ok_def
proof (intro conjI)
  show "\<forall>t parent key c h t'. (\<forall>p. parent = Some p \<longrightarrow> ht_full_info demo_handles t p \<noteq> None) \<longrightarrow>
      ht_create demo_handles parent key c t = (h, t') \<longrightarrow>
      ht_full_info demo_handles t' h = Some (parent, key, c)
      \<and> (\<forall>h'. h' \<noteq> h \<longrightarrow> ht_full_info demo_handles t' h' = ht_full_info demo_handles t h')
      \<and> (\<forall>p k c'. ht_full_info demo_handles t h = Some (p, k, c') \<longrightarrow> p = parent \<and> k = key)"
    unfolding demo_handles_def handle_tree.simps using demo_create_law by blast
qed (auto simp: demo_handles_def demo_info_def Let_def demo_parent_Some split: if_splits prod.splits)

text \<open>Values: a structure \<open>v\<close> (1) with the members \<open>x\<close> (2) and \<open>y\<close> (3), the latter with a member of its own.\<close>

definition demo_values :: "'w value_api" where
  "demo_values = \<lparr>
     val_name = (\<lambda>w v. map_of [(1, ''v''), (2, ''x''), (3, ''y''), (4, ''x'')] v), val_type_name = (\<lambda>w v. None),
     val_display_type_name = (\<lambda>w v. None), val_type = (\<lambda>w v. 0), val_value_type = (\<lambda>w v. VtOther),
     val_error = (\<lambda>w v. None), val_format = (\<lambda>w v. FmtDefault), set_format = (\<lambda>v f w. w),
     val_summary = (\<lambda>w v. if v = 2 \<or> v = 3 \<or> v = 4 then Some (''7'', True) else None), val_value = (\<lambda>w v. None),
     val_unsigned = (\<lambda>w v. 0), val_might_have_children = (\<lambda>w v. v = 1),
     val_num_children = (\<lambda>w v. if v = 1 then 2 else if v = 3 then 1 else 0),
     val_children = (\<lambda>w v. if v = 1 then [2, 3] else []), val_child_member = (\<lambda>w v n. None),
     val_is_synthetic = (\<lambda>w v. False), val_prefer_synthetic = (\<lambda>w v. True), val_non_synthetic = (\<lambda>w v. v),
     val_expression_path = (\<lambda>w v. None), val_dereference = (\<lambda>w v. 0), val_is_valid = (\<lambda>w v. True),
     val_into_result = (\<lambda>w v. Ok v), val_data_size = (\<lambda>w v. 4), val_load_address = (\<lambda>w v. 16),
     val_address = (\<lambda>w v. Some v), set_value = (\<lambda>v t w. (Ok (), w)), create_value = (\<lambda>n a t w. (1, w)),
     type_basic = (\<lambda>t. BtOther), type_classes = (\<lambda>t. [TcOther]), type_is_pointer = (\<lambda>t. False),
     type_pointee = (\<lambda>t. 0), type_array_element = (\<lambda>t. 0), type_array = (\<lambda>t n. 0),
     frame_variables = (\<lambda>w f o'. [2, 3, 4]), frame_registers = (\<lambda>w f. []), frame_find_variable = (\<lambda>w f n. None),
     stop_return_value = (\<lambda>w t. None), selected_frame = (\<lambda>w t. 0), eval_native = (\<lambda>e f w. (Ok 2, w)),
     py_compile = (\<lambda>c w. (Ok 0, w)), py_evaluate = (\<lambda>c f x w. (Ok 2, w)), open_console = (\<lambda>w. Ok ()),
     command_in_context = (\<lambda>c f w. ((True, [], []), w)), clock = (\<lambda>w. (0, w)), poll_cancelled = (\<lambda>w. (False, w)),
     va_nom = simple_nom, va_preprocessors = \<lparr>preprocess_simple = Ok, preprocess_python = Ok\<rparr>\<rparr>"

definition demo_locals :: "(unit, demo_tree) session" where
  "demo_locals = tiny_session () [(None, ''frame'', CStackFrame 5), (None, ''v'', CSBValue 1)]"

lemmas demo_value_defs = demo_values_def demo_locals_def tiny_session_def

theorem scopes_name_their_frame_witness:
  "\<exists>scopes. fst (handle_scopes demo_handles 1 demo_locals) = Ok scopes
     \<and> map sc_name scopes = [''Local'', ''Static'', ''Global'', ''Registers'']"
proof -
  have "ht_full_info demo_handles (var_refs demo_locals) 1 = Some (None, ''frame'', CStackFrame 5)"
    by (simp add: demo_handles_def demo_info_def demo_value_defs demo_parent_def)
  from scopes_name_their_frame [OF demo_handles_ok this]
  show ?thesis by (cases "handle_scopes demo_handles 1 demo_locals") auto
qed

theorem container_summary_bounded_witness:
  "\<exists>body w. get_container_summary demo_values 1 False demo_locals = (Ok (''{'' @ body @ ''}''), demo_locals\<lparr>world := w\<rparr>)
    \<and> length body \<le> 41"
proof -
  have "items_within demo_values 5"
    by (auto simp: items_within_def child_text_def demo_values_def to_str_def split: if_splits)
  from container_summary_bounded [OF this, of 1 demo_locals] show ?thesis
    by (simp add: demo_locals_def tiny_session_def)
qed

theorem clipboard_summary_complete_witness:
  "fst (get_container_summary demo_values 1 True demo_locals) = Ok ''{x:7, y:7}''"
proof -
  have "\<forall>w. poll_cancelled demo_values w = (False, w :: unit)" by (simp add: demo_values_def)
  from clipboard_summary_complete [OF this, of 1 demo_locals] show ?thesis
    by (simp add: Let_def full_summary_def demo_values_def child_text_def to_str_def List.map_filter_simps
        summary_item_def starts_with_def)
qed

lemmas run_values = res_simps session_defs convert_scope_values_def var_to_variable_def add_variable_def
  get_var_summary_def plain_summary_def get_var_handle_def timed_out_def is_pointer_or_reference_def
  into_string_lossy_def hm_get_def hm_insert_def

theorem child_names_agree_witness:
  "\<exists>body s'. var_to_variable tiny_lldb demo_values demo_handles 3 ''v'' (Some 2) demo_locals = (Ok body, s')
     \<and> vb_evaluate_name body = Some ''v.y''"
proof -
  have info: "ht_full_info demo_handles (var_refs demo_locals) 2 \<noteq> None"
    by (simp add: demo_handles_def demo_info_def demo_value_defs)
  have name: "fst (compose_container_eval_name demo_values demo_handles 2 demo_locals) = Ok ''v''"
    by (simp add: compose_container_eval_name_def demo_handles_def demo_info_def demo_value_defs demo_parent_def
        eval_nat_numeral)
  obtain body s' where run: "var_to_variable tiny_lldb demo_values demo_handles 3 ''v'' (Some 2) demo_locals = (Ok body, s')"
    and body: "vb_name body = ''y''" "vb_variables_reference body \<noteq> 0"
    by (simp add: run_values demo_value_defs demo_handles_def demo_create_ref_def demo_info_def demo_parent_def)
  have "\<forall>w w' v. val_value_type demo_values w v = val_value_type demo_values w' v"
    "val_prefer_synthetic demo_values (world s') 3"
    by (simp_all add: demo_values_def)
  with child_names_agree [OF demo_handles_ok this(1) info name run body(2)] run body show ?thesis
    by (auto simp: compose_eval_name_def starts_with_def)
qed

definition demo_leaf :: variable_body where
  "demo_leaf = default_variable_body\<lparr>vb_name := ''x'', vb_value := ''7'', vb_evaluate_name := Some ''x'',
     vb_hint_attributes := Some read_only_hint\<rparr>"

lemma demo_leaves:
  "var_to_variable tiny_lldb demo_values demo_handles 2 [] (Some 1) demo_locals = (Ok demo_leaf, demo_locals)"
  "var_to_variable tiny_lldb demo_values demo_handles 4 [] (Some 1) demo_locals = (Ok demo_leaf, demo_locals)"
  by (simp_all add: run_values demo_value_defs default_variable_body_def eval_name_of_def get_mem_ref_for_var_def
      is_settable_def demo_leaf_def)

lemma demo_clock:
  "call_world (clock demo_values) s = (Ok 0, s)" "call_world (poll_cancelled demo_values) s = (Ok False, s)"
  "timed_out demo_values 0 t s = (Ok False, s)"
  by (simp_all add: demo_values_def session_defs timed_out_def res_simps)

theorem locals_deduplicated_witness:
  "\<exists>variables s'. convert_scope_values tiny_lldb demo_values demo_handles [2, 4] [] (Some 1) True demo_locals
       = (Ok variables, s')
     \<and> (\<exists>(vs :: variable_body list) shown late. variables = shown @ (if late then [timed_out_variable] else [])
          \<and> map vb_name shown = firsts (map vb_name vs))"
proof -
  define leaf where "leaf = demo_leaf"
  have run: "convert_scope_values tiny_lldb demo_values demo_handles [2, 4] [] (Some 1) True demo_locals
      = (Ok (fst (add_variable True leaf (add_variable True leaf ([], [])))), demo_locals)"
    by (simp add: convert_scope_values_def bindS_def getS_def returnS_def demo_clock demo_leaves Let_def
        flip: leaf_def)
  from locals_deduplicated [OF run] run show ?thesis by blast
qed

theorem evaluate_answers_later_witness:
  "\<exists>answer. fst (handle_evaluate tiny_lldb demo_values demo_handles
       \<lparr>ev_expression = ''/nat x'', ev_frame_id = None, ev_context = Some ''hover''\<rparr> demo_locals)
     = Err (AsyncResponse (FutReady answer))"
proof -
  let ?args = "\<lparr>ev_expression = ''/nat x'', ev_frame_id = None, ev_context = Some ''hover''\<rparr>"
  obtain r s' where run: "handle_evaluate tiny_lldb demo_values demo_handles ?args demo_locals = (r, s')" by fastforce
  moreover have "r \<noteq> Panic" "evaluate_for_hovers demo_locals" using run
    by (auto simp: run_values demo_value_defs handle_evaluate_def evaluation_frame_def attemptS_def
        evaluate_in_context_def handle_evaluate_expression_def prepare_with_format_def get_expression_type_def
        starts_with_def get_expression_format_def rfind_def position_def preprocess_def
        evaluate_expr_in_frame_def apply_format_spec_def format_none_def)
  ultimately show ?thesis using evaluate_answers_later [OF run] by auto
qed

end
