(* ===== verification/Breakpoint_Events.thy ===== *)
theory Breakpoint_Events
  imports Breakpoint_Tables Variables_Correct
begin

text \<open>
  The rest of \<open>src/codelldb/src/debug_session/breakpoints.rs\<close>: what a breakpoint does when it is hit,
  the messages of logpoints, the events LLDB sends about breakpoints, and caller exclusions.
\<close>

section \<open>What is asked of a thread\<close>

text \<open>The constructors of \<open>lldb::StopReason\<close> that the code names.\<close>

datatype stop_reason =
    SrInvalid | SrNone | SrTrace | SrBreakpoint | SrWatchpoint | SrSignal | SrException | SrPlanComplete
  | SrOther nat

record 'w thread_api =
  stop_reason :: "'w \<Rightarrow> nat \<Rightarrow> stop_reason"
  stop_reason_data :: "'w \<Rightarrow> nat \<Rightarrow> u64"
  stop_description :: "'w \<Rightarrow> nat \<Rightarrow> string"
  thread_frames :: "'w \<Rightarrow> nat \<Rightarrow> nat list"

section \<open>Logpoint messages\<close>

text \<open>
  The scan of the message: \<open>seg\<close> is the text since \<open>start\<close>, \<open>out\<close> what has been put out.
\<close>

fun replace_logpoint_expressions ::
  "(string \<Rightarrow> ('w, 'h, string) handler) \<Rightarrow> string \<Rightarrow> nat \<Rightarrow> string \<Rightarrow> string \<Rightarrow> ('w, 'h, string) handler" where
  "replace_logpoint_expressions f [] nesting seg out = returnS (out @ seg)"
| "replace_logpoint_expressions f (ch # message) nesting seg out =
     (if ch = CHR ''{'' then
        if nesting = 0 then replace_logpoint_expressions f message 1 [] (out @ seg)
        else replace_logpoint_expressions f message (nesting + 1) (seg @ [ch]) out
      else if ch = CHR ''}'' \<and> 0 < nesting then
        if nesting = 1 then
          bindS (attemptS (f seg)) (\<lambda>r.
            case r of
              Ok str_val \<Rightarrow> replace_logpoint_expressions f message 0 [] (out @ str_val)
            | Err err \<Rightarrow> replace_logpoint_expressions f message 0 []
                (out @ ''{Error: '' @ show_error err @ ''}'')
            | Panic \<Rightarrow> panicS)
        else replace_logpoint_expressions f message (nesting - 1) (seg @ [ch]) out
      else replace_logpoint_expressions f message nesting (seg @ [ch]) out)"

text \<open>\<open>prepare_with_format(..).unwrap()\<close>: an expression that cannot be prepared panics.\<close>

definition logpoint_value ::
  "'w lldb \<Rightarrow> 'w value_api \<Rightarrow> nat \<Rightarrow> string \<Rightarrow> ('w, 'h, string) handler" where
  "logpoint_value ll va frame expr =
     bindS (getS default_expr_type) (\<lambda>ty.
     bindS (case (prepare_with_format (va_nom va) (va_preprocessors va) expr ty :: (err, _) res) of
              Ok p \<Rightarrow> returnS p | _ \<Rightarrow> panicS) (\<lambda>(pp_expr, format_spec).
     bindS (evaluate_expr_in_frame va pp_expr (Some frame)) (\<lambda>sbval.
     bindS (apply_format_spec va sbval format_spec) (\<lambda>sbval.
       get_var_summary ll va sbval False))))"

definition format_logpoint_message ::
  "'w lldb \<Rightarrow> 'w value_api \<Rightarrow> string \<Rightarrow> nat \<Rightarrow> ('w, 'h, string) handler" where
  "format_logpoint_message ll va log_message frame =
     replace_logpoint_expressions (logpoint_value ll va frame) log_message 0 [] []"

section \<open>Hits\<close>

definition symbols_on_stack :: "'w lldb \<Rightarrow> 'w thread_api \<Rightarrow> 'w \<Rightarrow> nat \<Rightarrow> string list" where
  "symbols_on_stack ll ta w thread =
     List.map_filter (\<lambda>f. map_option (symbol_name (dasm_now ll w))
       (addr_symbol (dasm_now ll w) (frame_pc_address ll w f))) (thread_frames ta w thread)"

definition is_excluded :: "'w lldb \<Rightarrow> 'w thread_api \<Rightarrow> 'w \<Rightarrow> nat \<Rightarrow> breakpoint_info \<Rightarrow> bool" where
  "is_excluded ll ta w thread bp_info =
     list_ex (\<lambda>exclusion. list_ex (\<lambda>s. s = exclusion) (symbols_on_stack ll ta w thread)) (bi_exclusions bp_info)"

text \<open>What the Python condition decides: to return at once, or to go on.\<close>

definition check_condition ::
  "'w lldb \<Rightarrow> 'w bp_api \<Rightarrow> nat \<Rightarrow> py_condition \<Rightarrow> ('w, 'h, bool option) handler" where
  "check_condition ll api thread py_condition =
     (case py_condition of
        None \<Rightarrow> returnS None
      | Some (pycode, eval_context) \<Rightarrow>
          bindS (getS has_python) (\<lambda>python.
            if \<not> python then returnS (Some True)
            else bindS (getS (\<lambda>s. frame_at ll (world s) thread 0)) (\<lambda>frame.
              bindS (call_world (evaluate_as_bool api pycode frame eval_context)) (\<lambda>r.
                case r of
                  Ok should_stop \<Rightarrow> returnS (if should_stop then None else Some False)
                | Err err \<Rightarrow>
                    thenS (console_error (''Could not evaluate breakpoint condition:'' @ newline # err))
                      (returnS (Some True))
                | Panic \<Rightarrow> panicS))))"

definition count_hit :: "u32 \<Rightarrow> breakpoint_info \<Rightarrow> ('w, 'h, unit) handler" where
  "count_hit i bp_info = update_bps (\<lambda>b.
     b\<lparr>breakpoint_infos := hm_insert i (bp_info\<lparr>bi_hit_count := bi_hit_count bp_info + 1\<rparr>) (breakpoint_infos b)\<rparr>)"

text \<open>Whether to stop. The breakpoint of a location is looked up by its id.\<close>

definition on_breakpoint_hit ::
  "'w lldb \<Rightarrow> 'w bp_api \<Rightarrow> 'w thread_api \<Rightarrow> 'w value_api \<Rightarrow> nat \<Rightarrow> u32 \<Rightarrow> py_condition \<Rightarrow>
     ('w, 'h, bool) handler" where
  "on_breakpoint_hit ll api ta va thread i py_condition =
     bindS (getS (\<lambda>s. hm_get (breakpoint_infos (breakpoints s)) i)) (\<lambda>found.
       case found of
         None \<Rightarrow> panicS
       | Some bp_info \<Rightarrow>
           bindS (getS (\<lambda>s. is_excluded ll ta (world s) thread bp_info)) (\<lambda>excluded.
             if excluded then returnS False
             else bindS (check_condition ll api thread py_condition) (\<lambda>verdict.
               case verdict of
                 Some b \<Rightarrow> returnS b
               | None \<Rightarrow>
                   thenS (count_hit i bp_info)
                     (bindS (case bi_hit_condition bp_info of
                               None \<Rightarrow> returnS True
                             | Some c \<Rightarrow> liftS (hit_condition_holds c (bi_hit_count bp_info + 1))) (\<lambda>should_stop.
                        if \<not> should_stop then returnS False
                        else case bi_log_message bp_info of
                          None \<Rightarrow> returnS True
                        | Some log_message \<Rightarrow>
                            bindS (getS (\<lambda>s. frame_at ll (world s) thread 0)) (\<lambda>frame.
                            bindS (format_logpoint_message ll va log_message frame) (\<lambda>message.
                            thenS (console_message message) (returnS False))))))))"

section \<open>Events\<close>

datatype breakpoint_event_type = BeAdded | BeRemoved | BeLocationsAdded | BeLocationsResolved | BeOther

definition intersects :: "'a list \<Rightarrow> 'a list \<Rightarrow> bool" where
  "intersects xs ys = list_ex (\<lambda>x. x \<in> set ys) xs"

definition removed_body :: "u32 \<Rightarrow> breakpoint_body" where
  "removed_body i = default_breakpoint_body\<lparr>bb_id := Some (uint i)\<rparr>"

definition handle_breakpoint_event ::
  "'w lldb \<Rightarrow> 'w bp_api \<Rightarrow> nat \<Rightarrow> breakpoint_event_type list \<Rightarrow> ('w, 'h, unit) handler" where
  "handle_breakpoint_event ll api bp event_type =
     bindS (getS (\<lambda>s. hm_get (breakpoint_infos (breakpoints s)) (bp_id api bp))) (\<lambda>tracked.
       if intersects event_type [BeAdded] then
         bindS (getS (\<lambda>s. bp_valid api (world s) bp)) (\<lambda>is_valid.
           if tracked \<noteq> None \<or> \<not> is_valid then returnS ()
           else bindS (make_bp_info api bp BkSource None None None) (\<lambda>bp_info.
             bindS (make_bp_response ll api bp_info True) (\<lambda>response.
             thenS (send_event (Ev_breakpoint ''new'' response)) (remember_info bp_info))))
       else if intersects event_type [BeLocationsAdded, BeLocationsResolved] then
         (case tracked of
            None \<Rightarrow> returnS ()
          | Some bp_info \<Rightarrow>
              bindS (make_bp_response ll api bp_info False) (\<lambda>response.
                send_event (Ev_breakpoint ''changed'' response)))
       else if intersects event_type [BeRemoved] then
         thenS (modify_world (clear_callback api bp))
           (if tracked \<noteq> None then
              thenS (send_event (Ev_breakpoint ''removed'' (removed_body (bp_id api bp))))
                (forget_info (bp_id api bp))
            else returnS ())
       else returnS ())"

section \<open>Caller exclusions\<close>

definition symbol_from_frame :: "'w lldb \<Rightarrow> 'w \<Rightarrow> u64 \<Rightarrow> u32 \<Rightarrow> string option" where
  "symbol_from_frame ll w thread_id frame_index =
     (case thread_by_tid ll w thread_id of
        None \<Rightarrow> None
      | Some thread \<Rightarrow>
          map_option (symbol_name (dasm_now ll w))
            (addr_symbol (dasm_now ll w) (frame_pc_address ll w (frame_at ll w thread frame_index))))"

text \<open>The site an exclusion of a breakpoint is remembered by, and its label.\<close>

definition exclusion_site ::
  "'w lldb \<Rightarrow> 'w bp_api \<Rightarrow> 'w \<Rightarrow> breakpoint_info \<Rightarrow> u32 \<Rightarrow> ('e, (i64, string) either \<times> string) res" where
  "exclusion_site ll api w bp_info i =
     (case bi_kind bp_info of
        BkException exc_name \<Rightarrow>
          (case find (\<lambda>f. xf_filter f = exc_name) exception_filters of
             Some f \<Rightarrow> Ok (Second exc_name, xf_label f)
           | None \<Rightarrow> Panic)
      | _ \<Rightarrow>
          Ok (First (uint i),
              case addr_line_entry (dasm_now ll w) (first_location_address api w (bi_breakpoint bp_info)) of
                Some le \<Rightarrow> entry_filename (dasm_now ll w) le @ CHR '':'' # show_nat (unat (entry_line (dasm_now ll w) le))
              | None \<Rightarrow> []))"

definition handle_exclude_caller ::
  "'w lldb \<Rightarrow> 'w bp_api \<Rightarrow> 'w thread_api \<Rightarrow> exclude_caller_request \<Rightarrow> ('w, 'h, exclude_caller_response) handler" where
  "handle_exclude_caller ll api ta args =
     bindS (getS world) (\<lambda>w.
       let thread = selected_thread ll w in
       if stop_reason ta w thread \<noteq> SrBreakpoint then
         failS (blame_user (str_error ''Must be stopped on a breakpoint.''))
       else
         (let i = ucast (stop_reason_data ta w thread) in
          bindS (getS (\<lambda>s. hm_get (breakpoint_infos (breakpoints s)) i)) (\<lambda>found.
            case (symbol_from_frame ll w (as_u64 (ec_thread_id args)) (ec_frame_index args), found) of
              (Some name, Some bp_info) \<Rightarrow>
                (let bp_info = bp_info\<lparr>bi_exclusions := bi_exclusions bp_info @ [name]\<rparr> in
                 thenS (update_bps (\<lambda>b. b\<lparr>breakpoint_infos := hm_insert i bp_info (breakpoint_infos b)\<rparr>))
                   (bindS (liftS (exclusion_site ll api w bp_info i)) (\<lambda>(site, text). returnS
                      \<lparr>exclusion = \<lparr>site_id = site, symbol = name\<rparr>, label = text\<rparr>)))
            | _ \<Rightarrow> failS (blame_user (str_error ''Could not locate symbol for this stack frame.'')))))"

definition add_exclusion :: "string \<Rightarrow> breakpoint_info \<Rightarrow> breakpoint_info" where
  "add_exclusion name bp_info = bp_info\<lparr>bi_exclusions := bi_exclusions bp_info @ [name]\<rparr>"

definition hm_map_values :: "('k \<Rightarrow> 'v \<Rightarrow> 'v) \<Rightarrow> ('k, 'v) hashmap \<Rightarrow> ('k, 'v) hashmap" where
  "hm_map_values f m = map (\<lambda>(k, v). (k, f k v)) m"

definition apply_exclusion ::
  "excluded_caller \<Rightarrow> (u32, breakpoint_info) hashmap \<Rightarrow> (u32, breakpoint_info) hashmap" where
  "apply_exclusion e infos =
     (case site_id e of
        First bp \<Rightarrow>
          (case hm_get infos (as_u32 bp) of
             None \<Rightarrow> infos
           | Some bp_info \<Rightarrow> hm_insert (as_u32 bp) (add_exclusion (symbol e) bp_info) infos)
      | Second exc_name \<Rightarrow>
          hm_map_values (\<lambda>_ bp_info. if bi_kind bp_info = BkException exc_name
            then add_exclusion (symbol e) bp_info else bp_info) infos)"

definition handle_set_excluded_callers :: "excluded_caller list \<Rightarrow> ('w, 'h, unit) handler" where
  "handle_set_excluded_callers exclusions =
     update_bps (\<lambda>b. b\<lparr>breakpoint_infos :=
       fold apply_exclusion exclusions
         (hm_map_values (\<lambda>_ bp_info. bp_info\<lparr>bi_exclusions := []\<rparr>) (breakpoint_infos b))\<rparr>)"

end
