(* ===== verification/Frames.thy ===== *)
theory Frames
  imports Session_State
begin

text \<open>
  What a handler may change: a relation between the session before and after it, which every way of
  putting handlers together keeps.  The relations here say that the references a client holds are as
  they were, and that what was sent to the client is only added to.
\<close>

named_theorems preserves_intros \<open>handlers that keep a relation\<close>

definition preserves :: "('s \<Rightarrow> 's \<Rightarrow> bool) \<Rightarrow> ('s, 'e, 'a) stm \<Rightarrow> bool" where
  "preserves R m \<longleftrightarrow> (\<forall>s r t. m s = (r, t) \<longrightarrow> R s t)"

lemma preservesI: "(\<And>s r t. m s = (r, t) \<Longrightarrow> R s t) \<Longrightarrow> preserves R m"
  by (simp add: preserves_def)

lemma preservesD: "preserves R m \<Longrightarrow> m s = (r, t) \<Longrightarrow> R s t"
  by (simp add: preserves_def)

lemma preserves_snd: "preserves R m \<Longrightarrow> R s (snd (m s))"
  by (rule preservesD [OF _ surjective_pairing])

lemma preserves_if [preserves_intros]: "(c \<Longrightarrow> preserves R m) \<Longrightarrow> (\<not> c \<Longrightarrow> preserves R n) \<Longrightarrow> preserves R (if c then m else n)"
  by simp

lemma preserves_case_option [preserves_intros]:
  "preserves R m \<Longrightarrow> (\<And>x. preserves R (f x)) \<Longrightarrow> preserves R (case o' of None \<Rightarrow> m | Some x \<Rightarrow> f x)"
  by (cases o') simp_all

lemma preserves_case_res [preserves_intros]:
  "(\<And>x. preserves R (f x)) \<Longrightarrow> (\<And>e. preserves R (g e)) \<Longrightarrow> preserves R m \<Longrightarrow>
     preserves R (case r of Ok x \<Rightarrow> f x | Err e \<Rightarrow> g e | Panic \<Rightarrow> m)"
  by (cases r) simp_all

lemma preserves_case_prod [preserves_intros]: "(\<And>x y. preserves R (f x y)) \<Longrightarrow> preserves R (case p of (x, y) \<Rightarrow> f x y)"
  by (cases p) simp

section \<open>The contract of a relation\<close>

locale frame_relation =
  fixes R :: "'s \<Rightarrow> 's \<Rightarrow> bool"
  assumes refl: "R s s" and trans: "R s t \<Longrightarrow> R t u \<Longrightarrow> R s u"
begin

lemma preserves_basic: "preserves R (returnS x)" "preserves R (failS e)" "preserves R panicS" "preserves R (liftS r)" "preserves R (getS f)"
  by (auto simp: preserves_def returnS_def failS_def panicS_def liftS_def getS_def intro: refl)

lemma preserves_bindS:
  assumes "preserves R m" "\<And>x. preserves R (f x)"
  shows "preserves R (bindS m f)"
proof (rule preservesI)
  fix s r t assume run: "bindS m f s = (r, t)"
  obtain r' s' where m: "m s = (r', s')" by fastforce
  then have "R s s'" by (rule preservesD [OF assms(1)])
  with run m assms(2) show "R s t" by (cases r') (auto simp: bindS_def preserves_def intro: trans)
qed

lemma preserves_thenS: "preserves R m \<Longrightarrow> preserves R n \<Longrightarrow> preserves R (thenS m n)"
  unfolding thenS_def by (rule preserves_bindS)

lemma preserves_forS: "(\<And>x. preserves R (f x)) \<Longrightarrow> preserves R (forS f xs)"
  by (induction xs) (simp_all add: preserves_basic preserves_bindS)

lemma preserves_attemptS: "preserves R m \<Longrightarrow> preserves R (attemptS m)"
  by (force simp: preserves_def attemptS_def split: prod.splits res.splits)

lemma preserves_log_errorsS: "preserves R m \<Longrightarrow> preserves R (log_errorsS m)"
  by (force simp: preserves_def log_errorsS_def split: prod.splits res.splits)

lemma preserves_modifyS: "(\<And>s. R s (f s)) \<Longrightarrow> preserves R (modifyS f)"
  by (simp add: preserves_def modifyS_def)

lemmas preserves_rules = preserves_basic preserves_bindS preserves_thenS preserves_forS preserves_attemptS preserves_log_errorsS

end

section \<open>References and output\<close>

text \<open>What the client may refer to later is as it was.\<close>

definition refs_kept :: "('w, 'h) session \<Rightarrow> ('w, 'h) session \<Rightarrow> bool" where
  "refs_kept s t \<longleftrightarrow> var_refs t = var_refs s \<and> selected_frame_changed t = selected_frame_changed s
     \<and> last_goto_request t = last_goto_request s \<and> step_in_targets t = step_in_targets s"

interpretation refs: frame_relation refs_kept
  by unfold_locales (simp_all add: refs_kept_def)

definition out_grows :: "('w, 'h) session \<Rightarrow> ('w, 'h) session \<Rightarrow> bool" where
  "out_grows s t \<longleftrightarrow> (\<exists>new. outbox t = outbox s @ new)"

interpretation out: frame_relation out_grows
  by unfold_locales (auto simp: out_grows_def)

lemmas [preserves_intros] = refs.preserves_rules out.preserves_rules

lemma preserves_world [preserves_intros]:
  "preserves refs_kept (modify_world f)" "preserves refs_kept (call_world g)"
  "preserves out_grows (modify_world f)" "preserves out_grows (call_world g)"
  by (auto simp: preserves_def refs_kept_def out_grows_def modify_world_def call_world_def modifyS_def Let_def
      split: prod.splits)

lemma preserves_send [preserves_intros]: "preserves refs_kept (send_event e)" "preserves out_grows (send_event e)"
  by (auto simp: preserves_def refs_kept_def out_grows_def send_event_def modifyS_def)

lemma preserves_console [preserves_intros]:
  "preserves refs_kept (console_message m)" "preserves refs_kept (console_error m)"
  "preserves out_grows (console_message m)" "preserves out_grows (console_error m)"
  by (simp_all add: console_message_def console_error_def console_message_impl_def preserves_intros)

lemma preserves_map_filespec [preserves_intros]:
  "preserves refs_kept (map_filespec_to_local ll fs)" "preserves out_grows (map_filespec_to_local ll fs)"
  by (auto simp: preserves_def refs_kept_def out_grows_def map_filespec_to_local_def Let_def
      split: prod.splits if_splits option.splits)

lemma preserves_case_show [preserves_intros]:
  "preserves R a \<Longrightarrow> preserves R b \<Longrightarrow> preserves R c \<Longrightarrow>
     preserves R (case d of SdAlways \<Rightarrow> a | SdNever \<Rightarrow> b | SdAuto \<Rightarrow> c)"
  by (cases d) simp_all

lemma in_disassembly_alt:
  "in_disassembly ll frame = bindS (getS (\<lambda>s. (show_disassembly s, frame_line_entry ll (world s) frame, world s))) (\<lambda>(sd, le, w).
     case sd of SdAlways \<Rightarrow> returnS True | SdNever \<Rightarrow> returnS False
     | SdAuto \<Rightarrow> (case le of None \<Rightarrow> returnS True
         | Some le \<Rightarrow> bindS (map_filespec_to_local ll (entry_filespec ll w le)) (\<lambda>p. returnS (p = None))))"
  by (rule ext) (simp add: in_disassembly_def bindS_def getS_def returnS_def split: show_disassembly.split option.split)

lemma preserves_in_disassembly [preserves_intros]:
  "preserves refs_kept (in_disassembly ll frame)" "preserves out_grows (in_disassembly ll frame)"
  unfolding in_disassembly_alt by (intro preserves_intros)+

lemma preserves_thread_by_id [preserves_intros]:
  "preserves refs_kept (thread_by_id ll tid)" "preserves out_grows (thread_by_id ll tid)"
  by (auto simp: preserves_def refs_kept_def out_grows_def thread_by_id_def split: option.splits if_splits)

lemma thread_by_id_same: "thread_by_id ll tid s = (r, t) \<Longrightarrow> t = s \<and> r \<noteq> Panic"
  by (auto simp: thread_by_id_def split: option.splits if_splits)

end
