(* ===== verification/Breakpoint_Events_Correct.thy ===== *)
theory Breakpoint_Events_Correct
  imports Breakpoint_Events Frames
begin

text \<open>
  What the breakpoints of \<open>Breakpoint_Events\<close> do when they are hit: the messages of logpoints, the counting
  of hits, caller exclusions, and what the client is told when breakpoints go away.
\<close>

section \<open>Properties: logpoint messages\<close>














section \<open>Properties: hits\<close>

lemma update_bps_run: "update_bps f s = (Ok (), s\<lparr>breakpoints := f (breakpoints s)\<rparr>)"
  by (simp add: update_bps_def modifyS_def)

text \<open>A handler that does not touch the breakpoints of the session, and one that never fails.\<close>

definition same_bps :: "('w, 'h) session \<Rightarrow> ('w, 'h) session \<Rightarrow> bool" where
  "same_bps s t \<longleftrightarrow> breakpoints t = breakpoints s"

interpretation same_bps: frame_relation same_bps
  by unfold_locales (simp_all add: same_bps_def)

lemmas [preserves_intros] = same_bps.preserves_rules

lemma same_bps_session [preserves_intros]:
  "preserves same_bps (modify_world f)" "preserves same_bps (call_world g)"
  "preserves same_bps (console_message m)" "preserves same_bps (console_error m)"
  by (auto simp: preserves_def same_bps_def session_defs send_event_def res_simps Let_def split: prod.splits)

lemma same_bps_eval_python [preserves_intros]: "preserves same_bps (eval_python va pp_expr ctx frame)"
  unfolding eval_python_def by (intro preserves_intros)

lemma same_bps_evaluate [preserves_intros]: "preserves same_bps (evaluate_expr_in_frame va expression frame)"
  unfolding evaluate_expr_in_frame_def by (auto intro!: preserves_intros split: prepared_expression.split)

lemma same_bps_create_array [preserves_intros]: "preserves same_bps (create_array va sbval element count)"
  unfolding create_array_def by (intro preserves_intros)

lemma same_bps_apply_format_spec [preserves_intros]: "preserves same_bps (apply_format_spec va sbval spec)"
  unfolding apply_format_spec_def as_array_def Let_def by (auto intro!: preserves_intros split: option.split)

lemma same_bps_summary [preserves_intros]: "preserves same_bps (get_var_summary ll va var unlimited)"
proof (rule preservesI)
  fix s r t
  assume "get_var_summary ll va var unlimited s = (r, t)"
  with answersD [OF answers_var_summary, of ll va var unlimited s] show "same_bps s t"
    by (auto simp: same_bps_def)
qed

lemma same_bps_logpoint_value [preserves_intros]: "preserves same_bps (logpoint_value ll va frame expr)"
  unfolding logpoint_value_def by (intro preserves_intros)

lemma same_bps_replace:
  "(\<And>e. preserves same_bps (f e)) \<Longrightarrow> preserves same_bps (replace_logpoint_expressions f message nesting seg out)"
  by (induction f message nesting seg out rule: replace_logpoint_expressions.induct)
    (auto intro!: preserves_intros split: res.split)

lemma same_bps_message [preserves_intros]: "preserves same_bps (format_logpoint_message ll va log_message frame)"
  unfolding format_logpoint_message_def by (intro same_bps_replace preserves_intros)

definition unfailing :: "('s, 'e, 'a) stm \<Rightarrow> bool" where
  "unfailing m \<longleftrightarrow> (\<forall>s e. fst (m s) \<noteq> Err e)"

lemma unfailing_bindS: "unfailing m \<Longrightarrow> (\<And>x. unfailing (g x)) \<Longrightarrow> unfailing (bindS m g)"
  unfolding unfailing_def
proof (intro allI)
  fix s e
  assume m: "\<forall>s e. fst (m s) \<noteq> Err e" and g: "\<And>x. \<forall>s e. fst (g x s) \<noteq> Err e"
  obtain q t where q: "m s = (q, t)" by fastforce
  show "fst (bindS m g s) \<noteq> Err e" using m [rule_format, of s] g by (cases q) (simp_all add: bindS_def q)
qed

lemma unfailing_attempt: "unfailing (attemptS m)" "unfailing panicS" "unfailing (returnS x)"
  by (auto simp: unfailing_def attemptS_def panicS_def returnS_def split: prod.splits res.splits)

lemma unfailing_replace: "unfailing (replace_logpoint_expressions f message nesting seg out)"
proof (induction f message nesting seg out rule: replace_logpoint_expressions.induct)
  case (2 f ch message nesting seg out)
  then show ?case by (auto intro!: unfailing_bindS unfailing_attempt split: res.split)
qed (simp add: unfailing_attempt)

lemma unfailing_message: "unfailing (format_logpoint_message ll va log_message frame)"
  by (simp add: format_logpoint_message_def unfailing_replace)

text \<open>
  A run of hits of one breakpoint: before each the debuggee has run on, and it is hit in some thread, with the
  Python condition of its callback.
\<close>

type_synonym 'w hit = "('w \<Rightarrow> 'w) \<times> nat \<times> py_condition"

fun hits ::
  "'w lldb \<Rightarrow> 'w bp_api \<Rightarrow> 'w thread_api \<Rightarrow> 'w value_api \<Rightarrow> u32 \<Rightarrow> 'w hit list \<Rightarrow> ('w, 'h) session \<Rightarrow>
     (err, bool) res list \<times> ('w, 'h) session" where
  "hits ll api ta va i [] s = ([], s)"
| "hits ll api ta va i ((go, thread, cond) # hs) s =
     (let (r, t) = on_breakpoint_hit ll api ta va thread i cond (s\<lparr>world := go (world s)\<rparr>);
          (rs, u) = hits ll api ta va i hs t in (r # rs, u))"

text \<open>
  What is decided before a hit counts: not to stop below an excluded caller or when the condition is false, to
  stop when it cannot be evaluated.
\<close>

definition hit_verdict ::
  "'w lldb \<Rightarrow> 'w bp_api \<Rightarrow> 'w thread_api \<Rightarrow> nat \<Rightarrow> py_condition \<Rightarrow> breakpoint_info \<Rightarrow> ('w, 'h) session \<Rightarrow> bool option" where
  "hit_verdict ll api ta thread cond info s =
     (if is_excluded ll ta (world s) thread info then Some False
      else case cond of
        None \<Rightarrow> None
      | Some (pycode, eval_context) \<Rightarrow>
          if \<not> has_python s then Some True
          else case fst (evaluate_as_bool api pycode (frame_at ll (world s) thread 0) eval_context (world s)) of
            Ok True \<Rightarrow> None
          | Ok False \<Rightarrow> Some False
          | _ \<Rightarrow> Some True)"

fun hit_verdicts ::
  "'w lldb \<Rightarrow> 'w bp_api \<Rightarrow> 'w thread_api \<Rightarrow> 'w value_api \<Rightarrow> u32 \<Rightarrow> breakpoint_info \<Rightarrow> 'w hit list \<Rightarrow>
     ('w, 'h) session \<Rightarrow> bool option list" where
  "hit_verdicts ll api ta va i info [] s = []"
| "hit_verdicts ll api ta va i info ((go, thread, cond) # hs) s =
     (let t = s\<lparr>world := go (world s)\<rparr> in
      hit_verdict ll api ta thread cond info t
        # hit_verdicts ll api ta va i info hs (snd (on_breakpoint_hit ll api ta va thread i cond t)))"

text \<open>The hit that counts as the \<open>n\<close>th, and a run of hits after \<open>n\<close> have been counted.\<close>

definition hit_stops :: "breakpoint_info \<Rightarrow> u32 \<Rightarrow> bool" where
  "hit_stops info n \<longleftrightarrow> bi_log_message info = None \<and>
     (case bi_hit_condition info of None \<Rightarrow> True | Some c \<Rightarrow> (hit_condition_holds c n :: (err, bool) res) = Ok True)"

fun stops :: "breakpoint_info \<Rightarrow> u32 \<Rightarrow> bool option list \<Rightarrow> bool list" where
  "stops info n [] = []"
| "stops info n (Some b # vs) = b # stops info n vs"
| "stops info n (None # vs) = hit_stops info (n + 1) # stops info (n + 1) vs"

lemma check_verdict:
  fixes s :: "('w, 'h) session"
  assumes "\<not> is_excluded ll ta (world s) thread info"
  shows "\<exists>u. check_condition ll api thread cond s = (Ok (hit_verdict ll api ta thread cond info s), u) \<and> same_bps s u
    \<or> check_condition ll api thread cond s = (Panic, u)"
proof (cases cond)
  case None
  then show ?thesis using assms by (simp add: check_condition_def hit_verdict_def returnS_def same_bps.refl)
next
  case (Some c)
  obtain pycode ctx where c: "c = (pycode, ctx)" by fastforce
  let ?run = "evaluate_as_bool api pycode (frame_at ll (world s) thread 0) ctx (world s)"
  obtain r w where run: "?run = (r, w)" by fastforce
  obtain g :: "string \<Rightarrow> ('w, 'h) session \<Rightarrow> ('w, 'h) session"
    where "console_error m u = (Ok (), g m u)" "breakpoints (g m u) = breakpoints u" for m u
    by (rule that [of "\<lambda>m u. snd (console_error m u)"]) (simp_all add: session_defs res_simps)
  then show ?thesis using assms Some c run
    by (cases r) (auto simp: check_condition_def hit_verdict_def bindS_def thenS_def getS_def returnS_def call_world_def same_bps_def
        panicS_def Let_def split: prod.splits)
qed

text \<open>One hit: the verdict, the count, and the answer.\<close>

lemma one_hit:
  assumes info: "hm_get (breakpoint_infos (breakpoints s)) i = Some info"
    and run: "on_breakpoint_hit ll api ta va thread i cond s = (r, t)" and "r \<noteq> Panic"
  shows "case hit_verdict ll api ta thread cond info s of
      Some b \<Rightarrow> r = Ok b \<and> hm_get (breakpoint_infos (breakpoints t)) i = Some info
    | None \<Rightarrow> r = Ok (hit_stops info (bi_hit_count info + 1))
        \<and> hm_get (breakpoint_infos (breakpoints t)) i = Some (info\<lparr>bi_hit_count := bi_hit_count info + 1\<rparr>)"
proof (cases "is_excluded ll ta (world s) thread info")
  case True
  with info run show ?thesis by (simp add: on_breakpoint_hit_def res_simps hit_verdict_def)
next
  case False
  from check_verdict [OF this, of api cond] obtain u where
    "check_condition ll api thread cond s = (Ok (hit_verdict ll api ta thread cond info s), u) \<and> same_bps s u
      \<or> check_condition ll api thread cond s = (Panic, u)" by blast
  with False info run \<open>r \<noteq> Panic\<close> have
    check: "check_condition ll api thread cond s = (Ok (hit_verdict ll api ta thread cond info s), u)"
    and same: "breakpoints u = breakpoints s"
    by (auto simp: on_breakpoint_hit_def res_simps same_bps_def)
  show ?thesis
  proof (cases "hit_verdict ll api ta thread cond info s")
    case (Some b)
    with False info run check same show ?thesis by (simp add: on_breakpoint_hit_def res_simps)
  next
    case None
    define v where "v = snd (count_hit i info u)"
    define holds :: "(err, bool) res" where
      "holds = (case bi_hit_condition info of None \<Rightarrow> Ok True | Some c \<Rightarrow> hit_condition_holds c (bi_hit_count info + 1))"
    have v: "count_hit i info u = (Ok (), v)"
      and v_info: "hm_get (breakpoint_infos (breakpoints v)) i = Some (info\<lparr>bi_hit_count := bi_hit_count info + 1\<rparr>)"
      by (simp_all add: v_def count_hit_def update_bps_run hashmap)
    have "on_breakpoint_hit ll api ta va thread i cond s =
       (case holds of
          Ok True \<Rightarrow> (case bi_log_message info of None \<Rightarrow> returnS True
            | Some m \<Rightarrow> bindS (format_logpoint_message ll va m (frame_at ll (world v) thread 0))
                (\<lambda>message. thenS (console_message message) (returnS False))) v
        | Ok False \<Rightarrow> (Ok False, v) | Err e \<Rightarrow> (Err e, v) | Panic \<Rightarrow> (Panic, v))"
      using False info check None v
      by (auto simp: on_breakpoint_hit_def res_simps holds_def split: option.split res.split bool.split)
    moreover have "holds \<noteq> Err e" for e
      unfolding holds_def by (cases "the (bi_hit_condition info)") (auto split: option.split if_splits)
    ultimately have tail: "holds = Ok False \<and> (r, t) = (Ok False, v) \<or> holds = Ok True \<and> (r, t) =
        (case bi_log_message info of None \<Rightarrow> returnS True
            | Some m \<Rightarrow> bindS (format_logpoint_message ll va m (frame_at ll (world v) thread 0))
                (\<lambda>message. thenS (console_message message) (returnS False))) v"
      using run \<open>r \<noteq> Panic\<close> by (cases holds) (auto split: bool.splits)
    have "hit_stops info (bi_hit_count info + 1) \<longleftrightarrow> bi_log_message info = None \<and> holds = Ok True"
      by (auto simp: hit_stops_def holds_def split: option.split)
    moreover have "r = Ok False \<and> breakpoints t = breakpoints v"
      if "(r, t) = bindS (format_logpoint_message ll va m f) (\<lambda>message. thenS (console_message message) (returnS False)) v"
      for m f
    proof -
      obtain q w where q: "format_logpoint_message ll va m f v = (q, w)" by fastforce
      then have "same_bps v w" by (rule preservesD [OF same_bps_message])
      moreover have "q \<noteq> Err e" for e
        using q unfailing_message [of ll va m f] unfolding unfailing_def by (metis fst_conv)
      ultimately show ?thesis using that q \<open>r \<noteq> Panic\<close>
        by (cases q) (auto simp: bindS_def thenS_def res_simps session_defs same_bps_def)
    qed
    ultimately show ?thesis using tail v_info None
      by (auto simp: returnS_def split: option.splits)
  qed
qed

lemma verdict_info: "hit_verdict ll api ta thread cond (info\<lparr>bi_hit_count := n\<rparr>) s = hit_verdict ll api ta thread cond info s"
  by (simp add: hit_verdict_def is_excluded_def)

lemma verdicts_info: "hit_verdicts ll api ta va i (info\<lparr>bi_hit_count := n\<rparr>) hs s = hit_verdicts ll api ta va i info hs s"
  by (induction ll api ta va i info hs s rule: hit_verdicts.induct) (simp_all add: verdict_info)

lemma stops_info: "stops (info\<lparr>bi_hit_count := m\<rparr>) n vs = stops info n vs"
  by (induction info n vs rule: stops.induct) (simp_all add: hit_stops_def)

text \<open>
  C4 (hits are counted).  In any run of hits of any breakpoint, with the debuggee running on between them, a hit
  below an excluded caller or with a false Python condition does not stop and is not counted; one whose
  condition cannot be evaluated, or comes without Python, stops and is not counted.  All others are counted,
  also those that do not stop: the \<open>n\<close>th counted hit stops exactly when the breakpoint has no log message and
  its hit condition, if it has one, holds of \<open>n\<close>.  This is for runs in which no hit panics.
\<close>

theorem hits_are_counted:
  assumes "hm_get (breakpoint_infos (breakpoints s)) i = Some info"
    and "Panic \<notin> set (fst (hits ll api ta va i hs s))"
  shows "let verdicts = hit_verdicts ll api ta va i info hs s in
    fst (hits ll api ta va i hs s) = map Ok (stops info (bi_hit_count info) verdicts)
    \<and> hm_get (breakpoint_infos (breakpoints (snd (hits ll api ta va i hs s)))) i
      = Some (info\<lparr>bi_hit_count := bi_hit_count info + of_nat (count_list verdicts None)\<rparr>)"
  using assms
proof (induction hs arbitrary: s info)
  case (Cons h hs)
  obtain go thread cond where h: "h = (go, thread, cond)" by (cases h) auto
  let ?s = "s\<lparr>world := go (world s)\<rparr>"
  obtain r t where hit: "on_breakpoint_hit ll api ta va thread i cond ?s = (r, t)" by fastforce
  have "r \<noteq> Panic" and rest: "Panic \<notin> set (fst (hits ll api ta va i hs t))"
    using Cons.prems(2) by (auto simp: h hit split: prod.splits)
  moreover have "hm_get (breakpoint_infos (breakpoints ?s)) i = Some info" using Cons.prems(1) by simp
  ultimately have one: "case hit_verdict ll api ta thread cond info ?s of
      Some b \<Rightarrow> r = Ok b \<and> hm_get (breakpoint_infos (breakpoints t)) i = Some info
    | None \<Rightarrow> r = Ok (hit_stops info (bi_hit_count info + 1))
        \<and> hm_get (breakpoint_infos (breakpoints t)) i = Some (info\<lparr>bi_hit_count := bi_hit_count info + 1\<rparr>)"
    using hit by (intro one_hit)
  show ?case
  proof (cases "hit_verdict ll api ta thread cond info ?s")
    case None
    with one have "hm_get (breakpoint_infos (breakpoints t)) i = Some (info\<lparr>bi_hit_count := bi_hit_count info + 1\<rparr>)" by simp
    from Cons.IH [OF this rest] None one show ?thesis
      by (simp add: h hit Let_def verdicts_info stops_info split_beta add.assoc)
  next
    case (Some b)
    with one have "hm_get (breakpoint_infos (breakpoints t)) i = Some info" by simp
    from Cons.IH [OF this rest] Some one show ?thesis by (simp add: h hit Let_def split_beta)
  qed
qed simp

text \<open>
  C6 (an excluded caller never stops).  A hit with an excluded function on the stack does not stop the
  debuggee, is not counted, and evaluates nothing.
\<close>

theorem excluded_never_stops:
  assumes "hm_get (breakpoint_infos (breakpoints s)) i = Some info"
    and "e \<in> set (bi_exclusions info)" "e \<in> set (symbols_on_stack ll ta (world s) thread)"
  shows "on_breakpoint_hit ll api ta va thread i cond s = (Ok False, s)"
proof -
  have "is_excluded ll ta (world s) thread info" using assms(2,3) by (auto simp: is_excluded_def list_ex_iff)
  with assms(1) show ?thesis by (simp add: on_breakpoint_hit_def res_simps)
qed

section \<open>Properties: events\<close>

text \<open>
  Removals.  When LLDB removes a breakpoint, the client is told if and only if the session
  tracks it; afterwards the session does not, so it is told only once.
\<close>

theorem removal_reported_once:
  assumes "handle_breakpoint_event ll api bp [BeRemoved] s = (r, s')"
  shows "r = Ok () \<and> bp_id api bp \<notin> hm_keys (breakpoint_infos (breakpoints s'))
    \<and> outbox s' = outbox s @ (if bp_id api bp \<in> hm_keys (breakpoint_infos (breakpoints s))
        then [MEvent (Ev_breakpoint ''removed'' (removed_body (bp_id api bp)))] else [])
    \<and> (\<forall>j. j \<noteq> bp_id api bp \<longrightarrow>
        hm_get (breakpoint_infos (breakpoints s')) j = hm_get (breakpoint_infos (breakpoints s)) j)"
proof (cases "hm_get (breakpoint_infos (breakpoints s)) (bp_id api bp)")
  case None
  then have "bp_id api bp \<notin> hm_keys (breakpoint_infos (breakpoints s))" by (simp add: hm_get_None)
  with assms None show ?thesis
    by (auto simp: handle_breakpoint_event_def res_simps session_defs intersects_def)
next
  case (Some info)
  then have "bp_id api bp \<in> hm_keys (breakpoint_infos (breakpoints s))" by (rule hm_get_keys)
  with assms Some show ?thesis
    by (auto simp: handle_breakpoint_event_def res_simps session_defs intersects_def forget_info_def
        update_bps_def hashmap)
qed

text \<open>
  What the client cleared is not reported back.  After a successful request for the breakpoints
  of a file, the removal of a breakpoint of a line that is no longer requested is not reported to the
  client, which would take it for a removal by LLDB.
\<close>

theorem cleared_sources_not_echoed:
  assumes ok: "target_ok api used"
    and tbl: "table_ok used (world s) (entry_or_empty path (bps_source (breakpoints s)))"
    and lines: "distinct (map sb_line reqs)"
    and run: "set_source_breakpoints ll api path reqs s = (Ok responses, s')"
    and room: "used (world s') \<noteq> UNIV"
    and stale: "hm_get (entry_or_empty path (bps_source (breakpoints s))) line = Some (bp_id api bp)"
      "line \<notin> sb_line ` set reqs"
  shows "outbox (snd (handle_breakpoint_event ll api bp [BeRemoved] s')) = outbox s'"
proof -
  let ?old = "entry_or_empty path (bps_source (breakpoints s))"
  let ?new = "entry_or_empty path (bps_source (breakpoints s'))"
  note r = set_source_breakpoints_table [OF ok tbl lines run room]
  have "(line, bp_id api bp) \<in> set ?old" "hm_wf ?old"
    using stale(1) tbl by (auto simp: hm_get_iff table_ok_def)
  moreover have "line \<notin> hm_keys ?new" using r(1) stale(2) by (auto simp: reconciled_def)
  ultimately have "bp_id api bp \<in> stale_ids ?old ?new" by (force simp: stale_ids_def hm_contains_keys)
  with r(3) have "bp_id api bp \<notin> hm_keys (breakpoint_infos (breakpoints s'))" by blast
  then have "hm_get (breakpoint_infos (breakpoints s')) (bp_id api bp) = None" by (simp add: hm_get_None)
  then show ?thesis by (simp add: handle_breakpoint_event_def res_simps session_defs intersects_def)
qed

section \<open>Properties: exclusions\<close>

definition applies_to :: "u32 \<Rightarrow> breakpoint_kind \<Rightarrow> excluded_caller \<Rightarrow> bool" where
  "applies_to i kind e = (case site_id e of First bp \<Rightarrow> as_u32 bp = i | Second exc \<Rightarrow> kind = BkException exc)"

lemma hm_get_map_values: "hm_get (hm_map_values f m) k = map_option (f k) (hm_get m k)"
  by (induction m) (auto simp: hm_map_values_def hm_get_def)

lemma apply_exclusion_get:
  "hm_get (apply_exclusion e infos) i = map_option (\<lambda>info.
     if applies_to i (bi_kind info) e then add_exclusion (symbol e) info else info) (hm_get infos i)"
proof (cases "site_id e")
  case (First bp)
  then show ?thesis
    by (cases "hm_get infos (as_u32 bp)"; cases "i = as_u32 bp")
      (auto simp: apply_exclusion_def applies_to_def hashmap option.map_ident)
next
  case (Second exc)
  then show ?thesis by (simp add: apply_exclusion_def applies_to_def hm_get_map_values)
qed

text \<open>
  Exclusions are what the client set.  After the client has set the excluded callers, every
  breakpoint excludes exactly the callers listed for its id, or for its kind of exception, in the order
  of the list; nothing else about the breakpoints changes.
\<close>

theorem exclusions_as_set:
  assumes "handle_set_excluded_callers exclusions s = (r, s')"
  shows "r = Ok () \<and> (\<forall>i. hm_get (breakpoint_infos (breakpoints s')) i =
      map_option (\<lambda>info. info\<lparr>bi_exclusions := map symbol (filter (applies_to i (bi_kind info)) exclusions)\<rparr>)
        (hm_get (breakpoint_infos (breakpoints s)) i))"
proof -
  have fold: "hm_get (fold apply_exclusion es infos) i =
      map_option (\<lambda>info. info\<lparr>bi_exclusions := bi_exclusions info @ map symbol (filter (applies_to i (bi_kind info)) es)\<rparr>)
        (hm_get infos i)" for es infos i
  proof (induction es arbitrary: infos)
    case (Cons e es)
    then show ?case
      by (auto simp: apply_exclusion_get add_exclusion_def option.map_comp comp_def intro!: map_option_cong)
  qed (simp add: option.map_ident)
  with assms show ?thesis
    by (auto simp: handle_set_excluded_callers_def update_bps_run hm_get_map_values option.map_comp comp_def)
qed

text \<open>
  An exclusion can be set again.  The exclusion the client is given when it excludes a caller
  is, when it is set later, one for the breakpoint the debuggee stopped at, with the same function.
\<close>

theorem exclusion_roundtrip:
  assumes "handle_exclude_caller ll api ta args s = (Ok resp, s')"
  shows "\<exists>i info. i = ucast (stop_reason_data ta (world s) (selected_thread ll (world s)))
    \<and> hm_get (breakpoint_infos (breakpoints s)) i = Some info
    \<and> applies_to i (bi_kind info) (exclusion resp)
    \<and> hm_get (breakpoint_infos (breakpoints s')) i = Some (add_exclusion (symbol (exclusion resp)) info)"
  using assms
  by (auto simp: handle_exclude_caller_def bindS_Ok getS_def Let_def failS_def thenS_def update_bps_run liftS_def
      returnS_def exclusion_site_def applies_to_def as_u32_def add_exclusion_def hashmap
      split: if_splits option.splits breakpoint_kind.splits)

section \<open>Witnesses\<close>

definition demo_threads :: "'w thread_api" where
  "demo_threads = \<lparr>stop_reason = (\<lambda>_ _. SrBreakpoint), stop_reason_data = (\<lambda>_ _. 1),
     stop_description = (\<lambda>_ _. ''breakpoint''), thread_frames = (\<lambda>_ _. [3, 4])\<rparr>"

definition demo_bp_info :: breakpoint_info where
  "demo_bp_info = \<lparr>bi_id = 1, bi_breakpoint = 1, bi_kind = BkSource, bi_condition = None, bi_log_message = None,
     bi_hit_condition = Some (MOD 2), bi_hit_count = 0, bi_exclusions = []\<rparr>"

definition demo_hits :: "breakpoint_info \<Rightarrow> (demo_target, unit) session" where
  "demo_hits info = demo_session\<lparr>breakpoints := (breakpoints demo_session)\<lparr>breakpoint_infos := [(1, info)]\<rparr>\<rparr>"

lemma demo_hits_info: "hm_get (breakpoint_infos (breakpoints (demo_hits info))) 1 = Some info"
  by (simp add: demo_hits_def hm_get_def)


theorem hits_are_counted_witness:
  "fst (hits tiny_lldb demo_bp_api demo_threads demo_values 1 (replicate 4 (\<lambda>w. w, 1, None)) (demo_hits demo_bp_info))
     = [Ok False, Ok True, Ok False, Ok True]"
proof -
  let ?hs = "replicate 4 (\<lambda>w :: demo_target. w, 1, None) :: demo_target hit list"
  have run: "Panic \<notin> set (fst (hits tiny_lldb demo_bp_api demo_threads demo_values 1 ?hs (demo_hits demo_bp_info)))"
    by (simp add: numeral_eq_Suc on_breakpoint_hit_def res_simps demo_hits_info is_excluded_def check_condition_def
        count_hit_def update_bps_run demo_bp_info_def demo_hits_def hm_get_def hm_insert_def)
  have "hit_verdicts tiny_lldb demo_bp_api demo_threads demo_values 1 demo_bp_info ?hs (demo_hits demo_bp_info)
      = replicate 4 None"
    by (simp add: numeral_eq_Suc hit_verdict_def is_excluded_def demo_bp_info_def)
  moreover have "replicate 4 None = [None, None, None, None :: bool option]" by (simp add: numeral_eq_Suc)
  moreover have "map Ok (stops demo_bp_info (bi_hit_count demo_bp_info) [None, None, None, None])
      = [Ok False, Ok True, Ok False, Ok True :: (err, bool) res]"
    by (simp add: demo_bp_info_def hit_stops_def)
  ultimately show ?thesis using hits_are_counted [OF demo_hits_info run] by (simp only: Let_def)
qed

theorem excluded_never_stops_witness:
  "fst (on_breakpoint_hit tiny_lldb demo_bp_api demo_threads demo_values 1 1 None
     (demo_hits (demo_bp_info\<lparr>bi_exclusions := [''main'', ''f'']\<rparr>))) = Ok False"
proof -
  have "''f'' \<in> set (symbols_on_stack tiny_lldb demo_threads w 1)" for w :: demo_target
    by (simp add: symbols_on_stack_def demo_threads_def tiny_lldb_def tiny_api_def map_filter_simps)
  with excluded_never_stops [OF demo_hits_info, of "''f''"] show ?thesis by simp
qed

theorem removal_reported_once_witness:
  "outbox (snd (handle_breakpoint_event tiny_lldb demo_bp_api 1 [BeRemoved] (demo_hits demo_bp_info)))
     = [MEvent (Ev_breakpoint ''removed'' (removed_body 1))]"
proof -
  have "bp_id demo_bp_api 1 = 1" by (simp add: demo_bp_api_def)
  moreover have "outbox (demo_hits demo_bp_info) = []" by (simp add: demo_hits_def demo_session_def tiny_session_def)
  ultimately show ?thesis
    using removal_reported_once [OF surjective_pairing, of tiny_lldb demo_bp_api 1 "demo_hits demo_bp_info"]
      hm_get_keys [OF demo_hits_info [of demo_bp_info]] by simp
qed

theorem cleared_sources_not_echoed_witness:
  "\<exists>responses s'. set_source_breakpoints tiny_lldb demo_bp_api ''/a/b.c'' [] demo_session = (Ok responses, s')
     \<and> outbox (snd (handle_breakpoint_event tiny_lldb demo_bp_api 1 [BeRemoved] s')) = outbox s'"
proof -
  obtain responses s' where run:
    "set_source_breakpoints tiny_lldb demo_bp_api ''/a/b.c'' [] demo_session = (Ok responses, s')"
    and "issued (world s') = 4"
    by (simp add: demo_defs run_requests)
  then have "demo_used (world s') \<noteq> UNIV" by (simp add: demo_room)
  moreover have "hm_get (entry_or_empty ''/a/b.c'' (bps_source (breakpoints demo_session))) 7
      = Some (bp_id demo_bp_api 1)"
    by (simp add: demo_session_def demo_bp_api_def tiny_session_def entry_or_empty_def hm_get_def)
  ultimately show ?thesis
    using cleared_sources_not_echoed [OF demo_target_ok demo_tables(1) _ run] run by auto
qed

theorem exclusions_as_set_witness:
  "map_option bi_exclusions (hm_get (breakpoint_infos (breakpoints (snd (handle_set_excluded_callers
       [\<lparr>site_id = First 1, symbol = ''f''\<rparr>, \<lparr>site_id = Second ''cpp_throw'', symbol = ''g''\<rparr>]
       (demo_hits (demo_bp_info\<lparr>bi_exclusions := [''main'']\<rparr>)))))) 1) = Some [''f'']"
  using exclusions_as_set [OF surjective_pairing, of
      "[\<lparr>site_id = First 1, symbol = ''f''\<rparr>, \<lparr>site_id = Second ''cpp_throw'', symbol = ''g''\<rparr>]"
      "demo_hits (demo_bp_info\<lparr>bi_exclusions := [''main'']\<rparr>)"]
  by (simp add: demo_hits_info applies_to_def as_u32_def) (simp add: demo_bp_info_def)

theorem exclusion_roundtrip_witness:
  "\<exists>resp s'. handle_exclude_caller tiny_lldb demo_bp_api demo_threads \<lparr>ec_thread_id = 1, ec_frame_index = 0\<rparr>
       (demo_hits demo_bp_info) = (Ok resp, s') \<and> applies_to 1 BkSource (exclusion resp)"
proof -
  let ?s = "demo_hits demo_bp_info"
  have kind: "bi_kind demo_bp_info = BkSource" by (simp add: demo_bp_info_def)
  obtain resp s' where run: "handle_exclude_caller tiny_lldb demo_bp_api demo_threads
      \<lparr>ec_thread_id = 1, ec_frame_index = 0\<rparr> ?s = (Ok resp, s')"
    using demo_hits_info [of demo_bp_info] kind
    by (simp add: handle_exclude_caller_def res_simps symbol_from_frame_def update_bps_run
        demo_threads_def exclusion_site_def tiny_lldb_def tiny_api_def as_u64_def)
  from exclusion_roundtrip [OF this] have "applies_to 1 (bi_kind demo_bp_info) (exclusion resp)"
    by (simp add: demo_threads_def demo_hits_info)
  with run kind show ?thesis by auto
qed

end
