(* ===== verification/Execution.thy ===== *)
theory Execution
  imports Breakpoint_Events
begin

text \<open>
  The requests that stop, resume and step the debuggee, and what the client is told about it:
  \<open>handle_pause\<close> to \<open>reverse_exec\<close> and the notifications of \<open>src/codelldb/src/debug_session.rs\<close>.
\<close>

section \<open>What is asked of LLDB\<close>

text \<open>\<open>RunMode\<close> of LLDB, and the calls on a process or thread that may fail with a message.\<close>

datatype run_mode = OnlyThisThread | AllThreads | OnlyDuringStepping

type_synonym ('w, 'a) fallible = "'w \<Rightarrow> (string, 'a) res \<times> 'w"

record 'w run_api =
  run_stop :: "('w, unit) fallible"
  run_resume :: "('w, unit) fallible"
  step_instruction :: "nat \<Rightarrow> bool \<Rightarrow> ('w, unit) fallible"
  step_over :: "nat \<Rightarrow> run_mode \<Rightarrow> ('w, unit) fallible"
  step_into :: "nat \<Rightarrow> run_mode \<Rightarrow> ('w, unit) fallible"
  step_out :: "nat \<Rightarrow> ('w, unit) fallible"
  return_from_frame :: "nat \<Rightarrow> nat \<Rightarrow> ('w, unit) fallible"
  jump_to_line :: "nat \<Rightarrow> string \<Rightarrow> u32 \<Rightarrow> ('w, unit) fallible"
  set_pc :: "nat \<Rightarrow> u64 \<Rightarrow> 'w \<Rightarrow> bool \<times> 'w"
  first_thread :: "'w \<Rightarrow> nat"
  set_selected_thread :: "nat \<Rightarrow> 'w \<Rightarrow> 'w"
  exit_status :: "'w \<Rightarrow> i64"

text \<open>A call that may fail, under the \<open>?\<close> operator.\<close>

definition try_world :: "('w, 'a) fallible \<Rightarrow> ('w, 'h, 'a) handler" where
  "try_world f = bindS (call_world f) (\<lambda>r. liftS (map_err str_error r))"

definition process_running :: "'w lldb \<Rightarrow> ('w, 'h, bool) handler" where
  "process_running ll = getS (\<lambda>s. is_running (process_state_of ll (world s)))"

text \<open>\<open>tid as i64\<close>.\<close>

definition tid_i64 :: "u64 \<Rightarrow> i64" where
  "tid_i64 t = sint t"

section \<open>Telling the client\<close>

definition notify_process_running :: "'w lldb \<Rightarrow> 'w run_api \<Rightarrow> ('w, 'h, unit) handler" where
  "notify_process_running ll ra =
     bindS (getS (\<lambda>s. tid_i64 (thread_tid ll (first_thread ra (world s))))) (\<lambda>thread_id.
       send_event (Ev_continued thread_id))"

definition is_valid_reason :: "stop_reason \<Rightarrow> bool" where
  "is_valid_reason r = (r \<noteq> SrInvalid \<and> r \<noteq> SrNone)"

text \<open>The thread to show: the selected one if it has a reason to be stopped, else the first that has.\<close>

definition select_stopped_thread ::
  "'w lldb \<Rightarrow> 'w thread_api \<Rightarrow> 'w run_api \<Rightarrow> ('w, 'h, nat) handler" where
  "select_stopped_thread ll ta ra =
     bindS (getS world) (\<lambda>w.
       if is_valid_reason (stop_reason ta w (selected_thread ll w)) then returnS (selected_thread ll w)
       else case find (\<lambda>t. is_valid_reason (stop_reason ta w t)) (process_threads ll w) of
         None \<Rightarrow> returnS (selected_thread ll w)
       | Some thread \<Rightarrow> thenS (modify_world (set_selected_thread ra thread)) (returnS thread))"

definition wpid_to_bpid :: "u32 \<Rightarrow> i64" where
  "wpid_to_bpid i = uint i + 1000000"

fun analyze_stop_reason :: "stop_reason \<Rightarrow> u64 \<Rightarrow> string \<Rightarrow> string \<times> string option \<times> i64 list" where
  "analyze_stop_reason SrBreakpoint data descr = (''breakpoint'', None, [sint data])"
| "analyze_stop_reason SrWatchpoint data descr = (''data breakpoint'', None, [wpid_to_bpid (ucast data)])"
| "analyze_stop_reason SrTrace data descr = (''step'', None, [])"
| "analyze_stop_reason SrPlanComplete data descr = (''step'', None, [])"
| "analyze_stop_reason SrSignal data descr = (''exception'', Some descr, [])"
| "analyze_stop_reason SrException data descr = (''exception'', Some descr, [])"
| "analyze_stop_reason _ data descr = (''unknown'', Some descr, [])"

definition stopped_body_of :: "'w lldb \<Rightarrow> 'w thread_api \<Rightarrow> 'w \<Rightarrow> nat \<Rightarrow> stopped_body" where
  "stopped_body_of ll ta w thread =
     (let (reason, descr, ids) = analyze_stop_reason (stop_reason ta w thread) (stop_reason_data ta w thread)
            (stop_description ta w thread) in
      \<lparr>sp_reason = reason, sp_description = (if descr = Some [] then None else descr),
       sp_thread_id = Some (tid_i64 (thread_tid ll thread)), sp_all_threads_stopped = Some True,
       sp_hit_breakpoint_ids = ids\<rparr>)"

definition notify_process_stopped ::
  "'w lldb \<Rightarrow> 'w thread_api \<Rightarrow> 'w run_api \<Rightarrow> ('w, 'h, unit) handler" where
  "notify_process_stopped ll ta ra =
     bindS (select_stopped_thread ll ta ra) (\<lambda>thread.
     bindS (getS (\<lambda>s. stopped_body_of ll ta (world s) thread)) (\<lambda>body.
     thenS (case sp_description body of
              Some d \<Rightarrow> console_error (''Stop reason: '' @ d) | None \<Rightarrow> returnS ())
       (send_event (Ev_stopped body))))"

definition notify_process_terminated :: "'w lldb \<Rightarrow> 'w run_api \<Rightarrow> ('w, 'h, unit) handler" where
  "notify_process_terminated ll ra =
     bindS (getS world) (\<lambda>w.
       case process_state_of ll w of
         PsExited \<Rightarrow>
           thenS (console_message (''Process exited with code '' @ show_int (exit_status ra w) @ ''.''))
             (thenS (send_event (Ev_exited (exit_status ra w))) (send_event Ev_terminated))
       | PsDetached \<Rightarrow> thenS (console_message ''Detached from debuggee.'') (send_event Ev_terminated)
       | _ \<Rightarrow> returnS ())"

section \<open>Stopping and resuming\<close>

definition handle_pause ::
  "'w lldb \<Rightarrow> 'w thread_api \<Rightarrow> 'w run_api \<Rightarrow> i64 \<Rightarrow> ('w, 'h, unit) handler" where
  "handle_pause ll ta ra args =
     bindS (call_world (run_stop ra)) (\<lambda>r.
       case r of
         Ok _ \<Rightarrow> returnS ()
       | Err err \<Rightarrow>
           bindS (process_running ll) (\<lambda>running.
             if \<not> running then notify_process_stopped ll ta ra
             else failS (blame_user (str_error err)))
       | Panic \<Rightarrow> panicS)"

definition handle_continue ::
  "'w lldb \<Rightarrow> 'w run_api \<Rightarrow> 'h handle_tree \<Rightarrow> i64 \<Rightarrow> ('w, 'h, bool) handler" where
  "handle_continue ll ra ht args =
     thenS (before_resume ht)
       (bindS (call_world (run_resume ra)) (\<lambda>r.
          case r of
            Ok _ \<Rightarrow> returnS True
          | Err err \<Rightarrow>
              bindS (process_running ll) (\<lambda>running.
                if running then thenS (notify_process_running ll ra) (returnS True)
                else failS (blame_user (str_error err)))
          | Panic \<Rightarrow> panicS))"

section \<open>Stepping\<close>

text \<open>Whether to step by instruction: as the client says, else by whether it shows a disassembly.\<close>

definition step_by_instruction ::
  "'w lldb \<Rightarrow> stepping_granularity option \<Rightarrow> nat \<Rightarrow> ('w, 'h, bool) handler" where
  "step_by_instruction ll granularity thread =
     (case granularity of
        Some SgInstruction \<Rightarrow> returnS True
      | Some _ \<Rightarrow> returnS False
      | None \<Rightarrow> bindS (getS (\<lambda>s. frame_at ll (world s) thread 0)) (\<lambda>frame. in_disassembly ll frame))"

definition handle_next ::
  "'w lldb \<Rightarrow> 'w run_api \<Rightarrow> 'h handle_tree \<Rightarrow> next_args \<Rightarrow> ('w, 'h, unit) handler" where
  "handle_next ll ra ht args =
     bindS (thread_by_id ll (nx_thread_id args)) (\<lambda>thread.
     thenS (before_resume ht)
       (bindS (step_by_instruction ll (nx_granularity args) thread) (\<lambda>by_instruction.
          if by_instruction then try_world (step_instruction ra thread True)
          else try_world (step_over ra thread OnlyDuringStepping))))"

definition handle_step_out ::
  "'w lldb \<Rightarrow> 'w run_api \<Rightarrow> 'h handle_tree \<Rightarrow> i64 \<Rightarrow> ('w, 'h, unit) handler" where
  "handle_step_out ll ra ht thread_id =
     thenS (before_resume ht)
       (bindS (thread_by_id ll thread_id) (\<lambda>thread. try_world (step_out ra thread)))"

section \<open>Backwards\<close>

fun reverse_exec :: "'w lldb \<Rightarrow> string list \<Rightarrow> ('w, 'h, unit) handler" where
  "reverse_exec ll [] = returnS ()"
| "reverse_exec ll (command # commands) =
     bindS (call_world (handle_command ll command)) (\<lambda>(succeeded, out, err).
       if succeeded then reverse_exec ll commands
       else thenS (console_error err) (failS (str_error err)))"

text \<open>\<open>{:x}\<close> of an \<open>i64\<close>.\<close>

definition lower_hex_digit :: "char \<Rightarrow> char" where
  "lower_hex_digit c = (if is_digit c then c else char_of ((of_char c :: nat) + 32))"

definition show_lower_hex :: "i64 \<Rightarrow> string" where
  "show_lower_hex i = map lower_hex_digit (show_hex (unat (as_u64 i)))"

definition select_thread_packet :: "i64 \<Rightarrow> string" where
  "select_thread_packet thread_id = ''process plugin packet send Hc'' @ show_lower_hex thread_id"

definition handle_step_back :: "'w lldb \<Rightarrow> 'h handle_tree \<Rightarrow> i64 \<Rightarrow> ('w, 'h, unit) handler" where
  "handle_step_back ll ht thread_id =
     thenS (before_resume ht)
       (thenS (modifyS (\<lambda>s. s\<lparr>show_disassembly := SdAlways\<rparr>))
          (reverse_exec ll
             [select_thread_packet thread_id, ''process plugin packet send bs'',
              ''process plugin packet send bs'', ''stepi'']))"

definition handle_reverse_continue :: "'w lldb \<Rightarrow> 'h handle_tree \<Rightarrow> i64 \<Rightarrow> ('w, 'h, unit) handler" where
  "handle_reverse_continue ll ht thread_id =
     thenS (before_resume ht)
       (reverse_exec ll
          [select_thread_packet thread_id, ''process plugin packet send bc'',
           ''process plugin packet send bs'', ''stepi''])"

section \<open>Moving the program counter\<close>

text \<open>A fake stop, so that the client refreshes what it shows.\<close>

definition refresh_client_display :: "'w lldb \<Rightarrow> u64 option \<Rightarrow> ('w, 'h, unit) handler" where
  "refresh_client_display ll thread_id =
     bindS (getS (\<lambda>s. tid_i64 (case thread_id of Some t \<Rightarrow> t
              | None \<Rightarrow> thread_tid ll (selected_thread ll (world s))))) (\<lambda>tid.
     bindS (getS (\<lambda>s. ic_supports_invalidated_event (client_caps s) = Some True)) (\<lambda>invalidates.
     thenS (if invalidates then send_event (Ev_invalidated (Some tid)) else returnS ())
       (send_event (Ev_stopped \<lparr>sp_reason = [], sp_description = None, sp_thread_id = Some tid,
          sp_all_threads_stopped = Some True, sp_hit_breakpoint_ids = []\<rparr>))))"

definition handle_goto_targets :: "goto_targets_args \<Rightarrow> ('w, 'h, goto_target list) handler" where
  "handle_goto_targets args =
     thenS (modifyS (\<lambda>s. s\<lparr>last_goto_request := Some args\<rparr>))
       (returnS [\<lparr>gtt_id = 1, gtt_label = ''line '' @ show_int (gt_line args), gtt_line = gt_line args\<rparr>])"

text \<open>The two kinds of target: a line of a disassembly, or of a source file.\<close>

definition goto_dasm_line ::
  "'w lldb \<Rightarrow> 'w run_api \<Rightarrow> i64 \<Rightarrow> nat \<Rightarrow> i64 \<Rightarrow> i64 \<Rightarrow> ('w, 'h, unit) handler" where
  "goto_dasm_line ll ra thread_id thread source_ref line =
     bindS (getS (\<lambda>s. find_by_handle (disasm_ranges s) source_ref)) (\<lambda>found.
     bindS (liftS (ok_or found (str_error ''source_ref''))) (\<lambda>dasm.
     bindS (liftS (address_by_line_num dasm (as_u32 line))) (\<lambda>addr.
     bindS (getS (\<lambda>s. (frame_at ll (world s) thread 0, frame_valid ll (world s) (frame_at ll (world s) thread 0))))
       (\<lambda>(frame, is_valid).
        if \<not> is_valid then failS (str_error ''frame 0'')
        else bindS (call_world (set_pc ra frame addr)) (\<lambda>moved.
          if moved then refresh_client_display ll (Some (as_u64 thread_id))
          else failS (blame_user (str_error ''Failed to set the instruction pointer.'')))))))"

definition goto_source_line ::
  "'w lldb \<Rightarrow> 'w run_api \<Rightarrow> i64 \<Rightarrow> nat \<Rightarrow> string option \<Rightarrow> i64 \<Rightarrow> ('w, 'h, unit) handler" where
  "goto_source_line ll ra thread_id thread path line =
     bindS (liftS (ok_or path (str_error ''source.path''))) (\<lambda>filespec.
     bindS (call_world (jump_to_line ra thread filespec (as_u32 line))) (\<lambda>r.
       case r of
         Ok _ \<Rightarrow>
           thenS (modifyS (\<lambda>s. s\<lparr>last_goto_request := None\<rparr>)) (refresh_client_display ll (Some (as_u64 thread_id)))
       | Err err \<Rightarrow> failS (blame_user (str_error err))
       | Panic \<Rightarrow> panicS))"

definition handle_goto :: "'w lldb \<Rightarrow> 'w run_api \<Rightarrow> i64 \<Rightarrow> ('w, 'h, unit) handler" where
  "handle_goto ll ra thread_id =
     bindS (getS last_goto_request) (\<lambda>request.
       case request of
         None \<Rightarrow> failS (str_error ''Unexpected goto message.'')
       | Some goto_args \<Rightarrow>
           bindS (thread_by_id ll thread_id) (\<lambda>thread.
             case src_reference (gt_source goto_args) of
               Some source_ref \<Rightarrow> goto_dasm_line ll ra thread_id thread source_ref (gt_line goto_args)
             | None \<Rightarrow>
                 goto_source_line ll ra thread_id thread (src_path (gt_source goto_args)) (gt_line goto_args)))"

definition handle_restart_frame ::
  "'w lldb \<Rightarrow> 'w run_api \<Rightarrow> 'h handle_tree \<Rightarrow> i64 \<Rightarrow> ('w, 'h, unit) handler" where
  "handle_restart_frame ll ra ht frame_id =
     bindS (getS (\<lambda>s. ht_get ht (var_refs s) frame_id)) (\<lambda>c.
       case c of
         Some (CStackFrame frame) \<Rightarrow>
           thenS (try_world (return_from_frame ra (frame_thread ll frame) frame))
             (send_event (Ev_stopped \<lparr>sp_reason = ''restart'', sp_description = None,
                sp_thread_id = Some (tid_i64 (thread_tid ll (frame_thread ll frame))),
                sp_all_threads_stopped = Some True, sp_hit_breakpoint_ids = []\<rparr>))
       | _ \<Rightarrow> failS (str_error ''Invalid frameId''))"

end
