(* ===== verification/Step_In.thy ===== *)
theory Step_In
  imports Execution Variables
begin

text \<open>
  \<open>src/codelldb/src/debug_session/step_in.rs\<close>: the functions a statement may step into, and stepping
  into one of them.
\<close>

section \<open>What is asked of LLDB\<close>

text \<open>
  Functions and compile units are named by numbers; equal functions have equal numbers, as frames have.
  \<open>v16\<close> is the resolution of the symbols that only LLDB 16 exports.
\<close>

datatype control_flow = CfUnknown | CfOther | CfCall | CfReturn | CfJump | CfCondJump | CfFarCall
  | CfFarReturn | CfFarJump

record 'w step_api =
  frame_compile_unit :: "'w \<Rightarrow> nat \<Rightarrow> nat option"
  frame_function :: "'w \<Rightarrow> nat \<Rightarrow> nat"
  unit_line_entries :: "nat \<Rightarrow> nat list"
  entry_start :: "'w \<Rightarrow> nat \<Rightarrow> u64"
  entry_end :: "'w \<Rightarrow> nat \<Rightarrow> u64"
  address_function :: "'w \<Rightarrow> nat \<Rightarrow> nat option"
  address_offset :: "nat \<Rightarrow> u64 \<Rightarrow> nat"
  function_valid :: "nat \<Rightarrow> bool"
  function_start_entry :: "nat \<Rightarrow> nat option"
  function_display_name :: "nat \<Rightarrow> string"
  instr_control_flow :: "nat \<Rightarrow> control_flow"
  instr_valid :: "nat \<Rightarrow> bool"
  invalid_instr :: nat
  read_target_memory :: "'w \<Rightarrow> nat \<Rightarrow> nat \<Rightarrow> (string, u8 list) res"
  parse_u64 :: "string \<Rightarrow> (string, u64) res"
  v16 :: "(string, unit) res"

section \<open>Calls and their targets\<close>

definition control_flow_kind :: "'w lldb \<Rightarrow> 'w step_api \<Rightarrow> 'w \<Rightarrow> nat \<Rightarrow> control_flow" where
  "control_flow_kind ll sa w instr =
     (let kind = instr_control_flow sa instr; dasm = dasm_now ll w in
      if kind = CfUnknown \<and> starts_with (target_triple dasm) ''arm'' then
        (if instr_mnemonic dasm instr = ''bl'' then CfCall
         else if instr_mnemonic dasm instr = ''b'' then CfJump else CfOther)
      else kind)"

definition is_call :: "control_flow \<Rightarrow> bool" where
  "is_call k = (k = CfCall \<or> k = CfFarCall)"

definition is_jump :: "control_flow \<Rightarrow> bool" where
  "is_jump k = (k = CfJump \<or> k = CfFarJump)"

definition is_xdigit :: "char \<Rightarrow> bool" where
  "is_xdigit c = (let n = (of_char c :: nat) in
     48 \<le> n \<and> n \<le> 57 \<or> 65 \<le> n \<and> n \<le> 70 \<or> 97 \<le> n \<and> n \<le> 102)"

text \<open>The regular expressions: a hex number, and a hex offset from \<open>%rip\<close>.\<close>

definition is_immed :: "string \<Rightarrow> bool" where
  "is_immed s = ((starts_with s ''0x'' \<or> starts_with s ''0X'') \<and> drop 2 s \<noteq> [] \<and> list_all is_xdigit (drop 2 s))"

definition rip_relative :: "string \<Rightarrow> string option" where
  "rip_relative s =
     (let offset = take (length s - 7) (drop 1 s) in
      if starts_with s ''*'' \<and> ends_with s ''(%rip)'' \<and> is_immed offset then Some offset else None)"

text \<open>A buffer of eight bytes, as far as it was read, in little endian.\<close>

definition u64_from_le_bytes :: "u8 list \<Rightarrow> u64" where
  "u64_from_le_bytes bytes = foldr (\<lambda>b acc. acc * 256 + ucast b) (take 8 (bytes @ replicate 8 0)) 0"

definition instruction_target_address ::
  "'w lldb \<Rightarrow> 'w step_api \<Rightarrow> 'w \<Rightarrow> nat \<Rightarrow> (string, nat) res" where
  "instruction_target_address ll sa w instruction =
     (let dasm = dasm_now ll w; operands = instr_operands dasm instruction in
      map_res (addr_from_load dasm)
        (if is_immed operands then parse_u64 sa operands
         else case rip_relative operands of
           Some text \<Rightarrow>
             bind_res (parse_u64 sa text) (\<lambda>offset.
               map_res u64_from_le_bytes
                 (read_target_memory sa w
                    (address_offset sa (instr_address dasm instruction)
                       (offset + of_nat (instr_byte_size dasm instruction))) 8))
         | None \<Rightarrow> Err ''Unrecognized operand form''))"

text \<open>\<open>read_instructions(..).instruction_at_index(0)\<close>.\<close>

definition instruction_at :: "'w lldb \<Rightarrow> 'w step_api \<Rightarrow> 'w \<Rightarrow> nat \<Rightarrow> nat" where
  "instruction_at ll sa w address =
     (case read_instructions (dasm_now ll w) address 1 None of [] \<Rightarrow> invalid_instr sa | i # _ \<Rightarrow> i)"

definition call_target_function ::
  "'w lldb \<Rightarrow> 'w step_api \<Rightarrow> 'w \<Rightarrow> nat \<Rightarrow> (string, nat) res" where
  "call_target_function ll sa w instruction =
     bind_res (instruction_target_address ll sa w instruction) (\<lambda>address.
       case address_function sa w address of
         Some func \<Rightarrow> Ok func
       | None \<Rightarrow>
           (let target_instr = instruction_at ll sa w address in
            if instr_valid sa target_instr \<and> is_jump (control_flow_kind ll sa w target_instr) then
              bind_res (instruction_target_address ll sa w target_instr) (\<lambda>address.
                ok_or (address_function sa w address) ''Could not determine call target'')
            else Err ''Could not determine call target''))"

section \<open>The targets of a statement\<close>

definition max_end_addr :: "'w lldb \<Rightarrow> 'w step_api \<Rightarrow> 'w \<Rightarrow> nat \<Rightarrow> nat \<Rightarrow> u64" where
  "max_end_addr ll sa w cu curr_le =
     (let dasm = dasm_now ll w in
      fold (\<lambda>le m. if entry_line dasm le = entry_line dasm curr_le
                     \<and> entry_filename dasm le = entry_filename dasm curr_le
                   then max m (entry_end sa w le) else m) (unit_line_entries sa cu) 0)"

definition statement_instructions :: "'w lldb \<Rightarrow> 'w step_api \<Rightarrow> 'w \<Rightarrow> nat \<Rightarrow> u64 \<Rightarrow> nat list" where
  "statement_instructions ll sa w frame stmt_to =
     (let dasm = dasm_now ll w in
      takeWhile (\<lambda>i. addr_load dasm (instr_address dasm i) < stmt_to)
        (read_instructions dasm (frame_pc_address ll w frame) (ucast (stmt_to - frame_pc ll w frame))
           (Some ''att'')))"

definition add_target_fn :: "'w lldb \<Rightarrow> 'w step_api \<Rightarrow> 'w \<Rightarrow> nat \<Rightarrow> nat list \<Rightarrow> nat list" where
  "add_target_fn ll sa w instr target_fns =
     (if is_call (control_flow_kind ll sa w instr) then
        (case call_target_function ll sa w instr of
           Ok func \<Rightarrow>
             if function_valid sa func \<and> function_start_entry sa func \<noteq> None \<and> func \<notin> set target_fns
             then target_fns @ [func] else target_fns
         | _ \<Rightarrow> target_fns)
      else target_fns)"

definition add_step_in_target :: "'w step_api \<Rightarrow> u64 \<Rightarrow> u64 \<Rightarrow> nat \<Rightarrow> ('w, 'h, step_in_target) handler" where
  "add_step_in_target sa curr_pc stmt_to fn =
     bindS (getS (\<lambda>s. length (step_in_targets s))) (\<lambda>target_id.
     thenS (modifyS (\<lambda>s. s\<lparr>step_in_targets := step_in_targets s @
              [\<lparr>target_fn = fn, stmt_start = curr_pc, stmt_end = stmt_to\<rparr>]\<rparr>))
       (returnS \<lparr>sit_id = int target_id, sit_label = function_display_name sa fn\<rparr>))"

definition handle_step_in_targets ::
  "'w lldb \<Rightarrow> 'w step_api \<Rightarrow> 'h handle_tree \<Rightarrow> i64 \<Rightarrow> ('w, 'h, step_in_target list) handler" where
  "handle_step_in_targets ll sa ht frame_id =
     bindS (getS (\<lambda>s. ht_get ht (var_refs s) frame_id)) (\<lambda>c.
       case c of
         Some (CStackFrame frame) \<Rightarrow>
           bindS (getS world) (\<lambda>w.
             case frame_line_entry ll w frame of
               None \<Rightarrow> failS (str_error ''No line entry for frame.'')
             | Some curr_le \<Rightarrow>
                 (case frame_compile_unit sa w frame of
                    None \<Rightarrow> failS (str_error ''No compile unit for frame.'')
                  | Some cu \<Rightarrow>
                      bindS (liftS (map_err str_error (v16 sa))) (\<lambda>_.
                        let stmt_to = max_end_addr ll sa w cu curr_le in
                        forS (add_step_in_target sa (frame_pc ll w frame) stmt_to)
                          (fold (add_target_fn ll sa w) (statement_instructions ll sa w frame stmt_to) []))))
       | _ \<Rightarrow> failS (str_error ''Invalid frame id.''))"

section \<open>Stepping into a target\<close>

text \<open>One round of the loop: \<open>True\<close> when the target was reached, \<open>False\<close> to go on.\<close>

definition step_round ::
  "'w lldb \<Rightarrow> 'w thread_api \<Rightarrow> 'w run_api \<Rightarrow> 'w step_api \<Rightarrow> 'w value_api \<Rightarrow> nat \<Rightarrow> nat \<Rightarrow>
     step_in_target_internal \<Rightarrow> ('w, 'h, bool) handler" where
  "step_round ll ta ra sa va thread start_frame target =
     bindS (call_world (poll_cancelled va)) (\<lambda>cancelled.
       if cancelled then failS (str_error ''Cancelled'')
       else bindS (getS world) (\<lambda>w.
         let curr_frame = frame_at ll w thread 0 in
         if \<not> frame_valid ll w curr_frame then failS (str_error ''Invalid current frame'')
         else if frame_function sa w curr_frame = target_fn target then returnS True
         else if is_jump (control_flow_kind ll sa w (instruction_at ll sa w (frame_pc_address ll w curr_frame)))
         then thenS (try_world (step_into ra thread OnlyThisThread)) (returnS False)
         else case position (\<lambda>frame. frame = start_frame) (take 10 (thread_frames ta w thread)) of
           None \<Rightarrow> failS (str_error ''Stepped out of start_frame'')
         | Some 0 \<Rightarrow>
             if \<not> (stmt_start target \<le> frame_pc ll w curr_frame \<and> frame_pc ll w curr_frame < stmt_end target)
             then failS (str_error ''Stepped out of stmt_range'')
             else thenS (try_world (step_into ra thread OnlyThisThread)) (returnS False)
         | Some (Suc _) \<Rightarrow> thenS (try_world (step_out ra thread)) (returnS False)))"

text \<open>The loop; \<open>None\<close> when it never ends.\<close>

partial_function (option) step_loop ::
  "('w, 'h, bool) handler \<Rightarrow> ('w, 'h) session \<Rightarrow> ((err, unit) res \<times> ('w, 'h) session) option" where
  "step_loop step_body s =
     (case step_body s of
        (Ok reached, t) \<Rightarrow> if reached then Some (Ok (), t) else step_loop step_body t
      | (Err e, t) \<Rightarrow> Some (Err e, t)
      | (Panic, t) \<Rightarrow> Some (Panic, t))"

text \<open>A call of a method that may not return.\<close>

type_synonym ('w, 'h, 'a) may_hang = "('w, 'h) session \<Rightarrow> ((err, 'a) res \<times> ('w, 'h) session) option"

definition with_sync_mode :: "'w lldb \<Rightarrow> ('w, 'h, 'a) may_hang \<Rightarrow> ('w, 'h, 'a) may_hang" where
  "with_sync_mode ll func s =
     map_option (\<lambda>(r, t). (r, case r of Panic \<Rightarrow> t | _ \<Rightarrow> t\<lparr>world := set_async_mode ll True (world t)\<rparr>))
       (func (s\<lparr>world := set_async_mode ll False (world s)\<rparr>))"

definition step_into_target_body ::
  "'w lldb \<Rightarrow> 'w thread_api \<Rightarrow> 'w run_api \<Rightarrow> 'w step_api \<Rightarrow> 'w value_api \<Rightarrow> nat \<Rightarrow>
     step_in_target_internal \<Rightarrow> ('w, 'h, unit) may_hang" where
  "step_into_target_body ll ta ra sa va thread target s =
     (case try_world (step_into ra thread OnlyThisThread) s of
        (Ok _, t) \<Rightarrow>
          step_loop (step_round ll ta ra sa va thread (frame_at ll (world s) thread 0) target) t
      | (r, t) \<Rightarrow> Some (r, t))"

definition step_into_target ::
  "'w lldb \<Rightarrow> 'w thread_api \<Rightarrow> 'w run_api \<Rightarrow> 'w step_api \<Rightarrow> 'w value_api \<Rightarrow> nat \<Rightarrow>
     step_in_target_internal \<Rightarrow> ('w, 'h, unit) may_hang" where
  "step_into_target ll ta ra sa va thread target s =
     (case v16 sa of
        Ok _ \<Rightarrow> with_sync_mode ll (step_into_target_body ll ta ra sa va thread target) s
      | Err e \<Rightarrow> Some (Err (str_error e), s)
      | Panic \<Rightarrow> Some (Panic, s))"

section \<open>The request\<close>

text \<open>\<open>args.target_id\<close> as an index of the targets.\<close>

definition chosen_target :: "step_in_target_internal list \<Rightarrow> i64 option \<Rightarrow> step_in_target_internal option" where
  "chosen_target targets target_id =
     (case target_id of
        Some i \<Rightarrow> (let n = unat (as_u64 i) in if n < length targets then Some (targets ! n) else None)
      | None \<Rightarrow> None)"

definition handle_step_in ::
  "'w lldb \<Rightarrow> 'w thread_api \<Rightarrow> 'w run_api \<Rightarrow> 'w step_api \<Rightarrow> 'w value_api \<Rightarrow> 'h handle_tree \<Rightarrow>
     step_in_args \<Rightarrow> ('w, 'h, unit) may_hang" where
  "handle_step_in ll ta ra sa va ht args s =
     (case thread_by_tid ll (world s) (as_u64 (sti_thread_id args)) of
        None \<Rightarrow> Some (Err (str_error ''Invalid thread id.''), s)
      | Some thread \<Rightarrow>
          (let step_target = chosen_target (step_in_targets s) (sti_target_id args) in
           case bindS (before_resume ht) (\<lambda>_. step_by_instruction ll (sti_granularity args) thread) s of
             (Ok by_instruction, t) \<Rightarrow>
               if by_instruction then Some (try_world (step_instruction ra thread False) t)
               else (case step_target of
                 None \<Rightarrow> Some (try_world (step_into ra thread OnlyDuringStepping) t)
               | Some target \<Rightarrow>
                   (case step_into_target ll ta ra sa va thread target t of
                      None \<Rightarrow> None
                    | Some (Panic, u) \<Rightarrow> Some (Panic, u)
                    | Some (_, u) \<Rightarrow> Some (notify_process_stopped ll ta ra u)))
           | (Err e, t) \<Rightarrow> Some (Err e, t)
           | (Panic, t) \<Rightarrow> Some (Panic, t)))"

end
