(* ===== verification/Run_Correct.thy ===== *)
theory Run_Correct
  imports Frames Step_In Breakpoint_Events_Correct
begin

text \<open>
  Stopping, resuming and stepping: what a resumed debuggee leaves of the client's references, which
  thread is reported as stopped, and how stepping into a chosen function ends.
\<close>

section \<open>What the handlers keep\<close>

lemma preserves_try_world [preserves_intros]:
  "preserves refs_kept (try_world f)" "preserves out_grows (try_world f)"
  by (simp_all add: try_world_def preserves_intros)

lemma preserves_notify [preserves_intros]:
  "preserves refs_kept (notify_process_running ll ra)" "preserves out_grows (notify_process_running ll ra)"
  "preserves refs_kept (notify_process_stopped ll ta ra)" "preserves out_grows (notify_process_stopped ll ta ra)"
  "preserves refs_kept (process_running ll)" "preserves out_grows (process_running ll)"
  unfolding notify_process_running_def notify_process_stopped_def select_stopped_thread_def process_running_def
  by (intro preserves_intros)+

lemma preserves_step_by_instruction [preserves_intros]:
  "preserves refs_kept (step_by_instruction ll g thread)" "preserves out_grows (step_by_instruction ll g thread)"
  unfolding step_by_instruction_def
  by (auto split: option.split stepping_granularity.split intro!: preserves_intros)

lemma preserves_reverse_exec [preserves_intros]:
  "preserves refs_kept (reverse_exec ll commands)" "preserves out_grows (reverse_exec ll commands)"
  by (induction commands) (auto intro!: preserves_intros)

lemma step_loop_induct:
  assumes "step_loop m s = Some y"
    and "\<And>s t. m s = (Ok True, t) \<Longrightarrow> Q s (Ok (), t)" "\<And>s e t. m s = (Err e, t) \<Longrightarrow> Q s (Err e, t)"
    and "\<And>s t. m s = (Panic, t) \<Longrightarrow> Q s (Panic, t)"
    and "\<And>s t y. m s = (Ok False, t) \<Longrightarrow> Q t y \<Longrightarrow> Q s y"
  shows "Q s y"
proof -
  have "m = m \<longrightarrow> Q s y"
  proof (rule step_loop.raw_induct [where P = "\<lambda>n s y. n = m \<longrightarrow> Q s y", OF _ assms(1)], rule impI)
    fix loop and n :: "('a, 'b, bool) handler" and s y
    assume IH: "\<And>n s y. loop n s = Some y \<Longrightarrow> n = m \<longrightarrow> Q s y"
      and body: "(case n s of (Ok reached, t) \<Rightarrow> if reached then Some (Ok (), t) else loop n t
        | (Err e, t) \<Rightarrow> Some (Err e, t) | (Panic, t) \<Rightarrow> Some (Panic, t)) = Some y"
      and n: "n = m"
    obtain r t where m: "m s = (r, t)" by fastforce
    have "Q s y" if "m s = (Ok False, t)" "loop m t = Some y"
      using assms(5) [OF that(1)] IH [OF that(2)] by simp
    with body m n assms(2-4) show "Q s y" by (auto split: res.splits if_splits)
  qed
  then show ?thesis by simp
qed

lemma step_loop_preserves:
  assumes "frame_relation R" "preserves R m" "step_loop m s = Some (r, t)"
  shows "R s t"
proof -
  have "R s (snd (r, t))"
    by (rule step_loop_induct [OF assms(3), where Q = "\<lambda>s y. R s (snd y)"])
      (auto dest: preservesD [OF assms(2)] intro: frame_relation.trans [OF assms(1)])
  then show ?thesis by simp
qed

section \<open>Resuming\<close>

text \<open>What a handler does that lets the debuggee run: the references of the stopped state are dropped.\<close>

definition dropped :: "'h handle_tree \<Rightarrow> ('w, 'h) session \<Rightarrow> ('w, 'h) session \<Rightarrow> bool" where
  "dropped ht s t \<longleftrightarrow> var_refs t = ht_reset ht (var_refs s) \<and> \<not> selected_frame_changed t
     \<and> last_goto_request t = None \<and> step_in_targets t = []"

lemma dropped_kept: "dropped ht s t \<Longrightarrow> refs_kept t u \<Longrightarrow> dropped ht s u"
  by (simp add: dropped_def refs_kept_def)

lemma before_resume_drops: "before_resume ht s = (r, t) \<Longrightarrow> r = Ok () \<and> dropped ht s t"
  by (auto simp: before_resume_def modifyS_def dropped_def)

lemma dropped_then:
  assumes "preserves refs_kept m" "thenS (before_resume ht) m s = (r, t)"
  shows "dropped ht s t"
proof -
  from assms(2) have "m (snd (before_resume ht s)) = (r, t)"
    by (simp add: thenS_def bindS_def before_resume_def modifyS_def)
  then have "refs_kept (snd (before_resume ht s)) t" by (rule preservesD [OF assms(1)])
  with before_resume_drops [OF surjective_pairing] show ?thesis by (rule dropped_kept [OF conjunct2])
qed

text \<open>A cleared tree has no references.\<close>

definition reset_clears :: "'h handle_tree \<Rightarrow> bool" where
  "reset_clears ht \<longleftrightarrow> (\<forall>h i. ht_get ht (ht_reset ht h) i = None)"

definition is_err :: "('e, 'a) res \<Rightarrow> bool" where
  "is_err r \<longleftrightarrow> (\<exists>e. r = Err e)"

text \<open>A session in which every reference of an earlier stop is refused, and changes nothing.\<close>

definition stale ::
  "'w lldb \<Rightarrow> 'w run_api \<Rightarrow> 'w value_api \<Rightarrow> 'w step_api \<Rightarrow> 'h handle_tree \<Rightarrow> ('w, 'h) session \<Rightarrow> bool" where
  "stale ll ra va sa ht t \<longleftrightarrow>
     (\<forall>i. is_err (fst (handle_scopes ht i t)) \<and> snd (handle_scopes ht i t) = t)
     \<and> (\<forall>i. is_err (fst (handle_variables ll va ht i t)) \<and> snd (handle_variables ll va ht i t) = t)
     \<and> (\<forall>sv. is_err (fst (handle_set_variable ll va ht sv t)) \<and> snd (handle_set_variable ll va ht sv t) = t)
     \<and> (\<forall>i. is_err (fst (handle_restart_frame ll ra ht i t)) \<and> snd (handle_restart_frame ll ra ht i t) = t)
     \<and> (\<forall>i. is_err (fst (handle_step_in_targets ll sa ht i t)) \<and> snd (handle_step_in_targets ll sa ht i t) = t)
     \<and> (\<forall>i. is_err (fst (handle_goto ll ra i t)) \<and> snd (handle_goto ll ra i t) = t)
     \<and> (\<forall>i. chosen_target (step_in_targets t) i = None)"

lemma stale_if:
  assumes "\<And>i. ht_get ht (var_refs t) i = None" "step_in_targets t = []" "last_goto_request t = None"
  shows "stale ll ra va sa ht t"
  using assms
  by (simp add: stale_def is_err_def handle_scopes_def handle_variables_def handle_set_variable_def
      handle_restart_frame_def handle_step_in_targets_def handle_goto_def chosen_target_def res_simps
      split: option.split)

locale resuming =
  fixes ht :: "'h handle_tree" and handler :: "('w, 'h, 'a) handler"
  assumes drops: "handler s = (r, t) \<Longrightarrow> dropped ht s t \<or> t = s \<and> \<not> is_ok r"
begin

lemma stale_rejected:
  assumes "reset_clears ht" "handler s = (Ok x, t)"
  shows "stale ll ra va sa ht t"
proof -
  have "dropped ht s t" using drops [OF assms(2)] by simp
  then have "ht_get ht (var_refs t) i = None" "step_in_targets t = []" "last_goto_request t = None" for i
    using assms(1) by (simp_all add: dropped_def reset_clears_def)
  then show ?thesis by (rule stale_if)
qed

end

lemma resumingI:
  assumes "handler = thenS (before_resume ht) m" "preserves refs_kept m"
  shows "resuming ht handler"
  by unfold_locales (use assms in \<open>simp add: dropped_then\<close>)

interpretation resume_continue: resuming ht "handle_continue ll ra ht args" for ht ll ra args
  by (rule resumingI [OF handle_continue_def]) (intro preserves_intros)

interpretation resume_out: resuming ht "handle_step_out ll ra ht args" for ht ll ra args
  by (rule resumingI [OF handle_step_out_def]) (intro preserves_intros)

interpretation resume_back: resuming ht "handle_step_back ll ht args" for ht ll args
  by (rule resumingI [OF handle_step_back_def])
    (auto intro!: preserves_intros refs.preserves_modifyS simp: refs_kept_def)

interpretation resume_reverse: resuming ht "handle_reverse_continue ll ht args" for ht ll args
  by (rule resumingI [OF handle_reverse_continue_def]) (intro preserves_intros)

interpretation resume_over: resuming ht "handle_next ll ra ht args" for ht ll ra args
proof unfold_locales
  fix s t and r :: "(err, unit) res"
  assume run: "handle_next ll ra ht args s = (r, t)"
  obtain r' s' where th: "thread_by_id ll (nx_thread_id args) s = (r', s')" by fastforce
  then have same: "s' = s" "r' \<noteq> Panic" by (auto dest: thread_by_id_same)
  show "dropped ht s t \<or> t = s \<and> \<not> is_ok r"
  proof (cases r')
    case (Ok thread)
    with run th same(1) have "thenS (before_resume ht) (bindS (step_by_instruction ll (nx_granularity args) thread)
        (\<lambda>by_instruction. if by_instruction then try_world (step_instruction ra thread True)
          else try_world (step_over ra thread OnlyDuringStepping))) s = (r, t)"
      by (simp add: handle_next_def bindS_def)
    then show ?thesis by (intro disjI1) (erule dropped_then [rotated], intro preserves_intros)
  next
    case (Err e)
    with run th same(1) show ?thesis by (auto simp: handle_next_def bindS_def)
  qed (simp add: same(2))
qed

text \<open>Stepping in: it may also hang, but if it returns the references are dropped.\<close>

definition back_to_async :: "'w lldb \<Rightarrow> (err, 'a) res \<Rightarrow> ('w, 'h) session \<Rightarrow> ('w, 'h) session" where
  "back_to_async ll r t = (case r of Panic \<Rightarrow> t | _ \<Rightarrow> t\<lparr>world := set_async_mode ll True (world t)\<rparr>)"

lemma with_sync_mode_Some:
  "with_sync_mode ll func s = Some (r, t) \<longleftrightarrow>
     (\<exists>u. func (s\<lparr>world := set_async_mode ll False (world s)\<rparr>) = Some (r, u) \<and> t = back_to_async ll r u)"
  by (auto simp: with_sync_mode_def back_to_async_def)

lemma step_into_target_preserves:
  assumes R: "frame_relation R" and w: "\<And>s w. R s (s\<lparr>world := w\<rparr>)"
    and step: "preserves R (try_world (step_into ra thread OnlyThisThread))"
    and rounds: "\<And>f. preserves R (step_round ll ta ra sa va thread f target)"
    and run: "step_into_target ll ta ra sa va thread target s = Some (r, t)"
  shows "R s t"
proof (cases "v16 sa")
  case (Ok x)
  let ?s = "s\<lparr>world := set_async_mode ll False (world s)\<rparr>"
  from run Ok obtain u where body: "step_into_target_body ll ta ra sa va thread target ?s = Some (r, u)"
    and u: "t = back_to_async ll r u"
    by (auto simp: step_into_target_def with_sync_mode_Some)
  have t: "R u t" unfolding u by (cases r) (simp_all add: back_to_async_def w frame_relation.refl [OF R])
  obtain r' s' where st: "try_world (step_into ra thread OnlyThisThread) ?s = (r', s')" by fastforce
  have "R ?s s'" by (rule preservesD [OF step st])
  moreover have "R s' u"
    using body st
    by (auto simp: step_into_target_body_def frame_relation.refl [OF R] split: res.splits
        dest: step_loop_preserves [OF R rounds])
  moreover have "R s ?s" by (rule w)
  ultimately show ?thesis using t by (blast intro: frame_relation.trans [OF R])
qed (use run in \<open>simp_all add: step_into_target_def frame_relation.refl [OF R]\<close>)

text \<open>What comes after \<open>before_resume\<close>, on a known thread.\<close>

lemma step_in_preserves:
  assumes R: "frame_relation R" and w: "\<And>s w. R s (s\<lparr>world := w\<rparr>)"
    and steps: "\<And>f :: ('w, unit) fallible. preserves R (try_world f)"
      "\<And>target f. preserves R (step_round ll ta ra sa va thread f target)"
      "preserves R (notify_process_stopped ll ta ra)" "preserves R (step_by_instruction ll (sti_granularity args) thread)"
    and thread: "thread_by_tid ll (world s) (as_u64 (sti_thread_id args)) = Some thread"
    and run: "handle_step_in ll ta ra sa va ht args s = Some (r, t)"
  shows "R (snd (before_resume ht s)) t"
proof -
  let ?b = "snd (before_resume ht s)"
  obtain r' s' where m: "step_by_instruction ll (sti_granularity args) thread ?b = (r', s')" by fastforce
  then have s': "R ?b s'" by (rule preservesD [OF steps(4)])
  from m have "bindS (before_resume ht) (\<lambda>_. step_by_instruction ll (sti_granularity args) thread) s = (r', s')"
    by (simp add: bindS_def before_resume_def modifyS_def)
  then have "R s' t"
    using run thread
    by (auto simp: handle_step_in_def Let_def frame_relation.refl [OF R] split: res.splits if_splits option.splits prod.splits
        dest: preservesD [OF steps(1)] preservesD [OF steps(3)]
          step_into_target_preserves [OF R w steps(1) steps(2)] intro: frame_relation.trans [OF R])
  with s' show ?thesis by (rule frame_relation.trans [OF R])
qed

lemma step_round_keeps [preserves_intros]:
  "preserves refs_kept (step_round ll ta ra sa va thread f target)"
  unfolding step_round_def Let_def by (auto intro!: preserves_intros split: option.split nat.split)

lemma step_in_drops:
  assumes "handle_step_in ll ta ra sa va ht args s = Some (r, t)"
    and "thread_by_tid ll (world s) (as_u64 (sti_thread_id args)) = Some thread"
  shows "dropped ht s t"
proof -
  have "refs_kept (snd (before_resume ht s)) t"
    by (rule step_in_preserves [OF refs.frame_relation_axioms _ _ _ _ _ assms(2,1)])
      (auto simp: refs_kept_def intro!: preserves_intros)
  with before_resume_drops [OF surjective_pairing] show ?thesis by (rule dropped_kept [OF conjunct2])
qed

section \<open>Properties: resuming\<close>

text \<open>The requests that let the debuggee run, when they succeed.\<close>

inductive resumes ::
  "'w lldb \<Rightarrow> 'w thread_api \<Rightarrow> 'w run_api \<Rightarrow> 'w step_api \<Rightarrow> 'w value_api \<Rightarrow> 'h handle_tree \<Rightarrow>
     ('w, 'h) session \<Rightarrow> ('w, 'h) session \<Rightarrow> bool"
  for ll ta ra sa va ht where
  continues: "handle_continue ll ra ht thread_id s = (Ok b, t) \<Longrightarrow> resumes ll ta ra sa va ht s t"
| nexts: "handle_next ll ra ht n s = (Ok u, t) \<Longrightarrow> resumes ll ta ra sa va ht s t"
| steps_in: "handle_step_in ll ta ra sa va ht i s = Some (Ok u, t) \<Longrightarrow> resumes ll ta ra sa va ht s t"
| steps_out: "handle_step_out ll ra ht thread_id s = (Ok u, t) \<Longrightarrow> resumes ll ta ra sa va ht s t"
| steps_back: "handle_step_back ll ht thread_id s = (Ok u, t) \<Longrightarrow> resumes ll ta ra sa va ht s t"
| reverses: "handle_reverse_continue ll ht thread_id s = (Ok u, t) \<Longrightarrow> resumes ll ta ra sa va ht s t"

text \<open>
  C7 (no reference outlives the stop).  Once a request has let the debuggee run, every reference the
  client holds from before is refused and nothing happens: the scopes of a frame, the children of a
  variable, assignments, restarting a frame, step-in targets, the pending goto.
\<close>

theorem no_reference_outlives_stop:
  assumes "reset_clears ht" "resumes ll ta ra sa va ht s t"
  shows "stale ll ra va sa ht t"
  using assms(2)
proof cases
  case (steps_in i u)
  then obtain thread where "thread_by_tid ll (world s) (as_u64 (sti_thread_id i)) = Some thread"
    by (cases "thread_by_tid ll (world s) (as_u64 (sti_thread_id i))") (simp_all add: handle_step_in_def)
  from step_in_drops [OF steps_in this] assms(1) show ?thesis
    by (intro stale_if) (simp_all add: dropped_def reset_clears_def)
qed (rule resume_continue.stale_rejected [OF assms(1)] resume_over.stale_rejected [OF assms(1)]
      resume_out.stale_rejected [OF assms(1)] resume_back.stale_rejected [OF assms(1)]
      resume_reverse.stale_rejected [OF assms(1)]; assumption)+

definition reasons_stable :: "'w thread_api \<Rightarrow> 'w run_api \<Rightarrow> bool" where
  "reasons_stable ta ra \<longleftrightarrow> (\<forall>th w x.
     stop_reason ta (set_selected_thread ra th w) x = stop_reason ta w x
     \<and> stop_reason_data ta (set_selected_thread ra th w) x = stop_reason_data ta w x)"

lemma select_stopped:
  assumes stable: "reasons_stable ta ra"
  shows "\<exists>thread s'. select_stopped_thread ll ta ra s = (Ok thread, s')
    \<and> (\<forall>x. stop_reason ta (world s') x = stop_reason ta (world s) x
          \<and> stop_reason_data ta (world s') x = stop_reason_data ta (world s) x)
    \<and> thread \<in> insert (selected_thread ll (world s)) (set (process_threads ll (world s)))
    \<and> (is_valid_reason (stop_reason ta (world s) (selected_thread ll (world s))) \<longrightarrow>
          thread = selected_thread ll (world s) \<and> s' = s)
    \<and> ((\<exists>x \<in> set (process_threads ll (world s)). is_valid_reason (stop_reason ta (world s) x)) \<longrightarrow>
          is_valid_reason (stop_reason ta (world s) thread))"
proof (cases "is_valid_reason (stop_reason ta (world s) (selected_thread ll (world s)))")
  case True
  then show ?thesis by (simp add: select_stopped_thread_def res_simps)
next
  case invalid: False
  show ?thesis
  proof (cases "find (\<lambda>t. is_valid_reason (stop_reason ta (world s) t)) (process_threads ll (world s))")
    case None
    then have "\<forall>x \<in> set (process_threads ll (world s)). \<not> is_valid_reason (stop_reason ta (world s) x)"
      by (auto simp: find_None_iff)
    with None invalid show ?thesis by (auto simp: select_stopped_thread_def res_simps)
  next
    case (Some thread)
    then have "thread \<in> set (process_threads ll (world s))" "is_valid_reason (stop_reason ta (world s) thread)"
      by (auto simp: find_Some_iff)
    with Some invalid stable show ?thesis
      by (simp add: select_stopped_thread_def res_simps modify_world_def reasons_stable_def)
  qed
qed

text \<open>
  C9 (the stop that is reported).  A stop is reported by one last event about the selected thread, or, if
  that has no reason to be stopped, about one that has, as long as there is one; it carries the ids
  of the breakpoint that was hit.
\<close>

theorem stop_is_reported:
  assumes stable: "reasons_stable ta ra" and run: "notify_process_stopped ll ta ra s = (r, t)"
  shows "\<exists>thread body. r = Ok () \<and> last (outbox t) = MEvent (Ev_stopped body)
    \<and> sp_thread_id body = Some (tid_i64 (thread_tid ll thread))
    \<and> thread \<in> insert (selected_thread ll (world s)) (set (process_threads ll (world s)))
    \<and> (is_valid_reason (stop_reason ta (world s) (selected_thread ll (world s))) \<longrightarrow>
          thread = selected_thread ll (world s) \<and> world t = world s)
    \<and> ((\<exists>x \<in> set (process_threads ll (world s)). is_valid_reason (stop_reason ta (world s) x)) \<longrightarrow>
          is_valid_reason (stop_reason ta (world s) thread))
    \<and> (stop_reason ta (world s) thread = SrBreakpoint \<longrightarrow>
          sp_reason body = ''breakpoint'' \<and> sp_hit_breakpoint_ids body = [sint (stop_reason_data ta (world s) thread)])"
proof -
  obtain thread s' where sel: "select_stopped_thread ll ta ra s = (Ok thread, s')"
    and same: "\<forall>x. stop_reason ta (world s') x = stop_reason ta (world s) x
          \<and> stop_reason_data ta (world s') x = stop_reason_data ta (world s) x"
    and th: "thread \<in> insert (selected_thread ll (world s)) (set (process_threads ll (world s)))"
      "is_valid_reason (stop_reason ta (world s) (selected_thread ll (world s))) \<longrightarrow>
         thread = selected_thread ll (world s) \<and> s' = s"
      "(\<exists>x \<in> set (process_threads ll (world s)). is_valid_reason (stop_reason ta (world s) x)) \<longrightarrow>
          is_valid_reason (stop_reason ta (world s) thread)"
    using select_stopped [OF stable, of ll s] by blast
  let ?body = "stopped_body_of ll ta (world s') thread"
  from run sel have "r = Ok ()" "last (outbox t) = MEvent (Ev_stopped ?body)" "world t = world s'"
    by (auto simp: notify_process_stopped_def res_simps session_defs split: option.splits)
  moreover have "sp_thread_id ?body = Some (tid_i64 (thread_tid ll thread))"
    "stop_reason ta (world s) thread = SrBreakpoint \<Longrightarrow> sp_reason ?body = ''breakpoint''
       \<and> sp_hit_breakpoint_ids ?body = [sint (stop_reason_data ta (world s) thread)]"
    by (simp_all add: stopped_body_of_def Let_def split_beta same)
  ultimately show ?thesis using th by blast
qed

section \<open>Properties: stepping in\<close>

lemma add_targets:
  "forS (add_step_in_target sa pc stop) fns s =
     (Ok (map2 (\<lambda>k f. \<lparr>sit_id = int k, sit_label = function_display_name sa f\<rparr>)
        [length (step_in_targets s)..<length (step_in_targets s) + length fns] fns),
      s\<lparr>step_in_targets := step_in_targets s @ map (\<lambda>f. \<lparr>target_fn = f, stmt_start = pc, stmt_end = stop\<rparr>) fns\<rparr>)"
  (is "?run fns s")
proof (induction fns arbitrary: s)
  case (Cons f fns)
  let ?t = "s\<lparr>step_in_targets := step_in_targets s @ [\<lparr>target_fn = f, stmt_start = pc, stmt_end = stop\<rparr>]\<rparr>"
  have "[length (step_in_targets s)..<length (step_in_targets s) + length (f # fns)]
      = length (step_in_targets s) # [length (step_in_targets ?t)..<length (step_in_targets ?t) + length fns]"
    by (simp add: upt_rec)
  with Cons.IH [of ?t] show ?case
    by (simp add: add_step_in_target_def bindS_def thenS_def getS_def modifyS_def returnS_def)
qed (simp add: returnS_def)

lemma add_target_fns:
  assumes "f \<in> set (fold (add_target_fn ll sa w) instrs fns)"
  shows "f \<in> set fns \<or> function_valid sa f \<and> function_start_entry sa f \<noteq> None
    \<and> (\<exists>i \<in> set instrs. is_call (control_flow_kind ll sa w i) \<and> call_target_function ll sa w i = Ok f)"
  using assms
proof (induction instrs arbitrary: fns)
  case (Cons i instrs)
  from Cons.IH [of "add_target_fn ll sa w i fns"] Cons.prems show ?case
    by (auto simp: add_target_fn_def split: res.splits if_splits)
qed simp

lemma add_target_fns_distinct: "distinct fns \<Longrightarrow> distinct (fold (add_target_fn ll sa w) instrs fns)"
  by (induction instrs arbitrary: fns) (auto simp: add_target_fn_def split: res.splits)

text \<open>
  Step-in targets.  The targets offered for a frame are functions with line information, each
  called by an instruction of the statement from the current one on, no function twice.  The id of
  each names it: a step-in request with that id steps into that function, within that statement.  The
  ids given out before stay as they are.
\<close>

theorem step_in_targets_named:
  assumes run: "handle_step_in_targets ll sa ht frame_id s = (Ok targets, t)"
    and room: "length (step_in_targets t) < 2 ^ 63"
  shows "\<exists>frame fns stop. ht_get ht (var_refs s) frame_id = Some (CStackFrame frame) \<and> distinct fns
    \<and> (\<forall>f \<in> set fns. function_valid sa f \<and> function_start_entry sa f \<noteq> None
        \<and> (\<exists>i \<in> set (statement_instructions ll sa (world s) frame stop).
             is_call (control_flow_kind ll sa (world s) i) \<and> call_target_function ll sa (world s) i = Ok f))
    \<and> length targets = length fns
    \<and> (\<forall>k < length fns. sit_label (targets ! k) = function_display_name sa (fns ! k)
        \<and> chosen_target (step_in_targets t) (Some (sit_id (targets ! k)))
            = Some \<lparr>target_fn = fns ! k, stmt_start = frame_pc ll (world s) frame, stmt_end = stop\<rparr>)
    \<and> (\<forall>j < length (step_in_targets s).
        chosen_target (step_in_targets t) (Some (int j)) = Some (step_in_targets s ! j))"
proof -
  from run obtain frame le cu where frame: "ht_get ht (var_refs s) frame_id = Some (CStackFrame frame)"
    and adds: "forS (add_step_in_target sa (frame_pc ll (world s) frame) (max_end_addr ll sa (world s) cu le))
      (fold (add_target_fn ll sa (world s)) (statement_instructions ll sa (world s) frame
         (max_end_addr ll sa (world s) cu le)) []) s = (Ok targets, t)"
    by (auto simp: handle_step_in_targets_def bindS_Ok getS_def failS_def liftS_def Let_def
        split: option.splits container.splits)
  let ?stop = "max_end_addr ll sa (world s) cu le" and ?pc = "frame_pc ll (world s) frame"
  define fns where "fns = fold (add_target_fn ll sa (world s)) (statement_instructions ll sa (world s) frame ?stop) []"
  let ?n = "length (step_in_targets s)"
  from adds have targets: "targets = map2 (\<lambda>k f. \<lparr>sit_id = int k, sit_label = function_display_name sa f\<rparr>)
        [?n..<?n + length fns] fns"
    and t: "step_in_targets t = step_in_targets s @ map (\<lambda>f. \<lparr>target_fn = f, stmt_start = ?pc, stmt_end = ?stop\<rparr>) fns"
    by (auto simp: add_targets fns_def)
  have id: "chosen_target (step_in_targets t) (Some (int j)) = Some (step_in_targets t ! j)"
    if "j < length (step_in_targets t)" for j
  proof -
    have "j < 2 ^ 64" using that room by simp
    then have "unat (as_u64 (int j)) = j" by (simp add: as_u64_def unat_of_nat)
    with that show ?thesis by (simp add: chosen_target_def)
  qed
  have "distinct fns" by (simp add: fns_def add_target_fns_distinct)
  moreover have "function_valid sa f \<and> function_start_entry sa f \<noteq> None
        \<and> (\<exists>i \<in> set (statement_instructions ll sa (world s) frame ?stop).
             is_call (control_flow_kind ll sa (world s) i) \<and> call_target_function ll sa (world s) i = Ok f)"
    if "f \<in> set fns" for f
    using add_target_fns [OF that [unfolded fns_def]] by simp
  moreover have "sit_label (targets ! k) = function_display_name sa (fns ! k)
        \<and> chosen_target (step_in_targets t) (Some (sit_id (targets ! k)))
            = Some \<lparr>target_fn = fns ! k, stmt_start = ?pc, stmt_end = ?stop\<rparr>" if "k < length fns" for k
  proof -
    from that have "targets ! k = \<lparr>sit_id = int (?n + k), sit_label = function_display_name sa (fns ! k)\<rparr>"
      by (simp add: targets)
    moreover have "step_in_targets t ! (?n + k) = \<lparr>target_fn = fns ! k, stmt_start = ?pc, stmt_end = ?stop\<rparr>"
      using that by (simp add: t nth_append)
    ultimately show ?thesis using that id [of "?n + k"] by (simp add: t)
  qed
  moreover have "chosen_target (step_in_targets t) (Some (int j)) = Some (step_in_targets s ! j)" if "j < ?n" for j
    using that id [of j] by (simp add: t nth_append)
  moreover have "length targets = length fns" by (simp add: targets)
  ultimately show ?thesis using frame by blast
qed

text \<open>The loop ends when every round that goes on lowers a measure.\<close>

lemma step_loop_returns:
  assumes down: "\<And>s t. m s = (Ok False, t) \<Longrightarrow> (mu t :: nat) < mu s"
  shows "step_loop m s \<noteq> None"
proof (induction "mu s" arbitrary: s rule: less_induct)
  case less
  obtain r t where m: "m s = (r, t)" by fastforce
  show ?case
  proof (cases "r = Ok False")
    case True
    with m less [OF down, of t] show ?thesis by (subst step_loop.simps) simp
  next
    case False
    with m show ?thesis by (subst step_loop.simps) (simp split: res.split)
  qed
qed

lemma step_loop_Ok:
  assumes "step_loop m s = Some (Ok (), t)"
  shows "\<exists>u. m u = (Ok True, t)"
proof -
  have "fst (Ok () :: (err, unit) res, t) = Ok () \<longrightarrow> (\<exists>u. m u = (Ok True, snd (Ok () :: (err, unit) res, t)))"
    by (rule step_loop_induct [OF assms, where Q = "\<lambda>s y. fst y = Ok () \<longrightarrow> (\<exists>u. m u = (Ok True, snd y))"]) auto
  then show ?thesis by simp
qed

text \<open>
  What stops a step-in that does not find its function: the client cancels it, at the latest after a
  number of rounds; stepping does not put that off.
\<close>

definition cancelled_in_time :: "'w value_api \<Rightarrow> 'w run_api \<Rightarrow> ('w \<Rightarrow> nat) \<Rightarrow> bool" where
  "cancelled_in_time va ra budget \<longleftrightarrow>
     (\<forall>w. fst (poll_cancelled va w) \<or> budget (snd (poll_cancelled va w)) < budget w)
     \<and> (\<forall>thread mode w. budget (snd (step_into ra thread mode w)) \<le> budget w)
     \<and> (\<forall>thread w. budget (snd (step_out ra thread w)) \<le> budget w)"

lemma try_world_Ok: "try_world f s = (Ok x, t) \<Longrightarrow> world t = snd (f (world s))"
  by (auto simp: try_world_def bindS_Ok call_world_def liftS_def split: prod.splits)

lemma step_round_budget:
  assumes "cancelled_in_time va ra budget" "step_round ll ta ra sa va thread start target s = (Ok False, t)"
  shows "budget (world t) < budget (world s)"
proof -
  obtain c w where p: "poll_cancelled va (world s) = (c, w)" by fastforce
  let ?s = "s\<lparr>world := w\<rparr>"
  from assms(2) p have "\<not> c" and moved: "try_world (step_into ra thread OnlyThisThread) ?s = (Ok (), t)
      \<or> try_world (step_out ra thread) ?s = (Ok (), t)"
    by (auto simp: step_round_def bindS_Ok call_world_def getS_def returnS_def failS_def thenS_def Let_def
        split: if_splits option.splits nat.splits)
  then have "budget w < budget (world s)" using assms(1) p unfolding cancelled_in_time_def by (metis fst_conv snd_conv)
  moreover have "budget (world t) \<le> budget w"
    using moved assms(1) by (auto simp: cancelled_in_time_def dest!: try_world_Ok)
  ultimately show ?thesis by simp
qed

text \<open>
  C8 (a step-in ends).  A step-in request returns, whether it finds the function or not, if the client
  cancels it in time; however it returns, unless it panics, LLDB is back in asynchronous mode, and if
  stepping into the target is a success the debuggee stands in the chosen function.
\<close>

theorem step_in_ends:
  assumes "cancelled_in_time va ra budget"
  shows "(\<exists>r t. handle_step_in ll ta ra sa va ht args s = Some (r, t))
    \<and> (\<forall>r t. step_into_target ll ta ra sa va thread target u = Some (r, t) \<longrightarrow> v16 sa = Ok () \<longrightarrow> r \<noteq> Panic \<longrightarrow>
        (\<exists>w. world t = set_async_mode ll True w
           \<and> (r = Ok () \<longrightarrow> frame_function sa w (frame_at ll w thread 0) = target_fn target)))"
proof
  have loop: "step_loop (step_round ll ta ra sa va thread start target) s \<noteq> None" for thread start target s
    by (rule step_loop_returns [where mu = "budget \<circ> world"]) (simp add: step_round_budget [OF assms])
  have returns: "(step_into_target ll ta ra sa va thread target s = None) = False" for thread target s
    using loop
    by (auto simp: step_into_target_def with_sync_mode_def step_into_target_body_def split: res.split prod.split)
  show "\<exists>r t. handle_step_in ll ta ra sa va ht args s = Some (r, t)"
    by (auto simp: handle_step_in_def Let_def returns split: option.split res.split prod.split)
next
  have "frame_function sa (world v) (frame_at ll (world v) thread 0) = target_fn target"
    if "step_loop (step_round ll ta ra sa va thread start target) s = Some (Ok (), v)" for start s v
    using step_loop_Ok [OF that]
    by (auto simp: step_round_def bindS_Ok call_world_def getS_def returnS_def failS_def thenS_def Let_def
        split: if_splits option.splits nat.splits)
  then have body: "frame_function sa (world v) (frame_at ll (world v) thread 0) = target_fn target"
    if "step_into_target_body ll ta ra sa va thread target s = Some (Ok (), v)" for s v
    using that by (auto simp: step_into_target_body_def split: res.splits prod.splits)
  have "\<exists>w. world t = set_async_mode ll True w
         \<and> (r = Ok () \<longrightarrow> frame_function sa w (frame_at ll w thread 0) = target_fn target)"
    if run: "step_into_target ll ta ra sa va thread target u = Some (r, t)" "v16 sa = Ok ()" "r \<noteq> Panic" for r t
  proof -
    from run(1,2) obtain v where v: "step_into_target_body ll ta ra sa va thread target
        (u\<lparr>world := set_async_mode ll False (world u)\<rparr>) = Some (r, v)" and t: "t = back_to_async ll r v"
      by (auto simp: step_into_target_def with_sync_mode_Some)
    from t run(3) have "world t = set_async_mode ll True (world v)" by (cases r) (simp_all add: back_to_async_def)
    with body v show ?thesis by auto
  qed
  then show "\<forall>r t. step_into_target ll ta ra sa va thread target u = Some (r, t) \<longrightarrow> v16 sa = Ok () \<longrightarrow> r \<noteq> Panic \<longrightarrow>
        (\<exists>w. world t = set_async_mode ll True w
           \<and> (r = Ok () \<longrightarrow> frame_function sa w (frame_at ll w thread 0) = target_fn target))"
    by blast
qed

section \<open>Witnesses\<close>

text \<open>A debuggee that a number stands for: how often the client will look before it cancels.\<close>

definition demo_run :: "nat run_api" where
  "demo_run = \<lparr>run_stop = (\<lambda>w. (Ok (), w)), run_resume = (\<lambda>w. (Ok (), w)),
     step_instruction = (\<lambda>_ _ w. (Ok (), w)), step_over = (\<lambda>_ _ w. (Ok (), w)), step_into = (\<lambda>_ _ w. (Ok (), w)),
     step_out = (\<lambda>_ w. (Ok (), w)), return_from_frame = (\<lambda>_ _ w. (Ok (), w)),
     jump_to_line = (\<lambda>_ _ _ w. (Ok (), w)), set_pc = (\<lambda>_ _ w. (True, w)), first_thread = (\<lambda>_. 1),
     set_selected_thread = (\<lambda>_ w. w), exit_status = (\<lambda>_. 0)\<rparr>"

definition demo_step_lldb :: "nat lldb" where
  "demo_step_lldb = tiny_lldb\<lparr>frame_line_entry := (\<lambda>_ _. Some 1), dasm_now := (\<lambda>_. tiny_api
     \<lparr>read_instructions := (\<lambda>_ _ _. [16, 18]), instr_operands := (\<lambda>_. ''0x20'')\<rparr>)\<rparr>"

definition demo_steps :: "nat step_api" where
  "demo_steps = \<lparr>frame_compile_unit = (\<lambda>_ _. Some 0), frame_function = (\<lambda>_ _. 0), unit_line_entries = (\<lambda>_. [1]),
     entry_start = (\<lambda>_ _. 0), entry_end = (\<lambda>_ _. 17), address_function = (\<lambda>_ a. Some a),
     address_offset = (\<lambda>a _. a), function_valid = (\<lambda>_. True), function_start_entry = (\<lambda>_. Some 1),
     function_display_name = (\<lambda>_. ''g''), instr_control_flow = (\<lambda>_. CfCall), instr_valid = (\<lambda>_. True),
     invalid_instr = 0, read_target_memory = (\<lambda>_ _ _. Ok []), parse_u64 = (\<lambda>_. Ok 32), v16 = Ok ()\<rparr>"

definition demo_stopped :: "(nat, demo_tree) session" where
  "demo_stopped = tiny_session 3 [(None, ''frame'', CStackFrame 5), (None, ''v'', CSBValue 1)]"

definition demo_patience :: "nat value_api" where
  "demo_patience = demo_values\<lparr>poll_cancelled := (\<lambda>w. (w = 0, w - 1))\<rparr>"

theorem no_reference_outlives_stop_witness:
  "\<exists>t. resumes demo_step_lldb demo_threads demo_run demo_steps demo_patience demo_handles demo_stopped t
     \<and> is_ok (fst (handle_scopes demo_handles 1 demo_stopped)) \<and> is_err (fst (handle_scopes demo_handles 1 t))"
proof -
  obtain t where run: "handle_continue demo_step_lldb demo_run demo_handles 1 demo_stopped = (Ok True, t)"
    by (simp add: handle_continue_def before_resume_def demo_run_def call_world_def res_simps)
  have "reset_clears demo_handles" by (auto simp: reset_clears_def demo_handles_def demo_info_def)
  from no_reference_outlives_stop [OF this continues [OF run]]
  have "stale demo_step_lldb demo_run demo_patience demo_steps demo_handles t" .
  moreover have "is_ok (fst (handle_scopes demo_handles 1 demo_stopped))"
    by (simp add: handle_scopes_def create_scope_def demo_stopped_def tiny_session_def demo_handles_def
        demo_info_def demo_create_ref_def res_simps)
  ultimately show ?thesis using continues [OF run] unfolding stale_def by blast
qed

theorem stop_is_reported_witness:
  "\<exists>body. last (outbox (snd (notify_process_stopped demo_step_lldb demo_threads demo_run demo_stopped)))
     = MEvent (Ev_stopped body) \<and> sp_hit_breakpoint_ids body = [1]"
proof -
  have "reasons_stable demo_threads demo_run" by (simp add: reasons_stable_def demo_run_def)
  from stop_is_reported [OF this surjective_pairing, of demo_step_lldb demo_stopped] show ?thesis
    by (auto simp: demo_threads_def)
qed

theorem step_in_targets_named_witness:
  "\<exists>t. handle_step_in_targets demo_step_lldb demo_steps demo_handles 1 demo_stopped
         = (Ok [\<lparr>sit_id = 0, sit_label = ''g''\<rparr>], t)
     \<and> chosen_target (step_in_targets t) (Some 0) \<noteq> None"
proof -
  obtain t where run: "handle_step_in_targets demo_step_lldb demo_steps demo_handles 1 demo_stopped
         = (Ok [\<lparr>sit_id = 0, sit_label = ''g''\<rparr>], t)" and "length (step_in_targets t) = 1"
  proof -
    have container: "ht_get demo_handles (var_refs demo_stopped) 1 = Some (CStackFrame 5)"
      by (simp add: demo_handles_def demo_stopped_def tiny_session_def demo_info_def)
    have call: "call_target_function demo_step_lldb demo_steps w i = Ok 32" for w i
      by (simp add: call_target_function_def instruction_target_address_def demo_step_lldb_def tiny_lldb_def
          tiny_api_def demo_steps_def is_immed_def is_xdigit_def starts_with_def res_simps)
    have stop: "max_end_addr demo_step_lldb demo_steps w cu le = 17" for w cu le
      by (simp add: max_end_addr_def demo_step_lldb_def tiny_lldb_def tiny_api_def demo_steps_def)
    have instrs: "statement_instructions demo_step_lldb demo_steps w f 17 = [16]" for w f
      by (simp add: statement_instructions_def demo_step_lldb_def tiny_lldb_def tiny_api_def)
    have fns: "add_target_fn demo_step_lldb demo_steps w 16 [] = [32]" for w
      using call [of w 16]
      by (simp add: add_target_fn_def is_call_def control_flow_kind_def Let_def demo_steps_def)
    have "frame_line_entry demo_step_lldb w f = Some 1" "frame_compile_unit demo_steps w f = Some 0"
      "v16 demo_steps = Ok ()" "function_display_name demo_steps f = ''g''" for w f
      by (simp_all add: demo_step_lldb_def demo_steps_def)
    then show ?thesis
      using that [of "demo_stopped\<lparr>step_in_targets := [\<lparr>target_fn = 32, stmt_start = 5, stmt_end = 17\<rparr>]\<rparr>"]
      by (simp add: handle_step_in_targets_def container stop instrs fns res_simps add_step_in_target_def)
        (simp add: demo_stopped_def tiny_session_def demo_step_lldb_def tiny_lldb_def)
  qed
  then show ?thesis using step_in_targets_named [OF run] by fastforce
qed

theorem step_in_ends_witness:
  "\<exists>r t. handle_step_in demo_step_lldb demo_threads demo_run demo_steps demo_patience demo_handles
      \<lparr>sti_thread_id = 1, sti_target_id = Some 0, sti_granularity = Some SgLine\<rparr> demo_stopped = Some (r, t)"
proof -
  have "cancelled_in_time demo_patience demo_run (\<lambda>w. w)"
    by (auto simp: cancelled_in_time_def demo_patience_def demo_run_def)
  from step_in_ends [OF this] show ?thesis by blast
qed

end
