(* ===== verification/Debug_Events.thy ===== *)
theory Debug_Events
  imports Execution
begin

text \<open>
  What the session does with the events of LLDB: \<open>handle_debug_event\<close> and the handlers it calls in
  \<open>src/codelldb/src/debug_session.rs\<close>.
\<close>

section \<open>Modules\<close>

text \<open>What is asked of a module; a file spec is its path and its file name.\<close>

record 'w module_api =
  module_header_valid :: "'w \<Rightarrow> nat \<Rightarrow> bool"
  module_header_load :: "'w \<Rightarrow> nat \<Rightarrow> u64"
  module_path :: "nat \<Rightarrow> string"
  module_filename :: "nat \<Rightarrow> string"
  module_version :: "nat \<Rightarrow> u32 list"
  module_sections :: "'w \<Rightarrow> nat \<Rightarrow> (u64 \<times> u64) list"
  module_num_compile_units :: "nat \<Rightarrow> nat"
  module_num_symbols :: "nat \<Rightarrow> nat"
  module_symbol_file :: "nat \<Rightarrow> string option"

definition module_id :: "'w module_api \<Rightarrow> 'w \<Rightarrow> nat \<Rightarrow> string" where
  "module_id ma w m =
     (if module_header_valid ma w m then show_hex (unat (module_header_load ma w m)) else module_path ma m)"

text \<open>The end of the address range, over the sections that are loaded: their load address and size.\<close>

definition sections_end :: "u64 \<Rightarrow> (u64 \<times> u64) list \<Rightarrow> u64" where
  "sections_end range_start sections =
     fold (\<lambda>(start, size) range_end. if start \<noteq> - 1 then max range_end (start + size) else range_end)
       sections range_start"

fun join :: "string \<Rightarrow> string list \<Rightarrow> string" where
  "join separator [] = []"
| "join separator [x] = x"
| "join separator (x # xs) = x @ separator @ join separator xs"

definition default_module_body :: "string \<Rightarrow> module_body" where
  "default_module_body i = \<lparr>md_id = i, md_name = [], md_path = None, md_version = None,
     md_address_range = None, md_symbol_status = None, md_symbol_file_path = None\<rparr>"

definition make_module_detail :: "'w module_api \<Rightarrow> 'w \<Rightarrow> nat \<Rightarrow> module_body" where
  "make_module_detail ma w m =
     (let range_start = module_header_load ma w m;
          range_end = sections_end range_start (module_sections ma w m) in
      \<lparr>md_id = module_id ma w m, md_name = module_filename ma m, md_path = Some (module_path ma m),
       md_version = (if module_version ma m = [] then None
         else Some (join ''.'' (map (\<lambda>n. show_nat (unat n)) (module_version ma m)))),
       md_address_range = Some (show_hex (unat range_start) @ '' - '' @ show_hex (unat range_end)),
       md_symbol_status = Some
         (if 0 < module_num_compile_units ma m then ''Source debug info''
          else if 0 < module_num_symbols ma m then ''Public symbols only'' else ''No symbols''),
       md_symbol_file_path = module_symbol_file ma m\<rparr>)"

section \<open>Target events\<close>

datatype target_event_type = TeModulesLoaded | TeSymbolsLoaded | TeModulesUnloaded | TeOther

definition send_modules ::
  "module_reason \<Rightarrow> ('w \<Rightarrow> nat \<Rightarrow> module_body) \<Rightarrow> nat list \<Rightarrow> ('w, 'h, unit) handler" where
  "send_modules reason detail modules =
     bindS (forS (\<lambda>m. bindS (getS (\<lambda>s. detail (world s) m)) (\<lambda>body. send_event (Ev_module reason body))) modules)
       (\<lambda>_. returnS ())"

definition handle_target_event ::
  "'w module_api \<Rightarrow> target_event_type list \<Rightarrow> nat list \<Rightarrow> ('w, 'h, unit) handler" where
  "handle_target_event ma event_type modules =
     (if TeModulesLoaded \<in> set event_type then send_modules MrNew (make_module_detail ma) modules
      else if TeSymbolsLoaded \<in> set event_type then send_modules MrChanged (make_module_detail ma) modules
      else if TeModulesUnloaded \<in> set event_type then
        send_modules MrRemoved (\<lambda>w m. default_module_body (module_id ma w m)) modules
      else returnS ())"

section \<open>Process events\<close>

text \<open>
  \<open>read_stdout\<close> and \<open>read_stderr\<close> fill a buffer of the given size and return what was read;
  \<open>from_utf8_lossy\<close> is that of the standard library.
\<close>

record 'w stream_api =
  read_stdout :: "nat \<Rightarrow> 'w \<Rightarrow> u8 list \<times> 'w"
  read_stderr :: "nat \<Rightarrow> 'w \<Rightarrow> u8 list \<times> 'w"
  from_utf8_lossy :: "u8 list \<Rightarrow> string"

datatype process_event_type = PeStateChanged | PeStdout | PeStderr | PeOther

record process_event =
  pe_types :: "process_event_type list"
  pe_state :: process_state
  pe_restarted :: bool
  pe_restarted_reasons :: "string list"

text \<open>The loop that passes the output on; \<open>None\<close> when it never ends.\<close>

partial_function (option) drain_loop ::
  "(u8 list \<Rightarrow> string) \<Rightarrow> (nat \<Rightarrow> 'w \<Rightarrow> u8 list \<times> 'w) \<Rightarrow> string \<Rightarrow> ('w, 'h) session \<Rightarrow> ('w, 'h) session option" where
  "drain_loop lossy read_stream category s =
     (let (buffer, w) = read_stream 1024 (world s) in
      if buffer = [] then Some (s\<lparr>world := w\<rparr>)
      else drain_loop lossy read_stream category
        (s\<lparr>world := w, outbox := outbox s @ [MEvent (Ev_output (Some category) (lossy buffer))]\<rparr>))"

definition pump_output ::
  "'w stream_api \<Rightarrow> process_event_type list \<Rightarrow> ('w, 'h) session \<Rightarrow> ('w, 'h) session option" where
  "pump_output st event_type s =
     (if PeStdout \<in> set event_type then drain_loop (from_utf8_lossy st) (read_stdout st) ''stdout'' s
      else if PeStderr \<in> set event_type then drain_loop (from_utf8_lossy st) (read_stderr st) ''stderr'' s
      else Some s)"

definition handle_state_change ::
  "'w lldb \<Rightarrow> 'w thread_api \<Rightarrow> 'w run_api \<Rightarrow> process_event \<Rightarrow> ('w, 'h, unit) handler" where
  "handle_state_change ll ta ra event =
     (case pe_state event of
        PsRunning \<Rightarrow> notify_process_running ll ra
      | PsStepping \<Rightarrow> notify_process_running ll ra
      | PsAttaching \<Rightarrow> notify_process_running ll ra
      | PsLaunching \<Rightarrow> notify_process_running ll ra
      | PsStopped \<Rightarrow>
          if pe_restarted event
          then bindS (forS console_message (pe_restarted_reasons event)) (\<lambda>_. returnS ())
          else notify_process_stopped ll ta ra
      | PsCrashed \<Rightarrow> notify_process_stopped ll ta ra
      | PsSuspended \<Rightarrow> notify_process_stopped ll ta ra
      | PsExited \<Rightarrow> notify_process_terminated ll ra
      | PsDetached \<Rightarrow> notify_process_terminated ll ra
      | PsInvalid \<Rightarrow> returnS ()
      | PsUnloaded \<Rightarrow> returnS ()
      | PsConnected \<Rightarrow> returnS ())"

definition handle_process_event ::
  "'w lldb \<Rightarrow> 'w thread_api \<Rightarrow> 'w run_api \<Rightarrow> 'w stream_api \<Rightarrow> process_event \<Rightarrow>
     ('w, 'h) session \<Rightarrow> ('w, 'h) session option" where
  "handle_process_event ll ta ra st event s =
     pump_output st (pe_types event)
       (if PeStateChanged \<in> set (pe_types event) then snd (handle_state_change ll ta ra event s) else s)"

section \<open>Thread and diagnostic events\<close>

datatype thread_event_type = ThSelectedFrameChanged | ThOther

definition handle_thread_event :: "thread_event_type list \<Rightarrow> ('w, 'h, unit) handler" where
  "handle_thread_event event_type =
     (if ThSelectedFrameChanged \<in> set event_type then modifyS (\<lambda>s. s\<lparr>selected_frame_changed := True\<rparr>)
      else returnS ())"

definition handle_diagnostic_event :: "string \<Rightarrow> string \<Rightarrow> ('w, 'h, unit) handler" where
  "handle_diagnostic_event diag_type message = console_message (diag_type @ '': '' @ message)"

section \<open>Dispatch\<close>

text \<open>An event, by the first of the conversions that succeeds on it.\<close>

datatype debug_event =
    DeProcess process_event
  | DeTarget "target_event_type list" "nat list"
  | DeBreakpoint nat "breakpoint_event_type list"
  | DeThread "thread_event_type list"
  | DeDiagnostic string string
  | DeUnknown

definition handle_debug_event ::
  "'w lldb \<Rightarrow> 'w bp_api \<Rightarrow> 'w thread_api \<Rightarrow> 'w run_api \<Rightarrow> 'w module_api \<Rightarrow> 'w stream_api \<Rightarrow> bool \<Rightarrow>
     debug_event \<Rightarrow> ('w, 'h) session \<Rightarrow> ('w, 'h) session option" where
  "handle_debug_event ll api ta ra ma st v15 event s =
     (case event of
        DeProcess process_event \<Rightarrow> handle_process_event ll ta ra st process_event s
      | DeTarget event_type modules \<Rightarrow> Some (snd (handle_target_event ma event_type modules s))
      | DeBreakpoint bp event_type \<Rightarrow> Some (snd (handle_breakpoint_event ll api bp event_type s))
      | DeThread event_type \<Rightarrow> Some (snd (handle_thread_event event_type s))
      | DeDiagnostic diag_type message \<Rightarrow>
          Some (if v15 then snd (handle_diagnostic_event diag_type message s) else s)
      | DeUnknown \<Rightarrow> Some s)"

end
