(* ===== verification/Inspect.thy ===== *)
theory Inspect
  imports Debug_Events Variables
begin

text \<open>
  The requests of \<open>src/codelldb/src/debug_session.rs\<close> that look at the debuggee: threads and their stacks,
  disassembled source, modules, symbols, exceptions, completions, and the lookup of data breakpoints.
\<close>

section \<open>What is asked of LLDB\<close>

record 'w inspect_api =
  thread_name :: "'w \<Rightarrow> nat \<Rightarrow> string option"
  frame_function_name :: "'w \<Rightarrow> nat \<Rightarrow> string option"
  frame_module :: "'w \<Rightarrow> nat \<Rightarrow> nat option"
  addr_file_address :: "nat \<Rightarrow> u64"
  module_at_index :: "'w \<Rightarrow> u32 \<Rightarrow> nat option"
  num_modules :: "'w \<Rightarrow> nat"
  complete_command :: "string \<Rightarrow> u32 \<Rightarrow> 'w \<Rightarrow> string list option"
  is_alphabetic :: "string \<Rightarrow> bool"
  stop_reason_name :: "stop_reason \<Rightarrow> string"
  target_modules :: "'w \<Rightarrow> nat list"
  module_symbols :: "'w \<Rightarrow> nat \<Rightarrow> nat list"
  symbol_start_address :: "'w \<Rightarrow> nat \<Rightarrow> nat option"
  symbol_size :: "nat \<Rightarrow> u64"
  symbol_type_name :: "nat \<Rightarrow> string"
  addr_module :: "'w \<Rightarrow> nat \<Rightarrow> nat option"
  fuzzy_match :: "string \<Rightarrow> string \<Rightarrow> bool"
  val_byte_size :: "'w \<Rightarrow> nat \<Rightarrow> u64"
  frame_find_value :: "'w \<Rightarrow> nat \<Rightarrow> string \<Rightarrow> value_type \<Rightarrow> nat option"
  address_byte_size :: "'w \<Rightarrow> u32"
  load_address_valid :: "'w \<Rightarrow> u64 \<Rightarrow> bool"
  parse_hex_u64 :: "string \<Rightarrow> (string, u64) res"

section \<open>Threads\<close>

definition describe_thread :: "'w lldb \<Rightarrow> 'w inspect_api \<Rightarrow> 'w \<Rightarrow> nat \<Rightarrow> thread_body" where
  "describe_thread ll ia w thread =
     \<lparr>tb_id = tid_i64 (thread_tid ll thread),
      tb_name = show_nat (unat (thread_index_id ll thread)) @ '': tid='' @ show_nat (unat (thread_tid ll thread))
        @ (case thread_name ia w thread of Some n \<Rightarrow> '' '' @ CHR 0x22 # n @ [CHR 0x22] | None \<Rightarrow> [])\<rparr>"

definition handle_threads :: "'w lldb \<Rightarrow> 'w inspect_api \<Rightarrow> ('w, 'h, thread_body list) handler" where
  "handle_threads ll ia =
     bindS (getS world) (\<lambda>w.
       let threads = map (describe_thread ll ia w) (process_threads ll w) in
       returnS (if threads = [] \<and> is_running (process_state_of ll w)
                then [\<lparr>tb_id = 0, tb_name = []\<rparr>] else threads))"

section \<open>Stacks\<close>

definition default_stack_frame :: stack_frame where
  "default_stack_frame = \<lparr>sf_id = 0, sf_instruction_pointer_reference = None, sf_name = [], sf_module_id = None,
     sf_line = 0, sf_column = 0, sf_source = None, sf_subtle = False\<rparr>"

text \<open>Where a frame is: a line of a local file.\<close>

definition source_location :: "'w lldb \<Rightarrow> nat \<Rightarrow> stack_frame \<Rightarrow> ('w, 'h, stack_frame) handler" where
  "source_location ll frame body =
     bindS (getS world) (\<lambda>w.
       case frame_line_entry ll w frame of
         None \<Rightarrow> returnS body
       | Some le \<Rightarrow>
           bindS (map_filespec_to_local ll (entry_filespec ll w le)) (\<lambda>local_path.
             case local_path of
               None \<Rightarrow> returnS body
             | Some path \<Rightarrow>
                 bindS (liftS (unwrap (path_file_name path))) (\<lambda>name. returnS
                   (body\<lparr>sf_line := uint (entry_line (dasm_now ll w) le),
                      sf_column := uint (entry_column (dasm_now ll w) le),
                      sf_source := Some (default_source\<lparr>src_name := Some name, src_path := Some path\<rparr>)\<rparr>))))"

text \<open>Or a line of a disassembly.\<close>

definition disassembly_location :: "'w lldb \<Rightarrow> nat \<Rightarrow> i64 \<Rightarrow> stack_frame \<Rightarrow> ('w, 'h, stack_frame) handler" where
  "disassembly_location ll frame i body =
     bindS (getS (\<lambda>s. (frame_pc ll (world s) frame, 0 < i \<and> show_disassembly s \<noteq> SdAlways))) (\<lambda>(pc, subtle).
     bindS (attemptS (dasm_from_address ll pc)) (\<lambda>r. returnS
       ((case r of
           Ok dasm \<Rightarrow> body\<lparr>sf_line := uint (line_num_by_address dasm pc),
             sf_source := Some (default_source\<lparr>src_name := Some (dr_source_name dasm),
               src_reference := Some (dr_handle dasm), src_origin := Some ''disassembly''\<rparr>)\<rparr>
         | _ \<Rightarrow> body)\<lparr>sf_column := 0, sf_subtle := subtle\<rparr>)))"

definition create_frame_ref :: "'w lldb \<Rightarrow> 'h handle_tree \<Rightarrow> nat \<Rightarrow> i64 \<Rightarrow> nat \<Rightarrow> ('w, 'h, i64) handler" where
  "create_frame_ref ll ht thread i frame s =
     (let key = ''['' @ show_nat (unat (thread_index_id ll thread)) @ '','' @ show_int i @ '']'';
          (handle, refs) = ht_create ht None key (CStackFrame frame) (var_refs s) in
      (Ok handle, s\<lparr>var_refs := refs\<rparr>))"

definition describe_frame ::
  "'w lldb \<Rightarrow> 'w inspect_api \<Rightarrow> 'w module_api \<Rightarrow> 'h handle_tree \<Rightarrow> nat \<Rightarrow> i64 \<Rightarrow> nat \<Rightarrow>
     ('w, 'h, stack_frame) handler" where
  "describe_frame ll ia ma ht thread i frame =
     bindS (create_frame_ref ll ht thread i frame) (\<lambda>handle.
     bindS (getS world) (\<lambda>w.
       let pc_address = frame_pc_address ll w frame;
           body = default_stack_frame
             \<lparr>sf_id := handle,
              sf_instruction_pointer_reference := Some (hex_ref (addr_load (dasm_now ll w) pc_address)),
              sf_name := (case frame_function_name ia w frame of Some n \<Rightarrow> n
                | None \<Rightarrow> show_hex (unat (addr_file_address ia pc_address))),
              sf_module_id := map_option (module_id ma w) (frame_module ia w frame)\<rparr> in
       bindS (in_disassembly ll frame) (\<lambda>disassembly.
         if \<not> disassembly then source_location ll frame body
         else disassembly_location ll frame i body)))"

text \<open>The frames from number \<open>i\<close> on, at most \<open>n\<close> of them, up to the first that is not there.\<close>

fun stack_loop ::
  "'w lldb \<Rightarrow> (i64 \<Rightarrow> nat \<Rightarrow> ('w, 'h, stack_frame) handler) \<Rightarrow> nat \<Rightarrow> nat \<Rightarrow> i64 \<Rightarrow>
     ('w, 'h, stack_frame list) handler" where
  "stack_loop ll describe thread n i =
     (if n = 0 then returnS []
      else bindS (getS (\<lambda>s. (frame_at ll (world s) thread (as_u32 i),
                             frame_valid ll (world s) (frame_at ll (world s) thread (as_u32 i)))))
        (\<lambda>(frame, is_valid).
          if \<not> is_valid then returnS []
          else bindS (describe i frame) (\<lambda>body.
               bindS (stack_loop ll describe thread (n - 1) (i + 1)) (\<lambda>rest. returnS (body # rest)))))"

declare stack_loop.simps [simp del]

definition handle_stack_trace ::
  "'w lldb \<Rightarrow> 'w inspect_api \<Rightarrow> 'w module_api \<Rightarrow> 'h handle_tree \<Rightarrow> stack_trace_args \<Rightarrow>
     ('w, 'h, stack_frame list) handler" where
  "handle_stack_trace ll ia ma ht args =
     bindS (thread_by_id ll (st_thread_id args)) (\<lambda>thread.
       let start_frame = (case st_start_frame args of Some n \<Rightarrow> n | None \<Rightarrow> 0);
           levels = (case st_levels args of Some n \<Rightarrow> n | None \<Rightarrow> i64_max) in
       stack_loop ll (describe_frame ll ia ma ht thread) thread
         (nat (wrap_i64 (start_frame + levels) - start_frame)) start_frame)"

section \<open>Sources, modules and exceptions\<close>

definition handle_source :: "'w lldb \<Rightarrow> i64 \<Rightarrow> ('w, 'h, string \<times> string) handler" where
  "handle_source ll handle =
     bindS (getS (\<lambda>s. find_by_handle (disasm_ranges s) handle)) (\<lambda>found.
     bindS (liftS (ok_or found (str_error ''Invalid source reference''))) (\<lambda>dasm.
     bindS (getS (\<lambda>s. get_source_text (dasm_now ll (world s)) (max_instr_bytes s) dasm)) (\<lambda>content.
       returnS (content, ''text/x-lldb.disassembly''))))"

fun modules_loop :: "'w inspect_api \<Rightarrow> 'w module_api \<Rightarrow> 'w \<Rightarrow> nat \<Rightarrow> i64 \<Rightarrow> module_body list" where
  "modules_loop ia ma w n i =
     (if n = 0 then []
      else case module_at_index ia w (as_u32 i) of
        None \<Rightarrow> []
      | Some m \<Rightarrow> make_module_detail ma w m # modules_loop ia ma w (n - 1) (i + 1))"

declare modules_loop.simps [simp del]

definition handle_modules ::
  "'w inspect_api \<Rightarrow> 'w module_api \<Rightarrow> modules_args \<Rightarrow> ('w, 'h, module_body list \<times> i64) handler" where
  "handle_modules ia ma args =
     bindS (getS world) (\<lambda>w.
       let start = (case mo_start_module args of Some n \<Rightarrow> n | None \<Rightarrow> 0);
           count = (case mo_module_count args of Some n \<Rightarrow> n | None \<Rightarrow> i64_max) in
       returnS (modules_loop ia ma w (nat (wrap_i64 (start + count) - start)) start, int (num_modules ia w)))"

definition handle_exception_info ::
  "'w lldb \<Rightarrow> 'w thread_api \<Rightarrow> 'w inspect_api \<Rightarrow> i64 \<Rightarrow> ('w, 'h, exception_info_body) handler" where
  "handle_exception_info ll ta ia thread_id =
     bindS (thread_by_id ll thread_id) (\<lambda>thread.
     bindS (getS world) (\<lambda>w. returnS
       \<lparr>xi_exception_id = stop_reason_name ia (stop_reason ta w thread),
        xi_description = Some (stop_description ta w thread)\<rparr>))"

section \<open>Completions\<close>

text \<open>\<open>char_indices\<close>: the offsets at which the characters of a string start.\<close>

definition is_continuation :: "char \<Rightarrow> bool" where
  "is_continuation c = (128 \<le> (of_char c :: nat) \<and> (of_char c :: nat) < 192)"

definition char_starts :: "string \<Rightarrow> nat list" where
  "char_starts s = filter (\<lambda>i. \<not> is_continuation (s ! i)) [0..<length s]"

definition first_char :: "string \<Rightarrow> string" where
  "first_char s = (case char_starts s of _ # i # _ \<Rightarrow> take i s | _ \<Rightarrow> s)"

text \<open>The text to complete and the column in it, if it is a command.\<close>

definition completion_text :: "console_mode \<Rightarrow> string \<Rightarrow> i64 \<Rightarrow> (string \<times> i64) option" where
  "completion_text mode text column =
     (case mode of
        CmCommands \<Rightarrow> Some (text, column - 1)
      | _ \<Rightarrow>
          if starts_with text ''`'' then Some (drop 1 text, column - 2)
          else if starts_with text ''/cmd '' then Some (drop 5 text, column - 6)
          else None)"

definition cursor_offset :: "string \<Rightarrow> i64 \<Rightarrow> nat" where
  "cursor_offset text column =
     (let starts = char_starts text; n = unat (as_u64 column) in
      if n < length starts then starts ! n else length text)"

text \<open>How many characters of a completion the text already ends with.\<close>

definition prefix_len :: "string \<Rightarrow> string \<Rightarrow> nat" where
  "prefix_len text completion =
     fold (\<lambda>(idx, offset) n. if ends_with text (take offset completion) then idx else n)
       (enumerate 0 (char_starts completion)) 0"

definition completion_items :: "string \<Rightarrow> string \<Rightarrow> completion_item list" where
  "completion_items text completion =
     (if ends_with text completion then []
      else [\<lparr>ci_text = Some completion, ci_label = completion,
             ci_start = Some (int (length (char_starts text) - prefix_len text completion)),
             ci_length = Some (int (prefix_len text completion))\<rparr>])"

definition handle_completions ::
  "'w inspect_api \<Rightarrow> completions_args \<Rightarrow> ('w, 'h, completion_item list) handler" where
  "handle_completions ia args =
     bindS (getS (\<lambda>s. (command_completions s, console_mode s))) (\<lambda>(enabled, mode).
       if \<not> enabled then failS (str_error ''Completions are disabled'')
       else case completion_text mode (co_text args) (co_column args) of
         None \<Rightarrow> returnS []
       | Some (text, cursor_column) \<Rightarrow>
           if text \<noteq> [] \<and> \<not> is_alphabetic ia (first_char text) then returnS []
           else bindS (getS (\<lambda>s. complete_command ia text (of_nat (cursor_offset text cursor_column)) (world s)))
             (\<lambda>completions. returnS (case completions of
                None \<Rightarrow> [] | Some cs \<Rightarrow> concat (map (completion_items text) cs))))"

section \<open>Symbols\<close>

definition symbol_location :: "'w lldb \<Rightarrow> nat \<Rightarrow> ('w, 'h, (string \<times> u32) option) handler" where
  "symbol_location ll start_addr =
     bindS (getS world) (\<lambda>w.
       case addr_line_entry (dasm_now ll w) start_addr of
         None \<Rightarrow> returnS None
       | Some le \<Rightarrow>
           bindS (map_filespec_to_local ll (entry_filespec ll w le)) (\<lambda>local_path.
             returnS (map_option (\<lambda>p. (p, entry_line (dasm_now ll w) le)) local_path)))"

definition match_symbol ::
  "'w lldb \<Rightarrow> 'w inspect_api \<Rightarrow> ('w \<Rightarrow> nat \<Rightarrow> string) \<Rightarrow> string \<Rightarrow> nat \<Rightarrow> ('w, 'h, symbol_info list) handler" where
  "match_symbol ll ia path_of pattern y =
     bindS (getS world) (\<lambda>w.
       case symbol_start_address ia w y of
         None \<Rightarrow> returnS []
       | Some start_addr \<Rightarrow>
           (let name = symbol_display_name (dasm_now ll w) y in
            if \<not> fuzzy_match ia name pattern then returnS []
            else bindS (symbol_location ll start_addr) (\<lambda>location. returnS
              [\<lparr>si_name = name, si_type = symbol_type_name ia y,
                si_address = hex_ref (addr_load (dasm_now ll w) start_addr), si_size = symbol_size ia y,
                si_module = map_option (path_of w) (addr_module ia w start_addr), si_location = location\<rparr>])))"

text \<open>The search ends after the first symbol at which enough have been found.\<close>

fun symbols_loop ::
  "(nat \<Rightarrow> ('w, 'h, symbol_info list) handler) \<Rightarrow> nat \<Rightarrow> nat list \<Rightarrow> symbol_info list \<Rightarrow>
     ('w, 'h, symbol_info list) handler" where
  "symbols_loop match_one max_results [] symbols = returnS symbols"
| "symbols_loop match_one max_results (y # ys) symbols =
     bindS (match_one y) (\<lambda>found.
       if max_results \<le> length (symbols @ found) then returnS (symbols @ found)
       else symbols_loop match_one max_results ys (symbols @ found))"

definition handle_symbols ::
  "'w lldb \<Rightarrow> 'w inspect_api \<Rightarrow> 'w module_api \<Rightarrow> symbols_request \<Rightarrow> ('w, 'h, symbol_info list) handler" where
  "handle_symbols ll ia ma args =
     bindS (getS (\<lambda>s. concat (map (module_symbols ia (world s)) (target_modules ia (world s))))) (\<lambda>symbols.
       symbols_loop (match_symbol ll ia (\<lambda>_. module_path ma) (sy_filter args)) (unat (sy_max_results args)) symbols [])"

section \<open>Data breakpoints: what can be watched\<close>

definition all_accesses :: "data_access list" where
  "all_accesses = [DaRead, DaWrite, DaReadWrite]"

definition data_id_of :: "u64 \<Rightarrow> u64 \<Rightarrow> string" where
  "data_id_of addr n = show_nat (unat addr) @ ''/'' @ show_nat (unat n)"

definition no_data_breakpoint :: "string \<Rightarrow> data_breakpoint_info_body" where
  "no_data_breakpoint description = \<lparr>dib_data_id = None, dib_access_types = [], dib_description = description\<rparr>"

text \<open>\<open>args.bytes.unwrap_or(size as i64) as usize\<close>.\<close>

definition watch_size :: "i64 option \<Rightarrow> u64 \<Rightarrow> u64" where
  "watch_size bytes default_size = (case bytes of Some n \<Rightarrow> as_u64 n | None \<Rightarrow> default_size)"

definition watchable :: "u64 \<Rightarrow> u64 \<Rightarrow> string \<Rightarrow> data_breakpoint_info_body" where
  "watchable addr n note =
     \<lparr>dib_data_id = Some (data_id_of addr n), dib_access_types = all_accesses,
      dib_description = show_nat (unat n) @ '' bytes at '' @ show_hex (unat addr) @ note\<rparr>"

definition watch_value ::
  "'w value_api \<Rightarrow> 'w inspect_api \<Rightarrow> 'w \<Rightarrow> i64 option \<Rightarrow> nat \<Rightarrow> string \<Rightarrow> string \<Rightarrow> data_breakpoint_info_body" where
  "watch_value va ia w bytes v unnamed not_in_memory =
     (let addr = val_load_address va w v in
      if addr \<noteq> invalid_address then
        watchable addr (watch_size bytes (val_byte_size ia w v))
          ('' ('' @ (case val_name va w v of Some n \<Rightarrow> n | None \<Rightarrow> unnamed) @ '')'')
      else no_data_breakpoint not_in_memory)"

definition watched_child ::
  "'w value_api \<Rightarrow> 'w inspect_api \<Rightarrow> 'w \<Rightarrow> container \<Rightarrow> string \<Rightarrow> nat option" where
  "watched_child va ia w container name =
     (case container of
        CSBValue v \<Rightarrow> val_child_member va w v name
      | CLocals frame \<Rightarrow> frame_find_variable va w frame name
      | CGlobals frame \<Rightarrow> frame_find_value ia w frame name VtVariableGlobal
      | CStatics frame \<Rightarrow> frame_find_value ia w frame name VtVariableStatic
      | _ \<Rightarrow> None)"

definition watch_address_text ::
  "'w inspect_api \<Rightarrow> 'w \<Rightarrow> data_breakpoint_info_args \<Rightarrow> data_breakpoint_info_body" where
  "watch_address_text ia w args =
     (let addr = (case parse_hex_u64 ia (dbi_name args) of Ok a \<Rightarrow> a | _ \<Rightarrow> invalid_address) in
      if addr = invalid_address \<or> \<not> load_address_valid ia w addr then
        no_data_breakpoint (''Invalid address '' @ show_nat (unat addr))
      else watchable addr (watch_size (dbi_bytes args) (ucast (address_byte_size ia w))) [])"

definition handle_data_breakpoint_info ::
  "'w lldb \<Rightarrow> 'w value_api \<Rightarrow> 'w inspect_api \<Rightarrow> 'h handle_tree \<Rightarrow> data_breakpoint_info_args \<Rightarrow>
     ('w, 'h, data_breakpoint_info_body) handler" where
  "handle_data_breakpoint_info ll va ia ht args =
     (case dbi_variables_reference args of
        Some variables_reference \<Rightarrow>
          bindS (getS (\<lambda>s. ht_get ht (var_refs s) variables_reference)) (\<lambda>c.
          bindS (liftS (ok_or c (str_error ''Invalid variables reference''))) (\<lambda>container.
          bindS (getS world) (\<lambda>w. returnS
            (case watched_child va ia w container (dbi_name args) of
               Some child \<Rightarrow> watch_value va ia w (dbi_bytes args) child [] ''This variable doesn't have an address.''
             | None \<Rightarrow> no_data_breakpoint ''Variable not found.''))))
      | None \<Rightarrow>
          bindS (getS (\<lambda>s. evaluation_frame ll va ht s (dbi_frame_id args))) (\<lambda>frame.
            if dbi_as_address args = Some True then
              bindS (getS world) (\<lambda>w. returnS (watch_address_text ia w args))
            else
              bindS (getS default_expr_type) (\<lambda>ty.
              bindS (liftS (map_err blame_user
                       (prepare_with_format (va_nom va) (va_preprocessors va) (dbi_name args) ty)))
                (\<lambda>(pp_expr, _).
              bindS (evaluate_expr_in_frame va pp_expr frame) (\<lambda>v.
              bindS (getS world) (\<lambda>w. returnS
                (watch_value va ia w (dbi_bytes args) v (dbi_name args) ''This value doesn't have an address.'')))))))"

end
