(* ===== verification/Data_Access.thy ===== *)
theory Data_Access
  imports Inspect
begin

text \<open>
  Data breakpoints and memory: \<open>handle_set_data_breakpoints\<close>, \<open>handle_read_memory\<close> and
  \<open>handle_write_memory\<close> of \<open>src/codelldb/src/debug_session.rs\<close>.
\<close>

section \<open>What is asked of LLDB and of the libraries\<close>

text \<open>
  A memory region is whether it can be read and written, and its end.  \<open>parse_int_error\<close> is what the
  standard library says of a text that is no number; Base64 is a third-party package.
\<close>

record 'w memory_api =
  delete_all_watchpoints :: "'w \<Rightarrow> 'w"
  watch_address :: "u64 \<Rightarrow> u64 \<Rightarrow> bool \<Rightarrow> bool \<Rightarrow> ('w, u32) fallible"
  memory_region :: "'w \<Rightarrow> u64 \<Rightarrow> (bool \<times> bool \<times> u64) option"
  read_process :: "'w \<Rightarrow> u64 \<Rightarrow> nat \<Rightarrow> u8 list option"
  write_process :: "u64 \<Rightarrow> u8 list \<Rightarrow> 'w \<Rightarrow> nat option \<times> 'w"
  parse_i64 :: "string \<Rightarrow> (string, i64) res"
  parse_int_error :: "string \<Rightarrow> string"
  base64_encode :: "u8 list \<Rightarrow> string"
  base64_decode :: "string \<Rightarrow> (string, u8 list) res"

section \<open>Data breakpoints\<close>

fun access_flags :: "data_access option \<Rightarrow> bool \<times> bool \<times> string" where
  "access_flags (Some DaRead) = (True, False, ''read'')"
| "access_flags (Some DaWrite) = (False, True, ''write'')"
| "access_flags None = (False, True, ''write'')"
| "access_flags (Some DaReadWrite) = (True, True, ''read and write'')"

text \<open>\<open>parts.next().ok_or("")?.parse::<u64>()?\<close>.\<close>

definition parse_part :: "'w memory_api \<Rightarrow> string option \<Rightarrow> (err, u64) res" where
  "parse_part ma part =
     bind_res (ok_or part (str_error [])) (\<lambda>text.
       map_res of_nat (ok_or (parse_unsigned (2 ^ 64) text) (str_error (parse_int_error ma text))))"

definition nth_part :: "string list \<Rightarrow> nat \<Rightarrow> string option" where
  "nth_part parts i = (if i < length parts then Some (parts ! i) else None)"

definition parse_data_id :: "'w memory_api \<Rightarrow> string \<Rightarrow> (err, u64 \<times> u64) res" where
  "parse_data_id ma data_id =
     (let parts = split_char CHR ''/'' data_id in
      bind_res (parse_part ma (nth_part parts 0)) (\<lambda>addr.
        map_res (Pair addr) (parse_part ma (nth_part parts 1))))"

definition watch_one :: "'w memory_api \<Rightarrow> data_breakpoint \<Rightarrow> ('w, 'h, breakpoint_body) handler" where
  "watch_one ma wp =
     bindS (liftS (parse_data_id ma (db_data_id wp))) (\<lambda>(addr, size).
       let (r, w, when) = access_flags (db_access_type wp) in
       bindS (call_world (watch_address ma addr size r w)) (\<lambda>res.
         case res of
           Ok wp_id \<Rightarrow> returnS (default_breakpoint_body\<lparr>bb_verified := True, bb_id := Some (wpid_to_bpid wp_id),
             bb_message := Some (''Break on '' @ when)\<rparr>)
         | Err err \<Rightarrow> returnS (default_breakpoint_body\<lparr>bb_verified := False, bb_message := Some err\<rparr>)
         | Panic \<Rightarrow> panicS))"

definition handle_set_data_breakpoints ::
  "'w memory_api \<Rightarrow> data_breakpoint list \<Rightarrow> ('w, 'h, breakpoint_body list) handler" where
  "handle_set_data_breakpoints ma requested =
     thenS (modify_world (delete_all_watchpoints ma)) (forS (watch_one ma) requested)"

section \<open>Memory\<close>

definition memory_address :: "'w memory_api \<Rightarrow> string \<Rightarrow> i64 option \<Rightarrow> (err, u64) res" where
  "memory_address ma memory_reference offset =
     map_res (\<lambda>mem_ref. as_u64 (mem_ref + (case offset of Some n \<Rightarrow> n | None \<Rightarrow> 0)))
       (map_err str_error (parse_i64 ma memory_reference))"

text \<open>How much of a request lies in the region: the region ends at \<open>region_end\<close>.\<close>

definition bytes_in_region :: "nat \<Rightarrow> u64 \<Rightarrow> u64 \<Rightarrow> nat" where
  "bytes_in_region count region_end address = min count (unat (region_end - address))"

definition handle_read_memory :: "'w memory_api \<Rightarrow> read_memory_args \<Rightarrow> ('w, 'h, read_memory_body) handler" where
  "handle_read_memory ma args =
     bindS (liftS (memory_address ma (rm_memory_reference args) (rm_offset args))) (\<lambda>address.
     bindS (getS world) (\<lambda>w.
       let count = as_u64 (rm_count args);
           unreadable = \<lparr>rmb_address = hex_ref address, rmb_unreadable_bytes = Some (rm_count args),
             rmb_data = None\<rparr> in
       case memory_region ma w address of
         Some (True, _, region_end) \<Rightarrow>
           (case read_process ma w address (bytes_in_region (unat count) region_end address) of
              Some bytes \<Rightarrow> returnS \<lparr>rmb_address = hex_ref address,
                rmb_unreadable_bytes = Some (sint (count - of_nat (length bytes))),
                rmb_data = Some (base64_encode ma bytes)\<rparr>
            | None \<Rightarrow> returnS unreadable)
       | _ \<Rightarrow> returnS unreadable))"

definition cannot_write :: "nat \<Rightarrow> u64 \<Rightarrow> err" where
  "cannot_write n address = blame_user (str_error (''Cannot write '' @ show_nat n @ '' bytes at '' @
     pad_zero 8 (show_hex (unat address))))"

definition nothing_written :: "bool \<Rightarrow> nat \<Rightarrow> u64 \<Rightarrow> ('w, 'h, i64) handler" where
  "nothing_written allow_partial n address =
     (if \<not> allow_partial then failS (cannot_write n address) else returnS 0)"

definition handle_write_memory :: "'w memory_api \<Rightarrow> write_memory_args \<Rightarrow> ('w, 'h, i64) handler" where
  "handle_write_memory ma args =
     bindS (liftS (memory_address ma (wm_memory_reference args) (wm_offset args))) (\<lambda>address.
     bindS (liftS (map_err str_error (base64_decode ma (wm_data args)))) (\<lambda>data.
     bindS (getS world) (\<lambda>w.
       let allow_partial = (wm_allow_partial args = Some True) in
       case memory_region ma w address of
         Some (_, True, region_end) \<Rightarrow>
           if allow_partial \<or> bytes_in_region (length data) region_end address = length data then
             bindS (call_world (write_process ma address data)) (\<lambda>written.
               case written of
                 Some n \<Rightarrow> returnS (int n)
               | None \<Rightarrow> nothing_written allow_partial (length data) address)
           else nothing_written allow_partial (length data) address
       | _ \<Rightarrow> nothing_written allow_partial (length data) address)))"

end
