(* ===== verification/Settings.thy ===== *)
theory Settings
  imports Inspect
begin

text \<open>
  Initialisation and settings: the capabilities, the adapter settings, scripts of commands and
  \<open>configurationDone\<close> of \<open>src/codelldb/src/debug_session.rs\<close>.
\<close>

section \<open>Capabilities\<close>

text \<open>The capabilities that depend on the session; the others are constants.\<close>

definition make_capabilities :: "bool \<Rightarrow> ('w, 'h) session \<Rightarrow> capabilities" where
  "make_capabilities v16_available s = default_capabilities
     \<lparr>cp_exception_breakpoint_filters := get_exception_filters_for (source_languages s),
      cp_supports_completions_request := Some (command_completions s),
      cp_supports_evaluate_for_hovers := Some (evaluate_for_hovers s),
      cp_supports_step_in_targets_request := Some v16_available\<rparr>"

definition handle_initialize :: "bool \<Rightarrow> initialize_args \<Rightarrow> ('w, 'h, capabilities) handler" where
  "handle_initialize v16_available args =
     thenS (modifyS (\<lambda>s. s\<lparr>client_caps := args\<rparr>)) (getS (make_capabilities v16_available))"

section \<open>Settings\<close>

text \<open>
  \<open>(timeout * 1000.0) as u64\<close> of an \<open>f32\<close>, and what the Python interface does with
  the settings.
\<close>

record 'w settings_api =
  millis_of :: "f32 \<Rightarrow> u64"
  python_settings :: "adapter_settings \<Rightarrow> 'w \<Rightarrow> 'w"

fun format_of_setting :: "format \<Rightarrow> display_format option \<Rightarrow> format" where
  "format_of_setting old None = old"
| "format_of_setting old (Some DfAuto) = FmtDefault"
| "format_of_setting old (Some DfDecimal) = FmtDecimal"
| "format_of_setting old (Some DfHex) = FmtHex"
| "format_of_setting old (Some DfBinary) = FmtBinary"

definition unwrap_or :: "'a option \<Rightarrow> 'a \<Rightarrow> 'a" where
  "unwrap_or x d = (case x of Some y \<Rightarrow> y | None \<Rightarrow> d)"

text \<open>The settings that change nothing else.\<close>

definition set_plain :: "'w settings_api \<Rightarrow> adapter_settings \<Rightarrow> ('w, 'h) session \<Rightarrow> ('w, 'h) session" where
  "set_plain st settings s = s
     \<lparr>global_format := format_of_setting (global_format s) (as_display_format settings),
      show_disassembly := unwrap_or (as_show_disassembly settings) (show_disassembly s),
      deref_pointers := unwrap_or (as_dereference_pointers settings) (deref_pointers s),
      suppress_missing_files := unwrap_or (as_suppress_missing_source_files settings) (suppress_missing_files s),
      evaluation_timeout := unwrap_or (map_option (millis_of st) (as_evaluation_timeout settings)) (evaluation_timeout s),
      summary_timeout := unwrap_or (map_option (millis_of st) (as_summary_timeout settings)) (summary_timeout s),
      console_mode := unwrap_or (as_console_mode settings) (console_mode s)\<rparr>"

text \<open>Those that change a capability: each returns it if it did change.\<close>

definition set_hovers :: "adapter_settings \<Rightarrow> ('w, 'h) session \<times> capabilities option \<Rightarrow> ('w, 'h) session \<times> capabilities option" where
  "set_hovers settings p =
     (case as_evaluate_for_hovers settings of
        Some b \<Rightarrow>
          if evaluate_for_hovers (fst p) \<noteq> b then
            ((fst p)\<lparr>evaluate_for_hovers := b\<rparr>,
             Some ((unwrap_or (snd p) default_capabilities)\<lparr>cp_supports_evaluate_for_hovers := Some b\<rparr>))
          else p
      | None \<Rightarrow> p)"

definition set_completions :: "adapter_settings \<Rightarrow> ('w, 'h) session \<times> capabilities option \<Rightarrow> ('w, 'h) session \<times> capabilities option" where
  "set_completions settings p =
     (case as_command_completions settings of
        Some b \<Rightarrow>
          if command_completions (fst p) \<noteq> b then
            ((fst p)\<lparr>command_completions := b\<rparr>,
             Some ((unwrap_or (snd p) default_capabilities)\<lparr>cp_supports_completions_request := Some b\<rparr>))
          else p
      | None \<Rightarrow> p)"

definition set_languages :: "adapter_settings \<Rightarrow> ('w, 'h) session \<times> capabilities option \<Rightarrow> ('w, 'h) session \<times> capabilities option" where
  "set_languages settings p =
     (case as_source_languages settings of
        Some ls \<Rightarrow>
          if source_languages (fst p) \<noteq> ls then
            ((fst p)\<lparr>source_languages := ls\<rparr>,
             Some ((unwrap_or (snd p) default_capabilities)
               \<lparr>cp_exception_breakpoint_filters := get_exception_filters_for ls\<rparr>))
          else p
      | None \<Rightarrow> p)"

definition update_adapter_settings ::
  "'w settings_api \<Rightarrow> adapter_settings \<Rightarrow> ('w, 'h, capabilities option) handler" where
  "update_adapter_settings st settings s =
     (let (s, caps) = set_languages settings (set_completions settings (set_hovers settings (set_plain st settings s, None)));
          s = (if has_python s then s\<lparr>world := python_settings st settings (world s)\<rparr> else s) in
      (Ok caps, s))"

definition update_adapter_settings_and_caps ::
  "'w settings_api \<Rightarrow> adapter_settings \<Rightarrow> ('w, 'h, unit) handler" where
  "update_adapter_settings_and_caps st settings =
     bindS (update_adapter_settings st settings) (\<lambda>caps.
       case caps of Some new_caps \<Rightarrow> send_event (Ev_capabilities new_caps) | None \<Rightarrow> returnS ())"

definition print_console_mode :: "('w, 'h, unit) handler" where
  "print_console_mode =
     bindS (getS console_mode) (\<lambda>mode. console_message
       (case mode of
          CmCommands \<Rightarrow> ''Console is in 'commands' mode, prefix expressions with '?'.''
        | _ \<Rightarrow> ''Console is in 'evaluation' mode, prefix commands with '/cmd ' or '`'.''))"

definition handle_adapter_settings ::
  "'w lldb \<Rightarrow> 'w settings_api \<Rightarrow> adapter_settings \<Rightarrow> ('w, 'h, unit) handler" where
  "handle_adapter_settings ll st args =
     bindS (getS console_mode) (\<lambda>old_console_mode.
     thenS (update_adapter_settings_and_caps st args)
       (bindS (getS console_mode) (\<lambda>mode.
        thenS (if mode \<noteq> old_console_mode then print_console_mode else returnS ())
          (bindS (process_running ll) (\<lambda>running.
             if \<not> running then refresh_client_display ll None else returnS ())))))"

section \<open>Scripts\<close>

fun run_script :: "'w lldb \<Rightarrow> string list \<Rightarrow> ('w, 'h, unit) handler" where
  "run_script ll [] = returnS ()"
| "run_script ll (command # commands) =
     bindS (call_world (handle_command ll command)) (\<lambda>(succeeded, output, err).
     thenS (if output \<noteq> [] then console_message output else returnS ())
       (if succeeded then run_script ll commands
        else thenS (console_error err) (failS (blame_user (str_error err)))))"

definition exec_commands :: "'w lldb \<Rightarrow> string \<Rightarrow> string list \<Rightarrow> ('w, 'h, unit) handler" where
  "exec_commands ll script_name commands =
     thenS (console_message (''Executing script: '' @ script_name))
       (bindS (attemptS (run_script ll commands)) (\<lambda>r.
        thenS (modify_world (set_async_mode ll True)) (liftS r)))"

end
