(* ===== verification/Launch.thy ===== *)
theory Launch
  imports Settings
begin

text \<open>
  \<open>src/codelldb/src/debug_session/launch.rs\<close>: launching, attaching, restarting and ending a debuggee.
\<close>

section \<open>What is asked of LLDB and of the system\<close>

text \<open>
  The launch information of the target; \<open>li_file_actions\<close> are the files to open for the debuggee: the
  descriptor, the path, and whether to read and to write.
\<close>

record launch_info =
  li_environment :: "(string, string) hashmap"
  li_arguments :: "string list"
  li_working_directory :: "string option"
  li_stop_at_entry :: bool
  li_disable_aslr :: bool
  li_file_actions :: "(nat \<times> string \<times> bool \<times> bool) list"

record attach_info =
  ai_process_id :: "u64 option"
  ai_executable :: "string option"
  ai_wait_for :: bool

text \<open>
  \<open>open_env_file\<close> opens a file and reads its entries, each of which may be malformed.
  \<open>lldb_quoted_string\<close> is from \<open>crate::fsutil\<close>, which is not in the repository.
\<close>

record 'w launch_api =
  set_variable :: "string \<Rightarrow> string \<Rightarrow> ('w, unit) fallible"
  inherit_env_setting :: "'w \<Rightarrow> string option"
  create_target :: "string option \<Rightarrow> ('w, nat) fallible"
  current_target :: "'w \<Rightarrow> nat"
  selected_target :: "'w \<Rightarrow> nat"
  target_valid :: "'w \<Rightarrow> nat \<Rightarrow> bool"
  use_target :: "nat \<Rightarrow> 'w \<Rightarrow> 'w"
  platform_triple :: "'w \<Rightarrow> string"
  platform_name :: "'w \<Rightarrow> string"
  platform_environment :: "'w \<Rightarrow> (string, string) hashmap"
  file_permissions :: "'w \<Rightarrow> string \<Rightarrow> nat"
  get_launch_info :: "'w \<Rightarrow> launch_info"
  set_launch_info :: "launch_info \<Rightarrow> 'w \<Rightarrow> 'w"
  target_executable :: "'w \<Rightarrow> string option"
  executable_debug :: "'w \<Rightarrow> string"
  can_disable_aslr :: "'w \<Rightarrow> bool"
  launch_process :: "launch_info \<Rightarrow> ('w, unit) fallible"
  attach_process :: "attach_info \<Rightarrow> ('w, unit) fallible"
  process_id :: "'w \<Rightarrow> u64"
  process_valid :: "'w \<Rightarrow> bool"
  stop_event_restarted :: "'w \<Rightarrow> bool option"
  kill_process :: "('w, unit) fallible"
  detach_process :: "('w, unit) fallible"
  send_signal :: "i64 \<Rightarrow> ('w, unit) fallible"
  signals_valid :: "'w \<Rightarrow> bool"
  signal_number :: "'w \<Rightarrow> string \<Rightarrow> i64 option"
  ignore_signal :: "i64 \<Rightarrow> 'w \<Rightarrow> 'w"
  wait_running :: "'w \<Rightarrow> 'w"
  init_lang_support :: "'w \<Rightarrow> 'w"
  create_debugger_terminal :: "string \<Rightarrow> 'w \<Rightarrow> 'w"
  current_dir :: "'w \<Rightarrow> (string, string) res"
  open_env_file :: "'w \<Rightarrow> string \<Rightarrow> (string, (string, string \<times> string) res list) res"
  to_uppercase :: "string \<Rightarrow> string"
  set_exe_extension :: "string \<Rightarrow> string option"
  lldb_quoted_string :: "string \<Rightarrow> string"
  json_launch_error :: "json \<Rightarrow> string"

definition contains_text :: "string \<Rightarrow> string \<Rightarrow> bool" where
  "contains_text s p = list_ex (\<lambda>i. starts_with (drop i s) p) [0..<Suc (length s)]"

definition on_windows :: "'w launch_api \<Rightarrow> 'w \<Rightarrow> bool" where
  "on_windows la w = contains_text (platform_triple la w) ''windows''"

definition report_launch_cfg_error :: "'w launch_api \<Rightarrow> json \<Rightarrow> ('w, 'h, response_body) handler" where
  "report_launch_cfg_error la cfg =
     failS (blame_user (str_error (''Could not parse launch configuration: '' @ json_launch_error la cfg)))"

section \<open>Targets\<close>

definition set_target :: "'w launch_api \<Rightarrow> nat \<Rightarrow> ('w, 'h, unit) handler" where
  "set_target la target =
     thenS (modify_world (use_target la target)) (modifyS (\<lambda>s. s\<lparr>disasm_ranges := ranges_new\<rparr>))"

text \<open>On Windows, a program without the extension is tried again with it (\<open>set_exe_extension\<close>).\<close>

definition create_target_from_program :: "'w launch_api \<Rightarrow> string \<Rightarrow> ('w, 'h, nat) handler" where
  "create_target_from_program la program =
     bindS (getS (\<lambda>s. ensure_absolute_path s program)) (\<lambda>program.
     bindS (call_world (create_target la (Some program))) (\<lambda>r.
     bindS (getS (\<lambda>s. on_windows la (world s))) (\<lambda>windows.
     bindS (case (r, if windows then set_exe_extension la program else None) of
              (Err _, Some with_exe) \<Rightarrow> call_world (create_target la (Some with_exe))
            | _ \<Rightarrow> returnS r) (\<lambda>r.
       liftS (map_err (blame_user \<circ> str_error) r)))))"

text \<open>After \<open>targetCreateCommands\<close>: the target they selected, or an empty one.\<close>

definition target_from_commands :: "'w lldb \<Rightarrow> 'w launch_api \<Rightarrow> string list \<Rightarrow> ('w, 'h, nat) handler" where
  "target_from_commands ll la commands =
     thenS (exec_commands ll ''targetCreateCommands'' commands)
       (bindS (getS (\<lambda>s. (selected_target la (world s), target_valid la (world s) (selected_target la (world s)))))
          (\<lambda>(target, is_valid).
             if is_valid then returnS target else try_world (create_target la None)))"

section \<open>Common initialization\<close>

definition source_map_args :: "'w launch_api \<Rightarrow> (string \<times> string option) list \<Rightarrow> string" where
  "source_map_args la source_map =
     concat (map (\<lambda>(remote, local).
       lldb_quoted_string la remote @ '' '' @
       lldb_quoted_string la (case local of Some l \<Rightarrow> l | None \<Rightarrow> []) @ '' '') source_map)"

definition init_source_map :: "'w launch_api \<Rightarrow> (string \<times> string option) list \<Rightarrow> ('w, 'h, unit) handler" where
  "init_source_map la source_map =
     (let args = source_map_args la source_map in
      if args = [] then returnS ()
      else bindS (call_world (set_variable la ''target.source-map'' args)) (\<lambda>r.
        case r of
          Err error \<Rightarrow> console_error (''Could not set source map: '' @ error)
        | Ok _ \<Rightarrow> returnS ()
        | Panic \<Rightarrow> panicS))"

definition init_expressions :: "common_launch_fields \<Rightarrow> ('w, 'h, unit) handler" where
  "init_expressions args =
     thenS (case cl_expressions args of
              Some e \<Rightarrow> modifyS (\<lambda>s. s\<lparr>default_expr_type := e\<rparr>) | None \<Rightarrow> returnS ())
       (bindS (getS (\<lambda>s. (has_python s, default_expr_type s))) (\<lambda>(python, ty).
          if python then returnS ()
          else thenS (if ty = ExNative then returnS ()
                      else console_error (''Could not initialize Python interpreter - some features will be ''
                        @ ''unavailable (e.g. debug visualizers).''))
                 (modifyS (\<lambda>s. s\<lparr>default_expr_type := ExNative\<rparr>))))"

definition capability_event :: "capabilities \<Rightarrow> ('w, 'h, unit) handler" where
  "capability_event c = send_event (Ev_capabilities c)"

definition init_paths :: "'w launch_api \<Rightarrow> common_launch_fields \<Rightarrow> ('w, 'h, unit) handler" where
  "init_paths la args =
     thenS (case cl_source_map args of Some m \<Rightarrow> init_source_map la m | None \<Rightarrow> returnS ())
       (bindS (getS (\<lambda>s. case cl_relative_path_base args of
                 Some base \<Rightarrow> Ok base | None \<Rightarrow> map_err str_error (current_dir la (world s)))) (\<lambda>r.
        bindS (liftS r) (\<lambda>base. modifyS (\<lambda>s. s\<lparr>relative_path_base := base\<rparr>))))"

definition init_options :: "'w settings_api \<Rightarrow> common_launch_fields \<Rightarrow> ('w, 'h, unit) handler" where
  "init_options st args =
     thenS (if cl_reverse_debugging args = Some True
            then capability_event (default_capabilities\<lparr>cp_supports_step_back := Some True\<rparr>) else returnS ())
    (thenS (modifyS (\<lambda>s. s\<lparr>breakpoint_mode := unwrap_or (cl_breakpoint_mode args) (breakpoint_mode s),
              graceful_shutdown := cl_graceful_shutdown args\<rparr>))
    (thenS (if cl_graceful_shutdown args \<noteq> None
            then capability_event (default_capabilities\<lparr>cp_supports_terminate_request := Some True\<rparr>)
            else returnS ())
    (thenS (case cl_adapter_settings args of
              Some settings \<Rightarrow> update_adapter_settings_and_caps st settings | None \<Rightarrow> returnS ())
    (thenS (case cl_source_languages args of
              Some ls \<Rightarrow> update_adapter_settings_and_caps st (default_adapter_settings\<lparr>as_source_languages := Some ls\<rparr>)
            | None \<Rightarrow> returnS ())
       print_console_mode))))"

definition init_console :: "'w launch_api \<Rightarrow> common_launch_fields \<Rightarrow> ('w, 'h, unit) handler" where
  "init_console la args =
     (case cl_adapter_settings args of
        None \<Rightarrow> returnS ()
      | Some settings \<Rightarrow>
          if as_console_mode settings = Some CmSplit then
            modify_world (create_debugger_terminal la (unwrap_or (cl_name args) ''Debug''))
          else try_world (set_variable la ''auto-confirm'' ''true''))"

definition common_init_session ::
  "'w lldb \<Rightarrow> 'w settings_api \<Rightarrow> 'w launch_api \<Rightarrow> common_launch_fields \<Rightarrow> ('w, 'h, unit) handler" where
  "common_init_session ll st la args =
     thenS (init_expressions args)
    (thenS (init_paths la args)
    (thenS (init_options st args)
    (thenS (case cl_init_commands args of
              Some commands \<Rightarrow> exec_commands ll ''initCommands'' commands | None \<Rightarrow> returnS ())
    (thenS (bindS (getS has_python) (\<lambda>python.
              if python then modify_world (init_lang_support la) else returnS ()))
       (init_console la args)))))"

definition common_post_run :: "'w lldb \<Rightarrow> common_launch_fields \<Rightarrow> ('w, 'h, unit) handler" where
  "common_post_run ll args =
     thenS (case cl_post_run_commands args of
              Some commands \<Rightarrow> log_errorsS (exec_commands ll ''postRunCommands'' commands) | None \<Rightarrow> returnS ())
       (modifyS (\<lambda>s. s\<lparr>pre_terminate_commands := cl_pre_terminate_commands args,
          exit_commands := cl_exit_commands args\<rparr>))"

section \<open>Launching\<close>

definition wait_for_configuration :: "future \<Rightarrow> ('w, 'h, response_body) handler" where
  "wait_for_configuration fut = thenS (send_event Ev_initialized) (failS (AsyncResponse fut))"

definition handle_launch ::
  "'w lldb \<Rightarrow> 'w settings_api \<Rightarrow> 'w launch_api \<Rightarrow> launch_request_arguments \<Rightarrow> ('w, 'h, response_body) handler" where
  "handle_launch ll st la args =
     thenS (common_init_session ll st la (la_common args))
    (thenS (modifyS (\<lambda>s. s\<lparr>no_debug := (la_no_debug args = Some True)\<rparr>))
    (thenS (if la_no_debug args = Some True then
              thenS (log_errorsS (try_world (set_variable la ''target.preload-symbols'' ''false'')))
                (log_errorsS (try_world (set_variable la ''plugin.jit-loader.gdb.enable'' ''off'')))
            else returnS ())
       (bindS (case la_target_create_commands args of
                 Some commands \<Rightarrow> target_from_commands ll la commands
               | None \<Rightarrow>
                   (case la_program args of
                      Some program \<Rightarrow> create_target_from_program la program
                    | None \<Rightarrow> failS (blame_user (str_error ''The \"program\" attribute is required for launch.''))))
          (\<lambda>target. thenS (set_target la target) (wait_for_configuration (FutLaunch args))))))"

text \<open>Environment variables whose names differ only by case take the case of the first, on Windows.\<close>

definition fold_key :: "'w launch_api \<Rightarrow> bool \<Rightarrow> string \<Rightarrow> (string, string) hashmap \<Rightarrow> string \<times> (string, string) hashmap" where
  "fold_key la ignore_case k case_map =
     (if ignore_case then
        (case hm_get case_map (to_uppercase la k) of
           Some first \<Rightarrow> (first, case_map)
         | None \<Rightarrow> (k, hm_insert (to_uppercase la k) k case_map))
      else (k, case_map))"

definition set_env ::
  "'w launch_api \<Rightarrow> bool \<Rightarrow> string \<times> string \<Rightarrow> (string, string) hashmap \<times> (string, string) hashmap \<Rightarrow>
     (string, string) hashmap \<times> (string, string) hashmap" where
  "set_env la ignore_case entry state =
     (let (k, case_map) = fold_key la ignore_case (fst entry) (fst state) in
      (case_map, hm_insert k (snd entry) (snd state)))"

fun set_env_items ::
  "'w launch_api \<Rightarrow> bool \<Rightarrow> (string, string \<times> string) res list \<Rightarrow>
     (string, string) hashmap \<times> (string, string) hashmap \<Rightarrow>
     (string, (string, string) hashmap \<times> (string, string) hashmap) res" where
  "set_env_items la ignore_case [] state = Ok state"
| "set_env_items la ignore_case (item # items) state =
     bind_res item (\<lambda>entry. set_env_items la ignore_case items (set_env la ignore_case entry state))"

definition launch_environment ::
  "'w launch_api \<Rightarrow> launch_request_arguments \<Rightarrow> ('w, 'h, (string, string) hashmap) handler" where
  "launch_environment la args =
     bindS (getS world) (\<lambda>w.
       let ignore_case = on_windows la w;
           start = ([], if inherit_env_setting la w = Some ''true'' then platform_environment la w else []) in
       bindS (case la_env_file args of
                None \<Rightarrow> returnS start
              | Some env_file \<Rightarrow>
                  (case open_env_file la w env_file of
                     Ok items \<Rightarrow> liftS (map_err str_error (set_env_items la ignore_case items start))
                   | Err err \<Rightarrow>
                       thenS (console_error (''Could not read '' @ env_file @ '': '' @ err)) (returnS start)
                   | Panic \<Rightarrow> panicS))
         (\<lambda>state. returnS (snd (fold (set_env la ignore_case) (unwrap_or (la_env args) []) state))))"

text \<open>The files for the debuggee's descriptors, when it has a terminal.\<close>

definition stdio_names :: "launch_request_arguments \<Rightarrow> string option list" where
  "stdio_names args =
     (let stdio = (case la_stdio args of
          None \<Rightarrow> [] | Some (First name) \<Rightarrow> [Some name] | Some (Second names) \<Rightarrow> names) in
      stdio @ replicate (3 - length stdio) None)"

fun devname :: "terminal_id option \<Rightarrow> string option" where
  "devname (Some (TTY tty_name)) = Some tty_name"
| "devname _ = None"

definition open_file_action :: "terminal_id option \<Rightarrow> nat \<times> string option \<Rightarrow> (nat \<times> string \<times> bool \<times> bool) list" where
  "open_file_action terminal entry =
     (let (fd, name) = entry in
      case (case name of Some n \<Rightarrow> Some n | None \<Rightarrow> devname terminal) of
        None \<Rightarrow> []
      | Some path \<Rightarrow> [(fd, path, fd \<noteq> 1 \<and> fd \<noteq> 2, fd \<noteq> 0)])"

definition configure_stdio ::
  "terminal_id option option \<Rightarrow> launch_request_arguments \<Rightarrow> launch_info \<Rightarrow> launch_info" where
  "configure_stdio terminal args info =
     (case terminal of
        None \<Rightarrow> info
      | Some t \<Rightarrow> info\<lparr>li_file_actions := li_file_actions info @
          concat (map (open_file_action t) (enumerate 0 (stdio_names args)))\<rparr>)"

definition prepare_launch_info ::
  "launch_request_arguments \<Rightarrow> (string, string) hashmap \<Rightarrow> terminal_id option option \<Rightarrow> launch_info \<Rightarrow> launch_info" where
  "prepare_launch_info args env terminal info =
     configure_stdio terminal args (info
       \<lparr>li_environment := env,
        li_arguments := unwrap_or (la_args args) (li_arguments info),
        li_working_directory := (case la_cwd args of Some d \<Rightarrow> Some d | None \<Rightarrow> li_working_directory info),
        li_stop_at_entry := (la_stop_on_entry args = Some True \<or> li_stop_at_entry info)\<rparr>)"

definition check_aslr :: "'w launch_api \<Rightarrow> launch_info \<Rightarrow> ('w, 'h, launch_info) handler" where
  "check_aslr la info =
     bindS (getS (\<lambda>s. can_disable_aslr la (world s))) (\<lambda>possible.
       if li_disable_aslr info \<and> \<not> possible then
         thenS (console_error ''Could not disable address space layout randomization (ASLR).'')
           (thenS (console_message (''(Possibly due to running in a restricted container. Add \"initCommands\":'' @
              ''[\"settings set target.disable-aslr false\"] to the launch configuration to suppress this warning.)''))
              (returnS (info\<lparr>li_disable_aslr := False\<rparr>)))
       else returnS info)"

text \<open>The state of the process that \<open>processCreateCommands\<close> created.\<close>

definition check_process_create_commands ::
  "'w lldb \<Rightarrow> 'w thread_api \<Rightarrow> 'w run_api \<Rightarrow> 'w launch_api \<Rightarrow> ('w, 'h, unit) handler" where
  "check_process_create_commands ll ta ra la =
     bindS (getS (\<lambda>s. process_state_of ll (world s))) (\<lambda>state.
       if \<not> is_alive state then
         thenS (notify_process_terminated ll ra) (failS (blame_user (str_error ''Process is not valid.'')))
       else if \<not> is_running state then
         bindS (getS (\<lambda>s. stop_event_restarted la (world s))) (\<lambda>restarted.
           if restarted = Some False then notify_process_stopped ll ta ra else returnS ())
       else returnS ())"

definition create_process_by_commands ::
  "'w lldb \<Rightarrow> 'w thread_api \<Rightarrow> 'w run_api \<Rightarrow> 'w launch_api \<Rightarrow> string list \<Rightarrow> ('w, 'h, unit) handler" where
  "create_process_by_commands ll ta ra la commands =
     thenS (exec_commands ll ''processCreateCommands'' commands)
       (bindS (getS (\<lambda>s. (selected_target la (world s), current_target la (world s)))) (\<lambda>(selected, current).
        thenS (if selected \<noteq> current then set_target la selected else returnS ())
          (check_process_create_commands ll ta ra la)))"

text \<open>The error of a launch, with a guess at the cause.\<close>

definition launch_error :: "'w launch_api \<Rightarrow> 'w \<Rightarrow> launch_info \<Rightarrow> err \<Rightarrow> err" where
  "launch_error la w info err =
     (case li_working_directory info of
        Some work_dir \<Rightarrow>
          if file_permissions la w work_dir = 0 then
            Blamed User (str_error (show_error err @ [newline, newline] @
              ''Possible cause: the working directory \"'' @ work_dir @ ''\" is missing or inaccessible.''))
          else blame_user err
      | None \<Rightarrow> blame_user err)"

definition start_process ::
  "'w lldb \<Rightarrow> 'w thread_api \<Rightarrow> 'w run_api \<Rightarrow> 'w launch_api \<Rightarrow> launch_request_arguments \<Rightarrow> launch_info \<Rightarrow>
     ('w, 'h, unit) handler" where
  "start_process ll ta ra la args info =
     bindS (attemptS (case la_process_create_commands args of
              None \<Rightarrow> try_world (launch_process la info)
            | Some commands \<Rightarrow> create_process_by_commands ll ta ra la commands)) (\<lambda>r.
       case r of
         Err err \<Rightarrow> bindS (getS (\<lambda>s. launch_error la (world s) info err)) failS
       | Ok _ \<Rightarrow> returnS ()
       | Panic \<Rightarrow> panicS)"

definition complete_launch ::
  "'w lldb \<Rightarrow> 'w thread_api \<Rightarrow> 'w run_api \<Rightarrow> 'w launch_api \<Rightarrow> launch_request_arguments \<Rightarrow>
     ('w, 'h, response_body) handler" where
  "complete_launch ll ta ra la args =
     bindS (launch_environment la args) (\<lambda>env.
     bindS (getS (\<lambda>s. prepare_launch_info args env (debuggee_terminal s) (get_launch_info la (world s)))) (\<lambda>info.
     thenS (modify_world (set_launch_info la info))
    (thenS (case cl_pre_run_commands (la_common args) of
              Some commands \<Rightarrow> exec_commands ll ''preRunCommands'' commands | None \<Rightarrow> returnS ())
       (bindS (getS world) (\<lambda>w.
        let info = get_launch_info la w in
        thenS (console_message (''Launching: '' @
                 foldl (\<lambda>line a. line @ '' '' @ a) (unwrap_or (target_executable la w) []) (li_arguments info)))
          (bindS (check_aslr la info) (\<lambda>info.
           thenS (start_process ll ta ra la args info)
          (thenS (bindS (getS world) (\<lambda>w. console_message (''Launched process '' @ show_nat (unat (process_id la w))
                    @ '' from '' @ [CHR 0x27] @ executable_debug la w @ [CHR 0x27])))
          (thenS (modifyS (\<lambda>s. s\<lparr>terminate_on_disconnect := True\<rparr>))
          (thenS (common_post_run ll (la_common args)) (returnS Rb_launch)))))))))))"

section \<open>The debuggee's terminal\<close>

datatype terminal_request = NoTerminal | UseTerminal terminal_id | RunInTerminal bool

text \<open>What is asked for: nothing, a given terminal, or a new one (\<open>True\<close>: an external one).\<close>

definition requested_terminal :: "launch_request_arguments \<Rightarrow> terminal_kind" where
  "requested_terminal args =
     (case la_terminal args of
        Some kind \<Rightarrow> kind
      | None \<Rightarrow>
          (case la_console args of
             Some CkInternalConsole \<Rightarrow> TkConsole
           | Some CkExternalTerminal \<Rightarrow> TkExternal
           | Some CkIntegratedTerminal \<Rightarrow> TkIntegrated
           | None \<Rightarrow> TkIntegrated))"

definition terminal_request ::
  "'w launch_api \<Rightarrow> launch_request_arguments \<Rightarrow> ('w, 'h) session \<Rightarrow> terminal_request" where
  "terminal_request la args s =
     (if platform_name la (world s) \<noteq> ''host'' then NoTerminal
      else if ic_supports_run_in_terminal_request (client_caps s) \<noteq> Some True then NoTerminal
      else case requested_terminal args of
        TkConsole \<Rightarrow> NoTerminal
      | TkTerminalId i \<Rightarrow> UseTerminal i
      | TkExternal \<Rightarrow> RunInTerminal True
      | TkIntegrated \<Rightarrow> RunInTerminal False)"

text \<open>\<open>run_terminal\<close> is what \<open>Terminal::create\<close> gives: the id its agent reported, or an error.\<close>

definition create_terminal ::
  "'w launch_api \<Rightarrow> (bool \<Rightarrow> string \<Rightarrow> ('w, terminal_id option) fallible) \<Rightarrow> launch_request_arguments \<Rightarrow>
     ('w, 'h, unit) handler" where
  "create_terminal la run_terminal args =
     bindS (getS (terminal_request la args)) (\<lambda>request.
       case request of
         NoTerminal \<Rightarrow> returnS ()
       | UseTerminal i \<Rightarrow> modifyS (\<lambda>s. s\<lparr>debuggee_terminal := Some (Some i)\<rparr>)
       | RunInTerminal external \<Rightarrow>
           bindS (call_world (run_terminal external (unwrap_or (cl_name (la_common args)) ''Debug''))) (\<lambda>r.
             case r of
               Ok terminal \<Rightarrow> modifyS (\<lambda>s. s\<lparr>debuggee_terminal := Some terminal\<rparr>)
             | Err err \<Rightarrow> console_error (''Failed to redirect stdio to a terminal. ('' @ err @ '')'' @ [newline]
                 @ ''Debuggee output will appear here.'')
             | Panic \<Rightarrow> panicS))"

section \<open>Attaching\<close>

definition attach_target ::
  "'w lldb \<Rightarrow> 'w launch_api \<Rightarrow> attach_request_arguments \<Rightarrow> ('w, 'h, nat) handler" where
  "attach_target ll la args =
     (case at_target_create_commands args of
        None \<Rightarrow>
          (case at_program args of
             Some program \<Rightarrow>
               bindS (attemptS (create_target_from_program la program)) (\<lambda>r.
                 case r of Ok target \<Rightarrow> returnS target | _ \<Rightarrow> try_world (create_target la None))
           | None \<Rightarrow> try_world (create_target la None))
      | Some commands \<Rightarrow> target_from_commands ll la commands)"

definition handle_attach ::
  "'w lldb \<Rightarrow> 'w settings_api \<Rightarrow> 'w launch_api \<Rightarrow> attach_request_arguments \<Rightarrow> ('w, 'h, response_body) handler" where
  "handle_attach ll st la args =
     thenS (common_init_session ll st la (at_common args))
       (if at_program args = None \<and> at_pid args = None \<and> at_target_create_commands args = None then
          failS (blame_user (str_error ''Either \"program\" or \"pid\" is required to attach.''))
        else bindS (attach_target ll la args) (\<lambda>target.
          thenS (set_target la target) (wait_for_configuration (FutAttach args))))"

definition attach_pid :: "(u64, string) either \<Rightarrow> (err, u64) res" where
  "attach_pid pid =
     (case pid of
        First n \<Rightarrow> Ok n
      | Second text \<Rightarrow>
          map_res of_nat (ok_or (parse_unsigned (2 ^ 64) text)
            (blame_user (str_error ''Process id must be a positive integer.''))))"

definition attach_info_of ::
  "'w launch_api \<Rightarrow> attach_request_arguments \<Rightarrow> ('w, 'h) session \<Rightarrow> (err, attach_info) res" where
  "attach_info_of la args s =
     map_res (\<lambda>(pid, executable). \<lparr>ai_process_id = pid, ai_executable = executable,
         ai_wait_for = (at_wait_for args = Some True)\<rparr>)
       (case at_pid args of
          Some pid \<Rightarrow> map_res (\<lambda>n. (Some n, None)) (attach_pid pid)
        | None \<Rightarrow>
            (case (target_executable la (world s), at_program args) of
               (Some executable, _) \<Rightarrow> Ok (None, Some executable)
             | (None, Some program) \<Rightarrow> Ok (None, Some (ensure_absolute_path s program))
             | (None, None) \<Rightarrow> Err (str_error ''unreachable'')))"

definition attach_to_process ::
  "'w lldb \<Rightarrow> 'w thread_api \<Rightarrow> 'w run_api \<Rightarrow> 'w launch_api \<Rightarrow> attach_request_arguments \<Rightarrow> ('w, 'h, unit) handler" where
  "attach_to_process ll ta ra la args =
     bindS (getS (attach_info_of la args)) (\<lambda>r.
     bindS (liftS r) (\<lambda>info.
     bindS (call_world (attach_process la info)) (\<lambda>r.
     bindS (liftS (map_err (\<lambda>err. blame_user (str_error (''Could not attach: '' @ err))) r)) (\<lambda>_.
       if at_stop_on_entry args = Some True then notify_process_stopped ll ta ra
       else log_errorsS (try_world (run_resume ra))))))"

definition complete_attach ::
  "'w lldb \<Rightarrow> 'w thread_api \<Rightarrow> 'w run_api \<Rightarrow> 'w launch_api \<Rightarrow> attach_request_arguments \<Rightarrow>
     ('w, 'h, response_body) handler" where
  "complete_attach ll ta ra la args =
     thenS (case cl_pre_run_commands (at_common args) of
              Some commands \<Rightarrow> exec_commands ll ''preRunCommands'' commands | None \<Rightarrow> returnS ())
    (thenS (case at_process_create_commands args of
              None \<Rightarrow> attach_to_process ll ta ra la args
            | Some commands \<Rightarrow> create_process_by_commands ll ta ra la commands)
    (thenS (bindS (getS world) (\<lambda>w. console_message (''Attached to process '' @ show_nat (unat (process_id la w)))))
    (thenS (modifyS (\<lambda>s. s\<lparr>terminate_on_disconnect := False\<rparr>))
    (thenS (common_post_run ll (at_common args)) (returnS Rb_attach)))))"

section \<open>Ending\<close>

definition terminate_debuggee ::
  "'w lldb \<Rightarrow> 'w launch_api \<Rightarrow> bool option \<Rightarrow> ('w, 'h, unit) handler" where
  "terminate_debuggee ll la force_terminate =
     bindS (getS (\<lambda>s. (process_valid la (world s), process_state_of ll (world s), terminate_on_disconnect s)))
       (\<lambda>(is_valid, state, by_default).
          if is_valid \<and> is_alive state then
            (if unwrap_or force_terminate by_default then try_world (kill_process la)
             else try_world (detach_process la))
          else returnS ())"

definition run_pre_terminate :: "'w lldb \<Rightarrow> ('w, 'h, unit) handler" where
  "run_pre_terminate ll =
     bindS (getS pre_terminate_commands) (\<lambda>commands.
       case commands of
         Some commands \<Rightarrow> log_errorsS (exec_commands ll ''preTerminateCommands'' commands)
       | None \<Rightarrow> returnS ())"

definition set_corked :: "bool \<Rightarrow> ('w, 'h, unit) handler" where
  "set_corked b = modifyS (\<lambda>s. s\<lparr>corked := b\<rparr>)"

definition handle_restart ::
  "'w lldb \<Rightarrow> 'w thread_api \<Rightarrow> 'w run_api \<Rightarrow> 'w launch_api \<Rightarrow>
     (launch_request_arguments, attach_request_arguments) either \<Rightarrow> ('w, 'h, unit) handler" where
  "handle_restart ll ta ra la args =
     thenS (run_pre_terminate ll)
    (thenS (set_corked True)
    (thenS (terminate_debuggee ll la None)
    (thenS (set_corked False)
    (thenS (case args of
              First launch \<Rightarrow> complete_launch ll ta ra la launch
            | Second attach \<Rightarrow> complete_attach ll ta ra la attach) (returnS ())))))"

definition send_graceful_signal :: "'w lldb \<Rightarrow> 'w run_api \<Rightarrow> 'w launch_api \<Rightarrow> string \<Rightarrow> ('w, 'h, unit) handler" where
  "send_graceful_signal ll ra la sig_name =
     bindS (getS world) (\<lambda>w.
       if \<not> signals_valid la w then failS (str_error ''The current platform does not support sending signals.'')
       else case signal_number la w sig_name of
         None \<Rightarrow> failS (str_error (''Invalid signal name: '' @ sig_name))
       | Some signo \<Rightarrow>
           thenS (modify_world (ignore_signal la signo))
             (bindS (process_running ll) (\<lambda>running.
              thenS (if running then returnS ()
                     else thenS (log_errorsS (try_world (run_resume ra))) (modify_world (wait_running la)))
                (try_world (send_signal la signo)))))"

definition handle_terminate :: "'w lldb \<Rightarrow> 'w run_api \<Rightarrow> 'w launch_api \<Rightarrow> ('w, 'h, unit) handler" where
  "handle_terminate ll ra la =
     bindS (getS graceful_shutdown) (\<lambda>shutdown.
       case shutdown of
         Some (First sig_name) \<Rightarrow> send_graceful_signal ll ra la sig_name
       | Some (Second commands) \<Rightarrow> exec_commands ll ''gracefulShutdown'' commands
       | None \<Rightarrow> returnS ())"

text \<open>The argument is the request's \<open>terminateDebuggee\<close>, if it has arguments.\<close>

definition handle_disconnect ::
  "'w lldb \<Rightarrow> 'w launch_api \<Rightarrow> bool option option \<Rightarrow> ('w, 'h, unit) handler" where
  "handle_disconnect ll la args =
     thenS (run_pre_terminate ll)
    (thenS (modifyS (\<lambda>s. s\<lparr>debuggee_terminal := None\<rparr>))
    (thenS (terminate_debuggee ll la (case args of Some b \<Rightarrow> b | None \<Rightarrow> None))
       (bindS (getS exit_commands) (\<lambda>commands.
          case commands of
            Some commands \<Rightarrow> log_errorsS (exec_commands ll ''exitCommands'' commands)
          | None \<Rightarrow> returnS ()))))"

end
