(* ===== verification/Dispatch.thy ===== *)
theory Dispatch
  imports Data_Access Launch Step_In Disassemble
begin

text \<open>
  The session's main loop: the dispatch of requests, their responses, the futures that answer later, and
  the interleaving of requests, debug events and futures (\<open>run\<close>, \<open>handle_request\<close>, \<open>handle_request_args\<close>
  and \<open>send_response\<close> of \<open>src/codelldb/src/debug_session.rs\<close>).
\<close>

section \<open>The adapter\<close>

text \<open>Everything the session asks of LLDB, the client and the system.\<close>

record ('w, 'h) adapter =
  ad_lldb :: "'w lldb"
  ad_handles :: "'h handle_tree"
  ad_breakpoints :: "'w bp_api"
  ad_threads :: "'w thread_api"
  ad_run :: "'w run_api"
  ad_steps :: "'w step_api"
  ad_values :: "'w value_api"
  ad_modules :: "'w module_api"
  ad_streams :: "'w stream_api"
  ad_inspect :: "'w inspect_api"
  ad_memory :: "'w memory_api"
  ad_settings :: "'w settings_api"
  ad_launch :: "'w launch_api"
  ad_run_terminal :: "bool \<Rightarrow> string \<Rightarrow> ('w, terminal_id option) fallible"
  ad_python_message :: "json \<Rightarrow> 'w \<Rightarrow> 'w"
  ad_v15 :: bool

section \<open>Responses\<close>

definition send_response :: "u32 \<Rightarrow> (err, response_body) res \<Rightarrow> ('w, 'h, unit) handler" where
  "send_response seq r =
     (case make_response seq r of
        Some response \<Rightarrow> modifyS (\<lambda>s. s\<lparr>outbox := outbox s @ [MResponse response]\<rparr>)
      | None \<Rightarrow> panicS)"

definition spawn_future :: "u32 \<Rightarrow> future \<Rightarrow> ('w, 'h, unit) handler" where
  "spawn_future seq fut = modifyS (\<lambda>s. s\<lparr>pending_futures := pending_futures s @ [(seq, False, fut)]\<rparr>)"

section \<open>Handlers that are only reached from here\<close>

text \<open>\<open>configuration_done_sender.send\<close> reaches the futures that wait for it.\<close>

definition handle_configuration_done :: "('w, 'h, response_body) handler" where
  "handle_configuration_done =
     thenS (modifyS (\<lambda>s. s\<lparr>pending_futures := map (\<lambda>(seq, _, fut). (seq, True, fut)) (pending_futures s)\<rparr>))
       (failS (AsyncResponse FutConfigurationDone))"

definition handle_python_message :: "('w, 'h) adapter \<Rightarrow> json \<Rightarrow> ('w, 'h, unit) handler" where
  "handle_python_message ad args =
     bindS (getS has_python) (\<lambda>python.
       if python then modify_world (ad_python_message ad args) else returnS ())"

text \<open>
  Disassembling reads the mapping of paths; what it would add to the cache is not kept, which
  \<open>path_cache_transparent\<close> shows to make no difference.
\<close>

definition disassemble_request ::
  "('w, 'h) adapter \<Rightarrow> disassemble_args \<Rightarrow> ('w, 'h, disassembled_instruction list) may_hang" where
  "disassemble_request ad args s =
     (let ll = ad_lldb ad;
          local_path = (\<lambda>le. case fst (map_filespec_to_local ll (entry_filespec ll (world s) le) s) of
            Ok p \<Rightarrow> p | _ \<Rightarrow> None) in
      map_option (\<lambda>r. (r, s))
        (handle_disassemble (dasm_now ll (world s)) (max_instr_bytes s) (parse_u64 (ad_steps ad)) local_path args))"

section \<open>Requests\<close>

definition now :: "('w, 'h, 'a) handler \<Rightarrow> ('w, 'h, 'a) may_hang" where
  "now h s = Some (h s)"

definition answer :: "('a \<Rightarrow> response_body) \<Rightarrow> ('w, 'h, 'a) handler \<Rightarrow> ('w, 'h, response_body) may_hang" where
  "answer body h = now (bindS h (\<lambda>x. returnS (body x)))"

definition answer_later :: "('a \<Rightarrow> response_body) \<Rightarrow> ('w, 'h, 'a) may_hang \<Rightarrow> ('w, 'h, response_body) may_hang" where
  "answer_later body h s = map_option (\<lambda>(r, t). (map_res body r, t)) (h s)"

text \<open>The requests of a debug session, refused in \<open>noDebug\<close> mode.\<close>

definition handle_debug_request ::
  "('w, 'h) adapter \<Rightarrow> request \<Rightarrow> ('w, 'h, response_body) may_hang" where
  "handle_debug_request ad arguments =
     (let ll = ad_lldb ad; ht = ad_handles ad; bp = ad_breakpoints ad; ta = ad_threads ad; ra = ad_run ad;
          sa = ad_steps ad; va = ad_values ad; ma = ad_modules ad; ia = ad_inspect ad; mem = ad_memory ad in
      case arguments of
        Rq_setBreakpoints args \<Rightarrow> answer Rb_setBreakpoints (handle_set_breakpoints ll bp args)
      | Rq_setInstructionBreakpoints args \<Rightarrow>
          answer Rb_setInstructionBreakpoints (handle_set_instruction_breakpoints ll bp args)
      | Rq_setFunctionBreakpoints args \<Rightarrow>
          answer Rb_setFunctionBreakpoints (handle_set_function_breakpoints ll bp args)
      | Rq_setExceptionBreakpoints args \<Rightarrow>
          answer Rb_setExceptionBreakpoints (handle_set_exception_breakpoints ll bp args)
      | Rq_exceptionInfo args \<Rightarrow> answer Rb_exceptionInfo (handle_exception_info ll ta ia args)
      | Rq_threads \<Rightarrow> answer Rb_threads (handle_threads ll ia)
      | Rq_stackTrace args \<Rightarrow> answer Rb_stackTrace (handle_stack_trace ll ia ma ht args)
      | Rq_scopes args \<Rightarrow> answer Rb_scopes (handle_scopes ht args)
      | Rq_variables args \<Rightarrow> answer Rb_variables (handle_variables ll va ht args)
      | Rq_evaluate args \<Rightarrow> now (handle_evaluate ll va ht args)
      | Rq_setVariable args \<Rightarrow> answer Rb_setVariable (handle_set_variable ll va ht args)
      | Rq_pause args \<Rightarrow> answer (\<lambda>_. Rb_pause) (handle_pause ll ta ra args)
      | Rq_continue args \<Rightarrow> answer Rb_continue (handle_continue ll ra ht args)
      | Rq_next args \<Rightarrow> answer (\<lambda>_. Rb_next) (handle_next ll ra ht args)
      | Rq_stepInTargets args \<Rightarrow> answer Rb_stepInTargets (handle_step_in_targets ll sa ht args)
      | Rq_stepIn args \<Rightarrow> answer_later (\<lambda>_. Rb_stepIn) (handle_step_in ll ta ra sa va ht args)
      | Rq_stepOut args \<Rightarrow> answer (\<lambda>_. Rb_stepOut) (handle_step_out ll ra ht args)
      | Rq_stepBack args \<Rightarrow> answer (\<lambda>_. Rb_stepBack) (handle_step_back ll ht args)
      | Rq_reverseContinue args \<Rightarrow> answer (\<lambda>_. Rb_reverseContinue) (handle_reverse_continue ll ht args)
      | Rq_source args \<Rightarrow> answer (\<lambda>(content, mime). Rb_source content mime) (handle_source ll args)
      | Rq_modules args \<Rightarrow> answer (\<lambda>(modules, total). Rb_modules modules total) (handle_modules ia ma args)
      | Rq_completions args \<Rightarrow> answer Rb_completions (handle_completions ia args)
      | Rq_gotoTargets args \<Rightarrow> answer Rb_gotoTargets (handle_goto_targets args)
      | Rq_goto args \<Rightarrow> answer (\<lambda>_. Rb_goto) (handle_goto ll ra args)
      | Rq_restartFrame args \<Rightarrow> answer (\<lambda>_. Rb_restartFrame) (handle_restart_frame ll ra ht args)
      | Rq_dataBreakpointInfo args \<Rightarrow>
          answer Rb_dataBreakpointInfo (handle_data_breakpoint_info ll va ia ht args)
      | Rq_setDataBreakpoints args \<Rightarrow> answer Rb_setDataBreakpoints (handle_set_data_breakpoints mem args)
      | Rq_disassemble args \<Rightarrow> answer_later Rb_disassemble (disassemble_request ad args)
      | Rq_readMemory args \<Rightarrow> answer Rb_readMemory (handle_read_memory mem args)
      | Rq_writeMemory args \<Rightarrow> answer Rb_writeMemory (handle_write_memory mem args)
      | Rq_symbols args \<Rightarrow> answer Rb_symbols (handle_symbols ll ia ma args)
      | Rq_excludeCaller args \<Rightarrow> answer Rb_excludeCaller (handle_exclude_caller ll bp ta args)
      | Rq_setExcludedCallers args \<Rightarrow> answer (\<lambda>_. Rb_setExcludedCallers) (handle_set_excluded_callers args)
      | Rq_pythonMessage args \<Rightarrow> answer (\<lambda>_. Rb_pythonMessage) (handle_python_message ad args)
      | _ \<Rightarrow> now (failS (str_error ''Not implemented.'')))"

definition handle_request_args ::
  "('w, 'h) adapter \<Rightarrow> request \<Rightarrow> ('w, 'h, response_body) may_hang" where
  "handle_request_args ad arguments s =
     (let ll = ad_lldb ad; st = ad_settings ad; la = ad_launch ad; ta = ad_threads ad; ra = ad_run ad in
      case arguments of
        Rq_adapterSettings args \<Rightarrow> answer (\<lambda>_. Rb_adapterSettings) (handle_adapter_settings ll st args) s
      | Rq_initialize args \<Rightarrow> answer Rb_initialize (handle_initialize (is_ok (v16 (ad_steps ad))) args) s
      | Rq_launch (First args) \<Rightarrow> now (handle_launch ll st la args) s
      | Rq_launch (Second cfg) \<Rightarrow> now (report_launch_cfg_error la cfg) s
      | Rq_attach (First args) \<Rightarrow> now (handle_attach ll st la args) s
      | Rq_attach (Second cfg) \<Rightarrow> now (report_launch_cfg_error la cfg) s
      | Rq_restart (First args) \<Rightarrow> answer (\<lambda>_. Rb_restart) (handle_restart ll ta ra la args) s
      | Rq_restart (Second cfg) \<Rightarrow> now (report_launch_cfg_error la cfg) s
      | Rq_configurationDone \<Rightarrow> now handle_configuration_done s
      | Rq_terminate \<Rightarrow> answer (\<lambda>_. Rb_terminate) (handle_terminate ll ra la) s
      | Rq_disconnect args \<Rightarrow> answer (\<lambda>_. Rb_disconnect) (handle_disconnect ll la args) s
      | _ \<Rightarrow>
          if no_debug s then Some (Err (str_error ''Not supported in noDebug mode.''), s)
          else handle_debug_request ad arguments s)"

text \<open>A request is answered at once, or by a future later.\<close>

definition handle_request ::
  "('w, 'h) adapter \<Rightarrow> u32 \<Rightarrow> request \<Rightarrow> bool \<Rightarrow> ('w, 'h, unit) may_hang" where
  "handle_request ad seq request_args is_cancelled s =
     (if is_cancelled then Some (send_response seq (Err (str_error ''canceled'')) s)
      else if request_args = Rq_unknown then Some (send_response seq (Err (str_error ''Not implemented.'')) s)
      else case handle_request_args ad request_args s of
        None \<Rightarrow> None
      | Some (Err (AsyncResponse fut), t) \<Rightarrow> Some (spawn_future seq fut t)
      | Some (r, t) \<Rightarrow> Some (send_response seq r t))"

section \<open>Futures\<close>

text \<open>The futures that hold a receiver of \<open>configurationDone\<close>.\<close>

fun awaits_configuration :: "future \<Rightarrow> bool" where
  "awaits_configuration (FutLaunch _) = True"
| "awaits_configuration (FutStart _) = True"
| "awaits_configuration (FutAttach _) = True"
| "awaits_configuration _ = False"

text \<open>Whether a future can go on, given the others.\<close>

fun future_ready :: "(u32 \<times> bool \<times> future) list \<Rightarrow> bool \<Rightarrow> future \<Rightarrow> bool" where
  "future_ready others released FutConfigurationDone = (\<not> list_ex (\<lambda>(_, _, f). awaits_configuration f) others)"
| "future_ready others released (FutLaunch _) = released"
| "future_ready others released (FutAttach _) = released"
| "future_ready others released (FutStart _) = True"
| "future_ready others released (FutReady _) = True"

definition respond_with :: "u32 \<Rightarrow> ('w, 'h, response_body) handler \<Rightarrow> ('w, 'h, unit) handler" where
  "respond_with seq h = bindS (attemptS h) (send_response seq)"

text \<open>What a future that has been taken off the list does next.\<close>

definition run_future :: "('w, 'h) adapter \<Rightarrow> u32 \<Rightarrow> future \<Rightarrow> ('w, 'h, unit) handler" where
  "run_future ad seq fut =
     (let ll = ad_lldb ad; ta = ad_threads ad; ra = ad_run ad; la = ad_launch ad in
      case fut of
        FutConfigurationDone \<Rightarrow> send_response seq (Ok Rb_configurationDone)
      | FutReady r \<Rightarrow> send_response seq r
      | FutLaunch args \<Rightarrow>
          thenS (create_terminal la (ad_run_terminal ad) args) (spawn_future seq (FutStart args))
      | FutStart args \<Rightarrow> respond_with seq (complete_launch ll ta ra la args)
      | FutAttach args \<Rightarrow> respond_with seq (complete_attach ll ta ra la args))"

section \<open>The main loop\<close>

datatype python_event =
    PySendDapEvent event
  | PyStartDebugging json
  | PyDebuggerMessage string string

definition handle_python_event :: "python_event \<Rightarrow> ('w, 'h, unit) handler" where
  "handle_python_event event =
     (case event of
        PySendDapEvent e \<Rightarrow> send_event e
      | PyStartDebugging request \<Rightarrow> modifyS (\<lambda>s. s\<lparr>outbox := outbox s @ [MRequest (Rq_startDebugging request)]\<rparr>)
      | PyDebuggerMessage output category \<Rightarrow> console_message_impl (Some category) output)"

text \<open>
  One turn of the loop, or of one of the spawned futures between turns, that does not panic; the label
  is the request that was taken, if one was: its sequence number, its arguments, and whether it had been
  cancelled by then.
\<close>

inductive session_step ::
  "('w, 'h) adapter \<Rightarrow> ('w, 'h) session \<Rightarrow> (u32 \<times> request \<times> bool) option \<Rightarrow> ('w, 'h) session \<Rightarrow> bool"
  for ad where
  on_request: "handle_request ad seq request is_cancelled s = Some (Ok (), t) \<Longrightarrow> session_step ad s (Some (seq, request, is_cancelled)) t"
| on_debug_event: "handle_debug_event (ad_lldb ad) (ad_breakpoints ad) (ad_threads ad) (ad_run ad) (ad_modules ad)
     (ad_streams ad) (ad_v15 ad) event s = Some t \<Longrightarrow> session_step ad s None t"
| on_python_event: "handle_python_event event s = (Ok (), t) \<Longrightarrow> session_step ad s None t"
| on_future: "pending_futures s = before @ (seq, released, fut) # after \<Longrightarrow>
     future_ready (before @ after) released fut \<Longrightarrow>
     run_future ad seq fut (s\<lparr>pending_futures := before @ after\<rparr>) = (Ok (), t) \<Longrightarrow>
     session_step ad s None t"

inductive session_run ::
  "('w, 'h) adapter \<Rightarrow> ('w, 'h) session \<Rightarrow> (u32 \<times> request \<times> bool) list \<Rightarrow> ('w, 'h) session \<Rightarrow> bool"
  for ad where
  run_refl: "session_run ad s [] s"
| run_step: "session_run ad s requests t \<Longrightarrow> session_step ad t taken u \<Longrightarrow>
     session_run ad s (requests @ (case taken of Some request \<Rightarrow> [request] | None \<Rightarrow> [])) u"

end
