(* ===== verification/Steady.thy ===== *)
theory Steady
  imports Frames Dispatch
begin

text \<open>
  What handlers leave alone.  Whatever a handler does, the only messages it sends are events, and it
  leaves alone the futures that will answer and the modes of the session; the few that do change a mode are
  listed at the end.  Only \<open>handle_request\<close> and the futures themselves send responses.
\<close>

section \<open>The relations\<close>

definition silent :: "('w, 'h) session \<Rightarrow> ('w, 'h) session \<Rightarrow> bool" where
  "silent s t \<longleftrightarrow> pending_futures t = pending_futures s \<and> (\<exists>es. outbox t = outbox s @ map MEvent es)"

definition same_modes :: "('w, 'h) session \<Rightarrow> ('w, 'h) session \<Rightarrow> bool" where
  "same_modes s t \<longleftrightarrow> no_debug t = no_debug s \<and> terminate_on_disconnect t = terminate_on_disconnect s
     \<and> pre_terminate_commands t = pre_terminate_commands s \<and> exit_commands t = exit_commands s"

definition same_cork :: "('w, 'h) session \<Rightarrow> ('w, 'h) session \<Rightarrow> bool" where
  "same_cork s t \<longleftrightarrow> corked t = corked s"

definition steady :: "('w, 'h) session \<Rightarrow> ('w, 'h) session \<Rightarrow> bool" where
  "steady s t \<longleftrightarrow> silent s t \<and> same_modes s t \<and> same_cork s t"

lemmas steady_defs = steady_def silent_def same_modes_def same_cork_def

interpretation silent: frame_relation silent
proof unfold_locales
  show "silent s s" for s :: "('w, 'h) session" by (simp add: silent_def)
  fix s t u :: "('w, 'h) session"
  assume "silent s t" "silent t u"
  then obtain es fs where "outbox u = outbox s @ map MEvent (es @ fs)" "pending_futures u = pending_futures s"
    by (auto simp: silent_def)
  then show "silent s u" unfolding silent_def by blast
qed

interpretation modes: frame_relation same_modes
  by unfold_locales (simp_all add: same_modes_def)

interpretation cork: frame_relation same_cork
  by unfold_locales (simp_all add: same_cork_def)

interpretation steady: frame_relation steady
  by unfold_locales (auto simp: steady_def silent.refl modes.refl cork.refl
      intro: silent.trans modes.trans cork.trans)

lemmas [preserves_intros] = steady.preserves_rules

section \<open>The ways to change a session\<close>

lemma steady_modifyS [preserves_intros]:
  assumes "\<And>s. pending_futures (f s) = pending_futures s" "\<And>s. outbox (f s) = outbox s"
    and "\<And>s. no_debug (f s) = no_debug s" "\<And>s. terminate_on_disconnect (f s) = terminate_on_disconnect s"
    and "\<And>s. pre_terminate_commands (f s) = pre_terminate_commands s" "\<And>s. exit_commands (f s) = exit_commands s"
    and "\<And>s. corked (f s) = corked s"
  shows "preserves steady (modifyS f)"
  by (simp add: preserves_def steady_defs modifyS_def assms)

lemma steady_send_event [preserves_intros]: "preserves steady (send_event e)"
  by (auto simp: preserves_def steady_defs send_event_def modifyS_def intro: exI [of _ "[e]"])

lemma steady_world [preserves_intros]: "preserves steady (modify_world f)" "preserves steady (call_world g)"
  by (auto simp: preserves_def steady_defs modify_world_def call_world_def modifyS_def Let_def split: prod.splits)

lemma steady_console [preserves_intros]:
  "preserves steady (console_message_impl c m)" "preserves steady (console_message m)" "preserves steady (console_error m)"
  by (simp_all add: console_message_impl_def console_message_def console_error_def preserves_intros)

lemma steady_thread_by_id [preserves_intros]: "preserves steady (thread_by_id ll tid)"
  by (auto simp: preserves_def steady.refl dest: thread_by_id_same)

lemma steady_map_filespec [preserves_intros]: "preserves steady (map_filespec_to_local ll fs)"
  by (auto simp: preserves_def steady_defs map_filespec_to_local_def Let_def split: prod.splits if_splits option.splits)

lemma steady_in_disassembly [preserves_intros]: "preserves steady (in_disassembly ll frame)"
  unfolding in_disassembly_alt by (intro preserves_intros)

lemma steady_before_resume [preserves_intros]: "preserves steady (before_resume ht)"
  by (auto simp: before_resume_def intro!: preserves_intros)

lemmas steady_splits = option.split res.split prod.split either.split container.split prepared_expression.split
  breakpoint_kind.split breakpoint_mode.split stepping_granularity.split process_state.split terminal_request.split
  console_mode.split nat.split python_event.split list.split bool.split

lemma steady_dasm_from_address [preserves_intros]: "preserves steady (dasm_from_address ll a)"
  by (auto simp: preserves_def steady_defs dasm_from_address_def Let_def split: prod.splits intro: exI [of _ "[]"])

lemma steady_read_hit_condition [preserves_intros]: "preserves steady (read_hit_condition api hit_condition)"
  unfolding read_hit_condition_def Let_def by (auto intro!: preserves_intros split: steady_splits)

lemma steady_make_bp_info [preserves_intros]: "preserves steady (make_bp_info api bp kind condition log_message hit_condition)"
  unfolding make_bp_info_def Let_def by (auto intro!: preserves_intros split: steady_splits)

lemma steady_source_response [preserves_intros]: "preserves steady (source_response ll api bp_info include_source base)"
  by (auto simp: preserves_def steady_defs source_response_def Let_def split: option.splits if_splits intro: exI [of _ "[]"])

lemma steady_disassembly_response [preserves_intros]: "preserves steady (disassembly_response ll api bp_info base)"
  using preservesD [OF steady_dasm_from_address, of ll]
  by (fastforce simp: preserves_def disassembly_response_def Let_def split: prod.splits res.splits)

lemma steady_make_bp_response [preserves_intros]: "preserves steady (make_bp_response ll api bp_info include_source)"
  using preservesD [OF steady_source_response, of ll api] preservesD [OF steady_disassembly_response, of ll api]
  by (fastforce simp: preserves_def make_bp_response_def Let_def steady.refl split: if_splits breakpoint_kind.splits)

lemma steady_condition_error [preserves_intros]: "preserves steady (condition_error err)"
  unfolding condition_error_def Let_def by (auto intro!: preserves_intros split: steady_splits)

lemma steady_compile_condition [preserves_intros]: "preserves steady (compile_condition api expr ctx)"
  unfolding compile_condition_def Let_def by (auto intro!: preserves_intros split: steady_splits)

lemma steady_py_condition_of [preserves_intros]: "preserves steady (py_condition_of api bp_info)"
  unfolding py_condition_of_def Let_def by (auto intro!: preserves_intros split: steady_splits)

lemma steady_init_bp_actions [preserves_intros]: "preserves steady (init_bp_actions api bp_info)"
  unfolding init_bp_actions_def Let_def by (auto intro!: preserves_intros split: steady_splits)

lemma steady_update_bps [preserves_intros]: "preserves steady (update_bps f)"
  unfolding update_bps_def Let_def by (auto intro!: preserves_intros split: steady_splits)

lemma steady_remember_info [preserves_intros]: "preserves steady (remember_info bp_info)"
  unfolding remember_info_def Let_def by (auto intro!: preserves_intros split: steady_splits)

lemma steady_forget_info [preserves_intros]: "preserves steady (forget_info i)"
  unfolding forget_info_def Let_def by (auto intro!: preserves_intros split: steady_splits)

lemma steady_place_bp [preserves_intros]: "preserves steady create \<Longrightarrow> preserves steady (place_bp api existing_bps key create kind condition log_message hit_condition)"
  unfolding place_bp_def Let_def by (auto intro!: preserves_intros split: steady_splits)

lemma steady_delete_if_stale [preserves_intros]: "preserves steady (delete_if_stale api forget new_bps entry)"
  unfolding delete_if_stale_def Let_def by (auto intro!: preserves_intros split: steady_splits)

lemma steady_delete_stale [preserves_intros]: "preserves steady (delete_stale api forget existing_bps new_bps)"
  unfolding delete_stale_def Let_def by (auto intro!: preserves_intros split: steady_splits)

lemma steady_table_loop [preserves_intros]: "(\<And>r. preserves steady (plan r)) \<Longrightarrow> preserves steady (table_loop plan reqs new)"
  by (induction reqs arbitrary: new) (auto intro!: preserves_intros)

lemma steady_update_table [preserves_intros]: "(\<And>r. preserves steady (plan r)) \<Longrightarrow> preserves steady (update_table api forget plan existing_bps reqs)"
  unfolding update_table_def Let_def by (auto intro!: preserves_intros split: steady_splits)

lemma steady_create_source_bp [preserves_intros]: "preserves steady (create_source_bp api file_path_norm req)"
  unfolding create_source_bp_def Let_def by (auto intro!: preserves_intros split: steady_splits)

lemma steady_get_breakpoint_hint [preserves_intros]: "preserves steady (get_breakpoint_hint ll api filepath line column)"
  unfolding get_breakpoint_hint_def Let_def by (auto intro!: preserves_intros split: steady_splits)

lemma steady_add_hint [preserves_intros]: "preserves steady (add_hint ll api file_path_norm req bp_info response)"
  unfolding add_hint_def Let_def by (auto intro!: preserves_intros split: steady_splits)

lemma steady_source_plan [preserves_intros]: "preserves steady (source_plan ll api file_path_norm existing_bps req)"
  unfolding source_plan_def Let_def by (auto intro!: preserves_intros split: steady_splits)

lemma steady_set_source_breakpoints [preserves_intros]: "preserves steady (set_source_breakpoints ll api file_path requested_bps)"
  unfolding set_source_breakpoints_def Let_def by (auto intro!: preserves_intros split: steady_splits)

lemma steady_dasm_plan [preserves_intros]: "preserves steady (dasm_plan ll api dasm existing_bps req)"
  unfolding dasm_plan_def Let_def by (auto intro!: preserves_intros split: steady_splits)

lemma steady_set_dasm_breakpoints [preserves_intros]: "preserves steady (set_dasm_breakpoints ll api dasm requested_bps)"
  unfolding set_dasm_breakpoints_def Let_def by (auto intro!: preserves_intros split: steady_splits)

lemma steady_new_dasm_bp [preserves_intros]: "preserves steady (new_dasm_bp ll api line_addresses req)"
  unfolding new_dasm_bp_def Let_def by (auto intro!: preserves_intros split: steady_splits)

lemma steady_set_new_dasm_breakpoints [preserves_intros]: "preserves steady (set_new_dasm_breakpoints ll api data requested_bps)"
  unfolding set_new_dasm_breakpoints_def Let_def by (auto intro!: preserves_intros split: steady_splits)

lemma steady_handle_set_breakpoints [preserves_intros]: "preserves steady (handle_set_breakpoints ll api args)"
  unfolding handle_set_breakpoints_def Let_def by (auto intro!: preserves_intros split: steady_splits)

lemma steady_instruction_plan [preserves_intros]: "preserves steady (instruction_plan ll api existing_bps req)"
  unfolding instruction_plan_def Let_def by (auto intro!: preserves_intros split: steady_splits)

lemma steady_handle_set_instruction_breakpoints [preserves_intros]: "preserves steady (handle_set_instruction_breakpoints ll api reqs)"
  unfolding handle_set_instruction_breakpoints_def Let_def by (auto intro!: preserves_intros split: steady_splits)

lemma steady_create_function_bp [preserves_intros]: "preserves steady (create_function_bp api name)"
  unfolding create_function_bp_def Let_def by (auto intro!: preserves_intros split: steady_splits)

lemma steady_function_plan [preserves_intros]: "preserves steady (function_plan ll api existing_bps req)"
  unfolding function_plan_def Let_def by (auto intro!: preserves_intros split: steady_splits)

lemma steady_handle_set_function_breakpoints [preserves_intros]: "preserves steady (handle_set_function_breakpoints ll api reqs)"
  unfolding handle_set_function_breakpoints_def Let_def by (auto intro!: preserves_intros split: steady_splits)

lemma steady_create_exception_bp [preserves_intros]: "preserves steady (create_exception_bp api create name)"
  unfolding create_exception_bp_def Let_def by (auto intro!: preserves_intros split: steady_splits)

lemma steady_set_exception_breakpoint [preserves_intros]: "preserves steady (set_exception_breakpoint api exc_name)"
  unfolding set_exception_breakpoint_def Let_def by (auto intro!: preserves_intros split: steady_splits)

lemma steady_clear_exception_bps [preserves_intros]: "preserves steady (clear_exception_bps api)"
  unfolding clear_exception_bps_def Let_def by (auto intro!: preserves_intros split: steady_splits)

lemma steady_add_exception_bp [preserves_intros]: "preserves steady (add_exception_bp ll api flt)"
  unfolding add_exception_bp_def Let_def by (auto intro!: preserves_intros split: steady_splits)

lemma steady_handle_set_exception_breakpoints [preserves_intros]: "preserves steady (handle_set_exception_breakpoints ll api args)"
  unfolding handle_set_exception_breakpoints_def Let_def by (auto intro!: preserves_intros split: steady_splits)

lemma steady_count_hit [preserves_intros]: "preserves steady (count_hit i bp_info)"
  unfolding count_hit_def Let_def by (auto intro!: preserves_intros split: steady_splits)

lemma steady_handle_breakpoint_event [preserves_intros]: "preserves steady (handle_breakpoint_event ll api bp event_type)"
  unfolding handle_breakpoint_event_def Let_def by (auto intro!: preserves_intros split: steady_splits)

lemma steady_handle_exclude_caller [preserves_intros]: "preserves steady (handle_exclude_caller ll api ta args)"
  unfolding handle_exclude_caller_def Let_def by (auto intro!: preserves_intros split: steady_splits)

lemma steady_handle_set_excluded_callers [preserves_intros]: "preserves steady (handle_set_excluded_callers exclusions)"
  unfolding handle_set_excluded_callers_def Let_def by (auto intro!: preserves_intros split: steady_splits)

lemma steady_timed_out [preserves_intros]: "preserves steady (timed_out va start timeout)"
  unfolding timed_out_def Let_def by (auto intro!: preserves_intros split: steady_splits)

lemma steady_compose_container_eval_name [preserves_intros]: "preserves steady (compose_container_eval_name va ht container_handle)"
  by (simp add: preserves_def compose_container_eval_name_def steady.refl)

lemma steady_summary_should_stop [preserves_intros]: "preserves steady (summary_should_stop va start unlimited summary)"
  unfolding summary_should_stop_def Let_def by (auto intro!: preserves_intros split: steady_splits)

lemma steady_summary_loop [preserves_intros]: "preserves steady (summary_loop va start unlimited vs summary separator)"
  by (induction vs arbitrary: summary separator) (auto intro!: preserves_intros split: option.split)

lemma steady_get_container_summary [preserves_intros]: "preserves steady (get_container_summary va var unlimited)"
  unfolding get_container_summary_def Let_def by (auto intro!: preserves_intros split: steady_splits)

lemma steady_plain_summary [preserves_intros]: "preserves steady (plain_summary va var unlimited)"
  unfolding plain_summary_def Let_def by (auto intro!: preserves_intros split: steady_splits)

lemma steady_get_var_summary [preserves_intros]: "preserves steady (get_var_summary ll va var unlimited)"
  unfolding get_var_summary_def Let_def by (auto intro!: preserves_intros split: steady_splits)

lemma steady_get_var_handle [preserves_intros]: "preserves steady (get_var_handle va ht parent_handle key var)"
  by (auto simp: preserves_def steady_defs get_var_handle_def Let_def split: if_splits prod.splits intro: exI [of _ "[]"])

lemma steady_var_to_variable [preserves_intros]: "preserves steady (var_to_variable ll va ht var container_eval_name container_handle)"
  unfolding var_to_variable_def Let_def by (auto intro!: preserves_intros split: steady_splits)

lemma steady_convert_loop [preserves_intros]:
  "preserves steady (convert_loop ll va ht start cname chandle dedup vars acc)"
  by (induction vars arbitrary: acc) (simp_all only: convert_loop.simps Let_def, (intro preserves_intros | assumption)+)

lemma steady_convert_scope_values [preserves_intros]: "preserves steady (convert_scope_values ll va ht vars container_eval_name container_handle deduplicate)"
  unfolding convert_scope_values_def Let_def by (auto intro!: preserves_intros split: steady_splits)

lemma steady_create_scope [preserves_intros]: "preserves steady (create_scope ht frame_id key name c)"
  by (auto simp: preserves_def steady_defs create_scope_def split: prod.splits intro: exI [of _ "[]"])

lemma steady_handle_scopes [preserves_intros]: "preserves steady (handle_scopes ht frame_id)"
  unfolding handle_scopes_def Let_def by (auto intro!: preserves_intros split: steady_splits)

lemma steady_locals_of [preserves_intros]: "preserves steady (locals_of ll va ht container_handle frame)"
  unfolding locals_of_def Let_def by (auto intro!: preserves_intros split: steady_splits)

lemma steady_statics_of [preserves_intros]: "preserves steady (statics_of ll va ht container_handle frame kind)"
  unfolding statics_of_def Let_def by (auto intro!: preserves_intros split: steady_splits)

lemma steady_children_of [preserves_intros]: "preserves steady (children_of ll va ht container_handle var)"
  unfolding children_of_def Let_def by (auto intro!: preserves_intros split: steady_splits)

lemma steady_handle_variables [preserves_intros]: "preserves steady (handle_variables ll va ht container_handle)"
  unfolding handle_variables_def Let_def by (auto intro!: preserves_intros split: steady_splits)

lemma steady_eval_python [preserves_intros]: "preserves steady (eval_python va pp_expr ctx frame)"
  unfolding eval_python_def Let_def by (auto intro!: preserves_intros split: steady_splits)

lemma steady_evaluate_expr_in_frame [preserves_intros]: "preserves steady (evaluate_expr_in_frame va expression frame)"
  unfolding evaluate_expr_in_frame_def Let_def by (auto intro!: preserves_intros split: steady_splits)

lemma steady_create_array [preserves_intros]: "preserves steady (create_array va sbval element count)"
  unfolding create_array_def Let_def by (auto intro!: preserves_intros split: steady_splits)

lemma steady_as_array [preserves_intros]: "preserves steady (as_array va sbval count)"
  unfolding as_array_def Let_def by (auto intro!: preserves_intros split: steady_splits)

lemma steady_apply_format_spec [preserves_intros]: "preserves steady (apply_format_spec va sbval spec)"
  unfolding apply_format_spec_def Let_def by (auto intro!: preserves_intros split: steady_splits)

lemma steady_handle_evaluate_expression [preserves_intros]: "preserves steady (handle_evaluate_expression ll va ht expression frame for_clipboard)"
  unfolding handle_evaluate_expression_def Let_def by (auto intro!: preserves_intros split: steady_splits)

lemma steady_handle_execute_command [preserves_intros]: "preserves steady (handle_execute_command va command frame return_output)"
  unfolding handle_execute_command_def Let_def by (auto intro!: preserves_intros split: steady_splits)

lemma steady_evaluate_in_context [preserves_intros]: "preserves steady (evaluate_in_context ll va ht args frame)"
  unfolding evaluate_in_context_def Let_def by (auto intro!: preserves_intros split: steady_splits)

lemma steady_handle_evaluate [preserves_intros]: "preserves steady (handle_evaluate ll va ht args)"
  unfolding handle_evaluate_def Let_def by (auto intro!: preserves_intros split: steady_splits)

lemma steady_handle_set_variable [preserves_intros]: "preserves steady (handle_set_variable ll va ht args)"
  unfolding handle_set_variable_def Let_def by (auto intro!: preserves_intros split: steady_splits)

lemma steady_try_world [preserves_intros]: "preserves steady (try_world f)"
  unfolding try_world_def Let_def by (auto intro!: preserves_intros split: steady_splits)

lemma steady_process_running [preserves_intros]: "preserves steady (process_running ll)"
  unfolding process_running_def Let_def by (auto intro!: preserves_intros split: steady_splits)

lemma steady_notify_process_running [preserves_intros]: "preserves steady (notify_process_running ll ra)"
  unfolding notify_process_running_def Let_def by (auto intro!: preserves_intros split: steady_splits)

lemma steady_select_stopped_thread [preserves_intros]: "preserves steady (select_stopped_thread ll ta ra)"
  unfolding select_stopped_thread_def Let_def by (auto intro!: preserves_intros split: steady_splits)

lemma steady_notify_process_stopped [preserves_intros]: "preserves steady (notify_process_stopped ll ta ra)"
  unfolding notify_process_stopped_def Let_def by (auto intro!: preserves_intros split: steady_splits)

lemma steady_notify_process_terminated [preserves_intros]: "preserves steady (notify_process_terminated ll ra)"
  unfolding notify_process_terminated_def Let_def by (auto intro!: preserves_intros split: steady_splits)

lemma steady_handle_pause [preserves_intros]: "preserves steady (handle_pause ll ta ra args)"
  unfolding handle_pause_def Let_def by (auto intro!: preserves_intros split: steady_splits)

lemma steady_handle_continue [preserves_intros]: "preserves steady (handle_continue ll ra ht args)"
  unfolding handle_continue_def Let_def by (auto intro!: preserves_intros split: steady_splits)

lemma steady_step_by_instruction [preserves_intros]: "preserves steady (step_by_instruction ll granularity thread)"
  unfolding step_by_instruction_def Let_def by (auto intro!: preserves_intros split: steady_splits)

lemma steady_handle_next [preserves_intros]: "preserves steady (handle_next ll ra ht args)"
  unfolding handle_next_def Let_def by (auto intro!: preserves_intros split: steady_splits)

lemma steady_handle_step_out [preserves_intros]: "preserves steady (handle_step_out ll ra ht thread_id)"
  unfolding handle_step_out_def Let_def by (auto intro!: preserves_intros split: steady_splits)

lemma steady_reverse_exec [preserves_intros]: "preserves steady (reverse_exec ll commands)"
  by (induction commands) (auto intro!: preserves_intros)

lemma steady_handle_step_back [preserves_intros]: "preserves steady (handle_step_back ll ht thread_id)"
  unfolding handle_step_back_def Let_def by (auto intro!: preserves_intros split: steady_splits)

lemma steady_handle_reverse_continue [preserves_intros]: "preserves steady (handle_reverse_continue ll ht thread_id)"
  unfolding handle_reverse_continue_def Let_def by (auto intro!: preserves_intros split: steady_splits)

lemma steady_refresh_client_display [preserves_intros]: "preserves steady (refresh_client_display ll thread_id)"
  unfolding refresh_client_display_def Let_def by (auto intro!: preserves_intros split: steady_splits)

lemma steady_handle_goto_targets [preserves_intros]: "preserves steady (handle_goto_targets args)"
  unfolding handle_goto_targets_def Let_def by (auto intro!: preserves_intros split: steady_splits)

lemma steady_goto_dasm_line [preserves_intros]: "preserves steady (goto_dasm_line ll ra thread_id thread source_ref line)"
  unfolding goto_dasm_line_def Let_def by (auto intro!: preserves_intros split: steady_splits)

lemma steady_goto_source_line [preserves_intros]: "preserves steady (goto_source_line ll ra thread_id thread path line)"
  unfolding goto_source_line_def Let_def by (auto intro!: preserves_intros split: steady_splits)

lemma steady_handle_goto [preserves_intros]: "preserves steady (handle_goto ll ra thread_id)"
  unfolding handle_goto_def Let_def by (auto intro!: preserves_intros split: steady_splits)

lemma steady_handle_restart_frame [preserves_intros]: "preserves steady (handle_restart_frame ll ra ht frame_id)"
  unfolding handle_restart_frame_def Let_def by (auto intro!: preserves_intros split: steady_splits)

lemma steady_send_modules [preserves_intros]: "preserves steady (send_modules reason detail modules)"
  unfolding send_modules_def Let_def by (auto intro!: preserves_intros split: steady_splits)

lemma steady_handle_target_event [preserves_intros]: "preserves steady (handle_target_event ma event_type modules)"
  unfolding handle_target_event_def Let_def by (auto intro!: preserves_intros split: steady_splits)

lemma steady_handle_state_change [preserves_intros]: "preserves steady (handle_state_change ll ta ra event)"
  unfolding handle_state_change_def Let_def by (auto intro!: preserves_intros split: steady_splits)

lemma steady_handle_thread_event [preserves_intros]: "preserves steady (handle_thread_event event_type)"
  unfolding handle_thread_event_def Let_def by (auto intro!: preserves_intros split: steady_splits)

lemma steady_handle_diagnostic_event [preserves_intros]: "preserves steady (handle_diagnostic_event diag_type message)"
  unfolding handle_diagnostic_event_def Let_def by (auto intro!: preserves_intros split: steady_splits)

lemma steady_handle_threads [preserves_intros]: "preserves steady (handle_threads ll ia)"
  unfolding handle_threads_def Let_def by (auto intro!: preserves_intros split: steady_splits)

lemma steady_source_location [preserves_intros]: "preserves steady (source_location ll frame body)"
  unfolding source_location_def Let_def by (auto intro!: preserves_intros split: steady_splits)

lemma steady_disassembly_location [preserves_intros]: "preserves steady (disassembly_location ll frame i body)"
  unfolding disassembly_location_def Let_def by (auto intro!: preserves_intros split: steady_splits)

lemma steady_create_frame_ref [preserves_intros]: "preserves steady (create_frame_ref ll ht thread i frame)"
  by (auto simp: preserves_def steady_defs create_frame_ref_def Let_def split: prod.splits intro: exI [of _ "[]"])

lemma steady_describe_frame [preserves_intros]: "preserves steady (describe_frame ll ia ma ht thread i frame)"
  unfolding describe_frame_def Let_def by (auto intro!: preserves_intros split: steady_splits)

lemma steady_stack_loop [preserves_intros]:
  "(\<And>i f. preserves steady (describe i f)) \<Longrightarrow> preserves steady (stack_loop ll describe thread n i)"
  by (induction n arbitrary: i) (subst stack_loop.simps, auto intro!: preserves_intros)+

lemma steady_handle_stack_trace [preserves_intros]: "preserves steady (handle_stack_trace ll ia ma ht args)"
  unfolding handle_stack_trace_def Let_def by (auto intro!: preserves_intros split: steady_splits)

lemma steady_handle_source [preserves_intros]: "preserves steady (handle_source ll handle)"
  unfolding handle_source_def Let_def by (auto intro!: preserves_intros split: steady_splits)

lemma steady_handle_modules [preserves_intros]: "preserves steady (handle_modules ia ma args)"
  unfolding handle_modules_def Let_def by (auto intro!: preserves_intros split: steady_splits)

lemma steady_handle_exception_info [preserves_intros]: "preserves steady (handle_exception_info ll ta ia thread_id)"
  unfolding handle_exception_info_def Let_def by (auto intro!: preserves_intros split: steady_splits)

lemma steady_handle_completions [preserves_intros]: "preserves steady (handle_completions ia args)"
  unfolding handle_completions_def Let_def by (auto intro!: preserves_intros split: steady_splits)

lemma steady_symbol_location [preserves_intros]: "preserves steady (symbol_location ll start_addr)"
  unfolding symbol_location_def Let_def by (auto intro!: preserves_intros split: steady_splits)

lemma steady_match_symbol [preserves_intros]: "preserves steady (match_symbol ll ia path_of pattern y)"
  unfolding match_symbol_def Let_def by (auto intro!: preserves_intros split: steady_splits)

lemma steady_symbols_loop [preserves_intros]:
  "(\<And>y. preserves steady (match_one y)) \<Longrightarrow> preserves steady (symbols_loop match_one n ys found)"
  by (induction ys arbitrary: found) (auto intro!: preserves_intros)

lemma steady_handle_symbols [preserves_intros]: "preserves steady (handle_symbols ll ia ma args)"
  unfolding handle_symbols_def Let_def by (auto intro!: preserves_intros split: steady_splits)

lemma steady_handle_data_breakpoint_info [preserves_intros]: "preserves steady (handle_data_breakpoint_info ll va ia ht args)"
  unfolding handle_data_breakpoint_info_def Let_def by (auto intro!: preserves_intros split: steady_splits)

lemma steady_watch_one [preserves_intros]: "preserves steady (watch_one ma wp)"
  unfolding watch_one_def Let_def by (auto intro!: preserves_intros split: steady_splits)

lemma steady_handle_set_data_breakpoints [preserves_intros]: "preserves steady (handle_set_data_breakpoints ma requested)"
  unfolding handle_set_data_breakpoints_def Let_def by (auto intro!: preserves_intros split: steady_splits)

lemma steady_handle_read_memory [preserves_intros]: "preserves steady (handle_read_memory ma args)"
  unfolding handle_read_memory_def Let_def by (auto intro!: preserves_intros split: steady_splits)

lemma steady_nothing_written [preserves_intros]: "preserves steady (nothing_written allow_partial n address)"
  unfolding nothing_written_def Let_def by (auto intro!: preserves_intros split: steady_splits)

lemma steady_handle_write_memory [preserves_intros]: "preserves steady (handle_write_memory ma args)"
  unfolding handle_write_memory_def Let_def by (auto intro!: preserves_intros split: steady_splits)

lemma steady_handle_initialize [preserves_intros]: "preserves steady (handle_initialize v16_available args)"
  unfolding handle_initialize_def Let_def by (auto intro!: preserves_intros split: steady_splits)

lemma steady_update_adapter_settings [preserves_intros]: "preserves steady (update_adapter_settings st settings)"
  by (auto simp: preserves_def steady_defs update_adapter_settings_def set_languages_def set_completions_def set_hovers_def set_plain_def Let_def split: prod.splits option.splits if_splits intro: exI [of _ "[]"])

lemma steady_update_adapter_settings_and_caps [preserves_intros]: "preserves steady (update_adapter_settings_and_caps st settings)"
  unfolding update_adapter_settings_and_caps_def Let_def by (auto intro!: preserves_intros split: steady_splits)

lemma steady_print_console_mode [preserves_intros]: "preserves steady print_console_mode"
  unfolding print_console_mode_def Let_def by (auto intro!: preserves_intros split: steady_splits)

lemma steady_handle_adapter_settings [preserves_intros]: "preserves steady (handle_adapter_settings ll st args)"
  unfolding handle_adapter_settings_def Let_def by (auto intro!: preserves_intros split: steady_splits)

lemma steady_run_script [preserves_intros]: "preserves steady (run_script ll commands)"
  by (induction commands) (auto intro!: preserves_intros)

lemma steady_exec_commands [preserves_intros]: "preserves steady (exec_commands ll script_name commands)"
  unfolding exec_commands_def Let_def by (auto intro!: preserves_intros split: steady_splits)

lemma steady_report_launch_cfg_error [preserves_intros]: "preserves steady (report_launch_cfg_error la cfg)"
  unfolding report_launch_cfg_error_def Let_def by (auto intro!: preserves_intros split: steady_splits)

lemma steady_set_target [preserves_intros]: "preserves steady (set_target la target)"
  unfolding set_target_def Let_def by (auto intro!: preserves_intros split: steady_splits)

lemma steady_create_target_from_program [preserves_intros]: "preserves steady (create_target_from_program la program)"
  unfolding create_target_from_program_def Let_def by (auto intro!: preserves_intros split: steady_splits)

lemma steady_target_from_commands [preserves_intros]: "preserves steady (target_from_commands ll la commands)"
  unfolding target_from_commands_def Let_def by (auto intro!: preserves_intros split: steady_splits)

lemma steady_init_source_map [preserves_intros]: "preserves steady (init_source_map la source_map)"
  unfolding init_source_map_def Let_def by (auto intro!: preserves_intros split: steady_splits)

lemma steady_init_expressions [preserves_intros]: "preserves steady (init_expressions args)"
  unfolding init_expressions_def Let_def by (auto intro!: preserves_intros split: steady_splits)

lemma steady_capability_event [preserves_intros]: "preserves steady (capability_event c)"
  unfolding capability_event_def Let_def by (auto intro!: preserves_intros split: steady_splits)

lemma steady_init_paths [preserves_intros]: "preserves steady (init_paths la args)"
  unfolding init_paths_def Let_def by (auto intro!: preserves_intros split: steady_splits)

lemma steady_init_options [preserves_intros]: "preserves steady (init_options st args)"
  unfolding init_options_def Let_def by (auto intro!: preserves_intros split: steady_splits)

lemma steady_init_console [preserves_intros]: "preserves steady (init_console la args)"
  unfolding init_console_def Let_def by (auto intro!: preserves_intros split: steady_splits)

lemma steady_common_init_session [preserves_intros]: "preserves steady (common_init_session ll st la args)"
  unfolding common_init_session_def Let_def by (auto intro!: preserves_intros split: steady_splits)

lemma steady_wait_for_configuration [preserves_intros]: "preserves steady (wait_for_configuration fut)"
  unfolding wait_for_configuration_def Let_def by (auto intro!: preserves_intros split: steady_splits)

lemma steady_launch_environment [preserves_intros]: "preserves steady (launch_environment la args)"
  unfolding launch_environment_def Let_def by (auto intro!: preserves_intros split: steady_splits)

lemma steady_check_aslr [preserves_intros]: "preserves steady (check_aslr la info)"
  unfolding check_aslr_def Let_def by (auto intro!: preserves_intros split: steady_splits)

lemma steady_check_process_create_commands [preserves_intros]: "preserves steady (check_process_create_commands ll ta ra la)"
  unfolding check_process_create_commands_def Let_def by (auto intro!: preserves_intros split: steady_splits)

lemma steady_create_process_by_commands [preserves_intros]: "preserves steady (create_process_by_commands ll ta ra la commands)"
  unfolding create_process_by_commands_def Let_def by (auto intro!: preserves_intros split: steady_splits)

lemma steady_start_process [preserves_intros]: "preserves steady (start_process ll ta ra la args info)"
  unfolding start_process_def Let_def by (auto intro!: preserves_intros split: steady_splits)

lemma steady_create_terminal [preserves_intros]: "preserves steady (create_terminal la run_terminal args)"
  unfolding create_terminal_def Let_def by (auto intro!: preserves_intros split: steady_splits)

lemma steady_attach_target [preserves_intros]: "preserves steady (attach_target ll la args)"
  unfolding attach_target_def Let_def by (auto intro!: preserves_intros split: steady_splits)

lemma steady_handle_attach [preserves_intros]: "preserves steady (handle_attach ll st la args)"
  unfolding handle_attach_def Let_def by (auto intro!: preserves_intros split: steady_splits)

lemma steady_attach_to_process [preserves_intros]: "preserves steady (attach_to_process ll ta ra la args)"
  unfolding attach_to_process_def Let_def by (auto intro!: preserves_intros split: steady_splits)

lemma steady_terminate_debuggee [preserves_intros]: "preserves steady (terminate_debuggee ll la force_terminate)"
  unfolding terminate_debuggee_def Let_def by (auto intro!: preserves_intros split: steady_splits)

lemma steady_run_pre_terminate [preserves_intros]: "preserves steady (run_pre_terminate ll)"
  unfolding run_pre_terminate_def Let_def by (auto intro!: preserves_intros split: steady_splits)

lemma steady_send_graceful_signal [preserves_intros]: "preserves steady (send_graceful_signal ll ra la sig_name)"
  unfolding send_graceful_signal_def Let_def by (auto intro!: preserves_intros split: steady_splits)

lemma steady_handle_terminate [preserves_intros]: "preserves steady (handle_terminate ll ra la)"
  unfolding handle_terminate_def Let_def by (auto intro!: preserves_intros split: steady_splits)

lemma steady_handle_disconnect [preserves_intros]: "preserves steady (handle_disconnect ll la args)"
  unfolding handle_disconnect_def Let_def by (auto intro!: preserves_intros split: steady_splits)

lemma steady_add_step_in_target [preserves_intros]: "preserves steady (add_step_in_target sa curr_pc stmt_to fn)"
  unfolding add_step_in_target_def Let_def by (auto intro!: preserves_intros split: steady_splits)

lemma steady_handle_step_in_targets [preserves_intros]: "preserves steady (handle_step_in_targets ll sa ht frame_id)"
  unfolding handle_step_in_targets_def Let_def by (auto intro!: preserves_intros split: steady_splits)

lemma steady_step_round [preserves_intros]: "preserves steady (step_round ll ta ra sa va thread start_frame target)"
  unfolding step_round_def Let_def by (auto intro!: preserves_intros split: steady_splits)

lemma steady_handle_python_message [preserves_intros]: "preserves steady (handle_python_message ad args)"
  unfolding handle_python_message_def Let_def by (auto intro!: preserves_intros split: steady_splits)

section \<open>The handlers that change a mode\<close>

lemma steady_below: "preserves steady m \<Longrightarrow> preserves silent m" "preserves steady m \<Longrightarrow> preserves same_cork m"
  by (simp_all add: preserves_def steady_def)

lemma silent_modifyS:
  "(\<And>s. pending_futures (f s) = pending_futures s) \<Longrightarrow> (\<And>s. outbox (f s) = outbox s) \<Longrightarrow>
     preserves silent (modifyS f)"
  by (simp add: preserves_def silent_def modifyS_def)

lemma cork_modifyS: "(\<And>s. corked (f s) = corked s) \<Longrightarrow> preserves same_cork (modifyS f)"
  by (simp add: preserves_def same_cork_def modifyS_def)

lemmas launch_steps = steady_world steady_console steady_try_world steady_exec_commands steady_launch_environment
  steady_check_aslr steady_start_process steady_create_process_by_commands steady_attach_to_process
  steady_set_target steady_create_target_from_program steady_target_from_commands steady_common_init_session
  steady_wait_for_configuration steady_terminate_debuggee steady_run_pre_terminate

lemmas silent_steps = silent.preserves_rules silent_modifyS launch_steps [THEN steady_below(1)]
lemmas cork_steps = cork.preserves_rules cork_modifyS launch_steps [THEN steady_below(2)]

lemma silent_common_post_run: "preserves silent (common_post_run ll args)"
  unfolding common_post_run_def Let_def by (auto intro!: silent_steps split: steady_splits)

lemma cork_common_post_run: "preserves same_cork (common_post_run ll args)"
  unfolding common_post_run_def Let_def by (auto intro!: cork_steps split: steady_splits)

lemma silent_complete_launch: "preserves silent (complete_launch ll ta ra la args)"
  unfolding complete_launch_def Let_def by (auto intro!: silent_steps silent_common_post_run split: steady_splits)

lemma cork_complete_launch: "preserves same_cork (complete_launch ll ta ra la args)"
  unfolding complete_launch_def Let_def by (auto intro!: cork_steps cork_common_post_run split: steady_splits)

lemma silent_complete_attach: "preserves silent (complete_attach ll ta ra la args)"
  unfolding complete_attach_def Let_def by (auto intro!: silent_steps silent_common_post_run split: steady_splits)

lemma cork_complete_attach: "preserves same_cork (complete_attach ll ta ra la args)"
  unfolding complete_attach_def Let_def by (auto intro!: cork_steps cork_common_post_run split: steady_splits)

lemma silent_handle_launch: "preserves silent (handle_launch ll st la args)"
  unfolding handle_launch_def Let_def by (auto intro!: silent_steps split: steady_splits)

lemma cork_handle_launch: "preserves same_cork (handle_launch ll st la args)"
  unfolding handle_launch_def Let_def by (auto intro!: cork_steps split: steady_splits)

lemma silent_handle_restart: "preserves silent (handle_restart ll ta ra la args)"
  unfolding handle_restart_def Let_def set_corked_def by (auto intro!: silent_steps silent_complete_launch silent_complete_attach split: steady_splits)


end
