(* ===== verification/Demo_Adapter.thy ===== *)
theory Demo_Adapter
  imports Run_Correct Dispatch
begin

text \<open>
  A concrete debugger, client and system, at which the witnesses of the session's properties apply them.
  Its world is a number: what is left to be read from the debuggee's output, or how it was ended.
\<close>

definition demo_places :: "nat bp_api" where
  "demo_places = \<lparr>find_bp = (\<lambda>w i. None),
     create_by_location = (\<lambda>p l c w. (w, w)), create_by_address = (\<lambda>a w. (w, w)),
     create_by_regex = (\<lambda>r w. (w, w)), create_by_name = (\<lambda>n w. (w, w)),
     create_for_exception = (\<lambda>l c t w. (w, w)),
     delete_bp = (\<lambda>i w. w), bp_id = of_nat, bp_valid = (\<lambda>w b. True),
     num_locations = (\<lambda>w b. 1), num_resolved_locations = (\<lambda>w b. 1), location_addresses = (\<lambda>w b. [b]),
     first_location_address = (\<lambda>w b. b), add_name = (\<lambda>b n w. w), set_condition = (\<lambda>b c w. w),
     set_callback = (\<lambda>b c w. w), clear_callback = (\<lambda>b w. w), compile_code = (\<lambda>c w. (Ok 0, w)),
     evaluate_as_bool = (\<lambda>c f x w. (Ok True, w)), adapter_data_to_json = (\<lambda>d. JNull),
     adapter_data_of_json = (\<lambda>j. Ok \<lparr>ad_start = 0, ad_end = 0, ad_line_offsets = []\<rparr>),
     parse_address = (\<lambda>a. Ok (of_nat (length a))),
     bp_nom = simple_nom, bp_preprocessors = \<lparr>preprocess_simple = Ok, preprocess_python = Ok\<rparr>\<rparr>"

definition demo_modules :: "nat module_api" where
  "demo_modules = \<lparr>module_header_valid = (\<lambda>w m. True), module_header_load = (\<lambda>w m. of_nat m),
     module_path = (\<lambda>m. ''/bin/a''), module_filename = (\<lambda>m. ''a''), module_version = (\<lambda>m. [1, 2]),
     module_sections = (\<lambda>w m. [(0, 16)]), module_num_compile_units = (\<lambda>m. 1), module_num_symbols = (\<lambda>m. 1),
     module_symbol_file = (\<lambda>m. None)\<rparr>"

text \<open>A stream from which as many bytes are still to come as the world's number says.\<close>

definition demo_read :: "nat \<Rightarrow> nat \<Rightarrow> u8 list \<times> nat" where
  "demo_read n w = (replicate (min n w) 65, w - min n w)"

definition demo_streams :: "nat stream_api" where
  "demo_streams = \<lparr>read_stdout = demo_read, read_stderr = demo_read, from_utf8_lossy = map (char_of \<circ> unat)\<rparr>"

definition demo_inspect :: "nat inspect_api" where
  "demo_inspect = \<lparr>thread_name = (\<lambda>w t. Some ''main''), frame_function_name = (\<lambda>w f. Some ''f''),
     frame_module = (\<lambda>w f. Some 1), addr_file_address = (\<lambda>a. of_nat a), module_at_index = (\<lambda>w i. if i < 2 then Some (unat i) else None),
     num_modules = (\<lambda>w. 2), complete_command = (\<lambda>t n w. Some [''help'']), is_alphabetic = (\<lambda>_. True),
     stop_reason_name = (\<lambda>_. ''Breakpoint''), target_modules = (\<lambda>w. [1]), module_symbols = (\<lambda>w m. [1, 2, 3]),
     symbol_start_address = (\<lambda>w y. Some y), symbol_size = (\<lambda>y. 4), symbol_type_name = (\<lambda>y. ''Code''),
     addr_module = (\<lambda>w a. Some 1), fuzzy_match = (\<lambda>a b. True), val_byte_size = (\<lambda>w v. 4),
     frame_find_value = (\<lambda>w f n k. None), address_byte_size = (\<lambda>w. 8), load_address_valid = (\<lambda>w a. a < 4096),
     parse_hex_u64 = (\<lambda>t. Ok 16)\<rparr>"

definition demo_memory :: "nat memory_api" where
  "demo_memory = \<lparr>delete_all_watchpoints = (\<lambda>w. 0), watch_address = (\<lambda>a n r w' w. (Ok (of_nat (Suc w)), Suc w)),
     memory_region = (\<lambda>w a. if a < 4096 then Some (True, True, 4096) else None),
     read_process = (\<lambda>w a n. Some (replicate n 0)), write_process = (\<lambda>a bs w. (Some (length bs), w)),
     parse_i64 = (\<lambda>t. Ok 4090), parse_int_error = (\<lambda>t. ''invalid digit''), base64_encode = map (char_of \<circ> unat),
     base64_decode = (\<lambda>t. Ok (map (of_nat \<circ> of_char) t))\<rparr>"

definition demo_settings :: "nat settings_api" where
  "demo_settings = \<lparr>millis_of = (\<lambda>_. 1000), python_settings = (\<lambda>_ w. w)\<rparr>"

definition demo_launch_info :: launch_info where
  "demo_launch_info = \<lparr>li_environment = [], li_arguments = [], li_working_directory = None,
     li_stop_at_entry = False, li_disable_aslr = False, li_file_actions = []\<rparr>"

text \<open>Ending the debuggee leaves a mark in the world.\<close>

definition demo_killed :: nat where "demo_killed = 1000"
definition demo_detached :: nat where "demo_detached = 2000"

definition demo_launching :: "nat launch_api" where
  "demo_launching = \<lparr>set_variable = (\<lambda>n v w. (Ok (), w)), inherit_env_setting = (\<lambda>w. None),
     create_target = (\<lambda>p w. (Ok 1, w)), current_target = (\<lambda>w. 1), selected_target = (\<lambda>w. 1),
     target_valid = (\<lambda>w t. True), use_target = (\<lambda>t w. w), platform_triple = (\<lambda>w. ''x86_64-unknown-linux''),
     platform_name = (\<lambda>w. ''host''), platform_environment = (\<lambda>w. []), file_permissions = (\<lambda>w p. 1),
     get_launch_info = (\<lambda>w. demo_launch_info), set_launch_info = (\<lambda>i w. w), target_executable = (\<lambda>w. Some ''/bin/a''),
     executable_debug = (\<lambda>w. ''/bin/a''), can_disable_aslr = (\<lambda>w. True), launch_process = (\<lambda>i w. (Ok (), w)),
     attach_process = (\<lambda>i w. (Ok (), w)), process_id = (\<lambda>w. 7), process_valid = (\<lambda>w. True),
     stop_event_restarted = (\<lambda>w. None), kill_process = (\<lambda>w. (Ok (), demo_killed)),
     detach_process = (\<lambda>w. (Ok (), demo_detached)), send_signal = (\<lambda>n w. (Ok (), w)), signals_valid = (\<lambda>w. True),
     signal_number = (\<lambda>w n. Some 15), ignore_signal = (\<lambda>n w. w), wait_running = (\<lambda>w. w),
     init_lang_support = (\<lambda>w. w), create_debugger_terminal = (\<lambda>n w. w), current_dir = (\<lambda>w. Ok ''/a''),
     open_env_file = (\<lambda>w p. Ok []), to_uppercase = id, set_exe_extension = (\<lambda>p. None), lldb_quoted_string = id,
     json_launch_error = (\<lambda>j. [])\<rparr>"

definition demo_adapter :: "(nat, demo_tree) adapter" where
  "demo_adapter = \<lparr>ad_lldb = demo_step_lldb, ad_handles = demo_handles, ad_breakpoints = demo_places,
     ad_threads = demo_threads, ad_run = demo_run, ad_steps = demo_steps, ad_values = demo_patience,
     ad_modules = demo_modules, ad_streams = demo_streams, ad_inspect = demo_inspect, ad_memory = demo_memory,
     ad_settings = demo_settings, ad_launch = demo_launching, ad_run_terminal = (\<lambda>e t w. (Ok None, w)),
     ad_python_message = (\<lambda>j w. w), ad_v15 = True\<rparr>"

definition demo_common :: common_launch_fields where
  "demo_common = \<lparr>cl_name = None, cl_source_map = None, cl_expressions = None, cl_init_commands = None,
     cl_pre_run_commands = None, cl_post_run_commands = None, cl_graceful_shutdown = None,
     cl_pre_terminate_commands = None, cl_exit_commands = None, cl_source_languages = None,
     cl_reverse_debugging = None, cl_relative_path_base = None, cl_breakpoint_mode = None,
     cl_adapter_settings = None\<rparr>"

definition demo_program :: launch_request_arguments where
  "demo_program = \<lparr>la_common = demo_common, la_no_debug = None, la_program = Some ''/bin/a'', la_args = None,
     la_cwd = None, la_env = Some [(''PATH'', ''/bin'')], la_env_file = None, la_stdio = None,
     la_stop_on_entry = None, la_terminal = None, la_console = None, la_target_create_commands = None,
     la_process_create_commands = None\<rparr>"

definition demo_process :: attach_request_arguments where
  "demo_process = \<lparr>at_common = demo_common, at_program = None, at_pid = Some (First 7), at_wait_for = None,
     at_stop_on_entry = None, at_target_create_commands = None, at_process_create_commands = None\<rparr>"

text \<open>A session at its start.\<close>

definition demo_start :: "(nat, demo_tree) session" where
  "demo_start = tiny_session 3 []"

end
