(* ===== verification/Session_Correct.thy ===== *)
theory Session_Correct
  imports Steady Demo_Adapter "HOL-Library.Multiset"
begin

text \<open>
  The session as a whole: over any interleaving of requests, debug events and futures, every request is
  answered once; requests that must not run have no effect.
\<close>

section \<open>Answers\<close>

definition answered :: "('w, 'h) session \<Rightarrow> u32 list" where
  "answered s = List.map_filter (\<lambda>m. case m of MResponse r \<Rightarrow> Some (request_seq r) | _ \<Rightarrow> None) (outbox s)"

definition awaiting :: "('w, 'h) session \<Rightarrow> u32 list" where
  "awaiting s = map fst (pending_futures s)"

text \<open>The requests that have been, or will be, answered.\<close>

definition owed :: "('w, 'h) session \<Rightarrow> u32 multiset" where
  "owed s = mset (answered s) + mset (awaiting s)"

lemma answered_append:
  "List.map_filter f (xs @ ys) = List.map_filter f xs @ List.map_filter f ys"
  by (induction xs) (auto simp: map_filter_simps split: option.split)

lemma no_answers_in_events:
  "List.map_filter (\<lambda>m. case m of MResponse r \<Rightarrow> Some (request_seq r) | _ \<Rightarrow> None) (map MEvent es) = []"
  by (induction es) (simp_all add: map_filter_simps)

lemma silent_owed: "silent s t \<Longrightarrow> owed t = owed s"
  by (auto simp: silent_def owed_def answered_def awaiting_def answered_append no_answers_in_events)

lemma send_response_owed:
  assumes "send_response seq r s = (Ok u, t)"
  shows "owed t = add_mset seq (owed s)"
proof -
  obtain resp where "make_response seq r = Some resp" "request_seq resp = seq"
    using assms by (cases r) (auto simp: send_response_def panicS_def Let_def split_beta)
  with assms show ?thesis
    by (auto simp: send_response_def modifyS_def owed_def answered_def awaiting_def answered_append map_filter_simps)
qed

lemma send_response_pending: "send_response seq r s = (x, t) \<Longrightarrow> pending_futures t = pending_futures s"
  by (auto simp: send_response_def modifyS_def panicS_def split: option.splits)

lemma spawn_future_owed: "spawn_future seq fut s = (r, t) \<Longrightarrow> r = Ok () \<and> owed t = add_mset seq (owed s)"
  by (auto simp: spawn_future_def modifyS_def owed_def answered_def awaiting_def)

lemma released_awaiting: "map fst (map (\<lambda>(seq, _, fut). (seq, True, fut)) xs) = map fst xs"
  by (induction xs) auto

lemma configuration_done_owed:
  assumes "handle_configuration_done s = (r, t)"
  shows "owed t = owed s"
proof -
  from assms have t: "pending_futures t = map (\<lambda>(seq, _, fut). (seq, True, fut)) (pending_futures s)" "outbox t = outbox s"
    by (auto simp: handle_configuration_done_def res_simps)
  have "awaiting t = awaiting s" unfolding awaiting_def t(1) by (rule released_awaiting)
  moreover have "answered t = answered s" by (simp add: answered_def t(2))
  ultimately show ?thesis by (simp add: owed_def)
qed

section \<open>Requests\<close>

text \<open>A request's handler that may not return.\<close>

definition call_keeps :: "(('w, 'h) session \<Rightarrow> ('w, 'h) session \<Rightarrow> bool) \<Rightarrow> ('w, 'h, 'a) may_hang \<Rightarrow> bool" where
  "call_keeps R h \<longleftrightarrow> (\<forall>s r t. h s = Some (r, t) \<longrightarrow> R s t)"

lemma call_keepsD: "call_keeps R h \<Longrightarrow> h s = Some (r, t) \<Longrightarrow> R s t"
  by (simp add: call_keeps_def)

lemma call_keeps_now: "preserves R h \<Longrightarrow> call_keeps R (now h)"
  by (auto simp: call_keeps_def now_def preserves_def)

lemma call_keeps_later: "call_keeps R h \<Longrightarrow> call_keeps R (answer_later body h)"
  by (auto simp: call_keeps_def answer_later_def)

lemma call_keeps_answer: "frame_relation R \<Longrightarrow> preserves R h \<Longrightarrow> call_keeps R (answer body h)"
  unfolding answer_def by (intro call_keeps_now frame_relation.preserves_bindS frame_relation.preserves_basic)

lemma call_keeps_mono: "call_keeps steady h \<Longrightarrow> call_keeps silent h" "call_keeps steady h \<Longrightarrow> call_keeps same_cork h"
  by (auto simp: call_keeps_def steady_def)

lemma steady_step_in: "call_keeps steady (handle_step_in ll ta ra sa va ht args)"
  unfolding call_keeps_def
proof (intro allI impI)
  fix s r t assume run: "handle_step_in ll ta ra sa va ht args s = Some (r, t)"
  show "steady s t"
  proof (cases "thread_by_tid ll (world s) (as_u64 (sti_thread_id args))")
    case None
    with run show ?thesis by (simp add: handle_step_in_def steady.refl)
  next
    case (Some thread)
    have "steady (snd (before_resume ht s)) t"
      by (rule step_in_preserves [OF steady.frame_relation_axioms _ _ _ _ _ Some run])
        (auto simp: steady_defs intro!: preserves_intros exI [of _ "[]"])
    with preserves_snd [OF steady_before_resume] show ?thesis by (rule steady.trans)
  qed
qed

lemma steady_disassemble: "call_keeps steady (disassemble_request ad args)"
  by (auto simp: call_keeps_def disassemble_request_def Let_def steady.refl)

lemmas steady_calls = call_keeps_now call_keeps_answer [OF steady.frame_relation_axioms] call_keeps_later
  steady_disassemble steady_step_in

lemma steady_debug_request: "call_keeps steady (handle_debug_request ad request)"
  unfolding handle_debug_request_def Let_def
  by (auto split: request.split intro!: steady_calls preserves_intros)

text \<open>The requests whose handlers are not steady.\<close>

definition changes_mode :: "request \<Rightarrow> bool" where
  "changes_mode request =
     (case request of
        Rq_launch (First _) \<Rightarrow> True | Rq_restart (First _) \<Rightarrow> True | Rq_configurationDone \<Rightarrow> True | _ \<Rightarrow> False)"

lemma request_args_steady:
  assumes "handle_request_args ad request s = Some (r, t)" "\<not> changes_mode request"
  shows "steady s t"
  using assms
  by (cases request) (auto simp: handle_request_args_def changes_mode_def Let_def steady.refl
      split: either.splits if_splits elim!: call_keepsD [rotated] intro!: steady_calls steady_debug_request preserves_intros)

lemma request_args_silent:
  assumes "handle_request_args ad request s = Some (r, t)" "request \<noteq> Rq_configurationDone"
  shows "silent s t"
proof (cases "changes_mode request")
  case True
  then consider (launch) args where "request = Rq_launch (First args)" | (restart) args where "request = Rq_restart (First args)"
    using assms(2) by (auto simp: changes_mode_def split: request.splits either.splits)
  then show ?thesis
    using assms(1)
    by cases (auto simp: handle_request_args_def Let_def silent_handle_launch silent_handle_restart
        elim!: call_keepsD [rotated] intro!: call_keeps_now call_keeps_answer [OF silent.frame_relation_axioms])
next
  case False
  from request_args_steady [OF assms(1) this] show ?thesis by (simp add: steady_def)
qed

lemma request_args_owed:
  assumes "handle_request_args ad request s = Some (r, t)"
  shows "owed t = owed s"
proof (cases "request = Rq_configurationDone")
  case True
  with assms show ?thesis by (auto simp: handle_request_args_def now_def dest: configuration_done_owed)
next
  case False
  with assms show ?thesis by (blast dest: request_args_silent silent_owed)
qed

lemma handle_request_owed:
  assumes "handle_request ad seq request is_cancelled s = Some (Ok (), t)"
  shows "owed t = add_mset seq (owed s)"
proof (cases "is_cancelled \<or> request = Rq_unknown")
  case True
  with assms show ?thesis by (auto simp: handle_request_def split: if_splits dest: send_response_owed)
next
  case False
  with assms obtain r u where run: "handle_request_args ad request s = Some (r, u)"
    and fin: "(\<exists>fut. r = Err (AsyncResponse fut) \<and> spawn_future seq fut u = (Ok (), t)) \<or> send_response seq r u = (Ok (), t)"
    by (auto simp: handle_request_def split: if_splits option.splits prod.splits res.splits error.splits)
  from request_args_owed [OF run] have "owed u = owed s" .
  with fin show ?thesis by (auto dest: send_response_owed spawn_future_owed)
qed

section \<open>Events and futures\<close>

lemma python_event_owed:
  "handle_python_event event s = (r, t) \<Longrightarrow> owed t = owed s"
  by (auto simp: handle_python_event_def send_event_def console_message_impl_def modifyS_def owed_def answered_def
      awaiting_def answered_append map_filter_simps split: python_event.splits)

lemma drain_loop_steady:
  assumes "drain_loop lossy read_stream category s = Some t"
  shows "steady s t"
proof (rule drain_loop.raw_induct [where P = "\<lambda>lossy read_stream category s t. steady s t", OF _ assms])
  fix loop and lossy :: "u8 list \<Rightarrow> string" and read_stream :: "nat \<Rightarrow> 'a \<Rightarrow> u8 list \<times> 'a" and category
    and s t :: "('a, 'b) session"
  assume IH: "\<And>lossy read_stream category s t. loop lossy read_stream category s = Some t \<Longrightarrow> steady s t"
    and body: "(let (buffer, w) = read_stream 1024 (world s) in
      if buffer = [] then Some (s\<lparr>world := w\<rparr>)
      else loop lossy read_stream category
        (s\<lparr>world := w, outbox := outbox s @ [MEvent (Ev_output (Some category) (lossy buffer))]\<rparr>)) = Some t"
  obtain buffer w where r: "read_stream 1024 (world s) = (buffer, w)" by fastforce
  show "steady s t"
  proof (cases "buffer = []")
    case True
    with body r show ?thesis by (auto simp: steady_defs)
  next
    case False
    let ?u = "s\<lparr>world := w, outbox := outbox s @ [MEvent (Ev_output (Some category) (lossy buffer))]\<rparr>"
    from False body r have "steady ?u t" by (auto dest: IH)
    moreover have "steady s ?u"
      by (auto simp: steady_defs intro: exI [of _ "[Ev_output (Some category) (lossy buffer)]"])
    ultimately show ?thesis using steady.trans by blast
  qed
qed

lemma debug_event_steady:
  assumes "handle_debug_event ll api ta ra ma st v15 event s = Some t"
  shows "steady s t"
proof -
  have pump: "pump_output st ty u = Some v \<Longrightarrow> steady u v" for ty u v
    by (auto simp: pump_output_def steady.refl dest: drain_loop_steady split: if_splits)
  have change: "steady s (snd (handle_state_change ll ta ra e s))" for e
    by (simp add: preserves_snd preserves_intros)
  from assms show ?thesis
  proof (cases event)
    case (DeProcess e)
    with assms change [of e] show ?thesis
      by (auto simp: handle_debug_event_def handle_process_event_def dest!: pump split: if_splits elim: steady.trans)
  qed (auto simp: handle_debug_event_def steady.refl preserves_snd preserves_intros split: if_splits)
qed

lemma owed_without:
  assumes "pending_futures s = before @ (seq, released, fut) # after"
  shows "owed s = add_mset seq (owed (s\<lparr>pending_futures := before @ after\<rparr>))"
  by (simp add: owed_def answered_def awaiting_def assms)

lemma respond_with_pending:
  assumes "preserves silent h" "respond_with seq h s = (x, t)"
  shows "pending_futures t = pending_futures s"
proof -
  obtain r u where run: "h s = (r, u)" by fastforce
  have "pending_futures u = pending_futures s" using preservesD [OF assms(1) run] by (simp add: silent_def)
  with assms(2) run show ?thesis
    by (cases r) (auto simp: respond_with_def bindS_def attemptS_def dest: send_response_pending)
qed

lemma respond_with_owed:
  assumes "preserves silent h" "respond_with seq h s = (Ok (), t)"
  shows "owed t = add_mset seq (owed s)"
proof -
  from assms(2) obtain r u where "h s = (r, u)" "send_response seq r u = (Ok (), t)"
    by (auto simp: respond_with_def bindS_Ok attemptS_def split: prod.splits res.splits)
  note run = this
  have "owed u = owed s" by (rule silent_owed [OF preservesD [OF assms(1) run(1)]])
  with send_response_owed [OF run(2)] show ?thesis by simp
qed

lemma run_future_owed:
  assumes "run_future ad seq fut s = (Ok (), t)"
  shows "owed t = add_mset seq (owed s)"
proof (cases fut)
  case (FutLaunch args)
  with assms obtain u where "create_terminal (ad_launch ad) (ad_run_terminal ad) args s = (Ok (), u)"
    "spawn_future seq (FutStart args) u = (Ok (), t)"
    by (auto simp: run_future_def thenS_def bindS_Ok)
  with preservesD [OF steady_create_terminal [THEN steady_below(1)]] show ?thesis by (metis silent_owed spawn_future_owed)
qed (use assms in \<open>auto simp: run_future_def dest: send_response_owed
  respond_with_owed [OF silent_complete_launch] respond_with_owed [OF silent_complete_attach]\<close>)

lemma session_step_owed:
  assumes "session_step ad s taken t"
  shows "owed t = (case taken of Some request \<Rightarrow> add_mset (fst request) (owed s) | None \<Rightarrow> owed s)"
  using assms
proof cases
  case (on_future before seq released fut after)
  with run_future_owed owed_without show ?thesis by fastforce
next
  case (on_debug_event event)
  from debug_event_steady [OF on_debug_event(2)] have "silent s t" by (simp add: steady_def)
  with on_debug_event(1) show ?thesis by (simp add: silent_owed)
qed (auto dest: handle_request_owed python_event_owed)

lemma session_run_owed: "session_run ad s requests t \<Longrightarrow> owed t = owed s + mset (map fst requests)"
  by (induction rule: session_run.induct) (auto dest: session_step_owed split: option.split)

text \<open>
  C10 (every request is answered once).  Over any interleaving of requests, debug events, events of Python
  scripts and spawned futures in which no handler panics, the requests taken are, as a multiset, the requests
  that have been answered and those a spawned future still has to answer: none is lost, none is answered twice.
\<close>

theorem every_request_answered_once:
  assumes "session_run ad s requests t"
  shows "mset (answered t) + mset (awaiting t) = mset (answered s) + mset (awaiting s) + mset (map fst requests)"
  using session_run_owed [OF assms] by (simp only: owed_def)

section \<open>Requests that are not run\<close>

text \<open>The requests that \<open>noDebug\<close> mode refuses: all but those that set up and end the session.\<close>

definition needs_debugging :: "request \<Rightarrow> bool" where
  "needs_debugging request =
     (case request of
        Rq_initialize _ \<Rightarrow> False | Rq_adapterSettings _ \<Rightarrow> False | Rq_launch _ \<Rightarrow> False | Rq_attach _ \<Rightarrow> False
      | Rq_restart _ \<Rightarrow> False | Rq_configurationDone \<Rightarrow> False | Rq_terminate \<Rightarrow> False | Rq_disconnect _ \<Rightarrow> False
      | _ \<Rightarrow> True)"

text \<open>
  C11 (requests that are not run have no effect).  A request that was cancelled before its turn, one the adapter
  does not know, and in \<open>noDebug\<close> mode every request that needs a debuggee is answered with a failure that
  says why, and changes nothing else: not the debuggee, not the breakpoints, not the references.
\<close>

theorem refused_requests_change_nothing:
  assumes "is_cancelled \<or> request = Rq_unknown \<or> (no_debug s \<and> needs_debugging request)"
  shows "handle_request ad seq request is_cancelled s = Some (Ok (), s\<lparr>outbox := outbox s @
    [MResponse \<lparr>request_seq = seq, success = False, result = ErrorResult []
      (''Internal debugger error: '' @
        (if is_cancelled then ''canceled'' else if request = Rq_unknown then ''Not implemented.''
         else ''Not supported in noDebug mode.'')) (Some True)\<rparr>]\<rparr>)"
proof -
  have refused: "send_response seq (Err (str_error m)) u = (Ok (), u\<lparr>outbox := outbox u @
    [MResponse \<lparr>request_seq = seq, success = False, result = ErrorResult [] (''Internal debugger error: '' @ m) (Some True)\<rparr>]\<rparr>)"
    for m and u :: "('a, 'b) session"
    by (simp add: send_response_def str_error_def modifyS_def)
  have "handle_request_args ad request s = Some (Err (str_error ''Not supported in noDebug mode.''), s)"
    if "needs_debugging request" "no_debug s"
    using that by (cases request) (auto simp: handle_request_args_def needs_debugging_def Let_def)
  with assms refused show ?thesis by (auto simp: handle_request_def) (auto simp: str_error_def)
qed

section \<open>The cork\<close>

lemma send_response_cork: "send_response seq r s = (x, t) \<Longrightarrow> corked t = corked s"
  by (auto simp: send_response_def modifyS_def panicS_def split: option.splits)

lemma respond_with_cork:
  assumes "preserves same_cork h" "respond_with seq h s = (x, t)"
  shows "corked t = corked s"
proof -
  obtain r u where run: "h s = (r, u)" by fastforce
  have "corked u = corked s" using preservesD [OF assms(1) run] by (simp add: same_cork_def)
  with assms(2) run show ?thesis
    by (cases r) (auto simp: respond_with_def bindS_def attemptS_def dest: send_response_cork)
qed

lemma run_future_cork:
  assumes "run_future ad seq fut s = (x, t)"
  shows "corked t = corked s"
proof (cases fut)
  case (FutLaunch args)
  obtain r u where run: "create_terminal (ad_launch ad) (ad_run_terminal ad) args s = (r, u)" by fastforce
  have "corked u = corked s"
    using preservesD [OF steady_create_terminal run] by (simp add: steady_defs)
  with assms FutLaunch run show ?thesis
    by (cases r) (auto simp: run_future_def thenS_def bindS_def spawn_future_def modifyS_def)
qed (use assms in \<open>auto simp: run_future_def dest!: send_response_cork
  respond_with_cork [OF cork_complete_launch] respond_with_cork [OF cork_complete_attach]\<close>)

lemma request_args_cork:
  assumes "handle_request_args ad request s = Some (r, t)" "\<And>args. request \<noteq> Rq_restart (First args)"
  shows "corked t = corked s"
proof (cases "changes_mode request")
  case True
  then consider (launch) args where "request = Rq_launch (First args)" | (config) "request = Rq_configurationDone"
    using assms(2) by (auto simp: changes_mode_def split: request.splits either.splits)
  then show ?thesis
  proof cases
    case launch
    with assms(1) have "handle_launch (ad_lldb ad) (ad_settings ad) (ad_launch ad) args s = (r, t)"
      by (simp add: handle_request_args_def Let_def now_def)
    from preservesD [OF cork_handle_launch this] show ?thesis by (simp add: same_cork_def)
  next
    case config
    with assms(1) show ?thesis
      by (auto simp: handle_request_args_def Let_def now_def handle_configuration_done_def res_simps)
  qed
next
  case False
  from request_args_steady [OF assms(1) this] show ?thesis by (simp add: steady_defs)
qed

lemma request_cork:
  assumes "handle_request ad seq request is_cancelled s = Some (x, t)"
    and "is_cancelled \<or> (\<forall>args. request \<noteq> Rq_restart (First args))"
  shows "corked t = corked s"
proof (cases "is_cancelled \<or> request = Rq_unknown")
  case True
  with assms show ?thesis by (auto simp: handle_request_def dest: send_response_cork split: if_splits)
next
  case False
  with assms(1) obtain r u where run: "handle_request_args ad request s = Some (r, u)"
    and fin: "(\<exists>fut. spawn_future seq fut u = (x, t)) \<or> send_response seq r u = (x, t)"
    by (auto simp: handle_request_def split: if_splits option.splits prod.splits res.splits error.splits)
  have "corked u = corked s" by (rule request_args_cork [OF run]) (use False assms(2) in auto)
  with fin show ?thesis by (auto simp: spawn_future_def modifyS_def dest: send_response_cork)
qed

text \<open>What a restart leaves the listener in: the debuggee that is ended, and the state it is ended in.\<close>

definition restart_ends :: "('w, 'h) adapter \<Rightarrow> ('w, 'h) session \<Rightarrow> (err, unit) res" where
  "restart_ends ad s =
     fst (terminate_debuggee (ad_lldb ad) (ad_launch ad) None ((snd (run_pre_terminate (ad_lldb ad) s))\<lparr>corked := True\<rparr>))"

lemma run_script_returns: "fst (run_script ll commands s) \<noteq> Panic"
  by (induction commands arbitrary: s)
    (auto simp: res_simps call_world_def console_message_def console_error_def console_message_impl_def send_event_def
      split: prod.split if_split)

lemma exec_commands_returns: "fst (exec_commands ll name commands s) \<noteq> Panic"
proof -
  obtain r u where run: "run_script ll commands (snd (console_message (''Executing script: '' @ name) s)) = (r, u)"
    by fastforce
  with run_script_returns [of ll commands "snd (console_message (''Executing script: '' @ name) s)"] have "r \<noteq> Panic" by simp
  with run show ?thesis
    by (cases r) (auto simp: exec_commands_def thenS_def bindS_def console_message_def console_message_impl_def
      send_event_def modifyS_def attemptS_def modify_world_def liftS_def)
qed

lemma run_pre_terminate_returns: "\<exists>u. run_pre_terminate ll s = (Ok (), u)"
proof (cases "pre_terminate_commands s")
  case None
  then show ?thesis by (simp add: run_pre_terminate_def res_simps)
next
  case (Some commands)
  obtain r u where run: "exec_commands ll ''preTerminateCommands'' commands s = (r, u)" by fastforce
  with exec_commands_returns [of ll "''preTerminateCommands''" commands s] have "r \<noteq> Panic" by simp
  with run Some show ?thesis by (cases r) (simp_all add: run_pre_terminate_def bindS_def getS_def log_errorsS_def)
qed

lemma restart_cork:
  assumes "handle_restart (ad_lldb ad) ta ra (ad_launch ad) args s = (r, t)"
  shows "corked t \<longleftrightarrow> restart_ends ad s \<noteq> Ok ()"
proof -
  obtain u where pre: "run_pre_terminate (ad_lldb ad) s = (Ok (), u)" using run_pre_terminate_returns by blast
  obtain x v where ends: "terminate_debuggee (ad_lldb ad) (ad_launch ad) None (u\<lparr>corked := True\<rparr>) = (x, v)" by fastforce
  have v: "corked v" using preservesD [OF steady_terminate_debuggee ends] by (simp add: steady_defs)
  have x: "restart_ends ad s = x" by (simp add: restart_ends_def pre ends)
  have rest: "corked w = corked u'" if "thenS (case args of First l \<Rightarrow> complete_launch (ad_lldb ad) ta ra (ad_launch ad) l
      | Second a \<Rightarrow> complete_attach (ad_lldb ad) ta ra (ad_launch ad) a) (returnS ()) u' = (y, w)" for u' y w
  proof -
    have "preserves same_cork (thenS (case args of First l \<Rightarrow> complete_launch (ad_lldb ad) ta ra (ad_launch ad) l
      | Second a \<Rightarrow> complete_attach (ad_lldb ad) ta ra (ad_launch ad) a) (returnS ()))"
      by (auto intro!: cork.preserves_rules cork_complete_launch cork_complete_attach split: either.split)
    from preservesD [OF this that] show ?thesis by (simp add: same_cork_def)
  qed
  show ?thesis
  proof (cases x)
    case (Ok y)
    with assms pre ends have "thenS (case args of First l \<Rightarrow> complete_launch (ad_lldb ad) ta ra (ad_launch ad) l
      | Second a \<Rightarrow> complete_attach (ad_lldb ad) ta ra (ad_launch ad) a) (returnS ()) (v\<lparr>corked := False\<rparr>) = (r, t)"
      by (simp add: handle_restart_def thenS_def bindS_def set_corked_def modifyS_def)
    from rest [OF this] Ok x show ?thesis by simp
  qed (use assms pre ends v x in \<open>auto simp: handle_restart_def thenS_def bindS_def set_corked_def modifyS_def\<close>)
qed

text \<open>One turn of the session.\<close>

lemma step_cork:
  assumes "session_step ad s taken t"
  shows "corked t = (case taken of
      Some (seq, Rq_restart (First args), False) \<Rightarrow> restart_ends ad s \<noteq> Ok () | _ \<Rightarrow> corked s)"
  using assms
proof cases
  case (on_request seq request is_cancelled)
  show ?thesis
  proof (cases "is_cancelled \<or> (\<forall>args. request \<noteq> Rq_restart (First args))")
    case True
    with request_cork [OF on_request(2)] on_request(1) show ?thesis
      by (auto split: request.split either.split bool.split)
  next
    case False
    then obtain args where restart: "request = Rq_restart (First args)" "\<not> is_cancelled" by auto
    obtain r u where run: "handle_restart (ad_lldb ad) (ad_threads ad) (ad_run ad) (ad_launch ad) args s = (r, u)"
      by fastforce
    from on_request(2) restart run have "corked t = corked u"
      by (cases r) (auto simp: handle_request_def handle_request_args_def answer_def now_def Let_def bindS_def
          returnS_def spawn_future_def modifyS_def dest!: send_response_cork split: error.splits)
    with restart_cork [OF run] on_request(1) restart show ?thesis by simp
  qed
next
  case (on_debug_event event)
  from debug_event_steady [OF on_debug_event(2)] on_debug_event(1) show ?thesis by (simp add: steady_defs)
next
  case (on_python_event event)
  then show ?thesis
    by (auto simp: handle_python_event_def send_event_def console_message_impl_def modifyS_def split: python_event.splits)
next
  case (on_future before seq released fut after)
  from run_future_cork [OF on_future(4)] on_future(1) show ?thesis by simp
qed

lemma other_turn:
  assumes "\<And>seq args. taken \<noteq> Some (seq, Rq_restart (First args), False)"
  shows "(case taken of Some (seq, Rq_restart (First args), False) \<Rightarrow> b | _ \<Rightarrow> c) = c"
  using assms by (cases taken) (auto split: request.split either.split bool.split)

text \<open>
  C13 (the listener is corked only by a restart that fails).  After a turn that takes a restart, and until the
  next restart is taken, the event listener is corked exactly if the old debuggee could be neither killed nor
  detached; no other turn of the session corks or uncorks it.  So a restart that fails leaves it
  corked through the rest of the session, unless a later restart succeeds.
\<close>

theorem corked_after_failed_restart:
  assumes step: "session_step ad s taken t" and run: "session_run ad t requests u"
    and no_restart: "\<forall>(seq, request, is_cancelled) \<in> set requests. is_cancelled \<or> (\<forall>args. request \<noteq> Rq_restart (First args))"
  shows "corked u = (case taken of
      Some (seq, Rq_restart (First args), False) \<Rightarrow> restart_ends ad s \<noteq> Ok () | _ \<Rightarrow> corked s)"
proof -
  have "corked u = corked t"
    using run no_restart
  proof (induction rule: session_run.induct)
    case (run_step v requests w taken x)
    have "corked x = corked w"
      unfolding step_cork [OF run_step.hyps(2)] by (rule other_turn) (use run_step.prems in force)
    moreover have "corked w = corked v" by (rule run_step.IH) (use run_step.prems in auto)
    ultimately show ?case by simp
  qed simp
  with step_cork [OF step] show ?thesis by simp
qed

section \<open>Witnesses\<close>

lemma configuration_done_step:
  assumes "pending_futures s = []"
  shows "session_step ad s (Some (seq, Rq_configurationDone, False)) (s\<lparr>pending_futures := [(seq, False, FutConfigurationDone)]\<rparr>)"
  by (rule on_request) (simp add: handle_request_def handle_request_args_def handle_configuration_done_def now_def
      res_simps spawn_future_def assms)

text \<open>
  A session that takes \<open>configurationDone\<close>, a cancelled request, and then the future of the first: the second is
  answered first, and both are.
\<close>

theorem every_request_answered_once_witness:
  "\<exists>t. session_run demo_adapter demo_start [(1, Rq_configurationDone, False), (2, Rq_threads, True)] t
     \<and> mset (answered t) + mset (awaiting t) = {#1, 2#} \<and> answered t = [2, 1]"
proof -
  let ?ad = demo_adapter
  let ?s = demo_start
  let ?t = "?s\<lparr>pending_futures := [(1, False, FutConfigurationDone)]\<rparr>"
  define refusal :: "response_body response" where
    "refusal = \<lparr>request_seq = 2, success = False, result = ErrorResult [] (''Internal debugger error: canceled'') (Some True)\<rparr>"
  let ?u = "?t\<lparr>outbox := [MResponse refusal]\<rparr>"
  let ?v = "?u\<lparr>pending_futures := [], outbox := [MResponse refusal, MResponse \<lparr>request_seq = 1, success = True,
    result = Success Rb_configurationDone\<rparr>]\<rparr>"
  have 1: "session_step ?ad ?s (Some (1, Rq_configurationDone, False)) ?t"
    by (rule configuration_done_step) (simp add: demo_start_def tiny_session_def)
  have 2: "session_step ?ad ?t (Some (2, Rq_threads, True)) ?u"
    by (rule on_request) (simp add: handle_request_def send_response_def str_error_def modifyS_def refusal_def
        demo_start_def tiny_session_def)
  have 3: "session_step ?ad ?u None ?v"
    by (rule on_future [where before = "[]" and after = "[]" and fut = FutConfigurationDone and released = False])
      (simp_all add: run_future_def send_response_def modifyS_def demo_start_def tiny_session_def)
  have run: "session_run ?ad ?s [(1, Rq_configurationDone, False), (2, Rq_threads, True)] ?v"
    using run_step [OF run_step [OF run_step [OF run_refl 1] 2] 3] by simp
  from every_request_answered_once [OF this] have "mset (answered ?v) + mset (awaiting ?v) = {#1, 2#}"
    by (simp add: answered_def awaiting_def demo_start_def tiny_session_def map_filter_simps)
  moreover have "answered ?v = [2, 1]" by (simp add: answered_def map_filter_simps refusal_def)
  ultimately show ?thesis using run by blast
qed

theorem refused_requests_change_nothing_witness:
  "\<exists>resp. handle_request demo_adapter 5 (Rq_continue 1) False (demo_start\<lparr>no_debug := True\<rparr>)
     = Some (Ok (), demo_start\<lparr>no_debug := True, outbox := [MResponse resp]\<rparr>) \<and> success resp = False"
proof -
  have "False \<or> Rq_continue 1 = Rq_unknown
      \<or> (no_debug (demo_start\<lparr>no_debug := True\<rparr>) \<and> needs_debugging (Rq_continue 1))"
    by (simp add: needs_debugging_def)
  from refused_requests_change_nothing [OF this, of demo_adapter 5] show ?thesis
    by (auto simp: demo_start_def tiny_session_def)
qed

text \<open>A restart whose debuggee cannot be killed.\<close>

definition demo_unkillable :: "(nat, demo_tree) adapter" where
  "demo_unkillable = demo_adapter\<lparr>ad_launch := demo_launching\<lparr>kill_process := (\<lambda>w. (Err ''busy'', w))\<rparr>\<rparr>"

theorem corked_after_failed_restart_witness:
  "\<exists>t u. session_step demo_unkillable (demo_start\<lparr>terminate_on_disconnect := True\<rparr>)
       (Some (3, Rq_restart (First (Second demo_process)), False)) t
     \<and> session_run demo_unkillable t [(4, Rq_threads, True)] u \<and> corked u"
proof -
  let ?s = "demo_start\<lparr>terminate_on_disconnect := True\<rparr>"
  have ends: "terminate_debuggee (ad_lldb demo_unkillable) (ad_launch demo_unkillable) None (?s\<lparr>corked := True\<rparr>)
    = (Err (str_error ''busy''), ?s\<lparr>corked := True\<rparr>)"
    by (simp add: terminate_debuggee_def demo_unkillable_def demo_adapter_def demo_launching_def demo_step_lldb_def
        tiny_lldb_def unwrap_or_def try_world_def call_world_def res_simps demo_start_def tiny_session_def)
  have pre: "run_pre_terminate (ad_lldb demo_unkillable) ?s = (Ok (), ?s)"
    by (simp add: run_pre_terminate_def res_simps demo_start_def tiny_session_def)
  have "handle_restart (ad_lldb demo_unkillable) (ad_threads demo_unkillable) (ad_run demo_unkillable)
      (ad_launch demo_unkillable) (Second demo_process) ?s = (Err (str_error ''busy''), ?s\<lparr>corked := True\<rparr>)"
    by (simp add: handle_restart_def thenS_def bindS_def pre set_corked_def modifyS_def ends)
  then have "\<exists>t. handle_request demo_unkillable 3 (Rq_restart (First (Second demo_process))) False ?s = Some (Ok (), t)"
    by (simp add: handle_request_def handle_request_args_def Let_def answer_def now_def bindS_def
        send_response_def str_error_def modifyS_def)
  then obtain t where step: "session_step demo_unkillable ?s (Some (3, Rq_restart (First (Second demo_process)), False)) t"
    by (auto intro: on_request)
  have "\<exists>u. session_step demo_unkillable t (Some (4, Rq_threads, True)) u"
    by (rule exI, rule on_request) (simp add: handle_request_def send_response_def str_error_def modifyS_def)
  then obtain u where run: "session_run demo_unkillable t [(4, Rq_threads, True)] u"
    using run_step [OF run_refl] by fastforce
  from corked_after_failed_restart [OF step run] have "corked u" by (simp add: restart_ends_def pre ends)
  with step run show ?thesis by blast
qed

end
