(* ===== verification/Launch_Correct.thy ===== *)
theory Launch_Correct
  imports Steady Demo_Adapter
begin

text \<open>
  Settings, launching and ending: the client is told of the capabilities that change, the debuggee gets the
  environment that was asked for, and it is ended the way it was started.
\<close>

section \<open>Settings\<close>

text \<open>The capabilities that differ between two states of the session.\<close>

definition changed_capabilities :: "('w, 'h) session \<Rightarrow> ('w, 'h) session \<Rightarrow> capabilities" where
  "changed_capabilities s t = default_capabilities
     \<lparr>cp_exception_breakpoint_filters :=
        (if source_languages t \<noteq> source_languages s then get_exception_filters_for (source_languages t) else []),
      cp_supports_completions_request :=
        (if command_completions t \<noteq> command_completions s then Some (command_completions t) else None),
      cp_supports_evaluate_for_hovers :=
        (if evaluate_for_hovers t \<noteq> evaluate_for_hovers s then Some (evaluate_for_hovers t) else None)\<rparr>"

lemma update_settings_run:
  "update_adapter_settings st settings s =
     (Ok (if evaluate_for_hovers t \<noteq> evaluate_for_hovers s \<or> command_completions t \<noteq> command_completions s
            \<or> source_languages t \<noteq> source_languages s then Some (changed_capabilities s t) else None), t)"
  if "t = snd (update_adapter_settings st settings s)"
  unfolding that
  by (cases "as_evaluate_for_hovers settings"; cases "as_command_completions settings"; cases "as_source_languages settings")
    (auto simp: update_adapter_settings_def set_languages_def set_completions_def set_hovers_def set_plain_def
      changed_capabilities_def unwrap_or_def default_capabilities_def)

text \<open>
  Settings are applied and reported.  Changing the settings gives every setting that is mentioned the value
  mentioned and leaves the others; the client is told, in one event, of exactly the capabilities that changed by
  it, and of nothing if none did.
\<close>

theorem settings_applied_and_reported:
  "let t = snd (update_adapter_settings_and_caps st settings s) in
    outbox t = outbox s @
      (if evaluate_for_hovers t = evaluate_for_hovers s \<and> command_completions t = command_completions s
          \<and> source_languages t = source_languages s then []
       else [MEvent (Ev_capabilities (changed_capabilities s t))])
    \<and> evaluate_for_hovers t = unwrap_or (as_evaluate_for_hovers settings) (evaluate_for_hovers s)
    \<and> command_completions t = unwrap_or (as_command_completions settings) (command_completions s)
    \<and> source_languages t = unwrap_or (as_source_languages settings) (source_languages s)
    \<and> show_disassembly t = unwrap_or (as_show_disassembly settings) (show_disassembly s)
    \<and> console_mode t = unwrap_or (as_console_mode settings) (console_mode s)
    \<and> deref_pointers t = unwrap_or (as_dereference_pointers settings) (deref_pointers s)
    \<and> suppress_missing_files t = unwrap_or (as_suppress_missing_source_files settings) (suppress_missing_files s)"
proof -
  define u where "u = snd (update_adapter_settings st settings s)"
  have fields: "evaluate_for_hovers u = unwrap_or (as_evaluate_for_hovers settings) (evaluate_for_hovers s)
    \<and> command_completions u = unwrap_or (as_command_completions settings) (command_completions s)
    \<and> source_languages u = unwrap_or (as_source_languages settings) (source_languages s)
    \<and> show_disassembly u = unwrap_or (as_show_disassembly settings) (show_disassembly s)
    \<and> console_mode u = unwrap_or (as_console_mode settings) (console_mode s)
    \<and> deref_pointers u = unwrap_or (as_dereference_pointers settings) (deref_pointers s)
    \<and> suppress_missing_files u = unwrap_or (as_suppress_missing_source_files settings) (suppress_missing_files s)
    \<and> outbox u = outbox s"
    unfolding u_def
    by (cases "as_evaluate_for_hovers settings"; cases "as_command_completions settings"; cases "as_source_languages settings")
      (simp_all add: update_adapter_settings_def set_languages_def set_completions_def set_hovers_def set_plain_def
        unwrap_or_def)
  note run = update_settings_run [OF u_def]
  have "snd (update_adapter_settings_and_caps st settings s) = (if evaluate_for_hovers u = evaluate_for_hovers s \<and> command_completions u = command_completions s
      \<and> source_languages u = source_languages s then u
    else u\<lparr>outbox := outbox u @ [MEvent (Ev_capabilities (changed_capabilities s u))]\<rparr>)"
    by (simp add: update_adapter_settings_and_caps_def bindS_def run send_event_def modifyS_def returnS_def)
  then show ?thesis using fields by (simp add: changed_capabilities_def Let_def)
qed

section \<open>The environment\<close>

lemma set_env_plain: "snd (fold (set_env la False) entries (cm, env)) = fold (\<lambda>(k, v). hm_insert k v) entries env
    \<and> fst (fold (set_env la False) entries (cm, env)) = cm"
  by (induction entries arbitrary: env) (auto simp: set_env_def fold_key_def)

lemma hm_get_fold_insert:
  "hm_get (fold (\<lambda>(k, v). hm_insert k v) entries env) k =
     (case map_of (rev entries) k of Some v \<Rightarrow> Some v | None \<Rightarrow> hm_get env k)"
  by (induction entries arbitrary: env) (auto simp: hashmap map_add_def split: option.splits)

lemma set_env_items_Ok: "set_env_items la b (map Ok entries) state = Ok (fold (set_env la b) entries state)"
  by (induction entries arbitrary: state) simp_all

lemma set_env_items_Err:
  "set_env_items la b (map Ok entries @ Err e # rest) state = Err e"
  by (induction entries arbitrary: state) simp_all

text \<open>What the environment file, if there is one, has to say.\<close>

definition env_file_entries :: "'w launch_api \<Rightarrow> 'w \<Rightarrow> launch_request_arguments \<Rightarrow> (string \<times> string) list option" where
  "env_file_entries la w args =
     (case la_env_file args of
        None \<Rightarrow> Some []
      | Some path \<Rightarrow>
          (case open_env_file la w path of
             Ok items \<Rightarrow> if list_all is_ok items then Some (map (\<lambda>i. case i of Ok e \<Rightarrow> e | _ \<Rightarrow> ([], [])) items) else None
           | _ \<Rightarrow> None))"

lemma all_ok_map: "list_all is_ok items \<Longrightarrow> items = map Ok (map (\<lambda>i. case i of Ok e \<Rightarrow> e | _ \<Rightarrow> d) items)"
  by (induction items) (auto elim: is_ok.elims)

text \<open>
  C16 (the environment of the debuggee).  Where names are case sensitive and the environment file can be read, the
  debuggee's variable is the one of the launch configuration; if that has none, the last one of the
  environment file; if that has none either, the platform's, but only when the debuggee is to inherit it.
  Nothing else is in the environment, and the session is as it was.
\<close>

theorem environment_layered:
  assumes "\<not> on_windows la (world s)" "env_file_entries la (world s) args = Some entries"
  shows "\<exists>env. launch_environment la args s = (Ok env, s) \<and> (\<forall>k. hm_get env k =
    (case map_of (rev (unwrap_or (la_env args) [])) k of Some v \<Rightarrow> Some v
     | None \<Rightarrow> case map_of (rev entries) k of Some v \<Rightarrow> Some v
     | None \<Rightarrow> if inherit_env_setting la (world s) = Some ''true'' then hm_get (platform_environment la (world s)) k else None))"
proof -
  define start where "start = (if inherit_env_setting la (world s) = Some ''true'' then platform_environment la (world s) else [])"
  define state where "state = fold (set_env la False) entries ([], start)"
  have "launch_environment la args s = (Ok (snd (fold (set_env la False) (unwrap_or (la_env args) []) state)), s)"
  proof (cases "la_env_file args")
    case None
    with assms show ?thesis
      by (simp add: launch_environment_def bindS_def getS_def returnS_def Let_def state_def start_def env_file_entries_def)
  next
    case (Some path)
    with assms(2) obtain items where items: "open_env_file la (world s) path = Ok items" "list_all is_ok items"
      "entries = map (\<lambda>i. case i of Ok e \<Rightarrow> e | _ \<Rightarrow> ([], [])) items"
      by (auto simp: env_file_entries_def split: res.splits if_splits)
    then have "items = map Ok entries" using all_ok_map by simp
    with Some items(1) assms(1) show ?thesis
      by (simp add: launch_environment_def bindS_def getS_def returnS_def Let_def state_def start_def liftS_def
          set_env_items_Ok)
  qed
  moreover obtain cm where "state = (cm, fold (\<lambda>(k, v). hm_insert k v) entries start)"
    using set_env_plain [of la entries "[]" start] by (cases state) (auto simp: state_def)
  ultimately show ?thesis
    using set_env_plain [of la "unwrap_or (la_env args) []" cm]
    by (auto simp: hm_get_fold_insert start_def hashmap split: option.split)
qed

text \<open>
  On Windows the names of the platform's variables are not folded: a variable of the launch configuration that
  differs from an inherited one only by case stands beside it instead of replacing it.
\<close>

definition demo_windows :: "nat launch_api" where
  "demo_windows = demo_launching\<lparr>platform_triple := (\<lambda>w. ''x86_64-pc-windows-msvc''), to_uppercase := (\<lambda>_. ''PATH''),
     inherit_env_setting := (\<lambda>w. Some ''true''), platform_environment := (\<lambda>w. [(''Path'', ''C:'')])\<rparr>"

lemma inherited_names_not_folded:
  "launch_environment demo_windows demo_program demo_start = (Ok [(''Path'', ''C:''), (''PATH'', ''/bin'')], demo_start)"
  by (simp add: launch_environment_def bindS_def getS_def returnS_def Let_def demo_windows_def demo_program_def
      demo_launching_def on_windows_def contains_text_def starts_with_def set_env_def fold_key_def hm_insert_def
      hm_get_def unwrap_or_def upt_rec)

section \<open>The debuggee's files\<close>

text \<open>What a descriptor of the debuggee is connected to: the name configured for it, or else the terminal.\<close>

definition stdio_target :: "terminal_id option \<Rightarrow> launch_request_arguments \<Rightarrow> nat \<Rightarrow> string option" where
  "stdio_target terminal args fd =
     (case la_stdio args of
        Some (First name) \<Rightarrow> if fd = 0 then Some name else devname terminal
      | Some (Second names) \<Rightarrow> (if fd < length names then (case names ! fd of Some n \<Rightarrow> Some n | None \<Rightarrow> devname terminal)
          else devname terminal)
      | None \<Rightarrow> devname terminal)"

lemma stdio_names_nth:
  "fd < length (stdio_names args) \<Longrightarrow>
     (case stdio_names args ! fd of Some n \<Rightarrow> Some n | None \<Rightarrow> devname terminal) = stdio_target terminal args fd"
  by (auto simp: stdio_names_def stdio_target_def nth_append nth_Cons' Let_def split: option.splits either.splits)

text \<open>
  The debuggee's files.  A debuggee with a terminal gets, for its three standard descriptors and for every
  further one that is configured, the file configured for it or else the terminal: descriptor 0 opened for
  reading, 1 and 2 for writing, the others for both.  Without a terminal the configuration is not looked at.
\<close>

theorem stdio_connected:
  "li_file_actions (configure_stdio terminal args info) = li_file_actions info @
     (case terminal of
        None \<Rightarrow> []
      | Some t \<Rightarrow> concat (map (\<lambda>fd. case stdio_target t args fd of
            None \<Rightarrow> [] | Some path \<Rightarrow> [(fd, path, fd \<notin> {1, 2}, fd \<noteq> 0)])
          [0..<max 3 (case la_stdio args of Some (Second names) \<Rightarrow> length names | _ \<Rightarrow> 3)]))"
proof (cases terminal)
  case None
  then show ?thesis by (simp add: configure_stdio_def)
next
  case (Some t)
  have n: "length (stdio_names args) = max 3 (case la_stdio args of Some (Second names) \<Rightarrow> length names | _ \<Rightarrow> 3)"
    by (auto simp: stdio_names_def Let_def split: option.splits either.splits)
  have "map (open_file_action t) (enumerate 0 (stdio_names args))
    = map (\<lambda>fd. case stdio_target t args fd of None \<Rightarrow> [] | Some path \<Rightarrow> [(fd, path, fd \<notin> {1, 2}, fd \<noteq> 0)])
        [0..<length (stdio_names args)]"
    by (rule nth_equalityI)
      (auto simp: nth_enumerate_eq open_file_action_def simp flip: stdio_names_nth split: option.splits)
  with Some n show ?thesis by (simp add: configure_stdio_def)
qed

section \<open>Ending\<close>

lemma common_post_run_keeps:
  assumes "common_post_run ll args s = (r, t)"
  shows "terminate_on_disconnect t = terminate_on_disconnect s"
proof (cases "cl_post_run_commands args")
  case None
  with assms show ?thesis by (auto simp: common_post_run_def res_simps)
next
  case (Some commands)
  obtain x u where run: "exec_commands ll ''postRunCommands'' commands s = (x, u)" by fastforce
  from preservesD [OF steady_exec_commands run] have "terminate_on_disconnect u = terminate_on_disconnect s"
    by (simp add: steady_defs)
  with assms Some run show ?thesis
    by (cases x) (auto simp: common_post_run_def res_simps log_errorsS_def)
qed

lemma complete_launch_mode:
  assumes "complete_launch ll ta ra la args s = (Ok b, t)"
  shows "terminate_on_disconnect t"
  using assms
  by (auto simp: complete_launch_def bindS_Ok thenS_def Let_def returnS_def modifyS_def dest!: common_post_run_keeps)

lemma complete_attach_mode:
  assumes "complete_attach ll ta ra la args s = (Ok b, t)"
  shows "\<not> terminate_on_disconnect t"
  using assms
  by (auto simp: complete_attach_def bindS_Ok thenS_def Let_def returnS_def modifyS_def dest!: common_post_run_keeps)

text \<open>
  C15 (a debuggee is ended the way it was started).  Disconnecting kills a debuggee that was launched and
  detaches from one that was attached to, unless the request says which of the two; it does so after the
  commands for this moment have run, and only if there still is a live debuggee.  It holds as long as no other
  debuggee has been started since.
\<close>

theorem debuggee_ended_as_started:
  assumes "(by_default \<and> complete_launch ll ta ra la launch s = (Ok b, t))
      \<or> (\<not> by_default \<and> complete_attach ll ta ra la attach s = (Ok b, t))"
    and "same_modes t u" "run_pre_terminate ll u = (Ok (), v)" "exit_commands u = None"
  shows "world (snd (handle_disconnect ll la args u)) =
    (if process_valid la (world v) \<and> is_alive (process_state_of ll (world v)) then
       snd ((if unwrap_or (unwrap_or args None) by_default then kill_process la else detach_process la) (world v))
     else world v)"
proof -
  from assms(1) have "terminate_on_disconnect t = by_default"
    by (auto dest: complete_launch_mode complete_attach_mode)
  moreover have "same_modes u v"
    using preservesD [OF steady_run_pre_terminate assms(3)] by (simp add: steady_def)
  ultimately have modes: "terminate_on_disconnect v = by_default" "exit_commands v = None"
    using assms(2,4) by (simp_all add: same_modes_def)
  have force: "(case args of Some b \<Rightarrow> b | None \<Rightarrow> None) = unwrap_or args None"
    by (simp add: unwrap_or_def)
  have exits: "world (snd (thenS (terminate_debuggee ll la force)
      (bindS (getS exit_commands) (\<lambda>c. case c of Some c \<Rightarrow> log_errorsS (exec_commands ll ''exitCommands'' c) | None \<Rightarrow> returnS ())) w))
    = world (snd (terminate_debuggee ll la force w))"
    if "exit_commands w = None" for force and w :: "('a, 'b) session"
  proof -
    obtain x y where run: "terminate_debuggee ll la force w = (x, y)" by fastforce
    have "exit_commands y = None"
      using preservesD [OF steady_terminate_debuggee run] that by (simp add: steady_defs)
    with run show ?thesis by (cases x) (simp_all add: thenS_def bindS_def getS_def returnS_def)
  qed
  have "world (snd (handle_disconnect ll la args u)) =
    world (snd (terminate_debuggee ll la (unwrap_or args None) (v\<lparr>debuggee_terminal := None\<rparr>)))"
    using exits [of "v\<lparr>debuggee_terminal := None\<rparr>"] modes(2) assms(3)
    by (simp add: handle_disconnect_def force thenS_def bindS_def modifyS_def)
  also have "\<dots> = (if process_valid la (world v) \<and> is_alive (process_state_of ll (world v)) then
       snd ((if unwrap_or (unwrap_or args None) by_default then kill_process la else detach_process la) (world v))
     else world v)"
    by (auto simp: terminate_debuggee_def bindS_def getS_def returnS_def modes(1) try_world_def call_world_def liftS_def
        Let_def split: prod.split)
  finally show ?thesis .
qed

section \<open>Witnesses\<close>

theorem environment_layered_witness:
  "\<exists>env. launch_environment demo_launching demo_program demo_start = (Ok env, demo_start)
     \<and> hm_get env ''PATH'' = Some ''/bin'' \<and> hm_get env ''HOME'' = None"
proof -
  have "\<not> on_windows demo_launching (world demo_start)"
    by (simp add: on_windows_def contains_text_def demo_launching_def starts_with_def upt_rec)
  moreover have "env_file_entries demo_launching (world demo_start) demo_program = Some []"
    by (simp add: env_file_entries_def demo_program_def)
  ultimately show ?thesis
    using environment_layered [of demo_launching demo_start demo_program "[]"]
    by (auto simp: demo_program_def unwrap_or_def demo_launching_def)
qed

theorem debuggee_ended_as_started_witness:
  "\<exists>t. complete_attach demo_step_lldb demo_threads demo_run demo_launching demo_process demo_start = (Ok Rb_attach, t)
     \<and> world (snd (handle_disconnect demo_step_lldb demo_launching None t)) = demo_detached"
proof -
  have "\<exists>t. complete_attach demo_step_lldb demo_threads demo_run demo_launching demo_process demo_start = (Ok Rb_attach, t)
      \<and> pre_terminate_commands t = None \<and> exit_commands t = None"
    by (simp add: complete_attach_def demo_process_def demo_common_def attach_to_process_def attach_info_of_def
        attach_pid_def thenS_def bindS_def returnS_def getS_def liftS_def call_world_def demo_launching_def
        log_errorsS_def try_world_def demo_run_def console_message_def console_message_impl_def send_event_def
        modifyS_def common_post_run_def)
  then obtain t where t: "complete_attach demo_step_lldb demo_threads demo_run demo_launching demo_process demo_start
      = (Ok Rb_attach, t)" "pre_terminate_commands t = None" "exit_commands t = None" by blast
  have "run_pre_terminate demo_step_lldb t = (Ok (), t)"
    by (simp add: run_pre_terminate_def bindS_def getS_def returnS_def t(2))
  then have "world (snd (handle_disconnect demo_step_lldb demo_launching None t)) = demo_detached"
    using debuggee_ended_as_started [of False demo_step_lldb demo_threads demo_run demo_launching demo_program demo_start
        Rb_attach t demo_process t t None] t
    by (simp add: same_modes_def demo_launching_def demo_step_lldb_def tiny_lldb_def unwrap_or_def)
  with t(1) show ?thesis by blast
qed

end
