(* ===== verification/Inspect_Correct.thy ===== *)
theory Inspect_Correct
  imports Steady Demo_Adapter
begin

text \<open>
  What is passed on and what is shown: the debuggee's output, memory, data breakpoints and stacks.
\<close>

section \<open>Output\<close>

text \<open>
  What LLDB promises of a stream of the debuggee: \<open>left\<close> is what has not been read; a read takes some of
  it, at most what fits the buffer, and something if anything is left.
\<close>

definition stream_ok :: "(nat \<Rightarrow> 'w \<Rightarrow> u8 list \<times> 'w) \<Rightarrow> ('w \<Rightarrow> u8 list) \<Rightarrow> bool" where
  "stream_ok read_stream left \<longleftrightarrow> (\<forall>n w. 0 < n \<longrightarrow>
     (\<exists>k\<le>n. fst (read_stream n w) = take k (left w) \<and> left (snd (read_stream n w)) = drop k (left w)
        \<and> (left w \<noteq> [] \<longrightarrow> 0 < k)))"

definition output_events :: "string \<Rightarrow> (u8 list \<Rightarrow> string) \<Rightarrow> u8 list list \<Rightarrow> message_type list" where
  "output_events category lossy chunks = map (\<lambda>c. MEvent (Ev_output (Some category) (lossy c))) chunks"

lemma drain_loop_complete:
  fixes s :: "('w, 'h) session"
  assumes ok: "stream_ok read_stream left"
  shows "\<exists>t chunks. drain_loop lossy read_stream category s = Some t \<and> concat chunks = left (world s)
    \<and> left (world t) = [] \<and> outbox t = outbox s @ output_events category lossy chunks
    \<and> (\<forall>c\<in>set chunks. c \<noteq> [] \<and> length c \<le> 1024)"
proof (induction "length (left (world s))" arbitrary: s rule: less_induct)
  case less
  obtain buffer w where read: "read_stream 1024 (world s) = (buffer, w)" by fastforce
  from ok obtain k where k: "k \<le> 1024" "buffer = take k (left (world s))" "left w = drop k (left (world s))"
    "left (world s) \<noteq> [] \<longrightarrow> 0 < k"
    unfolding stream_ok_def by (metis read fst_conv snd_conv zero_less_numeral)
  show ?case
  proof (cases "buffer = []")
    case True
    with k have "left (world s) = []" by auto
    with True read k show ?thesis
      by (subst drain_loop.simps) (auto simp: output_events_def intro!: exI [of _ "[]"])
  next
    case False
    let ?u = "s\<lparr>world := w, outbox := outbox s @ [MEvent (Ev_output (Some category) (lossy buffer))]\<rparr>"
    from False k have "length (left (world ?u)) < length (left (world s))" by auto
    from less [OF this] obtain t chunks where t: "drain_loop lossy read_stream category ?u = Some t"
      "concat chunks = left (world ?u)" "left (world t) = []"
      "outbox t = outbox ?u @ output_events category lossy chunks"
      "\<forall>c\<in>set chunks. c \<noteq> [] \<and> length c \<le> 1024" by blast
    have "drain_loop lossy read_stream category s = Some t"
      by (subst drain_loop.simps) (simp add: read False t(1))
    moreover have "concat (buffer # chunks) = left (world s)" using t(2) k by simp
    moreover have "outbox t = outbox s @ output_events category lossy (buffer # chunks)"
      using t(4) by (simp add: output_events_def)
    ultimately show ?thesis using t(3,5) k False by (intro exI [of _ t] exI [of _ "buffer # chunks"]) auto
  qed
qed

text \<open>What a process event leads to: a change of state is reported first, then the output is passed on.\<close>

definition after_state_change ::
  "'w lldb \<Rightarrow> 'w thread_api \<Rightarrow> 'w run_api \<Rightarrow> process_event \<Rightarrow> ('w, 'h) session \<Rightarrow> ('w, 'h) session" where
  "after_state_change ll ta ra event s =
     (if PeStateChanged \<in> set (pe_types event) then snd (handle_state_change ll ta ra event s) else s)"

lemma process_event_output:
  assumes "stream_ok read_stream left"
    and "PeStdout \<in> set (pe_types event) \<and> read_stream = read_stdout st \<and> category = ''stdout''
      \<or> PeStdout \<notin> set (pe_types event) \<and> PeStderr \<in> set (pe_types event) \<and> read_stream = read_stderr st \<and> category = ''stderr''"
  shows "\<exists>t chunks. handle_debug_event ll api ta ra ma st v15 (DeProcess event) s = Some t
    \<and> concat chunks = left (world (after_state_change ll ta ra event s)) \<and> left (world t) = []
    \<and> outbox t = outbox (after_state_change ll ta ra event s) @ output_events category (from_utf8_lossy st) chunks
    \<and> (\<forall>c\<in>set chunks. c \<noteq> [] \<and> length c \<le> 1024)"
proof -
  have "handle_debug_event ll api ta ra ma st v15 (DeProcess event) s
    = drain_loop (from_utf8_lossy st) read_stream category (after_state_change ll ta ra event s)"
    using assms(2) by (auto simp: handle_debug_event_def handle_process_event_def pump_output_def after_state_change_def)
  with drain_loop_complete [OF assms(1)] show ?thesis by metis
qed

section \<open>Data breakpoints\<close>

lemma parse_data_id_of: "parse_data_id ma (data_id_of addr n) = Ok (addr, n)"
proof -
  have "split_char CHR ''/'' (data_id_of addr n) = [show_nat (unat addr), show_nat (unat n)]"
    using split_char_append [OF show_nat_no_slash] split_char_fresh [OF show_nat_no_slash]
    by (simp add: data_id_of_def)
  moreover have "parse_unsigned (2 ^ 64) (show_nat (unat (x :: u64))) = Some (unat x)" for x
    by (rule parse_show_nat) (use unsigned_less [of x] in simp)
  ultimately show ?thesis by (simp add: parse_data_id_def parse_part_def nth_part_def res_simps)
qed

definition offered :: "data_breakpoint_info_body \<Rightarrow> bool" where
  "offered body \<longleftrightarrow> (\<exists>addr n note. addr \<noteq> invalid_address \<and> body = watchable addr n note)"

lemma watch_value_offered: "dib_data_id (watch_value va ia w bytes v unnamed none) = Some i \<Longrightarrow>
    offered (watch_value va ia w bytes v unnamed none)"
  by (auto simp: watch_value_def no_data_breakpoint_def offered_def Let_def split: if_splits)

lemma watch_address_offered: "dib_data_id (watch_address_text ia w args) = Some i \<Longrightarrow> offered (watch_address_text ia w args)"
  by (auto simp: watch_address_text_def no_data_breakpoint_def offered_def Let_def split: if_splits)

lemma info_offered:
  assumes "handle_data_breakpoint_info ll va ia ht args s = (Ok body, t)" "dib_data_id body = Some i"
  shows "offered body"
proof (cases "dbi_variables_reference args")
  case None
  with assms show ?thesis
    by (auto simp: handle_data_breakpoint_info_def bindS_Ok getS_def returnS_def split: if_splits
        dest: watch_value_offered watch_address_offered)
next
  case (Some variables_reference)
  with assms obtain container w where "body = (case watched_child va ia w container (dbi_name args) of
      Some child \<Rightarrow> watch_value va ia w (dbi_bytes args) child [] ''This variable doesn't have an address.''
    | None \<Rightarrow> no_data_breakpoint ''Variable not found.'')"
    by (simp add: handle_data_breakpoint_info_def bindS_Ok getS_def returnS_def) blast
  with assms(2) show ?thesis
    by (cases "watched_child va ia w container (dbi_name args)")
      (simp_all add: watch_value_offered, simp add: no_data_breakpoint_def)
qed

text \<open>
  C27 (a data breakpoint watches what was offered).  Every id that \<open>dataBreakpointInfo\<close> gives out is understood by
  \<open>setDataBreakpoints\<close>: it names the address and the number of bytes that the description of the
  offer states, the address is a real one, and setting it asks LLDB to watch exactly those bytes, for the
  accesses that were chosen.
\<close>

theorem data_breakpoint_roundtrip:
  assumes "handle_data_breakpoint_info ll va ia ht args s = (Ok body, t)" "dib_data_id body = Some data_id"
  shows "\<exists>addr n note. parse_data_id ma data_id = Ok (addr, n) \<and> addr \<noteq> invalid_address
    \<and> dib_description body = show_nat (unat n) @ '' bytes at '' @ show_hex (unat addr) @ note
    \<and> (\<forall>access u. watch_one ma \<lparr>db_data_id = data_id, db_access_type = access\<rparr> u =
        bindS (call_world (case access_flags access of (r, w, _) \<Rightarrow> watch_address ma addr n r w)) (\<lambda>res.
          case res of
            Ok wp_id \<Rightarrow> returnS (default_breakpoint_body\<lparr>bb_verified := True, bb_id := Some (wpid_to_bpid wp_id),
              bb_message := Some (''Break on '' @ snd (snd (access_flags access)))\<rparr>)
          | Err err \<Rightarrow> returnS (default_breakpoint_body\<lparr>bb_verified := False, bb_message := Some err\<rparr>)
          | Panic \<Rightarrow> panicS) u)"
proof -
  from info_offered [OF assms] have "\<exists>addr n note. addr \<noteq> invalid_address \<and> body = watchable addr n note"
    by (simp add: offered_def)
  then obtain addr n remark where b: "addr \<noteq> invalid_address" "body = watchable addr n remark" by blast
  with assms(2) have "data_id = data_id_of addr n" by (simp add: watchable_def)
  with b show ?thesis
    by (intro exI [of _ addr] exI [of _ n] exI [of _ remark])
      (simp add: parse_data_id_of watchable_def watch_one_def liftS_def bindS_def Let_def split: prod.split)
qed

section \<open>Memory\<close>

text \<open>
  What LLDB promises of memory: a region ends after every address in it, and a read returns at most what was
  asked for.
\<close>

definition memory_ok :: "'w memory_api \<Rightarrow> bool" where
  "memory_ok ma \<longleftrightarrow> (\<forall>w a r wr e. memory_region ma w a = Some (r, wr, e) \<longrightarrow> a < e)
     \<and> (\<forall>w a n bs. read_process ma w a n = Some bs \<longrightarrow> length bs \<le> n)"

lemma left_over:
  assumes "0 \<le> n" "n < 2 ^ 63" "m \<le> unat (as_u64 n)"
  shows "int m \<le> n" and "sint (as_u64 n - of_nat m) = n - int m"
proof -
  have n: "int (unat (as_u64 n)) = n" using assms(1,2) by (simp add: as_u64_def unsigned_of_int take_bit_int_eq_self)
  have "int m \<le> int (unat (as_u64 n))" using assms(3) by (simp only: of_nat_le_iff)
  then show le: "int m \<le> n" by (simp only: n)
  have "unat (as_u64 n) < 2 ^ 64" using unsigned_less [of "as_u64 n"] by simp
  with assms(3) have "unat (of_nat m :: u64) = m" by (simp add: unat_of_nat)
  with assms(3) have "unat (as_u64 n - of_nat m) = unat (as_u64 n) - m" by (simp add: unat_sub word_le_nat_alt)
  then have "int (unat (as_u64 n - of_nat m)) = n - int m" using n assms(3) by (simp only: of_nat_diff)
  then have diff: "uint (as_u64 n - of_nat m) = n - int m" by simp
  with le assms(1,2) have "sint (as_u64 n - of_nat m) = uint (as_u64 n - of_nat m)"
    by (simp add: sint_uint signed_take_bit_int_eq_self)
  with diff show "sint (as_u64 n - of_nat m) = n - int m" by simp
qed

lemma bytes_in_region_fit:
  assumes "address < e" "n \<le> bytes_in_region count e address"
  shows "n \<le> count" and "unat address + n \<le> unat e"
proof -
  from assms(2) have "n \<le> unat (e - address)" and "n \<le> count" by (simp_all add: bytes_in_region_def)
  moreover have "unat (e - address) = unat e - unat address" using assms(1) by (simp add: unat_sub)
  ultimately show "n \<le> count" "unat address + n \<le> unat e" using assms(1) by (simp_all add: word_less_nat_alt)
qed

lemma read_memory_body:
  assumes "handle_read_memory ma args s = (Ok body, t)"
  obtains address where "t = s" "(Ok body :: (err, read_memory_body) res) = (case memory_region ma (world s) address of
         Some (True, _, region_end) \<Rightarrow>
           (case read_process ma (world s) address (bytes_in_region (unat (as_u64 (rm_count args))) region_end address) of
              Some bytes \<Rightarrow> Ok \<lparr>rmb_address = hex_ref address,
                rmb_unreadable_bytes = Some (sint (as_u64 (rm_count args) - of_nat (length bytes))),
                rmb_data = Some (base64_encode ma bytes)\<rparr>
            | None \<Rightarrow> Ok \<lparr>rmb_address = hex_ref address, rmb_unreadable_bytes = Some (rm_count args), rmb_data = None\<rparr>)
       | _ \<Rightarrow> Ok \<lparr>rmb_address = hex_ref address, rmb_unreadable_bytes = Some (rm_count args), rmb_data = None\<rparr>)"
proof -
  from assms obtain address where "memory_address ma (rm_memory_reference args) (rm_offset args) = Ok address"
    unfolding handle_read_memory_def bindS_Ok by (auto simp: liftS_def)
  with assms show thesis
    by (intro that [of address])
      (auto simp: handle_read_memory_def bindS_def liftS_def getS_def returnS_def Let_def
        split: option.split_asm prod.split_asm bool.split_asm)
qed

text \<open>
  C28 (memory reads are accounted for).  Reading memory changes nothing; what the client gets and what it is told is
  unreadable add up to what it asked for, and the read never reaches past the end of the region the address is in.
\<close>

theorem read_memory_accounted:
  assumes "memory_ok ma" "handle_read_memory ma args s = (Ok body, t)" "0 \<le> rm_count args" "rm_count args < 2 ^ 63"
  shows "t = s \<and> (\<exists>bytes. rmb_unreadable_bytes body = Some (rm_count args - int (length bytes))
    \<and> int (length bytes) \<le> rm_count args
    \<and> (rmb_data body = None \<and> bytes = [] \<or> rmb_data body = Some (base64_encode ma bytes)
        \<and> (\<exists>address readable writable region_end. rmb_address body = hex_ref address
             \<and> memory_region ma (world s) address = Some (readable, writable, region_end) \<and> readable
             \<and> unat address + length bytes \<le> unat region_end)))"
proof -
  let ?count = "as_u64 (rm_count args)"
  obtain address where t: "t = s" and body: "(Ok body :: (err, read_memory_body) res) = (case memory_region ma (world s) address of
         Some (True, _, region_end) \<Rightarrow>
           (case read_process ma (world s) address (bytes_in_region (unat ?count) region_end address) of
              Some bytes \<Rightarrow> Ok \<lparr>rmb_address = hex_ref address,
                rmb_unreadable_bytes = Some (sint (?count - of_nat (length bytes))), rmb_data = Some (base64_encode ma bytes)\<rparr>
            | None \<Rightarrow> Ok \<lparr>rmb_address = hex_ref address, rmb_unreadable_bytes = Some (rm_count args), rmb_data = None\<rparr>)
       | _ \<Rightarrow> Ok \<lparr>rmb_address = hex_ref address, rmb_unreadable_bytes = Some (rm_count args), rmb_data = None\<rparr>)"
    by (rule read_memory_body [OF assms(2)])
  show ?thesis
  proof (cases "\<exists>wr e bs. memory_region ma (world s) address = Some (True, wr, e)
      \<and> read_process ma (world s) address (bytes_in_region (unat ?count) e address) = Some bs")
    case False
    with body have "body = \<lparr>rmb_address = hex_ref address, rmb_unreadable_bytes = Some (rm_count args), rmb_data = None\<rparr>"
      by (auto split: option.splits prod.splits bool.splits)
    with t assms(3) show ?thesis by (auto intro!: exI [of _ "[]"])
  next
    case True
    then obtain wr e bs where region: "memory_region ma (world s) address = Some (True, wr, e)"
      and read: "read_process ma (world s) address (bytes_in_region (unat ?count) e address) = Some bs" by blast
    have "length bs \<le> bytes_in_region (unat ?count) e address" "address < e"
      using assms(1) region read unfolding memory_ok_def by blast+
    note fits = bytes_in_region_fit [OF this(2) this(1)]
    with t body region read left_over [OF assms(3,4) fits(1)] show ?thesis by (auto intro!: exI [of _ bs])
  qed
qed

section \<open>Stacks\<close>















lemma wrap_i64_sum:
  assumes "0 \<le> a" "a \<le> i64_max" "- (2 ^ 63) \<le> b" "b \<le> i64_max"
  shows "wrap_i64 (a + b) = (if i64_max < a + b then a + b - 2 ^ 64 else a + b)"
proof (cases "i64_max < a + b")
  case False
  with assms show ?thesis by (simp add: wrap_i64_def i64_max_def signed_take_bit_int_eq_self)
next
  case True
  let ?c = "a + b - 2 ^ 63"
  have "take_bit (Suc 63) (a + b + 2 ^ 63) = (?c + 2 ^ 64) mod 2 ^ 64"
    by (simp add: take_bit_eq_mod add.commute)
  also have "\<dots> = ?c" using True assms by (simp only: mod_add_self2) (simp add: i64_max_def)
  finally show ?thesis using True by (simp add: wrap_i64_def signed_take_bit_eq_take_bit_shift)
qed


text \<open>The two cases in which the answer is not the rest of the stack that the protocol promises.\<close>

lemma stack_rest_is_empty:
  assumes "thread_by_tid ll (world s) (as_u64 (st_thread_id args)) = Some thread"
    and "st_start_frame args = Some start" "0 < start" "start \<le> i64_max" "st_levels args = None"
  shows "handle_stack_trace ll ia ma ht args s = (Ok [], s)"
proof -
  have "nat (wrap_i64 (start + i64_max) - start) = 0"
    using assms(3,4) by (subst wrap_i64_sum) (auto simp: i64_max_def)
  then show ?thesis
    by (simp add: handle_stack_trace_def thread_by_id_def bindS_def assms stack_loop.simps returnS_def)
qed

lemma stack_zero_levels_is_empty:
  assumes "thread_by_tid ll (world s) (as_u64 (st_thread_id args)) = Some thread"
    and "case st_start_frame args of Some start \<Rightarrow> 0 \<le> start \<and> start \<le> i64_max | None \<Rightarrow> True" "st_levels args = Some 0"
  shows "handle_stack_trace ll ia ma ht args s = (Ok [], s)"
proof -
  have "wrap_i64 start = start" if "0 \<le> start" "start \<le> i64_max" for start
    using wrap_i64_sum [of start 0] that by (simp add: i64_max_def)
  from this [of 0] this show ?thesis using assms(2)
    by (auto simp: handle_stack_trace_def thread_by_id_def bindS_def assms(1,3) stack_loop.simps returnS_def i64_max_def
        split: option.splits)
qed

section \<open>Witnesses\<close>

lemma demo_stream: "stream_ok demo_read (\<lambda>w. replicate w 65)"
  unfolding stream_ok_def
proof (intro allI impI)
  fix n w :: nat assume "0 < n"
  then show "\<exists>k\<le>n. fst (demo_read n w) = take k (replicate w 65) \<and> replicate (snd (demo_read n w)) 65 = drop k (replicate w 65)
      \<and> (replicate w (65 :: u8) \<noteq> [] \<longrightarrow> 0 < k)"
    by (intro exI [of _ "min n w"]) (auto simp: demo_read_def)
qed

theorem data_breakpoint_roundtrip_witness:
  "\<exists>body data_id t. handle_data_breakpoint_info demo_step_lldb demo_patience demo_inspect demo_handles
      \<lparr>dbi_variables_reference = None, dbi_name = ''0x10'', dbi_frame_id = None, dbi_bytes = Some 8, dbi_as_address = Some True\<rparr>
      demo_start = (Ok body, t) \<and> dib_data_id body = Some data_id \<and> parse_data_id demo_memory data_id = Ok (16, 8)"
proof -
  let ?args = "\<lparr>dbi_variables_reference = None, dbi_name = ''0x10'', dbi_frame_id = None, dbi_bytes = Some 8,
    dbi_as_address = Some True\<rparr>"
  have run: "handle_data_breakpoint_info demo_step_lldb demo_patience demo_inspect demo_handles ?args demo_start
      = (Ok (watchable 16 8 []), demo_start)"
    by (simp add: handle_data_breakpoint_info_def bindS_def getS_def returnS_def watch_address_text_def demo_inspect_def
        invalid_address_def watch_size_def as_u64_def)
  have "dib_data_id (watchable 16 8 []) = Some (data_id_of 16 8)" by (simp add: watchable_def)
  from data_breakpoint_roundtrip [OF run this, of demo_memory] have "parse_data_id demo_memory (data_id_of 16 8) = Ok (16, 8)"
    by (auto simp: parse_data_id_of)
  with run show ?thesis by (auto simp: watchable_def)
qed

theorem read_memory_accounted_witness:
  "\<exists>body. fst (handle_read_memory demo_memory \<lparr>rm_memory_reference = ''4090'', rm_offset = None, rm_count = 16\<rparr> demo_start)
     = Ok body \<and> rmb_unreadable_bytes body = Some 10"
proof -
  let ?args = "\<lparr>rm_memory_reference = ''4090'', rm_offset = None, rm_count = 16\<rparr>"
  have ok: "memory_ok demo_memory" by (auto simp: memory_ok_def demo_memory_def split: if_splits)
  have "\<exists>body. handle_read_memory demo_memory ?args demo_start = (Ok body, demo_start) \<and> rmb_unreadable_bytes body = Some 10"
    by (simp add: handle_read_memory_def memory_address_def bindS_def liftS_def getS_def returnS_def demo_memory_def
        as_u64_def bytes_in_region_def Let_def)
  then obtain body where run: "handle_read_memory demo_memory ?args demo_start = (Ok body, demo_start)"
    and ten: "rmb_unreadable_bytes body = Some 10" by blast
  from read_memory_accounted [OF ok run] ten run show ?thesis by auto
qed




end
