(* ===== verification/C_Strings.thy ===== *)
theory C_Strings
  imports Rust_Strings
begin

text \<open>
  Strings that cross the border to C: \<open>src/lldb/src/strings.rs\<close>, and \<open>get_fs_path_case\<close> of
  \<open>src/codelldb/src/platform.rs\<close> on Windows.  A buffer is the list of its bytes; a C string is what comes
  before the first NUL.
\<close>

definition c_str :: "u8 list \<Rightarrow> u8 list" where
  "c_str buffer = takeWhile (\<lambda>b. b \<noteq> 0) buffer"

section \<open>Passing a string\<close>

text \<open>
  What C sees: short strings are copied to an array of 256 bytes on the stack, longer ones to a new
  \<open>CString\<close>, which refuses a NUL inside.
\<close>

definition with_cstr :: "u8 list \<Rightarrow> (u8 list \<Rightarrow> 'a) \<Rightarrow> ('e, 'a) res" where
  "with_cstr bytes f =
     (if length bytes < 256 then Ok (f (bytes @ 0 # replicate (255 - length bytes) 0))
      else if 0 \<in> set bytes then Panic
      else Ok (f (bytes @ [0])))"

text \<open>The null pointer is \<open>None\<close>.\<close>

definition with_opt_cstr :: "u8 list option \<Rightarrow> (u8 list option \<Rightarrow> 'a) \<Rightarrow> ('e, 'a) res" where
  "with_opt_cstr s f = (case s of Some bytes \<Rightarrow> with_cstr bytes (f \<circ> Some) | None \<Rightarrow> Ok (f None))"

section \<open>Extracting a string\<close>

text \<open>
  The call fills a buffer of the given capacity and returns a size; \<open>grow\<close> is the capacity that the
  allocator gives for one that is asked for.  An absurd size fails the assertion, an absurd capacity
  panics in the allocation.
\<close>

type_synonym fill = "nat \<Rightarrow> u8 list \<times> nat"

definition isize_max :: nat where
  "isize_max = 2 ^ 63 - 1"

partial_function (option) cstring_loop :: "(nat \<Rightarrow> nat) \<Rightarrow> fill \<Rightarrow> nat \<Rightarrow> ('e, u8 list) res option" where
  "cstring_loop grow f capacity =
     (let (buffer, n) = f capacity in
      if isize_max < n then Some Panic
      else if n < capacity - 1 then Some (Ok (c_str buffer))
      else if isize_max < capacity * 2 then Some Panic
      else cstring_loop grow f (grow (capacity * 2)))"

definition get_cstring :: "(nat \<Rightarrow> nat) \<Rightarrow> fill \<Rightarrow> ('e, u8 list) res option" where
  "get_cstring grow f =
     (let (buffer, n) = f 1024 in
      if isize_max < n then Some Panic
      else if n < 1024 - 1 then Some (Ok (c_str buffer))
      else (let capacity = (if 1024 < n then n + 2 else 1024 * 2) in
        if isize_max < capacity then Some Panic else cstring_loop grow f (grow capacity)))"

text \<open>
  The calls differ in the size they return: what they stored or what they need, with the NUL or without,
  or something between.  A call stores as much of the string as fits.
\<close>

definition yields :: "u8 list \<Rightarrow> fill \<Rightarrow> bool" where
  "yields s f \<longleftrightarrow> 0 \<notin> set s \<and> (\<forall>c>0.
     (\<exists>junk. fst (f c) = take (c - 1) s @ 0 # junk)
     \<and> min (length s) (c - 1) \<le> snd (f c) \<and> snd (f c) \<le> length s + 1)"

lemma c_str_stored: "0 \<notin> set s \<Longrightarrow> c_str (s @ 0 # junk) = s"
  by (simp add: c_str_def takeWhile_append)

lemma yields_whole:
  assumes "yields s f" "0 < c" "snd (f c) < c - 1"
  shows "c_str (fst (f c)) = s"
proof -
  from assms obtain junk where stored: "fst (f c) = take (c - 1) s @ 0 # junk"
    and "min (length s) (c - 1) \<le> snd (f c)"
    unfolding yields_def by blast
  with assms(3) have "take (c - 1) s = s" by simp
  with stored assms(1) show ?thesis by (simp add: c_str_stored yields_def)
qed

lemma cstring_loop_returns:
  assumes f: "yields s f" and grow: "\<forall>n. n \<le> grow n" and len: "length s < 2 ^ 60" and "0 < c"
  shows "(cstring_loop grow f c :: ('e, u8 list) res option) = Some (Ok s)"
  using assms(4)
proof (induction "length s + 3 - c" arbitrary: c rule: less_induct)
  case less
  from f less.prems have n: "snd (f c) \<le> length s + 1" unfolding yields_def by blast
  have ok: "\<not> isize_max < snd (f c)" using n len by (simp add: isize_max_def)
  show ?case
  proof (cases "snd (f c) < c - 1")
    case True
    with ok yields_whole [OF f less.prems True] show ?thesis
      by (subst cstring_loop.simps) (simp add: case_prod_unfold)
  next
    case False
    with n have small: "c \<le> length s + 2" by simp
    have "c * 2 \<le> grow (c * 2)" using grow by blast
    with less.prems have more: "c < grow (c * 2)" by linarith
    have "(cstring_loop grow f (grow (c * 2)) :: ('e, u8 list) res option) = Some (Ok s)"
      by (rule less.hyps) (use more small in linarith)+
    moreover have "\<not> isize_max < c * 2" using small len by (simp add: isize_max_def)
    ultimately show ?thesis using False ok
      by (subst cstring_loop.simps) (simp add: case_prod_unfold)
  qed
qed

lemma get_cstring_whole:
  assumes "yields s f" "\<forall>n. n \<le> grow n" "length s < 2 ^ 60"
  shows "(get_cstring grow f :: ('e, u8 list) res option) = Some (Ok s)"
proof -
  from assms(1) have n: "snd (f 1024) \<le> length s + 1" unfolding yields_def by (meson zero_less_numeral)
  have ok: "\<not> isize_max < snd (f 1024)" using n assms(3) by (simp add: isize_max_def)
  show ?thesis
  proof (cases "snd (f 1024) < 1024 - 1")
    case True
    with ok yields_whole [OF assms(1) _ True] show ?thesis by (simp add: get_cstring_def case_prod_unfold)
  next
    case False
    let ?capacity = "if 1024 < snd (f 1024) then snd (f 1024) + 2 else 1024 * 2"
    have "?capacity \<le> grow ?capacity" using assms(2) by blast
    then have "0 < grow ?capacity" by (simp split: if_splits)
    note loop = cstring_loop_returns [OF assms this]
    have "\<not> isize_max < ?capacity" using n assms(3) by (simp add: isize_max_def)
    with False ok loop show ?thesis by (simp add: get_cstring_def case_prod_unfold Let_def)
  qed
qed

text \<open>
  C24 (strings come back whole).  Whatever size a call reports, of what it stored or of what it needs, the loop ends
  and returns the whole string: it never takes a string that was cut off for a complete one, and it never
  loops for ever.
\<close>

theorem cstring_complete:
  assumes "yields s f" "\<forall>n. n \<le> grow n" "length s < 2 ^ 60"
  shows "(get_cstring grow f :: ('e, u8 list) res option) = Some (Ok s)"
  using assms by (rule get_cstring_whole)

text \<open>A call that returns the number of bytes it stored, on a string that needs the second buffer.\<close>

definition demo_fill :: "u8 list \<Rightarrow> fill" where
  "demo_fill s c = (take (c - 1) s @ [0], min (length s) (c - 1))"

theorem cstring_complete_witness:
  "get_cstring id (demo_fill (replicate 3000 65)) = Some (Ok (replicate 3000 65) :: (unit, u8 list) res)"
proof (rule cstring_complete)
  show "yields (replicate 3000 65) (demo_fill (replicate 3000 65))" by (auto simp: yields_def demo_fill_def)
qed simp_all

text \<open>
  Passing a string in: C reads exactly it, unless a NUL is inside; then a short string is cut off at the NUL
  and a long one panics.
\<close>

lemma with_cstr_reads:
  "0 \<notin> set bytes \<Longrightarrow> with_cstr bytes c_str = (Ok bytes :: ('e, u8 list) res)"
  by (simp add: with_cstr_def c_str_stored)

lemma with_cstr_nul:
  "with_cstr (s @ 0 # t) c_str = (if length s + length t < 255 then Ok (c_str s) else (Panic :: ('e, u8 list) res))"
proof -
  have "c_str (s @ 0 # u) = c_str s" for u by (induction s) (simp_all add: c_str_def)
  then show ?thesis by (simp add: with_cstr_def)
qed

section \<open>Text\<close>

text \<open>
  How many bytes the first character of a sequence of bytes takes in UTF-8, 0 if there is no valid one.
\<close>

definition continues :: "u8 \<Rightarrow> bool" where
  "continues b = (128 \<le> b \<and> b < 192)"

fun utf8_first :: "u8 list \<Rightarrow> nat" where
  "utf8_first [] = 0"
| "utf8_first (a # bs) =
     (if a < 128 then 1
      else case bs of
        [] \<Rightarrow> 0
      | b # bs \<Rightarrow>
          if 194 \<le> a \<and> a < 224 \<and> continues b then 2
          else (case bs of
            [] \<Rightarrow> 0
          | c # bs \<Rightarrow>
              if continues c \<and> (a = 224 \<and> 160 \<le> b \<and> b < 192 \<or> 225 \<le> a \<and> a < 240 \<and> a \<noteq> 237 \<and> continues b
                  \<or> a = 237 \<and> 128 \<le> b \<and> b < 160) then 3
              else (case bs of
                [] \<Rightarrow> 0
              | d # _ \<Rightarrow>
                  if continues c \<and> continues d \<and> (a = 240 \<and> 144 \<le> b \<and> b < 192 \<or> 241 \<le> a \<and> a < 244 \<and> continues b
                      \<or> a = 244 \<and> 128 \<le> b \<and> b < 144) then 4
                  else 0)))"

lemma utf8_first_le: "utf8_first bs \<le> length bs"
proof (cases bs)
  case (Cons a bs)
  then show ?thesis by (cases bs; cases "tl bs"; cases "tl (tl bs)") auto
qed simp

text \<open>\<open>Utf8Error::valid_up_to\<close>, or the length of a valid text.\<close>

function valid_up_to :: "u8 list \<Rightarrow> nat" where
  "valid_up_to bs = (if utf8_first bs = 0 then 0 else utf8_first bs + valid_up_to (drop (utf8_first bs) bs))"
  by auto

termination
  by (relation "measure length") (use utf8_first_le in \<open>auto intro!: diff_less gr0I simp: le_zero_eq\<close>)

declare valid_up_to.simps [simp del]

definition valid_utf8 :: "u8 list \<Rightarrow> bool" where
  "valid_utf8 bs \<longleftrightarrow> valid_up_to bs = length bs"

definition get_str :: "u8 list option \<Rightarrow> u8 list" where
  "get_str ptr = (case ptr of None \<Rightarrow> [] | Some buffer \<Rightarrow> take (valid_up_to (c_str buffer)) (c_str buffer))"

lemma utf8_first_append: "utf8_first xs \<noteq> 0 \<Longrightarrow> utf8_first (xs @ ys) = utf8_first xs"
proof (cases xs)
  case (Cons a bs)
  then show "utf8_first xs \<noteq> 0 \<Longrightarrow> utf8_first (xs @ ys) = utf8_first xs"
    by (cases bs; cases "tl bs"; cases "tl (tl bs)") (auto split: if_splits)
qed simp

lemma utf8_first_own: "utf8_first (take (utf8_first xs) xs) = utf8_first xs"
proof (cases xs)
  case (Cons a bs)
  then show ?thesis by (cases bs; cases "tl bs"; cases "tl (tl bs)") auto
qed simp

lemma utf8_first_take:
  assumes "utf8_first xs \<le> n"
  shows "utf8_first (take n xs) = utf8_first xs"
proof (cases "utf8_first xs = 0")
  case True
  with utf8_first_append [of "take n xs" "drop n xs"] show ?thesis by auto
next
  case False
  let ?k = "utf8_first xs"
  have "take n xs = take ?k xs @ drop ?k (take n xs)"
    using assms by (metis append_take_drop_id min.absorb1 take_take)
  with False utf8_first_append [of "take ?k xs"] show ?thesis by (metis utf8_first_own)
qed

lemma valid_up_to_le: "valid_up_to bs \<le> length bs"
proof (induction bs rule: valid_up_to.induct)
  case (1 bs)
  then show ?case using utf8_first_le [of bs] by (subst valid_up_to.simps) auto
qed

lemma valid_up_to_append: "valid_utf8 xs \<Longrightarrow> valid_up_to (xs @ ys) = length xs + valid_up_to ys"
proof (induction xs rule: valid_up_to.induct)
  case (1 xs)
  show ?case
  proof (cases "utf8_first xs = 0")
    case True
    with 1(2) have "xs = []" by (simp add: valid_utf8_def valid_up_to.simps [of xs])
    then show ?thesis by simp
  next
    case False
    let ?k = "utf8_first xs"
    from False 1(2) have "valid_utf8 (drop ?k xs)"
      using utf8_first_le [of xs] by (simp add: valid_utf8_def valid_up_to.simps [of xs])
    with 1(1) False have "valid_up_to (drop ?k xs @ ys) = length xs - ?k + valid_up_to ys" by simp
    moreover have "valid_up_to (xs @ ys) = ?k + valid_up_to (drop ?k xs @ ys)"
      using False utf8_first_le [of xs]
      by (subst valid_up_to.simps) (simp add: utf8_first_append)
    ultimately show ?thesis using utf8_first_le [of xs] by simp
  qed
qed

lemma valid_take: "valid_utf8 (take (valid_up_to bs) bs)"
proof (induction bs rule: valid_up_to.induct)
  case (1 bs)
  show ?case
  proof (cases "utf8_first bs = 0")
    case True
    then show ?thesis by (simp add: valid_up_to.simps [of bs] valid_utf8_def valid_up_to.simps [of "[]"])
  next
    case False
    let ?k = "utf8_first bs"
    let ?t = "take (valid_up_to bs) bs"
    have up: "valid_up_to bs = ?k + valid_up_to (drop ?k bs)" using False by (simp add: valid_up_to.simps [of bs])
    then have first: "utf8_first ?t = ?k" by (intro utf8_first_take) simp
    have "drop ?k ?t = take (valid_up_to (drop ?k bs)) (drop ?k bs)" using up by (simp add: drop_take)
    with 1 False have "valid_utf8 (drop ?k ?t)" by simp
    then have "valid_up_to ?t = ?k + (length ?t - ?k)"
      using False by (subst valid_up_to.simps) (simp add: first valid_utf8_def)
    then show ?thesis using up valid_up_to_le [of bs] by (simp add: valid_utf8_def)
  qed
qed

text \<open>
  Text from C is the longest beginning of the C string that is valid UTF-8: what is returned is valid, and no longer
  beginning is.
\<close>

lemma get_str_longest:
  "valid_utf8 (get_str (Some buffer))
     \<and> (\<forall>t u. c_str buffer = t @ u \<longrightarrow> valid_utf8 t \<longrightarrow> length t \<le> length (get_str (Some buffer)))"
  using valid_take valid_up_to_append valid_up_to_le [of "c_str buffer"]
  by (auto simp: get_str_def)

section \<open>The case of a path, on Windows\<close>

text \<open>
  \<open>GetLongPathNameW\<close> is called with the path and the capacity of the buffer: 0 is an error; on success it
  returns the length of the path it stored, and if the buffer is too small the size that is needed.
  \<open>reserve\<close> makes room for as many elements beside those in use, and none are in use yet.
\<close>

definition get_fs_path_case_windows ::
  "('p \<Rightarrow> nat \<Rightarrow> nat \<times> u16 list) \<Rightarrow> (nat \<Rightarrow> nat) \<Rightarrow> 'e \<Rightarrow> 'p \<Rightarrow> ('e, u16 list) res" where
  "get_fs_path_case_windows get_long_path_name grow os_error path =
     (let capacity = grow 256; (n, stored) = get_long_path_name path capacity in
      if n = 0 then Err os_error
      else if capacity < n then
        (let capacity = (if n - capacity \<le> capacity then capacity else grow (n - capacity));
             (n, stored) = get_long_path_name path capacity in
         if n = 0 then Err os_error else if capacity < n then Panic else Ok (take n stored))
      else Ok (take n stored))"

text \<open>A path that does not fit the first buffer, but is less than twice as long, fails the assertion.\<close>

lemma long_path_panics:
  assumes "\<And>c. fst (get_long_path_name path c) = (if needed \<le> c then needed - 1 else needed)"
    and "256 < needed" "needed \<le> 512"
  shows "get_fs_path_case_windows get_long_path_name id os_error path = Panic"
  using assms by (simp add: get_fs_path_case_windows_def case_prod_unfold Let_def)

end
