(* ===== verification/Bindings.thy ===== *)
theory Bindings
  imports C_Strings Session_State
begin

text \<open>
  The parts of the LLDB bindings (\<open>src/lldb/src/sb/\<close>) that do more than call C++: the numbers that stand
  for Rust enumerations, the errors and null pointers that become results and options, and the strings
  that are passed on the way.  The C++ functions are parameters; a string they are given is what they read of it,
  the bytes before the first NUL.
\<close>

section \<open>Enumerations\<close>

text \<open>
  \<open>FromPrimitive\<close> takes the variant of that number, and the one marked \<open>default\<close> for any other.
\<close>

definition from_primitive :: "(int \<times> 'a) list \<Rightarrow> 'a \<Rightarrow> int \<Rightarrow> 'a" where
  "from_primitive variants default_variant code = (case map_of variants code of Some v \<Rightarrow> v | None \<Rightarrow> default_variant)"

text \<open>A table of variants numbered from a first discriminant.\<close>

definition numbered :: "int \<Rightarrow> 'a list \<Rightarrow> (int \<times> 'a) list" where
  "numbered first variants = zip (map (\<lambda>i. first + int i) [0..<length variants]) variants"

lemma map_of_numbered:
  "map_of (numbered first vs) code =
     (if first \<le> code \<and> code < first + int (length vs) then Some (vs ! nat (code - first)) else None)"
proof -
  let ?codes = "map (\<lambda>i. first + int i) [0..<length vs]"
  have "distinct ?codes" by (simp add: distinct_map inj_on_def)
  have inside: "map_of (zip ?codes vs) (first + int i) = Some (vs ! i)" if "i < length vs" for i
  proof -
    have "(first + int i, vs ! i) \<in> set (zip ?codes vs)"
      using that by (auto simp: in_set_zip intro: exI [of _ i])
    with \<open>distinct ?codes\<close> show ?thesis by (simp add: map_of_eq_Some_iff)
  qed
  show ?thesis
  proof (cases "first \<le> code \<and> code < first + int (length vs)")
    case True
    then have "nat (code - first) < length vs" and "first + int (nat (code - first)) = code" by linarith+
    with inside [of "nat (code - first)"] have "map_of (numbered first vs) code = Some (vs ! nat (code - first))"
      unfolding numbered_def by metis
    with True show ?thesis by simp
  next
    case False
    then have "code \<notin> set ?codes" by auto
    then have "map_of (zip ?codes vs) code = None" by (simp add: map_of_zip_is_None)
    with False show ?thesis by (auto simp: numbered_def)
  qed
qed

lemma from_numbered:
  "from_primitive (numbered first vs) d code =
     (if first \<le> code \<and> code < first + int (length vs) then vs ! nat (code - first) else d)"
  by (simp add: from_primitive_def map_of_numbered)

definition process_states :: "process_state list" where
  "process_states =
     [PsInvalid, PsUnloaded, PsConnected, PsAttaching, PsLaunching, PsStopped, PsRunning, PsStepping,
      PsCrashed, PsDetached, PsExited, PsSuspended]"

definition process_state_from :: "u32 \<Rightarrow> process_state" where
  "process_state_from code = from_primitive (numbered 0 process_states) PsInvalid (uint code)"

datatype (plugins only:) section_type =
    SecInvalid | SecCode | SecContainer | SecData | SecDataCString | SecDataCStringPointers |
    SecDataSymbolAddress | SecData4 | SecData8 | SecData16 | SecDataPointers | SecDebug | SecZeroFill |
    SecDataObjCMessageRefs | SecDataObjCCFStrings | SecDWARFDebugAbbrev | SecDWARFDebugAddr |
    SecDWARFDebugAranges | SecDWARFDebugCuIndex | SecDWARFDebugFrame | SecDWARFDebugInfo |
    SecDWARFDebugLine | SecDWARFDebugLoc | SecDWARFDebugMacInfo | SecDWARFDebugMacro |
    SecDWARFDebugPubNames | SecDWARFDebugPubTypes | SecDWARFDebugRanges | SecDWARFDebugStr |
    SecDWARFDebugStrOffsets | SecDWARFAppleNames | SecDWARFAppleTypes | SecDWARFAppleNamespaces |
    SecDWARFAppleObjC | SecELFSymbolTable | SecELFDynamicSymbols | SecELFRelocationEntries |
    SecELFDynamicLinkInfo | SecEHFrame | SecARMexidx | SecARMextab | SecCompactUnwind |
    SecTypeGoSymtab | SecTypeAbsoluteAddress | SecDWARFGNUDebugAltLink | SecDWARFDebugTypes |
    SecDWARFDebugNames | SecOther | SecDWARFDebugLineStr | SecDWARFDebugRngLists |
    SecDWARFDebugLocLists | SecDWARFDebugAbbrevDwo | SecDWARFDebugInfoDwo | SecDWARFDebugStrDwo |
    SecDWARFDebugStrOffsetsDwo | SecDWARFDebugTypesDwo | SecDWARFDebugRngListsDwo |
    SecDWARFDebugLocDwo | SecDWARFDebugLocListsDwo | SecDWARFDebugTuIndex

definition section_types :: "section_type list" where
  "section_types =
    [
     SecInvalid, SecCode, SecContainer, SecData, SecDataCString, SecDataCStringPointers,
     SecDataSymbolAddress, SecData4, SecData8, SecData16, SecDataPointers, SecDebug, SecZeroFill,
     SecDataObjCMessageRefs, SecDataObjCCFStrings, SecDWARFDebugAbbrev, SecDWARFDebugAddr,
     SecDWARFDebugAranges, SecDWARFDebugCuIndex, SecDWARFDebugFrame, SecDWARFDebugInfo,
     SecDWARFDebugLine, SecDWARFDebugLoc, SecDWARFDebugMacInfo, SecDWARFDebugMacro,
     SecDWARFDebugPubNames, SecDWARFDebugPubTypes, SecDWARFDebugRanges, SecDWARFDebugStr,
     SecDWARFDebugStrOffsets, SecDWARFAppleNames, SecDWARFAppleTypes, SecDWARFAppleNamespaces,
     SecDWARFAppleObjC, SecELFSymbolTable, SecELFDynamicSymbols, SecELFRelocationEntries,
     SecELFDynamicLinkInfo, SecEHFrame, SecARMexidx, SecARMextab, SecCompactUnwind, SecTypeGoSymtab,
     SecTypeAbsoluteAddress, SecDWARFGNUDebugAltLink, SecDWARFDebugTypes, SecDWARFDebugNames, SecOther,
     SecDWARFDebugLineStr, SecDWARFDebugRngLists, SecDWARFDebugLocLists, SecDWARFDebugAbbrevDwo,
     SecDWARFDebugInfoDwo, SecDWARFDebugStrDwo, SecDWARFDebugStrOffsetsDwo, SecDWARFDebugTypesDwo,
     SecDWARFDebugRngListsDwo, SecDWARFDebugLocDwo, SecDWARFDebugLocListsDwo, SecDWARFDebugTuIndex]"

definition section_type_from :: "u32 \<Rightarrow> section_type" where
  "section_type_from code = from_primitive (numbered 0 section_types) SecInvalid (uint code)"

datatype structured_data_type =
    SdInvalid | SdNull | SdGeneric | SdArray | SdUnsignedInteger | SdFloat | SdBoolean | SdString
  | SdDictionary | SdSignedInteger

definition structured_data_types :: "structured_data_type list" where
  "structured_data_types =
     [SdInvalid, SdNull, SdGeneric, SdArray, SdUnsignedInteger, SdFloat, SdBoolean, SdString,
      SdDictionary, SdSignedInteger]"

definition structured_data_type_from :: "int \<Rightarrow> structured_data_type" where
  "structured_data_type_from code = from_primitive (numbered (- 1) structured_data_types) SdInvalid code"

text \<open>Every state has one number, and a number LLDB adds later is a state that is neither alive nor running.\<close>

lemma process_state_entry: "code < 12 \<Longrightarrow> process_state_from code = process_states ! unat code"
  by (simp add: process_state_from_def from_numbered process_states_def word_less_def)

lemma process_state_numbered: "\<exists>code<12. process_state_from code = s"
proof -
  have "s \<in> set process_states" by (cases s) (simp_all add: process_states_def)
  then obtain i where i: "i < length process_states" "process_states ! i = s" unfolding in_set_conv_nth by blast
  then have "i < 12" by (simp add: process_states_def)
  then have "(word_of_nat i :: u32) < 12" and "unat (word_of_nat i :: u32) = i"
    by (simp_all add: word_less_nat_alt unat_of_nat)
  with i(2) process_state_entry [of "word_of_nat i"] show ?thesis by metis
qed

lemma unknown_state: "12 \<le> code \<Longrightarrow> \<not> is_alive (process_state_from code) \<and> \<not> is_running (process_state_from code)"
  by (simp add: process_state_from_def from_numbered process_states_def word_le_def)

lemma unknown_section: "60 \<le> code \<Longrightarrow> section_type_from code = SecInvalid"
  by (simp add: section_type_from_def from_numbered section_types_def word_le_def)

section \<open>Results and options\<close>

text \<open>A string without NUL arrives as it is.\<close>

lemma with_cstr_whole: "0 \<notin> set s \<Longrightarrow> with_cstr s (\<lambda>buffer. f (c_str buffer)) = Ok (f s)"
  by (simp add: with_cstr_def c_str_stored)

lemma with_two_cstrs:
  "0 \<notin> set s \<Longrightarrow> 0 \<notin> set t \<Longrightarrow>
     bind_res (with_cstr s (\<lambda>a. with_cstr t (\<lambda>b. f (c_str a) (c_str b)))) (\<lambda>r. r) = Ok (f s t)"
  by (simp add: with_cstr_def c_str_stored)

text \<open>
  A C++ function that reports through an \<open>SBError&\<close> returns its value beside the error; \<open>is_success\<close> is
  LLDB's.
\<close>

definition checked :: "('e \<Rightarrow> bool) \<Rightarrow> 'a \<times> 'e \<Rightarrow> ('e, 'a) res" where
  "checked is_success p = (case p of (x, error) \<Rightarrow> if is_success error then Ok x else Err error)"

record ('w, 'e) process_calls =
  is_success :: "'e \<Rightarrow> bool"
  get_memory_region_info :: "'w \<Rightarrow> u64 \<Rightarrow> nat \<times> 'e"
  read_memory_call :: "'w \<Rightarrow> u64 \<Rightarrow> nat \<Rightarrow> (u64 \<times> u8 list) \<times> 'e"
  write_memory_call :: "'w \<Rightarrow> u64 \<Rightarrow> u8 list \<Rightarrow> (u64 \<times> 'w) \<times> 'e"

definition memory_region_info :: "('w, 'e) process_calls \<Rightarrow> 'w \<Rightarrow> u64 \<Rightarrow> ('e, nat) res" where
  "memory_region_info pc w load_addr = checked (is_success pc) (get_memory_region_info pc w load_addr)"

text \<open>The buffer's length is all that is passed of it; what it holds afterwards is beside the number of bytes.\<close>

definition read_memory :: "('w, 'e) process_calls \<Rightarrow> 'w \<Rightarrow> u64 \<Rightarrow> u8 list \<Rightarrow> ('e, u64 \<times> u8 list) res" where
  "read_memory pc w addr buffer = checked (is_success pc) (read_memory_call pc w addr (length buffer))"

definition write_memory :: "('w, 'e) process_calls \<Rightarrow> 'w \<Rightarrow> u64 \<Rightarrow> u8 list \<Rightarrow> ('e, u64 \<times> 'w) res" where
  "write_memory pc w addr buffer = checked (is_success pc) (write_memory_call pc w addr buffer)"

text \<open>
  \<open>SBModule::version\<close>: LLDB fills an array of 16 numbers and returns how many there are.
\<close>

definition version :: "(nat \<Rightarrow> u32 list \<times> u32) \<Rightarrow> u32 list" where
  "version get_version =
     (let (versions, count) = get_version 16;
          count = min (unat count) (length versions)
      in take count versions)"

definition fills_version :: "u32 list \<Rightarrow> (nat \<Rightarrow> u32 list \<times> u32) \<Rightarrow> bool" where
  "fills_version v get_version \<longleftrightarrow>
     (\<forall>n. length (fst (get_version n)) = n \<and> take (length v) (fst (get_version n)) = take n v
          \<and> snd (get_version n) = word_of_nat (length v))"

lemma version_truncated: "fills_version v get_version \<Longrightarrow> length v < 2 ^ 32 \<Longrightarrow> version get_version = take 16 v"
  unfolding fills_version_def version_def
  by (auto simp: unat_of_nat min_def take_all split: prod.split dest!: spec [of _ 16])

text \<open>A pointer that may be null.\<close>

definition opt_str :: "u8 list option \<Rightarrow> u8 list option" where
  "opt_str ptr = map_option (\<lambda>p. get_str (Some p)) ptr"

definition uuid_string :: "u8 list option \<Rightarrow> u8 list option" where
  "uuid_string ptr = opt_str ptr"

definition region_name :: "u8 list option \<Rightarrow> u8 list option" where
  "region_name ptr = opt_str ptr"

section \<open>Signals\<close>

definition invalid_signal_number :: int where
  "invalid_signal_number = 2 ^ 31 - 1"

definition signal_number_from_name :: "(u8 list \<Rightarrow> int) \<Rightarrow> u8 list \<Rightarrow> ('e, int option) res" where
  "signal_number_from_name get_signal_number name =
     map_res (\<lambda>signo. if signo = invalid_signal_number then None else Some signo)
       (with_cstr name (\<lambda>buffer. get_signal_number (c_str buffer)))"

definition signal_name :: "(int \<Rightarrow> u8 list option) \<Rightarrow> int \<Rightarrow> u8 list option" where
  "signal_name get_signal signo = map_option c_str (get_signal signo)"

section \<open>Diagnostics\<close>

text \<open>
  \<open>SBStructuredData::string_value\<close> unwraps the conversion to UTF-8.
\<close>

definition value_for_key :: "(u8 list \<Rightarrow> 'd) \<Rightarrow> u8 list \<Rightarrow> ('e, 'd) res" where
  "value_for_key get_value key = with_cstr key (\<lambda>buffer. get_value (c_str buffer))"

definition string_value :: "(nat \<Rightarrow> nat) \<Rightarrow> fill \<Rightarrow> ('e, u8 list) res option" where
  "string_value grow get_string_value =
     map_option (\<lambda>r. bind_res r (\<lambda>s. if valid_utf8 s then Ok s else Panic)) (get_cstring grow get_string_value)"

section \<open>Files and symbol scopes\<close>

definition file_mode :: "bool \<Rightarrow> string" where
  "file_mode wr = (if wr then ''w'' else ''r'')"

definition sb_file :: "(int \<Rightarrow> string \<Rightarrow> bool \<Rightarrow> 'f) \<Rightarrow> int \<Rightarrow> bool \<Rightarrow> 'f" where
  "sb_file construct fd wr = construct fd (file_mode wr) True"

datatype scope = ScTarget | ScModule | ScCompUnit | ScFunction | ScBlock | ScLineEntry | ScSymbol | ScEverything | ScVariable

fun scope_bits :: "scope \<Rightarrow> u32" where
  "scope_bits ScTarget = push_bit 0 1"
| "scope_bits ScModule = push_bit 1 1"
| "scope_bits ScCompUnit = push_bit 2 1"
| "scope_bits ScFunction = push_bit 3 1"
| "scope_bits ScBlock = push_bit 4 1"
| "scope_bits ScLineEntry = push_bit 5 1"
| "scope_bits ScSymbol = push_bit 6 1"
| "scope_bits ScEverything = push_bit 7 1 - 1"
| "scope_bits ScVariable = push_bit 7 1"

lemma everything_but_variables:
  "scope_bits ScEverything =
     foldr or (map scope_bits [ScTarget, ScModule, ScCompUnit, ScFunction, ScBlock, ScLineEntry, ScSymbol]) 0"
  "and (scope_bits ScEverything) (scope_bits ScVariable) = 0"
  by (simp_all add: push_bit_eq_mult)

section \<open>Environments\<close>

text \<open>
  An \<open>SBEnvironment\<close> is LLDB's; the functions given to it here are its C++ operations.
\<close>

record 'w env_calls =
  env_get_call :: "'w \<Rightarrow> u8 list \<Rightarrow> u8 list option"
  env_set_call :: "u8 list \<Rightarrow> u8 list \<Rightarrow> bool \<Rightarrow> 'w \<Rightarrow> bool \<times> 'w"
  env_unset_call :: "u8 list \<Rightarrow> 'w \<Rightarrow> bool \<times> 'w"
  env_put_call :: "u8 list \<Rightarrow> 'w \<Rightarrow> 'w"

definition env_get :: "'w env_calls \<Rightarrow> u8 list \<Rightarrow> 'w \<Rightarrow> ('e, u8 list option) res" where
  "env_get ec name w = map_res (map_option c_str) (with_cstr name (\<lambda>name. env_get_call ec w (c_str name)))"

text \<open>The closures are nested: the inner one may panic as the outer one.\<close>

definition env_set :: "'w env_calls \<Rightarrow> u8 list \<Rightarrow> u8 list \<Rightarrow> bool \<Rightarrow> 'w \<Rightarrow> ('e, bool \<times> 'w) res" where
  "env_set ec name val overwrite w =
     bind_res (with_cstr name (\<lambda>name. with_cstr val (\<lambda>val. env_set_call ec (c_str name) (c_str val) True w))) (\<lambda>r. r)"

definition env_unset :: "'w env_calls \<Rightarrow> u8 list \<Rightarrow> 'w \<Rightarrow> ('e, bool \<times> 'w) res" where
  "env_unset ec name w = with_cstr name (\<lambda>name. env_unset_call ec (c_str name) w)"

definition env_put_entry :: "'w env_calls \<Rightarrow> u8 list \<Rightarrow> 'w \<Rightarrow> ('e, 'w) res" where
  "env_put_entry ec name_and_value w = with_cstr name_and_value (\<lambda>entry. env_put_call ec (c_str entry) w)"

text \<open>What LLDB documents of its environments.\<close>

definition env_documented :: "'w env_calls \<Rightarrow> bool" where
  "env_documented ec \<longleftrightarrow>
     (\<forall>n v overwrite w m.
        env_get_call ec (snd (env_set_call ec n v overwrite w)) m =
          (if m = n \<and> (overwrite \<or> env_get_call ec w n = None) then Some v else env_get_call ec w m))"

text \<open>The comment says that a variable that exists is only updated if \<open>overwrite\<close> is true.  It always is.\<close>

lemma overwrite_ignored:
  assumes "env_documented ec" "0 \<notin> set name" "0 \<notin> set val"
  obtains added w' where "env_set ec name val overwrite w = (Ok (added, w') :: ('e, bool \<times> 'w) res)"
    and "env_get ec name w' = (Ok (Some val) :: ('e, u8 list option) res)"
    and "\<And>other. other \<noteq> name \<Longrightarrow> 0 \<notin> set other \<Longrightarrow>
      env_get ec other w' = (env_get ec other w :: ('e, u8 list option) res)"
proof -
  let ?done = "env_set_call ec name val True w"
  have get: "env_get ec n w' = (Ok (map_option c_str (env_get_call ec w' n)) :: ('e, u8 list option) res)"
    if "0 \<notin> set n" for n w'
    using that by (simp add: env_get_def with_cstr_whole)
  have after: "env_get_call ec (snd ?done) m = (if m = name then Some val else env_get_call ec w m)" for m
    using assms(1) by (simp add: env_documented_def)
  have "c_str val = val" using assms(3) by (auto simp: c_str_def takeWhile_eq_all_conv)
  show thesis
  proof
    show "env_set ec name val overwrite w = (Ok (fst ?done, snd ?done) :: ('e, bool \<times> 'w) res)"
      using assms(2,3) by (simp add: env_set_def with_two_cstrs [where f = "\<lambda>n v. env_set_call ec n v True w"])
    show "env_get ec name (snd ?done) = (Ok (Some val) :: ('e, u8 list option) res)"
      using assms(2) \<open>c_str val = val\<close> by (simp add: get after)
    show "env_get ec other (snd ?done) = (env_get ec other w :: ('e, u8 list option) res)"
      if "other \<noteq> name" "0 \<notin> set other" for other
      using that by (simp add: get after)
  qed
qed

text \<open>A diagnostic that is not UTF-8 makes the session panic.\<close>

lemma string_value_panics:
  assumes "yields s f" "\<forall>n. n \<le> grow n" "length s < 2 ^ 60"
  shows "(string_value grow f :: ('e, u8 list) res option) = Some (if valid_utf8 s then Ok s else Panic)"
  unfolding string_value_def get_cstring_whole [OF assms] by simp

end
