(* ===== verification/Launch_Bindings.thy ===== *)
theory Launch_Bindings
  imports Launch Bindings
begin

text \<open>
  The environment of a launch, once more: \<open>Launch\<close> has it as a hash map of strings; here it is LLDB's object,
  which the loops of \<open>complete_launch\<close> reach through the binding \<open>SBEnvironment::set\<close>.
\<close>

definition bytes_of :: "string \<Rightarrow> u8 list" where
  "bytes_of s = map of_char s"

lemma bytes_of_eq [simp]: "bytes_of s = bytes_of t \<longleftrightarrow> s = t"
proof -
  have "unat (of_char c :: u8) = of_char c" for c
  proof -
    have "(of_char c :: nat) < 256" by (rule nat_of_char_less_256)
    moreover have "(of_char c :: u8) = of_nat (of_char c)" by (simp add: of_nat_of_char)
    ultimately show ?thesis by (simp add: unat_of_nat)
  qed
  then have "inj (of_char :: char \<Rightarrow> u8)" by (metis injI of_char_eq_iff)
  then show ?thesis by (simp add: bytes_of_def inj_map_eq_map)
qed

text \<open>No byte of a name or a value is NUL.\<close>

definition plain_text :: "string \<Rightarrow> bool" where
  "plain_text s \<longleftrightarrow> 0 \<notin> set (bytes_of s)"

definition env_refines :: "'w env_calls \<Rightarrow> 'w \<Rightarrow> (string, string) hashmap \<Rightarrow> bool" where
  "env_refines ec w env \<longleftrightarrow>
     (\<forall>n. plain_text n \<longrightarrow> env_get_call ec w (bytes_of n) = map_option bytes_of (hm_get env n))"

lemma env_set_refines:
  assumes "env_documented ec" "env_refines ec w env" "plain_text name" "plain_text val"
  obtains added w' where "env_set ec (bytes_of name) (bytes_of val) overwrite w = (Ok (added, w') :: ('e, bool \<times> 'w) res)"
    and "env_refines ec w' (hm_insert name val env)"
proof
  let ?done = "env_set_call ec (bytes_of name) (bytes_of val) True w"
  show "env_set ec (bytes_of name) (bytes_of val) overwrite w = (Ok (fst ?done, snd ?done) :: ('e, bool \<times> 'w) res)"
    using assms(3,4) by (simp add: plain_text_def env_set_def with_two_cstrs [where f = "\<lambda>n v. env_set_call ec n v True w"])
  show "env_refines ec (snd ?done) (hm_insert name val env)"
    using assms(1,2) by (simp add: env_refines_def env_documented_def hashmap)
qed

text \<open>The loop over the configured variables, with the folding of their names.\<close>

fun set_variables ::
  "'w launch_api \<Rightarrow> 'v env_calls \<Rightarrow> bool \<Rightarrow> (string \<times> string) list \<Rightarrow> (string, string) hashmap \<Rightarrow> 'v \<Rightarrow>
     ('e, (string, string) hashmap \<times> 'v) res" where
  "set_variables la ec ignore_case [] case_map w = Ok (case_map, w)"
| "set_variables la ec ignore_case ((k, v) # entries) case_map w =
     (let (k, case_map) = fold_key la ignore_case k case_map in
      bind_res (env_set ec (bytes_of k) (bytes_of v) True w)
        (\<lambda>(_, w). set_variables la ec ignore_case entries case_map w))"

text \<open>
  What LLDB has after the loop is what the hash map of \<open>Launch\<close> has, name by name.  The names that are folded to are
  among those seen, so none has a NUL.
\<close>

theorem variables_reach_lldb:
  assumes "env_documented ec" "env_refines ec w env"
    and "\<forall>(k, v)\<in>set entries. plain_text k \<and> plain_text v"
    and "\<forall>folded k. hm_get case_map folded = Some k \<longrightarrow> plain_text k"
  shows "\<exists>w'. set_variables la ec ignore_case entries case_map w
       = (Ok (fst (fold (set_env la ignore_case) entries (case_map, env)), w') :: ('e, _) res)
     \<and> env_refines ec w' (snd (fold (set_env la ignore_case) entries (case_map, env)))"
  using assms(2-4)
proof (induction entries arbitrary: w env case_map)
  case (Cons entry entries)
  obtain k v where entry: "entry = (k, v)" by (cases entry)
  obtain k' case_map' where fold: "fold_key la ignore_case k case_map = (k', case_map')" by fastforce
  have seen: "plain_text k'" "\<forall>folded k. hm_get case_map' folded = Some k \<longrightarrow> plain_text k"
    using Cons.prems(2,3) fold by (auto simp: entry fold_key_def hashmap split: if_splits option.splits)
  have "plain_text v" using Cons.prems(2) by (simp add: entry)
  then obtain added w' where set: "env_set ec (bytes_of k') (bytes_of v) True w = (Ok (added, w') :: ('e, bool \<times> 'a) res)"
    and "env_refines ec w' (hm_insert k' v env)"
    using env_set_refines [OF assms(1) Cons.prems(1) seen(1)] by metis
  from Cons.IH [OF this(2) _ seen(2)] Cons.prems(2) set show ?case by (simp add: entry fold set_env_def)
qed simp

end
