(* ===== verification/Console_Pipe.thy ===== *)
theory Console_Pipe
  imports Protocol Rust_Prelude
begin

text \<open>
  \<open>pipe_console_ouput\<close> of \<open>src/codelldb/src/debug_session.rs\<close>: what LLDB writes to its console comes
  through a pipe and goes to the client line by line.
\<close>

section \<open>The line writer\<close>

text \<open>
  \<open>LineWriter\<close> of the standard library keeps a buffer of 1024 bytes.  A write that has a newline writes out what
  is in the buffer and all up to the last newline, and keeps the rest; one that has none is an ordinary
  buffered write, after a complete line in the buffer has been written out.  The state is the buffer; the
  result is what was written out.
\<close>

definition line_capacity :: nat where
  "line_capacity = 1024"

definition newline_byte :: u8 where
  "newline_byte = 10"

text \<open>The last newline of a chunk: what comes up to it, and what comes after it.\<close>

definition after_last_newline :: "u8 list \<Rightarrow> u8 list" where
  "after_last_newline data = rev (takeWhile (\<lambda>b. b \<noteq> newline_byte) (rev data))"

definition up_to_last_newline :: "u8 list \<Rightarrow> u8 list" where
  "up_to_last_newline data = take (length data - length (after_last_newline data)) data"

definition buffered_write :: "u8 list \<Rightarrow> u8 list \<Rightarrow> u8 list \<times> u8 list" where
  "buffered_write buffer data =
     (let spare = line_capacity - length buffer in
      if length data < spare then ([], buffer @ data)
      else (let (out, buffer) = (if spare < length data then (buffer, []) else ([], buffer)) in
        if line_capacity \<le> length data then (out @ data, buffer) else (out, buffer @ data)))"

definition line_write :: "u8 list \<Rightarrow> u8 list \<Rightarrow> u8 list \<times> u8 list" where
  "line_write buffer data =
     (if newline_byte \<in> set data then
        (buffer @ up_to_last_newline data, take line_capacity (after_last_newline data))
      else if buffer \<noteq> [] \<and> last buffer = newline_byte then
        (let (out, buffer') = buffered_write [] data in (buffer @ out, buffer'))
      else buffered_write buffer data)"

section \<open>The loop\<close>

text \<open>A read of at most 1024 bytes; nothing is the end of the stream.\<close>

datatype console_read = ReadData "u8 list" | ReadFailed

text \<open>One turn with a read that is not the end: the event, if any, and the buffer.\<close>

definition pipe_turn :: "(u8 list \<Rightarrow> string) \<Rightarrow> u8 list \<Rightarrow> u8 list \<Rightarrow> event list \<times> u8 list" where
  "pipe_turn lossy buffer data =
     (let (out, buffer) = line_write buffer data in
      (if out \<noteq> [] then [Ev_output (Some ''console'') (lossy out)] else [], buffer))"

text \<open>The events of a sequence of reads, and the buffer they leave; a read that fails is tried again.\<close>

fun pipe_reads :: "(u8 list \<Rightarrow> string) \<Rightarrow> u8 list \<Rightarrow> console_read list \<Rightarrow> event list \<times> u8 list" where
  "pipe_reads lossy buffer [] = ([], buffer)"
| "pipe_reads lossy buffer (ReadFailed # reads) = pipe_reads lossy buffer reads"
| "pipe_reads lossy buffer (ReadData data # reads) =
     (if data = [] then ([], buffer)
      else (let (es, buffer) = pipe_turn lossy buffer data; (fs, buffer) = pipe_reads lossy buffer reads in
        (es @ fs, buffer)))"

section \<open>Lemmas\<close>

lemma up_to_alt: "up_to_last_newline data = rev (dropWhile (\<lambda>b. b \<noteq> newline_byte) (rev data))"
proof -
  let ?r = "rev data"
  have "data = rev (dropWhile (\<lambda>b. b \<noteq> newline_byte) ?r) @ after_last_newline data"
    unfolding after_last_newline_def by (metis rev_append rev_rev_ident takeWhile_dropWhile_id)
  then show ?thesis
    unfolding up_to_last_newline_def by (metis add_diff_cancel_right' append_eq_conv_conj length_append)
qed

lemma newline_split: "data = up_to_last_newline data @ after_last_newline data"
  unfolding up_to_alt after_last_newline_def by (metis rev_append rev_rev_ident takeWhile_dropWhile_id)

lemma after_no_newline: "newline_byte \<notin> set (after_last_newline data)"
  by (auto simp: after_last_newline_def dest: set_takeWhileD)

lemma up_to_ends: "newline_byte \<in> set data \<Longrightarrow> up_to_last_newline data \<noteq> [] \<and> last (up_to_last_newline data) = newline_byte"
proof -
  assume nl: "newline_byte \<in> set data"
  then have "dropWhile (\<lambda>b. b \<noteq> newline_byte) (rev data) \<noteq> []" by (simp add: dropWhile_eq_Nil_conv)
  then show ?thesis using hd_dropWhile [of "\<lambda>b. b \<noteq> newline_byte" "rev data"]
    by (simp add: up_to_alt last_rev)
qed

lemma buffered_write_keeps:
  assumes "buffered_write buffer data = (out, rest)" "length buffer \<le> line_capacity"
  shows "out @ rest = buffer @ data \<and> length rest \<le> line_capacity
    \<and> (newline_byte \<notin> set buffer \<longrightarrow> newline_byte \<notin> set data \<longrightarrow> newline_byte \<notin> set rest)"
proof (cases "\<not> line_capacity - length buffer < length data \<and> line_capacity \<le> length data")
  case True
  then have "length buffer = 0" using assms(2) unfolding line_capacity_def by linarith
  with True assms show ?thesis by (auto simp: buffered_write_def Let_def split: if_splits)
next
  case False
  with assms show ?thesis by (auto simp: buffered_write_def Let_def split: if_splits)
qed

lemma line_write_keeps:
  assumes "line_write buffer data = (out, rest)" "length buffer \<le> line_capacity" "newline_byte \<notin> set buffer"
    and "length data \<le> line_capacity"
  shows "out @ rest = buffer @ data \<and> length rest \<le> line_capacity \<and> newline_byte \<notin> set rest"
proof (cases "newline_byte \<in> set data")
  case True
  have "length (after_last_newline data) \<le> line_capacity"
    using assms(4) newline_split [of data] by (metis le_add2 length_append le_trans)
  with True assms(1) newline_split [of data] after_no_newline [of data] show ?thesis
    by (auto simp: line_write_def)
next
  case False
  with assms have "buffered_write buffer data = (out, rest)"
    by (auto simp: line_write_def split: if_splits dest: last_in_set)
  with buffered_write_keeps [OF this] assms False show ?thesis by blast
qed

text \<open>What was read, up to the end of the stream.\<close>

fun data_read :: "console_read list \<Rightarrow> u8 list list" where
  "data_read [] = []"
| "data_read (ReadFailed # reads) = data_read reads"
| "data_read (ReadData data # reads) = (if data = [] then [] else data # data_read reads)"

text \<open>
  C25 (console output is passed on).  Whatever LLDB writes to its console, in whatever pieces it arrives, the client
  gets all of it, in order, up to an unfinished last line: that line has no newline, it fits the buffer, and
  what is kept is what has not been sent.
\<close>

theorem console_passed_on:
  assumes "pipe_reads lossy buffer reads = (es, rest)" "length buffer \<le> line_capacity" "newline_byte \<notin> set buffer"
    and "\<forall>data\<in>set (data_read reads). length data \<le> line_capacity"
  shows "\<exists>outs. es = map (\<lambda>out. Ev_output (Some ''console'') (lossy out)) outs \<and> [] \<notin> set outs
    \<and> concat outs @ rest = buffer @ concat (data_read reads)
    \<and> newline_byte \<notin> set rest \<and> length rest \<le> line_capacity"
  using assms
proof (induction lossy buffer reads arbitrary: es rule: pipe_reads.induct)
  case (1 lossy buffer)
  then show ?case by (auto intro: exI [of _ "[]"])
next
  case (2 lossy buffer reads)
  then show ?case by simp
next
  case (3 lossy buffer data reads)
  show ?case
  proof (cases "data = []")
    case True
    with 3(2-) show ?thesis by (auto intro: exI [of _ "[]"])
  next
    case False
    obtain out buffer' where w: "line_write buffer data = (out, buffer')" by fastforce
    let ?first = "if out \<noteq> [] then [out] else []"
    have turn: "pipe_turn lossy buffer data = (map (\<lambda>out. Ev_output (Some ''console'') (lossy out)) ?first, buffer')"
      by (simp add: pipe_turn_def w)
    from False 3(5) have "length data \<le> line_capacity" by simp
    note kept = line_write_keeps [OF w 3(3,4) this]
    obtain fs where fs: "pipe_reads lossy buffer' reads = (fs, rest)"
      and es: "es = map (\<lambda>out. Ev_output (Some ''console'') (lossy out)) ?first @ fs"
      using 3(2) False turn by (auto split: prod.splits)
    from 3(1) [OF False turn [symmetric] refl fs] kept 3(5) False
    obtain outs where "fs = map (\<lambda>out. Ev_output (Some ''console'') (lossy out)) outs" "[] \<notin> set outs"
      "concat outs @ rest = buffer' @ concat (data_read reads)" "newline_byte \<notin> set rest" "length rest \<le> line_capacity"
      by auto
    moreover have "out @ buffer' @ more = buffer @ data @ more" for more using kept by (metis append_assoc)
    ultimately show ?thesis using es False by (intro exI [of _ "?first @ outs"]) auto
  qed
qed

theorem console_passed_on_witness:
  "\<exists>es (outs :: u8 list list). pipe_reads (map (char_of \<circ> unat)) [] [ReadData [104, 105], ReadData [10, 111], ReadFailed] = (es, [111])
     \<and> es = map (\<lambda>out. Ev_output (Some ''console'') (map (char_of \<circ> unat) out)) outs \<and> concat outs = [104, 105, 10]"
proof -
  obtain es where run: "pipe_reads (map (char_of \<circ> unat)) [] [ReadData [104, 105], ReadData [10, 111], ReadFailed] = (es, [111])"
    by (simp add: pipe_turn_def line_write_def buffered_write_def newline_byte_def line_capacity_def
        up_to_last_newline_def after_last_newline_def)
  have "\<exists>outs. es = map (\<lambda>out. Ev_output (Some ''console'') ((map (char_of \<circ> unat)) out)) outs \<and> [] \<notin> set outs
    \<and> concat outs @ [111] = [] @ concat (data_read [ReadData [104, 105], ReadData [10, 111], ReadFailed])
    \<and> newline_byte \<notin> set [111] \<and> length [111 :: u8] \<le> line_capacity"
    by (rule console_passed_on [OF run]) (simp_all add: line_capacity_def)
  then obtain outs :: "u8 list list" where
    outs: "es = map (\<lambda>out. Ev_output (Some ''console'') (map (char_of \<circ> unat) out)) outs"
    "concat outs @ [111] = [104, 105, 10] @ [111 :: u8]" by auto
  from outs(2) have "concat outs = [104, 105, 10]" by (simp only: append_same_eq)
  with run outs(1) show ?thesis by (intro exI [of _ es] exI [of _ outs] conjI)
qed

text \<open>The unfinished last line is never sent: the loop ends with it in the buffer.\<close>

lemma last_line_lost: "pipe_reads lossy [] [ReadData [111], ReadData []] = ([], [111])"
  by (simp add: pipe_turn_def line_write_def buffered_write_def newline_byte_def line_capacity_def)

end
