(* ===== verification/Nom_Parsers.thy ===== *)
theory Nom_Parsers
  imports Hit_Condition "HOL-Library.Sublist"
begin

text \<open>
  What the preprocessors of expressions (\<open>src/codelldb/src/expressions/\<close>) are put together from.  As in
  \<open>Hit_Condition\<close>, the primitives of the \<open>nom\<close> library are parameters, and the combinators the code uses
  are the control flow they stand for.
\<close>

section \<open>Parsers\<close>

text \<open>
  A parser returns the rest of its input with what it made of the part before, or an error with the input
  from where it failed.  \<open>NomError\<close> lets other alternatives be tried, \<open>NomFailure\<close> does not
  (\<open>nom::Err::Error\<close> and \<open>nom::Err::Failure\<close>).
\<close>

datatype nom_error = NomError string | NomFailure string

type_synonym 'a parser = "string \<Rightarrow> (nom_error, string \<times> 'a) res"

definition primitive :: "(string \<Rightarrow> (string \<times> 'a) option) \<Rightarrow> 'a parser" where
  "primitive f input = ok_or (f input) (NomError input)"

definition mapped :: "('a \<Rightarrow> 'b) \<Rightarrow> 'a parser \<Rightarrow> 'b parser" where
  "mapped f p input = map_res (\<lambda>(rest, x). (rest, f x)) (p input)"

definition followed :: "'a parser \<Rightarrow> ('a \<Rightarrow> 'b parser) \<Rightarrow> 'b parser" where
  "followed p q input = bind_res (p input) (\<lambda>(rest, x). q x rest)"

definition yields_value :: "'a \<Rightarrow> 'a parser" where
  "yields_value x input = Ok (input, x)"

definition paired :: "'a parser \<Rightarrow> 'b parser \<Rightarrow> ('a \<times> 'b) parser" where
  "paired p q = followed p (\<lambda>x. mapped (Pair x) q)"

definition preceded :: "'a parser \<Rightarrow> 'b parser \<Rightarrow> 'b parser" where
  "preceded p q = followed p (\<lambda>_. q)"

definition terminated :: "'a parser \<Rightarrow> 'b parser \<Rightarrow> 'a parser" where
  "terminated p q = followed p (\<lambda>x. mapped (\<lambda>_. x) q)"

definition delimited :: "'a parser \<Rightarrow> 'b parser \<Rightarrow> 'c parser \<Rightarrow> 'b parser" where
  "delimited p q r = preceded p (terminated q r)"

definition optional :: "'a parser \<Rightarrow> 'a option parser" where
  "optional p input =
     (case p input of Err (NomError _) \<Rightarrow> Ok (input, None) | r \<Rightarrow> map_res (\<lambda>(rest, x). (rest, Some x)) r)"

text \<open>\<open>alt\<close>: the error is that of the last alternative.\<close>

definition either_of :: "'a parser \<Rightarrow> 'a parser \<Rightarrow> 'a parser" where
  "either_of p q input = (case p input of Err (NomError _) \<Rightarrow> q input | r \<Rightarrow> r)"

fun any_of :: "'a parser \<Rightarrow> 'a parser list \<Rightarrow> 'a parser" where
  "any_of p [] = p"
| "any_of p (q # qs) = either_of p (any_of q qs)"

definition recognized :: "'a parser \<Rightarrow> string parser" where
  "recognized p input = map_res (\<lambda>(rest, x). (rest, take (length input - length rest) input)) (p input)"

definition verified :: "'a parser \<Rightarrow> ('a \<Rightarrow> bool) \<Rightarrow> 'a parser" where
  "verified p ok input = bind_res (p input) (\<lambda>(rest, x). if ok x then Ok (rest, x) else Err (NomError input))"

definition not_followed :: "'a parser \<Rightarrow> unit parser" where
  "not_followed p input =
     (case p input of
        Ok _ \<Rightarrow> Err (NomError input)
      | Err (NomError _) \<Rightarrow> Ok (input, ())
      | Err (NomFailure e) \<Rightarrow> Err (NomFailure e)
      | Panic \<Rightarrow> Panic)"

text \<open>\<open>many0\<close> and its counting and folding variants: a parser that takes nothing is an error.\<close>

function many0 :: "'a parser \<Rightarrow> 'a list parser" where
  "many0 p input =
     (case p input of
        Ok (rest, x) \<Rightarrow>
          if length rest < length input then map_res (\<lambda>(rest, xs). (rest, x # xs)) (many0 p rest)
          else Err (NomError input)
      | Err (NomError _) \<Rightarrow> Ok (input, [])
      | Err (NomFailure e) \<Rightarrow> Err (NomFailure e)
      | Panic \<Rightarrow> Panic)"
  by pat_completeness auto
termination by (relation "measure (\<lambda>(p, input). length input)") auto

declare many0.simps [simp del]

definition many1 :: "'a parser \<Rightarrow> 'a list parser" where
  "many1 p = followed p (\<lambda>x. mapped (Cons x) (many0 p))"

text \<open>
  The elements after the first of a separated list: a separator that is not followed by an element is not
  taken.
\<close>

function separated_rest :: "'s parser \<Rightarrow> 'a parser \<Rightarrow> 'a list parser" where
  "separated_rest s p input =
     (case preceded s p input of
        Ok (rest, x) \<Rightarrow>
          if length rest < length input then map_res (\<lambda>(rest, xs). (rest, x # xs)) (separated_rest s p rest)
          else Err (NomError input)
      | Err (NomError _) \<Rightarrow> Ok (input, [])
      | Err (NomFailure e) \<Rightarrow> Err (NomFailure e)
      | Panic \<Rightarrow> Panic)"
  by pat_completeness auto
termination by (relation "measure (\<lambda>(s, p, input). length input)") auto

declare separated_rest.simps [simp del]

definition separated_list1 :: "'s parser \<Rightarrow> 'a parser \<Rightarrow> 'a list parser" where
  "separated_list1 s p = followed p (\<lambda>x. mapped (Cons x) (separated_rest s p))"

definition separated_list0 :: "'s parser \<Rightarrow> 'a parser \<Rightarrow> 'a list parser" where
  "separated_list0 s p input =
     (case p input of Err (NomError _) \<Rightarrow> Ok (input, []) | _ \<Rightarrow> separated_list1 s p input)"

section \<open>Primitives\<close>

text \<open>
  The further primitives the preprocessors use.  \<open>precedence\<close> of \<open>nom_language\<close> takes the parsers of prefix,
  postfix and binary operators, that of operands, and a function that applies an operation to its operands.
\<close>

datatype assoc = LeftAssoc | RightAssoc

datatype ('p, 'q, 'b, 'o) operation = PrefixOp 'p 'o | BinaryOp 'o 'b 'o | PostfixOp 'o 'q

type_synonym fold = "(string, string \<times> string, string, string) operation \<Rightarrow> (string, string) res"

record nom_text = nom +
  nom_none_of :: "string \<Rightarrow> string \<Rightarrow> (string \<times> string) option"
  nom_one_of :: "string \<Rightarrow> string \<Rightarrow> (string \<times> string) option"
  nom_is_not :: "string \<Rightarrow> string \<Rightarrow> (string \<times> string) option"
  nom_alpha1 :: "string \<Rightarrow> (string \<times> string) option"
  nom_alphanumeric1 :: "string \<Rightarrow> (string \<times> string) option"
  nom_hex_digit1 :: "string \<Rightarrow> (string \<times> string) option"
  nom_recognize_float :: "string parser"
  nom_precedence :: "(nat \<times> string) parser \<Rightarrow> (nat \<times> string \<times> string) parser \<Rightarrow> (nat \<times> assoc \<times> string) parser \<Rightarrow>
    string parser \<Rightarrow> fold \<Rightarrow> string parser"

definition tagged :: "nom_text \<Rightarrow> string \<Rightarrow> string parser" where
  "tagged n t = primitive (\<lambda>input. map_option (\<lambda>rest. (rest, t)) (nom_tag n t input))"

definition char_is :: "nom_text \<Rightarrow> char \<Rightarrow> string parser" where
  "char_is n c = primitive (\<lambda>input. map_option (\<lambda>rest. (rest, [c])) (nom_char n c input))"

definition space0 :: "nom_text \<Rightarrow> unit parser" where
  "space0 n input = Ok (nom_space0 n input, ())"

text \<open>\<open>ws\<close> of \<open>expressions/mod.rs\<close>: blanks around it do not matter.\<close>

definition ws :: "nom_text \<Rightarrow> 'a parser \<Rightarrow> 'a parser" where
  "ws n p = delimited (space0 n) p (space0 n)"

section \<open>Parsers read a part of their input\<close>

named_theorems reading \<open>parsers whose rest is a suffix of the input\<close>

definition reads_part :: "'a parser \<Rightarrow> bool" where
  "reads_part p \<longleftrightarrow> (\<forall>input rest x. p input = Ok (rest, x) \<longrightarrow> suffix rest input)"

lemma reads_partI: "(\<And>input rest x. p input = Ok (rest, x) \<Longrightarrow> suffix rest input) \<Longrightarrow> reads_part p"
  by (simp add: reads_part_def)

lemma reads_partD: "reads_part p \<Longrightarrow> p input = Ok (rest, x) \<Longrightarrow> suffix rest input"
  by (simp add: reads_part_def)

lemma reads_part_length: "reads_part p \<Longrightarrow> p input = Ok (rest, x) \<Longrightarrow> length rest \<le> length input"
  by (simp add: reads_partD suffix_length_le)

lemma mapped_Ok: "mapped f p input = Ok (rest, y) \<longleftrightarrow> (\<exists>x. p input = Ok (rest, x) \<and> y = f x)"
  by (auto simp: mapped_def map_res_eq_Ok)

lemma followed_Ok: "followed p q input = Ok (rest, y) \<longleftrightarrow> (\<exists>mid x. p input = Ok (mid, x) \<and> q x mid = Ok (rest, y))"
  by (auto simp: followed_def bind_res_eq_Ok)

lemma either_of_Ok: "either_of p q input = Ok r \<longleftrightarrow> p input = Ok r \<or> (\<exists>e. p input = Err (NomError e)) \<and> q input = Ok r"
  by (auto simp: either_of_def split: res.splits nom_error.splits)

lemma optional_Ok:
  "optional p input = Ok (rest, y) \<longleftrightarrow>
     (\<exists>x. p input = Ok (rest, x) \<and> y = Some x) \<or> (\<exists>e. p input = Err (NomError e)) \<and> rest = input \<and> y = None"
  by (auto simp: optional_def split: res.splits nom_error.splits)

lemma recognized_Ok:
  "recognized p input = Ok (rest, t) \<longleftrightarrow> (\<exists>x. p input = Ok (rest, x)) \<and> t = take (length input - length rest) input"
  by (auto simp: recognized_def map_res_eq_Ok)

lemma verified_Ok: "verified p ok input = Ok (rest, x) \<longleftrightarrow> p input = Ok (rest, x) \<and> ok x"
  by (auto simp: verified_def bind_res_eq_Ok)

lemma not_followed_Ok: "not_followed p input = Ok (rest, u) \<longleftrightarrow> rest = input \<and> (\<exists>e. p input = Err (NomError e))"
  by (auto simp: not_followed_def split: res.splits nom_error.splits)

lemma primitive_Ok: "primitive f input = Ok (rest, x) \<longleftrightarrow> f input = Some (rest, x)"
  by (simp add: primitive_def ok_or_eq_Ok)

lemmas parser_Ok = mapped_Ok followed_Ok either_of_Ok optional_Ok verified_Ok not_followed_Ok primitive_Ok

text \<open>What \<open>recognized\<close> returns is the part that was read.\<close>

lemma recognized_part:
  assumes "reads_part p" "recognized p input = Ok (rest, t)"
  shows "input = t @ rest"
  using assms by (auto simp: recognized_Ok suffix_def dest!: reads_partD)

lemma reads_mapped [reading]: "reads_part p \<Longrightarrow> reads_part (mapped f p)"
  by (auto simp: reads_part_def mapped_Ok)

lemma reads_followed [reading]: "reads_part p \<Longrightarrow> (\<And>x. reads_part (q x)) \<Longrightarrow> reads_part (followed p q)"
  unfolding reads_part_def followed_Ok by (meson suffix_order.order_trans)

lemma reads_yields_value [reading]: "reads_part (yields_value x)"
  by (simp add: reads_part_def yields_value_def)

lemma reads_paired [reading]: "reads_part p \<Longrightarrow> reads_part q \<Longrightarrow> reads_part (paired p q)"
  unfolding paired_def by (intro reading)

lemma reads_preceded [reading]: "reads_part p \<Longrightarrow> reads_part q \<Longrightarrow> reads_part (preceded p q)"
  unfolding preceded_def by (intro reading)

lemma reads_terminated [reading]: "reads_part p \<Longrightarrow> reads_part q \<Longrightarrow> reads_part (terminated p q)"
  unfolding terminated_def by (intro reading)

lemma reads_delimited [reading]: "reads_part p \<Longrightarrow> reads_part q \<Longrightarrow> reads_part r \<Longrightarrow> reads_part (delimited p q r)"
  unfolding delimited_def by (intro reading)

lemma reads_optional [reading]: "reads_part p \<Longrightarrow> reads_part (optional p)"
  by (auto simp: reads_part_def optional_Ok)

lemma reads_either_of [reading]: "reads_part p \<Longrightarrow> reads_part q \<Longrightarrow> reads_part (either_of p q)"
  by (auto simp: reads_part_def either_of_Ok)

lemma reads_any_of [reading]: "reads_part p \<Longrightarrow> (\<And>q. q \<in> set qs \<Longrightarrow> reads_part q) \<Longrightarrow> reads_part (any_of p qs)"
proof (induction p qs rule: any_of.induct)
  case (2 p q qs)
  have "reads_part (any_of q qs)" by (rule 2(1)) (simp_all add: 2(3))
  then show ?case by (simp add: reads_either_of 2(2))
qed simp

lemma reads_recognized [reading]: "reads_part p \<Longrightarrow> reads_part (recognized p)"
  by (auto simp: reads_part_def recognized_Ok)

lemma reads_verified [reading]: "reads_part p \<Longrightarrow> reads_part (verified p ok)"
  by (auto simp: reads_part_def verified_Ok)

lemma reads_not_followed [reading]: "reads_part (not_followed p)"
  by (auto simp: reads_part_def not_followed_Ok)

lemma reads_many0 [reading]:
  assumes "reads_part p"
  shows "reads_part (many0 p)"
proof (rule reads_partI)
  fix input rest and xs :: "'a list"
  show "many0 p input = Ok (rest, xs) \<Longrightarrow> suffix rest input"
  proof (induction "length input" arbitrary: input xs rule: less_induct)
    case less
    from less(2) show ?case
      apply (subst (asm) many0.simps)
      apply (auto split: res.splits nom_error.splits if_splits simp: map_res_eq_Ok)
      using less(1) reads_partD [OF assms] suffix_order.order_trans by blast
  qed
qed

lemma reads_many1 [reading]: "reads_part p \<Longrightarrow> reads_part (many1 p)"
  unfolding many1_def by (intro reading)

lemma reads_separated_rest [reading]:
  assumes "reads_part s" "reads_part p"
  shows "reads_part (separated_rest s p)"
proof (rule reads_partI)
  fix input rest and xs :: "'b list"
  have sp: "reads_part (preceded s p)" using assms by (rule reads_preceded)
  show "separated_rest s p input = Ok (rest, xs) \<Longrightarrow> suffix rest input"
  proof (induction "length input" arbitrary: input xs rule: less_induct)
    case less
    from less(2) show ?case
      apply (subst (asm) separated_rest.simps)
      apply (auto split: res.splits nom_error.splits if_splits simp: map_res_eq_Ok)
      using less(1) reads_partD [OF sp] suffix_order.order_trans by blast
  qed
qed

lemma reads_separated_list1 [reading]: "reads_part s \<Longrightarrow> reads_part p \<Longrightarrow> reads_part (separated_list1 s p)"
  unfolding separated_list1_def by (intro reading)

lemma reads_separated_list0 [reading]:
  assumes "reads_part s" "reads_part p"
  shows "reads_part (separated_list0 s p)"
proof (rule reads_partI)
  fix input rest and xs :: "'b list"
  assume "separated_list0 s p input = Ok (rest, xs)"
  with reads_separated_list1 [OF assms] show "suffix rest input"
    by (auto simp: separated_list0_def reads_part_def split: res.splits nom_error.splits)
qed

section \<open>Parsers that agree on short inputs\<close>

text \<open>
  The parsers of the preprocessors are recursive, but only on shorter inputs.  \<open>shorter input p\<close> is \<open>p\<close> there.
\<close>

named_theorems agreeing \<open>combinators of parsers that agree agree\<close>

definition shorter :: "string \<Rightarrow> 'a parser \<Rightarrow> 'a parser" where
  "shorter input p input' = (if length input' < length input then p input' else Err (NomError input'))"

lemma shorter_cong [fundef_cong]:
  "input = input' \<Longrightarrow> (\<And>i. length i < length input' \<Longrightarrow> p i = q i) \<Longrightarrow> shorter input p = shorter input' q"
  by (simp add: shorter_def fun_eq_iff)

definition agree :: "nat \<Rightarrow> 'a parser \<Rightarrow> 'a parser \<Rightarrow> bool" where
  "agree k p q \<longleftrightarrow> (\<forall>input. length input < k \<longrightarrow> p input = q input)"

lemma agree_refl: "agree k p p"
  by (simp add: agree_def)

lemma agree_shorter: "agree (length input) (shorter input p) p"
  by (simp add: agree_def shorter_def)

lemma agree_mono: "agree k p q \<Longrightarrow> j \<le> k \<Longrightarrow> agree j p q"
  by (simp add: agree_def)

lemma agreeD: "agree k p q \<Longrightarrow> length input < k \<Longrightarrow> p input = q input"
  by (simp add: agree_def)

lemma agree_mapped [agreeing]: "agree k p q \<Longrightarrow> agree k (mapped f p) (mapped f q)"
  by (simp add: agree_def mapped_def)

text \<open>What comes after a parser that takes at least \<open>d\<close> bytes need agree on inputs shorter by as much.\<close>

definition takes :: "nat \<Rightarrow> 'a parser \<Rightarrow> bool" where
  "takes d p \<longleftrightarrow> (\<forall>input rest x. p input = Ok (rest, x) \<longrightarrow> length rest + d \<le> length input)"

lemma reads_takes: "reads_part p \<Longrightarrow> takes 0 p"
  by (simp add: takes_def reads_part_length)

lemma agree_followed_after:
  assumes "agree k p p'" "takes d p" "\<And>x. agree (k - d) (q x) (q' x)"
  shows "agree k (followed p q) (followed p' q')"
  unfolding agree_def
proof (intro allI impI)
  fix input :: string
  assume short: "length input < k"
  have "q x rest = q' x rest" if "p input = Ok (rest, x)" for rest x
  proof (rule agreeD [OF assms(3)])
    from assms(2) that have "length rest + d \<le> length input" unfolding takes_def by blast
    with short show "length rest < k - d" by linarith
  qed
  with agreeD [OF assms(1) short] show "followed p q input = followed p' q' input"
    by (cases "p' input") (auto simp: followed_def res_simps)
qed

lemma agree_followed [agreeing]:
  "agree k p p' \<Longrightarrow> reads_part p \<Longrightarrow> (\<And>x. agree k (q x) (q' x)) \<Longrightarrow> agree k (followed p q) (followed p' q')"
  by (rule agree_followed_after [where d = 0]) (simp_all add: reads_takes)

lemma agree_paired [agreeing]:
  "agree k p p' \<Longrightarrow> reads_part p \<Longrightarrow> agree k q q' \<Longrightarrow> agree k (paired p q) (paired p' q')"
  unfolding paired_def by (intro agreeing)

lemma agree_preceded [agreeing]:
  "agree k p p' \<Longrightarrow> reads_part p \<Longrightarrow> agree k q q' \<Longrightarrow> agree k (preceded p q) (preceded p' q')"
  unfolding preceded_def by (intro agreeing)

lemma agree_terminated [agreeing]:
  "agree k p p' \<Longrightarrow> reads_part p \<Longrightarrow> agree k q q' \<Longrightarrow> agree k (terminated p q) (terminated p' q')"
  unfolding terminated_def by (intro agreeing)

lemma agree_delimited [agreeing]:
  "agree k p p' \<Longrightarrow> reads_part p \<Longrightarrow> agree k q q' \<Longrightarrow> reads_part q \<Longrightarrow> agree k r r' \<Longrightarrow>
     agree k (delimited p q r) (delimited p' q' r')"
  unfolding delimited_def by (intro agreeing)

text \<open>An opening bracket makes what follows shorter.\<close>

lemma agree_bracketed:
  assumes "agree k q q'" "takes 1 p" "reads_part q"
  shows "agree (Suc k) (delimited p q r) (delimited p q' r)"
  unfolding delimited_def preceded_def
  by (rule agree_followed_after [where d = 1]) (use assms in \<open>simp_all add: agree_refl agree_terminated\<close>)

lemma agree_optional [agreeing]: "agree k p q \<Longrightarrow> agree k (optional p) (optional q)"
  by (simp add: agree_def optional_def)

lemma agree_either_of [agreeing]: "agree k p p' \<Longrightarrow> agree k q q' \<Longrightarrow> agree k (either_of p q) (either_of p' q')"
  by (auto simp: agree_def either_of_def split: res.split nom_error.split)

lemma agree_recognized [agreeing]: "agree k p q \<Longrightarrow> agree k (recognized p) (recognized q)"
  by (simp add: agree_def recognized_def)

lemma agree_separated_rest [agreeing]:
  assumes "agree k p p'" "reads_part s"
  shows "agree k (separated_rest s p) (separated_rest s p')"
proof -
  have sp: "agree k (preceded s p) (preceded s p')" using assms by (intro agree_preceded agree_refl)
  have "length input < k \<Longrightarrow> separated_rest s p input = separated_rest s p' input" for input
  proof (induction "length input" arbitrary: input rule: less_induct)
    case less
    have "separated_rest s p rest = separated_rest s p' rest" if "length rest < length input" for rest
      using less that by simp
    with agreeD [OF sp less(2)] show ?case
      by (subst (1 2) separated_rest.simps) (auto split: res.splits nom_error.splits)
  qed
  then show ?thesis by (simp add: agree_def)
qed

lemma agree_separated_list1 [agreeing]:
  "agree k p p' \<Longrightarrow> reads_part s \<Longrightarrow> reads_part p \<Longrightarrow> agree k (separated_list1 s p) (separated_list1 s p')"
  unfolding separated_list1_def by (intro agreeing)

lemma agree_separated_list0 [agreeing]:
  assumes "agree k p p'" "reads_part s" "reads_part p"
  shows "agree k (separated_list0 s p) (separated_list0 s p')"
  using assms(1) agree_separated_list1 [OF assms] by (auto simp: agree_def separated_list0_def split: res.split nom_error.split)

section \<open>The documented behaviour of the primitives\<close>

definition takes_while1 :: "(char \<Rightarrow> bool) \<Rightarrow> string \<Rightarrow> (string \<times> string) option" where
  "takes_while1 P s = (if takeWhile P s = [] then None else Some (dropWhile P s, takeWhile P s))"

definition is_ascii :: "char \<Rightarrow> bool" where
  "is_ascii c \<longleftrightarrow> (of_char c :: nat) < 128"

definition is_hex :: "char \<Rightarrow> bool" where
  "is_hex c = (let n = of_char c :: nat in is_digit c \<or> 65 \<le> n \<and> n \<le> 70 \<or> 97 \<le> n \<and> n \<le> 102)"

text \<open>
  The text of a floating point number: an optional sign, digits with an optional point among or around them, and an
  optional exponent.
\<close>

definition digits :: "(char \<Rightarrow> bool) \<Rightarrow> string \<Rightarrow> bool" where
  "digits P s \<longleftrightarrow> s \<noteq> [] \<and> list_all P s"

definition sign_text :: "string \<Rightarrow> bool" where
  "sign_text s \<longleftrightarrow> s \<in> {[], ''+'', ''-''}"

definition mantissa_text :: "string \<Rightarrow> bool" where
  "mantissa_text s \<longleftrightarrow> digits is_digit s
     \<or> (\<exists>a b. s = a @ CHR ''.'' # b \<and> list_all is_digit (a @ b) \<and> a @ b \<noteq> [])"

definition exponent_text :: "string \<Rightarrow> bool" where
  "exponent_text s \<longleftrightarrow> s = [] \<or> (\<exists>e sign d. s = e # sign @ d \<and> e \<in> {CHR ''e'', CHR ''E''} \<and> sign_text sign \<and> digits is_digit d)"

definition float_text :: "string \<Rightarrow> bool" where
  "float_text s \<longleftrightarrow> (\<exists>sign m e. s = sign @ m @ e \<and> sign_text sign \<and> mantissa_text m \<and> exponent_text e)"

text \<open>A sequence of operators and operands, and what an expression tree over it is evaluated to.\<close>

datatype token =
    PrefixToken nat string
  | OperandToken string
  | BinaryToken nat assoc string
  | PostfixToken nat string string

inductive token_sequence ::
  "(nat \<times> string) parser \<Rightarrow> (nat \<times> string \<times> string) parser \<Rightarrow> (nat \<times> assoc \<times> string) parser \<Rightarrow> string parser \<Rightarrow>
     string \<Rightarrow> token list \<Rightarrow> string \<Rightarrow> bool"
  for prefix postfix binary operand where
  no_token: "token_sequence prefix postfix binary operand input [] input"
| prefix_token: "prefix input = Ok (mid, (k, op)) \<Longrightarrow> token_sequence prefix postfix binary operand mid ts rest \<Longrightarrow>
    token_sequence prefix postfix binary operand input (PrefixToken k op # ts) rest"
| operand_token: "operand input = Ok (mid, t) \<Longrightarrow> token_sequence prefix postfix binary operand mid ts rest \<Longrightarrow>
    token_sequence prefix postfix binary operand input (OperandToken t # ts) rest"
| binary_token: "binary input = Ok (mid, (k, a, op)) \<Longrightarrow> token_sequence prefix postfix binary operand mid ts rest \<Longrightarrow>
    token_sequence prefix postfix binary operand input (BinaryToken k a op # ts) rest"
| postfix_token: "postfix input = Ok (mid, (k, op, arg)) \<Longrightarrow> token_sequence prefix postfix binary operand mid ts rest \<Longrightarrow>
    token_sequence prefix postfix binary operand input (PostfixToken k op arg # ts) rest"

datatype op_tree =
    Leaf string
  | Prefixed nat string op_tree
  | Infixed op_tree nat assoc string op_tree
  | Suffixed op_tree nat string string

fun tokens_of :: "op_tree \<Rightarrow> token list" where
  "tokens_of (Leaf t) = [OperandToken t]"
| "tokens_of (Prefixed k op t) = PrefixToken k op # tokens_of t"
| "tokens_of (Infixed t k a op u) = tokens_of t @ BinaryToken k a op # tokens_of u"
| "tokens_of (Suffixed t k op arg) = tokens_of t @ [PostfixToken k op arg]"

fun fold_tree :: "fold \<Rightarrow> op_tree \<Rightarrow> (string, string) res" where
  "fold_tree f (Leaf t) = Ok t"
| "fold_tree f (Prefixed k op t) = bind_res (fold_tree f t) (\<lambda>x. f (PrefixOp op x))"
| "fold_tree f (Infixed t k a op u) = bind_res (fold_tree f t) (\<lambda>x. bind_res (fold_tree f u) (\<lambda>y. f (BinaryOp x op y)))"
| "fold_tree f (Suffixed t k op arg) = bind_res (fold_tree f t) (\<lambda>x. f (PostfixOp x (op, arg)))"

text \<open>
  How operators group: one with a lower number binds more tightly, and binary operators with the same number
  associate to the left or to the right.
\<close>

fun infix_within :: "nat \<Rightarrow> op_tree \<Rightarrow> bool" where
  "infix_within k (Infixed _ j _ _ _) = (j \<le> k)"
| "infix_within k _ = True"

fun within :: "nat \<Rightarrow> op_tree \<Rightarrow> bool" where
  "within k (Infixed _ j _ _ _) = (j \<le> k)"
| "within k (Prefixed j _ _) = (j \<le> k)"
| "within k _ = True"

fun left_within :: "nat \<Rightarrow> assoc \<Rightarrow> op_tree \<Rightarrow> bool" where
  "left_within k a (Infixed _ j _ _ _) = (j < k \<or> j = k \<and> a = LeftAssoc)"
| "left_within k a _ = True"

fun right_within :: "nat \<Rightarrow> op_tree \<Rightarrow> bool" where
  "right_within k (Infixed _ j b _ _) = (j < k \<or> j = k \<and> b = RightAssoc)"
| "right_within k _ = True"

fun grouped_tree :: "op_tree \<Rightarrow> bool" where
  "grouped_tree (Leaf t) = True"
| "grouped_tree (Prefixed k op t) = (grouped_tree t \<and> infix_within k t)"
| "grouped_tree (Infixed t k a op u) = (grouped_tree t \<and> grouped_tree u \<and> left_within k a t \<and> right_within k u)"
| "grouped_tree (Suffixed t k op arg) = (grouped_tree t \<and> within k t)"

definition one_level :: "(nat \<times> 'a) parser \<Rightarrow> bool" where
  "one_level p \<longleftrightarrow> (\<forall>i j r q k l x y. p i = Ok (r, (k, x)) \<longrightarrow> p j = Ok (q, (l, y)) \<longrightarrow> k = l)"

text \<open>
  \<open>precedence\<close> reads a sequence of operators and operands and returns what the tree over it is evaluated to in which
  the operators are grouped, given that the postfix operators have all the same number; what it does with an
  input depends only on what its parsers do with the rests of it.
\<close>

definition precedence_ok ::
  "((nat \<times> string) parser \<Rightarrow> (nat \<times> string \<times> string) parser \<Rightarrow> (nat \<times> assoc \<times> string) parser \<Rightarrow>
     string parser \<Rightarrow> fold \<Rightarrow> string parser) \<Rightarrow> bool" where
  "precedence_ok prec \<longleftrightarrow>
     (\<forall>prefix postfix binary operand f input rest x.
        one_level postfix \<longrightarrow> prec prefix postfix binary operand f input = Ok (rest, x) \<longrightarrow>
        (\<exists>t. token_sequence prefix postfix binary operand input (tokens_of t) rest \<and> grouped_tree t
           \<and> fold_tree f t = Ok x))
     \<and> (\<forall>prefix postfix postfix' binary operand operand' f k.
        reads_part prefix \<longrightarrow> reads_part postfix \<longrightarrow> reads_part binary \<longrightarrow> reads_part operand \<longrightarrow>
        agree k postfix postfix' \<longrightarrow> agree k operand operand' \<longrightarrow>
        agree k (prec prefix postfix binary operand f) (prec prefix postfix' binary operand' f))"

text \<open>
  Strings are UTF-8, so that a character is one byte or several that are not ASCII.  The sets of characters
  are sets of ASCII characters.
\<close>

definition nom_text_ok :: "nom_text \<Rightarrow> bool" where
  "nom_text_ok n \<longleftrightarrow>
     nom_ok (nom.truncate n)
     \<and> (\<forall>s. s \<noteq> [] \<longrightarrow> (\<exists>c r. nom_anychar n s = Some (r, c) \<and> s = c @ r \<and> c \<noteq> []
          \<and> (is_ascii (hd s) \<longrightarrow> c = [hd s]) \<and> (\<not> is_ascii (hd s) \<longrightarrow> list_all (\<lambda>x. \<not> is_ascii x) c)))
     \<and> (\<forall>d s. list_all is_ascii d \<longrightarrow> nom_none_of n d s =
          (case nom_anychar n s of Some (r, c) \<Rightarrow> if set c \<inter> set d = {} then Some (r, c) else None | None \<Rightarrow> None))
     \<and> (\<forall>d s. list_all is_ascii d \<longrightarrow> nom_one_of n d s =
          (case s of c # r \<Rightarrow> if c \<in> set d then Some (r, [c]) else None | [] \<Rightarrow> None))
     \<and> (\<forall>d s. list_all is_ascii d \<longrightarrow> nom_is_not n d s = takes_while1 (\<lambda>c. c \<notin> set d) s)
     \<and> nom_alpha1 n = takes_while1 is_letter
     \<and> nom_alphanumeric1 n = takes_while1 (\<lambda>c. is_letter c \<or> is_digit c)
     \<and> nom_hex_digit1 n = takes_while1 is_hex
     \<and> (\<forall>s r t. nom_recognize_float n s = Ok (r, t) \<longrightarrow> s = t @ r \<and> float_text t)
     \<and> (\<forall>s. nom_recognize_float n s \<noteq> Panic)"

section \<open>What the primitives read\<close>

lemma takes_while1_Some: "takes_while1 P s = Some (r, t) \<longleftrightarrow> s = t @ r \<and> t = takeWhile P s \<and> t \<noteq> []"
  unfolding takes_while1_def by (auto simp: takeWhile_dropWhile_id) (metis append_same_eq takeWhile_dropWhile_id same_append_eq)

lemma takes_while1_run: "takes_while1 P s = Some (r, t) \<Longrightarrow> s = t @ r \<and> t \<noteq> [] \<and> list_all P t"
  by (auto simp: takes_while1_def list_all_iff dest: set_takeWhileD split: if_splits)

lemma takes_until:
  "takes_while1 (\<lambda>c. c \<noteq> q) s = Some (q # rest, b) \<longleftrightarrow> s = b @ q # rest \<and> b \<noteq> [] \<and> q \<notin> set b"
proof -
  have "takeWhile (\<lambda>c. c \<noteq> q) (b @ q # rest) = b \<longleftrightarrow> q \<notin> set b"
    by (metis (mono_tags, lifting) set_takeWhileD takeWhile.simps(2) takeWhile_append2 append_Nil2)
  then show ?thesis by (auto simp: takes_while1_Some)
qed

lemma recognized_run: "recognized (primitive (takes_while1 P)) = primitive (takes_while1 P)"
proof
  fix s
  have "length s = length (takeWhile P s) + length (dropWhile P s)"
    by (metis length_append takeWhile_dropWhile_id)
  then have "take (length s - length (dropWhile P s)) s = takeWhile P s"
    by (metis add_diff_cancel_right' takeWhile_eq_take)
  then show "recognized (primitive (takes_while1 P)) s = primitive (takes_while1 P) s"
    by (simp add: recognized_def primitive_def takes_while1_def res_simps)
qed

lemma nom_tag_eq: "nom_text_ok n \<Longrightarrow> nom_tag n t s = (if starts_with s t then Some (drop (length t) s) else None)"
  by (simp add: nom_text_ok_def nom_ok_def nom.defs)

lemma nom_char_eq: "nom_text_ok n \<Longrightarrow> nom_char n c s = (case s of [] \<Rightarrow> None | x # r \<Rightarrow> if x = c then Some r else None)"
  by (simp add: nom_text_ok_def nom_ok_def nom.defs)

lemma nom_space0_eq: "nom_text_ok n \<Longrightarrow> nom_space0 n s = dropWhile is_blank s"
  by (simp add: nom_text_ok_def nom_ok_def nom.defs)

lemma nom_digit1_eq: "nom_text_ok n \<Longrightarrow> nom_digit1 n = takes_while1 is_digit"
  by (rule ext) (simp add: nom_text_ok_def nom_ok_def nom.defs takes_while1_def)

lemma nom_anychar_Nil: "nom_text_ok n \<Longrightarrow> nom_anychar n [] = None"
  by (simp add: nom_text_ok_def nom_ok_def nom.defs)

lemma nom_anychar_some:
  assumes "nom_text_ok n" "s \<noteq> []"
  obtains c r where "nom_anychar n s = Some (r, c)" "s = c @ r" "c \<noteq> []"
    "is_ascii (hd s) \<Longrightarrow> c = [hd s]" "\<not> is_ascii (hd s) \<Longrightarrow> list_all (\<lambda>x. \<not> is_ascii x) c"
proof -
  from assms have "\<exists>c r. nom_anychar n s = Some (r, c) \<and> s = c @ r \<and> c \<noteq> []
      \<and> (is_ascii (hd s) \<longrightarrow> c = [hd s]) \<and> (\<not> is_ascii (hd s) \<longrightarrow> list_all (\<lambda>x. \<not> is_ascii x) c)"
    unfolding nom_text_ok_def by blast
  then show thesis using that by blast
qed

lemma tagged_Ok: "nom_text_ok n \<Longrightarrow> tagged n t input = Ok (rest, x) \<longleftrightarrow> input = t @ rest \<and> x = t"
  by (auto simp: tagged_def primitive_Ok nom_tag_eq starts_with_iff)

lemma char_is_Ok: "nom_text_ok n \<Longrightarrow> char_is n c input = Ok (rest, x) \<longleftrightarrow> input = c # rest \<and> x = [c]"
  by (auto simp: char_is_def primitive_Ok nom_char_eq split: list.split)

lemma space0_Ok: "nom_text_ok n \<Longrightarrow> space0 n input = Ok (rest, x) \<longleftrightarrow> rest = dropWhile is_blank input"
  by (auto simp: space0_def nom_space0_eq)

lemma reads_tagged [reading]: "nom_text_ok n \<Longrightarrow> reads_part (tagged n t)"
  by (auto simp: reads_part_def tagged_Ok suffix_def)

lemma reads_char_is [reading]: "nom_text_ok n \<Longrightarrow> reads_part (char_is n c)"
  by (auto simp: reads_part_def char_is_Ok suffix_def)

lemma reads_space0 [reading]: "nom_text_ok n \<Longrightarrow> reads_part (space0 n)"
  by (auto simp: reads_part_def space0_Ok suffix_dropWhile)

lemma reads_ws [reading]: "nom_text_ok n \<Longrightarrow> reads_part p \<Longrightarrow> reads_part (ws n p)"
  unfolding ws_def by (intro reading)

lemma agree_ws [agreeing]: "nom_text_ok n \<Longrightarrow> agree k p q \<Longrightarrow> reads_part p \<Longrightarrow> agree k (ws n p) (ws n q)"
  unfolding ws_def by (intro agreeing agree_refl reading)

lemma takes_tagged: "nom_text_ok n \<Longrightarrow> takes (length t) (tagged n t)"
  by (auto simp: takes_def tagged_Ok)

lemma reads_takes_while1 [reading]: "reads_part (primitive (takes_while1 P))"
  by (auto simp: reads_part_def primitive_Ok takes_while1_def suffix_dropWhile split: if_splits)

lemma nom_runs:
  assumes "nom_text_ok n"
  shows "nom_alpha1 n = takes_while1 is_letter" "nom_alphanumeric1 n = takes_while1 (\<lambda>c. is_letter c \<or> is_digit c)"
    "nom_hex_digit1 n = takes_while1 is_hex"
  using assms unfolding nom_text_ok_def by blast+

lemma reads_alpha1 [reading]: "nom_text_ok n \<Longrightarrow> reads_part (primitive (nom_alpha1 n))"
  by (simp add: nom_runs reads_takes_while1)

lemma reads_alphanumeric1 [reading]: "nom_text_ok n \<Longrightarrow> reads_part (primitive (nom_alphanumeric1 n))"
  by (simp add: nom_runs reads_takes_while1)

lemma reads_hex_digit1 [reading]: "nom_text_ok n \<Longrightarrow> reads_part (primitive (nom_hex_digit1 n))"
  by (simp add: nom_runs reads_takes_while1)

lemma reads_digit1 [reading]: "nom_text_ok n \<Longrightarrow> reads_part (primitive (nom_digit1 n))"
  by (simp add: nom_digit1_eq reads_takes_while1)

lemma reads_anychar [reading]:
  assumes "nom_text_ok n"
  shows "reads_part (primitive (nom_anychar n))"
proof (rule reads_partI)
  fix input rest x
  assume "primitive (nom_anychar n) input = Ok (rest, x)"
  then have some: "nom_anychar n input = Some (rest, x)" by (simp add: primitive_Ok)
  then have "input \<noteq> []" using nom_anychar_Nil [OF assms] by auto
  then obtain c r where "nom_anychar n input = Some (r, c)" "input = c @ r" by (rule nom_anychar_some [OF assms])
  with some show "suffix rest input" by (simp add: suffix_def)
qed

lemma nom_is_not_eq: "nom_text_ok n \<Longrightarrow> list_all is_ascii d \<Longrightarrow> nom_is_not n d = takes_while1 (\<lambda>c. c \<notin> set d)"
  unfolding nom_text_ok_def fun_eq_iff by blast

lemma nom_one_of_eq: "nom_text_ok n \<Longrightarrow> list_all is_ascii d \<Longrightarrow>
    nom_one_of n d s = (case s of c # r \<Rightarrow> if c \<in> set d then Some (r, [c]) else None | [] \<Rightarrow> None)"
  unfolding nom_text_ok_def by blast

lemma nom_none_of_eq: "nom_text_ok n \<Longrightarrow> list_all is_ascii d \<Longrightarrow> nom_none_of n d s =
    (case nom_anychar n s of Some (r, c) \<Rightarrow> if set c \<inter> set d = {} then Some (r, c) else None | None \<Rightarrow> None)"
  unfolding nom_text_ok_def by blast

lemma reads_is_not [reading]: "nom_text_ok n \<Longrightarrow> list_all is_ascii d \<Longrightarrow> reads_part (primitive (nom_is_not n d))"
  by (simp add: nom_is_not_eq reads_takes_while1)

lemma reads_one_of [reading]: "nom_text_ok n \<Longrightarrow> list_all is_ascii d \<Longrightarrow> reads_part (primitive (nom_one_of n d))"
  by (auto simp: reads_part_def primitive_Ok nom_one_of_eq suffix_def split: list.splits if_splits)

lemma reads_none_of [reading]:
  assumes "nom_text_ok n" "list_all is_ascii d"
  shows "reads_part (primitive (nom_none_of n d))"
  using reads_anychar [OF assms(1)] nom_none_of_eq [OF assms]
  by (auto simp: reads_part_def primitive_Ok split: option.splits prod.splits if_splits)

lemma reads_float [reading]: "nom_text_ok n \<Longrightarrow> reads_part (nom_recognize_float n)"
  unfolding reads_part_def nom_text_ok_def suffix_def by blast

section \<open>Parsers that leave other alternatives open\<close>

named_theorems soft_parsers \<open>parsers that neither panic nor fail for good\<close>

definition soft :: "'a parser \<Rightarrow> bool" where
  "soft p \<longleftrightarrow> (\<forall>input. p input \<noteq> Panic \<and> (\<forall>e. p input \<noteq> Err (NomFailure e)))"

lemma soft_cases:
  assumes "soft p"
  obtains rest x where "p input = Ok (rest, x)" | e where "p input = Err (NomError e)"
proof (cases "p input")
  case (Ok r)
  then show ?thesis using that(1) by (cases r) auto
next
  case (Err e)
  then show ?thesis using that(2) assms by (cases e) (auto simp: soft_def)
next
  case Panic
  then show ?thesis using assms by (simp add: soft_def)
qed

lemma softI: "(\<And>input. (\<exists>rest x. p input = Ok (rest, x)) \<or> (\<exists>e. p input = Err (NomError e))) \<Longrightarrow> soft p"
  unfolding soft_def by (metis nom_error.distinct(1) res.distinct(1) res.distinct(3) res.distinct(5) res.inject(2))

lemma soft_result: "soft p \<Longrightarrow> (\<exists>rest x. p input = Ok (rest, x)) \<or> (\<exists>e. p input = Err (NomError e))"
  by (erule soft_cases [of p input]) auto

lemma soft_primitive [soft_parsers]: "soft (primitive f)"
proof (rule softI)
  fix input
  show "(\<exists>rest x. primitive f input = Ok (rest, x)) \<or> (\<exists>e. primitive f input = Err (NomError e))"
    by (cases "f input") (auto simp: primitive_def)
qed

lemma soft_mapped [soft_parsers]: "soft p \<Longrightarrow> soft (mapped f p)"
proof (rule softI)
  fix input
  assume "soft p"
  then show "(\<exists>rest x. mapped f p input = Ok (rest, x)) \<or> (\<exists>e. mapped f p input = Err (NomError e))"
    by (rule soft_cases [of p input]) (simp_all add: mapped_def res_simps)
qed

lemma soft_followed [soft_parsers]:
  assumes "soft p" "\<And>x. soft (q x)"
  shows "soft (followed p q)"
proof (rule softI)
  fix input
  show "(\<exists>rest x. followed p q input = Ok (rest, x)) \<or> (\<exists>e. followed p q input = Err (NomError e))"
    by (rule soft_cases [OF assms(1), of input]) (use soft_result [OF assms(2)] in \<open>auto simp: followed_def res_simps\<close>)
qed

lemma soft_paired [soft_parsers]: "soft p \<Longrightarrow> soft q \<Longrightarrow> soft (paired p q)"
  unfolding paired_def by (intro soft_parsers)

lemma soft_preceded [soft_parsers]: "soft p \<Longrightarrow> soft q \<Longrightarrow> soft (preceded p q)"
  unfolding preceded_def by (intro soft_parsers)

lemma soft_terminated [soft_parsers]: "soft p \<Longrightarrow> soft q \<Longrightarrow> soft (terminated p q)"
  unfolding terminated_def by (intro soft_parsers)

lemma soft_delimited [soft_parsers]: "soft p \<Longrightarrow> soft q \<Longrightarrow> soft r \<Longrightarrow> soft (delimited p q r)"
  unfolding delimited_def by (intro soft_parsers)

lemma soft_optional [soft_parsers]: "soft p \<Longrightarrow> soft (optional p)"
proof (rule softI)
  fix input
  assume "soft p"
  then show "(\<exists>rest x. optional p input = Ok (rest, x)) \<or> (\<exists>e. optional p input = Err (NomError e))"
    by (rule soft_cases [of p input]) (simp_all add: optional_def res_simps)
qed

lemma soft_either_of [soft_parsers]: "soft p \<Longrightarrow> soft q \<Longrightarrow> soft (either_of p q)"
proof (rule softI)
  fix input
  assume p: "soft p" and q: "soft q"
  show "(\<exists>rest x. either_of p q input = Ok (rest, x)) \<or> (\<exists>e. either_of p q input = Err (NomError e))"
    by (rule soft_cases [OF p, of input]) (use soft_result [OF q, of input] in \<open>simp_all add: either_of_def\<close>)
qed

lemma soft_recognized [soft_parsers]: "soft p \<Longrightarrow> soft (recognized p)"
proof (rule softI)
  fix input
  assume "soft p"
  then show "(\<exists>rest x. recognized p input = Ok (rest, x)) \<or> (\<exists>e. recognized p input = Err (NomError e))"
    by (rule soft_cases [of p input]) (simp_all add: recognized_def res_simps)
qed

lemma soft_many0 [soft_parsers]:
  assumes "soft p"
  shows "soft (many0 p)"
proof (rule softI)
  fix input
  show "(\<exists>rest xs. many0 p input = Ok (rest, xs)) \<or> (\<exists>e. many0 p input = Err (NomError e))"
  proof (induction "length input" arbitrary: input rule: less_induct)
    case less
    show ?case
    proof (rule soft_cases [OF assms, of input])
      fix rest x
      assume p: "p input = Ok (rest, x)"
      show ?thesis
      proof (cases "length rest < length input")
        case True
        with less [of rest] p show ?thesis by (subst (1 2) many0.simps) (auto simp: res_simps)
      next
        case False
        with p show ?thesis by (subst (1 2) many0.simps) simp
      qed
    qed (subst (1 2) many0.simps, simp)
  qed
qed

lemma soft_separated_rest [soft_parsers]:
  assumes "soft s" "soft p"
  shows "soft (separated_rest s p)"
proof (rule softI)
  fix input
  have sp: "soft (preceded s p)" using assms by (rule soft_preceded)
  show "(\<exists>rest xs. separated_rest s p input = Ok (rest, xs)) \<or> (\<exists>e. separated_rest s p input = Err (NomError e))"
  proof (induction "length input" arbitrary: input rule: less_induct)
    case less
    show ?case
    proof (rule soft_cases [OF sp, of input])
      fix rest x
      assume p: "preceded s p input = Ok (rest, x)"
      show ?thesis
      proof (cases "length rest < length input")
        case True
        with less [of rest] p show ?thesis by (subst (1 2) separated_rest.simps) (auto simp: res_simps)
      next
        case False
        with p show ?thesis by (subst (1 2) separated_rest.simps) simp
      qed
    qed (subst (1 2) separated_rest.simps, simp)
  qed
qed

lemma soft_separated_list1 [soft_parsers]: "soft s \<Longrightarrow> soft p \<Longrightarrow> soft (separated_list1 s p)"
  unfolding separated_list1_def by (intro soft_parsers)

lemma soft_separated_list0 [soft_parsers]:
  assumes "soft s" "soft p"
  shows "soft (separated_list0 s p)"
proof (rule softI)
  fix input
  show "(\<exists>rest xs. separated_list0 s p input = Ok (rest, xs)) \<or> (\<exists>e. separated_list0 s p input = Err (NomError e))"
    by (rule soft_cases [OF assms(2), of input])
      (use soft_result [OF soft_separated_list1 [OF assms], of input] in \<open>simp_all add: separated_list0_def\<close>)
qed

lemma soft_tagged [soft_parsers]: "soft (tagged n t)"
  unfolding tagged_def by (rule soft_primitive)

lemma soft_char_is [soft_parsers]: "soft (char_is n c)"
  unfolding char_is_def by (rule soft_primitive)

lemma soft_space0 [soft_parsers]: "soft (space0 n)"
  by (rule softI) (simp add: space0_def)

lemma soft_ws [soft_parsers]: "soft p \<Longrightarrow> soft (ws n p)"
  unfolding ws_def by (intro soft_parsers)

end
