(* ===== verification/Qualified_Ident.thy ===== *)
theory Qualified_Ident
  imports Nom_Parsers
begin

text \<open>
  \<open>src/codelldb/src/expressions/qualified_ident.rs\<close>: names like \<open>std::vector<int, alloc<int>>::iterator\<close>.
\<close>

section \<open>Syntax\<close>

text \<open>
  A segment has parameters, and a parameter may be a name of segments again: the parameters are a type over
  the segments, which recurse through it.
\<close>

datatype 'segment q_ident_param = QIdentParam "'segment list" | OtherParam string

datatype q_ident_segment = QIdentSegment string "q_ident_segment q_ident_param list"

type_synonym qident = "q_ident_segment list"

type_synonym param = "q_ident_segment q_ident_param"

section \<open>Parsers\<close>

definition ident :: "nom_text \<Rightarrow> string parser" where
  "ident n = recognized (paired
     (any_of (primitive (nom_alpha1 n)) [tagged n ''_''])
     (many0 (any_of (primitive (nom_alphanumeric1 n)) [tagged n ''_''])))"

text \<open>The functions below call each other; \<open>q\<close> stands for \<open>qualified_ident\<close>.\<close>

definition template_param :: "nom_text \<Rightarrow> qident parser \<Rightarrow> param parser" where
  "template_param n q input =
     (case q input of
        Ok (rest, segments) \<Rightarrow> Ok (rest, QIdentParam segments)
      | Err _ \<Rightarrow> mapped (\<lambda>t. OtherParam (trim t)) (recognized (primitive (nom_is_not n ''<,>''))) input
      | Panic \<Rightarrow> Panic)"

definition template_params :: "nom_text \<Rightarrow> qident parser \<Rightarrow> param list parser" where
  "template_params n q =
     delimited (tagged n ''<'') (separated_list0 (tagged n '','') (ws n (template_param n q))) (tagged n ''>'')"

definition qident_segment :: "nom_text \<Rightarrow> qident parser \<Rightarrow> q_ident_segment parser" where
  "qident_segment n q =
     mapped (\<lambda>(i, parameters). QIdentSegment i (case parameters of Some ps \<Rightarrow> ps | None \<Rightarrow> []))
       (paired (ident n) (optional (preceded (space0 n) (template_params n q))))"

definition qident_body :: "nom_text \<Rightarrow> qident parser \<Rightarrow> qident parser" where
  "qident_body n q =
     preceded (optional (terminated (tagged n ''::'') (space0 n)))
       (separated_list1 (ws n (tagged n ''::'')) (qident_segment n q))"

text \<open>
  The recursion goes through an opening \<open><\<close>, so that its input is shorter; \<open>qualified_ident_unfold\<close> shows
  that \<open>shorter\<close> makes no difference.
\<close>

function qualified_ident :: "nom_text \<Rightarrow> qident parser" where
  "qualified_ident n input = qident_body n (shorter input (\<lambda>i. qualified_ident n i)) input"
  by pat_completeness auto
termination by (relation "measure (\<lambda>(n, input). length input)") auto

declare qualified_ident.simps [simp del]

section \<open>The recursion is that of the code\<close>

lemma reads_ident [reading]: "nom_text_ok n \<Longrightarrow> reads_part (ident n)"
  unfolding ident_def any_of.simps by (intro reading)

lemma reads_template_param [reading]:
  assumes "nom_text_ok n" "reads_part q"
  shows "reads_part (template_param n q)"
proof -
  have "reads_part (recognized (primitive (nom_is_not n ''<,>'')))"
    using assms(1) by (intro reading) (auto simp: is_ascii_def)
  with assms(2) show ?thesis
    by (auto simp: reads_part_def template_param_def mapped_Ok split: res.splits)
qed

lemma reads_template_params [reading]: "nom_text_ok n \<Longrightarrow> reads_part q \<Longrightarrow> reads_part (template_params n q)"
  unfolding template_params_def by (intro reading)

lemma reads_qident_segment [reading]: "nom_text_ok n \<Longrightarrow> reads_part q \<Longrightarrow> reads_part (qident_segment n q)"
  unfolding qident_segment_def by (intro reading)

lemma reads_qident_body: "nom_text_ok n \<Longrightarrow> reads_part q \<Longrightarrow> reads_part (qident_body n q)"
  unfolding qident_body_def by (intro reading)

text \<open>A parser defined through \<open>shorter\<close> reads a part of its input when its body does.\<close>

lemma reads_recursive:
  assumes "\<And>input. f input = body (shorter input f) input" "\<And>q. reads_part q \<Longrightarrow> reads_part (body q)"
  shows "reads_part f"
proof (rule reads_partI)
  fix input rest x
  show "f input = Ok (rest, x) \<Longrightarrow> suffix rest input"
  proof (induction "length input" arbitrary: input rest x rule: less_induct)
    case less
    have "reads_part (shorter input f)"
      using less(1) by (auto simp: reads_part_def shorter_def split: if_splits)
    from reads_partD [OF assms(2) [OF this]] less(2) show ?case by (simp add: assms(1) [symmetric])
  qed
qed

lemma agree_recursive:
  assumes "\<And>input. f input = body (shorter input f) input" "\<And>q. reads_part q \<Longrightarrow> reads_part (body q)"
    and "\<And>k q q'. agree k q q' \<Longrightarrow> reads_part q \<Longrightarrow> reads_part q' \<Longrightarrow> agree (Suc k) (body q) (body q')"
  shows "f input = body f input"
proof -
  have f: "reads_part f" by (rule reads_recursive [OF assms(1,2)])
  moreover have "reads_part (shorter input f)"
    using f by (auto simp: reads_part_def shorter_def split: if_splits)
  ultimately have "agree (Suc (length input)) (body (shorter input f)) (body f)"
    by (intro assms(3) agree_shorter)
  from agreeD [OF this, of input] show ?thesis by (simp add: assms(1) [symmetric])
qed

lemma reads_qualified_ident [reading]: "nom_text_ok n \<Longrightarrow> reads_part (qualified_ident n)"
  by (rule reads_recursive [where body = "qident_body n", OF qualified_ident.simps]) (rule reads_qident_body)

lemma agree_template_param: "agree k q q' \<Longrightarrow> agree k (template_param n q) (template_param n q')"
  by (auto simp: agree_def template_param_def)

lemma agree_template_params:
  assumes "nom_text_ok n" "agree k q q'" "reads_part q"
  shows "agree (Suc k) (template_params n q) (template_params n q')"
  unfolding template_params_def
  using assms takes_tagged [OF assms(1), of "''<''"]
  by (intro agree_bracketed agreeing agree_template_param reading) simp_all

lemma agree_qident_body:
  assumes "nom_text_ok n" "agree k q q'" "reads_part q"
  shows "agree (Suc k) (qident_body n q) (qident_body n q')"
  unfolding qident_body_def qident_segment_def
  using assms by (intro agreeing agree_refl agree_template_params reading)

lemma qualified_ident_unfold:
  "nom_text_ok n \<Longrightarrow> qualified_ident n input = qident_body n (qualified_ident n) input"
  by (rule agree_recursive [where body = "qident_body n", OF qualified_ident.simps]) (simp_all add: reads_qident_body agree_qident_body)

section \<open>It never panics\<close>

lemma soft_ident [soft_parsers]: "soft (ident n)"
  unfolding ident_def any_of.simps by (intro soft_parsers)

lemma soft_template_param:
  assumes "soft q"
  shows "soft (template_param n q)"
proof (rule softI)
  fix input
  have other: "soft (mapped (\<lambda>t. OtherParam (trim t)) (recognized (primitive (nom_is_not n ''<,>''))))"
    by (intro soft_parsers)
  show "(\<exists>rest x. template_param n q input = Ok (rest, x)) \<or> (\<exists>e. template_param n q input = Err (NomError e))"
    by (rule soft_cases [OF assms, of input]) (use soft_result [OF other, of input] in \<open>simp_all add: template_param_def\<close>)
qed

lemma soft_qident_body: "soft q \<Longrightarrow> soft (qident_body n q)"
  unfolding qident_body_def qident_segment_def template_params_def by (intro soft_parsers soft_template_param)

lemma soft_recursive:
  assumes "\<And>input. f input = body (shorter input f) input" "\<And>q. soft q \<Longrightarrow> soft (body q)"
  shows "soft f"
proof (rule softI)
  fix input
  show "(\<exists>rest x. f input = Ok (rest, x)) \<or> (\<exists>e. f input = Err (NomError e))"
  proof (induction "length input" arbitrary: input rule: less_induct)
    case less
    have "soft (shorter input f)"
    proof (rule softI)
      fix i
      show "(\<exists>rest x. shorter input f i = Ok (rest, x)) \<or> (\<exists>e. shorter input f i = Err (NomError e))"
        using less [of i] by (simp add: shorter_def)
    qed
    from soft_result [OF assms(2) [OF this], of input] show ?case by (simp only: assms(1) [symmetric])
  qed
qed

lemma soft_qualified_ident [soft_parsers]: "soft (qualified_ident n)"
  by (rule soft_recursive [where body = "qident_body n", OF qualified_ident.simps]) (rule soft_qident_body)

end
