(* ===== verification/Preprocess.thy ===== *)
theory Preprocess
  imports Qualified_Ident Expressions
begin

text \<open>
  \<open>src/codelldb/src/expressions/preprocess.rs\<close>: Python string literals, native expressions, and the translation
  of Python expressions with embedded native ones.
\<close>

section \<open>Parsers\<close>

definition quote :: char where
  "quote = CHR 0x22"

definition apostrophe :: char where
  "apostrophe = CHR 0x27"

definition backslash :: char where
  "backslash = CHR 0x5C"

definition string_body :: "nom_text \<Rightarrow> char \<Rightarrow> string list parser" where
  "string_body n delim = many0 (any_of
     (recognized (paired (char_is n backslash) (primitive (nom_anychar n))))
     [recognized (primitive (nom_none_of n [delim]))])"

definition python_string :: "nom_text \<Rightarrow> string parser" where
  "python_string n = recognized (any_of
     (delimited (char_is n quote) (recognized (string_body n quote)) (char_is n quote))
     [delimited (char_is n apostrophe) (recognized (string_body n apostrophe)) (char_is n apostrophe),
      delimited (tagged n [CHR ''r'', quote]) (primitive (nom_is_not n [quote])) (char_is n quote),
      delimited (tagged n [CHR ''r'', apostrophe]) (primitive (nom_is_not n [apostrophe])) (char_is n apostrophe)])"

definition native_expr :: "nom_text \<Rightarrow> string parser" where
  "native_expr n = preceded (char_is n CHR ''$'') (any_of
     (recognized (qualified_ident n))
     [delimited (tagged n ''{'') (recognized (primitive (nom_is_not n ''}''))) (tagged n ''}'')])"

section \<open>Preprocessing\<close>

definition eval_call :: "string \<Rightarrow> string" where
  "eval_call e = ''__eval('' @ apostrophe # e @ apostrophe # '')''"

definition syntax_error_message :: "string \<Rightarrow> string \<Rightarrow> string" where
  "syntax_error_message input tail =
     (let message = ''Syntax error: '' in
      message @ input @ CHR 0x0A # replicate (length message + length input - length tail) CHR '' '' @ ''^'')"

definition python_item :: "nom_text \<Rightarrow> string parser" where
  "python_item n = any_of (recognized (python_string n))
     [mapped eval_call (native_expr n), recognized (primitive (nom_anychar n))]"

text \<open>The whole of the expression must be read; \<open>finish\<close> makes no difference between the errors.\<close>

definition finished :: "string \<Rightarrow> (nom_error, string \<times> string) res \<Rightarrow> (string, string) res" where
  "finished expr r =
     (case r of
        Ok (input, t) \<Rightarrow> if input = [] then Ok t else Err (syntax_error_message expr input)
      | Err (NomError tail) \<Rightarrow> Err (syntax_error_message expr tail)
      | Err (NomFailure tail) \<Rightarrow> Err (syntax_error_message expr tail)
      | Panic \<Rightarrow> Panic)"

definition preprocess_python_expr :: "nom_text \<Rightarrow> string \<Rightarrow> (string, string) res" where
  "preprocess_python_expr n expr = finished expr (mapped concat (many0 (python_item n)) expr)"

section \<open>String literals\<close>

text \<open>
  What a Python string literal is: between quotes, no quote that is not escaped; in a raw one, no quote, and
  something at least.
\<close>

fun literal_body :: "char \<Rightarrow> string \<Rightarrow> bool" where
  "literal_body q [] = True"
| "literal_body q [c] = (c \<noteq> q \<and> c \<noteq> backslash)"
| "literal_body q (c # d # s) = (if c = backslash then literal_body q s else c \<noteq> q \<and> literal_body q (d # s))"

definition python_literal :: "string \<Rightarrow> bool" where
  "python_literal s \<longleftrightarrow> (\<exists>q b. q \<in> {quote, apostrophe} \<and>
     (s = q # b @ [q] \<and> literal_body q b \<or> s = CHR ''r'' # q # b @ [q] \<and> b \<noteq> [] \<and> q \<notin> set b))"

text \<open>Where the body of a literal ends: at a quote that is not escaped, or at the end of the input.\<close>

fun scan_body :: "char \<Rightarrow> string \<Rightarrow> string" where
  "scan_body q [] = []"
| "scan_body q [c] = (if c = q then [c] else [])"
| "scan_body q (c # d # s) =
     (if c = q then c # d # s else if c = backslash then scan_body q s else scan_body q (d # s))"

lemma scan_literal: "literal_body q b \<Longrightarrow> q \<noteq> backslash \<Longrightarrow> scan_body q (b @ q # s) = q # s"
proof (induction q b rule: literal_body.induct)
  case (1 q)
  then show ?case by (cases s) simp_all
next
  case (2 q c)
  then show ?case by (cases s) simp_all
next
  case (3 q c d b)
  then show ?case by (cases "c = backslash") auto
qed

lemma literal_body_Cons: "literal_body q b \<Longrightarrow> c \<noteq> q \<Longrightarrow> c \<noteq> backslash \<Longrightarrow> literal_body q (c # b)"
  by (cases b) simp_all

lemma scan_stops: "scan_body q s = [] \<or> (\<exists>b r. s = b @ q # r \<and> scan_body q s = q # r \<and> literal_body q b)"
proof (induction q s rule: scan_body.induct)
  case (3 q c d s)
  show ?case
  proof (cases "c = q \<or> c = backslash")
    case True
    then show ?thesis
    proof (cases "c = q")
      case False
      with True have c: "c \<noteq> q" "c = backslash" by auto
      from 3(1) [OF this] show ?thesis
        by (elim disjE exE conjE) (use c in \<open>auto intro!: exI [of _ "c # d # _"]\<close>)
    qed (auto intro: exI [of _ "[]"])
  next
    case False
    then have c: "c \<noteq> q" "c \<noteq> backslash" by auto
    have skip: "scan_body q (c # d # s) = scan_body q (d # s)" using c by simp
    from 3(2) [OF c] show ?thesis
    proof (elim disjE exE conjE)
      fix b r
      assume "d # s = b @ q # r" "scan_body q (d # s) = q # r" "literal_body q b"
      with c show ?thesis unfolding skip
        by (intro disjI2 exI [of _ "c # b"] exI [of _ r]) (simp add: literal_body_Cons)
    qed (simp del: scan_body.simps add: skip)
  qed
qed auto

lemma scan_le: "length (scan_body q s) \<le> length s"
  by (induction q s rule: scan_body.induct) auto

lemma scan_plain: "c \<noteq> q \<Longrightarrow> c \<noteq> backslash \<Longrightarrow> scan_body q (c # s) = scan_body q s"
  by (cases s) simp_all

lemma scan_escaped: "q \<noteq> backslash \<Longrightarrow> scan_body q (backslash # c # s) = scan_body q s"
  by simp

lemma scan_wide: "list_all (\<lambda>c. \<not> is_ascii c) w \<Longrightarrow> is_ascii q \<Longrightarrow> scan_body q (w @ s) = scan_body q s"
proof (induction w)
  case (Cons c w)
  have "is_ascii backslash" by (simp add: is_ascii_def backslash_def)
  with Cons have "c \<noteq> q" "c \<noteq> backslash" by auto
  with Cons show ?case by (simp add: scan_plain)
qed simp

section \<open>The parser of literals\<close>

lemma quotes_ascii: "q \<in> {quote, apostrophe} \<Longrightarrow> is_ascii q \<and> q \<noteq> backslash \<and> q \<noteq> CHR ''r''"
  by (auto simp: is_ascii_def quote_def apostrophe_def backslash_def)

text \<open>One item of a body: what it reads does not change where the body ends.\<close>

definition body_item :: "nom_text \<Rightarrow> char \<Rightarrow> string parser" where
  "body_item n q = any_of (recognized (paired (char_is n backslash) (primitive (nom_anychar n))))
     [recognized (primitive (nom_none_of n [q]))]"

lemma char_is_eq:
  "nom_text_ok n \<Longrightarrow> char_is n c input =
     (case input of [] \<Rightarrow> Err (NomError input) | x # r \<Rightarrow> if x = c then Ok (r, [c]) else Err (NomError input))"
  by (auto simp: char_is_def primitive_def nom_char_eq split: list.split)

lemma body_item_step:
  assumes n: "nom_text_ok n" and q: "q \<in> {quote, apostrophe}" and ne: "input \<noteq> []" and open_: "hd input \<noteq> q"
  shows "\<exists>rest t. body_item n q input = Ok (rest, t) \<and> length rest < length input \<and> scan_body q rest = scan_body q input"
proof -
  note qa = quotes_ascii [OF q]
  obtain c s where input: "input = c # s" using ne by (cases input) auto
  show ?thesis
  proof (cases "c = backslash \<and> s \<noteq> []")
    case True
    then have "s \<noteq> []" by simp
    then obtain w r where any: "nom_anychar n s = Some (r, w)" "s = w @ r" "w \<noteq> []"
      and plain: "is_ascii (hd s) \<Longrightarrow> w = [hd s]" and wide: "\<not> is_ascii (hd s) \<Longrightarrow> list_all (\<lambda>x. \<not> is_ascii x) w"
      by (rule nom_anychar_some [OF n]) blast
    obtain d w' where w: "w = d # w'" using any(3) by (cases w) auto
    have "list_all (\<lambda>x. \<not> is_ascii x) w'"
      using plain wide any(2) w by (cases "is_ascii (hd s)") auto
    then have "scan_body q (w' @ r) = scan_body q r" using qa by (simp add: scan_wide)
    then have "scan_body q r = scan_body q input"
      using input True any(2) w qa scan_escaped [of q d] by auto
    moreover have "body_item n q input = Ok (r, take (length input - length r) input)"
      using input True any(1)
      by (simp add: body_item_def either_of_def recognized_def paired_def followed_def mapped_def primitive_def
          char_is_eq [OF n] res_simps)
    ultimately show ?thesis using input any(2) by simp
  next
    case False
    obtain w r where any: "nom_anychar n input = Some (r, w)" "input = w @ r" "w \<noteq> []"
      and plain: "is_ascii (hd input) \<Longrightarrow> w = [hd input]" and wide: "\<not> is_ascii (hd input) \<Longrightarrow> list_all (\<lambda>x. \<not> is_ascii x) w"
      by (rule nom_anychar_some [OF n ne]) blast
    have "q \<notin> set w"
      using plain wide open_ qa by (cases "is_ascii (hd input)") (auto simp: list_all_iff)
    then have none: "nom_none_of n [q] input = Some (r, w)" using n qa any(1) by (simp add: nom_none_of_eq)
    have "\<exists>e. recognized (paired (char_is n backslash) (primitive (nom_anychar n))) input = Err (NomError e)"
      using False input
      by (auto simp: recognized_def paired_def followed_def mapped_def primitive_def char_is_eq [OF n] nom_anychar_Nil [OF n] res_simps)
    then have item: "body_item n q input = Ok (r, take (length input - length r) input)"
      using none by (auto simp: body_item_def either_of_def recognized_def primitive_def res_simps)
    have "scan_body q r = scan_body q input"
    proof (cases "is_ascii c")
      case True
      then have w: "w = [c]" using plain input by simp
      show ?thesis
      proof (cases "c = backslash")
        case True
        then have "s = []" using False by simp
        then show ?thesis using any(2) w input open_ by simp
      next
        case False
        then show ?thesis using any(2) w input open_ by (simp add: scan_plain)
      qed
    next
      case False
      then have "list_all (\<lambda>x. \<not> is_ascii x) w" using wide input by simp
      then show ?thesis using any(2) qa scan_wide [of w q r] by simp
    qed
    with item any(2,3) show ?thesis by simp
  qed
qed

lemma body_item_stop:
  assumes "nom_text_ok n" "q \<in> {quote, apostrophe}" "input = [] \<or> hd input = q"
  shows "\<exists>e. body_item n q input = Err (NomError e)"
proof (cases input)
  case Nil
  with assms(1,2) quotes_ascii [OF assms(2)] show ?thesis
    by (simp add: body_item_def either_of_def recognized_def paired_def followed_def mapped_def primitive_def
        char_is_eq [OF assms(1)] nom_none_of_eq nom_anychar_Nil res_simps)
next
  case (Cons c s)
  with assms(3) have c: "c = q" by simp
  note qa = quotes_ascii [OF assms(2)]
  obtain w r where any: "nom_anychar n input = Some (r, w)" "is_ascii (hd input) \<Longrightarrow> w = [hd input]"
    using nom_anychar_some [OF assms(1), of input] Cons by blast
  then have "nom_none_of n [q] input = None" using assms(1) qa c Cons by (simp add: nom_none_of_eq)
  then show ?thesis using qa c Cons
    by (simp add: body_item_def either_of_def recognized_def paired_def followed_def mapped_def primitive_def
        char_is_eq [OF assms(1)] res_simps)
qed

lemma string_body_scans:
  assumes "nom_text_ok n" "q \<in> {quote, apostrophe}"
  shows "\<exists>ts. string_body n q input = Ok (scan_body q input, ts)"
proof (induction "length input" arbitrary: input rule: less_induct)
  case less
  have fold: "string_body n q = many0 (body_item n q)" by (simp add: string_body_def body_item_def)
  show ?case
  proof (cases "input = [] \<or> hd input = q")
    case True
    then have "scan_body q input = input" by (cases input rule: remdups_adj.cases) auto
    with body_item_stop [OF assms True] show ?thesis unfolding fold by (subst many0.simps) auto
  next
    case False
    then obtain rest t where item: "body_item n q input = Ok (rest, t)" "length rest < length input"
      "scan_body q rest = scan_body q input"
      using body_item_step [OF assms] by blast
    from less [OF item(2)] obtain ts where "string_body n q rest = Ok (scan_body q rest, ts)" by blast
    with item show ?thesis unfolding fold by (subst many0.simps) (simp add: res_simps)
  qed
qed

text \<open>When no two alternatives differ, their order does not matter.\<close>

lemma any_of_apart:
  assumes "\<And>a. a \<in> set (p # qs) \<Longrightarrow> soft a"
    and "\<And>a b r r'. a \<in> set (p # qs) \<Longrightarrow> b \<in> set (p # qs) \<Longrightarrow> a input = Ok r \<Longrightarrow> b input = Ok r' \<Longrightarrow> r = r'"
  shows "any_of p qs input = Ok x \<longleftrightarrow> (\<exists>a\<in>set (p # qs). a input = Ok x)"
  using assms
proof (induction p qs rule: any_of.induct)
  case (1 p)
  then show ?case by simp
next
  case (2 p q qs)
  have rest: "any_of q qs input = Ok x \<longleftrightarrow> (\<exists>a\<in>set (q # qs). a input = Ok x)"
  proof (rule 2(1))
    show "a \<in> set (q # qs) \<Longrightarrow> soft a" for a by (rule 2(2)) simp
    show "r = r'" if "a \<in> set (q # qs)" "b \<in> set (q # qs)" "a input = Ok r" "b input = Ok r'" for a b r r'
      by (rule 2(3) [of a b]) (use that in simp_all)
  qed
  have "soft p" using 2(2) by simp
  then show ?case
  proof (rule soft_cases [of p input])
    fix mid y
    assume p: "p input = Ok (mid, y)"
    have "x = (mid, y)" if "a \<in> set (q # qs)" "a input = Ok x" for a
      using 2(3) [of a p] that p by simp
    with p show ?thesis by (auto simp: either_of_def)
  qed (use rest in \<open>simp add: either_of_def\<close>)
qed

lemma quoted_Ok:
  assumes "nom_text_ok n" "q \<in> {quote, apostrophe}"
  shows "delimited (char_is n q) (recognized (string_body n q)) (char_is n q) input = Ok (rest, b)
    \<longleftrightarrow> input = q # b @ q # rest \<and> literal_body q b"
proof -
  have body: "recognized (string_body n q) s = Ok (scan_body q s, take (length s - length (scan_body q s)) s)" for s
    using string_body_scans [OF assms, of s] by (auto simp: recognized_def res_simps)
  have "input = q # s \<Longrightarrow> scan_body q s = q # rest \<Longrightarrow> \<exists>b. s = b @ q # rest \<and> literal_body q b" for s
    using scan_stops [of q s] by auto
  then show ?thesis
    using scan_literal [of q b rest] quotes_ascii [OF assms(2)]
    by (auto simp: delimited_def preceded_def terminated_def followed_Ok mapped_Ok char_is_Ok [OF assms(1)] body)
qed

lemma raw_Ok:
  assumes "nom_text_ok n" "q \<in> {quote, apostrophe}"
  shows "delimited (tagged n [CHR ''r'', q]) (primitive (nom_is_not n [q])) (char_is n q) input = Ok (rest, b)
    \<longleftrightarrow> input = CHR ''r'' # q # b @ q # rest \<and> b \<noteq> [] \<and> q \<notin> set b"
proof -
  have not: "nom_is_not n [q] = takes_while1 (\<lambda>c. c \<noteq> q)"
    using nom_is_not_eq [OF assms(1), of "[q]"] quotes_ascii [OF assms(2)] by simp
  show ?thesis
    by (auto simp: delimited_def preceded_def terminated_def followed_Ok mapped_Ok tagged_Ok [OF assms(1)]
        char_is_Ok [OF assms(1)] primitive_Ok not takes_until)
qed

lemma reads_string_body [reading]: "nom_text_ok n \<Longrightarrow> q \<in> {quote, apostrophe} \<Longrightarrow> reads_part (string_body n q)"
  using quotes_ascii [of q] unfolding string_body_def any_of.simps by (intro reading) auto

lemma soft_string_body [soft_parsers]: "soft (string_body n q)"
  unfolding string_body_def any_of.simps by (intro soft_parsers)

lemma soft_python_string [soft_parsers]: "soft (python_string n)"
  unfolding python_string_def any_of.simps by (intro soft_parsers)

lemma reads_python_string [reading]:
  assumes "nom_text_ok n"
  shows "reads_part (python_string n)"
proof -
  have "list_all is_ascii [quote]" "list_all is_ascii [apostrophe]" using quotes_ascii by auto
  with assms show ?thesis unfolding python_string_def any_of.simps by (intro reading) auto
qed

lemma python_string_Ok:
  assumes n: "nom_text_ok n"
  shows "python_string n input = Ok (rest, s) \<longleftrightarrow> input = s @ rest \<and> python_literal s"
proof -
  let ?alts = "any_of (delimited (char_is n quote) (recognized (string_body n quote)) (char_is n quote))
     [delimited (char_is n apostrophe) (recognized (string_body n apostrophe)) (char_is n apostrophe),
      delimited (tagged n [CHR ''r'', quote]) (primitive (nom_is_not n [quote])) (char_is n quote),
      delimited (tagged n [CHR ''r'', apostrophe]) (primitive (nom_is_not n [apostrophe])) (char_is n apostrophe)]"
  have reads: "reads_part ?alts"
    using n quotes_ascii unfolding any_of.simps by (intro reading) auto
  have q: "quote \<in> {quote, apostrophe}" "apostrophe \<in> {quote, apostrophe}" by auto
  have soft: "soft (delimited (char_is n q) (recognized (string_body n q)) (char_is n q))"
    "soft (delimited (tagged n t) (primitive f) (char_is n q))" for q t f by (intro soft_parsers)+
  have differ: "quote \<noteq> apostrophe" "quote \<noteq> CHR ''r''" "apostrophe \<noteq> CHR ''r''" by (auto simp: quote_def apostrophe_def)
  have heads: "delimited (char_is n q) (recognized (string_body n q)) (char_is n q) input = Ok r \<Longrightarrow> \<exists>t. input = q # t"
    "delimited (tagged n [CHR ''r'', q]) (primitive (nom_is_not n [q])) (char_is n q) input = Ok r \<Longrightarrow> \<exists>t. input = CHR ''r'' # q # t"
    if "q \<in> {quote, apostrophe}" for q and r :: "string \<times> string"
    using quoted_Ok [OF n that, of input] raw_Ok [OF n that, of input] by (cases r; blast)+
  have alts: "?alts input = Ok x \<longleftrightarrow>
      (\<exists>a\<in>{delimited (char_is n quote) (recognized (string_body n quote)) (char_is n quote),
       delimited (char_is n apostrophe) (recognized (string_body n apostrophe)) (char_is n apostrophe),
       delimited (tagged n [CHR ''r'', quote]) (primitive (nom_is_not n [quote])) (char_is n quote),
       delimited (tagged n [CHR ''r'', apostrophe]) (primitive (nom_is_not n [apostrophe])) (char_is n apostrophe)}.
       a input = Ok x)" for x
    by (subst any_of_apart) (use soft differ heads [OF q(1)] heads [OF q(2)] in \<open>auto 4 3\<close>)
  have found: "(\<exists>b. ?alts input = Ok (rest, b)) \<longleftrightarrow>
      (\<exists>q b. q \<in> {quote, apostrophe} \<and> (input = q # b @ q # rest \<and> literal_body q b
        \<or> input = CHR ''r'' # q # b @ q # rest \<and> b \<noteq> [] \<and> q \<notin> set b))"
    unfolding alts by (simp add: quoted_Ok [OF n q(1)] quoted_Ok [OF n q(2)] raw_Ok [OF n q(1)] raw_Ok [OF n q(2)]) blast
  show ?thesis
  proof
    assume "python_string n input = Ok (rest, s)"
    moreover from this have "input = s @ rest"
      using recognized_part [OF reads] by (simp add: python_string_def)
    ultimately show "input = s @ rest \<and> python_literal s"
      using found by (auto simp: python_string_def recognized_Ok python_literal_def)
  next
    assume "input = s @ rest \<and> python_literal s"
    then show "python_string n input = Ok (rest, s)"
      using found by (auto simp: python_string_def recognized_Ok python_literal_def)
  qed
qed

section \<open>Native expressions\<close>

text \<open>A native expression \<open>e\<close> written as \<open>src\<close>, followed by \<open>rest\<close>.\<close>

definition native_at :: "nom_text \<Rightarrow> string \<Rightarrow> string \<Rightarrow> string \<Rightarrow> bool" where
  "native_at n src e rest \<longleftrightarrow>
     src = CHR ''$'' # e \<and> (\<exists>x. qualified_ident n (e @ rest) = Ok (rest, x))
     \<or> src = ''${'' @ e @ ''}'' \<and> e \<noteq> [] \<and> CHR ''}'' \<notin> set e"

lemma soft_native_expr [soft_parsers]: "soft (native_expr n)"
  unfolding native_expr_def any_of.simps by (intro soft_parsers)

lemma reads_native_expr [reading]:
  assumes "nom_text_ok n"
  shows "reads_part (native_expr n)"
  using assms unfolding native_expr_def any_of.simps by (intro reading) (auto simp: is_ascii_def)

lemma qident_starts:
  assumes "nom_text_ok n"
  shows "\<exists>e. qualified_ident n (CHR ''{'' # s) = Err (NomError e)"
proof -
  have "\<exists>e. ident n (CHR ''{'' # s) = Err (NomError e)"
    by (simp add: ident_def recognized_def paired_def followed_def either_of_def primitive_def tagged_def
        nom_runs [OF assms] nom_tag_eq [OF assms] takes_while1_def is_letter_def starts_with_def res_simps)
  then obtain e where e: "ident n (CHR ''{'' # s) = Err (NomError e)" by blast
  have "optional (terminated (tagged n ''::'') (space0 n)) (CHR ''{'' # s) = Ok (CHR ''{'' # s, None)"
    by (simp add: optional_def terminated_def followed_def tagged_def primitive_def nom_tag_eq [OF assms] starts_with_def res_simps)
  with e show ?thesis
    by (simp add: qualified_ident_unfold [OF assms] qident_body_def preceded_def followed_def separated_list1_def
        qident_segment_def mapped_def paired_def res_simps)
qed

lemma native_expr_Ok:
  assumes n: "nom_text_ok n"
  shows "native_expr n input = Ok (rest, e) \<longleftrightarrow> (\<exists>src. input = src @ rest \<and> native_at n src e rest)"
proof -
  have not: "nom_is_not n ''}'' = takes_while1 (\<lambda>c. c \<noteq> CHR ''}'')"
    using nom_is_not_eq [OF n, of "''}''"] by (simp add: is_ascii_def)
  have qid: "recognized (qualified_ident n) s = Ok (rest, e) \<longleftrightarrow> s = e @ rest \<and> (\<exists>x. qualified_ident n s = Ok (rest, x))" for s
    using recognized_part [OF reads_qualified_ident [OF n], of s rest e] by (auto simp: recognized_Ok)
  have braced: "delimited (tagged n ''{'') (recognized (primitive (nom_is_not n ''}''))) (tagged n ''}'') s = Ok (rest, e)
      \<longleftrightarrow> s = ''{'' @ e @ ''}'' @ rest \<and> e \<noteq> [] \<and> CHR ''}'' \<notin> set e" for s
    by (auto simp: delimited_def preceded_def terminated_def followed_Ok mapped_Ok tagged_Ok [OF n] not recognized_run primitive_Ok takes_until)
  have "native_expr n input = Ok (rest, e) \<longleftrightarrow> (\<exists>s. input = CHR ''$'' # s \<and>
      (recognized (qualified_ident n) s = Ok (rest, e) \<or> s = ''{'' @ e @ ''}'' @ rest \<and> e \<noteq> [] \<and> CHR ''}'' \<notin> set e))"
    using qident_starts [OF n, of "e @ ''}'' @ rest"]
    by (auto simp: native_expr_def preceded_def followed_Ok char_is_Ok [OF n] either_of_Ok braced recognized_def res_simps)
  then show ?thesis by (auto simp: native_at_def qid)
qed

section \<open>Python expressions\<close>

text \<open>
  The pieces an expression is made of: string literals, native expressions, and everything else character
  by character.
\<close>

datatype piece = StringPiece string | NativePiece string string | CharPiece string

fun source_of :: "piece \<Rightarrow> string" where
  "source_of (StringPiece s) = s"
| "source_of (NativePiece src e) = src"
| "source_of (CharPiece c) = c"

fun target_of :: "piece \<Rightarrow> string" where
  "target_of (StringPiece s) = s"
| "target_of (NativePiece src e) = eval_call e"
| "target_of (CharPiece c) = c"

definition starts_literal :: "string \<Rightarrow> bool" where
  "starts_literal input \<longleftrightarrow> (\<exists>s rest. input = s @ rest \<and> python_literal s)"

definition starts_native :: "nom_text \<Rightarrow> string \<Rightarrow> bool" where
  "starts_native n input \<longleftrightarrow> (\<exists>src e rest. input = src @ rest \<and> native_at n src e rest)"

definition one_char :: "string \<Rightarrow> bool" where
  "one_char c \<longleftrightarrow> c \<noteq> [] \<and> (is_ascii (hd c) \<longrightarrow> length c = 1)"

text \<open>
  At every place a string literal comes first, then a native expression: what starts inside a literal is
  not looked at.
\<close>

fun segmented :: "nom_text \<Rightarrow> string \<Rightarrow> piece list \<Rightarrow> bool" where
  "segmented n input [] \<longleftrightarrow> input = []"
| "segmented n input (p # ps) \<longleftrightarrow>
     (\<exists>rest. input = source_of p @ rest \<and> segmented n rest ps \<and>
        (case p of
           StringPiece s \<Rightarrow> python_literal s
         | NativePiece src e \<Rightarrow> \<not> starts_literal input \<and> native_at n src e rest
         | CharPiece c \<Rightarrow> \<not> starts_literal input \<and> \<not> starts_native n input \<and> one_char c))"

lemma python_item_piece:
  assumes n: "nom_text_ok n" and ne: "input \<noteq> []"
  shows "\<exists>p rest. python_item n input = Ok (rest, target_of p) \<and> input = source_of p @ rest \<and> source_of p \<noteq> []
    \<and> (case p of
         StringPiece s \<Rightarrow> python_literal s
       | NativePiece src e \<Rightarrow> \<not> starts_literal input \<and> native_at n src e rest
       | CharPiece c \<Rightarrow> \<not> starts_literal input \<and> \<not> starts_native n input \<and> one_char c)"
proof -
  let ?native = "mapped eval_call (native_expr n)"
  have string: "recognized (python_string n) input = Ok (rest, s) \<longleftrightarrow> input = s @ rest \<and> python_literal s" for rest s
    using recognized_part [OF reads_python_string [OF n], of input rest s]
    by (auto simp: recognized_Ok python_string_Ok [OF n])
  have "soft (recognized (python_string n))" by (intro soft_parsers)
  then show ?thesis
  proof (rule soft_cases [of _ input])
    fix rest s
    assume "recognized (python_string n) input = Ok (rest, s)"
    with string show ?thesis
      by (intro exI [of _ "StringPiece s"] exI [of _ rest]) (auto simp: python_item_def either_of_def python_literal_def)
  next
    fix e
    assume no_string: "recognized (python_string n) input = Err (NomError e)"
    with string have not_literal: "\<not> starts_literal input" by (auto simp: starts_literal_def)
    have "soft (native_expr n)" by (rule soft_native_expr)
    then show ?thesis
    proof (rule soft_cases [of _ input])
      fix rest e'
      assume native: "native_expr n input = Ok (rest, e')"
      then obtain src where "input = src @ rest" "native_at n src e' rest" using native_expr_Ok [OF n] by blast
      with native no_string not_literal show ?thesis
        by (intro exI [of _ "NativePiece src e'"] exI [of _ rest])
          (auto simp: python_item_def either_of_def mapped_def res_simps native_at_def)
    next
      fix e'
      assume no_native: "native_expr n input = Err (NomError e')"
      then have not_native: "\<not> starts_native n input" using native_expr_Ok [OF n, of input] by (auto simp: starts_native_def)
      obtain c r where any: "nom_anychar n input = Some (r, c)" "input = c @ r" "c \<noteq> []" "is_ascii (hd input) \<Longrightarrow> c = [hd input]"
        using nom_anychar_some [OF n ne] by metis
      have "hd input = hd c" using any(2,3) by simp
      with any(4) have "is_ascii (hd c) \<Longrightarrow> length c = 1" by (metis One_nat_def length_Cons list.size(3))
      with any(3) have "one_char c" by (simp add: one_char_def)
      moreover have "recognized (primitive (nom_anychar n)) input = Ok (r, c)"
        using any(1) by (simp add: any(2) recognized_def primitive_def res_simps)
      ultimately show ?thesis using no_string no_native not_literal not_native any(2,3)
        by (intro exI [of _ "CharPiece c"] exI [of _ r]) (simp add: python_item_def either_of_def mapped_def res_simps)
    qed
  qed
qed

lemma python_items:
  assumes n: "nom_text_ok n"
  shows "\<exists>ps. many0 (python_item n) input = Ok ([], map target_of ps) \<and> segmented n input ps"
proof (induction "length input" arbitrary: input rule: less_induct)
  case less
  show ?case
  proof (cases "input = []")
    case True
    have "\<exists>e. python_item n [] = Err (NomError e)"
    proof -
      have "\<not> starts_native n []" by (auto simp: starts_native_def native_at_def)
      moreover have "\<not> starts_literal []" by (auto simp: starts_literal_def python_literal_def)
      ultimately have "python_string n [] \<noteq> Ok r" "native_expr n [] \<noteq> Ok r" for r
        using python_string_Ok [OF n, of "[]"] native_expr_Ok [OF n, of "[]"]
        by (cases r; auto simp: starts_literal_def starts_native_def)+
      then have "\<exists>e. python_string n [] = Err (NomError e)" "\<exists>e. native_expr n [] = Err (NomError e)"
        using soft_result [OF soft_python_string, of n "[]"] soft_result [OF soft_native_expr, of n "[]"] by auto
      then show ?thesis
        by (auto simp: python_item_def either_of_def mapped_def recognized_def primitive_def nom_anychar_Nil [OF n] res_simps)
    qed
    with True show ?thesis by (subst many0.simps) (auto intro: exI [of _ "[]"])
  next
    case False
    from python_item_piece [OF n this] obtain p rest where item: "python_item n input = Ok (rest, target_of p)"
      "input = source_of p @ rest" "source_of p \<noteq> []"
      and piece: "case p of
         StringPiece s \<Rightarrow> python_literal s
       | NativePiece src e \<Rightarrow> \<not> starts_literal input \<and> native_at n src e rest
       | CharPiece c \<Rightarrow> \<not> starts_literal input \<and> \<not> starts_native n input \<and> one_char c" by blast
    have shorter: "length rest < length input" using item(2,3) by simp
    from less [OF this] obtain ps where ps: "many0 (python_item n) rest = Ok ([], map target_of ps)" "segmented n rest ps"
      by blast
    have "many0 (python_item n) input = Ok ([], map target_of (p # ps))"
      using item(1) shorter ps(1) by (subst many0.simps) (simp add: res_simps)
    moreover have "segmented n input (p # ps)" using item(2) piece ps(2) by auto
    ultimately show ?thesis by blast
  qed
qed

lemma segmented_source: "segmented n input ps \<Longrightarrow> input = concat (map source_of ps)"
  by (induction n input ps rule: segmented.induct) auto

lemma segmented_plain: "segmented n input ps \<Longrightarrow> CHR ''$'' \<notin> set input \<Longrightarrow> concat (map target_of ps) = input"
proof (induction n input ps rule: segmented.induct)
  case (2 n input p ps)
  then obtain rest where rest: "input = source_of p @ rest" "segmented n rest ps"
    and piece: "case p of
         StringPiece s \<Rightarrow> python_literal s
       | NativePiece src e \<Rightarrow> \<not> starts_literal input \<and> native_at n src e rest
       | CharPiece c \<Rightarrow> \<not> starts_literal input \<and> \<not> starts_native n input \<and> one_char c" by auto
  have "concat (map target_of ps) = rest" using 2(1) [of rest] rest 2(3) by auto
  with piece rest 2(3) show ?case by (cases p) (auto simp: native_at_def)
qed simp

section \<open>Properties\<close>

text \<open>
  C20 (native expressions in Python).  The translation of a Python expression always succeeds.  The
  expression falls into pieces: string literals are left as they are, whatever they contain; every native
  expression outside them becomes a call of \<open>__eval\<close> with its text; every other character stays.  An
  expression without \<open>$\<close> is not changed.
\<close>

theorem python_expr_translated:
  assumes "nom_text_ok n"
  shows "\<exists>ps. segmented n expr ps \<and> expr = concat (map source_of ps)
      \<and> preprocess_python_expr n expr = Ok (concat (map target_of ps))
      \<and> (CHR ''$'' \<notin> set expr \<longrightarrow> preprocess_python_expr n expr = Ok expr)"
proof -
  obtain ps where ps: "many0 (python_item n) expr = Ok ([], map target_of ps)" "segmented n expr ps"
    using python_items [OF assms] by blast
  then have "preprocess_python_expr n expr = Ok (concat (map target_of ps))"
    by (simp add: preprocess_python_expr_def mapped_def finished_def res_simps)
  with segmented_source [OF ps(2)] segmented_plain [OF ps(2)] ps(2) show ?thesis by metis
qed

section \<open>A concrete instance\<close>

text \<open>Primitives over characters of one byte.\<close>

definition simple_float :: "string \<Rightarrow> (string \<times> string) option" where
  "simple_float s =
     (case takes_while1 is_digit s of
        Some (CHR ''.'' # rest, t) \<Rightarrow> Some (dropWhile is_digit rest, t @ CHR ''.'' # takeWhile is_digit rest)
      | other \<Rightarrow> other)"

lemma simple_float_text:
  assumes "simple_float s = Some (rest, t)"
  shows "s = t @ rest \<and> float_text t"
proof -
  obtain u d where u: "takes_while1 is_digit s = Some (u, d)"
    using assms by (cases "takes_while1 is_digit s") (auto simp: simple_float_def)
  note d = takes_while1_run [OF u]
  have whole: "float_text m" if "mantissa_text m" for m
    unfolding float_text_def by (rule exI [of _ "[]"], rule exI [of _ m]) (use that in \<open>auto simp: sign_text_def exponent_text_def\<close>)
  show ?thesis
  proof (cases "\<exists>r. u = CHR ''.'' # r")
    case True
    then obtain r where r: "u = CHR ''.'' # r" ..
    have "mantissa_text (d @ CHR ''.'' # takeWhile is_digit r)"
      unfolding mantissa_text_def using d by (auto simp: list_all_iff dest: set_takeWhileD)
    with whole assms u d r show ?thesis by (auto simp: simple_float_def takeWhile_dropWhile_id)
  next
    case False
    with assms u have "rest = u \<and> t = d"
      by (auto simp: simple_float_def split: list.splits char.splits bool.splits)
    moreover have "mantissa_text d" using d by (simp add: mantissa_text_def digits_def)
    ultimately show ?thesis using d whole by simp
  qed
qed

definition simple_chars ::
  "((nat \<times> string) parser \<Rightarrow> (nat \<times> string \<times> string) parser \<Rightarrow> (nat \<times> assoc \<times> string) parser \<Rightarrow>
    string parser \<Rightarrow> fold \<Rightarrow> string parser) \<Rightarrow> nom_text" where
  "simple_chars prec = nom.extend simple_nom
     \<lparr>nom_none_of = (\<lambda>d s. case s of c # r \<Rightarrow> if c \<in> set d then None else Some (r, [c]) | [] \<Rightarrow> None),
      nom_one_of = (\<lambda>d s. case s of c # r \<Rightarrow> if c \<in> set d then Some (r, [c]) else None | [] \<Rightarrow> None),
      nom_is_not = (\<lambda>d. takes_while1 (\<lambda>c. c \<notin> set d)),
      nom_alpha1 = takes_while1 is_letter,
      nom_alphanumeric1 = takes_while1 (\<lambda>c. is_letter c \<or> is_digit c),
      nom_hex_digit1 = takes_while1 is_hex,
      nom_recognize_float = primitive simple_float,
      nom_precedence = prec\<rparr>"

lemma simple_chars_ok: "nom_text_ok (simple_chars prec)"
proof -
  have "nom_ok (nom.truncate (simple_chars prec))"
    using simple_nom_ok by (simp add: simple_chars_def nom.defs simple_nom_def)
  moreover have "\<exists>c r. nom_anychar (simple_chars prec) s = Some (r, c) \<and> s = c @ r \<and> c \<noteq> []
          \<and> (is_ascii (hd s) \<longrightarrow> c = [hd s]) \<and> (\<not> is_ascii (hd s) \<longrightarrow> list_all (\<lambda>x. \<not> is_ascii x) c)" if "s \<noteq> []" for s
    using that by (cases s) (auto simp: simple_chars_def nom.defs simple_nom_def)
  moreover have "s = t @ r \<and> float_text t" if "nom_recognize_float (simple_chars prec) s = Ok (r, t)" for s r t
    using that simple_float_text [of s r t] by (simp add: simple_chars_def nom.defs simple_nom_def primitive_Ok)
  ultimately show ?thesis
    unfolding nom_text_ok_def
    by (auto simp: simple_chars_def nom.defs simple_nom_def primitive_def split: list.splits)
       (metis ok_or.elims res.distinct(3) res.distinct(5))
qed

definition demo_text :: nom_text where
  "demo_text = simple_chars (\<lambda>prefix postfix binary operand f. operand)"

text \<open>To run a parser: what comes after a step is not looked at before its result is there.\<close>

lemma bind_res_step: "m = m' \<Longrightarrow> bind_res m f = bind_res m' f"
  by simp

lemma map_res_step: "m = m' \<Longrightarrow> map_res f m = map_res f m'"
  by simp

lemmas parser_eval = primitive_def mapped_def followed_def yields_value_def paired_def preceded_def terminated_def
  delimited_def optional_def either_of_def any_of.simps recognized_def verified_def not_followed_def many0.simps
  many1_def separated_rest.simps separated_list1_def separated_list0_def tagged_def char_is_def space0_def ws_def
  ident_def template_param_def template_params_def qident_segment_def qident_body_def qualified_ident.simps shorter_def
  string_body_def python_string_def native_expr_def python_item_def finished_def preprocess_python_expr_def
  simple_chars_def nom.defs simple_nom_def demo_text_def takes_while1_def starts_with_def is_letter_def is_digit_def
  is_blank_def quote_def apostrophe_def backslash_def eval_call_def res_simps

theorem python_expr_translated_witness:
  "\<exists>ps. segmented demo_text ''x in $foo: (\"$foo\")'' ps
     \<and> ''x in __eval('foo'): (\"$foo\")'' = concat (map target_of ps)"
proof -
  have "preprocess_python_expr demo_text ''x in $foo: (\"$foo\")'' = Ok ''x in __eval('foo'): (\"$foo\")''"
    by (simp add: parser_eval cong: bind_res_step map_res_step)
  moreover have "nom_text_ok demo_text" by (simp add: demo_text_def simple_chars_ok)
  from python_expr_translated [OF this, of "''x in $foo: (\"$foo\")''"]
  obtain ps where "segmented demo_text ''x in $foo: (\"$foo\")'' ps"
    "preprocess_python_expr demo_text ''x in $foo: (\"$foo\")'' = Ok (concat (map target_of ps))" by blast
  ultimately show ?thesis by (intro exI [of _ ps]) simp
qed

text \<open>An apostrophe in a native expression ends the string that \<open>__eval\<close> is called with.\<close>

lemma native_apostrophe: "preprocess_python_expr demo_text ''${a['b']}'' = Ok ''__eval('a['b']')''"
  by (simp add: parser_eval cong: bind_res_step map_res_step)

text \<open>Strings in triple quotes are taken for several: what stands between quotes in them is translated.\<close>

lemma triple_quotes:
  "preprocess_python_expr demo_text ''\"\"\"a \"$x\" b\"\"\"'' = Ok ''\"\"\"a \"__eval('x')\" b\"\"\"''"
  by (simp add: parser_eval cong: bind_res_step map_res_step)

end
