(* ===== verification/Simple_Expressions.thy ===== *)
theory Simple_Expressions
  imports Preprocess
begin

text \<open>
  \<open>src/codelldb/src/expressions/literals.rs\<close> and \<open>simple_expressions.rs\<close>: the translation of simple expressions
  into Python.
\<close>

section \<open>Literals\<close>

definition float_literal :: "nom_text \<Rightarrow> string parser" where
  "float_literal n = verified (nom_recognize_float n)
     (\<lambda>lexeme. CHR ''.'' \<in> set lexeme \<or> CHR ''e'' \<in> set lexeme \<or> CHR ''E'' \<in> set lexeme)"

definition binary_literal :: "nom_text \<Rightarrow> string parser" where
  "binary_literal n = recognized (paired (any_of (tagged n ''0b'') [tagged n ''0B'']) (many1 (primitive (nom_one_of n ''01''))))"

definition octal_literal :: "nom_text \<Rightarrow> string parser" where
  "octal_literal n = recognized (paired (any_of (tagged n ''0o'') [tagged n ''0O'']) (many1 (primitive (nom_one_of n ''01234567''))))"

definition hex_literal :: "nom_text \<Rightarrow> string parser" where
  "hex_literal n = recognized (paired (any_of (tagged n ''0x'') [tagged n ''0X'']) (primitive (nom_hex_digit1 n)))"

definition decimal_literal :: "nom_text \<Rightarrow> string parser" where
  "decimal_literal n = primitive (nom_digit1 n)"

definition integer_literal :: "nom_text \<Rightarrow> string parser" where
  "integer_literal n = any_of (hex_literal n) [binary_literal n, octal_literal n, decimal_literal n]"

definition numeric_literal :: "nom_text \<Rightarrow> string parser" where
  "numeric_literal n = any_of (float_literal n) [integer_literal n]"

definition boolean_literal :: "nom_text \<Rightarrow> string parser" where
  "boolean_literal n = terminated
     (any_of (mapped (\<lambda>_. ''True'') (any_of (tagged n ''true'') [tagged n ''True'']))
        [mapped (\<lambda>_. ''False'') (any_of (tagged n ''false'') [tagged n ''False''])])
     (not_followed (verified (primitive (nom_anychar n)) (list_all (\<lambda>c. is_letter c \<or> is_digit c \<or> c = CHR ''_''))))"

text \<open>\<open>unsigned\<close> of \<open>expressions/mod.rs\<close>, which panics on a number that does not fit.\<close>

definition unsigned_number :: "nom_text \<Rightarrow> u32 parser" where
  "unsigned_number n input = map_err (\<lambda>_. NomError input) (unsigned_parser (nom.truncate n) input)"

section \<open>Expressions\<close>

definition in_quotes :: "string \<Rightarrow> string" where
  "in_quotes s = apostrophe # s @ [apostrophe]"

definition cast_parser :: "nom_text \<Rightarrow> string parser" where
  "cast_parser n = delimited (char_is n CHR ''('')
     (recognized (paired (ws n (qualified_ident n)) (many0 (ws n (primitive (nom_one_of n ''*&''))))))
     (char_is n CHR '')'')"

text \<open>The functions below and \<open>expression\<close> call each other; \<open>e\<close> stands for \<open>expression\<close>.\<close>

definition operand :: "nom_text \<Rightarrow> string parser \<Rightarrow> string parser" where
  "operand n e =
     mapped (\<lambda>(c, x). case c of Some c \<Rightarrow> ''Value.cast('' @ in_quotes c @ '', '' @ x @ '')'' | None \<Rightarrow> x)
       (paired (optional (ws n (cast_parser n)))
         (ws n (any_of (numeric_literal n)
           [boolean_literal n,
            python_string n,
            mapped eval_call (recognized (qualified_ident n)),
            mapped eval_call (native_expr n),
            mapped (\<lambda>x. ''('' @ x @ '')'') (delimited (tagged n ''('') e (tagged n '')''))])))"

definition prefix_op :: "nom_text \<Rightarrow> (nat \<times> string) parser" where
  "prefix_op n = mapped (Pair 3) (ws n (any_of (tagged n ''!'')
     [tagged n ''not'', tagged n ''-'', tagged n ''+'', tagged n ''~'', tagged n ''*'', tagged n ''&'']))"

definition binary_of :: "nat \<Rightarrow> assoc \<Rightarrow> string parser \<Rightarrow> (nat \<times> assoc \<times> string) parser" where
  "binary_of k a p = mapped (\<lambda>op. (k, a, op)) p"

definition binary_op :: "nom_text \<Rightarrow> (nat \<times> assoc \<times> string) parser" where
  "binary_op n = ws n (any_of
     (binary_of 15 LeftAssoc (mapped (\<lambda>_. ''or'') (any_of (tagged n ''or'') [tagged n ''||''])))
     [binary_of 14 LeftAssoc (mapped (\<lambda>_. ''and'') (any_of (tagged n ''and'') [tagged n ''&&''])),
      binary_of 7 LeftAssoc (any_of (tagged n ''<<'') [tagged n ''>>'']),
      binary_of 4 RightAssoc (tagged n ''**''),
      binary_of 9 LeftAssoc (any_of (tagged n ''>='') [tagged n ''>'', tagged n ''<='', tagged n ''<'']),
      binary_of 6 LeftAssoc (any_of (tagged n ''+'') [tagged n ''-'']),
      binary_of 5 LeftAssoc (any_of (tagged n ''*'') [tagged n ''//'', tagged n ''/'', tagged n ''%'']),
      binary_of 13 LeftAssoc (tagged n ''|''),
      binary_of 12 LeftAssoc (tagged n ''^''),
      binary_of 11 LeftAssoc (tagged n ''&''),
      binary_of 10 LeftAssoc (any_of (tagged n ''=='') [tagged n ''!=''])])"

definition postfix_op :: "nom_text \<Rightarrow> string parser \<Rightarrow> (nat \<times> string \<times> string) parser" where
  "postfix_op n e = mapped (Pair 2) (any_of
     (mapped (Pair ''.'') (preceded (ws n (char_is n CHR ''.'')) (ident n)))
     [mapped (Pair ''.'') (preceded (ws n (char_is n CHR ''.'')) (recognized (unsigned_number n))),
      mapped (Pair ''->'') (preceded (ws n (tagged n ''->'')) (ident n)),
      mapped (Pair ''[]'') (delimited (ws n (char_is n CHR ''['')) (any_of (integer_literal n) [e]) (ws n (char_is n CHR '']'')))])"

fun apply_operation :: fold where
  "apply_operation (PrefixOp op x) =
     Ok (if op = ''*'' then ''Value.dereference('' @ x @ '')''
         else if op = ''&'' then ''Value.address_of('' @ x @ '')''
         else if op = ''!'' \<or> op = ''not'' then ''(not '' @ x @ '')''
         else op @ x)"
| "apply_operation (BinaryOp x op y) = Ok (''('' @ x @ '' '' @ op @ '' '' @ y @ '')'')"
| "apply_operation (PostfixOp x (op, arg)) =
     (if op = ''.'' then Ok (x @ ''.__getattr__('' @ in_quotes arg @ '')'')
      else if op = ''->'' then Ok (''Value.dereference('' @ x @ '').__getattr__('' @ in_quotes arg @ '')'')
      else if op = ''[]'' then Ok (x @ ''['' @ arg @ '']'')
      else Err [])"

definition expression_body :: "nom_text \<Rightarrow> string parser \<Rightarrow> string parser" where
  "expression_body n e = nom_precedence n (prefix_op n) (postfix_op n e) (binary_op n) (operand n e) apply_operation"

text \<open>As for \<open>qualified_ident\<close>, the recursion is on shorter inputs (\<open>expression_unfold\<close>).\<close>

function expression :: "nom_text \<Rightarrow> string parser" where
  "expression n input = expression_body n (shorter input (\<lambda>i. expression n i)) input"
  by pat_completeness auto
termination by (relation "measure (\<lambda>(n, input). length input)") auto

declare expression.simps [simp del]

definition preprocess_simple_expr :: "nom_text \<Rightarrow> string \<Rightarrow> (string, string) res" where
  "preprocess_simple_expr n expr = finished expr (expression n expr)"

text \<open>The two preprocessors as the rest of the development takes them.\<close>

definition preprocessors_of :: "nom_text \<Rightarrow> preprocessors" where
  "preprocessors_of n = \<lparr>preprocess_simple = preprocess_simple_expr n, preprocess_python = preprocess_python_expr n\<rparr>"

section \<open>The recursion is that of the code\<close>

lemma ascii_digits: "list_all is_ascii ''01''" "list_all is_ascii ''01234567''" "list_all is_ascii ''*&''"
  by (simp_all add: is_ascii_def)

lemma reads_numbers [reading]:
  assumes "nom_text_ok n"
  shows "reads_part (numeric_literal n)" "reads_part (integer_literal n)"
  unfolding numeric_literal_def integer_literal_def float_literal_def hex_literal_def binary_literal_def
    octal_literal_def decimal_literal_def any_of.simps
  using assms ascii_digits by (intro reading; simp)+

lemma reads_boolean [reading]: "nom_text_ok n \<Longrightarrow> reads_part (boolean_literal n)"
  unfolding boolean_literal_def any_of.simps by (intro reading)

lemma reads_unsigned [reading]: "nom_text_ok n \<Longrightarrow> reads_part (unsigned_number n)"
proof (rule reads_partI)
  fix input rest k
  assume n: "nom_text_ok n" and "unsigned_number n input = Ok (rest, k)"
  then have "unsigned_parser (nom.truncate n) input = Ok (rest, k)"
    by (cases "unsigned_parser (nom.truncate n) input") (simp_all add: unsigned_number_def)
  then obtain t where "nom_digit1 n input = Some (rest, t)"
    by (auto simp: unsigned_parser_def nom.defs split: option.splits)
  with n show "suffix rest input" by (auto simp: nom_digit1_eq takes_while1_def suffix_dropWhile split: if_splits)
qed

lemma reads_operators [reading]:
  assumes "nom_text_ok n"
  shows "reads_part (prefix_op n)" "reads_part (binary_op n)" "reads_part (cast_parser n)"
  unfolding prefix_op_def binary_op_def binary_of_def cast_parser_def any_of.simps
  using assms ascii_digits by (intro reading; simp)+

lemma reads_operand [reading]: "nom_text_ok n \<Longrightarrow> reads_part e \<Longrightarrow> reads_part (operand n e)"
  unfolding operand_def any_of.simps by (intro reading)

lemma reads_postfix [reading]: "nom_text_ok n \<Longrightarrow> reads_part e \<Longrightarrow> reads_part (postfix_op n e)"
  unfolding postfix_op_def any_of.simps by (intro reading)

lemma token_sequence_reads:
  assumes "reads_part pre" "reads_part post" "reads_part bin" "reads_part opd"
    and "token_sequence pre post bin opd input ts rest"
  shows "suffix rest input"
  using assms(5) by induction (use assms(1-4) in \<open>auto dest!: reads_partD intro: suffix_order.order_trans\<close>)

lemma one_level_postfix: "one_level (postfix_op n e)"
  by (auto simp: one_level_def postfix_op_def mapped_Ok)

lemma reads_expression_body:
  assumes "nom_text_ok n" "precedence_ok (nom_precedence n)" "reads_part e"
  shows "reads_part (expression_body n e)"
proof (rule reads_partI)
  fix input rest x
  assume "expression_body n e input = Ok (rest, x)"
  then obtain t where "token_sequence (prefix_op n) (postfix_op n e) (binary_op n) (operand n e) input (tokens_of t) rest"
    using assms(2) one_level_postfix unfolding precedence_ok_def expression_body_def by blast
  moreover have "reads_part (prefix_op n)" "reads_part (postfix_op n e)" "reads_part (binary_op n)" "reads_part (operand n e)"
    using assms(1,3) by (simp_all add: reading)
  ultimately show "suffix rest input" using token_sequence_reads by blast
qed

lemma takes_ws_char: "nom_text_ok n \<Longrightarrow> takes 1 (ws n (char_is n c))"
proof -
  assume n: "nom_text_ok n"
  have "length rest < length input" if "ws n (char_is n c) input = Ok (rest, x)" for input rest x
  proof -
    from that n obtain mid where "dropWhile is_blank input = c # mid" "rest = dropWhile is_blank mid"
      by (auto simp: ws_def delimited_def preceded_def terminated_def followed_Ok mapped_Ok space0_Ok char_is_Ok)
    moreover have "length (dropWhile is_blank s) \<le> length s" for s by (simp add: length_dropWhile_le)
    ultimately show ?thesis by (metis le_imp_less_Suc length_Cons order_less_le_trans)
  qed
  then show ?thesis by (fastforce simp: takes_def)
qed

lemma agree_expression_body:
  assumes n: "nom_text_ok n" and p: "precedence_ok (nom_precedence n)" and e: "agree k e e'" and r: "reads_part e"
  shows "agree (Suc k) (expression_body n e) (expression_body n e')"
proof -
  have open_: "takes 1 (tagged n ''('')" using takes_tagged [OF n, of "''(''"] by simp
  have operand: "agree (Suc k) (operand n e) (operand n e')"
    unfolding operand_def any_of.simps using n e r open_ by (intro agreeing agree_bracketed agree_refl reading)
  have "agree k (any_of (integer_literal n) [e]) (any_of (integer_literal n) [e'])"
    unfolding any_of.simps using e by (intro agreeing agree_refl)
  moreover have "reads_part (any_of (integer_literal n) [e])" unfolding any_of.simps using n r by (intro reading)
  ultimately have postfix: "agree (Suc k) (postfix_op n e) (postfix_op n e')"
    unfolding postfix_op_def any_of.simps(2) using takes_ws_char [OF n]
    by (intro agree_mapped agree_either_of agree_refl) (simp add: agree_mapped agree_bracketed)
  show ?thesis unfolding expression_body_def
    using p n r operand postfix unfolding precedence_ok_def by (simp add: reading)
qed

lemma expression_unfold:
  assumes "nom_text_ok n" "precedence_ok (nom_precedence n)"
  shows "expression n input = expression_body n (expression n) input"
  by (rule agree_recursive [where body = "expression_body n", OF expression.simps])
    (simp_all add: assms reads_expression_body agree_expression_body)

lemma reads_expression: "nom_text_ok n \<Longrightarrow> precedence_ok (nom_precedence n) \<Longrightarrow> reads_part (expression n)"
  by (rule reads_recursive [where body = "expression_body n", OF expression.simps]) (simp add: reads_expression_body)

end
