(* ===== verification/Simple_Syntax.thy ===== *)
theory Simple_Syntax
  imports Simple_Expressions
begin

text \<open>
  Simple expressions as they are meant: their syntax, how they are spelled in a source text, how their operators
  group, and the Python they stand for.  \<open>Simple_Correct\<close> shows that \<open>expression\<close> translates what is spelled.
\<close>

section \<open>Syntax\<close>

datatype prefix_operator = PreNot | PreMinus | PrePlus | PreInvert | PreDeref | PreAddress

datatype binary_operator =
    BinOr | BinAnd | BinBitOr | BinBitXor | BinBitAnd | BinEq | BinNe | BinLt | BinLe | BinGt | BinGe
  | BinShl | BinShr | BinAdd | BinSub | BinMul | BinDiv | BinFloorDiv | BinMod | BinPow

datatype simple =
    Numeral string
  | Truth bool
  | Literal string
  | Named string
  | Native string
  | Bracketed simple
  | Cast string simple
  | Prefix prefix_operator simple
  | Binary simple binary_operator simple
  | Member simple string
  | Arrow simple string
  | Index simple simple

text \<open>
  How tightly the operators bind, the smaller the tighter: members and indices, prefixes, powers, and then the binary
  operators of C++ in its order.
\<close>

fun binary_level :: "binary_operator \<Rightarrow> nat" where
  "binary_level BinPow = 4"
| "binary_level BinMul = 5"
| "binary_level BinDiv = 5"
| "binary_level BinFloorDiv = 5"
| "binary_level BinMod = 5"
| "binary_level BinAdd = 6"
| "binary_level BinSub = 6"
| "binary_level BinShl = 7"
| "binary_level BinShr = 7"
| "binary_level BinLt = 9"
| "binary_level BinLe = 9"
| "binary_level BinGt = 9"
| "binary_level BinGe = 9"
| "binary_level BinEq = 10"
| "binary_level BinNe = 10"
| "binary_level BinBitAnd = 11"
| "binary_level BinBitXor = 12"
| "binary_level BinBitOr = 13"
| "binary_level BinAnd = 14"
| "binary_level BinOr = 15"

fun level :: "simple \<Rightarrow> nat" where
  "level (Binary x op y) = binary_level op"
| "level (Prefix op x) = 3"
| "level (Member x a) = 2"
| "level (Arrow x a) = 2"
| "level (Index x i) = 2"
| "level _ = 0"

text \<open>
  The operands of an operator bind at least as tightly as it does; of equal operators the left one comes first, but
  for powers.  A cast is of a single operand.
\<close>

fun grouped :: "simple \<Rightarrow> bool" where
  "grouped (Bracketed x) = grouped x"
| "grouped (Cast t x) = (grouped x \<and> level x = 0)"
| "grouped (Prefix op x) = (grouped x \<and> level x \<le> 3)"
| "grouped (Binary x op y) = (grouped x \<and> grouped y
     \<and> (if op = BinPow then level x < 4 \<and> level y \<le> 4
        else level x \<le> binary_level op \<and> level y < binary_level op))"
| "grouped (Member x a) = (grouped x \<and> level x \<le> 2)"
| "grouped (Arrow x a) = (grouped x \<and> level x \<le> 2)"
| "grouped (Index x i) = (grouped x \<and> level x \<le> 2 \<and> grouped i)"
| "grouped _ = True"

section \<open>The Python\<close>

fun python_prefix :: "prefix_operator \<Rightarrow> string \<Rightarrow> string" where
  "python_prefix PreNot x = ''(not '' @ x @ '')''"
| "python_prefix PreMinus x = ''-'' @ x"
| "python_prefix PrePlus x = ''+'' @ x"
| "python_prefix PreInvert x = ''~'' @ x"
| "python_prefix PreDeref x = ''Value.dereference('' @ x @ '')''"
| "python_prefix PreAddress x = ''Value.address_of('' @ x @ '')''"

fun python_binary :: "binary_operator \<Rightarrow> string" where
  "python_binary BinOr = ''or''"
| "python_binary BinAnd = ''and''"
| "python_binary BinBitOr = ''|''"
| "python_binary BinBitXor = ''^''"
| "python_binary BinBitAnd = ''&''"
| "python_binary BinEq = ''==''"
| "python_binary BinNe = ''!=''"
| "python_binary BinLt = ''<''"
| "python_binary BinLe = ''<=''"
| "python_binary BinGt = ''>''"
| "python_binary BinGe = ''>=''"
| "python_binary BinShl = ''<<''"
| "python_binary BinShr = ''>>''"
| "python_binary BinAdd = ''+''"
| "python_binary BinSub = ''-''"
| "python_binary BinMul = ''*''"
| "python_binary BinDiv = ''/''"
| "python_binary BinFloorDiv = ''//''"
| "python_binary BinMod = ''%''"
| "python_binary BinPow = ''**''"

text \<open>Names are evaluated, members looked up and types passed on by their text; operators are Python's, in brackets.\<close>

fun python_of :: "simple \<Rightarrow> string" where
  "python_of (Numeral s) = s"
| "python_of (Truth b) = (if b then ''True'' else ''False'')"
| "python_of (Literal s) = s"
| "python_of (Named t) = ''__eval('' @ in_quotes t @ '')''"
| "python_of (Native t) = ''__eval('' @ in_quotes t @ '')''"
| "python_of (Bracketed x) = ''('' @ python_of x @ '')''"
| "python_of (Cast t x) = ''Value.cast('' @ in_quotes t @ '', '' @ python_of x @ '')''"
| "python_of (Prefix op x) = python_prefix op (python_of x)"
| "python_of (Binary x op y) = ''('' @ python_of x @ '' '' @ python_binary op @ '' '' @ python_of y @ '')''"
| "python_of (Member x a) = python_of x @ ''.__getattr__('' @ in_quotes a @ '')''"
| "python_of (Arrow x a) = ''Value.dereference('' @ python_of x @ '').__getattr__('' @ in_quotes a @ '')''"
| "python_of (Index x i) = python_of x @ ''['' @ python_of i @ '']''"

section \<open>The source text\<close>

definition blanks :: "string \<Rightarrow> bool" where
  "blanks s \<longleftrightarrow> list_all is_blank s"

definition name_char :: "char \<Rightarrow> bool" where
  "name_char c \<longleftrightarrow> is_letter c \<or> is_digit c \<or> c = CHR ''_''"

definition ident_text :: "string \<Rightarrow> bool" where
  "ident_text s \<longleftrightarrow> digits name_char s \<and> \<not> is_digit (hd s)"

definition number_text :: "string \<Rightarrow> bool" where
  "number_text s \<longleftrightarrow> digits is_digit s
     \<or> (\<exists>p d. s = p @ d \<and> (p \<in> {''0x'', ''0X''} \<and> digits is_hex d
          \<or> p \<in> {''0b'', ''0B''} \<and> digits (\<lambda>c. c \<in> set ''01'') d
          \<or> p \<in> {''0o'', ''0O''} \<and> digits (\<lambda>c. c \<in> set ''01234567'') d))
     \<or> float_text s \<and> set s \<inter> set ''.eE'' \<noteq> {}"

text \<open>A qualified name, and the type of a cast: a qualified name and asterisks and ampersands.\<close>

definition qualified_name :: "nom_text \<Rightarrow> string \<Rightarrow> bool" where
  "qualified_name n t \<longleftrightarrow> (\<exists>rest x. qualified_ident n (t @ rest) = Ok (rest, x))"

definition cast_type :: "nom_text \<Rightarrow> string \<Rightarrow> bool" where
  "cast_type n t \<longleftrightarrow> (\<exists>a q c. t = a @ q @ c \<and> blanks a \<and> qualified_name n q \<and> list_all (\<lambda>x. is_blank x \<or> x \<in> set ''*&'') c)"

fun prefix_texts :: "prefix_operator \<Rightarrow> string list" where
  "prefix_texts PreNot = [''!'', ''not'']"
| "prefix_texts PreMinus = [''-'']"
| "prefix_texts PrePlus = [''+'']"
| "prefix_texts PreInvert = [''~'']"
| "prefix_texts PreDeref = [''*'']"
| "prefix_texts PreAddress = [''&'']"

fun binary_texts :: "binary_operator \<Rightarrow> string list" where
  "binary_texts BinOr = [''or'', ''||'']"
| "binary_texts BinAnd = [''and'', ''&&'']"
| "binary_texts op = [python_binary op]"

inductive spelled :: "nom_text \<Rightarrow> simple \<Rightarrow> string \<Rightarrow> bool" for n where
  sp_blanks: "spelled n x s \<Longrightarrow> blanks a \<Longrightarrow> blanks b \<Longrightarrow> spelled n x (a @ s @ b)"
| sp_numeral: "number_text s \<Longrightarrow> spelled n (Numeral s) s"
| sp_true: "s \<in> {''true'', ''True''} \<Longrightarrow> spelled n (Truth True) s"
| sp_false: "s \<in> {''false'', ''False''} \<Longrightarrow> spelled n (Truth False) s"
| sp_literal: "python_literal s \<Longrightarrow> spelled n (Literal s) s"
| sp_named: "qualified_name n t \<Longrightarrow> spelled n (Named t) t"
| sp_native: "native_at n s t rest \<Longrightarrow> spelled n (Native t) s"
| sp_bracketed: "spelled n x s \<Longrightarrow> spelled n (Bracketed x) (''('' @ s @ '')'')"
| sp_cast: "cast_type n t \<Longrightarrow> spelled n x s \<Longrightarrow> spelled n (Cast t x) (''('' @ t @ '')'' @ s)"
| sp_prefix: "w \<in> set (prefix_texts op) \<Longrightarrow> spelled n x s \<Longrightarrow> spelled n (Prefix op x) (w @ s)"
| sp_binary: "spelled n x s \<Longrightarrow> w \<in> set (binary_texts op) \<Longrightarrow> spelled n y u \<Longrightarrow> spelled n (Binary x op y) (s @ w @ u)"
| sp_member: "spelled n x s \<Longrightarrow> blanks b \<Longrightarrow> ident_text a \<or> digits is_digit a \<Longrightarrow> spelled n (Member x a) (s @ ''.'' @ b @ a)"
| sp_arrow: "spelled n x s \<Longrightarrow> blanks b \<Longrightarrow> ident_text a \<Longrightarrow> spelled n (Arrow x a) (s @ ''->'' @ b @ a)"
| sp_index: "spelled n x s \<Longrightarrow> spelled n i u \<Longrightarrow> spelled n (Index x i) (s @ ''['' @ u @ '']'')"

lemma blanks_Nil [simp]: "blanks []"
  by (simp add: blanks_def)

lemma spelled_before: "spelled n x s \<Longrightarrow> blanks a \<Longrightarrow> spelled n x (a @ s)"
  using sp_blanks [of n x s a "[]"] by simp

lemma spelled_after: "spelled n x s \<Longrightarrow> blanks b \<Longrightarrow> spelled n x (s @ b)"
  using sp_blanks [of n x s "[]" b] by simp

end
