(* ===== verification/Simple_Reading.thy ===== *)
theory Simple_Reading
  imports Simple_Syntax
begin

text \<open>
  What the parsers of \<open>Simple_Expressions\<close> read is what \<open>Simple_Syntax\<close> calls spelled, and what they return is
  the Python it stands for.
\<close>

section \<open>The characters of names and numbers\<close>

named_theorems reading_chars \<open>parsers that read characters of one kind\<close>

definition reads_chars :: "(char \<Rightarrow> bool) \<Rightarrow> 'a parser \<Rightarrow> bool" where
  "reads_chars P p \<longleftrightarrow> (\<forall>input rest x. p input = Ok (rest, x) \<longrightarrow> (\<exists>t. input = t @ rest \<and> list_all P t))"

lemma reads_charsI: "(\<And>input rest x. p input = Ok (rest, x) \<Longrightarrow> \<exists>t. input = t @ rest \<and> list_all P t) \<Longrightarrow> reads_chars P p"
  by (simp add: reads_chars_def)

lemma reads_charsD: "reads_chars P p \<Longrightarrow> p input = Ok (rest, x) \<Longrightarrow> \<exists>t. input = t @ rest \<and> list_all P t"
  by (simp add: reads_chars_def)

lemma chars_mapped [reading_chars]: "reads_chars P p \<Longrightarrow> reads_chars P (mapped f p)"
  by (auto simp: reads_chars_def mapped_Ok)

lemma chars_followed [reading_chars]:
  assumes "reads_chars P p" "\<And>x. reads_chars P (q x)"
  shows "reads_chars P (followed p q)"
proof (rule reads_charsI)
  fix input rest y
  assume "followed p q input = Ok (rest, y)"
  then obtain mid x where "p input = Ok (mid, x)" "q x mid = Ok (rest, y)" by (auto simp: followed_Ok)
  with reads_charsD [OF assms(1)] reads_charsD [OF assms(2)]
  obtain t u where "input = t @ mid" "list_all P t" "mid = u @ rest" "list_all P u" by blast
  then show "\<exists>t. input = t @ rest \<and> list_all P t" by (intro exI [of _ "t @ u"]) simp
qed

lemma chars_paired [reading_chars]: "reads_chars P p \<Longrightarrow> reads_chars P q \<Longrightarrow> reads_chars P (paired p q)"
  unfolding paired_def by (intro reading_chars)

lemma chars_either_of [reading_chars]: "reads_chars P p \<Longrightarrow> reads_chars P q \<Longrightarrow> reads_chars P (either_of p q)"
  by (auto simp: reads_chars_def either_of_Ok)

lemma chars_recognized [reading_chars]: "reads_chars P p \<Longrightarrow> reads_chars P (recognized p)"
  by (auto simp: reads_chars_def recognized_Ok)

lemma chars_verified [reading_chars]: "reads_chars P p \<Longrightarrow> reads_chars P (verified p ok)"
  by (auto simp: reads_chars_def verified_Ok)

lemma chars_many0 [reading_chars]:
  assumes "reads_chars P p"
  shows "reads_chars P (many0 p)"
proof (rule reads_charsI)
  fix input rest and xs :: "'a list"
  show "many0 p input = Ok (rest, xs) \<Longrightarrow> \<exists>t. input = t @ rest \<and> list_all P t"
  proof (induction "length input" arbitrary: input xs rule: less_induct)
    case less
    show ?case
    proof (cases "\<exists>mid x. p input = Ok (mid, x) \<and> length mid < length input")
      case True
      then obtain mid x where mid: "p input = Ok (mid, x)" "length mid < length input" by blast
      with less(2) obtain ys where "many0 p mid = Ok (rest, ys)"
        by (subst (asm) many0.simps) (auto simp: map_res_eq_Ok)
      from less(1) [OF mid(2) this] reads_charsD [OF assms mid(1)]
      obtain t u where "input = t @ mid" "list_all P t" "mid = u @ rest" "list_all P u" by blast
      then show ?thesis by (intro exI [of _ "t @ u"]) simp
    next
      case False
      with less(2) have "rest = input"
        by (subst (asm) many0.simps) (auto split: res.splits nom_error.splits if_splits)
      then show ?thesis by (intro exI [of _ "[]"]) simp
    qed
  qed
qed

lemma chars_many1 [reading_chars]: "reads_chars P p \<Longrightarrow> reads_chars P (many1 p)"
  unfolding many1_def by (intro reading_chars)

lemma chars_run [reading_chars]:
  assumes "\<And>c. Q c \<Longrightarrow> P c"
  shows "reads_chars P (primitive (takes_while1 Q))"
proof (rule reads_charsI)
  fix input rest t
  assume "primitive (takes_while1 Q) input = Ok (rest, t)"
  then have "input = t @ rest" "list_all Q t" by (auto simp: primitive_Ok dest: takes_while1_run)
  with assms show "\<exists>t. input = t @ rest \<and> list_all P t" by (auto simp: list_all_iff)
qed

lemma chars_tagged [reading_chars]: "nom_text_ok n \<Longrightarrow> list_all P t \<Longrightarrow> reads_chars P (tagged n t)"
  by (auto simp: reads_chars_def tagged_Ok)

lemma chars_one_of [reading_chars]:
  "nom_text_ok n \<Longrightarrow> list_all is_ascii d \<Longrightarrow> list_all P d \<Longrightarrow> reads_chars P (primitive (nom_one_of n d))"
  by (rule reads_charsI) (auto simp: primitive_Ok nom_one_of_eq list_all_iff split: list.splits if_splits)

text \<open>What a parser that takes something recognizes of one kind.\<close>

lemma recognized_chars:
  assumes "reads_chars P p" "takes 1 p" "recognized p input = Ok (rest, t)"
  shows "t \<noteq> [] \<and> list_all P t \<and> input = t @ rest"
proof -
  obtain x where "p input = Ok (rest, x)" "t = take (length input - length rest) input"
    using assms(3) by (auto simp: recognized_Ok)
  with reads_charsD [OF assms(1)] obtain u where "input = u @ rest" "list_all P u" "t = u" by force
  moreover have "length rest < length input" using assms(2) \<open>p input = Ok (rest, x)\<close> by (fastforce simp: takes_def)
  ultimately show ?thesis by auto
qed

section \<open>Its parts\<close>

lemma takes_paired: "takes 1 p \<Longrightarrow> reads_part q \<Longrightarrow> takes 1 (paired p q)"
  unfolding takes_def paired_def followed_Ok mapped_Ok by (meson add_le_mono1 le_trans reads_part_length)

lemma takes_either_of: "takes 1 p \<Longrightarrow> takes 1 q \<Longrightarrow> takes 1 (either_of p q)"
  by (auto simp: takes_def either_of_Ok)

lemma takes_run: "takes 1 (primitive (takes_while1 P))"
proof -
  have "length rest < length input" if "takes_while1 P input = Some (rest, t)" for input rest t
  proof -
    from takes_while1_run [OF that] have "input = t @ rest" "t \<noteq> []" by auto
    then show ?thesis by simp
  qed
  then show ?thesis by (fastforce simp: takes_def primitive_Ok)
qed

text \<open>Blanks around what is read.\<close>

lemma blanks_takeWhile: "blanks (takeWhile is_blank s)"
  by (auto simp: blanks_def list_all_iff dest: set_takeWhileD)

lemma ws_reads:
  assumes "nom_text_ok n" "ws n p input = Ok (rest, x)"
  obtains a i b mid where "input = a @ i" "blanks a" "p i = Ok (mid, x)" "mid = b @ rest" "blanks b"
proof -
  from assms obtain mid where "p (dropWhile is_blank input) = Ok (mid, x)" "rest = dropWhile is_blank mid"
    by (auto simp: ws_def delimited_def preceded_def terminated_def followed_Ok mapped_Ok space0_Ok)
  then show thesis
    using that [of "takeWhile is_blank input" "dropWhile is_blank input" mid "takeWhile is_blank mid"] blanks_takeWhile
    by simp
qed

lemma tagged_any_reads:
  assumes "nom_text_ok n"
  shows "any_of (tagged n t) (map (tagged n) ts) input = Ok (rest, x) \<Longrightarrow> x \<in> set (t # ts) \<and> input = x @ rest"
proof (induction ts arbitrary: t)
  case Nil
  then show ?case by (simp add: tagged_Ok [OF assms])
next
  case (Cons u ts)
  from Cons(2) consider "tagged n t input = Ok (rest, x)" | "any_of (tagged n u) (map (tagged n) ts) input = Ok (rest, x)"
    by (auto simp: either_of_Ok)
  then show ?case using Cons(1) by cases (auto simp: tagged_Ok [OF assms])
qed

section \<open>Names and numbers\<close>

lemma name_reads:
  assumes n: "nom_text_ok n" and "ident n input = Ok (rest, t)"
  shows "ident_text t \<and> input = t @ rest"
proof -
  let ?first = "any_of (primitive (nom_alpha1 n)) [tagged n ''_'']"
  let ?more = "many0 (any_of (primitive (nom_alphanumeric1 n)) [tagged n ''_''])"
  have "reads_part (paired ?first ?more)" unfolding any_of.simps using n by (intro reading)
  then have input: "input = t @ rest" using recognized_part assms(2) by (simp add: ident_def)
  have "\<exists>z. paired ?first ?more input = Ok (rest, z)" using assms(2) unfolding ident_def recognized_Ok by blast
  then obtain x y mid where mid: "?first input = Ok (mid, x)" "?more mid = Ok (rest, y)"
    unfolding paired_def followed_Ok mapped_Ok by blast
  have "reads_chars name_char ?more" unfolding any_of.simps nom_runs [OF n]
    using n by (intro reading_chars) (auto simp: name_char_def)
  from reads_charsD [OF this mid(2)] obtain u where u: "mid = u @ rest" "list_all name_char u" by blast
  from mid(1) have "primitive (takes_while1 is_letter) input = Ok (mid, x) \<or> input = ''_'' @ mid"
    by (auto simp: either_of_Ok tagged_Ok [OF n] nom_runs [OF n])
  then obtain v where v: "input = v @ mid" "v \<noteq> []" "list_all name_char v" "\<not> is_digit (hd v)"
  proof
    assume "primitive (takes_while1 is_letter) input = Ok (mid, x)"
    then have "takes_while1 is_letter input = Some (mid, x)" by (simp add: primitive_Ok)
    from takes_while1_run [OF this] have x: "input = x @ mid" "x \<noteq> []" "list_all is_letter x" by auto
    then have "is_letter (hd x)" by (cases x) auto
    then have "\<not> is_digit (hd x)" by (auto simp: is_letter_def is_digit_def Let_def)
    with x that show ?thesis by (auto simp: list_all_iff name_char_def)
  next
    assume "input = ''_'' @ mid"
    moreover have "\<not> is_digit CHR ''_''" by (simp add: is_digit_def)
    ultimately show ?thesis using that [of "''_''"] by (simp add: name_char_def)
  qed
  from input u v have "t = v @ u" by simp
  with u v show ?thesis by (auto simp: input ident_text_def digits_def)
qed

lemma run_reads: "primitive (takes_while1 P) input = Ok (rest, t) \<Longrightarrow> digits P t \<and> input = t @ rest"
  by (auto simp: primitive_Ok digits_def dest: takes_while1_run)

lemma unsigned_reads:
  assumes n: "nom_text_ok n" and "recognized (unsigned_number n) input = Ok (rest, t)"
  shows "digits is_digit t \<and> input = t @ rest"
proof -
  obtain k where k: "unsigned_number n input = Ok (rest, k)" using assms(2) by (auto simp: recognized_Ok)
  have input: "input = t @ rest" by (rule recognized_part [OF reads_unsigned [OF n] assms(2)])
  from k have "unsigned_parser (nom.truncate n) input = Ok (rest, k)"
    by (cases "unsigned_parser (nom.truncate n) input") (simp_all add: unsigned_number_def)
  then obtain u where "takes_while1 is_digit input = Some (rest, u)"
    by (auto simp: unsigned_parser_def nom.defs nom_digit1_eq [OF n] split: option.splits)
  with takes_while1_run input show ?thesis by (fastforce simp: digits_def)
qed

text \<open>A literal with a prefix that says its base.\<close>

lemma based_reads:
  assumes n: "nom_text_ok n" and ok: "recognized (paired (any_of (tagged n p) [tagged n q]) ds) input = Ok (rest, t)"
    and ds: "reads_chars P ds" "takes 1 ds"
  shows "\<exists>w d. t = w @ d \<and> w \<in> {p, q} \<and> digits P d \<and> input = t @ rest"
proof -
  from ok have "\<exists>z. paired (any_of (tagged n p) [tagged n q]) ds input = Ok (rest, z)"
    and t: "t = take (length input - length rest) input" unfolding recognized_Ok by blast+
  then obtain x mid y where mid: "any_of (tagged n p) [tagged n q] input = Ok (mid, x)" "ds mid = Ok (rest, y)"
    unfolding paired_def followed_Ok mapped_Ok by blast
  from tagged_any_reads [OF n, of p "[q]"] mid(1) have x: "x \<in> {p, q}" "input = x @ mid" by simp_all
  from reads_charsD [OF ds(1) mid(2)] obtain d where d: "mid = d @ rest" "list_all P d" by blast
  have "length rest < length mid" using ds(2) mid(2) by (fastforce simp: takes_def)
  with d have "digits P d" by (auto simp: digits_def)
  with x d t show ?thesis by auto
qed

lemma takes_many1: "takes 1 p \<Longrightarrow> reads_part p \<Longrightarrow> takes 1 (many1 p)"
proof -
  assume p: "takes 1 p" "reads_part p"
  then have "reads_part (mapped (Cons x) (many0 p))" for x by (intro reading)
  with p(1) show "takes 1 (many1 p)"
    unfolding takes_def many1_def followed_Ok by (meson add_le_mono1 le_trans reads_part_length)
qed

lemma one_of_reads:
  assumes n: "nom_text_ok n" and d: "list_all is_ascii d"
  shows "reads_chars (\<lambda>c. c \<in> set d) (many1 (primitive (nom_one_of n d)))" "takes 1 (many1 (primitive (nom_one_of n d)))"
proof -
  show "reads_chars (\<lambda>c. c \<in> set d) (many1 (primitive (nom_one_of n d)))"
    using n d by (intro reading_chars) (auto simp: list_all_iff)
  have "takes 1 (primitive (nom_one_of n d))"
    using nom_one_of_eq [OF n d] by (auto simp: takes_def primitive_Ok split: list.splits if_splits)
  then show "takes 1 (many1 (primitive (nom_one_of n d)))" using n d by (intro takes_many1 reading)
qed

lemma integer_reads:
  assumes n: "nom_text_ok n" and "integer_literal n input = Ok (rest, t)"
  shows "number_text t \<and> input = t @ rest"
proof -
  have hex: "reads_chars is_hex (primitive (nom_hex_digit1 n))" "takes 1 (primitive (nom_hex_digit1 n))"
    unfolding nom_runs [OF n] by (rule chars_run takes_run; simp)+
  note ascii = ascii_digits(1,2)
  from assms(2) consider "hex_literal n input = Ok (rest, t)" | "binary_literal n input = Ok (rest, t)"
    | "octal_literal n input = Ok (rest, t)" | "decimal_literal n input = Ok (rest, t)"
    unfolding integer_literal_def any_of.simps either_of_Ok by blast
  then show ?thesis
  proof cases
    case 1
    from based_reads [OF n this [unfolded hex_literal_def] hex] show ?thesis by (auto simp: number_text_def)
  next
    case 2
    from based_reads [OF n this [unfolded binary_literal_def] one_of_reads [OF n ascii(1)]]
    show ?thesis unfolding number_text_def by blast
  next
    case 3
    from based_reads [OF n this [unfolded octal_literal_def] one_of_reads [OF n ascii(2)]]
    show ?thesis unfolding number_text_def by blast
  next
    case 4
    with run_reads [of is_digit input rest t] show ?thesis
      by (simp add: decimal_literal_def nom_digit1_eq [OF n] number_text_def)
  qed
qed

lemma number_reads:
  assumes n: "nom_text_ok n" and "numeric_literal n input = Ok (rest, t)"
  shows "number_text t \<and> input = t @ rest"
proof -
  from assms(2) consider "float_literal n input = Ok (rest, t)" | "integer_literal n input = Ok (rest, t)"
    unfolding numeric_literal_def any_of.simps either_of_Ok by blast
  then show ?thesis
  proof cases
    case 1
    then have "nom_recognize_float n input = Ok (rest, t)" "set t \<inter> set ''.eE'' \<noteq> {}"
      by (auto simp: float_literal_def verified_Ok)
    moreover from this n have "input = t @ rest \<and> float_text t" unfolding nom_text_ok_def by blast
    ultimately show ?thesis by (auto simp: number_text_def)
  qed (rule integer_reads [OF n])
qed

section \<open>Operators\<close>

lemma prefix_reads:
  assumes n: "nom_text_ok n" and "prefix_op n input = Ok (rest, (k, op))"
  shows "\<exists>p a b. k = 3 \<and> op \<in> set (prefix_texts p) \<and> blanks a \<and> blanks b \<and> input = (a @ op @ b) @ rest"
proof -
  let ?any = "any_of (tagged n ''!'') (map (tagged n) [''not'', ''-'', ''+'', ''~'', ''*'', ''&''])"
  from assms(2) have "ws n ?any input = Ok (rest, op)" and k: "k = 3" by (auto simp: prefix_op_def mapped_Ok)
  from ws_reads [OF n this(1)] obtain a i mid b where a: "input = a @ i" "blanks a" "?any i = Ok (mid, op)"
    "mid = b @ rest" "blanks b" .
  from tagged_any_reads [OF n a(3)] have op: "op \<in> set [''!'', ''not'', ''-'', ''+'', ''~'', ''*'', ''&'']" and i: "i = op @ mid"
    by simp_all
  from op obtain p where "op \<in> set (prefix_texts p)"
    using that [of PreNot] that [of PreMinus] that [of PrePlus] that [of PreInvert] that [of PreDeref] that [of PreAddress]
    by auto
  with k a i show ?thesis by (intro exI [of _ p] exI [of _ a] exI [of _ b]) simp
qed

definition binary_assoc :: "binary_operator \<Rightarrow> assoc" where
  "binary_assoc op = (if op = BinPow then RightAssoc else LeftAssoc)"

text \<open>A parser of operators: what it returns is an operator of \<open>Simple_Syntax\<close> that stands in the input.\<close>

definition stands_for :: "nat \<Rightarrow> assoc \<Rightarrow> string \<Rightarrow> string \<Rightarrow> bool" where
  "stands_for k s op w \<longleftrightarrow> (\<exists>q. k = binary_level q \<and> s = binary_assoc q \<and> op = python_binary q \<and> w \<in> set (binary_texts q))"

definition reads_operator :: "(nat \<times> assoc \<times> string) parser \<Rightarrow> bool" where
  "reads_operator p \<longleftrightarrow> (\<forall>input rest k s op. p input = Ok (rest, (k, s, op)) \<longrightarrow> (\<exists>w. stands_for k s op w \<and> input = w @ rest))"

lemma reads_operator_either: "reads_operator p \<Longrightarrow> reads_operator q \<Longrightarrow> reads_operator (either_of p q)"
  unfolding reads_operator_def either_of_Ok by blast

lemma reads_operator_tags:
  assumes "nom_text_ok n" "\<And>w. w \<in> set (t # ts) \<Longrightarrow> stands_for k s w w"
  shows "reads_operator (binary_of k s (any_of (tagged n t) (map (tagged n) ts)))"
  using tagged_any_reads [OF assms(1), of t ts] assms(2) unfolding reads_operator_def binary_of_def mapped_Ok by blast

lemma reads_operator_word:
  assumes "nom_text_ok n" "stands_for k s op t" "stands_for k s op u"
  shows "reads_operator (binary_of k s (mapped (\<lambda>_. op) (any_of (tagged n t) [tagged n u])))"
  using assms(2,3) unfolding reads_operator_def binary_of_def any_of.simps mapped_Ok either_of_Ok tagged_Ok [OF assms(1)] by blast

lemma operators_stand:
  "stands_for 15 LeftAssoc ''or'' ''or''" "stands_for 15 LeftAssoc ''or'' ''||''"
  "stands_for 14 LeftAssoc ''and'' ''and''" "stands_for 14 LeftAssoc ''and'' ''&&''"
  "w \<in> {''<<'', ''>>''} \<Longrightarrow> stands_for 7 LeftAssoc w w"
  "stands_for 4 RightAssoc ''**'' ''**''"
  "w \<in> {''>='', ''>'', ''<='', ''<''} \<Longrightarrow> stands_for 9 LeftAssoc w w"
  "w \<in> {''+'', ''-''} \<Longrightarrow> stands_for 6 LeftAssoc w w"
  "w \<in> {''*'', ''//'', ''/'', ''%''} \<Longrightarrow> stands_for 5 LeftAssoc w w"
  "stands_for 13 LeftAssoc ''|'' ''|''" "stands_for 12 LeftAssoc ''^'' ''^''" "stands_for 11 LeftAssoc ''&'' ''&''"
  "w \<in> {''=='', ''!=''} \<Longrightarrow> stands_for 10 LeftAssoc w w"
  unfolding stands_for_def binary_assoc_def
              apply (rule exI [of _ BinOr], simp)
             apply (rule exI [of _ BinOr], simp)
            apply (rule exI [of _ BinAnd], simp)
           apply (rule exI [of _ BinAnd], simp)
          apply (rule exI [of _ "if w = ''<<'' then BinShl else BinShr"], auto)[1]
         apply (rule exI [of _ BinPow], simp)
        apply (rule exI [of _ "if w = ''>='' then BinGe else if w = ''>'' then BinGt else if w = ''<='' then BinLe else BinLt"], auto)[1]
       apply (rule exI [of _ "if w = ''+'' then BinAdd else BinSub"], auto)[1]
      apply (rule exI [of _ "if w = ''*'' then BinMul else if w = ''//'' then BinFloorDiv else if w = ''/'' then BinDiv else BinMod"], auto)[1]
     apply (rule exI [of _ BinBitOr], simp)
    apply (rule exI [of _ BinBitXor], simp)
   apply (rule exI [of _ BinBitAnd], simp)
  apply (rule exI [of _ "if w = ''=='' then BinEq else BinNe"], auto)[1]
  done

lemma binary_reads:
  assumes n: "nom_text_ok n" and "binary_op n input = Ok (rest, (k, s, op))"
  shows "\<exists>w a b. stands_for k s op w \<and> blanks a \<and> blanks b \<and> input = (a @ w @ b) @ rest"
proof -
  obtain p where p: "binary_op n = ws n p" "reads_operator p"
  proof (rule that)
    show "reads_operator (any_of
     (binary_of 15 LeftAssoc (mapped (\<lambda>_. ''or'') (any_of (tagged n ''or'') [tagged n ''||''])))
     [binary_of 14 LeftAssoc (mapped (\<lambda>_. ''and'') (any_of (tagged n ''and'') [tagged n ''&&''])),
      binary_of 7 LeftAssoc (any_of (tagged n ''<<'') [tagged n ''>>'']),
      binary_of 4 RightAssoc (tagged n ''**''),
      binary_of 9 LeftAssoc (any_of (tagged n ''>='') [tagged n ''>'', tagged n ''<='', tagged n ''<'']),
      binary_of 6 LeftAssoc (any_of (tagged n ''+'') [tagged n ''-'']),
      binary_of 5 LeftAssoc (any_of (tagged n ''*'') [tagged n ''//'', tagged n ''/'', tagged n ''%'']),
      binary_of 13 LeftAssoc (tagged n ''|''),
      binary_of 12 LeftAssoc (tagged n ''^''),
      binary_of 11 LeftAssoc (tagged n ''&''),
      binary_of 10 LeftAssoc (any_of (tagged n ''=='') [tagged n ''!=''])])"
      (is "reads_operator (any_of ?or [?and, ?shift, ?pow, ?order, ?sum, ?product, ?bitor, ?bitxor, ?bitand, ?eq])")
    proof -
      have "reads_operator ?or" by (rule reads_operator_word [OF n operators_stand(1,2)])
      moreover have "reads_operator ?and" by (rule reads_operator_word [OF n operators_stand(3,4)])
      moreover have "reads_operator ?shift" using reads_operator_tags [OF n, of "''<<''" "[''>>'']"] operators_stand(5) by simp
      moreover have "reads_operator ?pow" using reads_operator_tags [OF n, of "''**''" "[]"] operators_stand(6) by simp
      moreover have "reads_operator ?order"
        using reads_operator_tags [OF n, of "''>=''" "[''>'', ''<='', ''<'']"] operators_stand(7) by simp
      moreover have "reads_operator ?sum" using reads_operator_tags [OF n, of "''+''" "[''-'']"] operators_stand(8) by simp
      moreover have "reads_operator ?product"
        using reads_operator_tags [OF n, of "''*''" "[''//'', ''/'', ''%'']"] operators_stand(9) by simp
      moreover have "reads_operator ?bitor" using reads_operator_tags [OF n, of "''|''" "[]"] operators_stand(10) by simp
      moreover have "reads_operator ?bitxor" using reads_operator_tags [OF n, of "''^''" "[]"] operators_stand(11) by simp
      moreover have "reads_operator ?bitand" using reads_operator_tags [OF n, of "''&''" "[]"] operators_stand(12) by simp
      moreover have "reads_operator ?eq" using reads_operator_tags [OF n, of "''==''" "[''!='']"] operators_stand(13) by simp
      ultimately show ?thesis unfolding any_of.simps by (intro reads_operator_either)
    qed
  qed (simp only: binary_op_def)
  from assms(2) have "ws n p input = Ok (rest, (k, s, op))" by (simp only: p(1))
  from ws_reads [OF n this] obtain a i mid b where a: "input = a @ i" "blanks a" "p i = Ok (mid, (k, s, op))"
    "mid = b @ rest" "blanks b" .
  with p(2) obtain w where "stands_for k s op w" "i = w @ mid" unfolding reads_operator_def by blast
  with a show ?thesis by (intro exI [of _ w] exI [of _ a] exI [of _ b]) simp
qed

section \<open>Operands\<close>

text \<open>A parser of expressions that are translated as they are spelled.\<close>

definition translates :: "nom_text \<Rightarrow> string parser \<Rightarrow> bool" where
  "translates n e \<longleftrightarrow> (\<forall>input rest x. e input = Ok (rest, x) \<longrightarrow>
     (\<exists>v s. input = s @ rest \<and> spelled n v s \<and> grouped v \<and> python_of v = x))"

lemma translatesD:
  "translates n e \<Longrightarrow> e input = Ok (rest, x) \<Longrightarrow>
     \<exists>v s. input = s @ rest \<and> spelled n v s \<and> grouped v \<and> python_of v = x"
  unfolding translates_def by blast

lemma boolean_reads:
  assumes n: "nom_text_ok n" and "boolean_literal n input = Ok (rest, x)"
  shows "\<exists>b s. input = s @ rest \<and> spelled n (Truth b) s \<and> x = python_of (Truth b)"
proof -
  from assms(2) obtain mid where "any_of (mapped (\<lambda>_. ''True'') (any_of (tagged n ''true'') [tagged n ''True'']))
        [mapped (\<lambda>_. ''False'') (any_of (tagged n ''false'') [tagged n ''False''])] input = Ok (mid, x)" "mid = rest"
    unfolding boolean_literal_def terminated_def followed_Ok mapped_Ok not_followed_Ok by blast
  then consider s where "s \<in> {''true'', ''True''}" "x = ''True''" "input = s @ rest"
    | s where "s \<in> {''false'', ''False''}" "x = ''False''" "input = s @ rest"
    unfolding any_of.simps either_of_Ok mapped_Ok tagged_Ok [OF n] by blast
  then show ?thesis
  proof cases
    case 1
    then show ?thesis using sp_true by (intro exI [of _ True] exI [of _ s]) auto
  next
    case 2
    then show ?thesis using sp_false by (intro exI [of _ False] exI [of _ s]) auto
  qed
qed

lemma qualified_reads:
  assumes n: "nom_text_ok n" and "recognized (qualified_ident n) input = Ok (rest, t)"
  shows "qualified_name n t \<and> input = t @ rest"
proof -
  have "input = t @ rest" by (rule recognized_part [OF reads_qualified_ident [OF n] assms(2)])
  moreover obtain x where "qualified_ident n input = Ok (rest, x)" using assms(2) by (auto simp: recognized_Ok)
  ultimately show ?thesis unfolding qualified_name_def by blast
qed

lemma cast_reads:
  assumes n: "nom_text_ok n" and "cast_parser n input = Ok (rest, t)"
  shows "cast_type n t \<and> input = ''('' @ t @ '')'' @ rest"
proof -
  let ?type = "paired (ws n (qualified_ident n)) (many0 (ws n (primitive (nom_one_of n ''*&''))))"
  from assms(2) obtain i j where i: "input = CHR ''('' # i" and type: "recognized ?type i = Ok (j, t)"
    and j: "j = CHR '')'' # rest"
    by (auto simp: cast_parser_def delimited_def preceded_def terminated_def followed_Ok mapped_Ok char_is_Ok [OF n])
  have "reads_part ?type" using n ascii_digits(3) by (intro reading)
  from recognized_part [OF this type] have t: "i = t @ j" .
  from type have "\<exists>z. ?type i = Ok (j, z)" unfolding recognized_Ok by blast
  then obtain mid q y where q: "ws n (qualified_ident n) i = Ok (mid, q)"
    and stars: "many0 (ws n (primitive (nom_one_of n ''*&''))) mid = Ok (j, y)"
    unfolding paired_def followed_Ok mapped_Ok by blast
  from ws_reads [OF n q] obtain a k m b where a: "i = a @ k" "blanks a" "qualified_ident n k = Ok (m, q)" "m = b @ mid" "blanks b" .
  from reads_partD [OF reads_qualified_ident [OF n] a(3)] obtain u where u: "k = u @ m" by (auto simp: suffix_def)
  with a(3) have name: "qualified_name n u" unfolding qualified_name_def by blast
  have "reads_chars (\<lambda>x. is_blank x \<or> x \<in> set ''*&'') (ws n (primitive (nom_one_of n ''*&'')))"
  proof (rule reads_charsI)
    fix s r x
    assume "ws n (primitive (nom_one_of n ''*&'')) s = Ok (r, x)"
    from ws_reads [OF n this] obtain a k m b where "s = a @ k" "blanks a" "primitive (nom_one_of n ''*&'') k = Ok (m, x)"
      "m = b @ r" "blanks b" .
    moreover from this(3) obtain c where "k = c # m" "c \<in> set ''*&''"
      by (auto simp: primitive_Ok nom_one_of_eq [OF n ascii_digits(3)] split: list.splits if_splits)
    ultimately show "\<exists>t. s = t @ r \<and> list_all (\<lambda>x. is_blank x \<or> x \<in> set ''*&'') t"
      by (intro exI [of _ "a @ c # b"]) (auto simp: blanks_def list_all_iff)
  qed
  from reads_charsD [OF chars_many0 [OF this] stars] obtain c where c: "mid = c @ j"
    "list_all (\<lambda>x. is_blank x \<or> x \<in> set ''*&'') c" by blast
  have "t = a @ u @ (b @ c)" using t a u c by simp
  moreover have "list_all (\<lambda>x. is_blank x \<or> x \<in> set ''*&'') (b @ c)" using a(5) c(2) by (auto simp: blanks_def list_all_iff)
  ultimately have "cast_type n t" using a(2) name unfolding cast_type_def by blast
  with i t j show ?thesis by simp
qed

lemma bracketed_reads:
  assumes n: "nom_text_ok n" and e: "translates n e"
    and "delimited (tagged n ''('') e (tagged n '')'') input = Ok (rest, x)"
  shows "\<exists>v s. input = s @ rest \<and> spelled n (Bracketed v) s \<and> grouped v \<and> python_of v = x"
proof -
  from assms(3) obtain i j where i: "input = ''('' @ i" and x: "e i = Ok (j, x)" and j: "j = '')'' @ rest"
    by (auto simp: delimited_def preceded_def terminated_def followed_Ok mapped_Ok tagged_Ok [OF n])
  from translatesD [OF e x] obtain v s where v: "i = s @ j" "spelled n v s" "grouped v" "python_of v = x" by blast
  from sp_bracketed [OF v(2)] v i j show ?thesis by (intro exI [of _ v] exI [of _ "''('' @ s @ '')''"]) simp
qed

lemma primary_reads:
  assumes n: "nom_text_ok n" and e: "translates n e"
    and "any_of (numeric_literal n) [boolean_literal n, python_string n,
       mapped eval_call (recognized (qualified_ident n)), mapped eval_call (native_expr n),
       mapped (\<lambda>x. ''('' @ x @ '')'') (delimited (tagged n ''('') e (tagged n '')''))] input = Ok (rest, x)"
  shows "\<exists>v s. input = s @ rest \<and> spelled n v s \<and> grouped v \<and> level v = 0 \<and> python_of v = x"
proof -
  have call: "eval_call t = ''__eval('' @ in_quotes t @ '')''" for t by (simp add: eval_call_def in_quotes_def)
  from assms(3) consider "numeric_literal n input = Ok (rest, x)" | "boolean_literal n input = Ok (rest, x)"
    | "python_string n input = Ok (rest, x)"
    | t where "recognized (qualified_ident n) input = Ok (rest, t)" "x = eval_call t"
    | t where "native_expr n input = Ok (rest, t)" "x = eval_call t"
    | z where "delimited (tagged n ''('') e (tagged n '')'') input = Ok (rest, z)" "x = ''('' @ z @ '')''"
    unfolding any_of.simps either_of_Ok mapped_Ok by blast
  then show ?thesis
  proof cases
    case 1
    from number_reads [OF n this] show ?thesis using sp_numeral [of x n]
      by (intro exI [of _ "Numeral x"] exI [of _ x]) simp
  next
    case 2
    from boolean_reads [OF n this] obtain b s where "input = s @ rest" "spelled n (Truth b) s" "x = python_of (Truth b)" by blast
    then show ?thesis by (intro exI [of _ "Truth b"] exI [of _ s]) simp
  next
    case 3
    with python_string_Ok [OF n] have "input = x @ rest" "python_literal x" by blast+
    then show ?thesis using sp_literal [of x n] by (intro exI [of _ "Literal x"] exI [of _ x]) simp
  next
    case 4
    from qualified_reads [OF n 4(1)] show ?thesis using sp_named [of n t] 4(2)
      by (intro exI [of _ "Named t"] exI [of _ t]) (simp add: call)
  next
    case 5
    from 5(1) native_expr_Ok [OF n] obtain s where "input = s @ rest" "native_at n s t rest" by blast
    then show ?thesis using sp_native [of n s t rest] 5(2) by (intro exI [of _ "Native t"] exI [of _ s]) (simp add: call)
  next
    case 6
    from bracketed_reads [OF n e 6(1)] obtain v s where "input = s @ rest" "spelled n (Bracketed v) s" "grouped v"
      "python_of v = z" by blast
    then show ?thesis using 6(2) by (intro exI [of _ "Bracketed v"] exI [of _ s]) simp
  qed
qed

lemma operand_reads:
  assumes n: "nom_text_ok n" and e: "translates n e" and ok: "operand n e input = Ok (rest, x)"
  shows "\<exists>v s. input = s @ rest \<and> spelled n v s \<and> grouped v \<and> level v = 0 \<and> python_of v = x"
proof -
  let ?alts = "any_of (numeric_literal n) [boolean_literal n, python_string n,
     mapped eval_call (recognized (qualified_ident n)), mapped eval_call (native_expr n),
     mapped (\<lambda>x. ''('' @ x @ '')'') (delimited (tagged n ''('') e (tagged n '')''))]"
  from ok obtain c y mid where c: "optional (ws n (cast_parser n)) input = Ok (mid, c)" and y: "ws n ?alts mid = Ok (rest, y)"
    and x: "x = (case c of Some c \<Rightarrow> ''Value.cast('' @ in_quotes c @ '', '' @ y @ '')'' | None \<Rightarrow> y)"
    unfolding operand_def mapped_Ok paired_def followed_Ok by auto
  from ws_reads [OF n y] obtain a i m b where a: "mid = a @ i" "blanks a" "?alts i = Ok (m, y)" "m = b @ rest" "blanks b" .
  from primary_reads [OF n e a(3)] obtain v s where v: "i = s @ m" "spelled n v s" "grouped v" "level v = 0" "python_of v = y"
    by blast
  let ?s = "a @ s @ b"
  have s: "mid = ?s @ rest" "spelled n v ?s" using a v sp_blanks by simp_all
  show ?thesis
  proof (cases c)
    case None
    with c have "mid = input" by (auto simp: optional_Ok)
    with None s v x show ?thesis by (intro exI [of _ v] exI [of _ ?s]) simp
  next
    case (Some t)
    with c have "ws n (cast_parser n) input = Ok (mid, t)" by (auto simp: optional_Ok)
    from ws_reads [OF n this] obtain a' i' m' b' where w: "input = a' @ i'" "blanks a'" "cast_parser n i' = Ok (m', t)"
      "m' = b' @ mid" "blanks b'" .
    from cast_reads [OF n w(3)] have t: "cast_type n t" "i' = ''('' @ t @ '')'' @ m'" by simp_all
    have "spelled n (Cast t v) (a' @ (''('' @ t @ '')'' @ (b' @ ?s)))"
      by (rule spelled_before [OF sp_cast [OF t(1) spelled_before [OF s(2) w(5)]] w(2)])
    with Some s t v w x show ?thesis
      by (intro exI [of _ "Cast t v"] exI [of _ "a' @ (''('' @ t @ '')'' @ (b' @ ?s))"]) simp
  qed
qed

section \<open>Members and indices\<close>

fun token_spelled :: "nom_text \<Rightarrow> token \<Rightarrow> string \<Rightarrow> bool" where
  "token_spelled n (PrefixToken k op) u \<longleftrightarrow>
     (\<exists>p a b. k = 3 \<and> op \<in> set (prefix_texts p) \<and> blanks a \<and> blanks b \<and> u = a @ op @ b)"
| "token_spelled n (OperandToken x) u \<longleftrightarrow> (\<exists>v. spelled n v u \<and> grouped v \<and> level v = 0 \<and> python_of v = x)"
| "token_spelled n (BinaryToken k s op) u \<longleftrightarrow> (\<exists>w a b. stands_for k s op w \<and> blanks a \<and> blanks b \<and> u = a @ w @ b)"
| "token_spelled n (PostfixToken k op arg) u \<longleftrightarrow> k = 2 \<and> (\<exists>a b c. blanks a \<and> blanks b \<and> blanks c \<and>
     (op = ''.'' \<and> (ident_text arg \<or> digits is_digit arg) \<and> u = a @ ''.'' @ b @ arg
      \<or> op = ''->'' \<and> ident_text arg \<and> u = a @ ''->'' @ b @ arg
      \<or> op = ''[]'' \<and> (\<exists>v t. spelled n v t \<and> grouped v \<and> python_of v = arg \<and> u = a @ ''['' @ t @ '']'' @ c)))"

lemma postfix_reads:
  assumes n: "nom_text_ok n" and e: "translates n e" and ok: "postfix_op n e input = Ok (rest, (k, op, arg))"
  shows "\<exists>u. token_spelled n (PostfixToken k op arg) u \<and> input = u @ rest"
proof -
  have k: "k = 2" using ok by (auto simp: postfix_op_def mapped_Ok)
  from ok consider (member) i y where "op = ''.''" "ws n (char_is n CHR ''.'') input = Ok (i, y)"
        "ident n i = Ok (rest, arg) \<or> recognized (unsigned_number n) i = Ok (rest, arg)"
    | (arrow) i y where "op = ''->''" "ws n (tagged n ''->'') input = Ok (i, y)" "ident n i = Ok (rest, arg)"
    | (index) i j y z where "op = ''[]''" "ws n (char_is n CHR ''['') input = Ok (i, y)"
        "any_of (integer_literal n) [e] i = Ok (j, arg)" "ws n (char_is n CHR '']'') j = Ok (rest, z)"
    unfolding postfix_op_def any_of.simps mapped_Ok either_of_Ok preceded_def delimited_def terminated_def followed_Ok by blast
  then show ?thesis
  proof cases
    case member
    from ws_reads [OF n member(2)] obtain a i' m b where w: "input = a @ i'" "blanks a" "char_is n CHR ''.'' i' = Ok (m, y)"
      "m = b @ i" "blanks b" .
    moreover have "(ident_text arg \<or> digits is_digit arg) \<and> i = arg @ rest"
      using member(3) name_reads [OF n] unsigned_reads [OF n] by blast
    ultimately show ?thesis using k member(1)
      by (intro exI [of _ "a @ ''.'' @ b @ arg"]) (auto simp: char_is_Ok [OF n] intro: exI [of _ "[]"])
  next
    case arrow
    from ws_reads [OF n arrow(2)] obtain a i' m b where w: "input = a @ i'" "blanks a" "tagged n ''->'' i' = Ok (m, y)"
      "m = b @ i" "blanks b" .
    moreover have "ident_text arg \<and> i = arg @ rest" by (rule name_reads [OF n arrow(3)])
    ultimately show ?thesis using k arrow(1)
      by (intro exI [of _ "a @ ''->'' @ b @ arg"]) (auto simp: tagged_Ok [OF n] intro: exI [of _ "[]"])
  next
    case index
    from ws_reads [OF n index(2)] obtain a i' m b where w: "input = a @ i'" "blanks a" "char_is n CHR ''['' i' = Ok (m, y)"
      "m = b @ i" "blanks b" .
    from ws_reads [OF n index(4)] obtain c j' m' d where x: "j = c @ j'" "blanks c" "char_is n CHR '']'' j' = Ok (m', z)"
      "m' = d @ rest" "blanks d" .
    have "\<exists>v t. i = t @ j \<and> spelled n v t \<and> grouped v \<and> python_of v = arg"
    proof (cases "integer_literal n i = Ok (j, arg)")
      case True
      from integer_reads [OF n True] sp_numeral [of arg n] show ?thesis
        by (intro exI [of _ "Numeral arg"] exI [of _ arg]) simp
    next
      case False
      with index(3) have "e i = Ok (j, arg)" by (auto simp: either_of_Ok)
      from translatesD [OF e this] show ?thesis by blast
    qed
    then obtain v t where v: "i = t @ j" "spelled n v t" "grouped v" "python_of v = arg" by blast
    have "spelled n v (b @ t @ c)" using v(2) w(5) x(2) by (rule sp_blanks)
    then have "token_spelled n (PostfixToken k op arg) (a @ ''['' @ (b @ t @ c) @ '']'' @ d)"
      unfolding token_spelled.simps using k index(1) v(3,4) w(2) x(5) blanks_Nil by blast
    with v w x show ?thesis
      by (intro exI [of _ "a @ ''['' @ (b @ t @ c) @ '']'' @ d"]) (simp add: char_is_Ok [OF n] del: token_spelled.simps)
  qed
qed

section \<open>Sequences and trees\<close>

lemma tokens_spelled:
  assumes n: "nom_text_ok n" and e: "translates n e"
    and "token_sequence (prefix_op n) (postfix_op n e) (binary_op n) (operand n e) input ts rest"
  shows "\<exists>us. list_all2 (token_spelled n) ts us \<and> input = concat us @ rest"
  using assms(3)
proof (induction rule: token_sequence.induct)
  case (no_token input)
  show ?case by (intro exI [of _ "[]"]) simp
next
  case (prefix_token input mid k op ts rest)
  then obtain us where us: "list_all2 (token_spelled n) ts us" "mid = concat us @ rest" by blast
  from prefix_reads [OF n prefix_token(1)] obtain u where "token_spelled n (PrefixToken k op) u" "input = u @ mid"
    unfolding token_spelled.simps by blast
  with us show ?case by (intro exI [of _ "u # us"]) (simp del: token_spelled.simps)
next
  case (operand_token input mid t ts rest)
  then obtain us where us: "list_all2 (token_spelled n) ts us" "mid = concat us @ rest" by blast
  from operand_reads [OF n e operand_token(1)] obtain u where "token_spelled n (OperandToken t) u" "input = u @ mid"
    unfolding token_spelled.simps by blast
  with us show ?case by (intro exI [of _ "u # us"]) (simp del: token_spelled.simps)
next
  case (binary_token input mid k a op ts rest)
  then obtain us where us: "list_all2 (token_spelled n) ts us" "mid = concat us @ rest" by blast
  from binary_reads [OF n binary_token(1)] obtain u where "token_spelled n (BinaryToken k a op) u" "input = u @ mid"
    unfolding token_spelled.simps by blast
  with us show ?case by (intro exI [of _ "u # us"]) (simp del: token_spelled.simps)
next
  case (postfix_token input mid k op arg ts rest)
  then obtain us where us: "list_all2 (token_spelled n) ts us" "mid = concat us @ rest" by blast
  from postfix_reads [OF n e postfix_token(1)] obtain u where "token_spelled n (PostfixToken k op arg) u" "input = u @ mid"
    by blast
  with us show ?case by (intro exI [of _ "u # us"]) (simp del: token_spelled.simps)
qed

fun tree_level :: "op_tree \<Rightarrow> nat" where
  "tree_level (Leaf x) = 0"
| "tree_level (Prefixed k op t) = k"
| "tree_level (Infixed t k a op u) = k"
| "tree_level (Suffixed t k op arg) = k"

lemma apply_prefix:
  "op \<in> set (prefix_texts p) \<Longrightarrow> apply_operation (PrefixOp op x) = Ok (python_prefix p x)"
  by (cases p) auto

lemma binary_level_between: "4 \<le> binary_level q \<and> (binary_level q = 4 \<longleftrightarrow> q = BinPow)"
  by (cases q) simp_all

text \<open>The operands of a binary operator bind as tightly as the syntax asks.\<close>

lemma operand_level:
  assumes "list_all2 (token_spelled n) (tokens_of t) us"
  obtains (tight) "tree_level t \<le> 3" | (operator) t' q op u' where "t = Infixed t' (binary_level q) (binary_assoc q) op u'"
  using assms that by (cases t) (auto simp: list_all2_append1 list_all2_Cons1 stands_for_def)

lemma left_level:
  assumes "list_all2 (token_spelled n) (tokens_of t) us" "left_within (binary_level q) (binary_assoc q) t"
  shows "if q = BinPow then tree_level t < 4 else tree_level t \<le> binary_level q"
  using assms(1)
proof (cases rule: operand_level)
  case tight
  then show ?thesis using binary_level_between [of q] by auto
next
  case (operator t' r op u')
  then show ?thesis using assms(2) binary_level_between [of q] binary_level_between [of r]
    by (auto simp: binary_assoc_def)
qed

lemma right_level:
  assumes "list_all2 (token_spelled n) (tokens_of u) us" "right_within (binary_level q) u"
  shows "if q = BinPow then tree_level u \<le> 4 else tree_level u < binary_level q"
  using assms(1)
proof (cases rule: operand_level)
  case tight
  then show ?thesis using binary_level_between [of q] by auto
next
  case (operator t' r op u')
  then show ?thesis using assms(2) binary_level_between [of q] binary_level_between [of r]
    by (auto simp: binary_assoc_def split: if_splits)
qed

text \<open>
  What a tree over tokens is folded to is the Python of the expression that the tokens spell.
\<close>

lemma tree_spelled:
  "list_all2 (token_spelled n) (tokens_of t) us \<Longrightarrow> grouped_tree t \<Longrightarrow> fold_tree apply_operation t = Ok x \<Longrightarrow>
     \<exists>v. spelled n v (concat us) \<and> grouped v \<and> python_of v = x \<and> level v = tree_level t"
proof (induction t arbitrary: us x)
  case (Leaf t)
  then obtain u where "us = [u]" "token_spelled n (OperandToken t) u" by (auto simp: list_all2_Cons1)
  with Leaf(3) show ?case by auto
next
  case (Prefixed k op t)
  then obtain u us' where us: "us = u # us'" "token_spelled n (PrefixToken k op) u" "list_all2 (token_spelled n) (tokens_of t) us'"
    by (auto simp: list_all2_Cons1 simp del: token_spelled.simps)
  from Prefixed(4) obtain y where y: "fold_tree apply_operation t = Ok y" "apply_operation (PrefixOp op y) = Ok x"
    by (auto simp: bind_res_eq_Ok simp del: apply_operation.simps)
  from Prefixed(1) [OF us(3) _ y(1)] Prefixed(3) obtain v where
    v: "spelled n v (concat us')" "grouped v" "python_of v = y" "level v = tree_level t" by auto
  from us(2) obtain p a b where p: "k = 3" "op \<in> set (prefix_texts p)" "blanks a" "blanks b" "u = a @ op @ b" by auto
  have "spelled n (Prefix p v) (a @ (op @ (b @ concat us')))"
    by (rule spelled_before [OF sp_prefix [OF p(2) spelled_before [OF v(1) p(4)]] p(3)])
  moreover have "level v \<le> 3"
    using v(4) Prefixed(3) us(3) p(1) by (cases t) (auto simp: list_all2_append1 list_all2_Cons1)
  moreover have "x = python_prefix p y" using y(2) apply_prefix [OF p(2)] by simp
  ultimately show ?case using v us(1) p by (intro exI [of _ "Prefix p v"]) simp
next
  case (Infixed t k s op u)
  then obtain us1 c us2 where us: "us = us1 @ c # us2" "list_all2 (token_spelled n) (tokens_of t) us1"
    "token_spelled n (BinaryToken k s op) c" "list_all2 (token_spelled n) (tokens_of u) us2"
    by (auto simp: list_all2_append1 list_all2_Cons1 simp del: token_spelled.simps)
  from Infixed(5) obtain y z where y: "fold_tree apply_operation t = Ok y" "fold_tree apply_operation u = Ok z"
    "x = ''('' @ y @ '' '' @ op @ '' '' @ z @ '')''" by (auto simp: bind_res_eq_Ok)
  from Infixed(1) [OF us(2) _ y(1)] Infixed(4) obtain v where
    v: "spelled n v (concat us1)" "grouped v" "python_of v = y" "level v = tree_level t" by auto
  from Infixed(2) [OF us(4) _ y(2)] Infixed(4) obtain w where
    w: "spelled n w (concat us2)" "grouped w" "python_of w = z" "level w = tree_level u" by auto
  from us(3) obtain q b d e where q: "k = binary_level q" "s = binary_assoc q" "op = python_binary q" "e \<in> set (binary_texts q)"
    "blanks b" "blanks d" "c = b @ e @ d" unfolding token_spelled.simps stands_for_def by blast
  have "spelled n (Binary v q w) ((concat us1 @ b) @ e @ (d @ concat us2))"
    by (rule sp_binary [OF spelled_after [OF v(1) q(5)] q(4) spelled_before [OF w(1) q(6)]])
  moreover have "grouped (Binary v q w)"
  proof -
    from Infixed(4) q(1,2) have "left_within (binary_level q) (binary_assoc q) t" "right_within (binary_level q) u" by simp_all
    with left_level [OF us(2)] right_level [OF us(4)] v(2,4) w(2,4) show ?thesis by (simp split: if_splits)
  qed
  ultimately show ?case using v w y(3) q us(1) by (intro exI [of _ "Binary v q w"]) simp
next
  case (Suffixed t k op arg)
  then obtain us' u where us: "us = us' @ [u]" "list_all2 (token_spelled n) (tokens_of t) us'"
    "token_spelled n (PostfixToken k op arg) u"
    by (auto simp: list_all2_append1 list_all2_Cons1 simp del: token_spelled.simps)
  from Suffixed(4) obtain y where y: "fold_tree apply_operation t = Ok y" "apply_operation (PostfixOp y (op, arg)) = Ok x"
    by (auto simp: bind_res_eq_Ok simp del: apply_operation.simps)
  from Suffixed(1) [OF us(2) _ y(1)] Suffixed(3) obtain v where
    v: "spelled n v (concat us')" "grouped v" "python_of v = y" "level v = tree_level t" by auto
  have k: "k = 2" using us(3) by simp
  have level: "level v \<le> 2"
  proof (cases t)
    case (Infixed t' j r o' u')
    with us(2) obtain c where "token_spelled n (BinaryToken j r o') c" by (auto simp: list_all2_append1 list_all2_Cons1)
    then obtain q where "j = binary_level q" by (auto simp: stands_for_def)
    with Infixed Suffixed(3) k binary_level_between [of q] show ?thesis by simp
  qed (use v(4) Suffixed(3) us(2) k in \<open>auto simp: list_all2_append1 list_all2_Cons1\<close>)
  from us(3) consider (member) a b where "op = ''.''" "ident_text arg \<or> digits is_digit arg" "blanks a" "blanks b" "u = a @ ''.'' @ b @ arg"
    | (arrow) a b where "op = ''->''" "ident_text arg" "blanks a" "blanks b" "u = a @ ''->'' @ b @ arg"
    | (index) a c i r where "op = ''[]''" "blanks a" "blanks c" "spelled n i r" "grouped i" "python_of i = arg"
        "u = a @ ''['' @ r @ '']'' @ c" unfolding token_spelled.simps by blast
  then show ?case
  proof cases
    case member
    have "spelled n (Member v arg) ((concat us' @ a) @ ''.'' @ b @ arg)"
      by (rule sp_member [OF spelled_after [OF v(1) member(3)] member(4,2)])
    with member y(2) v us(1) k level show ?thesis by (intro exI [of _ "Member v arg"]) simp
  next
    case arrow
    have "spelled n (Arrow v arg) ((concat us' @ a) @ ''->'' @ b @ arg)"
      by (rule sp_arrow [OF spelled_after [OF v(1) arrow(3)] arrow(4,2)])
    with arrow y(2) v us(1) k level show ?thesis by (intro exI [of _ "Arrow v arg"]) simp
  next
    case index
    have "spelled n (Index v i) (((concat us' @ a) @ ''['' @ r @ '']'') @ c)"
      by (rule spelled_after [OF sp_index [OF spelled_after [OF v(1) index(2)] index(4)] index(3)])
    with index y(2) v us(1) k level show ?thesis by (intro exI [of _ "Index v i"]) simp
  qed
qed

section \<open>Expressions\<close>

lemma expression_reads:
  assumes n: "nom_text_ok n" and p: "precedence_ok (nom_precedence n)"
  shows "expression n input = Ok (rest, x) \<Longrightarrow> \<exists>v s. input = s @ rest \<and> spelled n v s \<and> grouped v \<and> python_of v = x"
proof (induction "length input" arbitrary: input rest x rule: less_induct)
  case less
  let ?e = "shorter input (expression n)"
  have "expression_body n ?e input = Ok (rest, x)" using less(2) by (simp add: expression.simps [of n])
  then obtain t where t: "fold_tree apply_operation t = Ok x" "grouped_tree t"
    "token_sequence (prefix_op n) (postfix_op n ?e) (binary_op n) (operand n ?e) input (tokens_of t) rest"
    using p one_level_postfix unfolding precedence_ok_def expression_body_def by blast
  have "translates n ?e" unfolding translates_def using less(1) by (auto simp: shorter_def split: if_splits)
  from tokens_spelled [OF n this t(3)] obtain us where us: "list_all2 (token_spelled n) (tokens_of t) us" "input = concat us @ rest"
    by blast
  from tree_spelled [OF us(1) t(2,1)] us(2) show ?case by blast
qed

end
