(* ===== verification/Simple_Correct.thy ===== *)
theory Simple_Correct
  imports Simple_Reading
begin

text \<open>
  What simple expressions are translated to, and a concrete \<open>precedence\<close> for the witness, with a stack of the
  operators that wait for their right operand.
\<close>

section \<open>Properties\<close>

text \<open>
  C21 (simple expressions become Python).  What a simple expression is translated to is the Python of an expression
  that the source spells, from its first character to its last: every number, string, name, cast, bracket, operator,
  member and index stands in the source in the same place, with nothing but blanks between them.  Its operators are
  grouped by their precedences, which are those of the code: members and indices, then prefixes, then powers, to the
  right, then the binary operators in the order of C++, to the left.  Names and native expressions are evaluated,
  \<open>*\<close> and \<open>->\<close> dereference and \<open>&\<close> takes the address, members are looked up and other operators are those of Python.
  (A source can spell more than one expression, as \<open>nota\<close> does; the translation is that of one of them.)
\<close>

theorem simple_expr_translated:
  assumes "nom_text_ok n" "precedence_ok (nom_precedence n)" "preprocess_simple_expr n expr = Ok out"
  shows "\<exists>v. spelled n v expr \<and> grouped v \<and> python_of v = out"
proof -
  from assms(3) have "expression n expr = Ok ([], out)"
    by (auto simp: preprocess_simple_expr_def finished_def split: res.splits nom_error.splits if_splits)
  from expression_reads [OF assms(1,2) this] show ?thesis by auto
qed

section \<open>A concrete precedence\<close>

text \<open>The operators that wait for their right operand, the innermost first.\<close>

datatype pending = PendingPrefix nat string | PendingInfix op_tree nat assoc string

fun pending_level :: "pending \<Rightarrow> nat" where
  "pending_level (PendingPrefix k op) = k"
| "pending_level (PendingInfix t k a op) = k"

fun apply_pending :: "pending \<Rightarrow> op_tree \<Rightarrow> op_tree" where
  "apply_pending (PendingPrefix k op) u = Prefixed k op u"
| "apply_pending (PendingInfix t k a op) u = Infixed t k a op u"

fun unwind :: "pending list \<Rightarrow> op_tree \<Rightarrow> op_tree" where
  "unwind [] t = t"
| "unwind (p # ps) t = unwind ps (apply_pending p t)"

fun reduce_while :: "(nat \<Rightarrow> bool) \<Rightarrow> pending list \<Rightarrow> op_tree \<Rightarrow> pending list \<times> op_tree" where
  "reduce_while P [] t = ([], t)"
| "reduce_while P (p # ps) t =
     (if P (pending_level p) then reduce_while P ps (apply_pending p t) else (p # ps, t))"

fun add_suffix :: "nat \<times> string \<times> string \<Rightarrow> pending list \<times> op_tree \<Rightarrow> pending list \<times> op_tree" where
  "add_suffix (k, op, arg) (ps, t) = (case reduce_while (\<lambda>j. j \<le> k) ps t of (qs, u) \<Rightarrow> (qs, Suffixed u k op arg))"

fun add_infix :: "nat \<times> assoc \<times> string \<Rightarrow> pending list \<times> op_tree \<Rightarrow> pending list" where
  "add_infix (k, a, op) (ps, t) =
     (case reduce_while (\<lambda>j. j < k \<or> j = k \<and> a = LeftAssoc) ps t of (qs, u) \<Rightarrow> PendingInfix u k a op # qs)"


type_synonym operand_term = "(nat \<times> string) list \<times> string \<times> (nat \<times> string \<times> string) list"

fun add_term :: "operand_term \<Rightarrow> pending list \<Rightarrow> pending list \<times> op_tree" where
  "add_term (pre, x, post) ps = fold add_suffix post (rev (map (\<lambda>(k, op). PendingPrefix k op) pre) @ ps, Leaf x)"

fun add_terms :: "((nat \<times> assoc \<times> string) \<times> operand_term) list \<Rightarrow> pending list \<times> op_tree \<Rightarrow> pending list \<times> op_tree" where
  "add_terms [] s = s"
| "add_terms ((b, t) # ts) s = add_terms ts (add_term t (add_infix b s))"

definition demo_term :: "(nat \<times> string) parser \<Rightarrow> (nat \<times> string \<times> string) parser \<Rightarrow> string parser \<Rightarrow> operand_term parser" where
  "demo_term pre post opd = paired (many0 pre) (paired opd (many0 post))"

definition demo_precedence ::
  "(nat \<times> string) parser \<Rightarrow> (nat \<times> string \<times> string) parser \<Rightarrow> (nat \<times> assoc \<times> string) parser \<Rightarrow>
    string parser \<Rightarrow> fold \<Rightarrow> string parser" where
  "demo_precedence pre post bin opd f =
     followed (paired (demo_term pre post opd) (many0 (paired bin (demo_term pre post opd))))
       (\<lambda>(t, ts) rest. case add_terms ts (add_term t []) of
          (ps, u) \<Rightarrow> map_err (\<lambda>_. NomFailure rest) (map_res (Pair rest) (fold_tree f (unwind ps u))))"

subsection \<open>Its trees are grouped\<close>

fun fits :: "pending list \<Rightarrow> op_tree \<Rightarrow> bool" where
  "fits [] t = True"
| "fits (PendingPrefix k op # ps) t = infix_within k t"
| "fits (PendingInfix l k a op # ps) t = right_within k t"

fun atomic :: "op_tree \<Rightarrow> bool" where
  "atomic (Leaf x) = True"
| "atomic (Suffixed t k op arg) = True"
| "atomic _ = False"

definition ready :: "pending list \<Rightarrow> bool" where
  "ready ps \<longleftrightarrow> grouped_tree (unwind ps (Leaf []))"

lemma grouped_pending: "grouped_tree (apply_pending p t) \<Longrightarrow> grouped_tree t"
  by (cases p) auto

lemma unwind_grouped: "grouped_tree (unwind ps t) \<Longrightarrow> grouped_tree t"
  by (induction ps arbitrary: t) (auto dest: grouped_pending)

lemma unwind_fits: "grouped_tree (unwind ps t) \<Longrightarrow> fits ps t"
  by (cases "(ps, t)" rule: fits.cases) (auto dest: unwind_grouped)

lemma fits_pending: "fits ps (apply_pending p t) \<Longrightarrow> fits ps (apply_pending p u)"
  by (cases "(ps, t)" rule: fits.cases; cases p) auto

lemma grouped_pending_other:
  "grouped_tree (apply_pending p t) \<Longrightarrow> grouped_tree u \<Longrightarrow> fits (p # ps) u \<Longrightarrow> grouped_tree (apply_pending p u)"
  by (cases p) auto

lemma unwind_other:
  "grouped_tree (unwind ps t) \<Longrightarrow> grouped_tree u \<Longrightarrow> fits ps u \<Longrightarrow> grouped_tree (unwind ps u)"
proof (induction ps arbitrary: t u)
  case (Cons p ps)
  then have "grouped_tree (apply_pending p t)" by (simp add: unwind_grouped)
  then have "grouped_tree (apply_pending p u)" using Cons(3,4) by (rule grouped_pending_other)
  moreover have "fits ps (apply_pending p u)" using Cons(2) by (auto dest: unwind_fits intro: fits_pending)
  ultimately show ?case using Cons(1) [of "apply_pending p t"] Cons(2) by simp
qed simp

lemma reduce_while_unwind: "reduce_while P ps t = (qs, u) \<Longrightarrow> unwind qs u = unwind ps t"
  by (induction ps arbitrary: t) (auto split: if_splits)

lemma reduce_while_top: "reduce_while P ps t = (q # qs, u) \<Longrightarrow> \<not> P (pending_level q)"
  by (induction ps arbitrary: t) (auto split: if_splits)

lemma reduce_while_tree:
  "reduce_while P ps t = (qs, u) \<Longrightarrow> u = t \<or> (\<exists>p v. u = apply_pending p v \<and> P (pending_level p))"
  by (induction ps arbitrary: t) (fastforce split: if_splits)+

lemma fits_atomic: "atomic t \<Longrightarrow> fits ps t"
  by (cases "(ps, t)" rule: fits.cases; cases t) auto

lemma add_suffix_grouped:
  assumes "grouped_tree (unwind ps t)" "atomic t" "add_suffix (k, op, arg) (ps, t) = (qs, u)"
  shows "grouped_tree (unwind qs u) \<and> atomic u"
proof -
  from assms(3) obtain v where v: "reduce_while (\<lambda>j. j \<le> k) ps t = (qs, v)" "u = Suffixed v k op arg"
    by (auto split: prod.splits)
  have grouped: "grouped_tree (unwind qs v)" using assms(1) reduce_while_unwind [OF v(1)] by simp
  have "within k v"
    using reduce_while_tree [OF v(1)] assms(2) by (cases t) (auto, (metis apply_pending.elims pending_level.simps within.simps)+)
  then have "grouped_tree u" using unwind_grouped [OF grouped] v(2) by simp
  moreover have "atomic u" using v(2) by simp
  ultimately show ?thesis using unwind_other [OF grouped] fits_atomic by blast
qed

lemma add_infix_ready:
  assumes "grouped_tree (unwind ps t)" "atomic t"
  shows "ready (add_infix (k, a, op) (ps, t))"
proof -
  let ?P = "\<lambda>j. j < k \<or> j = k \<and> a = LeftAssoc"
  obtain qs u where u: "reduce_while ?P ps t = (qs, u)" by fastforce
  have grouped: "grouped_tree (unwind qs u)" using assms(1) reduce_while_unwind [OF u] by simp
  have "left_within k a u"
    using reduce_while_tree [OF u] assms(2)
    by (cases t) (auto, (metis apply_pending.elims pending_level.simps left_within.simps)+)
  then have "grouped_tree (Infixed u k a op (Leaf []))" using unwind_grouped [OF grouped] by simp
  moreover have "fits qs (Infixed u k a op (Leaf []))"
  proof (cases qs)
    case (Cons q qs')
    with u have "\<not> ?P (pending_level q)" by (auto dest: reduce_while_top)
    with Cons show ?thesis by (cases q; cases a) auto
  qed simp
  ultimately show ?thesis using unwind_other [OF grouped] u by (simp add: ready_def)
qed

lemma add_prefixes_ready: "ready ps \<Longrightarrow> ready (rev (map (\<lambda>(k, op). PendingPrefix k op) pre) @ ps)"
proof (induction pre arbitrary: ps)
  case (Cons p pre)
  obtain k op where p: "p = (k, op)" by fastforce
  have "fits ps (Prefixed k op (Leaf []))" by (cases "(ps, Leaf [])" rule: fits.cases) auto
  then have "ready (PendingPrefix k op # ps)"
    using Cons(2) unwind_other [of ps "Leaf []" "Prefixed k op (Leaf [])"] by (simp add: ready_def)
  from Cons(1) [OF this] p show ?case by simp
qed simp

lemma add_suffixes_grouped:
  "grouped_tree (unwind ps t) \<Longrightarrow> atomic t \<Longrightarrow> fold add_suffix post (ps, t) = (qs, u) \<Longrightarrow>
     grouped_tree (unwind qs u) \<and> atomic u"
proof (induction post arbitrary: ps t)
  case (Cons p post)
  obtain k op arg where p: "p = (k, op, arg)" by (cases p) auto
  obtain rs v where v: "add_suffix (k, op, arg) (ps, t) = (rs, v)" by fastforce
  from add_suffix_grouped [OF Cons(2,3) v] Cons(1) [of rs v] Cons(4) p v show ?case by (simp del: add_suffix.simps)
qed simp

lemma add_term_grouped:
  assumes "ready ps" "add_term (pre, x, post) ps = (qs, u)"
  shows "grouped_tree (unwind qs u) \<and> atomic u"
proof -
  let ?ps = "rev (map (\<lambda>(k, op). PendingPrefix k op) pre) @ ps"
  have "grouped_tree (unwind ?ps (Leaf x))"
    using add_prefixes_ready [OF assms(1)] unwind_other [of ?ps "Leaf []" "Leaf x"] fits_atomic [of "Leaf x"]
    by (simp add: ready_def)
  from add_suffixes_grouped [OF this _ assms(2) [unfolded add_term.simps]] show ?thesis by simp
qed

lemma add_terms_grouped:
  "grouped_tree (unwind ps t) \<Longrightarrow> atomic t \<Longrightarrow> add_terms ts (ps, t) = (qs, u) \<Longrightarrow> grouped_tree (unwind qs u)"
proof (induction ts arbitrary: ps t)
  case (Cons bt ts)
  obtain k a op pre x post where bt: "bt = ((k, a, op), (pre, x, post))" by (cases bt) auto
  obtain rs v where v: "add_term (pre, x, post) (add_infix (k, a, op) (ps, t)) = (rs, v)" by fastforce
  from add_term_grouped [OF add_infix_ready [OF Cons(2,3)] v] Cons(1) [of rs v] Cons(4) bt v show ?case
    by (simp del: add_term.simps add_infix.simps)
qed simp

subsection \<open>Its trees are over what was read\<close>

fun tokens_before :: "pending \<Rightarrow> token list" where
  "tokens_before (PendingPrefix k op) = [PrefixToken k op]"
| "tokens_before (PendingInfix t k a op) = tokens_of t @ [BinaryToken k a op]"

fun term_tokens :: "operand_term \<Rightarrow> token list" where
  "term_tokens (pre, x, post) =
     map (\<lambda>(k, op). PrefixToken k op) pre @ OperandToken x # map (\<lambda>(k, op, arg). PostfixToken k op arg) post"

fun binary_tokens :: "(nat \<times> assoc \<times> string) \<times> operand_term \<Rightarrow> token list" where
  "binary_tokens ((k, a, op), t) = BinaryToken k a op # term_tokens t"

lemma unwind_tokens: "tokens_of (unwind ps t) = concat (rev (map tokens_before ps)) @ tokens_of t"
proof (induction ps arbitrary: t)
  case (Cons p ps)
  then show ?case by (cases p) simp_all
qed simp

lemma reduce_while_tokens:
  "reduce_while P ps t = (qs, u) \<Longrightarrow>
     concat (rev (map tokens_before qs)) @ tokens_of u = concat (rev (map tokens_before ps)) @ tokens_of t"
  by (drule reduce_while_unwind) (metis unwind_tokens)

lemma add_suffix_tokens:
  "add_suffix (k, op, arg) (ps, t) = (qs, u) \<Longrightarrow>
     concat (rev (map tokens_before qs)) @ tokens_of u = concat (rev (map tokens_before ps)) @ tokens_of t @ [PostfixToken k op arg]"
  using reduce_while_tokens [of "\<lambda>j. j \<le> k" ps t] by (fastforce split: prod.splits)

lemma add_infix_tokens:
  "concat (rev (map tokens_before (add_infix (k, a, op) (ps, t)))) =
     concat (rev (map tokens_before ps)) @ tokens_of t @ [BinaryToken k a op]"
  using reduce_while_tokens [of "\<lambda>j. j < k \<or> j = k \<and> a = LeftAssoc" ps t] by (fastforce split: prod.splits)

lemma add_suffixes_tokens:
  "fold add_suffix post (ps, t) = (qs, u) \<Longrightarrow>
     concat (rev (map tokens_before qs)) @ tokens_of u =
       concat (rev (map tokens_before ps)) @ tokens_of t @ map (\<lambda>(k, op, arg). PostfixToken k op arg) post"
proof (induction post arbitrary: ps t)
  case (Cons p post)
  obtain k op arg where p: "p = (k, op, arg)" by (cases p) auto
  obtain rs v where v: "add_suffix (k, op, arg) (ps, t) = (rs, v)" by fastforce
  from add_suffix_tokens [OF v] Cons(1) [of rs v] Cons(2) p v show ?case by (simp del: add_suffix.simps)
qed simp

lemma add_term_tokens:
  assumes "add_term t ps = (qs, u)"
  shows "concat (rev (map tokens_before qs)) @ tokens_of u = concat (rev (map tokens_before ps)) @ term_tokens t"
proof -
  obtain pre x post where t: "t = (pre, x, post)" by (cases t) auto
  have "concat (map (tokens_before \<circ> (\<lambda>(k, op). PendingPrefix k op)) pre) = map (\<lambda>(k, op). PrefixToken k op) pre"
    by (induction pre) auto
  with add_suffixes_tokens [OF assms [unfolded t add_term.simps]] t show ?thesis by (simp add: rev_map)
qed

lemma add_terms_tokens:
  "add_terms ts (ps, t) = (qs, u) \<Longrightarrow>
     tokens_of (unwind qs u) = concat (rev (map tokens_before ps)) @ tokens_of t @ concat (map binary_tokens ts)"
proof (induction ts arbitrary: ps t)
  case (Cons bt ts)
  obtain k a op w where bt: "bt = ((k, a, op), w)" by (cases bt) auto
  obtain rs v where v: "add_term w (add_infix (k, a, op) (ps, t)) = (rs, v)" by fastforce
  from add_term_tokens [OF v] Cons(1) [of rs v] Cons(2) bt v add_infix_tokens [of k a op ps t] show ?case
    by (simp del: add_term.simps add_infix.simps)
qed (simp add: unwind_tokens)

lemma token_sequence_append:
  "token_sequence pre post bin opd i ts mid \<Longrightarrow> token_sequence pre post bin opd mid us rest \<Longrightarrow>
     token_sequence pre post bin opd i (ts @ us) rest"
  by (induction rule: token_sequence.induct) (auto intro: token_sequence.intros)

lemma many0_tokens:
  assumes "\<And>i r x. p i = Ok (r, x) \<Longrightarrow> token_sequence pre post bin opd i (g x) r"
  shows "many0 p input = Ok (rest, xs) \<Longrightarrow> token_sequence pre post bin opd input (concat (map g xs)) rest"
proof (induction "length input" arbitrary: input xs rule: less_induct)
  case less
  show ?case
  proof (cases "\<exists>e. p input = Err (NomError e)")
    case True
    with less(2) show ?thesis by (subst (asm) many0.simps) (auto intro: no_token)
  next
    case False
    with less(2) obtain mid x xs' where x: "p input = Ok (mid, x)" "length mid < length input" "many0 p mid = Ok (rest, xs')"
      "xs = x # xs'" by (subst (asm) many0.simps) (auto simp: map_res_eq_Ok split: res.splits nom_error.splits if_splits)
    from token_sequence_append [OF assms [OF x(1)] less(1) [OF x(2,3)]] x(4) show ?thesis by simp
  qed
qed

lemma demo_term_tokens:
  assumes "demo_term pre post opd input = Ok (rest, t)"
  shows "token_sequence pre post bin opd input (term_tokens t) rest"
proof -
  from assms obtain ps i x j qs where t: "many0 pre input = Ok (i, ps)" "opd i = Ok (j, x)" "many0 post j = Ok (rest, qs)"
    "t = (ps, x, qs)" by (auto simp: demo_term_def paired_def followed_Ok mapped_Ok)
  have "token_sequence pre post bin opd input (concat (map (\<lambda>(k, op). [PrefixToken k op]) ps)) i"
    using t(1) by (rule many0_tokens [rotated]) (auto intro: prefix_token no_token)
  moreover have "token_sequence pre post bin opd j (concat (map (\<lambda>(k, op, arg). [PostfixToken k op arg]) qs)) rest"
    using t(3) by (rule many0_tokens [rotated]) (auto intro: postfix_token no_token)
  moreover have "concat (map (\<lambda>(k, op). [PrefixToken k op]) ps) = map (\<lambda>(k, op). PrefixToken k op) ps"
    by (induction ps) auto
  moreover have "concat (map (\<lambda>(k, op, arg). [PostfixToken k op arg]) qs) = map (\<lambda>(k, op, arg). PostfixToken k op arg) qs"
    by (induction qs) auto
  ultimately show ?thesis using t(2,4) by (auto intro: token_sequence_append operand_token)
qed

lemma map_err_eq_Ok: "map_err f r = Ok x \<longleftrightarrow> r = Ok x"
  by (cases r) simp_all

lemma demo_precedence_sound:
  assumes "demo_precedence pre post bin opd f input = Ok (rest, y)"
  shows "\<exists>t. token_sequence pre post bin opd input (tokens_of t) rest \<and> grouped_tree t \<and> fold_tree f t = Ok y"
proof -
  let ?run = "\<lambda>(t, ts) rest. case add_terms ts (add_term t []) of
      (ps, u) \<Rightarrow> map_err (\<lambda>_. NomFailure rest) (map_res (Pair rest) (fold_tree f (unwind ps u)))"
  from assms obtain i w where w: "paired (demo_term pre post opd) (many0 (paired bin (demo_term pre post opd))) input = Ok (i, w)"
    "?run w i = Ok (rest, y)" unfolding demo_precedence_def followed_Ok by blast
  obtain t ts where ts: "w = (t, ts)" by fastforce
  obtain ps u where u: "add_terms ts (add_term t []) = (ps, u)" by fastforce
  from w(2) ts u have i: "i = rest" and y: "fold_tree f (unwind ps u) = Ok y"
    by (simp_all add: map_err_eq_Ok map_res_eq_Ok)
  from w(1) ts i obtain mid where read: "demo_term pre post opd input = Ok (mid, t)"
    "many0 (paired bin (demo_term pre post opd)) mid = Ok (rest, ts)"
    by (auto simp: paired_def followed_Ok mapped_Ok)
  obtain qs v where v: "add_term t [] = (qs, v)" by fastforce
  obtain p x q where t: "t = (p, x, q)" by (cases t) auto
  have first: "grouped_tree (unwind qs v) \<and> atomic v"
    using v unfolding t by (rule add_term_grouped [rotated]) (simp add: ready_def)
  have "token_sequence pre post bin opd mid (concat (map binary_tokens ts)) rest"
  proof (rule many0_tokens [OF _ read(2)])
    fix i r bt
    assume "paired bin (demo_term pre post opd) i = Ok (r, bt)"
    then obtain j k a op w where "bin i = Ok (j, (k, a, op))" "demo_term pre post opd j = Ok (r, w)" "bt = ((k, a, op), w)"
      by (auto simp: paired_def followed_Ok mapped_Ok)
    then show "token_sequence pre post bin opd i (binary_tokens bt) r" by (auto intro: binary_token demo_term_tokens)
  qed
  moreover have "tokens_of (unwind ps u) = term_tokens t @ concat (map binary_tokens ts)"
    using add_terms_tokens [OF u [unfolded v]] add_term_tokens [OF v] by simp
  ultimately have "token_sequence pre post bin opd input (tokens_of (unwind ps u)) rest"
    using token_sequence_append [OF demo_term_tokens [OF read(1)]] by simp
  moreover have "grouped_tree (unwind ps u)"
    using first add_terms_grouped [of qs v ts ps u] u v by simp
  ultimately show ?thesis using y by blast
qed

lemma agree_many0:
  assumes "agree k p p'"
  shows "agree k (many0 p) (many0 p')"
proof -
  have "length input < k \<Longrightarrow> many0 p input = many0 p' input" for input
  proof (induction "length input" arbitrary: input rule: less_induct)
    case less
    have "many0 p rest = many0 p' rest" if "length rest < length input" for rest
      using less that by simp
    with agreeD [OF assms less(2)] show ?case
      by (subst (1 2) many0.simps) (auto split: res.splits nom_error.splits)
  qed
  then show ?thesis by (simp add: agree_def)
qed

lemma demo_precedence_agree:
  assumes "reads_part pre" "reads_part post" "reads_part bin" "reads_part opd" "agree k post post'" "agree k opd opd'"
  shows "agree k (demo_precedence pre post bin opd f) (demo_precedence pre post' bin opd' f)"
proof -
  have reads: "reads_part (demo_term pre post opd)" unfolding demo_term_def using assms by (intro reading)
  have "agree k (demo_term pre post opd) (demo_term pre post' opd')"
    unfolding demo_term_def using assms by (intro agreeing agree_many0 agree_refl reading)
  then show ?thesis unfolding demo_precedence_def
    using assms reads by (intro agreeing agree_many0 agree_refl reading)
qed

lemma demo_precedence_ok: "precedence_ok demo_precedence"
  unfolding precedence_ok_def using demo_precedence_sound demo_precedence_agree by blast

definition demo_simple :: nom_text where
  "demo_simple = simple_chars demo_precedence"

lemma demo_simple_ok: "nom_text_ok demo_simple" "precedence_ok (nom_precedence demo_simple)"
proof -
  show "nom_text_ok demo_simple" by (simp add: demo_simple_def simple_chars_ok)
  have "nom_precedence demo_simple = demo_precedence"
    by (simp add: demo_simple_def simple_chars_def nom.defs simple_nom_def)
  then show "precedence_ok (nom_precedence demo_simple)" by (simp add: demo_precedence_ok)
qed

lemmas simple_eval = parser_eval demo_simple_def demo_precedence_def demo_term_def simple_float_def
  float_literal_def binary_literal_def octal_literal_def hex_literal_def decimal_literal_def integer_literal_def
  numeric_literal_def boolean_literal_def unsigned_number_def unsigned_parser_def in_quotes_def cast_parser_def
  operand_def prefix_op_def binary_of_def binary_op_def postfix_op_def apply_operation.simps expression_body_def
  expression.simps preprocess_simple_expr_def is_hex_def

section \<open>Witnesses\<close>

lemma simple_example:
  "preprocess_simple_expr demo_simple ''a.b + *c[2]'' =
     Ok ''(__eval('a').__getattr__('b') + Value.dereference(__eval('c')[2]))''"
  by (simp add: simple_eval cong: bind_res_step map_res_step)

theorem simple_expr_translated_witness:
  "\<exists>v. spelled demo_simple v ''a.b + *c[2]'' \<and> grouped v
     \<and> python_of v = ''(__eval('a').__getattr__('b') + Value.dereference(__eval('c')[2]))''"
  by (rule simple_expr_translated [OF demo_simple_ok simple_example])

text \<open>Operators that bind more tightly come first, and of equal ones the left one.\<close>

lemma operators_group:
  "preprocess_simple_expr demo_simple ''1-2*3-4'' = Ok ''((1 - (2 * 3)) - 4)''"
  by (simp add: simple_eval cong: bind_res_step map_res_step)

text \<open>A cast is of the operand only: members and indices are those of the value that was cast.\<close>

lemma cast_before_member:
  "preprocess_simple_expr demo_simple ''(t)a.b'' = Ok ''Value.cast('t', __eval('a')).__getattr__('b')''"
  by (simp add: simple_eval cong: bind_res_step map_res_step)

text \<open>An index that starts with a number must be that number: \<open>c[i+1]\<close> is understood, \<open>c[1+i]\<close> is not.\<close>

lemma index_starts_with_number:
  "preprocess_simple_expr demo_simple ''c[i+1]'' = Ok ''__eval('c')[(__eval('i') + 1)]''"
  "preprocess_simple_expr demo_simple ''c[1+i]'' = Err (syntax_error_message ''c[1+i]'' ''[1+i]'')"
  by (simp_all add: simple_eval cong: bind_res_step map_res_step)

text \<open>Keywords are recognised without looking for the end of the identifier.\<close>

lemma keyword_prefix:
  "preprocess_simple_expr demo_simple ''a order'' = Ok ''(__eval('a') or __eval('der'))''"
  by (simp add: simple_eval cong: bind_res_step map_res_step)

end
