(* ===== verification/Python_Interface.thy ===== *)
theory Python_Interface
  imports Dispatch Machines
begin

text \<open>
  \<open>src/codelldb/src/python.rs\<close>: the interface to the scripts that LLDB's Python interpreter runs.  There is one
  for all debug sessions: events of the scripts are handed to the session they name, and the sessions call
  compiled code through pointers that the scripts passed to the interface.
\<close>

section \<open>Events of the scripts\<close>

text \<open>
  Every session has a channel of 100 events.  \<open>pc_session\<close> is the debugger's id, \<open>pc_open\<close> whether the session
  still listens; \<open>pi_senders\<close> is the table of the senders by id.
\<close>

record py_channel =
  pc_session :: u64
  pc_waiting :: "python_event list"
  pc_open :: bool

record py_interface =
  pi_senders :: "(u64, nat) hashmap"
  pi_channels :: "py_channel list"

definition py_capacity :: nat where
  "py_capacity = 100"

definition new_session :: "u64 \<Rightarrow> py_interface \<Rightarrow> py_interface" where
  "new_session debugger_id i = i
     \<lparr>pi_senders := hm_insert debugger_id (length (pi_channels i)) (pi_senders i),
      pi_channels := pi_channels i @ [\<lparr>pc_session = debugger_id, pc_waiting = [], pc_open = True\<rparr>]\<rparr>"

definition drop_session :: "u64 \<Rightarrow> py_interface \<Rightarrow> py_interface" where
  "drop_session debugger_id i = i\<lparr>pi_senders := hm_remove debugger_id (pi_senders i)\<rparr>"

text \<open>The channel an event gets into, if any; otherwise it is logged and dropped.\<close>

definition accepting :: "py_interface \<Rightarrow> u64 \<Rightarrow> nat option" where
  "accepting i session_id =
     (case hm_get (pi_senders i) session_id of
        Some c \<Rightarrow>
          if pc_open (pi_channels i ! c) \<and> length (pc_waiting (pi_channels i ! c)) < py_capacity then Some c else None
      | None \<Rightarrow> None)"

definition change_channel :: "nat \<Rightarrow> (py_channel \<Rightarrow> py_channel) \<Rightarrow> py_interface \<Rightarrow> py_interface" where
  "change_channel c f i = i\<lparr>pi_channels := (pi_channels i)[c := f (pi_channels i ! c)]\<rparr>"

definition dispatch_python_event :: "u64 \<Rightarrow> python_event \<Rightarrow> py_interface \<Rightarrow> py_interface" where
  "dispatch_python_event session_id event i =
     (case accepting i session_id of
        Some c \<Rightarrow> change_channel c (\<lambda>ch. ch\<lparr>pc_waiting := pc_waiting ch @ [event]\<rparr>) i
      | None \<Rightarrow> i)"

text \<open>\<open>session_id as u64\<close> of a \<open>c_int\<close> extends the sign.\<close>

definition session_of_c_int :: "u32 \<Rightarrow> u64" where
  "session_of_c_int session_id = scast session_id"

definition python_event_callback ::
  "(string \<Rightarrow> (string, python_event) res) \<Rightarrow> u32 \<Rightarrow> string \<Rightarrow> py_interface \<Rightarrow> py_interface" where
  "python_event_callback from_json session_id event i =
     (case from_json event of
        Ok e \<Rightarrow> dispatch_python_event (session_of_c_int session_id) e i
      | _ \<Rightarrow> i)"

text \<open>The main loop of a session takes the next event; when it ends, its receiver is gone.\<close>

definition take_event :: "nat \<Rightarrow> py_interface \<Rightarrow> py_interface" where
  "take_event c = change_channel c (\<lambda>ch. ch\<lparr>pc_waiting := tl (pc_waiting ch)\<rparr>)"

definition end_session :: "nat \<Rightarrow> py_interface \<Rightarrow> py_interface" where
  "end_session c = change_channel c (\<lambda>ch. ch\<lparr>pc_open := False\<rparr>)"

datatype py_op =
    PyNewSession u64
  | PyDropSession u64
  | PyEvent u32 string
  | PyTake nat
  | PyEnd nat

definition py_step :: "(string \<Rightarrow> (string, python_event) res) \<Rightarrow> py_interface \<Rightarrow> py_op \<Rightarrow> py_interface" where
  "py_step from_json i op =
     (case op of
        PyNewSession debugger_id \<Rightarrow> new_session debugger_id i
      | PyDropSession debugger_id \<Rightarrow> drop_session debugger_id i
      | PyEvent session_id event \<Rightarrow> python_event_callback from_json session_id event i
      | PyTake c \<Rightarrow> if c < length (pi_channels i) then take_event c i else i
      | PyEnd c \<Rightarrow> if c < length (pi_channels i) then end_session c i else i)"

definition py_start :: py_interface where
  "py_start = \<lparr>pi_senders = [], pi_channels = []\<rparr>"

section \<open>Calls\<close>

text \<open>\<open>PyResult\<close>: what a call leaves in the result it is given a pointer to.\<close>

datatype 'a py_result = PyInvalid | PyOk 'a | PyErr string

text \<open>
  The calls whose pointers the scripts passed, and LLDB's command interpreter: a command returns whether it
  succeeded, how the result prints, and with how many pointers it had the scripts call \<open>init_callback\<close>.
\<close>

record 'w py_calls =
  session_init :: "u64 \<Rightarrow> nat \<Rightarrow> 'w \<Rightarrow> 'w"
  session_deinit :: "u64 \<Rightarrow> 'w \<Rightarrow> 'w"
  drop_pyobject :: "nat \<Rightarrow> 'w \<Rightarrow> 'w"
  py_handle_message :: "string \<Rightarrow> 'w \<Rightarrow> bool \<times> 'w"
  py_compile_code :: "string \<Rightarrow> string \<Rightarrow> 'w \<Rightarrow> nat py_result \<times> 'w"
  py_evaluate_as_sbvalue :: "nat \<Rightarrow> nat \<Rightarrow> nat \<Rightarrow> 'w \<Rightarrow> nat py_result \<times> 'w"
  py_evaluate_as_bool :: "nat \<Rightarrow> nat \<Rightarrow> nat \<Rightarrow> 'w \<Rightarrow> bool py_result \<times> 'w"
  run_lldb_command :: "string \<Rightarrow> 'w \<Rightarrow> ((bool \<times> string) \<times> nat list) \<times> 'w"
  dummy_context :: "'w \<Rightarrow> nat"
  settings_to_json :: "adapter_settings \<Rightarrow> (string, string) res"
  quoted :: "string \<Rightarrow> string"

fun from_py_result :: "'a py_result \<Rightarrow> (string, 'a) res" where
  "from_py_result (PyOk x) = Ok x"
| "from_py_result (PyErr e) = Err e"
| "from_py_result PyInvalid = Err ''Evaluation failed''"

fun context_number :: "eval_context \<Rightarrow> nat" where
  "context_number Statement = 0"
| "context_number PythonExpression = 1"
| "context_number SimpleExpression = 2"

definition handle_message :: "'w py_calls \<Rightarrow> string \<Rightarrow> 'w \<Rightarrow> bool \<times> 'w" where
  "handle_message py json = py_handle_message py json"

definition compile_code :: "'w py_calls \<Rightarrow> string \<Rightarrow> string \<Rightarrow> ('w, nat) fallible" where
  "compile_code py expr filename w = (let (r, w) = py_compile_code py expr filename w in (from_py_result r, w))"

definition evaluate :: "'w py_calls \<Rightarrow> nat \<Rightarrow> nat \<Rightarrow> eval_context \<Rightarrow> ('w, nat) fallible" where
  "evaluate py code exec_context ctx w =
     (let (r, w) = py_evaluate_as_sbvalue py code exec_context (context_number ctx) w in (from_py_result r, w))"

definition evaluate_as_bool :: "'w py_calls \<Rightarrow> nat \<Rightarrow> nat \<Rightarrow> eval_context \<Rightarrow> ('w, bool) fallible" where
  "evaluate_as_bool py code exec_context ctx w =
     (let (r, w) = py_evaluate_as_bool py code exec_context (context_number ctx) w in (from_py_result r, w))"

text \<open>\<open>update_adapter_settings\<close>: the code object is dropped when the function returns, on either path.\<close>

definition settings_statement :: "string \<Rightarrow> string" where
  "settings_statement settings_json =
     ''codelldb.interface.update_adapter_settings(\"\"\"'' @ settings_json @ ''\"\"\", globals())''"

definition py_update_adapter_settings :: "'w py_calls \<Rightarrow> adapter_settings \<Rightarrow> ('w, unit) fallible" where
  "py_update_adapter_settings py settings w =
     (case settings_to_json py settings of
        Err e \<Rightarrow> (Err e, w)
      | Panic \<Rightarrow> (Panic, w)
      | Ok settings_json \<Rightarrow>
          (case compile_code py (settings_statement settings_json) ''<string>'' w of
             (Ok code, w) \<Rightarrow>
               (let (r, w) = evaluate py code (dummy_context py w) Statement w in
                (map_res (\<lambda>_. ()) r, drop_pyobject py code w))
           | (Err e, w) \<Rightarrow> (Err e, w)
           | (Panic, w) \<Rightarrow> (Panic, w)))"

definition import_command :: "string \<Rightarrow> string" where
  "import_command script = ''command script import '' @ script"

text \<open>\<open>init_lang_support\<close>: the module stands beside the directory of the adapter, which must have a parent.\<close>

definition py_init_lang_support :: "'w py_calls \<Rightarrow> string option \<Rightarrow> ('w, unit) fallible" where
  "py_init_lang_support py adapter_parent w =
     (case adapter_parent of
        None \<Rightarrow> (Panic, w)
      | Some parent \<Rightarrow>
          (let (((succeeded, printed), _), w) =
             run_lldb_command py (import_command (CHR 0x27 # parent @ ''/lang_support'' @ [CHR 0x27])) w in
           (if succeeded then Ok () else Err printed, w)))"

section \<open>Initialisation\<close>

datatype log_level = LevelOff | LevelError | LevelWarn | LevelInfo | LevelDebug | LevelTrace

fun py_log_level :: "log_level \<Rightarrow> nat" where
  "py_log_level LevelError = 40"
| "py_log_level LevelWarn = 30"
| "py_log_level LevelInfo = 20"
| "py_log_level LevelDebug = 10"
| "py_log_level LevelTrace = 0"
| "py_log_level LevelOff = 0"

text \<open>\<open>init_callback\<close> takes eight pointers and nothing else.\<close>

definition init_callback :: "nat \<Rightarrow> bool \<Rightarrow> bool" where
  "init_callback pointers_len initialized = (if pointers_len \<noteq> 8 then initialized else True)"

text \<open>
  The interface is there when the scripts have been imported and have called back.  \<open>start_script\<close> is the
  command that passes the addresses of the callbacks to the scripts.
\<close>

definition initialize :: "'w py_calls \<Rightarrow> (nat \<Rightarrow> string) \<Rightarrow> log_level \<Rightarrow> string \<Rightarrow> ('w, py_interface) fallible" where
  "initialize py start_script level adapter_dir w =
     (let (((succeeded, printed), _), w) =
        run_lldb_command py (import_command (quoted py (adapter_dir @ ''/scripts/codelldb''))) w in
      if \<not> succeeded then (Err printed, w)
      else (let (((succeeded, printed), calls), w) = run_lldb_command py (start_script (py_log_level level)) w in
        if \<not> succeeded then (Err printed, w)
        else if \<not> foldl (\<lambda>initialized n. init_callback n initialized) False calls then
          (Err ''Could not initialize Python environment.'', w)
        else (let (_, w) = run_lldb_command py (import_command (quoted py (adapter_dir @ ''/scripts/debugger.py''))) w in
          (Ok py_start, w))))"

text \<open>A session starts and ends on both sides.\<close>

definition start_py_session :: "'w py_calls \<Rightarrow> u64 \<Rightarrow> nat \<Rightarrow> py_interface \<times> 'w \<Rightarrow> py_interface \<times> 'w" where
  "start_py_session py debugger_id console_fd p =
     (new_session debugger_id (fst p), session_init py debugger_id console_fd (snd p))"

definition drop_py_session :: "'w py_calls \<Rightarrow> u64 \<Rightarrow> py_interface \<times> 'w \<Rightarrow> py_interface \<times> 'w" where
  "drop_py_session py debugger_id p = (drop_session debugger_id (fst p), session_deinit py debugger_id (snd p))"

section \<open>Where events go\<close>

text \<open>The senders' table leads to channels, each for the session it was made for.\<close>

definition registered :: "py_interface \<Rightarrow> bool" where
  "registered i \<longleftrightarrow>
     (\<forall>sid c. hm_get (pi_senders i) sid = Some c \<longrightarrow> c < length (pi_channels i) \<and> pc_session (pi_channels i ! c) = sid)
     \<and> (\<forall>ch\<in>set (pi_channels i). length (pc_waiting ch) \<le> py_capacity)"

lemma change_channel_fields [simp]:
  "pi_senders (change_channel c f i) = pi_senders i"
  "length (pi_channels (change_channel c f i)) = length (pi_channels i)"
  by (simp_all add: change_channel_def)

lemma change_channel_nth [simp]:
  "c < length (pi_channels i) \<Longrightarrow>
     pi_channels (change_channel c f i) ! d = (if d = c then f (pi_channels i ! c) else pi_channels i ! d)"
  by (simp add: change_channel_def)

lemma registered_change:
  assumes "registered i" "c < length (pi_channels i)" "\<And>ch. pc_session (f ch) = pc_session ch"
    and "length (pc_waiting (f (pi_channels i ! c))) \<le> py_capacity"
  shows "registered (change_channel c f i)"
proof -
  have "length (pc_waiting ch) \<le> py_capacity" if "ch \<in> set (pi_channels (change_channel c f i))" for ch
    using that assms(1,4) set_update_subset_insert [of "pi_channels i" c "f (pi_channels i ! c)"]
    by (auto simp: change_channel_def registered_def)
  with assms show ?thesis by (auto simp: registered_def)
qed

lemma accepting_registered:
  "registered i \<Longrightarrow> accepting i sid = Some c \<Longrightarrow>
     hm_get (pi_senders i) sid = Some c \<and> c < length (pi_channels i) \<and> pc_session (pi_channels i ! c) = sid
     \<and> length (pc_waiting (pi_channels i ! c)) < py_capacity"
  by (auto simp: accepting_def registered_def split: option.splits if_splits)

lemma registered_new: "registered i \<Longrightarrow> registered (new_session sid i)"
  by (auto simp: registered_def new_session_def hashmap nth_append less_Suc_eq split: if_splits)

lemma registered_drop: "registered i \<Longrightarrow> registered (drop_session sid i)"
  by (auto simp: registered_def drop_session_def hashmap split: if_splits)

lemma registered_dispatch:
  assumes "registered i"
  shows "registered (dispatch_python_event sid e i)"
proof (cases "accepting i sid")
  case None
  with assms show ?thesis by (simp add: dispatch_python_event_def)
next
  case (Some c)
  from accepting_registered [OF assms this] assms Some show ?thesis
    by (auto simp: dispatch_python_event_def intro!: registered_change)
qed

interpretation py_registry: started_machine "py_step from_json" registered py_start for from_json
proof unfold_locales
  show "registered py_start" by (simp add: registered_def py_start_def hashmap)
  show "registered (py_step from_json i op)" if i: "registered i" for i op
  proof (cases op)
    case (PyEvent sid json)
    with i show ?thesis by (auto simp: py_step_def python_event_callback_def registered_dispatch split: res.split)
  next
    case (PyTake c)
    have "length (pc_waiting (pi_channels i ! c)) \<le> py_capacity" if "c < length (pi_channels i)"
      using i nth_mem [OF that] by (simp add: registered_def)
    then have "length (tl (pc_waiting (pi_channels i ! c))) \<le> py_capacity" if "c < length (pi_channels i)"
      using that by fastforce
    with PyTake i show ?thesis by (auto simp: py_step_def take_event_def intro!: registered_change)
  next
    case (PyEnd c)
    have "length (pc_waiting (pi_channels i ! c)) \<le> py_capacity" if "c < length (pi_channels i)"
      using i that nth_mem [OF that] by (auto simp: registered_def)
    with PyEnd i show ?thesis by (auto simp: py_step_def end_session_def intro!: registered_change)
  qed (use i in \<open>auto simp: py_step_def registered_new registered_drop\<close>)
qed

text \<open>What a history of operations puts into a channel, and what is taken from it.\<close>

definition accepted_by :: "(string \<Rightarrow> (string, python_event) res) \<Rightarrow> nat \<Rightarrow> py_interface \<Rightarrow> py_op \<Rightarrow> (u32 \<times> python_event) list" where
  "accepted_by from_json c i op =
     (case op of
        PyEvent session_id json \<Rightarrow>
          (case from_json json of
             Ok e \<Rightarrow> if accepting i (session_of_c_int session_id) = Some c then [(session_id, e)] else []
           | _ \<Rightarrow> [])
      | _ \<Rightarrow> [])"

definition taken_by :: "nat \<Rightarrow> py_interface \<Rightarrow> py_op \<Rightarrow> python_event list" where
  "taken_by c i op =
     (case op of
        PyTake d \<Rightarrow> if d = c \<and> c < length (pi_channels i) then take 1 (pc_waiting (pi_channels i ! c)) else []
      | _ \<Rightarrow> [])"

fun over :: "(py_interface \<Rightarrow> py_op \<Rightarrow> 'a list) \<Rightarrow> (string \<Rightarrow> (string, python_event) res) \<Rightarrow> py_interface \<Rightarrow> py_op list \<Rightarrow> 'a list" where
  "over f from_json i [] = []"
| "over f from_json i (op # ops) = f i op @ over f from_json (py_step from_json i op) ops"

definition waiting_in :: "nat \<Rightarrow> py_interface \<Rightarrow> python_event list" where
  "waiting_in c i = (if c < length (pi_channels i) then pc_waiting (pi_channels i ! c) else [])"

lemma step_balance:
  assumes "registered i"
  shows "taken_by c i op @ waiting_in c (py_step from_json i op) = waiting_in c i @ map snd (accepted_by from_json c i op)"
proof (cases op)
  case (PyNewSession sid)
  then show ?thesis
    by (auto simp: py_step_def new_session_def taken_by_def accepted_by_def waiting_in_def nth_append)
next
  case (PyEvent sid json)
  show ?thesis
  proof (cases "from_json json")
    case (Ok e)
    show ?thesis
    proof (cases "accepting i (session_of_c_int sid)")
      case None
      with PyEvent Ok show ?thesis
        by (simp add: py_step_def python_event_callback_def dispatch_python_event_def taken_by_def accepted_by_def)
    next
      case (Some d)
      from accepting_registered [OF assms Some] PyEvent Ok Some show ?thesis
        by (auto simp: py_step_def python_event_callback_def dispatch_python_event_def taken_by_def accepted_by_def waiting_in_def)
    qed
  qed (use PyEvent in \<open>simp_all add: py_step_def python_event_callback_def taken_by_def accepted_by_def\<close>)
next
  case (PyTake d)
  have "take 1 xs @ tl xs = xs" for xs :: "python_event list" by (cases xs) simp_all
  with PyTake show ?thesis
    by (auto simp: py_step_def take_event_def taken_by_def accepted_by_def waiting_in_def)
qed (auto simp: py_step_def drop_session_def end_session_def taken_by_def accepted_by_def waiting_in_def)

lemma run_balance:
  "registered i \<Longrightarrow> over (taken_by c) from_json i ops @ waiting_in c (run (py_step from_json) i ops)
     = waiting_in c i @ map snd (over (accepted_by from_json c) from_json i ops)"
proof (induction ops arbitrary: i)
  case (Cons op ops)
  from step_balance [OF Cons(2), of c op from_json] Cons(1) [OF py_registry.step_inv [OF Cons(2)], of from_json op]
  show ?case by simp
qed simp

text \<open>A channel keeps the session it was made for.\<close>

lemma step_session:
  assumes "registered i" "c < length (pi_channels i)"
  shows "c < length (pi_channels (py_step from_json i op)) \<and>
    pc_session (pi_channels (py_step from_json i op) ! c) = pc_session (pi_channels i ! c)"
proof (cases op)
  case (PyEvent sid json)
  have "c < length (pi_channels (dispatch_python_event sid e i)) \<and>
    pc_session (pi_channels (dispatch_python_event sid e i) ! c) = pc_session (pi_channels i ! c)" for sid e
    using accepting_registered [OF assms(1)] assms(2) by (auto simp: dispatch_python_event_def split: option.split)
  with PyEvent assms show ?thesis by (auto simp: py_step_def python_event_callback_def split: res.split)
qed (use assms in \<open>auto simp: py_step_def new_session_def drop_session_def take_event_def end_session_def nth_append\<close>)

lemma run_session:
  "registered i \<Longrightarrow> c < length (pi_channels i) \<Longrightarrow> c < length (pi_channels (run (py_step from_json) i ops)) \<and>
    pc_session (pi_channels (run (py_step from_json) i ops) ! c) = pc_session (pi_channels i ! c)"
proof (induction ops arbitrary: i)
  case (Cons op ops)
  from Cons(1) [OF py_registry.step_inv [OF Cons(2)] conjunct1 [OF step_session [OF Cons(2,3)]]] step_session [OF Cons(2,3)]
  show ?case by simp
qed simp

lemma accepted_addressed:
  assumes "registered i" "(sid, e) \<in> set (over (accepted_by from_json c) from_json i ops)"
  shows "c < length (pi_channels (run (py_step from_json) i ops))
    \<and> session_of_c_int sid = pc_session (pi_channels (run (py_step from_json) i ops) ! c)"
  using assms
proof (induction ops arbitrary: i)
  case (Cons op ops)
  note next_ok = py_registry.step_inv [OF Cons(2), of from_json op]
  from Cons(3) consider "(sid, e) \<in> set (accepted_by from_json c i op)"
    | "(sid, e) \<in> set (over (accepted_by from_json c) from_json (py_step from_json i op) ops)" by auto
  then show ?case
  proof cases
    case 1
    then have "accepting i (session_of_c_int sid) = Some c"
      by (auto simp: accepted_by_def split: py_op.splits res.splits if_splits)
    from accepting_registered [OF Cons(2) this] have c: "c < length (pi_channels i)"
      "pc_session (pi_channels i ! c) = session_of_c_int sid" by auto
    from step_session [OF Cons(2) c(1)] run_session [OF next_ok] c(2) show ?thesis by simp
  next
    case 2
    with Cons(1) [OF next_ok] show ?thesis by simp
  qed
qed simp

text \<open>A channel no sender leads to gets nothing any more.\<close>

definition unreachable :: "nat \<Rightarrow> py_interface \<Rightarrow> bool" where
  "unreachable c i \<longleftrightarrow> c < length (pi_channels i) \<and> (\<forall>sid. hm_get (pi_senders i) sid \<noteq> Some c)"

lemma unreachable_step: "unreachable c i \<Longrightarrow> unreachable c (py_step from_json i op)"
  by (auto simp: unreachable_def py_step_def new_session_def drop_session_def python_event_callback_def
      dispatch_python_event_def take_event_def end_session_def hashmap split: py_op.split res.split option.split if_splits)

lemma unreachable_accepts_nothing: "unreachable c i \<Longrightarrow> over (accepted_by from_json c) from_json i ops = []"
proof (induction ops arbitrary: i)
  case (Cons op ops)
  then have "accepted_by from_json c i op = []"
    by (auto simp: accepted_by_def accepting_def unreachable_def split: py_op.split res.split option.splits if_splits)
  with Cons unreachable_step show ?case by simp
qed simp

section \<open>Properties\<close>

text \<open>
  C22 (events of scripts reach their session).  Over any history of sessions and events, what a session takes from
  its channel, followed by what still waits there, is what was accepted for it, in order; everything accepted
  named the session the channel was made for; no more than 100 events wait.  Once a session has been dropped
  its channel gets nothing any more, even when another session has the same id.
\<close>

theorem python_events_delivered:
  assumes "c < length (pi_channels (run (py_step from_json) py_start ops))"
  shows "let i = run (py_step from_json) py_start ops; accepted = over (accepted_by from_json c) from_json py_start ops in
    over (taken_by c) from_json py_start ops @ pc_waiting (pi_channels i ! c) = map snd accepted
    \<and> (\<forall>(session_id, e)\<in>set accepted. session_of_c_int session_id = pc_session (pi_channels i ! c))
    \<and> length (pc_waiting (pi_channels i ! c)) \<le> 100
    \<and> (\<forall>more. over (accepted_by from_json c) from_json (drop_session (pc_session (pi_channels i ! c)) i) more = [])"
proof -
  let ?i = "run (py_step from_json) py_start ops"
  have ok: "registered ?i" by (rule py_registry.reachable_inv)
  have start: "registered py_start" by (rule py_registry.start_inv)
  have "over (taken_by c) from_json py_start ops @ pc_waiting (pi_channels ?i ! c)
      = map snd (over (accepted_by from_json c) from_json py_start ops)"
    using run_balance [OF start, of c from_json ops] assms by (simp add: waiting_in_def py_start_def)
  moreover have "unreachable c (drop_session (pc_session (pi_channels ?i ! c)) ?i)"
    using ok assms by (auto simp: unreachable_def drop_session_def registered_def hashmap split: if_splits)
  moreover have "length (pc_waiting (pi_channels ?i ! c)) \<le> 100"
    using ok assms nth_mem [OF assms] by (auto simp: registered_def py_capacity_def)
  ultimately show ?thesis
    using accepted_addressed [OF start] unreachable_accepts_nothing by (auto simp: Let_def)
qed

definition demo_events :: "string \<Rightarrow> (string, python_event) res" where
  "demo_events json = (if json = [] then Err ''EOF'' else Ok (PyDebuggerMessage json ''stdout''))"

definition demo_history :: "py_op list" where
  "demo_history = [PyNewSession 1, PyNewSession 2, PyEvent 2 ''a'', PyEvent 1 ''b'', PyEvent 2 ''c'', PyTake 1]"

theorem python_events_delivered_witness:
  "over (taken_by 1) demo_events py_start demo_history @ pc_waiting (pi_channels (run (py_step demo_events) py_start demo_history) ! 1)
     = [PyDebuggerMessage ''a'' ''stdout'', PyDebuggerMessage ''c'' ''stdout'']"
proof -
  have "1 < length (pi_channels (run (py_step demo_events) py_start demo_history))" by code_simp
  from python_events_delivered [OF this]
  have "over (taken_by 1) demo_events py_start demo_history @ pc_waiting (pi_channels (run (py_step demo_events) py_start demo_history) ! 1)
    = map snd (over (accepted_by demo_events 1) demo_events py_start demo_history)" by (simp add: Let_def)
  moreover have "over (accepted_by demo_events 1) demo_events py_start demo_history
    = [(2, PyDebuggerMessage ''a'' ''stdout''), (2, PyDebuggerMessage ''c'' ''stdout'')]" by code_simp
  ultimately show ?thesis by simp
qed

section \<open>Settings\<close>

text \<open>
  What Python makes of a string literal in triple quotes, after the opening ones, as far as quotes and backslashes
  go.
\<close>

fun triple_quoted :: "string \<Rightarrow> string option" where
  "triple_quoted [] = None"
| "triple_quoted (c # s) =
     (if c = CHR 0x22 \<and> take 2 s = [CHR 0x22, CHR 0x22] then Some []
      else if c = CHR 0x5C then
        (case s of
           d # r \<Rightarrow>
             map_option (\<lambda>t. if d \<in> {CHR 0x22, CHR 0x5C} then d # t else c # d # t) (triple_quoted r)
         | [] \<Rightarrow> None)
      else map_option (Cons c) (triple_quoted s))"

text \<open>
  Settings whose JSON has escapes do not arrive as they are: the quotes of a string lose their backslashes, and
  what is left is no JSON.
\<close>

lemma settings_unescaped:
  "triple_quoted (''{\"scriptConfig\":{\"a\":\"'' @ [CHR 0x5C] @ ''\"b\"}}'' @ ''\"\"\"'') = Some ''{\"scriptConfig\":{\"a\":\"\"b\"}}''"
  by code_simp

text \<open>Those without do.\<close>

lemma settings_plain:
  assumes "CHR 0x5C \<notin> set json" "\<And>a b. json @ ''\"\"'' \<noteq> a @ ''\"\"\"'' @ b"
  shows "triple_quoted (json @ ''\"\"\"'') = Some json"
  using assms
proof (induction json)
  case (Cons c json)
  have "\<not> (c = CHR 0x22 \<and> take 2 (json @ ''\"\"\"'') = ''\"\"'')"
  proof
    assume q: "c = CHR 0x22 \<and> take 2 (json @ ''\"\"\"'') = ''\"\"''"
    then obtain b where "json @ ''\"\"'' = ''\"\"'' @ b"
      by (cases json; cases "tl json") auto
    with q Cons(3) [of "[]" b] show False by simp
  qed
  moreover have "triple_quoted (json @ ''\"\"\"'') = Some json"
    by (rule Cons(1)) (use Cons(2) Cons(3) [of "c # _"] in auto)
  ultimately show ?case using Cons(2) by auto
qed simp

text \<open>Every code object that the settings are compiled to is dropped, whatever becomes of its evaluation.\<close>

lemma settings_code_dropped:
  assumes "settings_to_json py settings = Ok json"
    and "py_compile_code py (settings_statement json) ''<string>'' w = (PyOk code, w1)"
    and "py_evaluate_as_sbvalue py code (dummy_context py w1) 0 w1 = (r, w2)"
  shows "snd (py_update_adapter_settings py settings w) = drop_pyobject py code w2"
  using assms by (simp add: py_update_adapter_settings_def compile_code_def evaluate_def)

end
