(* ===== verification/Terminals.thy ===== *)
theory Terminals
  imports C_Strings Machines Launch
begin

text \<open>
  \<open>src/codelldb-launch/src/main.rs\<close>, \<open>src/codelldb/src/terminal.rs\<close> and
  \<open>src/codelldb/src/debug_session/debugger_terminal.rs\<close>: the agent that runs in a terminal, the adapter's end
  of the connection to it, their handshake, and the terminal in which LLDB's command interpreter runs.
\<close>

section \<open>The agent\<close>

record agent_args =
  arg_connect :: "string option"
  arg_config :: "string option"
  arg_clear_screen :: bool
  arg_cmd :: "string list"

text \<open>
  What the agent finds in its process: the environment, the files (\<open>None\<close> if a file cannot be opened, else what
  reading it gives), the working directory, and the name of the terminal of its standard output.
\<close>

record agent_process =
  environment :: "(string \<times> string) list"
  file_text :: "string \<Rightarrow> (string, string) res option"
  working_dir :: "string option"
  stdout_tty :: "u8 list option"

definition env_var :: "agent_process \<Rightarrow> string \<Rightarrow> string option" where
  "env_var p name = map_of (environment p) name"

definition agent_address :: "agent_args \<Rightarrow> agent_process \<Rightarrow> (string, string) res" where
  "agent_address args p =
     (case arg_connect args of
        Some address \<Rightarrow> Ok address
      | None \<Rightarrow>
          (case env_var p ''CODELLDB_LAUNCH_CONNECT'' of
             Some address \<Rightarrow> Ok address
           | None \<Rightarrow>
               (case env_var p ''CODELLDB_LAUNCH_CONNECT_FILE'' of
                  Some path \<Rightarrow> (case file_text p path of None \<Rightarrow> Panic | Some r \<Rightarrow> r)
                | None \<Rightarrow> Err ''Need an address to connect to.'')))"

definition agent_config :: "agent_args \<Rightarrow> agent_process \<Rightarrow> string option" where
  "agent_config args p =
     (case arg_config args of
        Some config \<Rightarrow> Some config
      | None \<Rightarrow> env_var p ''CODELLDB_LAUNCH_CONFIG'')"

definition get_tty_name :: "agent_process \<Rightarrow> (string, string) res" where
  "get_tty_name p =
     (case stdout_tty p of
        None \<Rightarrow> Err ''No TTY''
      | Some name \<Rightarrow> if valid_utf8 name then Ok (map (\<lambda>b. char_of (unat b)) name) else Err ''invalid utf-8'')"

definition agent_terminal_id :: "agent_process \<Rightarrow> terminal_id option" where
  "agent_terminal_id p = (case get_tty_name p of Ok name \<Rightarrow> Some (TTY name) | _ \<Rightarrow> None)"

record launch_environment =
  le_cmd :: "string list"
  le_cwd :: string
  le_env :: "(string \<times> string) list"
  le_terminal_id :: "terminal_id option"
  le_config :: "string option"

record launch_response =
  lr_success :: bool
  lr_message :: "string option"

definition agent_request :: "agent_args \<Rightarrow> agent_process \<Rightarrow> launch_environment" where
  "agent_request args p = \<lparr>le_cmd = arg_cmd args, le_cwd = unwrap_or (working_dir p) [],
     le_env = environment p, le_terminal_id = agent_terminal_id p, le_config = agent_config args p\<rparr>"

text \<open>
  The JSON of the two messages is serde's; so is the reading of a socket address the standard library's, and the
  reading of the command line clap's (\<open>None\<close>: it prints its usage and exits).
\<close>

record 'a agent_codec =
  parse_args :: "string list \<Rightarrow> agent_args option"
  parse_address :: "string \<Rightarrow> (string, 'a) res"
  put_environment :: "launch_environment \<Rightarrow> string"
  get_environment :: "string \<Rightarrow> (string, launch_environment) res"
  put_response :: "launch_response \<Rightarrow> string"
  get_response :: "string \<Rightarrow> (string, launch_response) res"

text \<open>The agent up to the connection: where it connects to, and what it sends.\<close>

definition agent_start :: "'a agent_codec \<Rightarrow> agent_args \<Rightarrow> agent_process \<Rightarrow> (string, 'a \<times> launch_environment) res" where
  "agent_start c args p =
     bind_res (agent_address args p) (\<lambda>address.
       map_res (\<lambda>a. (a, agent_request args p)) (parse_address c address))"

text \<open>What the agent exits with, given what it read up to the end of the connection.\<close>

definition agent_finish :: "'a agent_codec \<Rightarrow> string \<Rightarrow> (string, unit) res" where
  "agent_finish c response =
     bind_res (get_response c response) (\<lambda>response.
       if lr_success response then Ok () else Err (unwrap_or (lr_message response) ''Failed''))"

section \<open>The adapter's end\<close>

text \<open>\<open>Path\<close> operations on the path of a file: its parent, its extension, and replacing it.\<close>

definition path_pop :: "string \<Rightarrow> string" where
  "path_pop p =
     (let dir = rev (dropWhile (\<lambda>c. c = sep) (dropWhile (\<lambda>c. c \<noteq> sep) (dropWhile (\<lambda>c. c = sep) (rev p)))) in
      if dir = [] \<and> \<not> is_relative p then [sep] else dir)"

definition path_extension :: "string \<Rightarrow> string option" where
  "path_extension p =
     (case path_file_name p of
        None \<Rightarrow> None
      | Some name \<Rightarrow>
          (case rfind (CHR ''.'') name of
             None \<Rightarrow> None
           | Some i \<Rightarrow> if i = 0 then None else Some (drop (Suc i) name)))"

definition add_extension :: "string \<Rightarrow> string option \<Rightarrow> string" where
  "add_extension name ext =
     (case ext of None \<Rightarrow> name | Some e \<Rightarrow> if e = [] then name else name @ ''.'' @ e)"

definition launcher_name :: "string \<Rightarrow> string" where
  "launcher_name current_exe = add_extension ''codelldb-launch'' (path_extension current_exe)"

text \<open>The launcher is beside the adapter, or in the directory \<open>bin\<close> beside the adapter's.\<close>

definition find_launcher :: "(string \<Rightarrow> bool) \<Rightarrow> string \<Rightarrow> (string, string) res" where
  "find_launcher there current_exe =
     (let launcher = path_join (path_pop current_exe) (launcher_name current_exe);
          launcher = (if there launcher then launcher
            else path_join (path_join (path_pop (path_pop launcher)) ''bin'') (launcher_name current_exe))
      in if there launcher then Ok launcher else Err ''Could not find codelldb-launch'')"

definition launcher_command :: "string \<Rightarrow> string \<Rightarrow> string list" where
  "launcher_command launcher addr = [launcher, ''--connect='' @ addr, ''--clear-screen'']"

text \<open>The request to the client to run the launcher in a terminal.\<close>

definition run_in_terminal_request :: "(string \<Rightarrow> bool) \<Rightarrow> string \<Rightarrow> string \<Rightarrow> (string, request) res" where
  "run_in_terminal_request there current_exe addr =
     map_res (\<lambda>launcher. Rq_runInTerminal (launcher_command launcher addr)) (find_launcher there current_exe)"

text \<open>\<open>Terminal\<close>: whether there is a connection to an agent, and the id.\<close>

record terminal =
  connected :: bool
  terminal_id :: "terminal_id option"

definition receive_environment :: "'a agent_codec \<Rightarrow> string \<Rightarrow> (string, terminal) res" where
  "receive_environment c buf =
     map_res (\<lambda>le. \<lparr>connected = True, terminal_id = le_terminal_id le\<rparr>) (get_environment c buf)"

definition from_terminal_id :: "terminal_id \<Rightarrow> terminal" where
  "from_terminal_id i = \<lparr>connected = False, terminal_id = Some i\<rparr>"

definition input_devname :: "terminal \<Rightarrow> string option" where
  "input_devname t = devname (terminal_id t)"

definition output_devname :: "terminal \<Rightarrow> string option" where
  "output_devname t = devname (terminal_id t)"

text \<open>What dropping a terminal writes to its agent.\<close>

definition drop_terminal :: "'a agent_codec \<Rightarrow> terminal \<Rightarrow> string" where
  "drop_terminal c t = (if connected t then put_response c \<lparr>lr_success = True, lr_message = None\<rparr> else [])"

definition terminal_timeout :: string where
  "terminal_timeout = ''Terminal agent did not respond within the allotted time.''"

text \<open>Both places of the launcher, and its name on a system whose programs have an extension.\<close>

lemma launcher_places:
  "find_launcher (\<lambda>p. p = ''/x/adapter/codelldb-launch'') ''/x/adapter/codelldb'' = Ok ''/x/adapter/codelldb-launch''"
  "find_launcher (\<lambda>p. p = ''/x/bin/codelldb-launch.exe'') ''/x/adapter/codelldb.exe'' = Ok ''/x/bin/codelldb-launch.exe''"
  by code_simp+

section \<open>The handshake\<close>

text \<open>
  The two processes and their connection.  The agent has not run, still has something of its message to
  write, waits for the end of the connection, or has exited; it may be killed.  The adapter is in
  \<open>Terminal::create\<close>, holds the terminal, has dropped it, or has given up.  \<open>sent_up\<close> is what was written to the
  adapter and \<open>up_closed\<close> whether that is all; \<open>sent_down\<close> is what the adapter wrote.
\<close>

datatype agent_phase =
    AgentNotRun | AgentWriting string | AgentWaiting | AgentExited "(string, unit) res" | AgentKilled

datatype adapter_phase = Listening | Holding terminal | Released terminal | GaveUp "(string, terminal) res"

record handshake =
  hs_agent :: agent_phase
  hs_adapter :: adapter_phase
  sent_up :: string
  up_closed :: bool
  sent_down :: string

text \<open>
  \<open>AgentRuns\<close>: the client runs the command the adapter asked for, in a process the client makes; the agent
  gets a connection if the adapter still listens.  A write or a read of it may fail at any time, and so may setting
  the connection's options, before the first write.
\<close>

datatype handshake_event =
    AgentRuns | AgentWrites nat | WriteFails string | AgentShutsDown | KillAgent
  | AdapterReads | AdapterTimesOut | DropTerminal | AgentReads | ReadFails string

definition adapter_gone :: "adapter_phase \<Rightarrow> bool" where
  "adapter_gone a = (case a of Released _ \<Rightarrow> True | GaveUp _ \<Rightarrow> True | _ \<Rightarrow> False)"

definition agent_connects ::
  "'a agent_codec \<Rightarrow> string list \<Rightarrow> agent_process \<Rightarrow> 'a \<Rightarrow> adapter_phase \<Rightarrow> agent_phase" where
  "agent_connects c command p listening adapter =
     (case parse_args c command of
        None \<Rightarrow> AgentExited (Err ''usage'')
      | Some args \<Rightarrow>
          (case agent_start c args p of
             Err e \<Rightarrow> AgentExited (Err e)
           | Panic \<Rightarrow> AgentExited Panic
           | Ok (address, request) \<Rightarrow>
               if address = listening \<and> adapter = Listening then AgentWriting (put_environment c request)
               else AgentExited (Err ''Connection refused'')))"

definition adapter_reads :: "'a agent_codec \<Rightarrow> string \<Rightarrow> adapter_phase" where
  "adapter_reads c buf =
     (case receive_environment c buf of Ok t \<Rightarrow> Holding t | r \<Rightarrow> GaveUp r)"

fun handshake_step ::
  "'a agent_codec \<Rightarrow> string list \<Rightarrow> agent_process \<Rightarrow> 'a \<Rightarrow> handshake \<Rightarrow> handshake_event \<Rightarrow> handshake" where
  "handshake_step c command p listening s AgentRuns =
     (if hs_agent s = AgentNotRun then s\<lparr>hs_agent := agent_connects c command p listening (hs_adapter s)\<rparr> else s)"
| "handshake_step c command p listening s (AgentWrites n) =
     (case hs_agent s of
        AgentWriting rest \<Rightarrow> s\<lparr>hs_agent := AgentWriting (drop n rest), sent_up := sent_up s @ take n rest\<rparr>
      | _ \<Rightarrow> s)"
| "handshake_step c command p listening s (WriteFails e) =
     (case hs_agent s of
        AgentWriting rest \<Rightarrow> s\<lparr>hs_agent := AgentExited (Err e), up_closed := True\<rparr>
      | _ \<Rightarrow> s)"
| "handshake_step c command p listening s AgentShutsDown =
     (if hs_agent s = AgentWriting [] then s\<lparr>hs_agent := AgentWaiting, up_closed := True\<rparr> else s)"
| "handshake_step c command p listening s KillAgent =
     (case hs_agent s of
        AgentWriting rest \<Rightarrow> s\<lparr>hs_agent := AgentKilled, up_closed := True\<rparr>
      | AgentWaiting \<Rightarrow> s\<lparr>hs_agent := AgentKilled\<rparr>
      | AgentNotRun \<Rightarrow> s\<lparr>hs_agent := AgentKilled\<rparr>
      | _ \<Rightarrow> s)"
| "handshake_step c command p listening s AdapterReads =
     (if hs_adapter s = Listening \<and> up_closed s then s\<lparr>hs_adapter := adapter_reads c (sent_up s)\<rparr> else s)"
| "handshake_step c command p listening s AdapterTimesOut =
     (if hs_adapter s = Listening then s\<lparr>hs_adapter := GaveUp (Err terminal_timeout)\<rparr> else s)"
| "handshake_step c command p listening s DropTerminal =
     (case hs_adapter s of
        Holding t \<Rightarrow> s\<lparr>hs_adapter := Released t, sent_down := drop_terminal c t\<rparr>
      | _ \<Rightarrow> s)"
| "handshake_step c command p listening s AgentReads =
     (if hs_agent s = AgentWaiting \<and> adapter_gone (hs_adapter s)
      then s\<lparr>hs_agent := AgentExited (agent_finish c (sent_down s))\<rparr> else s)"
| "handshake_step c command p listening s (ReadFails e) =
     (if hs_agent s = AgentWaiting then s\<lparr>hs_agent := AgentExited (Err e)\<rparr> else s)"

definition handshake_start :: handshake where
  "handshake_start = \<lparr>hs_agent = AgentNotRun, hs_adapter = Listening, sent_up = [], up_closed = False,
     sent_down = []\<rparr>"

text \<open>What the agent sends, if it gets as far.\<close>

definition agent_message :: "'a agent_codec \<Rightarrow> string list \<Rightarrow> agent_process \<Rightarrow> string" where
  "agent_message c command p =
     (case parse_args c command of None \<Rightarrow> [] | Some args \<Rightarrow> put_environment c (agent_request args p))"

definition handshake_inv :: "'a agent_codec \<Rightarrow> string list \<Rightarrow> agent_process \<Rightarrow> handshake \<Rightarrow> bool" where
  "handshake_inv c command p s \<longleftrightarrow>
     (\<exists>rest. agent_message c command p = sent_up s @ rest)
     \<and> (case hs_agent s of
          AgentNotRun \<Rightarrow> sent_up s = [] \<and> \<not> up_closed s
        | AgentWriting rest \<Rightarrow> agent_message c command p = sent_up s @ rest \<and> \<not> up_closed s
        | AgentWaiting \<Rightarrow> sent_up s = agent_message c command p \<and> up_closed s
        | AgentExited r \<Rightarrow> r = Ok () \<longrightarrow> adapter_gone (hs_adapter s) \<and> agent_finish c (sent_down s) = Ok ()
        | AgentKilled \<Rightarrow> True)
     \<and> (case hs_adapter s of
          Listening \<Rightarrow> sent_down s = []
        | Holding t \<Rightarrow> sent_down s = [] \<and> up_closed s \<and> receive_environment c (sent_up s) = Ok t
        | Released t \<Rightarrow> sent_down s = drop_terminal c t \<and> up_closed s \<and> receive_environment c (sent_up s) = Ok t
        | GaveUp r \<Rightarrow> sent_down s = [] \<and> \<not> is_ok r)"

lemma agent_connects_cases:
  "(\<exists>r. agent_connects c command p a ad = AgentExited r \<and> r \<noteq> Ok ())
   \<or> agent_connects c command p a ad = AgentWriting (agent_message c command p)"
  by (auto simp: agent_connects_def agent_message_def agent_start_def bind_res_eq_Ok map_res_eq_Ok
      split: option.split res.split)

lemma adapter_reads_cases:
  "(\<exists>t. adapter_reads c buf = Holding t \<and> receive_environment c buf = Ok t)
   \<or> (\<exists>r. adapter_reads c buf = GaveUp r \<and> \<not> is_ok r)"
  by (cases "receive_environment c buf") (auto simp: adapter_reads_def)

lemma handshake_step_inv:
  assumes "handshake_inv c command p s"
  shows "handshake_inv c command p (handshake_step c command p a s e)"
proof (cases e)
  case AgentRuns
  then show ?thesis
    using assms agent_connects_cases [of c command p a "hs_adapter s"]
    by (auto simp: handshake_inv_def split: adapter_phase.splits)
next
  case AdapterReads
  then show ?thesis
    using assms adapter_reads_cases [of c "sent_up s"]
    by (auto simp: handshake_inv_def adapter_gone_def split: agent_phase.splits)
qed (use assms in \<open>auto simp: handshake_inv_def adapter_gone_def intro: append_take_drop_id [symmetric]
    split: agent_phase.splits adapter_phase.splits\<close>)

lemma handshake_start_inv: "handshake_inv c command p handshake_start"
  by (simp add: handshake_inv_def handshake_start_def)

interpretation agent_handshake: started_machine
  "handshake_step c command p a" "handshake_inv c command p" handshake_start
  for c :: "'a agent_codec" and command p a
  by unfold_locales (simp_all add: handshake_step_inv handshake_start_inv)

text \<open>The arguments the agent finds on the launcher's command line.\<close>

definition launcher_args :: "string \<Rightarrow> agent_args" where
  "launcher_args addr = \<lparr>arg_connect = Some addr, arg_config = None, arg_clear_screen = True, arg_cmd = []\<rparr>"

text \<open>
  What is relied on: the launcher's command line is read as it was made, the address of the listener as the address
  of the listener, the agent's request and the adapter's response as what was written; no proper part of
  the request is a launch environment, and nothing is no response.
\<close>

definition codec_ok :: "'a agent_codec \<Rightarrow> 'a \<Rightarrow> string \<Rightarrow> string \<Rightarrow> agent_process \<Rightarrow> bool" where
  "codec_ok c listening launcher addr p \<longleftrightarrow>
     parse_args c (launcher_command launcher addr) = Some (launcher_args addr)
     \<and> parse_address c addr = Ok listening
     \<and> get_environment c (put_environment c (agent_request (launcher_args addr) p)) = Ok (agent_request (launcher_args addr) p)
     \<and> (\<forall>n < length (put_environment c (agent_request (launcher_args addr) p)).
          \<not> is_ok (get_environment c (take n (put_environment c (agent_request (launcher_args addr) p)))))
     \<and> get_response c (put_response c \<lparr>lr_success = True, lr_message = None\<rparr>) = Ok \<lparr>lr_success = True, lr_message = None\<rparr>
     \<and> \<not> is_ok (get_response c [])"

definition agent_terminal :: "agent_process \<Rightarrow> terminal" where
  "agent_terminal p = \<lparr>connected = True, terminal_id = agent_terminal_id p\<rparr>"

lemma codec_environment:
  "codec_ok c listening launcher addr p \<Longrightarrow>
     get_environment c (put_environment c (agent_request (launcher_args addr) p)) = Ok (agent_request (launcher_args addr) p)"
  by (simp add: codec_ok_def)

lemma agent_message_launcher:
  "codec_ok c listening launcher addr p \<Longrightarrow> agent_message c (launcher_command launcher addr) p
     = put_environment c (agent_request (launcher_args addr) p)"
  by (simp add: codec_ok_def agent_message_def)

lemma receive_message:
  assumes "codec_ok c listening launcher addr p" "agent_message c (launcher_command launcher addr) p = buf @ rest"
    and "receive_environment c buf = Ok t"
  shows "t = agent_terminal p"
proof -
  let ?e = "agent_request (launcher_args addr) p"
  have msg: "put_environment c ?e = buf @ rest"
    using assms(2) by (simp add: agent_message_launcher [OF assms(1)])
  have ok: "is_ok (get_environment c buf)"
    using assms(3) by (auto simp: receive_environment_def map_res_eq_Ok)
  have "rest = []"
  proof (rule ccontr)
    assume "rest \<noteq> []"
    then have "length buf < length (put_environment c ?e)" by (simp add: msg)
    with assms(1) have "\<not> is_ok (get_environment c (take (length buf) (put_environment c ?e)))"
      unfolding codec_ok_def by blast
    with ok show False by (simp add: msg)
  qed
  then have "get_environment c buf = Ok ?e" using codec_environment [OF assms(1)] msg by simp
  with assms(3) show ?thesis by (simp add: receive_environment_def agent_terminal_def agent_request_def)
qed

lemma finish_released:
  "codec_ok c listening launcher addr p \<Longrightarrow> agent_finish c (drop_terminal c (agent_terminal p)) = Ok ()"
  by (simp add: codec_ok_def agent_finish_def drop_terminal_def agent_terminal_def)

lemma finish_given_up: "codec_ok c listening launcher addr p \<Longrightarrow> agent_finish c [] \<noteq> Ok ()"
  by (cases "get_response c []") (auto simp: codec_ok_def agent_finish_def)

text \<open>
  C19 (terminal handshake).  In every interleaving of the agent, killed or not, and the adapter, timed out or not: a
  terminal the adapter holds is the agent's own; the agent exits with success only when the adapter has held
  its terminal and dropped it; an adapter that still listens gets the terminal from an agent that waits; and
  an agent that waits exits, with success exactly when its terminal was held.
\<close>

theorem terminal_handshake:
  assumes "codec_ok c listening launcher addr p"
    and s: "s = run (handshake_step c (launcher_command launcher addr) p listening) handshake_start es"
  shows "(\<forall>t. hs_adapter s = Holding t \<or> hs_adapter s = Released t \<longrightarrow> t = agent_terminal p)
    \<and> (hs_agent s = AgentExited (Ok ()) \<longrightarrow> hs_adapter s = Released (agent_terminal p))
    \<and> (hs_agent s = AgentWaiting \<longrightarrow> hs_adapter s = Listening \<longrightarrow>
         hs_adapter (handshake_step c (launcher_command launcher addr) p listening s AdapterReads)
           = Holding (agent_terminal p))
    \<and> (hs_agent s = AgentWaiting \<longrightarrow> adapter_gone (hs_adapter s) \<longrightarrow>
         (\<exists>r. hs_agent (handshake_step c (launcher_command launcher addr) p listening s AgentReads) = AgentExited r
            \<and> (r = Ok () \<longleftrightarrow> hs_adapter s = Released (agent_terminal p))))"
proof -
  let ?m = "launcher_command launcher addr"
  have inv: "handshake_inv c ?m p s" unfolding s by (rule agent_handshake.reachable_inv)
  then obtain rest where rest: "agent_message c ?m p = sent_up s @ rest" by (auto simp: handshake_inv_def)
  have own: "t = agent_terminal p" if "hs_adapter s = Holding t \<or> hs_adapter s = Released t" for t
    using inv that receive_message [OF assms(1) rest] by (auto simp: handshake_inv_def)
  have down: "sent_down s = (if hs_adapter s = Released (agent_terminal p) then drop_terminal c (agent_terminal p) else [])"
    if "adapter_gone (hs_adapter s)"
    using inv that own by (cases "hs_adapter s") (auto simp: handshake_inv_def adapter_gone_def)
  have finish: "agent_finish c (sent_down s) = Ok () \<longleftrightarrow> hs_adapter s = Released (agent_terminal p)"
    if "adapter_gone (hs_adapter s)"
    using down [OF that] finish_released [OF assms(1)] finish_given_up [OF assms(1)] by auto
  have "hs_adapter s = Released (agent_terminal p)" if "hs_agent s = AgentExited (Ok ())"
    using inv that finish by (auto simp: handshake_inv_def)
  moreover have "adapter_reads c (sent_up s) = Holding (agent_terminal p) \<and> up_closed s" if "hs_agent s = AgentWaiting"
  proof
    have up: "sent_up s = agent_message c ?m p" and closed: "up_closed s"
      using inv that by (simp_all add: handshake_inv_def)
    then show "up_closed s" by simp
    show "adapter_reads c (sent_up s) = Holding (agent_terminal p)"
      using codec_environment [OF assms(1)] unfolding up agent_message_launcher [OF assms(1)]
      by (simp add: adapter_reads_def receive_environment_def agent_request_def agent_terminal_def)
  qed
  ultimately show ?thesis
    by (intro conjI impI allI) (simp_all add: own finish)
qed


text \<open>A codec for the witnesses: what is in braces is the working directory, and a response is \<open>ok\<close> or not.\<close>

definition demo_codec :: "string agent_codec" where
  "demo_codec = \<lparr>parse_args = (\<lambda>ws. case ws of
       [_, connect, _] \<Rightarrow> Some (launcher_args (drop (length ''--connect='') connect))
     | _ \<Rightarrow> None),
     parse_address = Ok,
     put_environment = (\<lambda>e. ''{'' @ le_cwd e @ ''}''),
     get_environment = (\<lambda>buf. if 2 \<le> length buf \<and> hd buf = CHR ''{'' \<and> last buf = CHR ''}''
       then Ok \<lparr>le_cmd = [], le_cwd = butlast (tl buf), le_env = [], le_terminal_id = Some (TTY ''/t''), le_config = None\<rparr>
       else Err ''no launch environment''),
     put_response = (\<lambda>r. if lr_success r then ''ok'' else ''no''),
     get_response = (\<lambda>buf. if buf = [] then Err ''EOF'' else Ok \<lparr>lr_success = buf = ''ok'', lr_message = None\<rparr>)\<rparr>"

definition demo_process :: agent_process where
  "demo_process = \<lparr>environment = [], file_text = (\<lambda>_. None), working_dir = Some ''/w'', stdout_tty = Some [47, 116]\<rparr>"

lemma demo_tty: "get_tty_name demo_process = Ok ''/t''"
  by (simp add: get_tty_name_def demo_process_def) code_simp

lemma demo_request:
  "agent_request (launcher_args ''a:1'') demo_process = \<lparr>le_cmd = [], le_cwd = ''/w'', le_env = [],
      le_terminal_id = Some (TTY ''/t''), le_config = None\<rparr>"
proof -
  have "agent_terminal_id demo_process = Some (TTY ''/t'')" by (simp add: agent_terminal_id_def demo_tty)
  moreover have "working_dir demo_process = Some ''/w''" "environment demo_process = []" by (simp_all add: demo_process_def)
  ultimately show ?thesis
    by (simp add: agent_request_def agent_config_def env_var_def launcher_args_def unwrap_or_def)
qed

lemma demo_codec_ok: "codec_ok demo_codec ''a:1'' ''/l'' ''a:1'' demo_process"
proof -
  have "\<not> is_ok (get_environment demo_codec (take n ''{/w}''))" if "n < 4" for n :: nat
  proof -
    from that consider "n = 0" | "n = 1" | "n = 2" | "n = 3" by linarith
    then show ?thesis by cases (simp_all add: demo_codec_def)
  qed
  then show ?thesis
    unfolding codec_ok_def demo_request
    by (simp add: demo_codec_def launcher_command_def)
qed

lemma demo_connects:
  "agent_connects demo_codec (launcher_command ''/l'' ''a:1'') demo_process ''a:1'' Listening = AgentWriting ''{/w}''"
proof -
  have "agent_address (launcher_args ''a:1'') demo_process = Ok ''a:1''"
    by (simp add: agent_address_def launcher_args_def)
  then have "agent_start demo_codec (launcher_args ''a:1'') demo_process
      = Ok (''a:1'', agent_request (launcher_args ''a:1'') demo_process)"
    by (simp add: agent_start_def demo_codec_def)
  moreover have "parse_args demo_codec (launcher_command ''/l'' ''a:1'') = Some (launcher_args ''a:1'')"
    using demo_codec_ok by (simp add: codec_ok_def)
  ultimately have "agent_connects demo_codec (launcher_command ''/l'' ''a:1'') demo_process ''a:1'' Listening
      = AgentWriting (put_environment demo_codec (agent_request (launcher_args ''a:1'') demo_process))"
    by (simp add: agent_connects_def)
  then show ?thesis unfolding demo_request by (simp add: demo_codec_def)
qed

theorem terminal_handshake_witness:
  "let s = run (handshake_step demo_codec (launcher_command ''/l'' ''a:1'') demo_process ''a:1'') handshake_start
       [AgentRuns, AgentWrites 4, AgentShutsDown]
   in hs_adapter (handshake_step demo_codec (launcher_command ''/l'' ''a:1'') demo_process ''a:1'' s AdapterReads)
        = Holding (agent_terminal demo_process)"
proof -
  let ?s = "run (handshake_step demo_codec (launcher_command ''/l'' ''a:1'') demo_process ''a:1'') handshake_start
       [AgentRuns, AgentWrites 4, AgentShutsDown]"
  have "hs_agent ?s = AgentWaiting" "hs_adapter ?s = Listening"
    by (simp_all add: handshake_start_def demo_connects)
  then show ?thesis using terminal_handshake [OF demo_codec_ok refl,
      of "[AgentRuns, AgentWrites 4, AgentShutsDown]"]
    unfolding Let_def by blast
qed

section \<open>The terminal of the command interpreter\<close>

record debugger_terminal =
  dt_terminal :: terminal
  dt_thread :: nat
  dt_input_fd :: nat

text \<open>
  Files by name, the debugger's standard files, and the thread that runs the command interpreter.  Files and
  threads are numbers.
\<close>

record 'w console_api =
  open_file :: "string \<Rightarrow> ('w, nat) fallible"
  create_file :: "string \<Rightarrow> ('w, nat) fallible"
  set_input_file :: "nat \<Rightarrow> ('w, unit) fallible"
  set_output_file :: "nat \<Rightarrow> ('w, unit) fallible"
  set_error_file :: "nat \<Rightarrow> ('w, unit) fallible"
  spawn_interpreter :: "('w, nat) fallible"
  interrupt_thread :: "nat \<Rightarrow> 'w \<Rightarrow> 'w"
  dup_onto :: "nat \<Rightarrow> nat \<Rightarrow> 'w \<Rightarrow> 'w"
  join_thread :: "nat \<Rightarrow> 'w \<Rightarrow> 'w"

definition unwrap_world :: "('w, 'a) fallible \<Rightarrow> ('w, 'h, 'a) handler" where
  "unwrap_world f = bindS (call_world f) (\<lambda>r. case r of Ok x \<Rightarrow> returnS x | _ \<Rightarrow> panicS)"

definition unwrap_name :: "string option \<Rightarrow> ('w, 'h, string) handler" where
  "unwrap_name name = (case name of Some n \<Rightarrow> returnS n | None \<Rightarrow> panicS)"

text \<open>Which terminal is asked for: an integrated one with this title.\<close>

definition console_terminal_title :: "string \<Rightarrow> string" where
  "console_terminal_title session_name = ''CodeLLDB: '' @ session_name"

text \<open>
  What is done with the result of \<open>Terminal::create\<close>; the result is what the session's field
  \<open>debugger_terminal\<close>, which was \<open>before\<close>, is set to.
\<close>

definition debugger_terminal_ready ::
  "'w console_api \<Rightarrow> (string, terminal) res \<Rightarrow> debugger_terminal option \<Rightarrow>
     ('w, 'h, debugger_terminal option) handler" where
  "debugger_terminal_ready ca r before =
     (case r of
        Ok terminal \<Rightarrow>
          bindS (unwrap_name (input_devname terminal)) (\<lambda>input.
          bindS (unwrap_world (open_file ca input)) (\<lambda>stdin.
          bindS (unwrap_name (output_devname terminal)) (\<lambda>output.
          bindS (unwrap_world (create_file ca output)) (\<lambda>stdout.
          bindS (unwrap_world (create_file ca output)) (\<lambda>stderr.
          thenS (log_errorsS (try_world (set_input_file ca stdin)))
          (thenS (log_errorsS (try_world (set_output_file ca stdout)))
          (thenS (log_errorsS (try_world (set_error_file ca stderr)))
          (bindS (unwrap_world (spawn_interpreter ca)) (\<lambda>thread.
             returnS (Some \<lparr>dt_terminal = terminal, dt_thread = thread, dt_input_fd = stdin\<rparr>))))))))))
      | Err err \<Rightarrow>
          thenS (console_error (''Failed to launch a terminal for debugger console. ('' @ err @ '')'')) (returnS before)
      | Panic \<Rightarrow> panicS)"

text \<open>The field is taken first, so that it is empty whatever happens then.\<close>

definition destroy_debugger_terminal ::
  "'w console_api \<Rightarrow> debugger_terminal option \<Rightarrow> ('w, 'h, unit) handler" where
  "destroy_debugger_terminal ca before =
     (case before of
        None \<Rightarrow> returnS ()
      | Some dt \<Rightarrow>
          bindS (try_world (create_file ca ''/dev/null'')) (\<lambda>write_only.
          thenS (modify_world (interrupt_thread ca (dt_thread dt)))
          (thenS (modify_world (dup_onto ca write_only (dt_input_fd dt)))
          (thenS (modify_world (interrupt_thread ca (dt_thread dt)))
          (modify_world (join_thread ca (dt_thread dt)))))))"

text \<open>An agent without a terminal name makes the adapter panic; a failed agent only gives a message.\<close>

lemma nameless_terminal_panics:
  "terminal_id t = None \<or> terminal_id t = Some (PID n) \<Longrightarrow>
     fst (debugger_terminal_ready ca (Ok t) before s) = Panic"
  by (auto simp: debugger_terminal_ready_def input_devname_def unwrap_name_def res_simps)

lemma no_tty_no_name: "stdout_tty p = None \<Longrightarrow> terminal_id (agent_terminal p) = None"
  by (simp add: agent_terminal_def agent_terminal_id_def get_tty_name_def)

lemma failed_terminal_reported:
  "debugger_terminal_ready ca (Err e) before s = (Ok before, s\<lparr>outbox := outbox s
     @ [MEvent (Ev_output (Some ''stderr'') (''Failed to launch a terminal for debugger console. ('' @ e @ '')'' @ [newline]))]\<rparr>)"
  by (simp add: debugger_terminal_ready_def session_defs res_simps)

end
