(* ===== verification/Session_Start.thy ===== *)
theory Session_Start
  imports Session_Correct Python_Interface Terminals
begin

text \<open>
  The start and the end of a session (\<open>run\<close> of \<open>src/codelldb/src/debug_session.rs\<close>) and of the server that runs
  sessions (\<open>src/codelldb/src/lib.rs\<close>).
\<close>

section \<open>A new session\<close>

text \<open>
  What \<open>run\<close> asks of the system.  A debugger is a number; \<open>listen_to\<close> adds a listener for its warnings and errors, and \<open>listen_threads\<close> one for the events of the class of threads.
\<close>

record ('w, 'h) start_api =
  create_debugger :: "'w \<Rightarrow> u64 \<times> 'w"
  listen_to :: "u64 \<Rightarrow> 'w \<Rightarrow> 'w"
  listen_threads :: "u64 \<Rightarrow> u32 \<Rightarrow> 'w \<Rightarrow> 'w"
  make_pipe :: "('w, nat \<times> nat) fallible"
  clone_file :: "nat \<Rightarrow> ('w, nat) fallible"
  set_output_file_of :: "u64 \<Rightarrow> nat \<Rightarrow> ('w, unit) fallible"
  start_polling :: "u64 \<Rightarrow> nat \<Rightarrow> 'w \<Rightarrow> 'w"
  clear_all_callbacks :: "'w \<Rightarrow> 'w"
  handles_new :: 'h

definition polling_queue :: nat where
  "polling_queue = 1000"

text \<open>
  The fields at the start.  \<open>relative_path_base\<close> and the client's capabilities are not there until
  the requests \<open>launch\<close>, \<open>attach\<close> and \<open>initialize\<close> set them, and reading them before is a panic in the code; what
  they hold here is a parameter.
\<close>

definition session_new :: "'w \<Rightarrow> 'h \<Rightarrow> bool \<Rightarrow> string \<Rightarrow> initialize_args \<Rightarrow> ('w, 'h) session" where
  "session_new w handles python base caps =
     \<lparr>world = w, outbox = [], breakpoints = breakpoints_new, var_refs = handles,
      disasm_ranges = ranges_new, source_map_cache = [], relative_path_base = base,
      selected_frame_changed = False, last_goto_request = None, step_in_targets = [], client_caps = caps,
      has_python = python, no_debug = False, default_expr_type = ExSimple, global_format = FmtDefault,
      show_disassembly = SdAuto, deref_pointers = True, console_mode = CmCommands,
      suppress_missing_files = True, evaluate_for_hovers = True, command_completions = True,
      evaluation_timeout = 5000, summary_timeout = 10, source_languages = [''cpp''],
      breakpoint_mode = BmPath, max_summary_length = 32, max_instr_bytes = 9,
      terminate_on_disconnect = False, pre_terminate_commands = None, exit_commands = None,
      graceful_shutdown = None, debuggee_terminal = None, corked = False, pending_futures = []\<rparr>"

text \<open>An \<open>unwrap\<close> of a call.\<close>

definition then_unwrap :: "('e, 'a) res \<times> 'w \<Rightarrow> ('a \<Rightarrow> 'w \<Rightarrow> ('d, 'b) res) \<Rightarrow> ('d, 'b) res" where
  "then_unwrap p f = (case p of (Ok x, w) \<Rightarrow> f x w | _ \<Rightarrow> Panic)"

text \<open>
  \<open>run\<close> up to the loop.  \<open>new_python_session\<close> registers the session with the Python interface, if there is one; the
  console's pipe is cloned for it, and for the debugger's output.
\<close>

definition listen_to_debugger :: "('w, 'h) start_api \<Rightarrow> u64 \<Rightarrow> 'w \<Rightarrow> 'w" where
  "listen_to_debugger su debugger w =
     listen_threads su debugger (- 1) (listen_to su debugger w)"

definition open_python_session ::
  "('w, 'h) start_api \<Rightarrow> (u64 \<Rightarrow> nat \<Rightarrow> 'w \<Rightarrow> 'w) option \<Rightarrow> u64 \<Rightarrow> nat \<Rightarrow> 'w \<Rightarrow> (string, 'w) res" where
  "open_python_session su new_python_session debugger con_writer w =
     (case new_python_session of
        None \<Rightarrow> Ok w
      | Some f \<Rightarrow> then_unwrap (clone_file su con_writer w) (\<lambda>fd w. Ok (f debugger fd w)))"

definition start_session ::
  "('w, 'h) start_api \<Rightarrow> 'w lldb \<Rightarrow> 'w settings_api \<Rightarrow> (u64 \<Rightarrow> nat \<Rightarrow> 'w \<Rightarrow> 'w) option \<Rightarrow> adapter_settings \<Rightarrow>
     string \<Rightarrow> initialize_args \<Rightarrow> 'w \<Rightarrow> (string, ('w, 'h) session) res" where
  "start_session su ll st new_python_session settings base caps w =
     (let (debugger, w) = create_debugger su w;
          w = listen_to_debugger su debugger (set_async_mode ll True w) in
      then_unwrap (make_pipe su w) (\<lambda>(con_reader, con_writer) w.
      bind_res (open_python_session su new_python_session debugger con_writer w) (\<lambda>w.
      let s = session_new w (handles_new su) (new_python_session \<noteq> None) base caps;
          s = snd (update_adapter_settings st settings s);
          s = s\<lparr>world := start_polling su debugger polling_queue (world s)\<rparr> in
      then_unwrap (clone_file su con_writer (world s)) (\<lambda>fd w.
        Ok (s\<lparr>world := snd (set_output_file_of su debugger fd w)\<rparr>)))))"

text \<open>The end, when there are no more requests.\<close>

definition end_of_session ::
  "('w, 'h) start_api \<Rightarrow> 'w console_api \<Rightarrow> debugger_terminal option \<Rightarrow> ('w, 'h, unit) handler" where
  "end_of_session su ca terminal =
     thenS (log_errorsS (destroy_debugger_terminal ca terminal)) (modify_world (clear_all_callbacks su))"

section \<open>From the start\<close>

lemma session_new_owed: "owed (session_new w h python base caps) = {#}"
  by (simp add: owed_def answered_def awaiting_def session_new_def)

lemma then_unwrap_Ok: "then_unwrap p f = Ok y \<longleftrightarrow> (\<exists>x w. p = (Ok x, w) \<and> f x w = Ok y)"
  by (auto simp: then_unwrap_def split: prod.split res.split)

text \<open>Only the world differs from the new session with the settings in it.\<close>

lemma start_session_fields:
  assumes "start_session su ll st python settings base caps w = Ok s"
  shows "\<exists>w w'. s = (snd (update_adapter_settings st settings
    (session_new w (handles_new su) (python \<noteq> None) base caps)))\<lparr>world := w'\<rparr>"
  using assms by (auto simp: start_session_def Let_def then_unwrap_Ok bind_res_eq_Ok split: prod.splits)

lemma settings_fields:
  "owed (snd (update_adapter_settings st settings s)) = owed s"
  "corked (snd (update_adapter_settings st settings s)) = corked s"
  "terminate_on_disconnect (snd (update_adapter_settings st settings s)) = terminate_on_disconnect s"
  "breakpoints (snd (update_adapter_settings st settings s)) = breakpoints s"
  "var_refs (snd (update_adapter_settings st settings s)) = var_refs s"
  "disasm_ranges (snd (update_adapter_settings st settings s)) = disasm_ranges s"
  "source_map_cache (snd (update_adapter_settings st settings s)) = source_map_cache s"
  "outbox (snd (update_adapter_settings st settings s)) = outbox s"
  "evaluate_for_hovers (snd (update_adapter_settings st settings s))
     = unwrap_or (as_evaluate_for_hovers settings) (evaluate_for_hovers s)"
  "source_languages (snd (update_adapter_settings st settings s))
     = unwrap_or (as_source_languages settings) (source_languages s)"
  by (auto simp: update_adapter_settings_def set_languages_def set_completions_def set_hovers_def set_plain_def
      owed_def answered_def awaiting_def unwrap_or_def Let_def split: option.split)

lemma owed_world [simp]: "owed (s\<lparr>world := w\<rparr>) = owed s"
  by (simp add: owed_def answered_def awaiting_def)

text \<open>What the theorems on sessions ask of a session holds at its start: nothing is owed, said or cached.\<close>

lemma started_session:
  assumes "start_session su ll st python settings base caps w = Ok s"
  shows "owed s = {#}" "outbox s = []" "cache_ok ll s"
proof -
  from start_session_fields [OF assms] obtain w w' where
    s: "s = (snd (update_adapter_settings st settings (session_new w (handles_new su) (python \<noteq> None) base caps)))\<lparr>world := w'\<rparr>"
    by blast
  show "owed s = {#}" by (simp add: s settings_fields session_new_owed)
  show "outbox s = []" by (simp add: s settings_fields) (simp add: session_new_def)
  show "cache_ok ll s" by (simp add: s cache_ok_def settings_fields hashmap) (simp add: session_new_def hashmap)
qed

text \<open>A system whose files and debuggers are always there starts the session of the witnesses.\<close>

definition demo_start_api :: "(nat, demo_tree) start_api" where
  "demo_start_api = \<lparr>create_debugger = (\<lambda>w. (1, w)), listen_to = (\<lambda>d w. w), listen_threads = (\<lambda>d m w. w),
     make_pipe = (\<lambda>w. (Ok (3, 4), w)), clone_file = (\<lambda>f w. (Ok (Suc f), w)), set_output_file_of = (\<lambda>d f w. (Ok (), w)),
     start_polling = (\<lambda>d n w. w), clear_all_callbacks = (\<lambda>w. w), handles_new = []\<rparr>"

lemma demo_session_start:
  "start_session demo_start_api demo_step_lldb demo_settings None default_adapter_settings ''/a'' (client_caps demo_start) 3
     = Ok demo_start"
  by (simp add: start_session_def demo_start_api_def demo_settings_def listen_to_debugger_def open_python_session_def
      then_unwrap_def demo_step_lldb_def tiny_lldb_def update_adapter_settings_def set_languages_def set_completions_def
      set_hovers_def set_plain_def default_adapter_settings_def unwrap_or_def session_new_def demo_start_def
      tiny_session_def)

section \<open>The server\<close>

record cli =
  cli_liblldb :: "string option"
  cli_port :: "u16 option"
  cli_connect :: "u16 option"
  cli_auth_token :: "string option"
  cli_multi_session :: bool
  cli_settings :: "string option"

definition cli_adapter_settings :: "(string \<Rightarrow> (string, adapter_settings) res) \<Rightarrow> cli \<Rightarrow> adapter_settings" where
  "cli_adapter_settings from_json c =
     (case cli_settings c of
        Some text \<Rightarrow> (case from_json text of Ok settings \<Rightarrow> settings | _ \<Rightarrow> default_adapter_settings)
      | None \<Rightarrow> default_adapter_settings)"

datatype transport = Stdio | ConnectTo u16 | ListenOn u16

definition transport_of :: "cli \<Rightarrow> transport" where
  "transport_of c =
     (case cli_connect c of
        Some port \<Rightarrow> ConnectTo port
      | None \<Rightarrow> (case cli_port c of Some port \<Rightarrow> ListenOn port | None \<Rightarrow> Stdio))"

definition auth_header :: "string \<Rightarrow> string" where
  "auth_header auth_token = ''Auth-Token: '' @ auth_token @ [CHR 13, newline]"

text \<open>What runs before the first session: the startup command, and the Python interface, which may be missing.\<close>

record 'w server_api =
  initialize_lldb :: "'w \<Rightarrow> 'w"
  server_debugger :: "'w \<Rightarrow> u64 \<times> 'w"
  startup_command :: "'w \<Rightarrow> string option"
  run_startup :: "string \<Rightarrow> 'w \<Rightarrow> 'w"
  adapter_dir_of :: "'w \<Rightarrow> string option"
  init_python :: "string \<Rightarrow> ('w, py_interface) fallible"

definition prepare_server :: "'w server_api \<Rightarrow> 'w \<Rightarrow> (string, py_interface option) res \<times> 'w" where
  "prepare_server sv w =
     (let (_, w) = server_debugger sv (initialize_lldb sv w);
          w = (case startup_command sv w of Some command \<Rightarrow> run_startup sv command w | None \<Rightarrow> w) in
      case adapter_dir_of sv w of
        None \<Rightarrow> (Panic, w)
      | Some adapter_dir \<Rightarrow>
          (case init_python sv adapter_dir w of
             (Ok python, w) \<Rightarrow> (Ok (Some python), w)
           | (Err _, w) \<Rightarrow> (Ok None, w)
           | (Panic, w) \<Rightarrow> (Panic, w)))"

text \<open>
  The loop.  A step is the next thing the system reports: that binding, connecting, accepting or writing the header
  worked, that it did not, or that the session that runs has ended.  An error leaves the asynchronous block and
  meets an \<open>unwrap\<close>, so that the server does not return but panics.
\<close>

datatype server_phase = Binding | AwaitingStream | SendingHeader string | Serving | Returned | Crashed

record server =
  sv_phase :: server_phase
  sv_started :: nat
  sv_ended :: nat
  sv_sent :: string

datatype server_event = Succeeds | Fails | SessionEnds

definition server_start :: "cli \<Rightarrow> server" where
  "server_start c =
     (let phase = (case transport_of c of Stdio \<Rightarrow> Serving | ConnectTo _ \<Rightarrow> AwaitingStream | ListenOn _ \<Rightarrow> Binding) in
      \<lparr>sv_phase = phase, sv_started = (if phase = Serving then 1 else 0), sv_ended = 0, sv_sent = []\<rparr>)"

definition serve :: "server \<Rightarrow> server" where
  "serve s = s\<lparr>sv_phase := Serving, sv_started := Suc (sv_started s)\<rparr>"

definition keeps_serving :: "cli \<Rightarrow> bool" where
  "keeps_serving c = (case transport_of c of ListenOn _ \<Rightarrow> cli_multi_session c | _ \<Rightarrow> False)"

fun server_step :: "cli \<Rightarrow> server \<Rightarrow> server_event \<Rightarrow> server" where
  "server_step c s Succeeds =
     (case sv_phase s of
        Binding \<Rightarrow> s\<lparr>sv_phase := AwaitingStream\<rparr>
      | AwaitingStream \<Rightarrow>
          (case (transport_of c, cli_auth_token c) of
             (ConnectTo _, Some auth_token) \<Rightarrow> s\<lparr>sv_phase := SendingHeader (auth_header auth_token)\<rparr>
           | _ \<Rightarrow> serve s)
      | SendingHeader header \<Rightarrow> serve (s\<lparr>sv_sent := sv_sent s @ header\<rparr>)
      | _ \<Rightarrow> s)"
| "server_step c s Fails =
     (case sv_phase s of
        Binding \<Rightarrow> s\<lparr>sv_phase := Crashed\<rparr>
      | AwaitingStream \<Rightarrow> s\<lparr>sv_phase := Crashed\<rparr>
      | SendingHeader _ \<Rightarrow> s\<lparr>sv_phase := Crashed\<rparr>
      | _ \<Rightarrow> s)"
| "server_step c s SessionEnds =
     (if sv_phase s = Serving then
        s\<lparr>sv_ended := Suc (sv_ended s), sv_phase := (if keeps_serving c then AwaitingStream else Returned)\<rparr>
      else s)"

definition server_inv :: "cli \<Rightarrow> server \<Rightarrow> bool" where
  "server_inv c s \<longleftrightarrow>
     sv_started s = sv_ended s + (if sv_phase s = Serving then 1 else 0)
     \<and> (\<not> keeps_serving c \<longrightarrow> sv_ended s = (if sv_phase s = Returned then 1 else 0))
     \<and> (keeps_serving c \<longrightarrow> sv_phase s \<noteq> Returned)
     \<and> (\<forall>header. sv_phase s = SendingHeader header \<longrightarrow> sv_sent s = []
          \<and> (\<exists>port auth_token. transport_of c = ConnectTo port \<and> cli_auth_token c = Some auth_token \<and> header = auth_header auth_token))
     \<and> (case (transport_of c, cli_auth_token c) of
          (ConnectTo _, Some auth_token) \<Rightarrow> sv_sent s = (if 0 < sv_started s then auth_header auth_token else [])
        | _ \<Rightarrow> sv_sent s = [])"

interpretation server: started_machine "server_step c" "server_inv c" "server_start c" for c
proof unfold_locales
  show "server_inv c (server_start c)"
    by (auto simp: server_inv_def server_start_def keeps_serving_def Let_def split: transport.split option.split)
  show "server_inv c (server_step c s e)" if "server_inv c s" for s e
    using that by (cases e; cases "sv_phase s")
      (auto simp: server_inv_def serve_def keeps_serving_def split: transport.splits option.splits)
qed

text \<open>
  C23 (the server's sessions).  Whatever the network does, sessions run one after the other; a server that listens for
  several sessions never returns, and any other runs one session, after which it returns; and over a
  connection the adapter made, a session starts only after the whole authentication header was sent.
\<close>

theorem sessions_in_turn:
  assumes s: "s = run (server_step c) (server_start c) es"
  shows "sv_ended s \<le> sv_started s \<and> sv_started s \<le> Suc (sv_ended s)
    \<and> (keeps_serving c \<longrightarrow> sv_phase s \<noteq> Returned)
    \<and> (\<not> keeps_serving c \<longrightarrow> sv_started s \<le> 1 \<and> (sv_phase s = Returned \<longleftrightarrow> sv_ended s = 1))
    \<and> (\<forall>port auth_token. transport_of c = ConnectTo port \<longrightarrow> cli_auth_token c = Some auth_token \<longrightarrow>
         sv_sent s = (if 0 < sv_started s then auth_header auth_token else []))"
proof -
  have "server_inv c s" unfolding s by (rule server.reachable_inv)
  then show ?thesis by (auto simp: server_inv_def split: if_splits)
qed

text \<open>A failure anywhere before a session crashes the server, although \<open>debug_server\<close> has an error to return.\<close>

lemma server_failure_crashes:
  "sv_phase s \<in> {Binding, AwaitingStream} \<Longrightarrow> sv_phase (server_step c s Fails) = Crashed"
  by auto

definition demo_cli :: cli where
  "demo_cli = \<lparr>cli_liblldb = None, cli_port = None, cli_connect = Some 4711, cli_auth_token = Some ''k'',
     cli_multi_session = True, cli_settings = None\<rparr>"

theorem sessions_in_turn_witness:
  "let s = run (server_step demo_cli) (server_start demo_cli) [Succeeds, Succeeds, SessionEnds]
   in sv_ended s = 1 \<and> sv_phase s = Returned \<and> sv_sent s = auth_header ''k''"
proof -
  let ?s = "run (server_step demo_cli) (server_start demo_cli) [Succeeds, Succeeds, SessionEnds]"
  have "sv_ended ?s = 1" "sv_started ?s = 1" "transport_of demo_cli = ConnectTo 4711" "\<not> keeps_serving demo_cli"
    by (simp_all add: server_start_def transport_of_def demo_cli_def serve_def keeps_serving_def)
  then show ?thesis using sessions_in_turn [OF refl, of demo_cli "[Succeeds, Succeeds, SessionEnds]"]
    by (auto simp: demo_cli_def Let_def)
qed

end
