(* ===== verification/Main_Entry.thy ===== *)
theory Main_Entry
  imports Session_Start
begin

text \<open>
  The program's entry, \<open>src/codelldb/bin/main.rs\<close>: the lines of the log, the place of LLDB's library, and what
  happens before the server starts.
\<close>

definition log_line :: "nat \<Rightarrow> nat \<Rightarrow> string \<Rightarrow> string option \<Rightarrow> string \<Rightarrow> string" where
  "log_line secs subsec_millis level log_module args =
     ''['' @ show_nat secs @ ''.'' @ show_nat subsec_millis @ '' '' @ level @ '' ''
     @ (case log_module of Some m \<Rightarrow> m | None \<Rightarrow> []) @ ''] '' @ args @ [newline]"

text \<open>The milliseconds are not padded: 1.005 s reads as 1.5, after 1.050 s as 1.50.\<close>

lemma log_time_unpadded:
  "log_line 1 5 ''INFO'' None ''x'' = ''[1.5 INFO ] x'' @ [newline]"
  "log_line 1 50 ''INFO'' None ''x'' = ''[1.50 INFO ] x'' @ [newline]"
  by code_simp+

text \<open>The directory and the extension of libraries are those of the system.\<close>

record dylib =
  dylib_subdir :: string
  dylib_extension :: string

definition liblldb_path :: "dylib \<Rightarrow> string \<Rightarrow> cli \<Rightarrow> string" where
  "liblldb_path d current_exe c =
     (let codelldb_dir = path_pop current_exe in
      case cli_liblldb c of
        Some path \<Rightarrow> path
      | None \<Rightarrow>
          path_join (path_join (path_join (path_pop codelldb_dir) ''lldb'') (dylib_subdir d)) (''liblldb.'' @ dylib_extension d))"

text \<open>
  Loading must work; a symbol of LLDB that is missing is an error.
\<close>

record 'w loader_api =
  current_exe_of :: "'w \<Rightarrow> (string, string) res"
  load_from :: "string \<Rightarrow> ('w, unit) fallible"
  resolve_base :: "('w, unit) fallible"

definition load_liblldb :: "'w loader_api \<Rightarrow> dylib \<Rightarrow> cli \<Rightarrow> ('w, unit) fallible" where
  "load_liblldb lo d c w =
     (case current_exe_of lo w of
        Err e \<Rightarrow> (Err e, w)
      | Panic \<Rightarrow> (Panic, w)
      | Ok current_exe \<Rightarrow>
          (case load_from lo (liblldb_path d current_exe c) w of
             (Ok _, w) \<Rightarrow> resolve_base lo w
           | (_, w) \<Rightarrow> (Panic, w)))"

definition main_entry :: "'w loader_api \<Rightarrow> 'w server_api \<Rightarrow> dylib \<Rightarrow> cli \<Rightarrow> ('w, py_interface option) fallible" where
  "main_entry lo sv d c w =
     (case load_liblldb lo d c w of
        (Ok _, w) \<Rightarrow> prepare_server sv w
      | (Err e, w) \<Rightarrow> (Err e, w)
      | (Panic, w) \<Rightarrow> (Panic, w))"

lemma liblldb_beside_adapter:
  "liblldb_path \<lparr>dylib_subdir = ''lib'', dylib_extension = ''so''\<rparr> ''/x/adapter/codelldb'' demo_cli
     = ''/x/lldb/lib/liblldb.so''"
  by code_simp

lemma liblldb_given: "liblldb_path d current_exe (c\<lparr>cli_liblldb := Some path\<rparr>) = path"
  by (simp add: liblldb_path_def)

text \<open>Nothing of LLDB is used before its library is loaded and its symbols are resolved.\<close>

lemma nothing_before_loading:
  "fst (load_liblldb lo d c w) \<noteq> Ok () \<Longrightarrow>
     snd (main_entry lo sv d c w) = snd (load_liblldb lo d c w) \<and> (\<forall>p. fst (main_entry lo sv d c w) \<noteq> Ok p)"
  unfolding main_entry_def by (cases "load_liblldb lo d c w"; cases "fst (load_liblldb lo d c w)") auto

end
