(* ===== verification/Wire.thy ===== *)
theory Wire
  imports Dap_Session
begin

text \<open>
  Messages as JSON: the \<open>serde\<close> attributes of \<open>src/adapter-protocol/src/lib.rs\<close>.  A message is an object of
  its fields and, flattened, of those of its type; a request, a body and an event are a name and, unless the
  variant is a unit, a content.  How the contents are written and read is generated code, the parameter
  \<open>contents\<close>.
\<close>

section \<open>Names\<close>

fun request_command :: "request \<Rightarrow> string" where
  "request_command (Rq_initialize _) = ''initialize''"
| "request_command (Rq_cancel _) = ''cancel''"
| "request_command (Rq_launch _) = ''launch''"
| "request_command (Rq_attach _) = ''attach''"
| "request_command (Rq_restart _) = ''restart''"
| "request_command (Rq_setBreakpoints _) = ''setBreakpoints''"
| "request_command (Rq_setInstructionBreakpoints _) = ''setInstructionBreakpoints''"
| "request_command (Rq_setFunctionBreakpoints _) = ''setFunctionBreakpoints''"
| "request_command (Rq_setExceptionBreakpoints _) = ''setExceptionBreakpoints''"
| "request_command (Rq_exceptionInfo _) = ''exceptionInfo''"
| "request_command Rq_configurationDone = ''configurationDone''"
| "request_command (Rq_pause _) = ''pause''"
| "request_command (Rq_continue _) = ''continue''"
| "request_command (Rq_next _) = ''next''"
| "request_command (Rq_stepInTargets _) = ''stepInTargets''"
| "request_command (Rq_stepIn _) = ''stepIn''"
| "request_command (Rq_stepOut _) = ''stepOut''"
| "request_command (Rq_stepBack _) = ''stepBack''"
| "request_command (Rq_reverseContinue _) = ''reverseContinue''"
| "request_command Rq_threads = ''threads''"
| "request_command (Rq_stackTrace _) = ''stackTrace''"
| "request_command (Rq_scopes _) = ''scopes''"
| "request_command (Rq_source _) = ''source''"
| "request_command (Rq_modules _) = ''modules''"
| "request_command (Rq_variables _) = ''variables''"
| "request_command (Rq_completions _) = ''completions''"
| "request_command (Rq_gotoTargets _) = ''gotoTargets''"
| "request_command (Rq_goto _) = ''goto''"
| "request_command (Rq_restartFrame _) = ''restartFrame''"
| "request_command (Rq_evaluate _) = ''evaluate''"
| "request_command (Rq_setVariable _) = ''setVariable''"
| "request_command (Rq_dataBreakpointInfo _) = ''dataBreakpointInfo''"
| "request_command (Rq_setDataBreakpoints _) = ''setDataBreakpoints''"
| "request_command (Rq_disassemble _) = ''disassemble''"
| "request_command (Rq_readMemory _) = ''readMemory''"
| "request_command (Rq_writeMemory _) = ''writeMemory''"
| "request_command Rq_terminate = ''terminate''"
| "request_command (Rq_disconnect _) = ''disconnect''"
| "request_command (Rq_runInTerminal _) = ''runInTerminal''"
| "request_command (Rq_startDebugging _) = ''startDebugging''"
| "request_command (Rq_adapterSettings _) = ''_adapterSettings''"
| "request_command (Rq_symbols _) = ''_symbols''"
| "request_command (Rq_excludeCaller _) = ''_excludeCaller''"
| "request_command (Rq_setExcludedCallers _) = ''_setExcludedCallers''"
| "request_command (Rq_pythonMessage _) = ''_pythonMessage''"
| "request_command Rq_unknown = ''unknown''"

fun body_command :: "response_body \<Rightarrow> string" where
  "body_command (Rb_initialize _) = ''initialize''"
| "body_command Rb_cancel = ''cancel''"
| "body_command Rb_launch = ''launch''"
| "body_command Rb_attach = ''attach''"
| "body_command Rb_restart = ''restart''"
| "body_command (Rb_setBreakpoints _) = ''setBreakpoints''"
| "body_command (Rb_setInstructionBreakpoints _) = ''setInstructionBreakpoints''"
| "body_command (Rb_setFunctionBreakpoints _) = ''setFunctionBreakpoints''"
| "body_command (Rb_setExceptionBreakpoints _) = ''setExceptionBreakpoints''"
| "body_command (Rb_exceptionInfo _) = ''exceptionInfo''"
| "body_command Rb_configurationDone = ''configurationDone''"
| "body_command Rb_pause = ''pause''"
| "body_command (Rb_continue _) = ''continue''"
| "body_command Rb_next = ''next''"
| "body_command (Rb_stepInTargets _) = ''stepInTargets''"
| "body_command Rb_stepIn = ''stepIn''"
| "body_command Rb_stepOut = ''stepOut''"
| "body_command Rb_stepBack = ''stepBack''"
| "body_command Rb_reverseContinue = ''reverseContinue''"
| "body_command (Rb_threads _) = ''threads''"
| "body_command (Rb_stackTrace _) = ''stackTrace''"
| "body_command (Rb_scopes _) = ''scopes''"
| "body_command (Rb_source _ _) = ''source''"
| "body_command (Rb_modules _ _) = ''modules''"
| "body_command (Rb_variables _) = ''variables''"
| "body_command (Rb_completions _) = ''completions''"
| "body_command (Rb_gotoTargets _) = ''gotoTargets''"
| "body_command Rb_goto = ''goto''"
| "body_command Rb_restartFrame = ''restartFrame''"
| "body_command (Rb_evaluate _) = ''evaluate''"
| "body_command (Rb_setVariable _) = ''setVariable''"
| "body_command (Rb_dataBreakpointInfo _) = ''dataBreakpointInfo''"
| "body_command (Rb_setDataBreakpoints _) = ''setDataBreakpoints''"
| "body_command (Rb_disassemble _) = ''disassemble''"
| "body_command (Rb_readMemory _) = ''readMemory''"
| "body_command (Rb_writeMemory _) = ''writeMemory''"
| "body_command Rb_terminate = ''terminate''"
| "body_command Rb_disconnect = ''disconnect''"
| "body_command Rb_runInTerminal = ''runInTerminal''"
| "body_command Rb_startDebugging = ''startDebugging''"
| "body_command Rb_adapterSettings = ''_adapterSettings''"
| "body_command (Rb_symbols _) = ''_symbols''"
| "body_command (Rb_excludeCaller _) = ''_excludeCaller''"
| "body_command Rb_setExcludedCallers = ''_setExcludedCallers''"
| "body_command Rb_pythonMessage = ''_pythonMessage''"

fun event_name :: "event \<Rightarrow> string" where
  "event_name Ev_initialized = ''initialized''"
| "event_name (Ev_output _ _) = ''output''"
| "event_name (Ev_breakpoint _ _) = ''breakpoint''"
| "event_name (Ev_capabilities _) = ''capabilities''"
| "event_name (Ev_continued _) = ''continued''"
| "event_name (Ev_exited _) = ''exited''"
| "event_name (Ev_module _ _) = ''module''"
| "event_name Ev_terminated = ''terminated''"
| "event_name (Ev_thread _ _) = ''thread''"
| "event_name (Ev_invalidated _) = ''invalidated''"
| "event_name (Ev_stopped _) = ''stopped''"
| "event_name (Ev_pythonMessage _) = ''_pythonMessage''"

text \<open>The requests other than \<open>unknown\<close>, and the bodies without content.\<close>

definition request_commands :: "string list" where
  "request_commands =
    [''initialize'', ''cancel'', ''launch'', ''attach'', ''restart'', ''setBreakpoints'',
     ''setInstructionBreakpoints'', ''setFunctionBreakpoints'', ''setExceptionBreakpoints'',
     ''exceptionInfo'', ''configurationDone'', ''pause'', ''continue'', ''next'', ''stepInTargets'',
     ''stepIn'', ''stepOut'', ''stepBack'', ''reverseContinue'', ''threads'', ''stackTrace'', ''scopes'',
     ''source'', ''modules'', ''variables'', ''completions'', ''gotoTargets'', ''goto'', ''restartFrame'',
     ''evaluate'', ''setVariable'', ''dataBreakpointInfo'', ''setDataBreakpoints'', ''disassemble'',
     ''readMemory'', ''writeMemory'', ''terminate'', ''disconnect'', ''runInTerminal'', ''startDebugging'',
     ''_adapterSettings'', ''_symbols'', ''_excludeCaller'', ''_setExcludedCallers'', ''_pythonMessage'']"

definition unit_bodies :: "(string \<times> response_body) list" where
  "unit_bodies =
    [(''cancel'', Rb_cancel), (''launch'', Rb_launch), (''attach'', Rb_attach), (''restart'', Rb_restart),
     (''configurationDone'', Rb_configurationDone), (''pause'', Rb_pause), (''next'', Rb_next),
     (''stepIn'', Rb_stepIn), (''stepOut'', Rb_stepOut), (''stepBack'', Rb_stepBack),
     (''reverseContinue'', Rb_reverseContinue), (''goto'', Rb_goto), (''restartFrame'', Rb_restartFrame),
     (''terminate'', Rb_terminate), (''disconnect'', Rb_disconnect),
     (''startDebugging'', Rb_startDebugging), (''_adapterSettings'', Rb_adapterSettings),
     (''_setExcludedCallers'', Rb_setExcludedCallers), (''_pythonMessage'', Rb_pythonMessage)]"

section \<open>Writing\<close>

record contents =
  write_request :: "request \<Rightarrow> json"
  read_request :: "string \<Rightarrow> json option \<Rightarrow> request option"
  write_body :: "response_body \<Rightarrow> json"
  read_body :: "string \<Rightarrow> json option \<Rightarrow> response_body option"
  write_event :: "event \<Rightarrow> json"
  read_event :: "string \<Rightarrow> json option \<Rightarrow> event option"
  reads_as_unit :: "json \<Rightarrow> bool"

type_synonym members = "(string \<times> json) list"

text \<open>\<open>tag\<close> and \<open>content\<close>: the name of the variant, and its content if it has one.\<close>

definition tagged_fields :: "string \<Rightarrow> string \<Rightarrow> string \<Rightarrow> json option \<Rightarrow> members" where
  "tagged_fields tag content_tag name content =
     (tag, JString name) # (case content of Some x \<Rightarrow> [(content_tag, x)] | None \<Rightarrow> [])"

definition request_fields :: "contents \<Rightarrow> request \<Rightarrow> members" where
  "request_fields c r =
     tagged_fields ''command'' ''arguments'' (request_command r) (if r = Rq_unknown then None else Some (write_request c r))"

definition body_content :: "contents \<Rightarrow> response_body \<Rightarrow> json option" where
  "body_content c b = (if map_of unit_bodies (body_command b) = Some b then None else Some (write_body c b))"

definition event_content :: "contents \<Rightarrow> event \<Rightarrow> json option" where
  "event_content c e = (case e of Ev_initialized \<Rightarrow> None | _ \<Rightarrow> Some (write_event c e))"

text \<open>The result is \<open>untagged\<close>, and \<open>show_user\<close> is left out when it is \<open>None\<close>.\<close>

fun result_fields :: "contents \<Rightarrow> response_body response_result \<Rightarrow> members" where
  "result_fields c (Success b) = tagged_fields ''command'' ''body'' (body_command b) (body_content c b)"
| "result_fields c (ErrorResult command message show_user) =
     [(''command'', JString command), (''message'', JString message)]
     @ (case show_user of Some b \<Rightarrow> [(''show_user'', JBool b)] | None \<Rightarrow> [])"

definition json_u32 :: "u32 \<Rightarrow> json" where
  "json_u32 n = JNumber (Some (ucast n))"

fun type_fields :: "contents \<Rightarrow> message_type \<Rightarrow> members" where
  "type_fields c (MRequest r) = (''type'', JString ''request'') # request_fields c r"
| "type_fields c (MResponse r) =
     [(''type'', JString ''response''), (''request_seq'', json_u32 (request_seq r)), (''success'', JBool (success r))]
     @ result_fields c (result r)"
| "type_fields c (MEvent e) =
     (''type'', JString ''event'') # tagged_fields ''event'' ''body'' (event_name e) (event_content c e)"

definition message_json :: "contents \<Rightarrow> message \<Rightarrow> json" where
  "message_json c m = JObject ((''seq'', json_u32 (msg_seq m)) # type_fields c (msg_type m))"

section \<open>Reading\<close>

fun read_string :: "json option \<Rightarrow> string option" where
  "read_string (Some (JString s)) = Some s"
| "read_string _ = None"

fun read_u32 :: "json option \<Rightarrow> u32 option" where
  "read_u32 (Some (JNumber (Some n))) = (if unat n < 2 ^ 32 then Some (ucast n) else None)"
| "read_u32 _ = None"

fun read_bool :: "json option \<Rightarrow> bool option" where
  "read_bool (Some (JBool b)) = Some b"
| "read_bool _ = None"

definition read_unit :: "contents \<Rightarrow> json option \<Rightarrow> 'a \<Rightarrow> 'a option" where
  "read_unit c content x = (case content of Some j \<Rightarrow> if reads_as_unit c j then Some x else None | None \<Rightarrow> Some x)"

text \<open>A command that is no variant is the one marked \<open>other\<close>.\<close>

definition request_of_fields :: "contents \<Rightarrow> members \<Rightarrow> request option" where
  "request_of_fields c members =
     Option.bind (read_string (map_of members ''command'')) (\<lambda>command.
       if command \<in> set request_commands then read_request c command (map_of members ''arguments'')
       else read_unit c (map_of members ''arguments'') Rq_unknown)"

definition body_of_fields :: "contents \<Rightarrow> members \<Rightarrow> response_body option" where
  "body_of_fields c members =
     Option.bind (read_string (map_of members ''command'')) (\<lambda>command.
       case map_of unit_bodies command of
         Some b \<Rightarrow> read_unit c (map_of members ''body'') b
       | None \<Rightarrow> read_body c command (map_of members ''body''))"

definition event_of_fields :: "contents \<Rightarrow> members \<Rightarrow> event option" where
  "event_of_fields c members =
     Option.bind (read_string (map_of members ''event'')) (\<lambda>name.
       if name = ''initialized'' then read_unit c (map_of members ''body'') Ev_initialized
       else read_event c name (map_of members ''body''))"

text \<open>An optional member may be absent or null.\<close>

fun read_optional_bool :: "json option \<Rightarrow> bool option option" where
  "read_optional_bool None = Some None"
| "read_optional_bool (Some JNull) = Some None"
| "read_optional_bool (Some (JBool b)) = Some (Some b)"
| "read_optional_bool (Some _) = None"

text \<open>Of the variants of an \<open>untagged\<close> type the first that reads is taken.\<close>

definition result_of_fields :: "contents \<Rightarrow> members \<Rightarrow> response_body response_result option" where
  "result_of_fields c members =
     (case body_of_fields c members of
        Some b \<Rightarrow> Some (Success b)
      | None \<Rightarrow>
          Option.bind (read_string (map_of members ''command'')) (\<lambda>command.
          Option.bind (read_string (map_of members ''message'')) (\<lambda>message.
          Option.bind (read_optional_bool (map_of members ''show_user'')) (\<lambda>show_user.
            Some (ErrorResult command message show_user)))))"

definition response_of_fields :: "contents \<Rightarrow> members \<Rightarrow> response_body response option" where
  "response_of_fields c members =
     Option.bind (read_u32 (map_of members ''request_seq'')) (\<lambda>seq.
     Option.bind (read_bool (map_of members ''success'')) (\<lambda>ok.
     Option.bind (result_of_fields c members) (\<lambda>r. Some \<lparr>request_seq = seq, success = ok, result = r\<rparr>)))"

definition type_of_fields :: "contents \<Rightarrow> members \<Rightarrow> message_type option" where
  "type_of_fields c members =
     Option.bind (read_string (map_of members ''type'')) (\<lambda>t.
       if t = ''request'' then map_option MRequest (request_of_fields c members)
       else if t = ''response'' then map_option MResponse (response_of_fields c members)
       else if t = ''event'' then map_option MEvent (event_of_fields c members)
       else None)"

fun read_message :: "contents \<Rightarrow> json \<Rightarrow> message option" where
  "read_message c (JObject members) =
     Option.bind (read_u32 (map_of members ''seq'')) (\<lambda>seq.
     Option.bind (type_of_fields c members) (\<lambda>t. Some \<lparr>msg_seq = seq, msg_type = t\<rparr>))"
| "read_message c _ = None"

section \<open>Terminals in the configuration\<close>

text \<open>
  \<open>TerminalKind\<close> of \<open>codelldb-types\<close>: three names, and \<open>untagged\<close> the device of a terminal, by name or by number.
\<close>

definition terminal_names :: "(string \<times> terminal_kind) list" where
  "terminal_names = [(''integrated'', TkIntegrated), (''external'', TkExternal), (''console'', TkConsole)]"

fun terminal_kind_json :: "terminal_kind \<Rightarrow> json" where
  "terminal_kind_json TkIntegrated = JString ''integrated''"
| "terminal_kind_json TkExternal = JString ''external''"
| "terminal_kind_json TkConsole = JString ''console''"
| "terminal_kind_json (TkTerminalId (TTY name)) = JString name"
| "terminal_kind_json (TkTerminalId (PID pid)) = JNumber (Some pid)"

fun read_terminal_kind :: "json \<Rightarrow> terminal_kind option" where
  "read_terminal_kind (JString s) =
     (case map_of terminal_names s of Some k \<Rightarrow> Some k | None \<Rightarrow> Some (TkTerminalId (TTY s)))"
| "read_terminal_kind (JNumber (Some pid)) = Some (TkTerminalId (PID pid))"
| "read_terminal_kind _ = None"

text \<open>Only a device with one of the three names is read as something else.\<close>

lemma terminal_kind_read_back:
  "read_terminal_kind (terminal_kind_json k) = Some k
     \<longleftrightarrow> (\<forall>name. k = TkTerminalId (TTY name) \<longrightarrow> name \<notin> fst ` set terminal_names)"
proof (cases k)
  case (TkTerminalId i)
  then show ?thesis by (cases i) (auto simp: terminal_names_def)
qed (simp_all add: terminal_names_def)

section \<open>Round trip\<close>

text \<open>
  What the generated code promises of the contents of a message: they are read as they were written.
\<close>

fun contents_read_back :: "contents \<Rightarrow> message_type \<Rightarrow> bool" where
  "contents_read_back c (MRequest r) \<longleftrightarrow>
     r = Rq_unknown \<or> read_request c (request_command r) (Some (write_request c r)) = Some r"
| "contents_read_back c (MEvent e) \<longleftrightarrow>
     e = Ev_initialized \<or> read_event c (event_name e) (Some (write_event c e)) = Some e"
| "contents_read_back c (MResponse r) \<longleftrightarrow>
     (case result r of
        Success b \<Rightarrow> body_content c b = None \<or> read_body c (body_command b) (Some (write_body c b)) = Some b
      | ErrorResult _ _ _ \<Rightarrow> True)"

text \<open>
  The body a command names on its own: an error that carries the command of such a body is taken for a success.
\<close>

definition names_body :: "contents \<Rightarrow> string \<Rightarrow> response_body option" where
  "names_body c command = (case map_of unit_bodies command of Some b \<Rightarrow> Some b | None \<Rightarrow> read_body c command None)"

fun result_reads_as :: "contents \<Rightarrow> response_body response_result \<Rightarrow> response_body response_result" where
  "result_reads_as c (Success b) = Success b"
| "result_reads_as c (ErrorResult command message show_user) =
     (case names_body c command of Some b \<Rightarrow> Success b | None \<Rightarrow> ErrorResult command message show_user)"

fun reads_as :: "contents \<Rightarrow> message_type \<Rightarrow> message_type" where
  "reads_as c (MResponse r) = MResponse (r\<lparr>result := result_reads_as c (result r)\<rparr>)"
| "reads_as c t = t"

lemma read_json_u32 [simp]: "read_u32 (Some (json_u32 n)) = Some n"
proof -
  have "unat n < 2 ^ 32" using unsigned_less [of n] by simp
  moreover from this have "unat (ucast n :: u64) = unat n"
    by (simp add: unsigned_ucast_eq unsigned_take_bit_eq take_bit_nat_eq_self)
  moreover have "ucast (ucast n :: u64) = n" using calculation
    by (simp add: word_unat_eq_iff unsigned_ucast_eq unsigned_take_bit_eq take_bit_nat_eq_self)
  ultimately show ?thesis by (simp add: json_u32_def)
qed

lemma request_command_known: "r \<noteq> Rq_unknown \<longleftrightarrow> request_command r \<in> set request_commands"
  by (cases r) (simp_all add: request_commands_def)

lemma unit_body: "map_of unit_bodies (body_command b) \<in> {None, Some b}"
  by (cases b) (simp_all add: unit_bodies_def)

lemma event_named: "event_name e = ''initialized'' \<longleftrightarrow> e = Ev_initialized"
  by (cases e) simp_all

lemma tagged_lookup:
  "map_of (tagged_fields tag content_tag name content) tag = Some (JString name)"
  "content_tag \<noteq> tag \<Longrightarrow> map_of (tagged_fields tag content_tag name content) content_tag = content"
  "k \<noteq> tag \<Longrightarrow> k \<noteq> content_tag \<Longrightarrow> map_of (tagged_fields tag content_tag name content) k = None"
  by (simp_all add: tagged_fields_def split: option.split)

lemma request_read_back:
  assumes "contents_read_back c (MRequest r)" "map_of members ''command'' = map_of (request_fields c r) ''command''"
    "map_of members ''arguments'' = map_of (request_fields c r) ''arguments''"
  shows "request_of_fields c members = Some r"
  using assms request_command_known [of r]
  by (auto simp: request_of_fields_def request_fields_def tagged_lookup read_unit_def)

lemma body_read_back:
  assumes "body_content c b = None \<or> read_body c (body_command b) (Some (write_body c b)) = Some b"
    and "map_of members ''command'' = Some (JString (body_command b))" "map_of members ''body'' = body_content c b"
  shows "body_of_fields c members = Some b"
  using assms unit_body [of b]
  by (auto simp: body_of_fields_def body_content_def read_unit_def split: if_splits)

lemma result_read_back:
  assumes "contents_read_back c (MResponse r)"
    and "\<And>k. k \<in> {''command'', ''body'', ''message'', ''show_user''} \<Longrightarrow>
      map_of members k = map_of (result_fields c (result r)) k"
  shows "result_of_fields c members = Some (result_reads_as c (result r))"
proof (cases "result r")
  case (Success b)
  then have "body_of_fields c members = Some b"
    using assms by (intro body_read_back) (simp_all add: tagged_lookup)
  with Success show ?thesis by (simp add: result_of_fields_def)
next
  case (ErrorResult command message show_user)
  then have "body_of_fields c members = names_body c command"
    using assms(2) by (simp add: body_of_fields_def names_body_def read_unit_def split: option.split)
  with ErrorResult assms show ?thesis by (simp add: result_of_fields_def split: option.split)
qed

lemma event_read_back:
  assumes "contents_read_back c (MEvent e)"
    and "map_of members ''event'' = Some (JString (event_name e))" "map_of members ''body'' = event_content c e"
  shows "event_of_fields c members = Some e"
  using assms event_named [of e]
  by (auto simp: event_of_fields_def event_content_def read_unit_def split: event.splits)

text \<open>
  C18 (messages come back).  If the contents of a message can be read as they were written, the peer reads the
  message as it was sent, but for one kind: an error response whose command is that of a body without content, or of
  a body whose content may be missing, is read as a success with that body.  Requests, events,
  successes and all other errors are read as they were sent.  And whatever the contents are, the number of the message
  can still be found.
\<close>

theorem message_read_back:
  "malformed_seq (message_json c m) = Some (ucast (msg_seq m))
   \<and> (contents_read_back c (msg_type m) \<longrightarrow>
       read_message c (message_json c m) = Some (m\<lparr>msg_type := reads_as c (msg_type m)\<rparr>))"
proof (intro conjI impI)
  show "malformed_seq (message_json c m) = Some (ucast (msg_seq m))"
    by (simp add: malformed_seq_def message_json_def json_u32_def)
  assume ok: "contents_read_back c (msg_type m)"
  let ?members = "(''seq'', json_u32 (msg_seq m)) # type_fields c (msg_type m)"
  have "type_of_fields c ?members = Some (reads_as c (msg_type m))"
  proof (cases "msg_type m")
    case (MRequest r)
    with ok have "request_of_fields c ?members = Some r"
      by (intro request_read_back) simp_all
    with MRequest show ?thesis by (simp add: type_of_fields_def)
  next
    case (MResponse r)
    with ok have "result_of_fields c ?members = Some (result_reads_as c (result r))"
      by (intro result_read_back) auto
    with MResponse show ?thesis by (simp add: type_of_fields_def response_of_fields_def)
  next
    case (MEvent e)
    with ok have "event_of_fields c ?members = Some e"
      by (intro event_read_back) (simp_all add: tagged_lookup)
    with MEvent show ?thesis by (simp add: type_of_fields_def)
  qed
  then show "read_message c (message_json c m) = Some (m\<lparr>msg_type := reads_as c (msg_type m)\<rparr>)"
    by (simp add: message_json_def)
qed

text \<open>Contents of a Python message, which is JSON, of the body of \<open>continue\<close>, and of an output event.\<close>

definition demo_contents :: contents where
  "demo_contents = \<lparr>
     write_request = (\<lambda>r. case r of Rq_pythonMessage j \<Rightarrow> j | _ \<Rightarrow> JNull),
     read_request = (\<lambda>command content. if command = ''_pythonMessage'' then map_option Rq_pythonMessage content else None),
     write_body = (\<lambda>b. case b of Rb_continue every \<Rightarrow> JObject [(''allThreadsContinued'', JBool every)] | _ \<Rightarrow> JNull),
     read_body = (\<lambda>command content.
       case content of
         Some (JObject members) \<Rightarrow> map_option Rb_continue (read_bool (map_of members ''allThreadsContinued''))
       | _ \<Rightarrow> None),
     write_event = (\<lambda>e. case e of Ev_output _ output \<Rightarrow> JObject [(''output'', JString output)] | _ \<Rightarrow> JNull),
     read_event = (\<lambda>name content.
       case content of
         Some (JObject members) \<Rightarrow> map_option (Ev_output None) (read_string (map_of members ''output''))
       | _ \<Rightarrow> None),
     reads_as_unit = (\<lambda>j. j = JNull)\<rparr>"

definition demo_messages :: "message list" where
  "demo_messages =
     [\<lparr>msg_seq = 1, msg_type = MRequest (Rq_pythonMessage (JArray [JNull, JString ''x'']))\<rparr>,
      \<lparr>msg_seq = 2, msg_type = MRequest Rq_unknown\<rparr>,
      \<lparr>msg_seq = 3, msg_type = MResponse \<lparr>request_seq = 7, success = True, result = Success (Rb_continue True)\<rparr>\<rparr>,
      \<lparr>msg_seq = 4, msg_type = MResponse \<lparr>request_seq = 8, success = True, result = Success Rb_goto\<rparr>\<rparr>,
      \<lparr>msg_seq = 5, msg_type = MResponse (the (make_response 9 (Err (StrError ''no'') :: (unit error, response_body) res)))\<rparr>,
      \<lparr>msg_seq = 6, msg_type = MEvent (Ev_output None ''hi'')\<rparr>,
      \<lparr>msg_seq = 7, msg_type = MEvent Ev_initialized\<rparr>]"

text \<open>The refusal of a request to debug a child.\<close>

definition demo_refusal :: message where
  "demo_refusal = \<lparr>msg_seq = 8, msg_type =
     MResponse \<lparr>request_seq = 10, success = False, result = ErrorResult ''startDebugging'' ''no'' None\<rparr>\<rparr>"

theorem message_read_back_witness:
  "list_all (\<lambda>m. read_message demo_contents (message_json demo_contents m) = Some m) demo_messages
   \<and> read_message demo_contents (message_json demo_contents demo_refusal)
     = Some (demo_refusal\<lparr>msg_type := MResponse \<lparr>request_seq = 10, success = False, result = Success Rb_startDebugging\<rparr>\<rparr>)"
proof -
  have ok: "contents_read_back demo_contents (msg_type m)" if "m \<in> set (demo_refusal # demo_messages)" for m
    using that by (auto simp: demo_messages_def demo_refusal_def demo_contents_def body_content_def unit_bodies_def)
  have same: "m\<lparr>msg_type := reads_as demo_contents (msg_type m)\<rparr> = m" if "m \<in> set demo_messages" for m
    using that by (auto simp: demo_messages_def names_body_def unit_bodies_def demo_contents_def)
  have "read_message demo_contents (message_json demo_contents m)
      = Some (m\<lparr>msg_type := reads_as demo_contents (msg_type m)\<rparr>)" if "m \<in> set (demo_refusal # demo_messages)" for m
    using message_read_back [of demo_contents m] ok [OF that] by blast
  with same show ?thesis
    by (simp add: list_all_iff) (simp add: demo_refusal_def names_body_def unit_bodies_def)
qed

text \<open>
  A client that refuses a reverse request whose body has no content, \<open>startDebugging\<close>, names the command in its
  error, as the protocol asks.  The first variant reads that, so the refusal is taken for a success.
\<close>

lemma refusal_read_as_success:
  assumes "map_of unit_bodies command = Some b"
  shows "response_of_fields c [(''request_seq'', json_u32 n), (''success'', JBool False), (''command'', JString command),
      (''message'', JString message)] = Some \<lparr>request_seq = n, success = False, result = Success b\<rparr>"
  using assms by (simp add: response_of_fields_def result_of_fields_def body_of_fields_def read_unit_def)

end
