(* ===== verification/Plain_Errors.thy ===== *)
theory Plain_Errors
  imports Steady
begin

text \<open>
  Which handlers may answer later.  An \<open>AsyncResponse\<close> among the errors of a handler carries a future out of it; all
  handlers but the four that mean to answer later have only plain errors.
\<close>

named_theorems plain_intros \<open>handlers whose errors are plain\<close>

definition plain :: "('s, 'f error, 'a) stm \<Rightarrow> bool" where
  "plain m \<longleftrightarrow> (\<forall>s t f. m s \<noteq> (Err (AsyncResponse f), t))"

definition plain_res :: "('f error, 'a) res \<Rightarrow> bool" where
  "plain_res r \<longleftrightarrow> (\<forall>f. r \<noteq> Err (AsyncResponse f))"

lemma plain_error [simp]:
  "str_error m \<noteq> AsyncResponse f" "blame_user e \<noteq> AsyncResponse f" "blame_nobody e \<noteq> AsyncResponse f"
  "AsyncResponse f \<noteq> str_error m" "AsyncResponse f \<noteq> blame_user e" "AsyncResponse f \<noteq> blame_nobody e"
  by (simp_all add: str_error_def blame_user_def blame_nobody_def box_blamed_def)

lemma plainD: "plain m \<Longrightarrow> m s = (r, t) \<Longrightarrow> plain_res r"
  by (auto simp: plain_def plain_res_def)

lemma plain_basic [plain_intros]:
  "plain (returnS x)" "plain panicS" "plain (getS g)" "plain (modifyS h)" "plain (attemptS m)" "plain (log_errorsS m)"
  by (auto simp: plain_def returnS_def panicS_def getS_def modifyS_def attemptS_def log_errorsS_def
      split: prod.splits res.splits)

lemma plain_failS [plain_intros]: "(\<And>f. e \<noteq> AsyncResponse f) \<Longrightarrow> plain (failS e)"
  by (auto simp: plain_def failS_def)

lemma plain_liftS [plain_intros]: "plain_res r \<Longrightarrow> plain (liftS r)"
  by (auto simp: plain_def liftS_def plain_res_def)

lemma plain_bindS [plain_intros]:
  assumes "plain m" "\<And>x. plain (f x)"
  shows "plain (bindS m f)"
  unfolding plain_def
proof (intro allI)
  fix s t h
  obtain r s' where m: "m s = (r, s')" by fastforce
  with assms show "bindS m f s \<noteq> (Err (AsyncResponse h), t)"
    by (cases r) (auto simp: bindS_def plain_def)
qed

lemma plain_thenS [plain_intros]: "plain m \<Longrightarrow> plain n \<Longrightarrow> plain (thenS m n)"
  unfolding thenS_def by (rule plain_bindS)

lemma plain_forS [plain_intros]: "(\<And>x. plain (f x)) \<Longrightarrow> plain (forS f xs)"
  by (induction xs) (simp_all add: plain_intros)

text \<open>The result of a handler that was attempted is plain if the handler is.\<close>

lemma plain_attempted:
  assumes "plain m" "\<And>r. plain_res r \<Longrightarrow> plain (f r)"
  shows "plain (bindS (attemptS m) f)"
  unfolding plain_def
proof (intro allI)
  fix s t h
  obtain r s' where m: "m s = (r, s')" by fastforce
  then have "plain_res r" by (rule plainD [OF assms(1)])
  with m assms(2) show "bindS (attemptS m) f s \<noteq> (Err (AsyncResponse h), t)"
    by (cases r) (auto simp: bindS_def attemptS_def plain_def)
qed

lemma plain_got:
  assumes "\<And>s. plain (f (g s))"
  shows "plain (bindS (getS g) f)"
  using assms by (simp add: plain_def bindS_def getS_def)

lemma plain_if [plain_intros]: "(c \<Longrightarrow> plain m) \<Longrightarrow> (\<not> c \<Longrightarrow> plain n) \<Longrightarrow> plain (if c then m else n)"
  by simp

lemma plain_case_option [plain_intros]:
  "plain m \<Longrightarrow> (\<And>x. plain (f x)) \<Longrightarrow> plain (case o' of None \<Rightarrow> m | Some x \<Rightarrow> f x)"
  by (cases o') simp_all

lemma plain_case_prod [plain_intros]: "(\<And>x y. plain (f x y)) \<Longrightarrow> plain (case p of (x, y) \<Rightarrow> f x y)"
  by (cases p) simp

lemma plain_res_intros [plain_intros]:
  "plain_res (Ok x)" "plain_res Panic" "(\<And>f. e \<noteq> AsyncResponse f) \<Longrightarrow> plain_res (Err e)"
  by (simp_all add: plain_res_def)

lemma plain_res_of [plain_intros]:
  "plain_res (unwrap o')" "(\<And>f. e \<noteq> AsyncResponse f) \<Longrightarrow> plain_res (ok_or o' e)"
  by (cases o'; simp add: plain_res_def)+

lemma plain_res_map [plain_intros]:
  "plain_res r \<Longrightarrow> plain_res (map_res g r)" "(\<And>x f. h x \<noteq> AsyncResponse f) \<Longrightarrow> plain_res (map_err h r')"
  by (cases r; simp add: plain_res_def) (cases r'; simp add: plain_res_def)

lemma plain_res_if [plain_intros]: "(c \<Longrightarrow> plain_res m) \<Longrightarrow> (\<not> c \<Longrightarrow> plain_res n) \<Longrightarrow> plain_res (if c then m else n)"
  by simp

lemma plain_res_bind [plain_intros]: "plain_res m \<Longrightarrow> (\<And>x. plain_res (f x)) \<Longrightarrow> plain_res (bind_res m f)"
  by (cases m) (auto simp: plain_res_def)

section \<open>The ways to change a session\<close>

lemma plain_send_event [plain_intros]: "plain (send_event e)"
  by (simp add: send_event_def plain_intros)

lemma plain_world [plain_intros]: "plain (modify_world g)" "plain (call_world h)"
  by (auto simp: plain_def modify_world_def call_world_def modifyS_def Let_def split: prod.splits)

lemma plain_console [plain_intros]:
  "plain (console_message_impl c m)" "plain (console_message m)" "plain (console_error m)"
  by (simp_all add: console_message_impl_def console_message_def console_error_def plain_intros)


lemma plain_thread_by_id [plain_intros]: "plain (thread_by_id ll tid)"
  by (auto simp: plain_def thread_by_id_def Let_def split: prod.splits res.splits option.splits if_splits)

lemma plain_map_filespec [plain_intros]: "plain (map_filespec_to_local ll fs)"
  by (auto simp: plain_def map_filespec_to_local_def Let_def split: prod.splits res.splits option.splits if_splits)

lemma plain_in_disassembly [plain_intros]: "plain (in_disassembly ll frame)"
  unfolding in_disassembly_alt by (auto intro!: plain_intros split: show_disassembly.split)

lemma plain_before_resume [plain_intros]: "plain (before_resume ht)"
  by (simp add: before_resume_def plain_intros)

lemma plain_dasm_from_address [plain_intros]: "plain (dasm_from_address ll a)"
  by (auto simp: plain_def dasm_from_address_def from_address_def Let_def split: prod.splits option.splits if_splits)

lemma plain_read_hit_condition [plain_intros]: "plain (read_hit_condition api hit_condition)"
  unfolding read_hit_condition_def Let_def by (auto intro!: plain_intros split: steady_splits)

lemma plain_make_bp_info [plain_intros]: "plain (make_bp_info api bp kind condition log_message hit_condition)"
  unfolding make_bp_info_def Let_def by (auto intro!: plain_intros split: steady_splits)

lemma plain_source_response [plain_intros]: "plain (source_response ll api bp_info include_source base)"
  by (auto simp: plain_def source_response_def Let_def split: prod.splits res.splits option.splits if_splits)

lemma plain_disassembly_response [plain_intros]: "plain (disassembly_response ll api bp_info base)"
  using plain_dasm_from_address [of ll]
  by (fastforce simp: plain_def disassembly_response_def Let_def split: prod.splits res.splits)

lemma plain_make_bp_response [plain_intros]: "plain (make_bp_response ll api bp_info include_source)"
  using plain_source_response [of ll api] plain_disassembly_response [of ll api]
  by (cases "bi_kind bp_info") (fastforce simp: plain_def make_bp_response_def Let_def split: if_splits)+

lemma plain_condition_error [plain_intros]: "plain (condition_error err)"
  unfolding condition_error_def Let_def by (auto intro!: plain_intros split: steady_splits)

lemma plain_compile_condition [plain_intros]: "plain (compile_condition api expr ctx)"
  unfolding compile_condition_def Let_def by (auto intro!: plain_intros split: steady_splits)

lemma plain_py_condition_of [plain_intros]: "plain (py_condition_of api bp_info)"
  unfolding py_condition_of_def Let_def by (auto intro!: plain_intros split: steady_splits)

lemma plain_init_bp_actions [plain_intros]: "plain (init_bp_actions api bp_info)"
  unfolding init_bp_actions_def Let_def by (auto intro!: plain_intros split: steady_splits)

lemma plain_update_bps [plain_intros]: "plain (update_bps f)"
  unfolding update_bps_def Let_def by (auto intro!: plain_intros split: steady_splits)

lemma plain_remember_info [plain_intros]: "plain (remember_info bp_info)"
  unfolding remember_info_def Let_def by (auto intro!: plain_intros split: steady_splits)

lemma plain_forget_info [plain_intros]: "plain (forget_info i)"
  unfolding forget_info_def Let_def by (auto intro!: plain_intros split: steady_splits)

lemma plain_place_bp [plain_intros]: "plain create \<Longrightarrow> plain (place_bp api existing_bps key create kind condition log_message hit_condition)"
  unfolding place_bp_def Let_def by (auto intro!: plain_intros split: steady_splits)

lemma plain_delete_if_stale [plain_intros]: "plain (delete_if_stale api forget new_bps entry)"
  unfolding delete_if_stale_def Let_def by (auto intro!: plain_intros split: steady_splits)

lemma plain_delete_stale [plain_intros]: "plain (delete_stale api forget existing_bps new_bps)"
  unfolding delete_stale_def Let_def by (auto intro!: plain_intros split: steady_splits)

lemma plain_table_loop [plain_intros]: "(\<And>r. plain (plan r)) \<Longrightarrow> plain (table_loop plan reqs new)"
  by (induction reqs arbitrary: new) (auto intro!: plain_intros)

lemma plain_update_table [plain_intros]: "(\<And>r. plain (plan r)) \<Longrightarrow> plain (update_table api forget plan existing_bps reqs)"
  unfolding update_table_def Let_def by (auto intro!: plain_intros split: steady_splits)

lemma plain_create_source_bp [plain_intros]: "plain (create_source_bp api file_path_norm req)"
  unfolding create_source_bp_def Let_def by (auto intro!: plain_intros split: steady_splits)

lemma plain_get_breakpoint_hint [plain_intros]: "plain (get_breakpoint_hint ll api filepath line column)"
  unfolding get_breakpoint_hint_def Let_def by (auto intro!: plain_intros split: steady_splits)

lemma plain_add_hint [plain_intros]: "plain (add_hint ll api file_path_norm req bp_info response)"
  unfolding add_hint_def Let_def by (auto intro!: plain_intros split: steady_splits)

lemma plain_source_plan [plain_intros]: "plain (source_plan ll api file_path_norm existing_bps req)"
  unfolding source_plan_def Let_def by (auto intro!: plain_intros split: steady_splits)

lemma plain_set_source_breakpoints [plain_intros]: "plain (set_source_breakpoints ll api file_path requested_bps)"
  unfolding set_source_breakpoints_def Let_def by (auto intro!: plain_intros split: steady_splits)

lemma plain_address_by_line [plain_intros]: "plain_res (address_by_line_num d line)"
  by (auto simp: plain_res_def address_by_line_num_def index_def split: if_splits)

lemma plain_dasm_plan [plain_intros]: "plain (dasm_plan ll api dasm existing_bps req)"
  unfolding dasm_plan_def Let_def by (auto intro!: plain_intros split: steady_splits)

lemma plain_set_dasm_breakpoints [plain_intros]: "plain (set_dasm_breakpoints ll api dasm requested_bps)"
  unfolding set_dasm_breakpoints_def Let_def by (auto intro!: plain_intros split: steady_splits)

lemma plain_new_dasm_bp [plain_intros]: "plain (new_dasm_bp ll api line_addresses req)"
  unfolding new_dasm_bp_def Let_def by (auto intro!: plain_intros split: steady_splits)

lemma plain_set_new_dasm_breakpoints [plain_intros]: "plain (set_new_dasm_breakpoints ll api data requested_bps)"
  unfolding set_new_dasm_breakpoints_def Let_def by (auto intro!: plain_intros split: steady_splits)

lemma plain_handle_set_breakpoints [plain_intros]: "plain (handle_set_breakpoints ll api args)"
  unfolding handle_set_breakpoints_def Let_def by (auto intro!: plain_intros split: steady_splits)

lemma plain_instruction_plan [plain_intros]: "plain (instruction_plan ll api existing_bps req)"
  unfolding instruction_plan_def Let_def by (auto intro!: plain_intros split: steady_splits)

lemma plain_handle_set_instruction_breakpoints [plain_intros]: "plain (handle_set_instruction_breakpoints ll api reqs)"
  unfolding handle_set_instruction_breakpoints_def Let_def by (auto intro!: plain_intros split: steady_splits)

lemma plain_create_function_bp [plain_intros]: "plain (create_function_bp api name)"
  unfolding create_function_bp_def Let_def by (auto intro!: plain_intros split: steady_splits)

lemma plain_function_plan [plain_intros]: "plain (function_plan ll api existing_bps req)"
  unfolding function_plan_def Let_def by (auto intro!: plain_intros split: steady_splits)

lemma plain_handle_set_function_breakpoints [plain_intros]: "plain (handle_set_function_breakpoints ll api reqs)"
  unfolding handle_set_function_breakpoints_def Let_def by (auto intro!: plain_intros split: steady_splits)

lemma plain_create_exception_bp [plain_intros]: "plain (create_exception_bp api create name)"
  unfolding create_exception_bp_def Let_def by (auto intro!: plain_intros split: steady_splits)

lemma plain_set_exception_breakpoint [plain_intros]: "plain (set_exception_breakpoint api exc_name)"
  unfolding set_exception_breakpoint_def Let_def by (auto intro!: plain_intros split: steady_splits)

lemma plain_clear_exception_bps [plain_intros]: "plain (clear_exception_bps api)"
  unfolding clear_exception_bps_def Let_def by (auto intro!: plain_intros split: steady_splits)

lemma plain_add_exception_bp [plain_intros]: "plain (add_exception_bp ll api flt)"
  unfolding add_exception_bp_def Let_def by (auto intro!: plain_intros split: steady_splits)

lemma plain_handle_set_exception_breakpoints [plain_intros]: "plain (handle_set_exception_breakpoints ll api args)"
  unfolding handle_set_exception_breakpoints_def Let_def by (auto intro!: plain_intros split: steady_splits)

lemma plain_exclusion_site [plain_intros]: "plain_res (exclusion_site ll api w bp_info i)"
  by (auto simp: plain_res_def exclusion_site_def split: breakpoint_kind.splits option.splits)

lemma plain_handle_exclude_caller [plain_intros]: "plain (handle_exclude_caller ll api ta args)"
  unfolding handle_exclude_caller_def Let_def by (auto intro!: plain_intros split: steady_splits)

lemma plain_handle_set_excluded_callers [plain_intros]: "plain (handle_set_excluded_callers exclusions)"
  unfolding handle_set_excluded_callers_def Let_def by (auto intro!: plain_intros split: steady_splits)

lemma plain_timed_out [plain_intros]: "plain (timed_out va start timeout)"
  unfolding timed_out_def Let_def by (auto intro!: plain_intros split: steady_splits)

lemma compose_names_plain: "plain_res (compose_names va ht w t n h name)"
  by (induction va ht w t n h name rule: compose_names.induct)
    (auto intro!: plain_intros split: option.split container.split)

lemma plain_compose_container_eval_name [plain_intros]: "plain (compose_container_eval_name va ht container_handle)"
  by (simp add: plain_def compose_container_eval_name_def compose_names_plain [unfolded plain_res_def, rule_format]
      del: compose_names.simps)

lemma plain_summary_should_stop [plain_intros]: "plain (summary_should_stop va start unlimited summary)"
  unfolding summary_should_stop_def Let_def by (auto intro!: plain_intros split: steady_splits)

lemma plain_summary_loop [plain_intros]: "plain (summary_loop va start unlimited vs summary separator)"
  by (induction vs arbitrary: summary separator) (auto intro!: plain_intros split: option.split)

lemma plain_get_container_summary [plain_intros]: "plain (get_container_summary va var unlimited)"
  unfolding get_container_summary_def Let_def by (auto intro!: plain_intros split: steady_splits)

lemma plain_plain_summary [plain_intros]: "plain (plain_summary va var unlimited)"
  unfolding plain_summary_def Let_def by (auto intro!: plain_intros split: steady_splits)

lemma plain_get_var_summary [plain_intros]: "plain (get_var_summary ll va var unlimited)"
  unfolding get_var_summary_def Let_def by (auto intro!: plain_intros split: steady_splits)

lemma plain_get_var_handle [plain_intros]: "plain (get_var_handle va ht parent_handle key var)"
  by (auto simp: plain_def get_var_handle_def Let_def split: prod.splits res.splits option.splits if_splits)

lemma plain_var_to_variable [plain_intros]: "plain (var_to_variable ll va ht var container_eval_name container_handle)"
  unfolding var_to_variable_def Let_def by (auto intro!: plain_intros split: steady_splits)

lemma plain_convert_loop [plain_intros]:
  "plain (convert_loop ll va ht start cname chandle dedup vars acc)"
  by (induction vars arbitrary: acc) (simp_all only: convert_loop.simps Let_def, (intro plain_intros plain_error | assumption)+)

lemma plain_convert_scope_values [plain_intros]: "plain (convert_scope_values ll va ht vars container_eval_name container_handle deduplicate)"
  unfolding convert_scope_values_def Let_def by (auto intro!: plain_intros split: steady_splits)

lemma plain_create_scope [plain_intros]: "plain (create_scope ht frame_id key name c)"
  by (auto simp: plain_def create_scope_def Let_def split: prod.splits res.splits option.splits if_splits)

lemma plain_handle_scopes [plain_intros]: "plain (handle_scopes ht frame_id)"
  unfolding handle_scopes_def Let_def by (auto intro!: plain_intros split: steady_splits)

lemma plain_locals_of [plain_intros]: "plain (locals_of ll va ht container_handle frame)"
  unfolding locals_of_def Let_def by (auto intro!: plain_intros split: steady_splits)

lemma plain_statics_of [plain_intros]: "plain (statics_of ll va ht container_handle frame kind)"
  unfolding statics_of_def Let_def by (auto intro!: plain_intros split: steady_splits)

lemma plain_children_of [plain_intros]: "plain (children_of ll va ht container_handle var)"
  unfolding children_of_def Let_def by (auto intro!: plain_intros split: steady_splits)

lemma plain_handle_variables [plain_intros]: "plain (handle_variables ll va ht container_handle)"
  unfolding handle_variables_def Let_def by (auto intro!: plain_intros split: steady_splits)

lemma plain_eval_python [plain_intros]: "plain (eval_python va pp_expr ctx frame)"
  unfolding eval_python_def Let_def by (auto intro!: plain_intros split: steady_splits)

lemma plain_evaluate_expr_in_frame [plain_intros]: "plain (evaluate_expr_in_frame va expression frame)"
  unfolding evaluate_expr_in_frame_def Let_def by (auto intro!: plain_intros split: steady_splits)

lemma plain_create_array [plain_intros]: "plain (create_array va sbval element count)"
  unfolding create_array_def Let_def by (auto intro!: plain_intros split: steady_splits)

lemma plain_as_array [plain_intros]: "plain (as_array va sbval count)"
  unfolding as_array_def Let_def by (auto intro!: plain_intros split: steady_splits)

lemma plain_apply_format_spec [plain_intros]: "plain (apply_format_spec va sbval spec)"
  unfolding apply_format_spec_def Let_def by (auto intro!: plain_intros split: steady_splits)

lemma plain_handle_evaluate_expression [plain_intros]: "plain (handle_evaluate_expression ll va ht expression frame for_clipboard)"
  unfolding handle_evaluate_expression_def Let_def by (auto intro!: plain_intros split: steady_splits)

lemma plain_handle_execute_command [plain_intros]: "plain (handle_execute_command va command frame return_output)"
  unfolding handle_execute_command_def Let_def by (auto intro!: plain_intros split: steady_splits)

lemma plain_evaluate_in_context [plain_intros]: "plain (evaluate_in_context ll va ht args frame)"
  unfolding evaluate_in_context_def Let_def by (auto intro!: plain_intros split: steady_splits)

lemma plain_handle_set_variable [plain_intros]: "plain (handle_set_variable ll va ht args)"
  unfolding handle_set_variable_def Let_def by (auto intro!: plain_intros split: steady_splits)

lemma plain_try_world [plain_intros]: "plain (try_world f)"
  unfolding try_world_def Let_def by (auto intro!: plain_intros split: steady_splits)

lemma plain_process_running [plain_intros]: "plain (process_running ll)"
  unfolding process_running_def Let_def by (auto intro!: plain_intros split: steady_splits)

lemma plain_notify_process_running [plain_intros]: "plain (notify_process_running ll ra)"
  unfolding notify_process_running_def Let_def by (auto intro!: plain_intros split: steady_splits)

lemma plain_select_stopped_thread [plain_intros]: "plain (select_stopped_thread ll ta ra)"
  unfolding select_stopped_thread_def Let_def by (auto intro!: plain_intros split: steady_splits)

lemma plain_notify_process_stopped [plain_intros]: "plain (notify_process_stopped ll ta ra)"
  unfolding notify_process_stopped_def Let_def by (auto intro!: plain_intros split: steady_splits)

lemma plain_handle_pause [plain_intros]: "plain (handle_pause ll ta ra args)"
  unfolding handle_pause_def Let_def by (auto intro!: plain_intros split: steady_splits)

lemma plain_handle_continue [plain_intros]: "plain (handle_continue ll ra ht args)"
  unfolding handle_continue_def Let_def by (auto intro!: plain_intros split: steady_splits)

lemma plain_step_by_instruction [plain_intros]: "plain (step_by_instruction ll granularity thread)"
  unfolding step_by_instruction_def Let_def by (auto intro!: plain_intros split: steady_splits)

lemma plain_handle_next [plain_intros]: "plain (handle_next ll ra ht args)"
  unfolding handle_next_def Let_def by (auto intro!: plain_intros split: steady_splits)

lemma plain_handle_step_out [plain_intros]: "plain (handle_step_out ll ra ht thread_id)"
  unfolding handle_step_out_def Let_def by (auto intro!: plain_intros split: steady_splits)

lemma plain_reverse_exec [plain_intros]: "plain (reverse_exec ll commands)"
  by (induction commands) (auto intro!: plain_intros)

lemma plain_handle_step_back [plain_intros]: "plain (handle_step_back ll ht thread_id)"
  unfolding handle_step_back_def Let_def by (auto intro!: plain_intros split: steady_splits)

lemma plain_handle_reverse_continue [plain_intros]: "plain (handle_reverse_continue ll ht thread_id)"
  unfolding handle_reverse_continue_def Let_def by (auto intro!: plain_intros split: steady_splits)

lemma plain_refresh_client_display [plain_intros]: "plain (refresh_client_display ll thread_id)"
  unfolding refresh_client_display_def Let_def by (auto intro!: plain_intros split: steady_splits)

lemma plain_handle_goto_targets [plain_intros]: "plain (handle_goto_targets args)"
  unfolding handle_goto_targets_def Let_def by (auto intro!: plain_intros split: steady_splits)

lemma plain_goto_dasm_line [plain_intros]: "plain (goto_dasm_line ll ra thread_id thread source_ref line)"
  unfolding goto_dasm_line_def Let_def by (auto intro!: plain_intros split: steady_splits)

lemma plain_goto_source_line [plain_intros]: "plain (goto_source_line ll ra thread_id thread path line)"
  unfolding goto_source_line_def Let_def by (auto intro!: plain_intros split: steady_splits)

lemma plain_handle_goto [plain_intros]: "plain (handle_goto ll ra thread_id)"
  unfolding handle_goto_def Let_def by (auto intro!: plain_intros split: steady_splits)

lemma plain_handle_restart_frame [plain_intros]: "plain (handle_restart_frame ll ra ht frame_id)"
  unfolding handle_restart_frame_def Let_def by (auto intro!: plain_intros split: steady_splits)

lemma plain_handle_threads [plain_intros]: "plain (handle_threads ll ia)"
  unfolding handle_threads_def Let_def by (auto intro!: plain_intros split: steady_splits)

lemma plain_source_location [plain_intros]: "plain (source_location ll frame body)"
  unfolding source_location_def Let_def by (auto intro!: plain_intros split: steady_splits)

lemma plain_disassembly_location [plain_intros]: "plain (disassembly_location ll frame i body)"
  unfolding disassembly_location_def Let_def by (auto intro!: plain_intros split: steady_splits)

lemma plain_create_frame_ref [plain_intros]: "plain (create_frame_ref ll ht thread i frame)"
  by (auto simp: plain_def create_frame_ref_def Let_def split: prod.splits res.splits option.splits if_splits)

lemma plain_describe_frame [plain_intros]: "plain (describe_frame ll ia ma ht thread i frame)"
  unfolding describe_frame_def Let_def by (auto intro!: plain_intros split: steady_splits)

lemma plain_stack_loop [plain_intros]:
  "(\<And>i f. plain (describe i f)) \<Longrightarrow> plain (stack_loop ll describe thread n i)"
  by (induction n arbitrary: i) (subst stack_loop.simps, auto intro!: plain_intros)+

lemma plain_handle_stack_trace [plain_intros]: "plain (handle_stack_trace ll ia ma ht args)"
  unfolding handle_stack_trace_def Let_def by (auto intro!: plain_intros split: steady_splits)

lemma plain_handle_source [plain_intros]: "plain (handle_source ll handle)"
  unfolding handle_source_def Let_def by (auto intro!: plain_intros split: steady_splits)

lemma plain_handle_modules [plain_intros]: "plain (handle_modules ia ma args)"
  unfolding handle_modules_def Let_def by (auto intro!: plain_intros split: steady_splits)

lemma plain_handle_exception_info [plain_intros]: "plain (handle_exception_info ll ta ia thread_id)"
  unfolding handle_exception_info_def Let_def by (auto intro!: plain_intros split: steady_splits)

lemma plain_handle_completions [plain_intros]: "plain (handle_completions ia args)"
  unfolding handle_completions_def Let_def by (auto intro!: plain_intros split: steady_splits)

lemma plain_symbol_location [plain_intros]: "plain (symbol_location ll start_addr)"
  unfolding symbol_location_def Let_def by (auto intro!: plain_intros split: steady_splits)

lemma plain_match_symbol [plain_intros]: "plain (match_symbol ll ia path_of pattern y)"
  unfolding match_symbol_def Let_def by (auto intro!: plain_intros split: steady_splits)

lemma plain_symbols_loop [plain_intros]:
  "(\<And>y. plain (match_one y)) \<Longrightarrow> plain (symbols_loop match_one n ys found)"
  by (induction ys arbitrary: found) (auto intro!: plain_intros)

lemma plain_handle_symbols [plain_intros]: "plain (handle_symbols ll ia ma args)"
  unfolding handle_symbols_def Let_def by (auto intro!: plain_intros split: steady_splits)

lemma plain_handle_data_breakpoint_info [plain_intros]: "plain (handle_data_breakpoint_info ll va ia ht args)"
  unfolding handle_data_breakpoint_info_def Let_def by (auto intro!: plain_intros split: steady_splits)

lemma plain_data_id [plain_intros]: "plain_res (parse_part ma part)" "plain_res (parse_data_id ma data_id)"
  unfolding parse_part_def parse_data_id_def Let_def by (auto intro!: plain_intros split: steady_splits)

lemma plain_watch_one [plain_intros]: "plain (watch_one ma wp)"
  unfolding watch_one_def Let_def by (auto intro!: plain_intros split: steady_splits)

lemma plain_handle_set_data_breakpoints [plain_intros]: "plain (handle_set_data_breakpoints ma requested)"
  unfolding handle_set_data_breakpoints_def Let_def by (auto intro!: plain_intros split: steady_splits)

lemma plain_memory_address [plain_intros]: "plain_res (memory_address ma memory_reference offset)"
  unfolding memory_address_def by (auto intro!: plain_intros)

lemma plain_handle_read_memory [plain_intros]: "plain (handle_read_memory ma args)"
  unfolding handle_read_memory_def Let_def by (auto intro!: plain_intros split: steady_splits)

lemma plain_nothing_written [plain_intros]: "plain (nothing_written allow_partial n address)"
  unfolding nothing_written_def cannot_write_def Let_def by (auto intro!: plain_intros split: steady_splits)

lemma plain_handle_write_memory [plain_intros]: "plain (handle_write_memory ma args)"
  unfolding handle_write_memory_def Let_def by (auto intro!: plain_intros split: steady_splits)

lemma plain_handle_initialize [plain_intros]: "plain (handle_initialize v16_available args)"
  unfolding handle_initialize_def Let_def by (auto intro!: plain_intros split: steady_splits)

lemma plain_update_adapter_settings [plain_intros]: "plain (update_adapter_settings st settings)"
  by (auto simp: plain_def update_adapter_settings_def Let_def split: prod.splits res.splits option.splits if_splits)

lemma plain_update_adapter_settings_and_caps [plain_intros]: "plain (update_adapter_settings_and_caps st settings)"
  unfolding update_adapter_settings_and_caps_def Let_def by (auto intro!: plain_intros split: steady_splits)

lemma plain_print_console_mode [plain_intros]: "plain print_console_mode"
  unfolding print_console_mode_def Let_def by (auto intro!: plain_intros split: steady_splits)

lemma plain_handle_adapter_settings [plain_intros]: "plain (handle_adapter_settings ll st args)"
  unfolding handle_adapter_settings_def Let_def by (auto intro!: plain_intros split: steady_splits)

lemma plain_run_script [plain_intros]: "plain (run_script ll commands)"
  by (induction commands) (auto intro!: plain_intros)

lemma plain_exec_commands [plain_intros]: "plain (exec_commands ll script_name commands)"
  unfolding exec_commands_def by (intro plain_thenS plain_attempted plain_intros)

lemma plain_report_launch_cfg_error [plain_intros]: "plain (report_launch_cfg_error la cfg)"
  unfolding report_launch_cfg_error_def Let_def by (auto intro!: plain_intros split: steady_splits)

lemma plain_set_target [plain_intros]: "plain (set_target la target)"
  unfolding set_target_def Let_def by (auto intro!: plain_intros split: steady_splits)

lemma plain_create_target_from_program [plain_intros]: "plain (create_target_from_program la program)"
  unfolding create_target_from_program_def Let_def by (auto intro!: plain_intros split: steady_splits)

lemma plain_target_from_commands [plain_intros]: "plain (target_from_commands ll la commands)"
  unfolding target_from_commands_def Let_def by (auto intro!: plain_intros split: steady_splits)

lemma plain_init_source_map [plain_intros]: "plain (init_source_map la source_map)"
  unfolding init_source_map_def Let_def by (auto intro!: plain_intros split: steady_splits)

lemma plain_init_expressions [plain_intros]: "plain (init_expressions args)"
  unfolding init_expressions_def Let_def by (auto intro!: plain_intros split: steady_splits)

lemma plain_capability_event [plain_intros]: "plain (capability_event c)"
  unfolding capability_event_def Let_def by (auto intro!: plain_intros split: steady_splits)

lemma plain_init_paths [plain_intros]: "plain (init_paths la args)"
  unfolding init_paths_def by (auto intro!: plain_got plain_intros split: option.split)

lemma plain_init_options [plain_intros]: "plain (init_options st args)"
  unfolding init_options_def Let_def by (auto intro!: plain_intros split: steady_splits)

lemma plain_init_console [plain_intros]: "plain (init_console la args)"
  unfolding init_console_def Let_def by (auto intro!: plain_intros split: steady_splits)

lemma plain_common_init_session [plain_intros]: "plain (common_init_session ll st la args)"
  unfolding common_init_session_def Let_def by (auto intro!: plain_intros split: steady_splits)

lemma plain_launch_environment [plain_intros]: "plain (launch_environment la args)"
  unfolding launch_environment_def Let_def by (auto intro!: plain_intros split: steady_splits)

lemma plain_check_aslr [plain_intros]: "plain (check_aslr la info)"
  unfolding check_aslr_def Let_def by (auto intro!: plain_intros split: steady_splits)

lemma plain_notify_process_terminated [plain_intros]: "plain (notify_process_terminated ll ra)"
  unfolding notify_process_terminated_def by (auto intro!: plain_intros split: process_state.split)

lemma plain_check_process_create_commands [plain_intros]: "plain (check_process_create_commands ll ta ra la)"
  unfolding check_process_create_commands_def Let_def by (auto intro!: plain_intros split: steady_splits)

lemma plain_create_process_by_commands [plain_intros]: "plain (create_process_by_commands ll ta ra la commands)"
  unfolding create_process_by_commands_def Let_def by (auto intro!: plain_intros split: steady_splits)

lemma plain_launch_error: "launch_error la w info err \<noteq> AsyncResponse f"
  by (auto simp: launch_error_def split: option.split)

lemma plain_start_process [plain_intros]: "plain (start_process ll ta ra la args info)"
  unfolding start_process_def
  by (intro plain_bindS plain_basic) (auto intro!: plain_got plain_intros simp: plain_launch_error split: res.split)

lemma plain_attach_target [plain_intros]: "plain (attach_target ll la args)"
  unfolding attach_target_def Let_def by (auto intro!: plain_intros split: steady_splits)

lemma plain_attach_info [plain_intros]: "plain_res (attach_info_of la args s)"
  unfolding attach_info_of_def attach_pid_def by (auto intro!: plain_intros split: steady_splits)

lemma plain_attach_to_process [plain_intros]: "plain (attach_to_process ll ta ra la args)"
  unfolding attach_to_process_def by (auto intro!: plain_got plain_intros)

lemma plain_terminate_debuggee [plain_intros]: "plain (terminate_debuggee ll la force_terminate)"
  unfolding terminate_debuggee_def Let_def by (auto intro!: plain_intros split: steady_splits)

lemma plain_run_pre_terminate [plain_intros]: "plain (run_pre_terminate ll)"
  unfolding run_pre_terminate_def Let_def by (auto intro!: plain_intros split: steady_splits)

lemma plain_send_graceful_signal [plain_intros]: "plain (send_graceful_signal ll ra la sig_name)"
  unfolding send_graceful_signal_def Let_def by (auto intro!: plain_intros split: steady_splits)

lemma plain_handle_terminate [plain_intros]: "plain (handle_terminate ll ra la)"
  unfolding handle_terminate_def Let_def by (auto intro!: plain_intros split: steady_splits)

lemma plain_handle_disconnect [plain_intros]: "plain (handle_disconnect ll la args)"
  unfolding handle_disconnect_def Let_def by (auto intro!: plain_intros split: steady_splits)

lemma plain_add_step_in_target [plain_intros]: "plain (add_step_in_target sa curr_pc stmt_to fn)"
  unfolding add_step_in_target_def Let_def by (auto intro!: plain_intros split: steady_splits)

lemma plain_handle_step_in_targets [plain_intros]: "plain (handle_step_in_targets ll sa ht frame_id)"
  unfolding handle_step_in_targets_def Let_def by (auto intro!: plain_intros split: steady_splits)

lemma plain_step_round [plain_intros]: "plain (step_round ll ta ra sa va thread start_frame target)"
  unfolding step_round_def Let_def by (auto intro!: plain_intros split: steady_splits)

lemma plain_handle_python_message [plain_intros]: "plain (handle_python_message ad args)"
  unfolding handle_python_message_def Let_def by (auto intro!: plain_intros split: steady_splits)

section \<open>Starting the debuggee\<close>

lemma plain_set_corked [plain_intros]: "plain (set_corked b)"
  by (simp add: set_corked_def plain_intros)

lemma plain_common_post_run [plain_intros]: "plain (common_post_run ll args)"
  unfolding common_post_run_def by (auto intro!: plain_intros split: option.split)

lemma plain_complete_launch [plain_intros]: "plain (complete_launch ll ta ra la args)"
  unfolding complete_launch_def Let_def by (auto intro!: plain_intros split: option.split)

lemma plain_complete_attach [plain_intros]: "plain (complete_attach ll ta ra la args)"
  unfolding complete_attach_def by (auto intro!: plain_intros split: option.split)

lemma plain_handle_restart [plain_intros]: "plain (handle_restart ll ta ra la args)"
  unfolding handle_restart_def by (auto intro!: plain_intros split: either.split)

end
