(* ===== verification/Typed_Responses.thy ===== *)
theory Typed_Responses
  imports Wire Plain_Errors Session_Correct
begin

text \<open>
  The types of responses: on the wire a request and a response body carry the name of their command (the
  \<open>serde\<close> attributes of \<open>src/adapter-protocol/src/lib.rs\<close>), and a response has the command of its request.
\<close>

section \<open>Futures\<close>

text \<open>The command of the responses that a future gives.\<close>

fun future_gives :: "string \<Rightarrow> future \<Rightarrow> bool" where
  "future_gives c FutConfigurationDone \<longleftrightarrow> c = ''configurationDone''"
| "future_gives c (FutLaunch _) \<longleftrightarrow> c = ''launch''"
| "future_gives c (FutStart _) \<longleftrightarrow> c = ''launch''"
| "future_gives c (FutAttach _) \<longleftrightarrow> c = ''attach''"
| "future_gives c (FutReady r) \<longleftrightarrow> (case r of Ok body \<Rightarrow> body_command body = c | _ \<Rightarrow> True)"

fun gives :: "string \<Rightarrow> (err, response_body) res \<Rightarrow> bool" where
  "gives c (Ok body) \<longleftrightarrow> body_command body = c"
| "gives c (Err e) \<longleftrightarrow> (\<forall>fut. e = AsyncResponse fut \<longrightarrow> future_gives c fut)"
| "gives c Panic \<longleftrightarrow> True"

section \<open>Handlers\<close>

definition typed :: "string \<Rightarrow> ('w, 'h, response_body) handler \<Rightarrow> bool" where
  "typed c h \<longleftrightarrow> (\<forall>s r t. h s = (r, t) \<longrightarrow> gives c r)"

definition typed_later :: "string \<Rightarrow> ('w, 'h, response_body) may_hang \<Rightarrow> bool" where
  "typed_later c h \<longleftrightarrow> (\<forall>s r t. h s = Some (r, t) \<longrightarrow> gives c r)"

definition plain_later :: "('w, 'h, 'a) may_hang \<Rightarrow> bool" where
  "plain_later h \<longleftrightarrow> (\<forall>s r t. h s = Some (r, t) \<longrightarrow> plain_res r)"

lemma plain_res_Err [simp]: "plain_res (Err e) \<longleftrightarrow> (\<forall>f. e \<noteq> AsyncResponse f)"
  by (simp add: plain_res_def)

lemma map_err_plain: "map_err StrError r \<noteq> Err (AsyncResponse f)"
  by (cases r) auto

lemma gives_Err: "plain_res (Err e :: (err, unit) res) \<Longrightarrow> gives c (Err e)"
  by (auto simp: plain_res_def)

lemma typed_returnS: "body_command body = c \<Longrightarrow> typed c (returnS body)"
  by (simp add: typed_def returnS_def)

lemma typed_failS: "(\<And>fut. e = AsyncResponse fut \<Longrightarrow> future_gives c fut) \<Longrightarrow> typed c (failS e)"
  by (simp add: typed_def failS_def)

lemma typed_bindS:
  assumes "plain m" "\<And>x. typed c (f x)"
  shows "typed c (bindS m f)"
  unfolding typed_def
proof (intro allI impI)
  fix s r t
  assume run: "bindS m f s = (r, t)"
  obtain q u where m: "m s = (q, u)" by fastforce
  with run assms plainD [OF assms(1) m] show "gives c r"
    by (cases q) (auto simp: bindS_def typed_def plain_res_def)
qed

lemma typed_thenS: "plain m \<Longrightarrow> typed c n \<Longrightarrow> typed c (thenS m n)"
  unfolding thenS_def by (rule typed_bindS)

lemma typed_if: "(b \<Longrightarrow> typed c m) \<Longrightarrow> (\<not> b \<Longrightarrow> typed c n) \<Longrightarrow> typed c (if b then m else n)"
  by simp

lemmas typed_intros = typed_returnS typed_failS typed_thenS typed_bindS typed_if

lemma typed_now: "typed c h \<Longrightarrow> typed_later c (now h)"
  by (simp add: typed_def typed_later_def now_def)

lemma typed_answer: "plain h \<Longrightarrow> (\<And>x. body_command (body x) = c) \<Longrightarrow> typed_later c (answer body h)"
  unfolding answer_def by (intro typed_now typed_bindS typed_returnS)

lemma typed_answer_later:
  assumes "plain_later h" "\<And>x. body_command (body x) = c"
  shows "typed_later c (answer_later body h)"
  unfolding typed_later_def
proof (intro allI impI)
  fix s r t
  assume "answer_later body h s = Some (r, t)"
  then obtain q where q: "h s = Some (q, t)" "r = map_res body q" by (auto simp: answer_later_def)
  with assms show "gives c r" by (cases q) (fastforce simp: plain_later_def plain_res_def)+
qed

lemma plain_now: "plain h \<Longrightarrow> plain_later (now h)"
  using plainD by (fastforce simp: plain_later_def now_def)

section \<open>Handlers that may not return\<close>

lemma plain_handle_step_in: "plain_later (handle_step_in ll ta ra sa va ht args)"
  unfolding plain_later_def
proof (intro allI impI)
  fix s r t
  assume run: "handle_step_in ll ta ra sa va ht args s = Some (r, t)"
  let ?head = "\<lambda>thread. bindS (before_resume ht) (\<lambda>_. step_by_instruction ll (sti_granularity args) thread)"
  have head: "plain_res q" if "?head thread s = (q, u)" for thread q u
    by (rule plainD [of "?head thread", OF _ that]) (intro plain_intros)
  have tail: "plain_res q" if "try_world f u = (q, v)" for f :: "('a, unit) fallible" and q u v
    by (rule plainD [OF plain_try_world that])
  have stopped: "plain_res q" if "notify_process_stopped ll ta ra u = (q, v)" for q u v
    by (rule plainD [OF plain_notify_process_stopped that])
  from run show "plain_res r"
    by (auto simp: handle_step_in_def Let_def dest!: head tail stopped intro: plain_intros
        split: option.splits prod.splits res.splits if_splits)
qed

lemma no_read_error: "read_memory api a n \<noteq> Err e"
  by (simp add: read_memory_def Let_def split: option.split)

lemma no_take_error: "take_instructions api is a buffer acc \<noteq> Err e"
  by (induction api "is" a buffer acc rule: take_instructions.induct) (simp_all add: Let_def)

lemma no_loop_error: "disassemble_loop n api a buffer acc \<noteq> Some (Err e)"
  by (induction n arbitrary: a buffer acc) (auto simp: Let_def no_take_error split: list.split res.split prod.split)

lemma no_align_error: "find_aligned api a b buffer is \<noteq> Some (Err e)"
  by (induction api a b buffer "is" rule: find_aligned.induct)
    (auto simp: disassemble_bytes_def no_loop_error split: option.split res.split simp del: disassemble_loop.simps)

lemma plain_slice: "plain_res (slice xs i j)"
  by (simp add: slice_def plain_res_def)

lemma plain_decoded_rows: "(\<And>l x. plain_res (row l x)) \<Longrightarrow> plain_res (decoded_rows row lle xs)"
  by (induction xs arbitrary: lle) (auto intro!: plain_intros split: prod.split)

lemma plain_window_rows: "(\<And>l x. plain_res (row l x)) \<Longrightarrow> plain_res (window_rows row a b xs i j)"
  unfolding window_rows_def Let_def by (intro plain_intros plain_slice plain_decoded_rows) auto

lemma plain_decoded_row: "plain_res (decoded_row api n path resolve a buffer l x)"
  by (cases x; cases "snd (snd x)") (simp_all add: decoded_row_def plain_intros plain_slice)

lemma plain_handle_disassemble:
  assumes "handle_disassemble api n parse path args = Some r"
  shows "plain_res r"
  using assms
  by (auto simp: handle_disassemble_def Let_def no_read_error no_align_error map_err_plain
      split: res.splits if_splits option.splits prod.splits intro!: plain_window_rows plain_decoded_row plain_intros)

lemma plain_disassemble_request: "plain_later (disassemble_request ad args)"
  by (auto simp: plain_later_def disassemble_request_def Let_def dest: plain_handle_disassemble)

section \<open>Requests\<close>

lemma typed_wait: "future_gives c fut \<Longrightarrow> typed c (wait_for_configuration fut)"
  unfolding wait_for_configuration_def by (intro typed_intros plain_intros) simp

lemma typed_handle_launch: "typed ''launch'' (handle_launch ll st la args)"
  unfolding handle_launch_def
  by (intro typed_thenS typed_bindS typed_wait) (auto intro!: plain_intros split: option.split)

lemma typed_handle_attach: "typed ''attach'' (handle_attach ll st la args)"
  unfolding handle_attach_def
  by (intro typed_thenS typed_bindS typed_if typed_wait typed_failS) (auto intro!: plain_intros)

lemma typed_report: "typed c (report_launch_cfg_error la cfg)"
  unfolding report_launch_cfg_error_def by (intro typed_failS) simp

lemma typed_configuration_done: "typed ''configurationDone'' handle_configuration_done"
  unfolding handle_configuration_done_def by (intro typed_intros plain_intros) simp

lemma typed_handle_evaluate: "typed ''evaluate'' (handle_evaluate ll va ht args)"
  unfolding handle_evaluate_def
  by (intro typed_bindS typed_if typed_failS plain_intros) (auto simp: map_res_eq_Ok split: res.split)

lemma typed_unknown: "typed c (failS (str_error m))"
  by (intro typed_failS) simp

lemmas typed_requests = typed_answer typed_answer_later typed_now typed_handle_launch typed_handle_attach typed_report
  typed_configuration_done typed_handle_evaluate plain_handle_step_in plain_disassemble_request typed_unknown

lemma typed_debug_request: "typed_later (request_command request) (handle_debug_request ad request)"
  by (cases request; simp add: handle_debug_request_def Let_def; (intro typed_requests plain_intros | simp split: prod.split)+)

lemma typed_laterD: "h s = Some (r, t) \<Longrightarrow> typed_later c h \<Longrightarrow> gives c r"
  unfolding typed_later_def by blast

lemma typed_request:
  assumes "handle_request_args ad request s = Some (r, t)"
  shows "gives (request_command request) r"
proof -
  have refused: "gives (request_command other) r"
    if "(if no_debug s then Some (Err (str_error ''Not supported in noDebug mode.''), s)
        else handle_debug_request ad other s) = Some (r, t)" for other
    using that by (auto split: if_splits elim: typed_laterD [OF _ typed_debug_request])
  note typed = typed_requests plain_intros
  show ?thesis
  proof (cases request)
    case (Rq_launch x)
    with assms show ?thesis
      by (cases x; simp add: handle_request_args_def Let_def; elim typed_laterD; intro typed)
  next
    case (Rq_attach x)
    with assms show ?thesis
      by (cases x; simp add: handle_request_args_def Let_def; elim typed_laterD; intro typed)
  next
    case (Rq_restart x)
    with assms show ?thesis
      by (cases x; simp add: handle_request_args_def Let_def; elim typed_laterD; (intro typed | simp)+)
  next
    case (Rq_initialize x)
    with assms show ?thesis
      by (simp add: handle_request_args_def Let_def; elim typed_laterD; (intro typed | simp)+)
  next
    case Rq_configurationDone
    with assms show ?thesis
      by (simp add: handle_request_args_def Let_def; elim typed_laterD; (intro typed | simp)+)
  next
    case Rq_terminate
    with assms show ?thesis
      by (simp add: handle_request_args_def Let_def; elim typed_laterD; (intro typed | simp)+)
  next
    case (Rq_disconnect x)
    with assms show ?thesis
      by (simp add: handle_request_args_def Let_def; elim typed_laterD; (intro typed | simp)+)
  next
    case (Rq_adapterSettings x)
    with assms show ?thesis
      by (simp add: handle_request_args_def Let_def; elim typed_laterD; (intro typed | simp)+)
  qed (insert assms, simp add: handle_request_args_def Let_def, drule refused, simp)+
qed

section \<open>The session\<close>

text \<open>What has been answered with success.\<close>

definition successes :: "('w, 'h) session \<Rightarrow> (response_body response \<times> response_body) set" where
  "successes s = {(resp, body). MResponse resp \<in> set (outbox s) \<and> result resp = Success body}"

text \<open>Success responses and waiting futures are typed by the requests that were taken.\<close>

definition responses_typed :: "(u32 \<times> request \<times> bool) list \<Rightarrow> ('w, 'h) session \<Rightarrow> bool" where
  "responses_typed requests s \<longleftrightarrow>
     (\<forall>(resp, body)\<in>successes s. \<exists>request. (request_seq resp, request, False) \<in> set requests
          \<and> body_command body = request_command request)
     \<and> (\<forall>(seq, released, fut)\<in>set (pending_futures s). \<exists>request. (seq, request, False) \<in> set requests
          \<and> future_gives (request_command request) fut)"

lemma responses_typed_mono:
  "responses_typed requests s \<Longrightarrow> set requests \<subseteq> set others \<Longrightarrow> responses_typed others s"
  unfolding responses_typed_def by fast

lemma successes_silent: "silent s t \<Longrightarrow> successes t = successes s"
  by (auto simp: silent_def successes_def)

lemma responses_typed_silent: "silent s t \<Longrightarrow> responses_typed requests s \<Longrightarrow> responses_typed requests t"
  using successes_silent [of s t] by (simp add: responses_typed_def silent_def)

text \<open>What a handler says or leaves is of the type of one of the requests.\<close>

definition of_type :: "(u32 \<times> request \<times> bool) list \<Rightarrow> u32 \<Rightarrow> (err, response_body) res \<Rightarrow> bool" where
  "of_type requests seq r \<longleftrightarrow>
     (\<forall>body. r = Ok body \<longrightarrow> (\<exists>request. (seq, request, False) \<in> set requests \<and> body_command body = request_command request))"

lemma typed_send_response:
  assumes "send_response seq r s = (Ok (), t)" "responses_typed requests s" "of_type requests seq r"
  shows "responses_typed requests t"
proof -
  obtain resp where resp: "make_response seq r = Some resp" "t = s\<lparr>outbox := outbox s @ [MResponse resp]\<rparr>"
    using assms(1) by (auto simp: send_response_def modifyS_def panicS_def split: option.splits)
  have "request_seq resp = seq \<and> r = Ok body" if "result resp = Success body" for body
    using resp(1) that by (cases r) (auto split: prod.splits)
  then have "\<exists>request. (request_seq q, request, False) \<in> set requests \<and> body_command body = request_command request"
    if "(q, body) \<in> successes t" for q body
    using that assms(2,3) by (auto simp: resp(2) successes_def of_type_def responses_typed_def)
  with assms(2) show ?thesis by (auto simp: responses_typed_def resp(2))
qed

lemma typed_spawn:
  assumes "spawn_future seq fut s = (Ok (), t)" "responses_typed requests s"
    and "(seq, request, False) \<in> set requests" "future_gives (request_command request) fut"
  shows "responses_typed requests t"
proof -
  have t: "t = s\<lparr>pending_futures := pending_futures s @ [(seq, False, fut)]\<rparr>"
    using assms(1) by (simp add: spawn_future_def modifyS_def)
  then have "successes t = successes s" by (simp add: successes_def)
  with assms(2-4) show ?thesis by (auto simp: responses_typed_def t)
qed

lemma typed_configuration:
  assumes "handle_configuration_done s = (r, t)" "responses_typed requests s"
  shows "responses_typed requests t"
proof -
  have t: "t = s\<lparr>pending_futures := map (\<lambda>(seq, _, fut). (seq, True, fut)) (pending_futures s)\<rparr>"
    using assms(1) by (simp add: handle_configuration_done_def res_simps)
  then have "successes t = successes s" by (simp add: successes_def)
  with assms(2) show ?thesis by (fastforce simp: responses_typed_def t)
qed

lemma typed_handle_request:
  assumes "handle_request ad seq request is_cancelled s = Some (Ok (), t)" "responses_typed requests s"
    and "(seq, request, is_cancelled) \<in> set requests"
  shows "responses_typed requests t"
proof (cases "is_cancelled \<or> request = Rq_unknown")
  case True
  with assms show ?thesis
    by (auto simp: handle_request_def split: if_splits elim!: typed_send_response simp: of_type_def)
next
  case False
  with assms(1) obtain r u where run: "handle_request_args ad request s = Some (r, u)"
    and fin: "(\<exists>fut. r = Err (AsyncResponse fut) \<and> spawn_future seq fut u = (Ok (), t)) \<or> send_response seq r u = (Ok (), t)"
    by (auto simp: handle_request_def split: if_splits option.splits prod.splits res.splits error.splits)
  have u: "responses_typed requests u"
  proof (cases "request = Rq_configurationDone")
    case True
    with run assms(2) show ?thesis by (auto simp: handle_request_args_def now_def intro: typed_configuration)
  next
    case False
    from responses_typed_silent [OF request_args_silent [OF run this] assms(2)] show ?thesis .
  qed
  have gives: "gives (request_command request) r" by (rule typed_request [OF run])
  have taken: "(seq, request, False) \<in> set requests" using False assms(3) by auto
  from fin show ?thesis
  proof (elim disjE exE conjE)
    fix fut
    assume "r = Err (AsyncResponse fut)" "spawn_future seq fut u = (Ok (), t)"
    with gives taken u show ?thesis by (auto intro: typed_spawn)
  next
    assume "send_response seq r u = (Ok (), t)"
    moreover have "of_type requests seq r" using gives taken by (auto simp: of_type_def)
    ultimately show ?thesis using u by (auto intro: typed_send_response)
  qed
qed

text \<open>The futures that start the debuggee have one body each.\<close>

lemma ends_with_body:
  "thenS m n s = (Ok x, t) \<Longrightarrow> \<exists>u. n u = (Ok x, t)"
  by (auto simp: thenS_def bindS_Ok)

lemma launch_body: "complete_launch ll ta ra la args s = (Ok body, t) \<Longrightarrow> body = Rb_launch"
  by (auto simp: complete_launch_def bindS_Ok Let_def returnS_def dest!: ends_with_body)

lemma attach_body: "complete_attach ll ta ra la args s = (Ok body, t) \<Longrightarrow> body = Rb_attach"
  by (auto simp: complete_attach_def returnS_def dest!: ends_with_body)

lemma typed_respond_with:
  assumes "respond_with seq h s = (Ok (), t)" "preserves silent h" "responses_typed requests s"
    and "\<And>body u. h s = (Ok body, u) \<Longrightarrow> of_type requests seq (Ok body)"
  shows "responses_typed requests t"
proof -
  from assms(1) obtain r u where run: "h s = (r, u)" "send_response seq r u = (Ok (), t)"
    by (auto simp: respond_with_def bindS_Ok attemptS_def split: prod.splits res.splits)
  from responses_typed_silent [OF preservesD [OF assms(2) run(1)] assms(3)] have "responses_typed requests u" .
  moreover have "of_type requests seq r" using assms(4) run(1) by (cases r) (auto simp: of_type_def)
  ultimately show ?thesis by (rule typed_send_response [OF run(2)])
qed

lemma typed_run_future:
  assumes "run_future ad seq fut s = (Ok (), t)" "responses_typed requests s"
    and "(seq, request, False) \<in> set requests" "future_gives (request_command request) fut"
  shows "responses_typed requests t"
proof -
  have body: "of_type requests seq (Ok b)" if "body_command b = request_command request" for b
    using that assms(3) by (auto simp: of_type_def)
  show ?thesis
  proof (cases fut)
    case FutConfigurationDone
    with assms body [of Rb_configurationDone] show ?thesis by (auto simp: run_future_def elim: typed_send_response)
  next
    case (FutLaunch args)
    with assms(1) obtain u where u: "create_terminal (ad_launch ad) (ad_run_terminal ad) args s = (Ok (), u)"
      "spawn_future seq (FutStart args) u = (Ok (), t)"
      by (auto simp: run_future_def thenS_def bindS_Ok)
    have "responses_typed requests u"
      by (rule responses_typed_silent [OF preservesD [OF steady_create_terminal [THEN steady_below(1)] u(1)] assms(2)])
    with u(2) assms(3,4) FutLaunch show ?thesis by (auto intro: typed_spawn)
  next
    case (FutStart args)
    with assms body [of Rb_launch] show ?thesis
      by (auto simp: run_future_def dest: launch_body elim!: typed_respond_with [OF _ silent_complete_launch])
  next
    case (FutAttach args)
    with assms body [of Rb_attach] show ?thesis
      by (auto simp: run_future_def dest: attach_body elim!: typed_respond_with [OF _ silent_complete_attach])
  next
    case (FutReady r)
    with assms body have "of_type requests seq r" by (cases r) (auto simp: of_type_def)
    with assms(1,2) FutReady show ?thesis by (auto simp: run_future_def elim: typed_send_response)
  qed
qed

lemma typed_python_event:
  assumes "handle_python_event event s = (r, t)" "responses_typed requests s"
  shows "responses_typed requests t"
proof -
  have "successes t = successes s \<and> pending_futures t = pending_futures s"
    using assms(1) by (auto simp: handle_python_event_def send_event_def console_message_impl_def modifyS_def
        successes_def split: python_event.splits)
  with assms(2) show ?thesis by (simp add: responses_typed_def)
qed

lemma typed_step:
  assumes "session_step ad s taken t" "responses_typed requests s" "case taken of Some request \<Rightarrow> request \<in> set requests | None \<Rightarrow> True"
  shows "responses_typed requests t"
  using assms(1)
proof cases
  case (on_request seq request is_cancelled)
  with typed_handle_request assms(2,3) show ?thesis by fastforce
next
  case (on_debug_event event)
  from debug_event_steady [OF on_debug_event(2)] have "silent s t" by (simp add: steady_def)
  with assms(2) show ?thesis by (rule responses_typed_silent [rotated])
next
  case (on_python_event event)
  with typed_python_event assms(2) show ?thesis by blast
next
  case (on_future before seq released fut after)
  have taken: "successes (s\<lparr>pending_futures := before @ after\<rparr>) = successes s" by (simp add: successes_def)
  have "responses_typed requests (s\<lparr>pending_futures := before @ after\<rparr>)"
    using assms(2) on_future(2) by (auto simp: responses_typed_def taken)
  moreover obtain request where "(seq, request, False) \<in> set requests" "future_gives (request_command request) fut"
    using assms(2) on_future(2) by (auto simp: responses_typed_def)
  ultimately show ?thesis using typed_run_future [OF on_future(4)] by blast
qed

lemma typed_run:
  assumes "session_run ad s requests t" "responses_typed [] s"
  shows "responses_typed requests t"
  using assms
proof (induction rule: session_run.induct)
  case (run_step s requests t taken u)
  let ?all = "requests @ (case taken of Some request \<Rightarrow> [request] | None \<Rightarrow> [])"
  from run_step have "responses_typed ?all t" by (auto intro: responses_typed_mono)
  with run_step.hyps(2) show ?case by (rule typed_step) (auto split: option.split)
qed

text \<open>
  C17 (responses have the type of their request).  In every run from a session that has said nothing and owes nothing, a
  response of success is to a request that was taken and not cancelled, and its body is the one of that
  request's command: the body of another command is never sent, whichever future gives it.
\<close>

theorem responses_have_their_type:
  assumes "session_run ad s requests t" "outbox s = []" "pending_futures s = []"
    and "MResponse resp \<in> set (outbox t)" "result resp = Success body"
  shows "\<exists>request. (request_seq resp, request, False) \<in> set requests \<and> body_command body = request_command request"
proof -
  have "responses_typed [] s" using assms(2,3) by (simp add: responses_typed_def successes_def)
  from typed_run [OF assms(1) this] have "responses_typed requests t" .
  with assms(4,5) show ?thesis by (force simp: responses_typed_def successes_def)
qed

text \<open>\<open>configurationDone\<close> and the future that answers it.\<close>

theorem responses_have_their_type_witness:
  "\<exists>request t. session_run demo_adapter demo_start [(1, Rq_configurationDone, False)] t
     \<and> MResponse \<lparr>request_seq = 1, success = True, result = Success Rb_configurationDone\<rparr> \<in> set (outbox t)
     \<and> (1, request, False) \<in> set [(1, Rq_configurationDone, False)]
     \<and> body_command Rb_configurationDone = request_command request"
proof -
  let ?resp = "\<lparr>request_seq = 1, success = True, result = Success Rb_configurationDone\<rparr> :: response_body response"
  let ?t = "demo_start\<lparr>pending_futures := [(1, False, FutConfigurationDone)]\<rparr>"
  let ?u = "?t\<lparr>pending_futures := [], outbox := [MResponse ?resp]\<rparr>"
  have quiet: "outbox demo_start = []" "pending_futures demo_start = []" by (simp_all add: demo_start_def tiny_session_def)
  have "session_step demo_adapter demo_start (Some (1, Rq_configurationDone, False)) ?t"
    by (rule configuration_done_step) (rule quiet)
  moreover have "session_step demo_adapter ?t None ?u"
    by (rule on_future [where before = "[]" and after = "[]" and fut = FutConfigurationDone and released = False])
      (simp_all add: run_future_def send_response_def modifyS_def quiet)
  ultimately have run: "session_run demo_adapter demo_start [(1, Rq_configurationDone, False)] ?u"
    using run_step [OF run_step [OF run_refl]] by fastforce
  have "MResponse ?resp \<in> set (outbox ?u)" "result ?resp = Success Rb_configurationDone" by simp_all
  from responses_have_their_type [OF run quiet this] run this(1) show ?thesis by auto
qed

end
