(* ===== verification/Pipeline.thy ===== *)
theory Pipeline
  imports Session_Correct Dap_Session Cancel_Filter
begin

text \<open>
  The way of a request through the adapter: from the client to the dispatcher (\<open>dap_session.rs\<close>), over a
  broadcast channel to the cancellation filter, over a queue to the session (\<open>debug_session.rs\<close>), and of its
  answer back through the dispatcher's queue to the client.
\<close>

section \<open>The parts and what lies between them\<close>

text \<open>
  \<open>pl_unread\<close> is what the filter has not read of the broadcast channel, \<open>pl_lost\<close> what the channel overwrote or
  could not be forwarded, \<open>pl_queue\<close> the requests for the session with their tokens; \<open>pl_dropped\<close> are messages that did
  not get on the dispatcher's queue, \<open>pl_reverse\<close> requests to the client whose sending is still pending.
  \<open>pl_cancels\<close> and \<open>pl_malformed\<close> are logs: the cancel requests the filter kept, and the frames that were answered as
  malformed.
\<close>

record ('w, 'h) pipeline =
  pl_dispatcher :: dispatcher
  pl_unread :: "(u32 \<times> request) list"
  pl_lost :: "(u32 \<times> request) list"
  pl_cancels :: "u32 list"
  pl_malformed :: "u32 list"
  pl_filter :: filter_state
  pl_queue :: "(u32 \<times> request \<times> nat) list"
  pl_session :: "('w, 'h) session"
  pl_dropped :: "message_type list"
  pl_reverse :: "request list"

definition pipeline_start :: "('w, 'h) session \<Rightarrow> ('w, 'h) pipeline" where
  "pipeline_start s = \<lparr>pl_dispatcher = dispatcher_new, pl_unread = [], pl_lost = [], pl_cancels = [],
     pl_malformed = [], pl_filter = filter_init, pl_queue = [], pl_session = s, pl_dropped = [], pl_reverse = []\<rparr>"

text \<open>
  A broadcast channel keeps the newest messages its receiver has not read; \<open>capacity\<close> is what the library makes of
  the 100 asked for.
\<close>

definition broadcast_to_filter :: "nat \<Rightarrow> u32 \<times> request \<Rightarrow> ('w, 'h) pipeline \<Rightarrow> ('w, 'h) pipeline" where
  "broadcast_to_filter capacity x p =
     (let xs = pl_unread p @ [x]; over = length xs - capacity in
      p\<lparr>pl_unread := drop over xs, pl_lost := pl_lost p @ take over xs\<rparr>)"

definition receive_message :: "nat \<Rightarrow> message \<Rightarrow> ('w, 'h) pipeline \<Rightarrow> ('w, 'h) pipeline" where
  "receive_message capacity m p =
     (let p = p\<lparr>pl_dispatcher := dispatch_step (pl_dispatcher p) (FrameMessage m)\<rparr> in
      case msg_type m of
        MRequest request \<Rightarrow> broadcast_to_filter capacity (msg_seq m, request) p
      | _ \<Rightarrow> p)"

definition receive_malformed :: "json \<Rightarrow> bool \<Rightarrow> ('w, 'h) pipeline \<Rightarrow> ('w, 'h) pipeline" where
  "receive_malformed v sent_ok p =
     p\<lparr>pl_dispatcher := dispatch_step (pl_dispatcher p) (FrameSerdeError v sent_ok),
       pl_malformed := pl_malformed p @ (case malformed_seq v of Some n \<Rightarrow> [ucast n] | None \<Rightarrow> [])\<rparr>"

text \<open>
  The filter reads a request.  The queue to the session holds 100; one more may be in the hands of the filter, which
  then waits.  On the queue is what the filter has newly forwarded; a request that is no cancel request and was not
  forwarded is lost.
\<close>

definition filter_queue :: nat where
  "filter_queue = 100"

definition filter_reads :: "u32 \<times> request \<Rightarrow> (u32 \<times> request) list \<Rightarrow> ('w, 'h) pipeline \<Rightarrow> ('w, 'h) pipeline" where
  "filter_reads x rest p =
     (let (seq, request) = x; f = pl_filter p;
          g = filter_step f (FRequest seq request);
          new = drop (length (forwarded f)) (forwarded g);
          p = p\<lparr>pl_unread := rest, pl_filter := g, pl_queue := pl_queue p @ new\<rparr> in
      if is_cancel request then p\<lparr>pl_cancels := pl_cancels p @ [seq]\<rparr>
      else if new = [] then p\<lparr>pl_lost := pl_lost p @ [x]\<rparr>
      else p)"

text \<open>What the session says goes on the dispatcher's queue, or is dropped with a line in the log.\<close>

fun submit_all :: "message_type list \<Rightarrow> ('w, 'h) pipeline \<Rightarrow> ('w, 'h) pipeline" where
  "submit_all [] p = p"
| "submit_all (m # ms) p =
     submit_all ms
       (case m of
          MRequest request \<Rightarrow> p\<lparr>pl_reverse := pl_reverse p @ [request]\<rparr>
        | _ \<Rightarrow>
            (case enqueue m None (pl_dispatcher p) of
               (Ok _, d) \<Rightarrow> p\<lparr>pl_dispatcher := d\<rparr>
             | (_, d) \<Rightarrow> p\<lparr>pl_dispatcher := d, pl_dropped := pl_dropped p @ [m]\<rparr>))"

definition session_becomes :: "('w, 'h) session \<Rightarrow> ('w, 'h) pipeline \<Rightarrow> ('w, 'h) pipeline" where
  "session_becomes t p = submit_all (drop (length (outbox (pl_session p))) (outbox t)) (p\<lparr>pl_session := t\<rparr>)"

text \<open>The session has taken a request from the queue; its receiver of the token is dropped at the end.\<close>

definition session_took :: "nat \<Rightarrow> (u32 \<times> request \<times> nat) list \<Rightarrow> ('w, 'h) session \<Rightarrow> ('w, 'h) pipeline \<Rightarrow> ('w, 'h) pipeline" where
  "session_took token rest t p =
     session_becomes t (p\<lparr>pl_queue := rest, pl_filter := filter_step (pl_filter p) (FDone token)\<rparr>)"

section \<open>Steps\<close>

inductive pipe_step :: "nat \<Rightarrow> ('w, 'h) adapter \<Rightarrow> ('w, 'h) pipeline \<Rightarrow> ('w, 'h) pipeline \<Rightarrow> bool" for capacity ad where
  client_message: "dispatching (pl_dispatcher p) \<Longrightarrow> pipe_step capacity ad p (receive_message capacity m p)"
| malformed_frame: "dispatching (pl_dispatcher p) \<Longrightarrow> pipe_step capacity ad p (receive_malformed v sent_ok p)"
| connection_ends: "e \<in> {FrameError, ClientGone} \<Longrightarrow>
     pipe_step capacity ad p (p\<lparr>pl_dispatcher := dispatch_step (pl_dispatcher p) e\<rparr>)"
| filter_takes: "pl_unread p = x # rest \<Longrightarrow> filter_running (pl_filter p) \<Longrightarrow> length (pl_queue p) \<le> filter_queue \<Longrightarrow>
     pipe_step capacity ad p (filter_reads x rest p)"
| session_takes: "pl_queue p = (seq, request, token) # rest \<Longrightarrow>
     session_step ad (pl_session p) (Some (seq, request, flag (tokens (pl_filter p) token))) t \<Longrightarrow>
     pipe_step capacity ad p (session_took token rest t p)"
| session_turns: "session_step ad (pl_session p) None t \<Longrightarrow> pipe_step capacity ad p (session_becomes t p)"
| dispatcher_sends: "pipe_step capacity ad p (p\<lparr>pl_dispatcher := dispatch_step (pl_dispatcher p) (Outgoing sent_ok)\<rparr>)"
| reverse_request: "pl_reverse p = request # rest \<Longrightarrow> enqueue (MRequest request) (Some requester) (pl_dispatcher p) = (Ok (), d) \<Longrightarrow>
     pipe_step capacity ad p (p\<lparr>pl_reverse := rest, pl_dispatcher := d\<rparr>)"
| other_event: "pipe_step capacity ad p (p\<lparr>pl_dispatcher := snd (enqueue (MEvent event) None (pl_dispatcher p))\<rparr>)"

inductive pipe_run :: "nat \<Rightarrow> ('w, 'h) adapter \<Rightarrow> ('w, 'h) pipeline \<Rightarrow> ('w, 'h) pipeline \<Rightarrow> bool" for capacity ad where
  pipe_refl: "pipe_run capacity ad p p"
| pipe_more: "pipe_run capacity ad p q \<Longrightarrow> pipe_step capacity ad q r \<Longrightarrow> pipe_run capacity ad p r"

section \<open>What the session says\<close>

definition answers_in :: "message_type list \<Rightarrow> u32 list" where
  "answers_in ms = List.map_filter (\<lambda>m. case m of MResponse r \<Rightarrow> Some (request_seq r) | _ \<Rightarrow> None) ms"

lemma answers_in_simps [simp]:
  "answers_in [] = []" "answers_in (MResponse r # ms) = request_seq r # answers_in ms"
  "answers_in (MEvent e # ms) = answers_in ms" "answers_in (MRequest rq # ms) = answers_in ms"
  "answers_in (ms @ ns) = answers_in ms @ answers_in ns"
  by (simp_all add: answers_in_def map_filter_simps answered_append)

lemma answered_answers: "answered s = answers_in (outbox s)"
  by (simp add: answered_def answers_in_def)

lemma silent_grows: "silent s t \<Longrightarrow> out_grows s t"
  by (auto simp: silent_def out_grows_def)

lemma send_response_grows: "Dispatch.send_response seq r s = (x, t) \<Longrightarrow> out_grows s t"
  by (auto simp: Dispatch.send_response_def modifyS_def panicS_def out_grows_def split: option.splits)

lemma spawn_future_grows: "spawn_future seq fut s = (x, t) \<Longrightarrow> out_grows s t"
  by (auto simp: spawn_future_def modifyS_def out_grows_def)

lemma request_grows:
  assumes "handle_request ad seq request was_cancelled s = Some (Ok (), t)"
  shows "out_grows s t"
proof (cases "was_cancelled \<or> request = Rq_unknown")
  case True
  with assms show ?thesis by (auto simp: handle_request_def split: if_splits dest: send_response_grows)
next
  case False
  with assms obtain r u where run: "handle_request_args ad request s = Some (r, u)"
    and fin: "(\<exists>fut. r = Err (AsyncResponse fut) \<and> spawn_future seq fut u = (Ok (), t)) \<or> Dispatch.send_response seq r u = (Ok (), t)"
    by (auto simp: handle_request_def split: if_splits option.splits prod.splits res.splits error.splits)
  have "out_grows s u"
  proof (cases "request = Rq_configurationDone")
    case True
    with run show ?thesis
      by (auto simp: handle_request_args_def now_def handle_configuration_done_def res_simps out_grows_def)
  next
    case False
    from request_args_silent [OF run this] show ?thesis by (rule silent_grows)
  qed
  with fin show ?thesis by (auto intro: out.trans dest: spawn_future_grows send_response_grows)
qed

lemma respond_with_grows:
  assumes "respond_with seq h s = (x, t)" "preserves silent h"
  shows "out_grows s t"
proof -
  obtain r u where h: "h s = (r, u)" by fastforce
  have "out_grows s u" by (rule silent_grows) (rule preservesD [OF assms(2) h])
  with assms(1) h show ?thesis
    by (cases r) (auto simp: respond_with_def bindS_def attemptS_def intro: out.trans dest: send_response_grows)
qed

lemma future_grows:
  assumes "run_future ad seq fut s = (Ok (), t)"
  shows "out_grows s t"
proof (cases fut)
  case (FutLaunch args)
  with assms obtain u where u: "create_terminal (ad_launch ad) (ad_run_terminal ad) args s = (Ok (), u)"
    "spawn_future seq (FutStart args) u = (Ok (), t)"
    by (auto simp: run_future_def thenS_def bindS_Ok)
  have "out_grows s u"
    by (rule silent_grows) (rule preservesD [OF steady_create_terminal [THEN steady_below(1)] u(1)])
  with spawn_future_grows [OF u(2)] show ?thesis by (blast intro: out.trans)
qed (use assms in \<open>auto simp: run_future_def dest: send_response_grows
  respond_with_grows [OF _ silent_complete_launch] respond_with_grows [OF _ silent_complete_attach]\<close>)

lemma session_step_grows:
  assumes "session_step ad s taken t"
  shows "out_grows s t"
  using assms
proof cases
  case (on_request seq request was_cancelled)
  with request_grows show ?thesis by blast
next
  case (on_debug_event event)
  from debug_event_steady [OF on_debug_event(2)] show ?thesis by (simp add: steady_def silent_grows)
next
  case (on_python_event event)
  then show ?thesis
    by (auto simp: handle_python_event_def Session_State.send_event_def console_message_impl_def modifyS_def out_grows_def
        split: python_event.splits)
next
  case (on_future before seq released fut after)
  with future_grows show ?thesis by (fastforce simp: out_grows_def)
qed

section \<open>Where requests are\<close>

text \<open>Every request the dispatcher has received is somewhere, or has been answered.\<close>

definition requests_accounted :: "('w, 'h) pipeline \<Rightarrow> bool" where
  "requests_accounted p \<longleftrightarrow>
     mset (map fst (broadcast_requests (pl_dispatcher p)))
       = mset (map fst (pl_unread p)) + mset (map fst (pl_lost p)) + mset (pl_cancels p)
         + mset (map fst (pl_queue p)) + owed (pl_session p)"

text \<open>Every answer, of the session or to a malformed frame, is on the queue, was sent, or was dropped.\<close>

definition answers_accounted :: "('w, 'h) pipeline \<Rightarrow> bool" where
  "answers_accounted p \<longleftrightarrow>
     mset (answered (pl_session p)) + mset (pl_malformed p)
       = mset (answers_in (map (msg_type \<circ> fst) (transmitted (pl_dispatcher p))))
         + mset (answers_in (map fst (out_queue (pl_dispatcher p)))) + mset (answers_in (pl_dropped p))"

lemma enqueue_fields:
  "enqueue m r d = (x, e) \<Longrightarrow> broadcast_requests e = broadcast_requests d \<and> transmitted e = transmitted d
     \<and> out_queue e = (if x = Ok () then out_queue d @ [(m, r)] else out_queue d)"
  by (auto simp: enqueue_def split: if_splits)

lemma submit_all_fields [simp]:
  "pl_session (submit_all ms p) = pl_session p" "pl_unread (submit_all ms p) = pl_unread p"
  "pl_lost (submit_all ms p) = pl_lost p" "pl_cancels (submit_all ms p) = pl_cancels p"
  "pl_queue (submit_all ms p) = pl_queue p" "pl_malformed (submit_all ms p) = pl_malformed p"
  "broadcast_requests (pl_dispatcher (submit_all ms p)) = broadcast_requests (pl_dispatcher p)"
  "transmitted (pl_dispatcher (submit_all ms p)) = transmitted (pl_dispatcher p)"
  by (induction ms arbitrary: p)
    (auto simp: dest!: enqueue_fields split: message_type.split prod.split res.split)

text \<open>Messages handed over are on the queue or dropped.\<close>

definition handed_over :: "('w, 'h) pipeline \<Rightarrow> u32 multiset" where
  "handed_over p = mset (answers_in (map fst (out_queue (pl_dispatcher p)))) + mset (answers_in (pl_dropped p))"

lemma answers_handed_over:
  "answers_accounted p \<longleftrightarrow> mset (answered (pl_session p)) + mset (pl_malformed p)
     = mset (answers_in (map (msg_type \<circ> fst) (transmitted (pl_dispatcher p)))) + handed_over p"
  by (simp add: answers_accounted_def handed_over_def add.assoc)

lemma submit_all_answers: "handed_over (submit_all ms p) = handed_over p + mset (answers_in ms)"
proof (induction ms arbitrary: p)
  case (Cons m ms)
  show ?case
  proof (cases m)
    case (MRequest rq)
    then show ?thesis by (simp add: Cons.IH) (simp add: handed_over_def)
  next
    case (MResponse resp)
    obtain x d where e: "enqueue m None (pl_dispatcher p) = (x, d)" by fastforce
    with enqueue_fields [OF this] MResponse show ?thesis
      by (cases x) (simp_all add: Cons.IH, simp_all add: handed_over_def)
  next
    case (MEvent ev)
    obtain x d where e: "enqueue m None (pl_dispatcher p) = (x, d)" by fastforce
    with enqueue_fields [OF this] MEvent show ?thesis
      by (cases x) (simp_all add: Cons.IH, simp_all add: handed_over_def)
  qed
qed simp

section \<open>The steps keep the accounts\<close>

lemma session_becomes_requests:
  assumes "requests_accounted p" "owed t = owed (pl_session p)"
  shows "requests_accounted (session_becomes t p)"
  using assms by (simp add: requests_accounted_def session_becomes_def)

lemma session_becomes_answers:
  assumes "answers_accounted p" "out_grows (pl_session p) t"
  shows "answers_accounted (session_becomes t p)"
proof -
  obtain new where new: "outbox t = outbox (pl_session p) @ new" using assms(2) by (auto simp: out_grows_def)
  have "handed_over (p\<lparr>pl_session := t\<rparr>) = handed_over p" by (simp add: handed_over_def)
  then have "handed_over (submit_all new (p\<lparr>pl_session := t\<rparr>)) = handed_over p + mset (answers_in new)"
    by (simp only: submit_all_answers)
  with assms(1) show ?thesis
    by (simp add: answers_handed_over session_becomes_def answered_answers new)
qed

lemma session_took_alt:
  "session_took token rest t p
     = session_becomes t (p\<lparr>pl_queue := rest, pl_filter := filter_step (pl_filter p) (FDone token)\<rparr>)"
  by (simp add: session_took_def)

lemma answers_of_broadcast [simp]:
  "answers_accounted (broadcast_to_filter capacity x p) = answers_accounted p"
  by (simp add: answers_accounted_def broadcast_to_filter_def Let_def)

lemma mset_split: "mset (map f (drop n xs)) + mset (map f (take n xs)) = mset (map f xs)"
  by (simp only: drop_map [symmetric] take_map [symmetric])
    (metis append_take_drop_id mset_append union_commute)

lemma broadcast_accounted:
  assumes "requests_accounted p"
  shows "requests_accounted (broadcast_to_filter capacity (seq, request)
    (p\<lparr>pl_dispatcher := (pl_dispatcher p)\<lparr>broadcast_requests := broadcast_requests (pl_dispatcher p) @ [(seq, request)]\<rparr>\<rparr>))"
proof -
  let ?xs = "pl_unread p @ [(seq, request)]"
  have "mset (map fst (drop n ?xs)) + mset (map fst (take n ?xs)) = mset (map fst (pl_unread p)) + {#seq#}" for n
    by (simp only: mset_split) simp
  from this [of "length ?xs - capacity"] assms show ?thesis
    by (simp add: requests_accounted_def broadcast_to_filter_def Let_def ac_simps)
qed

lemma receive_accounted:
  assumes "dispatching (pl_dispatcher p)"
  shows "requests_accounted p \<Longrightarrow> requests_accounted (receive_message capacity m p)"
    and "answers_accounted p \<Longrightarrow> answers_accounted (receive_message capacity m p)"
proof -
  have other: "requests_accounted (p\<lparr>pl_dispatcher := deliver_response r (pl_dispatcher p)\<rparr>) = requests_accounted p"
    "answers_accounted (p\<lparr>pl_dispatcher := deliver_response r (pl_dispatcher p)\<rparr>) = answers_accounted p" for r
    by (simp_all add: requests_accounted_def answers_accounted_def deliver_response_def split: option.split)
  show "requests_accounted (receive_message capacity m p)" if "requests_accounted p"
  proof (cases "msg_type m")
    case (MRequest request)
    with broadcast_accounted [OF that] assms show ?thesis by (simp add: receive_message_def on_message_def)
  next
    case (MEvent e)
    with that assms show ?thesis by (simp add: receive_message_def on_message_def requests_accounted_def)
  qed (use that assms other in \<open>simp add: receive_message_def on_message_def\<close>)
  show "answers_accounted (receive_message capacity m p)" if "answers_accounted p"
  proof (cases "msg_type m")
    case (MRequest request)
    with that assms show ?thesis by (simp add: receive_message_def on_message_def) (simp add: answers_accounted_def)
  next
    case (MEvent e)
    with that assms show ?thesis by (simp add: receive_message_def on_message_def answers_accounted_def)
  qed (use that assms other in \<open>simp add: receive_message_def on_message_def\<close>)
qed

lemma malformed_accounted:
  assumes "dispatching (pl_dispatcher p)"
  shows "requests_accounted p \<Longrightarrow> requests_accounted (receive_malformed v ok p)"
    and "answers_accounted p \<Longrightarrow> answers_accounted (receive_malformed v ok p)"
  using assms
  by (auto simp: receive_malformed_def on_serde_error_def transmit_def requests_accounted_def answers_accounted_def
      malformed_response_def Let_def split: option.split)

lemma outgoing_accounted:
  "requests_accounted p \<Longrightarrow> requests_accounted (p\<lparr>pl_dispatcher := dispatch_step (pl_dispatcher p) (Outgoing ok)\<rparr>)"
  "answers_accounted p \<Longrightarrow> answers_accounted (p\<lparr>pl_dispatcher := dispatch_step (pl_dispatcher p) (Outgoing ok)\<rparr>)"
proof -
  let ?d = "pl_dispatcher p"
  have same: "dispatch_step ?d (Outgoing ok) = ?d" if "out_queue ?d = [] \<or> \<not> dispatching ?d"
    using that by auto
  have moved: "\<exists>m r rest. out_queue ?d = (m, r) # rest \<and> out_queue (dispatch_step ?d (Outgoing ok)) = rest
      \<and> broadcast_requests (dispatch_step ?d (Outgoing ok)) = broadcast_requests ?d
      \<and> map (msg_type \<circ> fst) (transmitted (dispatch_step ?d (Outgoing ok))) = map (msg_type \<circ> fst) (transmitted ?d) @ [m]"
    if "out_queue ?d \<noteq> []" "dispatching ?d"
    using that by (cases "out_queue ?d") (auto simp: on_outgoing_def transmit_def Let_def split: option.split)
  show "requests_accounted p \<Longrightarrow> requests_accounted (p\<lparr>pl_dispatcher := dispatch_step ?d (Outgoing ok)\<rparr>)"
    using same moved by (cases "out_queue ?d = [] \<or> \<not> dispatching ?d") (auto simp: requests_accounted_def)
  show "answers_accounted (p\<lparr>pl_dispatcher := dispatch_step ?d (Outgoing ok)\<rparr>)" if a: "answers_accounted p"
  proof (cases "out_queue ?d = [] \<or> \<not> dispatching ?d")
    case True
    with same a show ?thesis by (simp add: answers_accounted_def)
  next
    case False
    with moved obtain m r rest where m: "out_queue ?d = (m, r) # rest" "out_queue (dispatch_step ?d (Outgoing ok)) = rest"
      "map (msg_type \<circ> fst) (transmitted (dispatch_step ?d (Outgoing ok))) = map (msg_type \<circ> fst) (transmitted ?d) @ [m]"
      by blast
    define e where "e = dispatch_step ?d (Outgoing ok)"
    from m have e: "out_queue e = rest" "map (msg_type \<circ> fst) (transmitted e) = map (msg_type \<circ> fst) (transmitted ?d) @ [m]"
      by (simp_all only: e_def)
    from a m(1) e have "answers_accounted (p\<lparr>pl_dispatcher := e\<rparr>)"
      by (cases m) (simp_all add: answers_accounted_def)
    then show ?thesis by (simp only: e_def)
  qed
qed

lemma filter_forwards:
  assumes "filter_running f"
  shows "forwarded (filter_step f (FRequest seq request)) =
    forwarded f @ (if is_cancel request \<or> \<not> queue_open f then [] else [(seq, request, next_token f)])"
proof -
  have "forwarded (filter_request f seq request) =
      forwarded f @ (if is_cancel request \<or> \<not> queue_open f then [] else [(seq, request, next_token f)])"
    by (cases request)
      (auto simp: filter_request_def forward_request_def cancel_by_id_def open_token_def clean_out_def
        update_token_def Let_def split: option.split)
  with assms show ?thesis by simp
qed

lemma filter_reads_accounted:
  assumes "pl_unread p = x # rest" "filter_running (pl_filter p)"
  shows "requests_accounted p \<Longrightarrow> requests_accounted (filter_reads x rest p)"
    and "answers_accounted p \<Longrightarrow> answers_accounted (filter_reads x rest p)"
  using assms by (auto simp: filter_reads_def filter_forwards Let_def requests_accounted_def answers_accounted_def
      simp del: filter_step.simps split: prod.splits)

lemma session_took_accounted:
  assumes "pl_queue p = (seq, request, token) # rest"
    and "session_step ad (pl_session p) (Some (seq, request, c)) t"
  shows "requests_accounted p \<Longrightarrow> requests_accounted (session_took token rest t p)"
    and "answers_accounted p \<Longrightarrow> answers_accounted (session_took token rest t p)"
proof -
  from session_step_owed [OF assms(2)] have "owed t = add_mset seq (owed (pl_session p))" by simp
  with assms(1) show "requests_accounted p \<Longrightarrow> requests_accounted (session_took token rest t p)"
    by (simp add: requests_accounted_def session_took_def session_becomes_def)
  show "answers_accounted (session_took token rest t p)" if "answers_accounted p"
    unfolding session_took_def
    by (rule session_becomes_answers) (use that session_step_grows [OF assms(2)] in \<open>simp_all add: answers_accounted_def\<close>)
qed

lemma enqueue_accounted:
  assumes "enqueue m r (pl_dispatcher p) = (x, d)" "answers_in [m] = []"
  shows "requests_accounted p \<Longrightarrow> requests_accounted (p\<lparr>pl_dispatcher := d\<rparr>)"
    and "answers_accounted p \<Longrightarrow> answers_accounted (p\<lparr>pl_dispatcher := d\<rparr>)"
  using enqueue_fields [OF assms(1)] assms(2) by (simp_all add: requests_accounted_def answers_accounted_def)

lemma pipe_step_accounted:
  assumes "pipe_step capacity ad p q" "requests_accounted p" "answers_accounted p"
  shows "requests_accounted q \<and> answers_accounted q"
  using assms(1)
proof cases
  case (session_turns t)
  have "owed t = owed (pl_session p)" using session_step_owed [OF session_turns(2)] by simp
  with session_turns assms(2,3) session_step_grows [OF session_turns(2)] show ?thesis
    by (simp add: session_becomes_requests session_becomes_answers)
next
  case (connection_ends e)
  with assms(2,3) show ?thesis by (auto simp: requests_accounted_def answers_accounted_def)
next
  case (reverse_request request rest requester d)
  with enqueue_accounted [OF reverse_request(3)] assms(2,3) show ?thesis
    by (simp add: requests_accounted_def answers_accounted_def)
next
  case (other_event event)
  obtain x d where d: "enqueue (MEvent event) None (pl_dispatcher p) = (x, d)" by fastforce
  with other_event enqueue_accounted [OF d] assms(2,3) show ?thesis by simp
qed (use assms(2,3) in \<open>simp_all add: receive_accounted malformed_accounted filter_reads_accounted
  session_took_accounted outgoing_accounted del: dispatch_step.simps\<close>)

lemma pipe_run_accounted:
  assumes "pipe_run capacity ad p q" "requests_accounted p" "answers_accounted p"
  shows "requests_accounted q \<and> answers_accounted q"
  using assms by induction (auto dest: pipe_step_accounted)

lemma both_accounts:
  assumes "(r :: 'a multiset) = u + l + c + q + (an + aw)" "an + m = w + ou + d"
  shows "w + c + (ou + d) + (aw + q + u + l) = r + m"
proof -
  have "r + m = u + l + c + q + aw + (an + m)" by (simp add: assms(1) ac_simps)
  then show ?thesis by (simp add: assms(2) ac_simps)
qed

text \<open>Nothing is on its way, and nothing was lost.\<close>

definition settled :: "('w, 'h) pipeline \<Rightarrow> bool" where
  "settled p \<longleftrightarrow> pl_unread p = [] \<and> pl_queue p = [] \<and> pending_futures (pl_session p) = []
     \<and> out_queue (pl_dispatcher p) = [] \<and> pl_lost p = [] \<and> pl_dropped p = []"

definition requests_received :: "('w, 'h) pipeline \<Rightarrow> u32 list" where
  "requests_received p = map fst (broadcast_requests (pl_dispatcher p))"

definition responses_sent :: "('w, 'h) pipeline \<Rightarrow> u32 list" where
  "responses_sent p = answers_in (map (msg_type \<circ> fst) (transmitted (pl_dispatcher p)))"

text \<open>
  C1 (every frame is answered).  In every interleaving of the client, the dispatcher, the cancellation filter and the
  session: once nothing is on its way, and if no channel has overflowed, the client was sent one response for each
  of its requests but the cancel requests, which get none, and one for each malformed frame with a number; and at
  any time the requests, the responses and what is on its way or lost balance.
\<close>

theorem every_frame_answered:
  assumes "pipe_run capacity ad (pipeline_start s) p" "outbox s = []" "pending_futures s = []"
  shows "(settled p \<longrightarrow>
      mset (responses_sent p) + mset (pl_cancels p) = mset (requests_received p) + mset (pl_malformed p))
    \<and> mset (responses_sent p) + mset (pl_cancels p)
        + (mset (answers_in (map fst (out_queue (pl_dispatcher p)))) + mset (answers_in (pl_dropped p)))
        + (mset (awaiting (pl_session p)) + mset (map fst (pl_queue p)) + mset (map fst (pl_unread p)) + mset (map fst (pl_lost p)))
      = mset (requests_received p) + mset (pl_malformed p)"
proof -
  have "requests_accounted (pipeline_start s)" "answers_accounted (pipeline_start s)"
    using assms(2,3) by (simp_all add: requests_accounted_def answers_accounted_def pipeline_start_def dispatcher_new_def
        owed_def answered_def awaiting_def map_filter_simps)
  with pipe_run_accounted [OF assms(1)] have "requests_accounted p" "answers_accounted p" by blast+
  then have balance: "mset (responses_sent p) + mset (pl_cancels p)
        + (mset (answers_in (map fst (out_queue (pl_dispatcher p)))) + mset (answers_in (pl_dropped p)))
        + (mset (awaiting (pl_session p)) + mset (map fst (pl_queue p)) + mset (map fst (pl_unread p)) + mset (map fst (pl_lost p)))
      = mset (requests_received p) + mset (pl_malformed p)"
    unfolding requests_accounted_def answers_accounted_def owed_def requests_received_def responses_sent_def
    by (rule both_accounts)
  moreover have "settled p \<Longrightarrow> mset (awaiting (pl_session p)) = {#}" by (simp add: settled_def awaiting_def)
  ultimately show ?thesis by (auto simp: settled_def)
qed

section \<open>A witness\<close>

text \<open>A client sends \<open>configurationDone\<close>; the session's future answers it, and the answer is sent.\<close>

definition demo_frame :: message where
  "demo_frame = \<lparr>msg_seq = 1, msg_type = MRequest Rq_configurationDone\<rparr>"

definition demo_arrived :: "(nat, demo_tree) pipeline" where
  "demo_arrived = receive_message 128 demo_frame (pipeline_start demo_start)"

definition demo_filtered :: "(nat, demo_tree) pipeline" where
  "demo_filtered = filter_reads (1, Rq_configurationDone) [] demo_arrived"

lemma demo_arrived_fields:
  "pl_unread demo_arrived = [(1, Rq_configurationDone)]" "pl_queue demo_arrived = []" "pl_filter demo_arrived = filter_init"
  "pl_session demo_arrived = demo_start" "pl_lost demo_arrived = []" "pl_dropped demo_arrived = []" "pl_cancels demo_arrived = []"
  "pl_malformed demo_arrived = []" "pl_dispatcher demo_arrived = dispatcher_new\<lparr>broadcast_requests := [(1, Rq_configurationDone)]\<rparr>"
  by (simp_all add: demo_arrived_def receive_message_def demo_frame_def pipeline_start_def broadcast_to_filter_def
      dispatcher_new_def on_message_def Let_def)

lemma demo_filtered_fields:
  "pl_unread demo_filtered = []" "pl_queue demo_filtered = [(1, Rq_configurationDone, 0)]" "pl_session demo_filtered = demo_start"
  "pl_lost demo_filtered = []" "pl_dropped demo_filtered = []" "pl_cancels demo_filtered = []" "pl_malformed demo_filtered = []"
  "pl_dispatcher demo_filtered = dispatcher_new\<lparr>broadcast_requests := [(1, Rq_configurationDone)]\<rparr>"
  using filter_forwards [of filter_init]
  by (simp_all add: demo_filtered_def filter_reads_def demo_arrived_fields Let_def del: filter_step.simps)
    (simp_all add: filter_init_def)

lemma demo_token: "flag (tokens (pl_filter demo_filtered) 0) = False"
  by (simp add: demo_filtered_def filter_reads_def demo_arrived_fields filter_init_def filter_request_def open_token_def
      clean_out_def forward_request_def hm_retain_def Let_def)

definition demo_waiting :: "(nat, demo_tree) session" where
  "demo_waiting = demo_start\<lparr>pending_futures := [(1, False, FutConfigurationDone)]\<rparr>"

definition demo_answer :: "response_body response" where
  "demo_answer = \<lparr>request_seq = 1, success = True, result = Success Rb_configurationDone\<rparr>"

definition demo_answered :: "(nat, demo_tree) session" where
  "demo_answered = demo_start\<lparr>outbox := [MResponse demo_answer]\<rparr>"

lemma demo_quiet: "outbox demo_start = []" "pending_futures demo_start = []"
  by (simp_all add: demo_start_def tiny_session_def)

lemma demo_future: "session_step demo_adapter demo_waiting None demo_answered"
  by (rule on_future [where before = "[]" and after = "[]" and fut = FutConfigurationDone and released = False])
    (simp_all add: run_future_def Dispatch.send_response_def modifyS_def demo_waiting_def demo_answered_def demo_answer_def
      demo_quiet demo_start_def tiny_session_def)

theorem every_frame_answered_witness:
  "\<exists>p. pipe_run 128 demo_adapter (pipeline_start demo_start) p \<and> settled p \<and> mset (responses_sent p) = {#1#}"
proof -
  let ?ad = demo_adapter
  have 1: "pipe_step 128 ?ad (pipeline_start demo_start) demo_arrived"
    unfolding demo_arrived_def by (rule client_message) (simp add: pipeline_start_def dispatcher_new_def)
  have 2: "pipe_step 128 ?ad demo_arrived demo_filtered"
    unfolding demo_filtered_def
    by (rule filter_takes) (simp_all add: demo_arrived_fields filter_init_def filter_queue_def)
  have 3: "pipe_step 128 ?ad demo_filtered (session_took 0 [] demo_waiting demo_filtered)"
  proof (rule session_takes [where token = 0])
    show "pl_queue demo_filtered = [(1, Rq_configurationDone, 0)]" by (simp add: demo_filtered_fields)
    show "session_step ?ad (pl_session demo_filtered)
        (Some (1, Rq_configurationDone, flag (tokens (pl_filter demo_filtered) 0))) demo_waiting"
      unfolding demo_token demo_filtered_fields(3) demo_waiting_def by (rule configuration_done_step) (rule demo_quiet)
  qed
  have 4: "pipe_step 128 ?ad (session_took 0 [] demo_waiting demo_filtered)
      (session_becomes demo_answered (session_took 0 [] demo_waiting demo_filtered))"
    by (rule session_turns) (simp add: session_took_def session_becomes_def demo_future)
  note 5 = dispatcher_sends [of 128 ?ad "session_becomes demo_answered (session_took 0 [] demo_waiting demo_filtered)" True]
  have run: "pipe_run 128 ?ad (pipeline_start demo_start)
      ((session_becomes demo_answered (session_took 0 [] demo_waiting demo_filtered))
         \<lparr>pl_dispatcher := dispatch_step (pl_dispatcher (session_becomes demo_answered
            (session_took 0 [] demo_waiting demo_filtered))) (Outgoing True)\<rparr>)" (is "pipe_run _ _ _ ?p")
    by (rule pipe_more [OF pipe_more [OF pipe_more [OF pipe_more [OF pipe_more [OF pipe_refl 1] 2] 3] 4] 5])
  have last: "session_becomes demo_answered (session_took 0 [] demo_waiting demo_filtered)
      = demo_filtered\<lparr>pl_queue := [], pl_filter := filter_step (pl_filter demo_filtered) (FDone 0), pl_session := demo_answered,
         pl_dispatcher := dispatcher_new\<lparr>broadcast_requests := [(1, Rq_configurationDone)], out_queue := [(MResponse demo_answer, None)]\<rparr>\<rparr>"
    by (simp add: session_took_def session_becomes_def demo_waiting_def demo_answered_def demo_quiet demo_filtered_fields
        enqueue_def dispatcher_new_def out_capacity_def)
  have "settled ?p"
    unfolding last by (simp add: settled_def demo_filtered_fields demo_answered_def demo_quiet on_outgoing_def transmit_def
        dispatcher_new_def Let_def)
  moreover have "requests_received ?p = [1]" "pl_cancels ?p = []" "pl_malformed ?p = []"
    unfolding last by (simp_all add: requests_received_def demo_filtered_fields on_outgoing_def transmit_def
        dispatcher_new_def Let_def)
  ultimately show ?thesis using every_frame_answered [OF run demo_quiet] run by auto
qed

end
