(* ===== verification/Stub_Symbols.thy ===== *)
theory Stub_Symbols
  imports Rust_Strings
begin

text \<open>
  The build script of the stub library, \<open>src/lldb-stub/build.rs\<close>: which symbols of LLDB the adapter resolves at run
  time, in groups that may be missing from an older LLDB, and the probe program that finds the symbols of a
  group.  What libraries export and import is read by the package \<open>weaklink_build\<close>, a parameter.
\<close>

section \<open>Signatures\<close>

definition rfind_str :: "string \<Rightarrow> string \<Rightarrow> nat option" where
  "rfind_str p s =
     (case rev [i \<leftarrow> [0..<Suc (length s)]. starts_with (drop i s) p] of [] \<Rightarrow> None | i # _ \<Rightarrow> Some i)"

type_synonym fn_signature = "string option \<times> string \<times> string \<times> string"

text \<open>A slice whose end is before its start panics.\<close>

definition split_fn_signature :: "string \<Rightarrow> ('e, fn_signature) res" where
  "split_fn_signature signature =
     (let is_static = starts_with signature ''static '';
          signature = (if is_static then drop 7 signature else signature)
      in case (position (\<lambda>c. c = CHR ''('') signature, rfind CHR '')'' signature) of
        (Some i, Some k) \<Rightarrow>
          (let j = k + 1; name = take i signature; args = take (j - i) (drop i signature); qual = drop j signature in
           if j < i then Panic
           else if is_static then Ok (None, name, args, qual)
           else case rfind_str ''::'' name of
                  Some i \<Rightarrow> Ok (Some (take i name), drop (i + 2) name, args, qual)
                | None \<Rightarrow> Panic)
      | _ \<Rightarrow> Panic)"

section \<open>The probe\<close>

definition newline_char :: char where
  "newline_char = CHR 0x0A"

definition probe_line :: "nat \<Rightarrow> fn_signature \<Rightarrow> string" where
  "probe_line idx f =
     (case f of
        (Some cls, name, args, qual) \<Rightarrow>
          ''auto ('' @ cls @ ''::* p'' @ show_nat idx @ '')'' @ args @ qual @ '' = &'' @ cls @ ''::'' @ name @ '';''
      | (None, name, args, qual) \<Rightarrow> ''auto (*p'' @ show_nat idx @ '')'' @ args @ qual @ '' = &'' @ name @ '';'')
     @ [newline_char]"

text \<open>A value of the manifest that is not a list of strings panics.\<close>

datatype toml = TomlString string | TomlArray "toml list" | TomlOther

fun probe_lines :: "nat \<Rightarrow> toml list \<Rightarrow> ('e, string) res" where
  "probe_lines idx [] = Ok []"
| "probe_lines idx (TomlString s # signatures) =
     bind_res (split_fn_signature s) (\<lambda>f. map_res ((@) (probe_line idx f)) (probe_lines (Suc idx) signatures))"
| "probe_lines idx (_ # signatures) = Panic"

definition probe_source :: "toml \<Rightarrow> ('e, string) res" where
  "probe_source signatures =
     (case signatures of
        TomlArray xs \<Rightarrow>
          map_res ((@) (concat (map (\<lambda>l. l @ [newline_char])
             [''#define LLDB_API'', ''#include <lldb/API/LLDB.h>'', ''using namespace lldb;''])))
            (probe_lines 0 xs)
      | _ \<Rightarrow> Panic)"

definition contains_str :: "string \<Rightarrow> string \<Rightarrow> bool" where
  "contains_str s p \<longleftrightarrow> rfind_str p s \<noteq> None"

text \<open>\<open>compile\<close> builds the probe of a version and returns the names that its archive imports.\<close>

fun get_api_groups ::
  "(string \<Rightarrow> string \<Rightarrow> ('e, string list) res) \<Rightarrow> (string \<times> toml) list \<Rightarrow> ('e, (string \<times> string list) list) res" where
  "get_api_groups compile [] = Ok []"
| "get_api_groups compile ((version, signatures) # table) =
     bind_res (probe_source signatures) (\<lambda>cpp.
     bind_res (compile version cpp) (\<lambda>syms.
       map_res (Cons (version, [i \<leftarrow> syms. contains_str i ''lldb''])) (get_api_groups compile table)))"

section \<open>Groups\<close>

text \<open>
  The symbols of a group leave the common ones; one that is not there, or not any more, is warned of.
\<close>

definition unused_warning :: "string \<Rightarrow> string \<Rightarrow> string" where
  "unused_warning version i =
     ''cargo:warning=Symbol \"'' @ i @ ''\" is declared in '' @ version @ '', but isn't used by codelldb.''"

fun take_declared :: "string \<Rightarrow> string list \<Rightarrow> string list \<Rightarrow> string list \<times> string list" where
  "take_declared version [] common = (common, [])"
| "take_declared version (i # syms) common =
     (if i \<in> set common then take_declared version syms (removeAll i common)
      else (let (common, warnings) = take_declared version syms common in
        (common, unused_warning version i # warnings)))"

type_synonym ('e, 'c) add_group = "string \<Rightarrow> string list \<Rightarrow> 'c \<Rightarrow> ('e, 'c) res"

fun add_groups ::
  "('e, 'c) add_group \<Rightarrow> (string \<times> string list) list \<Rightarrow> string list \<Rightarrow> 'c \<Rightarrow> ('e, string list \<times> 'c) res \<times> string list" where
  "add_groups add [] common cfg = (Ok (common, cfg), [])"
| "add_groups add ((version, syms) # groups) common cfg =
     (let (common, warnings) = take_declared version syms common in
      case add version syms cfg of
        Ok cfg \<Rightarrow> (let (r, more) = add_groups add groups common cfg in (r, warnings @ more))
      | Err e \<Rightarrow> (Err e, warnings)
      | Panic \<Rightarrow> (Panic, warnings))"

definition stub_groups ::
  "('e, 'c) add_group \<Rightarrow> string list \<Rightarrow> string list \<Rightarrow> (string \<times> string list) list \<Rightarrow> 'c \<Rightarrow> ('e, 'c) res \<times> string list" where
  "stub_groups add exports needed api_groups cfg =
     (let common = [e \<leftarrow> remdups exports. e \<in> set needed];
          (r, warnings) = add_groups add api_groups common cfg
      in (bind_res r (\<lambda>(common, cfg). add ''base'' [e \<leftarrow> exports. e \<in> set common] cfg), warnings))"

section \<open>Lemmas\<close>

lemma rfind_str_Some:
  assumes "rfind_str p s = Some i"
  shows "i \<le> length s \<and> starts_with (drop i s) p \<and> (\<forall>k. i < k \<and> k \<le> length s \<longrightarrow> \<not> starts_with (drop k s) p)"
proof -
  let ?is = "[i \<leftarrow> [0..<Suc (length s)]. starts_with (drop i s) p]"
  from assms obtain js where js: "rev ?is = i # js" by (auto simp: rfind_str_def split: list.splits)
  then have eq: "?is = rev js @ [i]" by (metis rev_rev_ident rev.simps(2))
  then have "i \<in> set ?is" by (metis in_set_conv_decomp)
  moreover have "\<forall>k \<in> set ?is. k \<le> i"
  proof -
    have "sorted ?is" by (simp add: sorted_wrt_filter del: upt_Suc)
    then show ?thesis unfolding eq by (auto simp: sorted_append)
  qed
  ultimately show ?thesis by (simp del: upt_Suc) (metis less_Suc_eq_le not_le)
qed

lemma qualified_name:
  assumes "rfind_str ''::'' s = Some i"
  shows "s = take i s @ ''::'' @ drop (i + 2) s" and "\<not> contains_str (drop (i + 2) s) ''::''"
proof -
  note found = rfind_str_Some [OF assms]
  then obtain r where "drop i s = ''::'' @ r" by (auto simp: starts_with_iff)
  moreover from this have "drop 2 (drop i s) = r" by simp
  ultimately show "s = take i s @ ''::'' @ drop (i + 2) s" by (metis append_take_drop_id drop_drop add.commute)
  show "\<not> contains_str (drop (i + 2) s) ''::''"
  proof
    assume "contains_str (drop (i + 2) s) ''::''"
    then obtain k where "rfind_str ''::'' (drop (i + 2) s) = Some k" by (auto simp: contains_str_def)
    from rfind_str_Some [OF this] have k: "starts_with (drop (k + (i + 2)) s) ''::''" by (simp add: add.commute)
    then have "drop (k + (i + 2)) s \<noteq> []" by (auto simp: starts_with_def)
    then have "k + (i + 2) \<le> length s" by simp
    with found k show False by auto
  qed
qed

lemma parenthesised:
  assumes "position (\<lambda>c. c = CHR ''('') s = Some i" "rfind CHR '')'' s = Some k" "i \<le> k + 1"
  shows "s = take i s @ take (k + 1 - i) (drop i s) @ drop (k + 1) s"
    and "CHR ''('' \<notin> set (take i s)" and "CHR '')'' \<notin> set (drop (k + 1) s)"
proof -
  have "drop i s = take (k + 1 - i) (drop i s) @ drop (k + 1) s"
    using assms(3) by (metis append_take_drop_id drop_drop le_add_diff_inverse2)
  then show "s = take i s @ take (k + 1 - i) (drop i s) @ drop (k + 1) s" by (metis append_take_drop_id)
  show "CHR ''('' \<notin> set (take i s)"
    using position_Some [OF assms(1)] by (auto simp: in_set_conv_nth)
  show "CHR '')'' \<notin> set (drop (k + 1) s)"
    using rfind_Some [OF assms(2)] by (auto simp: in_set_conv_nth)
qed

text \<open>The parts of a signature are the whole of it, and no qualifier is left in a method's name.\<close>

theorem signature_reassembled:
  assumes "split_fn_signature signature = (Ok (cls, name, args, qual) :: ('e, fn_signature) res)"
  shows "signature = (case cls of Some c \<Rightarrow> c @ ''::'' @ name | None \<Rightarrow> ''static '' @ name) @ args @ qual
    \<and> CHR ''('' \<notin> set name \<and> CHR '')'' \<notin> set qual \<and> (cls \<noteq> None \<longrightarrow> \<not> contains_str name ''::'')"
proof -
  let ?static = "starts_with signature ''static ''"
  define s where "s = (if ?static then drop 7 signature else signature)"
  have whole: "signature = (if ?static then ''static '' else []) @ s"
    by (auto simp: s_def starts_with_iff)
  obtain i k where ik: "position (\<lambda>c. c = CHR ''('') s = Some i" "rfind CHR '')'' s = Some k" "i \<le> k + 1"
    and parts: "args = take (k + 1 - i) (drop i s)" "qual = drop (k + 1) s"
    and name: "if ?static then cls = None \<and> name = take i s
      else \<exists>j. rfind_str ''::'' (take i s) = Some j \<and> cls = Some (take j (take i s)) \<and> name = drop (j + 2) (take i s)"
    using assms unfolding split_fn_signature_def s_def [symmetric] Let_def
    by (auto split: option.splits if_splits)
  note s_parts = parenthesised [OF ik, folded parts]
  show ?thesis
  proof (cases ?static)
    case True
    with name s_parts whole show ?thesis by simp
  next
    case False
    with name obtain j where j: "rfind_str ''::'' (take i s) = Some j" "cls = Some (take j (take i s))"
      "name = drop (j + 2) (take i s)" by auto
    from qualified_name [OF j(1)] j s_parts whole False show ?thesis by (auto dest: in_set_dropD)
  qed
qed

theorem signature_reassembled_witness:
  "split_fn_signature ''lldb::SBList::GetSize() const'' = (Ok (Some ''lldb::SBList'', ''GetSize'', ''()'', '' const'') :: (unit, fn_signature) res)
   \<and> ''lldb::SBList::GetSize() const'' = ''lldb::SBList'' @ ''::'' @ ''GetSize'' @ ''()'' @ '' const''"
proof -
  have "split_fn_signature ''lldb::SBList::GetSize() const'' = (Ok (Some ''lldb::SBList'', ''GetSize'', ''()'', '' const'') :: (unit, fn_signature) res)"
    by code_simp
  with signature_reassembled [OF this] show ?thesis by simp
qed

section \<open>Every symbol in its group\<close>

lemma take_declared_common: "set (fst (take_declared version syms common)) = set common - set syms"
  by (induction version syms common rule: take_declared.induct) (auto simp: case_prod_unfold Let_def)

text \<open>An addition that notes the groups.\<close>

definition noted :: "('e, (string \<times> string list) list) add_group" where
  "noted version names cfg = Ok (cfg @ [(version, names)])"

lemma add_groups_noted:
  "\<exists>rest. fst (add_groups noted groups common cfg) = Ok (rest, cfg @ groups)
     \<and> set rest = set common - \<Union> (set ` snd ` set groups)"
proof (induction groups arbitrary: common cfg)
  case (Cons g groups)
  obtain version syms where g: "g = (version, syms)" by (cases g)
  let ?common = "fst (take_declared version syms common)"
  from Cons.IH [of ?common "cfg @ [g]"] show ?case
    by (auto simp: g take_declared_common noted_def case_prod_unfold Let_def)
qed simp

text \<open>
  What the adapter needs of LLDB and LLDB has is in a group; the group \<open>base\<close>, which must be there, has
  no symbol of an optional group, and nothing the adapter does not need.
\<close>

theorem symbols_grouped:
  "\<exists>base. fst (stub_groups noted exports needed api_groups []) = (Ok (api_groups @ [(''base'', base)]) :: ('e, _) res)
     \<and> set base = set exports \<inter> set needed - \<Union> (set ` snd ` set api_groups)"
proof -
  obtain rest where "fst (add_groups noted api_groups [e \<leftarrow> remdups exports. e \<in> set needed] []) = (Ok (rest, [] @ api_groups) :: ('e, _) res)"
    and "set rest = set exports \<inter> set needed - \<Union> (set ` snd ` set api_groups)"
    using add_groups_noted [of api_groups "[e \<leftarrow> remdups exports. e \<in> set needed]" "[]"] by auto
  then show ?thesis by (auto simp: stub_groups_def noted_def case_prod_unfold Let_def)
qed

end
