(* ===== verification/Configuration_Waits.thy ===== *)
theory Configuration_Waits
  imports Typed_Responses "HOL-Library.Sublist"
begin

text \<open>
  Before \<open>configurationDone\<close>: a launch or an attachment only prepares (\<open>handle_launch\<close>, \<open>handle_attach\<close> of
  \<open>src/codelldb/src/debug_session/launch.rs\<close>), and the rest is left to a future that waits.  That nothing is
  started is stated over the calls that would: an adapter in which these calls do anything else runs alike.
\<close>

section \<open>Another system\<close>

text \<open>
  What starting a debuggee takes: a terminal of the client, the launch information given to LLDB, and the
  calls that launch a process or attach to one.
\<close>

record 'w starters =
  st_run_terminal :: "bool \<Rightarrow> string \<Rightarrow> ('w, terminal_id option) fallible"
  st_launch_info :: "launch_info \<Rightarrow> 'w \<Rightarrow> 'w"
  st_launch :: "launch_info \<Rightarrow> ('w, unit) fallible"
  st_attach :: "attach_info \<Rightarrow> ('w, unit) fallible"

definition starting_with :: "'w starters \<Rightarrow> 'w launch_api \<Rightarrow> 'w launch_api" where
  "starting_with st la = la\<lparr>set_launch_info := st_launch_info st, launch_process := st_launch st,
     attach_process := st_attach st\<rparr>"

definition adapter_with :: "'w starters \<Rightarrow> ('w, 'h) adapter \<Rightarrow> ('w, 'h) adapter" where
  "adapter_with st ad = ad\<lparr>ad_launch := starting_with st (ad_launch ad), ad_run_terminal := st_run_terminal st\<rparr>"

lemma starting_with_sel [simp]:
  "set_variable (starting_with st la) = set_variable la" "create_target (starting_with st la) = create_target la"
  "selected_target (starting_with st la) = selected_target la" "target_valid (starting_with st la) = target_valid la"
  "use_target (starting_with st la) = use_target la" "platform_triple (starting_with st la) = platform_triple la"
  "process_valid (starting_with st la) = process_valid la" "kill_process (starting_with st la) = kill_process la"
  "detach_process (starting_with st la) = detach_process la" "send_signal (starting_with st la) = send_signal la"
  "signals_valid (starting_with st la) = signals_valid la" "signal_number (starting_with st la) = signal_number la"
  "ignore_signal (starting_with st la) = ignore_signal la" "wait_running (starting_with st la) = wait_running la"
  "init_lang_support (starting_with st la) = init_lang_support la"
  "create_debugger_terminal (starting_with st la) = create_debugger_terminal la"
  "current_dir (starting_with st la) = current_dir la" "set_exe_extension (starting_with st la) = set_exe_extension la"
  "lldb_quoted_string (starting_with st la) = lldb_quoted_string la"
  "json_launch_error (starting_with st la) = json_launch_error la"
  by (simp_all add: starting_with_def)

lemma adapter_with_sel [simp]:
  "ad_lldb (adapter_with st ad) = ad_lldb ad" "ad_handles (adapter_with st ad) = ad_handles ad"
  "ad_breakpoints (adapter_with st ad) = ad_breakpoints ad" "ad_threads (adapter_with st ad) = ad_threads ad"
  "ad_run (adapter_with st ad) = ad_run ad" "ad_steps (adapter_with st ad) = ad_steps ad"
  "ad_values (adapter_with st ad) = ad_values ad" "ad_modules (adapter_with st ad) = ad_modules ad"
  "ad_streams (adapter_with st ad) = ad_streams ad" "ad_inspect (adapter_with st ad) = ad_inspect ad"
  "ad_memory (adapter_with st ad) = ad_memory ad" "ad_settings (adapter_with st ad) = ad_settings ad"
  "ad_launch (adapter_with st ad) = starting_with st (ad_launch ad)"
  "ad_python_message (adapter_with st ad) = ad_python_message ad" "ad_v15 (adapter_with st ad) = ad_v15 ad"
  by (simp_all add: adapter_with_def)

text \<open>The handlers that have the launching calls in reach, but do not call them.\<close>

lemma prepares_targets:
  "set_target (starting_with st la) target = set_target la target"
  "create_target_from_program (starting_with st la) program = create_target_from_program la program"
  "target_from_commands ll (starting_with st la) commands = target_from_commands ll la commands"
  unfolding set_target_def create_target_from_program_def target_from_commands_def on_windows_def starting_with_sel
  by (rule refl)+

lemma prepares_init: "common_init_session ll ss (starting_with st la) args = common_init_session ll ss la args"
  unfolding common_init_session_def init_paths_def init_source_map_def source_map_args_def init_console_def
    starting_with_sel
  by (rule refl)

lemma prepares_launch:
  "handle_launch ll ss (starting_with st la) launch = handle_launch ll ss la launch"
  "handle_attach ll ss (starting_with st la) attach = handle_attach ll ss la attach"
  "report_launch_cfg_error (starting_with st la) cfg = report_launch_cfg_error la cfg"
  unfolding handle_launch_def handle_attach_def attach_target_def report_launch_cfg_error_def prepares_init
    prepares_targets starting_with_sel
  by (rule refl)+

lemma prepares_end:
  "handle_terminate ll ra (starting_with st la) = handle_terminate ll ra la"
  "handle_disconnect ll (starting_with st la) args = handle_disconnect ll la args"
  unfolding handle_terminate_def send_graceful_signal_def handle_disconnect_def terminate_debuggee_def starting_with_sel
  by (rule refl)+

lemma prepares_debug_request: "handle_debug_request (adapter_with st ad) request = handle_debug_request ad request"
  unfolding handle_debug_request_def disassemble_request_def [abs_def] handle_python_message_def adapter_with_sel
  by (rule refl)

text \<open>The requests by which a debuggee is started.\<close>

fun lets_start :: "request \<Rightarrow> bool" where
  "lets_start Rq_configurationDone = True"
| "lets_start (Rq_restart (First args)) = True"
| "lets_start _ = False"

lemma prepares_request:
  assumes "\<And>args. request = Rq_restart (First args) \<Longrightarrow> is_cancelled"
  shows "handle_request (adapter_with st ad) seq request is_cancelled = handle_request ad seq request is_cancelled"
proof (cases "is_cancelled \<or> request = Rq_unknown")
  case True
  then show ?thesis by (auto simp: fun_eq_iff handle_request_def)
next
  case False
  with assms have "request \<noteq> Rq_restart (First args)" for args by blast
  then have "handle_request_args (adapter_with st ad) request = handle_request_args ad request"
    by (cases request) (auto simp: fun_eq_iff handle_request_args_def Let_def prepares_launch prepares_end prepares_debug_request
        split: either.split)
  then show ?thesis by (simp add: fun_eq_iff handle_request_def)
qed

section \<open>Which futures there are\<close>

text \<open>A future that starts a debuggee has not been released, and none has a terminal already.\<close>

fun holds_back :: "u32 \<times> bool \<times> future \<Rightarrow> bool" where
  "holds_back (seq, released, FutLaunch args) = (\<not> released)"
| "holds_back (seq, released, FutAttach args) = (\<not> released)"
| "holds_back (seq, released, FutStart args) = False"
| "holds_back _ = True"

text \<open>A launch is left to a future that is to create a terminal, and to no later one.\<close>

definition defers :: "(future \<Rightarrow> bool) \<Rightarrow> ('w, 'h, 'a) handler \<Rightarrow> bool" where
  "defers P m \<longleftrightarrow> (\<forall>s t fut. m s = (Err (AsyncResponse fut), t) \<longrightarrow> P fut)"

lemma defers_bindS:
  assumes "plain m" "\<And>x. defers P (f x)"
  shows "defers P (bindS m f)"
  unfolding defers_def
proof (intro allI impI)
  fix s t fut
  assume run: "bindS m f s = (Err (AsyncResponse fut), t)"
  obtain q u where m: "m s = (q, u)" by fastforce
  with run assms(2) plainD [OF assms(1) m] show "P fut" by (cases q) (auto simp: bindS_def defers_def)
qed

lemma defers_thenS: "plain m \<Longrightarrow> defers P n \<Longrightarrow> defers P (thenS m n)"
  unfolding thenS_def by (rule defers_bindS)

lemma defers_wait: "P fut \<Longrightarrow> defers P (wait_for_configuration fut)"
  unfolding wait_for_configuration_def
  by (rule defers_thenS [OF plain_send_event]) (simp add: defers_def failS_def)

lemma defers_handle_launch: "defers (\<lambda>fut. fut = FutLaunch args) (handle_launch ll st la args)"
  unfolding handle_launch_def
  by (intro defers_thenS defers_bindS defers_wait refl) (auto intro!: plain_intros split: option.split)

lemma request_async:
  assumes "handle_request_args ad request s = Some (Err (AsyncResponse fut), t)"
  shows "holds_back (seq, False, fut)"
proof (cases fut)
  case (FutStart args)
  with typed_request [OF assms] obtain x where request: "request = Rq_launch x"
    by (cases request) auto
  with assms FutStart have "\<exists>args'. handle_launch (ad_lldb ad) (ad_settings ad) (ad_launch ad) args' s
      = (Err (AsyncResponse (FutStart args)), t)"
    by (cases x) (auto simp: handle_request_args_def Let_def now_def report_launch_cfg_error_def failS_def)
  with defers_handle_launch show ?thesis unfolding defers_def by blast
qed simp_all

fun waits_unreleased :: "u32 \<times> bool \<times> future \<Rightarrow> bool" where
  "waits_unreleased (seq, False, FutLaunch args) = True"
| "waits_unreleased (seq, False, FutAttach args) = True"
| "waits_unreleased _ = False"

text \<open>The requests that wait, in the order in which they came.\<close>

definition held_starts :: "('w, 'h) session \<Rightarrow> (u32 \<times> bool \<times> future) list" where
  "held_starts s = filter waits_unreleased (pending_futures s)"

lemma request_holds_back:
  assumes run: "handle_request ad seq request is_cancelled s = Some (Ok (), t)"
    and held: "list_all holds_back (pending_futures s)" and "request = Rq_configurationDone \<longrightarrow> is_cancelled"
  shows "list_all holds_back (pending_futures t) \<and> prefix (held_starts s) (held_starts t)"
proof (cases "is_cancelled \<or> request = Rq_unknown")
  case True
  with run held show ?thesis by (auto simp: handle_request_def held_starts_def dest!: send_response_pending split: if_splits)
next
  case False
  with run obtain r u where args: "handle_request_args ad request s = Some (r, u)"
    and fin: "(\<exists>fut. r = Err (AsyncResponse fut) \<and> spawn_future seq fut u = (Ok (), t)) \<or> Dispatch.send_response seq r u = (Ok (), t)"
    by (auto simp: handle_request_def split: if_splits option.splits prod.splits res.splits error.splits)
  have "silent s u" by (rule request_args_silent [OF args]) (use False assms(3) in auto)
  then have "pending_futures u = pending_futures s" by (simp add: silent_def)
  with fin held request_async [of ad request s _ u seq] args show ?thesis
    by (auto simp: spawn_future_def modifyS_def held_starts_def dest: send_response_pending)
qed

text \<open>What the two machines do alike while every such future is held held.\<close>

lemma step_starts_nothing:
  assumes step: "session_step ad s taken t" and held: "list_all holds_back (pending_futures s)"
    and prepares: "\<And>seq request c. taken = Some (seq, request, c) \<Longrightarrow> lets_start request \<Longrightarrow> c"
  shows "session_step (adapter_with st ad) s taken t
    \<and> list_all holds_back (pending_futures t) \<and> prefix (held_starts s) (held_starts t)"
  using step
proof cases
  case (on_request seq request is_cancelled)
  have "handle_request (adapter_with st ad) seq request is_cancelled = handle_request ad seq request is_cancelled"
    by (rule prepares_request) (use prepares on_request(1) in auto)
  with on_request have "session_step (adapter_with st ad) s taken t" by (auto intro: session_step.on_request)
  moreover have "list_all holds_back (pending_futures t) \<and> prefix (held_starts s) (held_starts t)"
    by (rule request_holds_back [OF on_request(2) held]) (use prepares on_request(1) in auto)
  ultimately show ?thesis ..
next
  case (on_debug_event event)
  then have "session_step (adapter_with st ad) s taken t" by (auto intro!: session_step.on_debug_event)
  moreover have "steady s t" using on_debug_event by (auto dest: debug_event_steady)
  ultimately show ?thesis using held by (simp add: steady_defs held_starts_def)
next
  case (on_python_event event)
  then have "session_step (adapter_with st ad) s taken t" by (auto intro!: session_step.on_python_event)
  moreover have "pending_futures t = pending_futures s"
    using on_python_event
    by (auto simp: handle_python_event_def session_defs modifyS_def split: python_event.splits)
  ultimately show ?thesis using held by (simp add: held_starts_def)
next
  case (on_future before seq released fut after)
  then have "holds_back (seq, released, fut)" using held by simp
  with on_future(3) have fut: "fut = FutConfigurationDone \<or> (\<exists>r. fut = FutReady r)"
    by (cases fut) auto
  then have same: "run_future (adapter_with st ad) seq fut = run_future ad seq fut"
    and pending: "pending_futures t = before @ after"
    using on_future(4) by (auto simp: run_future_def Let_def dest!: send_response_pending)
  from session_step.on_future [OF on_future(2,3)] on_future(4) same
  have "session_step (adapter_with st ad) s None t" by simp
  moreover have "\<not> waits_unreleased (seq, released, fut)" using fut by auto
  ultimately show ?thesis using on_future(1,2) held pending by (simp add: held_starts_def)
qed

text \<open>
  C12 (nothing starts before it is configured).  From the first request on, and as long as no
  \<open>configurationDone\<close> and no \<open>restart\<close> is taken that was not cancelled, whatever else the client asks and
  whatever LLDB reports, nothing is started: the client is not asked for a terminal for the debuggee, LLDB gets no
  launch information, launches no process and attaches to none for the session, since with other
  implementations of these four calls the session would run in exactly the same way.  A launch or an
  attachment that waits goes on waiting, unanswered.
\<close>

theorem launch_waits_for_configuration:
  assumes run: "session_run ad s requests t" and held: "list_all holds_back (pending_futures s)"
    and prepares: "\<forall>(seq, request, is_cancelled) \<in> set requests. lets_start request \<longrightarrow> is_cancelled"
  shows "(\<forall>st. session_run (adapter_with st ad) s requests t)
    \<and> list_all holds_back (pending_futures t)
    \<and> prefix (held_starts s) (held_starts t)"
  using run held prepares
proof (induction rule: session_run.induct)
  case (run_refl s)
  then show ?case by (simp add: session_run.run_refl)
next
  case (run_step s requests t taken u)
  have "(\<forall>st. session_run (adapter_with st ad) s requests t) \<and> list_all holds_back (pending_futures t)
      \<and> prefix (held_starts s) (held_starts t)"
    by (rule run_step.IH [OF run_step.prems(1)]) (use run_step.prems(2) in auto)
  then have t: "\<forall>st. session_run (adapter_with st ad) s requests t" "list_all holds_back (pending_futures t)"
    "prefix (held_starts s) (held_starts t)" by auto
  have "session_step (adapter_with st ad) t taken u \<and> list_all holds_back (pending_futures u)
      \<and> prefix (held_starts t) (held_starts u)" for st
    by (rule step_starts_nothing [OF run_step.hyps(2) t(2)]) (use run_step.prems in auto)
  with t show ?case by (auto intro: session_run.run_step prefix_order.trans)
qed

section \<open>Witness\<close>

text \<open>An adapter whose system starts nothing.\<close>

definition no_starters :: "nat starters" where
  "no_starters = \<lparr>st_run_terminal = (\<lambda>_ _ w. (Err ''no terminal'', w)), st_launch_info = (\<lambda>_ w. w),
     st_launch = (\<lambda>_ w. (Err ''no process'', w)), st_attach = (\<lambda>_ w. (Err ''no process'', w))\<rparr>"

theorem launch_waits_for_configuration_witness:
  "\<exists>t. session_run (adapter_with no_starters demo_adapter)
       (demo_start\<lparr>pending_futures := [(1, False, FutLaunch demo_program)]\<rparr>) [(2, Rq_configurationDone, True)] t
     \<and> (1, False, FutLaunch demo_program) \<in> set (held_starts t)"
proof -
  let ?s = "demo_start\<lparr>pending_futures := [(1, False, FutLaunch demo_program)]\<rparr>"
  have "\<exists>t. session_step demo_adapter ?s (Some (2, Rq_configurationDone, True)) t"
    by (rule exI, rule on_request) (simp add: handle_request_def Dispatch.send_response_def str_error_def modifyS_def)
  then obtain t where run: "session_run demo_adapter ?s [(2, Rq_configurationDone, True)] t"
    using run_step [OF run_refl] by fastforce
  have "list_all holds_back (pending_futures ?s)" by simp
  moreover have "\<forall>(seq, request, is_cancelled) \<in> set [(2 :: u32, Rq_configurationDone, True)]. lets_start request \<longrightarrow> is_cancelled"
    by simp
  ultimately show ?thesis
    using launch_waits_for_configuration [OF run] by (auto simp: held_starts_def [of ?s] dest!: set_mono_prefix)
qed

end
