(* ===== verification/Output_Path.thy ===== *)
theory Output_Path
  imports Pipeline Inspect_Correct
begin

text \<open>
  The way of the debuggee's output: from LLDB's streams (\<open>handle_process_event\<close> of \<open>debug_session.rs\<close>) to the queue
  of the dispatcher, on which the session puts its events without waiting (\<open>try_send_event\<close>).
\<close>

section \<open>Events on the queue\<close>

text \<open>The room that is left on the queue of a dispatcher that runs.\<close>

definition queue_room :: "dispatcher \<Rightarrow> nat" where
  "queue_room d = out_capacity - length (out_queue d)"

lemma submit_events:
  assumes "dispatching (pl_dispatcher p)"
  shows "out_queue (pl_dispatcher (submit_all (map MEvent es) p))
      = out_queue (pl_dispatcher p) @ map (\<lambda>m. (m, None)) (take (queue_room (pl_dispatcher p)) (map MEvent es))
    \<and> pl_dropped (submit_all (map MEvent es) p)
      = pl_dropped p @ drop (queue_room (pl_dispatcher p)) (map MEvent es)"
  using assms
proof (induction es arbitrary: p)
  case (Cons e es)
  let ?d = "pl_dispatcher p"
  show ?case
  proof (cases "length (out_queue ?d) < out_capacity")
    case True
    then obtain k where k: "queue_room ?d = Suc k" by (metis queue_room_def Suc_diff_Suc)
    let ?e = "?d\<lparr>out_queue := out_queue ?d @ [(MEvent e, None)]\<rparr>"
    have "enqueue (MEvent e) None ?d = (Ok (), ?e)" using True Cons.prems by (simp add: enqueue_def)
    moreover have "queue_room ?e = k" using k by (simp add: queue_room_def)
    ultimately show ?thesis using Cons.IH [of "p\<lparr>pl_dispatcher := ?e\<rparr>"] Cons.prems k by simp
  next
    case False
    then have "enqueue (MEvent e) None ?d = (Err QueueFull, ?d)" "queue_room ?d = 0"
      using Cons.prems by (simp_all add: enqueue_def queue_room_def)
    with Cons.IH [of "p\<lparr>pl_dispatcher := ?d, pl_dropped := pl_dropped p @ [MEvent e]\<rparr>"] Cons.prems show ?thesis by simp
  qed
qed simp

section \<open>Property\<close>

text \<open>
  C14 (the debuggee's output is passed on).  When LLDB reports that the debuggee has written to its standard
  output, or, in an event that does not say so, to its standard error, the handler returns: everything that was there to
  be read from that stream, after a change of state that the same event reports, has been read, and is handed over
  as output events of the stream's category, in order, nothing left out, in pieces of at most 1024 bytes.  The handler does not wait for the client: what it says in its turn goes on the dispatcher's queue
  as far as there is room, in order, and the rest is dropped.
\<close>

theorem output_passed_on:
  assumes "stream_ok read_stream left"
    and "PeStdout \<in> set (pe_types event) \<and> read_stream = read_stdout (ad_streams ad) \<and> category = ''stdout''
      \<or> PeStdout \<notin> set (pe_types event) \<and> PeStderr \<in> set (pe_types event) \<and> read_stream = read_stderr (ad_streams ad)
        \<and> category = ''stderr''"
    and "dispatching (pl_dispatcher p)"
  shows "\<exists>t chunks notices.
    let u = after_state_change (ad_lldb ad) (ad_threads ad) (ad_run ad) event (pl_session p);
        said = notices @ output_events category (from_utf8_lossy (ad_streams ad)) chunks;
        room = queue_room (pl_dispatcher p) in
    session_step ad (pl_session p) None t
    \<and> handle_debug_event (ad_lldb ad) (ad_breakpoints ad) (ad_threads ad) (ad_run ad) (ad_modules ad)
        (ad_streams ad) (ad_v15 ad) (DeProcess event) (pl_session p) = Some t
    \<and> concat chunks = left (world u) \<and> left (world t) = [] \<and> (\<forall>c\<in>set chunks. c \<noteq> [] \<and> length c \<le> 1024)
    \<and> outbox u = outbox (pl_session p) @ notices \<and> outbox t = outbox (pl_session p) @ said
    \<and> out_queue (pl_dispatcher (session_becomes t p)) = out_queue (pl_dispatcher p) @ map (\<lambda>m. (m, None)) (take room said)
    \<and> pl_dropped (session_becomes t p) = pl_dropped p @ drop room said"
proof -
  let ?u = "after_state_change (ad_lldb ad) (ad_threads ad) (ad_run ad) event (pl_session p)"
  obtain t chunks where t: "handle_debug_event (ad_lldb ad) (ad_breakpoints ad) (ad_threads ad) (ad_run ad) (ad_modules ad)
        (ad_streams ad) (ad_v15 ad) (DeProcess event) (pl_session p) = Some t"
    and chunks: "concat chunks = left (world ?u)" "left (world t) = []" "\<forall>c\<in>set chunks. c \<noteq> [] \<and> length c \<le> 1024"
    and out: "outbox t = outbox ?u @ output_events category (from_utf8_lossy (ad_streams ad)) chunks"
    using process_event_output [OF assms(1,2)] by metis
  have "steady (pl_session p) ?u" by (simp add: after_state_change_def preserves_snd preserves_intros steady.refl)
  then obtain notices where u: "outbox ?u = outbox (pl_session p) @ notices" by (auto simp: steady_defs)
  define said where "said = notices @ output_events category (from_utf8_lossy (ad_streams ad)) chunks"
  have said: "outbox t = outbox (pl_session p) @ said" using out u by (simp add: said_def)
  moreover obtain es where "outbox t = outbox (pl_session p) @ map MEvent es"
    using debug_event_steady [OF t] by (auto simp: steady_defs)
  ultimately have events: "said = map MEvent es" by simp
  have "session_becomes t p = submit_all (map MEvent es) (p\<lparr>pl_session := t\<rparr>)"
    by (simp add: session_becomes_def said events)
  with submit_events [of "p\<lparr>pl_session := t\<rparr>" es] assms(3)
  have "out_queue (pl_dispatcher (session_becomes t p))
        = out_queue (pl_dispatcher p) @ map (\<lambda>m. (m, None)) (take (queue_room (pl_dispatcher p)) said)"
      "pl_dropped (session_becomes t p) = pl_dropped p @ drop (queue_room (pl_dispatcher p)) said"
    by (simp_all add: events)
  with session_step.on_debug_event [OF t] t chunks u said show ?thesis
    unfolding Let_def said_def by (intro exI [of _ t] exI [of _ chunks] exI [of _ notices]) blast
qed

section \<open>Witness\<close>

theorem output_passed_on_witness:
  "\<exists>t chunks. session_step demo_adapter demo_start None t \<and> concat chunks = [65, 65, 65]
     \<and> pl_dropped (session_becomes t (pipeline_start demo_start)) = []
     \<and> map fst (out_queue (pl_dispatcher (session_becomes t (pipeline_start demo_start))))
       = output_events ''stdout'' (from_utf8_lossy demo_streams) chunks"
proof -
  let ?event = "\<lparr>pe_types = [PeStdout], pe_state = PsRunning, pe_restarted = False, pe_restarted_reasons = []\<rparr>"
  let ?p = "pipeline_start demo_start :: (nat, demo_tree) pipeline"
  have p: "pl_session ?p = demo_start" "out_queue (pl_dispatcher ?p) = []" "dispatching (pl_dispatcher ?p)" "pl_dropped ?p = []"
    by (simp_all add: pipeline_start_def dispatcher_new_def)
  have streams: "ad_streams demo_adapter = demo_streams" "read_stdout demo_streams = demo_read"
    by (simp_all add: demo_adapter_def demo_streams_def)
  have "world demo_start = 3" "outbox demo_start = []" by (simp_all add: demo_start_def tiny_session_def)
  then obtain t chunks where t: "session_step demo_adapter demo_start None t" "concat chunks = [65, 65, 65]"
    and small: "\<forall>c\<in>set chunks. c \<noteq> [] \<and> length c \<le> 1024"
    and queue: "out_queue (pl_dispatcher (session_becomes t ?p))
        = map (\<lambda>m. (m, None)) (take out_capacity (output_events ''stdout'' (from_utf8_lossy demo_streams) chunks))"
      "pl_dropped (session_becomes t ?p) = drop out_capacity (output_events ''stdout'' (from_utf8_lossy demo_streams) chunks)"
    using output_passed_on [OF demo_stream, of ?event demo_adapter "''stdout''" ?p] p streams
    by (auto simp: after_state_change_def Let_def queue_room_def numeral_3_eq_3)
  have "length cs \<le> length (concat cs)" if "\<forall>c\<in>set cs. c \<noteq> []" for cs :: "u8 list list"
    using that by (induction cs) (auto simp: Suc_le_eq le_Suc_eq neq_Nil_conv)
  from this [of chunks] small t(2) have "length chunks \<le> 3" by simp
  then have "length (output_events ''stdout'' (from_utf8_lossy demo_streams) chunks) \<le> out_capacity"
    by (simp add: output_events_def out_capacity_def)
  with queue have "map fst (out_queue (pl_dispatcher (session_becomes t ?p)))
      = output_events ''stdout'' (from_utf8_lossy demo_streams) chunks" "pl_dropped (session_becomes t ?p) = []"
    by (simp_all add: comp_def)
  with t show ?thesis by blast
qed

end
