(* ===== verification/Spec2Isabelle.thy ===== *)
theory Spec2Isabelle
  imports Cancel_Filter Dap_Session Event_Listener Disassemble Breakpoint_Tables Variables_Correct
    Breakpoint_Events_Correct Run_Correct Session_Correct Launch_Correct Inspect_Correct
    Launch_Bindings Console_Pipe Simple_Correct Python_Interface Terminals Main_Entry Typed_Responses Pipeline Stub_Symbols
    Configuration_Waits Output_Path
begin

text \<open>
  A verification development for the adapter of CodeLLDB (\<open>src/codelldb/\<close>), the program between a client of
  the Debug Adapter Protocol and LLDB.

  \<^bold>\<open>The program.\<close>  The client's messages arrive at the dispatcher (\<open>dap_session.rs\<close>), which matches responses
  with the adapter's own requests and hands the client's requests, through the cancellation filter
  (\<open>debug_session.rs\<close>, \<open>cancellation.rs\<close>), to the session.  LLDB's events arrive at the event listener
  (\<open>debug_event_listener.rs\<close>), which may be corked.  The session (\<open>debug_session.rs\<close> and the files of
  \<open>debug_session/\<close>) takes one request, event or future at a time: its handlers call LLDB, keep the
  session's tables and answer through the dispatcher.

  \<^bold>\<open>The model.\<close>  A handler, a method with \<open>&mut self\<close> that returns a \<open>Result\<close>, is a function from the session
  to a result and the session it leaves (type \<open>handler\<close>); the result is \<open>Ok\<close>, \<open>Err\<close> or \<open>Panic\<close>.  A
  handler that may never return has an optional result (\<open>may_hang\<close>).  LLDB, its debuggee and the operating
  system are a world of type \<open>'w\<close>, and what is asked of them is a record of functions for each component
  (\<open>lldb\<close>, \<open>bp_api\<close>, \<open>value_api\<close>, \<open>launch_api\<close> and others); the tree of variable references, which is not in the
  repository, is the record \<open>handle_tree\<close>.  What a property relies on of these is a named hypothesis
  (\<open>creates\<close>, \<open>handle_tree_ok\<close>, \<open>stream_ok\<close>, \<open>memory_ok\<close> and others) and its witness discharges it on a concrete
  instance (\<open>Demo_Adapter\<close> and the demo definitions of the theories).

  \<^bold>\<open>Theories.\<close>
  \<^item> \<open>Rust_Prelude\<close>, \<open>Rust_Strings\<close>, \<open>Rust_Paths\<close>: machine integers, results, the monad of the handlers, hash
    maps, slices, strings as UTF-8 bytes, paths.  \<open>Errors\<close>: \<open>error.rs\<close> and the response a result becomes.
    \<open>Adapter_Types\<close>, \<open>Protocol\<close>: \<open>codelldb-types\<close> and \<open>adapter-protocol\<close>, by the fields the code reads.
  \<^item> \<open>Machines\<close>: runs of a state machine, and a locale for their invariants.  \<open>Cancel_Filter\<close>, \<open>Dap_Session\<close>,
    \<open>Event_Listener\<close>: the three tasks around the session, as machines.
  \<^item> \<open>Disassembly\<close> (\<open>disassembly.rs\<close>), \<open>Disassemble\<close> (\<open>debug_session/disassemble.rs\<close>), \<open>Hit_Condition\<close> and
    \<open>Expressions\<close> (\<open>expressions/\<close>): the tables of disassembled ranges, the disassemble request, and the small
    parsers.
  \<^item> \<open>Session_State\<close>: the session's fields, events, path mapping, and what happens before the debuggee resumes.
  \<^item> \<open>Breakpoints\<close>, \<open>Breakpoint_Events\<close> (\<open>breakpoints.rs\<close>); \<open>Variables\<close> (\<open>variables.rs\<close>); \<open>Execution\<close>, \<open>Step_In\<close>
    (run control, \<open>step_in.rs\<close>); \<open>Debug_Events\<close>, \<open>Inspect\<close>, \<open>Data_Access\<close>, \<open>Settings\<close> (the rest of
    \<open>debug_session.rs\<close>); \<open>Launch\<close> (\<open>launch.rs\<close>); \<open>Dispatch\<close>: the dispatch of requests, responses and futures, and
    the main loop as the relation \<open>session_step\<close>.
  \<^item> \<open>Frames\<close>: relations between the session before and after a handler, with a locale whose rules carry them
    through the ways of putting handlers together.  \<open>Steady\<close>: every handler sends events only and keeps the
    session's modes.
  \<^item> \<open>C_Strings\<close> (\<open>lldb/src/strings.rs\<close>), \<open>Bindings\<close> (\<open>lldb/src/sb/\<close>): what crosses the border to C++.
    \<open>Launch_Bindings\<close>: the environment of a launch as the bindings leave it in LLDB, a refinement of \<open>Launch\<close>.
    \<open>Nom_Parsers\<close>, \<open>Qualified_Ident\<close>, \<open>Preprocess\<close>, \<open>Simple_Expressions\<close>: the translation of expressions to
    Python (\<open>expressions/\<close>), as parsers on UTF-8 strings.  \<open>Simple_Syntax\<close> says what simple expressions are, apart
    from the parsers: their syntax, spelling, grouping and Python; \<open>Simple_Reading\<close> relates the parsers to it, and
    \<open>Simple_Correct\<close> has the property and a concrete operator-precedence parser.  \<open>Python_Interface\<close>
    (\<open>python.rs\<close>): Python sessions and the events of scripts.
  \<^item> \<open>Console_Pipe\<close>: the debugger's own output on its way to the client.  \<open>Terminals\<close> (\<open>terminal.rs\<close>,
    \<open>codelldb-launch\<close>, \<open>debugger_terminal.rs\<close>): the handshake of adapter and terminal agent.
    \<open>Session_Start\<close> (\<open>lib.rs\<close>, \<open>DebugSession::run\<close>): the server, and the start and the end of a session.
    \<open>Main_Entry\<close> (\<open>bin/main.rs\<close>): loading LLDB's library.  \<open>Stub_Symbols\<close> (\<open>lldb-stub/build.rs\<close>): which of
    its symbols the adapter can do without.
  \<^item> \<open>Wire\<close> (\<open>adapter-protocol\<close>): messages as JSON, by the \<open>serde\<close> attributes, with the contents of requests, bodies
    and events as parameters.  \<open>Plain_Errors\<close>, \<open>Typed_Responses\<close>: which body answers which request.
    \<open>Pipeline\<close>: client, dispatcher, filter and session composed into one machine.  \<open>Configuration_Waits\<close>: what a
    session does before it is configured.  \<open>Output_Path\<close>: the debuggee's output up to the dispatcher's queue.
  \<^item> \<open>Breakpoint_Tables\<close>, \<open>Breakpoint_Events_Correct\<close>, \<open>Variables_Correct\<close>, \<open>Run_Correct\<close>, \<open>Launch_Correct\<close>,
    \<open>Inspect_Correct\<close>, \<open>Session_Correct\<close>: the properties of the parts, and of the session as a whole.

  \<^bold>\<open>What the lemmas show.\<close>  Breakpoints: the tables and LLDB's breakpoints agree with the last request, and the
  breakpoints that were not kept are new; hits are counted and stop as the hit condition, the condition and the log
  message of the breakpoint say, log messages are rendered, excluded callers never stopped at.  Run control: no reference of a stopped
  state outlives it, stops are reported with their reason, stepping into a function ends once the client
  cancels.  Session: every request is answered once over any interleaving; what must not run changes nothing; before
  \<open>configurationDone\<close> nothing is started; a restart that fails leaves the listener corked until one succeeds; the
  debuggee's output is read completely and put on the outgoing queue as far as there is room; a debuggee is ended
  the way it was started.  Tasks around it: what is cancelled, that
  responses reach their requesters, that outgoing messages are numbered and in order.  Data: windows of
  disassembly and of stacks, memory reads, names and references of variables, round trips of formats, hit
  conditions, line numbers and data breakpoint ids.  Start: the sessions of a server follow each other, each after its authentication.  Terminals: the agent ends well exactly when
  its terminal was used and released.  Expressions: Python is cut into pieces whose translations make up the
  result, and simple expressions become the Python of what their source spells.  Messages: what is
  written is read back, except for some refusals, and a message whose contents are malformed still shows its number.  Scripts: what a script sends reaches its own session, in order.  Composition: a frame of the client is
  answered once, or is accounted for as lost, dropped, or still on its way; the answer has the type of the request.

  \<^bold>\<open>Loops.\<close>  Loops over lists are structural.  The loops that the program does not bound (\<open>step_loop\<close>,
  \<open>drain_loop\<close>) are partial functions with an optional result, and \<open>step_in_ends\<close> and \<open>output_passed_on\<close>
  show when there is one; the disassemble loop takes fuel, and \<open>disassemble_bytes_covers\<close> shows how much is
  enough.  Unchecked arithmetic wraps, as in the release build.  The parsers recurse on what is left of the input, which a guard makes shorter;
  \<open>get_cstring\<close> is a partial function, and \<open>cstring_complete\<close> shows that it returns.  The capacities of
  channels are the code's (1000 outgoing messages, 100 requests, 100 Python events).  The session's own state keeps all
  it has said (\<open>outbox\<close>); what does not fit on the outgoing queue is dropped where the session meets the dispatcher
  (\<open>submit_all\<close> of \<open>Pipeline\<close>).

  \<^bold>\<open>Not modelled.\<close>  Code that is not in the repository (\<open>crate::fsutil\<close>, the handle tree, \<open>dap_codec.rs\<close>,
  \<open>must_initialize\<close>, generated argument types) and third-party code (\<open>tokio\<close>, \<open>nom\<close>, \<open>serde\<close>, \<open>clap\<close>) are
  parameters.  Methods of the bindings that only forward to one C++ function are parameters where they are used.
  \<open>stdio_stream.rs\<close> forwards to \<open>tokio\<close>; \<open>platform::pipe\<close> and the signal handlers call the operating system;
  the schema attributes of \<open>codelldb-types\<close> describe JSON to an editor.  Attaching to a console on Windows is a
  call.  Concurrency is the interleaving of the steps of the main loop and of each task; a panic of a handler
  ends the run that is looked at.
\<close>

end
